(* ===== verification/Prelude.thy ===== *)
theory Prelude
  imports Main "HOL-Library.Word" "HOL-Library.Multiset"
begin

text \<open>
  Shared ground of the development: the parts of Go's language and standard library that the
  modelled packages rely on (fixed-width integers, instants and durations, byte strings,
  \<^verbatim>\<open>strings.TrimSpace\<close>, \<^verbatim>\<open>fmt\<close> decimal verbs, \<^verbatim>\<open>sort.Slice\<close>), results
  of fallible functions, and the list, option and map lemmas the components share.
\<close>

named_theorems frame \<open>fields an operation leaves alone\<close>
named_theorems inv_rules \<open>operations that preserve a component's invariant\<close>

subsection \<open>Integers, instants, durations\<close>

type_synonym u32 = "32 word"
type_synonym u64 = "64 word"

text \<open>A \<^verbatim>\<open>time.Duration\<close> counts nanoseconds in an \<^verbatim>\<open>int64\<close>; a \<^verbatim>\<open>time.Time\<close> is the
  instant it denotes, in nanoseconds relative to the Unix epoch.\<close>

type_synonym duration = int
type_synonym gotime = int

definition wrap64 :: "int \<Rightarrow> int" where
  "wrap64 i = (i + 2 ^ 63) mod 2 ^ 64 - 2 ^ 63"

definition max_duration :: duration where "max_duration = 2 ^ 63 - 1"
definition min_duration :: duration where "min_duration = - (2 ^ 63)"

definition second :: duration where "second = 1000000000"

text \<open>\<^verbatim>\<open>time.Duration(n) * time.Second\<close>, an \<^verbatim>\<open>int64\<close> product.\<close>

definition seconds :: "int \<Rightarrow> duration" where
  "seconds n = wrap64 (n * second)"

text \<open>The zero \<^verbatim>\<open>time.Time\<close> is January 1 of year 1, UTC.\<close>

definition zero_time :: gotime where "zero_time = -62135596800 * 1000000000"

definition time_is_zero :: "gotime \<Rightarrow> bool" where
  "time_is_zero t \<longleftrightarrow> t = zero_time"

text \<open>\<^verbatim>\<open>Time.Sub\<close> saturates at the bounds of \<^verbatim>\<open>int64\<close>.\<close>

definition time_sub :: "gotime \<Rightarrow> gotime \<Rightarrow> duration" where
  "time_sub t u = max min_duration (min max_duration (t - u))"

definition time_unix :: "gotime \<Rightarrow> int" where
  "time_unix t = t div 1000000000"

lemma wrap64_id: "- (2 ^ 63) \<le> i \<Longrightarrow> i < 2 ^ 63 \<Longrightarrow> wrap64 i = i"
  by (simp add: wrap64_def)

lemma wrap64_bounds: "- (2 ^ 63) \<le> wrap64 i" "wrap64 i < 2 ^ 63"
proof -
  have "0 \<le> (i + 2 ^ 63) mod 2 ^ 64" "(i + 2 ^ 63) mod 2 ^ 64 < 2 ^ 64"
    by simp_all
  then show "- (2 ^ 63) \<le> wrap64 i" "wrap64 i < 2 ^ 63"
    unfolding wrap64_def by simp_all
qed

lemma time_sub_nonneg_iff [simp]: "0 \<le> time_sub t u \<longleftrightarrow> u \<le> t"
  by (auto simp: time_sub_def min_duration_def max_duration_def)

lemma time_sub_neg_iff [simp]: "time_sub t u < 0 \<longleftrightarrow> t < u"
  by (auto simp: time_sub_def min_duration_def max_duration_def)

lemma time_sub_le_iff:
  "0 \<le> d \<Longrightarrow> d < max_duration \<Longrightarrow> time_sub t u \<le> d \<longleftrightarrow> t - u \<le> d"
  by (auto simp: time_sub_def min_duration_def max_duration_def)

subsection \<open>Results\<close>

text \<open>A Go function that returns \<^verbatim>\<open>(T, error)\<close> is a sum: \<open>Inl\<close> the error, \<open>Inr\<close> the value.\<close>

definition res_bind :: "'e + 'a \<Rightarrow> ('a \<Rightarrow> 'e + 'b) \<Rightarrow> 'e + 'b" where
  "res_bind r f = (case r of Inl e \<Rightarrow> Inl e | Inr x \<Rightarrow> f x)"

lemma res_bind_simps [simp]:
  "res_bind (Inl e) f = Inl e"
  "res_bind (Inr x) f = f x"
  by (simp_all add: res_bind_def)

lemma res_bind_eq_Inr [simp]:
  "res_bind r f = Inr y \<longleftrightarrow> (\<exists>x. r = Inr x \<and> f x = Inr y)"
  by (cases r) simp_all

lemma res_bind_eq_Inl:
  "res_bind r f = Inl e \<longleftrightarrow> r = Inl e \<or> (\<exists>x. r = Inr x \<and> f x = Inl e)"
  by (cases r) simp_all

text \<open>A loop that passes a state on and stops at the first error.\<close>

fun each :: "('a \<Rightarrow> 's \<Rightarrow> 'e + 's) \<Rightarrow> 'a list \<Rightarrow> 's \<Rightarrow> 'e + 's" where
  "each f [] s = Inr s"
| "each f (x # xs) s = res_bind (f x s) (each f xs)"

lemma each_cong [fundef_cong]:
  "xs = ys \<Longrightarrow> s = t \<Longrightarrow> (\<And>x s. x \<in> set ys \<Longrightarrow> f x s = g x s) \<Longrightarrow> each f xs s = each g ys t"
proof (induction xs arbitrary: ys s t)
  case (Cons x xs)
  then have "f x s = g x s" "each f xs s' = each g xs s'" for s' by auto
  with Cons.prems show ?case by (cases "f x s") auto
qed auto

lemma res_bind_cong: "r = r' \<Longrightarrow> (\<And>x. f x = g x) \<Longrightarrow> res_bind r f = res_bind r' g"
  by (cases r') simp_all

lemma res_bind_assoc: "res_bind (res_bind r f) g = res_bind r (\<lambda>x. res_bind (f x) g)"
  by (cases r) simp_all

lemma each_inv:
  "each f xs s = Inr s' \<Longrightarrow> P s \<Longrightarrow> (\<And>x s s'. P s \<Longrightarrow> f x s = Inr s' \<Longrightarrow> P s') \<Longrightarrow> P s'"
  by (induction xs arbitrary: s) auto

lemma each_append: "each f (xs @ ys) s = res_bind (each f xs s) (each f ys)"
proof (induction xs arbitrary: s)
  case (Cons x xs)
  then show ?case by (cases "f x s") auto
qed simp

lemma each_concat: "each f (concat xss) s = each (each f) xss s"
proof (induction xss arbitrary: s)
  case (Cons xs xss)
  then show ?case by (cases "each f xs s") (auto simp: each_append)
qed simp

lemma each_map: "each f (map h xs) s = each (\<lambda>x. f (h x)) xs s"
proof (induction xs arbitrary: s)
  case (Cons x xs)
  then show ?case by (cases "f (h x) s") auto
qed simp

subsection \<open>Byte strings\<close>

text \<open>
  A Go string is a sequence of bytes, a \<^typ>\<open>string\<close> here. \<^verbatim>\<open>strings.TrimSpace\<close> removes
  leading and trailing white space as Unicode defines it: the ASCII characters tab to carriage
  return and the space, and the code points U+0085, U+00A0, U+1680, U+2000 to U+200A, U+2028,
  U+2029, U+202F, U+205F and U+3000, each given by its UTF-8 bytes. Bytes that are no such
  sequence, well-formed or not, end the trimming.
\<close>

definition space_seqs :: "string list" where
  "space_seqs =
    [[CHR 0x09], [CHR 0x0A], [CHR 0x0B], [CHR 0x0C], [CHR 0x0D], [CHR 0x20],
     [CHR 0xC2, CHR 0x85], [CHR 0xC2, CHR 0xA0], [CHR 0xE1, CHR 0x9A, CHR 0x80],
     [CHR 0xE2, CHR 0x80, CHR 0xA8], [CHR 0xE2, CHR 0x80, CHR 0xA9],
     [CHR 0xE2, CHR 0x80, CHR 0xAF], [CHR 0xE2, CHR 0x81, CHR 0x9F],
     [CHR 0xE3, CHR 0x80, CHR 0x80], [CHR 0xE2, CHR 0x80, CHR 0x80],
     [CHR 0xE2, CHR 0x80, CHR 0x81], [CHR 0xE2, CHR 0x80, CHR 0x82],
     [CHR 0xE2, CHR 0x80, CHR 0x83], [CHR 0xE2, CHR 0x80, CHR 0x84],
     [CHR 0xE2, CHR 0x80, CHR 0x85], [CHR 0xE2, CHR 0x80, CHR 0x86],
     [CHR 0xE2, CHR 0x80, CHR 0x87], [CHR 0xE2, CHR 0x80, CHR 0x88],
     [CHR 0xE2, CHR 0x80, CHR 0x89], [CHR 0xE2, CHR 0x80, CHR 0x8A]]"

definition HasPrefix :: "string \<Rightarrow> string \<Rightarrow> bool" where
  "HasPrefix s p \<longleftrightarrow> take (length p) s = p"

definition strip_one :: "string list \<Rightarrow> string \<Rightarrow> string option" where
  "strip_one seqs s =
     (case filter (\<lambda>p. p \<noteq> [] \<and> HasPrefix s p) seqs of
        [] \<Rightarrow> None
      | p # _ \<Rightarrow> Some (drop (length p) s))"

lemma strip_one_shorter: "strip_one seqs s = Some t \<Longrightarrow> length t < length s"
proof -
  assume "strip_one seqs s = Some t"
  then obtain p ps where p: "filter (\<lambda>p. p \<noteq> [] \<and> HasPrefix s p) seqs = p # ps"
    and t: "t = drop (length p) s"
    by (auto simp: strip_one_def split: list.splits)
  from p have "p \<in> set (filter (\<lambda>p. p \<noteq> [] \<and> HasPrefix s p) seqs)" by simp
  then have "p \<noteq> []" "HasPrefix s p" by auto
  then have "0 < length p" "length p \<le> length s"
    by (auto simp: HasPrefix_def min_def dest: arg_cong [where f = length] split: if_splits)
  with t show ?thesis by (simp del: length_greater_0_conv)
qed

function strip_left :: "string list \<Rightarrow> string \<Rightarrow> string" where
  "strip_left seqs s = (case strip_one seqs s of None \<Rightarrow> s | Some t \<Rightarrow> strip_left seqs t)"
  by pat_completeness auto
termination
  by (relation "measure (\<lambda>(seqs, s). length s)") (auto dest: strip_one_shorter)

declare strip_left.simps [simp del]

definition TrimSpace :: "string \<Rightarrow> string" where
  "TrimSpace s =
     rev (strip_left (map rev space_seqs) (rev (strip_left space_seqs s)))"

lemma strip_left_fixpoint: "strip_one seqs (strip_left seqs s) = None"
proof (induction seqs s rule: strip_left.induct)
  case (1 seqs s)
  then show ?case
    by (cases "strip_one seqs s") (simp_all add: strip_left.simps [of seqs s])
qed

lemma strip_left_Nil [simp]: "strip_left seqs [] = []"
proof -
  have "strip_one seqs [] = None"
    by (simp add: strip_one_def HasPrefix_def list.case_eq_if filter_empty_conv)
  then show ?thesis by (simp add: strip_left.simps [of seqs "[]"])
qed

lemma TrimSpace_Nil [simp]: "TrimSpace [] = []"
  by (simp add: TrimSpace_def)

subsubsection \<open>Decimal output\<close>

fun show_nat :: "nat \<Rightarrow> string" where
  "show_nat n =
     (if n < 10 then [char_of (48 + n)] else show_nat (n div 10) @ [char_of (48 + n mod 10)])"

declare show_nat.simps [simp del]

definition show_int :: "int \<Rightarrow> string" where
  "show_int i = (if i < 0 then ''-'' @ show_nat (nat (- i)) else show_nat (nat i))"

text \<open>The verb \<^verbatim>\<open>%06d\<close> for an unsigned operand.\<close>

definition show_pad6 :: "nat \<Rightarrow> string" where
  "show_pad6 n = (let s = show_nat n in replicate (6 - length s) (CHR ''0'') @ s)"

definition digit_val :: "char \<Rightarrow> nat" where
  "digit_val c = of_char c - 48"

definition read_nat :: "string \<Rightarrow> nat" where
  "read_nat s = foldl (\<lambda>a c. 10 * a + digit_val c) 0 s"

lemma read_nat_snoc: "read_nat (s @ [c]) = 10 * read_nat s + digit_val c"
  by (simp add: read_nat_def)

lemma digit_val_digit: "d < 10 \<Longrightarrow> digit_val (char_of (48 + d)) = d"
  by (simp add: digit_val_def)

lemma read_show_nat [simp]: "read_nat (show_nat n) = n"
proof (induction n rule: show_nat.induct)
  case (1 n)
  show ?case
  proof (cases "n < 10")
    case True
    then show ?thesis
      by (subst show_nat.simps) (simp add: read_nat_def digit_val_digit)
  next
    case False
    then have "read_nat (show_nat n)
      = 10 * read_nat (show_nat (n div 10)) + digit_val (char_of (48 + n mod 10))"
      by (subst show_nat.simps) (simp add: read_nat_snoc)
    also have "\<dots> = 10 * (n div 10) + n mod 10"
      using "1" [OF False] by (simp add: digit_val_digit)
    finally show ?thesis by simp
  qed
qed

lemma show_nat_inject [simp]: "show_nat m = show_nat n \<longleftrightarrow> m = n"
  by (metis read_show_nat)

lemma read_nat_zeros: "read_nat (replicate k (CHR ''0'') @ s) = read_nat s"
proof -
  have "foldl (\<lambda>a c. 10 * a + digit_val c) 0 (replicate k (CHR ''0'')) = 0"
    by (induction k) (simp_all add: digit_val_def)
  then show ?thesis by (simp add: read_nat_def)
qed

lemma show_pad6_inject [simp]: "show_pad6 m = show_pad6 n \<longleftrightarrow> m = n"
  by (metis read_nat_zeros read_show_nat show_pad6_def)

text \<open>Decimal numerals hold digits only, so a separator after them is found unambiguously.\<close>

lemma show_nat_digits: "c \<in> set (show_nat n) \<Longrightarrow> of_char c \<in> {48..57 :: nat}"
proof (induction n arbitrary: c rule: show_nat.induct)
  case (1 n)
  have "n mod 10 < 10" by simp
  with "1" show ?case
    by (subst (asm) (2) show_nat.simps) (auto split: if_splits)
qed

lemma show_int_no_underscore: "CHR ''_'' \<notin> set (show_int i)"
  by (auto simp: show_int_def dest!: show_nat_digits split: if_splits)

subsection \<open>Lists\<close>

text \<open>
  \<^verbatim>\<open>sort.Slice\<close>, \<^verbatim>\<open>sort.SliceStable\<close> and \<^verbatim>\<open>slices.SortFunc\<close> with a strict comparison
  \<open>lt\<close>. Insertion keeps equal elements in order, so this is the stable sort; where the source
  calls the unstable one, its comparison has no ties on the slices it sorts.
\<close>

fun insert_by :: "('a \<Rightarrow> 'a \<Rightarrow> bool) \<Rightarrow> 'a \<Rightarrow> 'a list \<Rightarrow> 'a list" where
  "insert_by lt x [] = [x]"
| "insert_by lt x (y # ys) = (if lt y x then y # insert_by lt x ys else x # y # ys)"

definition sort_by :: "('a \<Rightarrow> 'a \<Rightarrow> bool) \<Rightarrow> 'a list \<Rightarrow> 'a list" where
  "sort_by lt xs = foldr (insert_by lt) xs []"

lemma mset_insert_by [simp]: "mset (insert_by lt x ys) = add_mset x (mset ys)"
  by (induction ys) simp_all

lemma mset_sort_by [simp]: "mset (sort_by lt xs) = mset xs"
  unfolding sort_by_def by (induction xs) simp_all

lemma set_sort_by [simp]: "set (sort_by lt xs) = set xs"
  by (metis mset_sort_by set_mset_mset)

lemma length_sort_by [simp]: "length (sort_by lt xs) = length xs"
  by (metis mset_sort_by size_mset)

lemma set_insert_by [simp]: "set (insert_by lt x ys) = insert x (set ys)"
  by (metis mset_insert_by set_mset_add_mset_insert set_mset_mset)

lemma distinct_sort_by [simp]: "distinct (sort_by lt xs) = distinct xs"
  by (metis mset_eq_imp_distinct_iff mset_sort_by)

lemma sort_by_map_distinct: "distinct (map f (sort_by lt xs)) = distinct (map f xs)"
  by (metis mset_eq_imp_distinct_iff mset_map mset_sort_by)

text \<open>What a comparison has to satisfy for the sort to order: Go's documentation asks for a
  strict weak ordering.\<close>

locale weak_order =
  fixes lt :: "'a \<Rightarrow> 'a \<Rightarrow> bool"
  assumes asym: "lt x y \<Longrightarrow> \<not> lt y x"
    and neg_trans: "\<not> lt y x \<Longrightarrow> \<not> lt z y \<Longrightarrow> \<not> lt z x"
begin

lemma sorted_insert_by:
  "sorted_wrt (\<lambda>a b. \<not> lt b a) ys \<Longrightarrow> sorted_wrt (\<lambda>a b. \<not> lt b a) (insert_by lt x ys)"
proof (induction ys)
  case Nil
  then show ?case by simp
next
  case (Cons y ys)
  then show ?case by (auto dest: asym neg_trans)
qed

lemma sorted_sort_by: "sorted_wrt (\<lambda>a b. \<not> lt b a) (sort_by lt xs)"
  unfolding sort_by_def by (induction xs) (simp_all add: sorted_insert_by)

lemma insert_by_sorted_id:
  "sorted_wrt (\<lambda>a b. \<not> lt b a) (x # ys) \<Longrightarrow> insert_by lt x ys = x # ys"
  by (cases ys) auto

lemma sort_by_sorted_id:
  "sorted_wrt (\<lambda>a b. \<not> lt b a) xs \<Longrightarrow> sort_by lt xs = xs"
  unfolding sort_by_def by (induction xs) (simp_all add: insert_by_sorted_id del: insert_by.simps)

lemma filter_insert_by:
  "sorted_wrt (\<lambda>a b. \<not> lt b a) ys
   \<Longrightarrow> filter P (insert_by lt x ys) = (if P x then insert_by lt x (filter P ys) else filter P ys)"
proof (induction ys)
  case Nil
  then show ?case by simp
next
  case (Cons y ys)
  have "insert_by lt x (filter P (y # ys)) = x # filter P (y # ys)" if "\<not> lt y x"
  proof (rule insert_by_sorted_id)
    have "sorted_wrt (\<lambda>a b. \<not> lt b a) (x # y # ys)" using Cons.prems that by (auto dest: neg_trans)
    then show "sorted_wrt (\<lambda>a b. \<not> lt b a) (x # filter P (y # ys))"
      using sorted_wrt_filter [of _ "y # ys" P] by auto
  qed
  with Cons show ?case by auto
qed

lemma filter_sort_by: "filter P (sort_by lt xs) = sort_by lt (filter P xs)"
proof (induction xs)
  case Nil
  then show ?case by (simp add: sort_by_def)
next
  case (Cons x xs)
  have "filter P (sort_by lt (x # xs)) = filter P (insert_by lt x (sort_by lt xs))" by (simp add: sort_by_def)
  also have "\<dots> = (if P x then insert_by lt x (sort_by lt (filter P xs)) else sort_by lt (filter P xs))"
    by (simp add: filter_insert_by sorted_sort_by Cons)
  finally show ?case by (simp add: sort_by_def)
qed

end

text \<open>A comparison through a key in a linear order is such an ordering.\<close>

lemma weak_order_key: "weak_order (\<lambda>x y. (key x :: 'k::linorder) < key y)"
  by unfold_locales auto

end
