(* ===== verification/Domain.thy ===== *)
theory Domain
  imports Prelude
begin

text \<open>
  \<^verbatim>\<open>internal/domain/dimension.go\<close>: the grid footprint of a widget, its area, the two grids a
  footprint may be meant for, and the conversions from and to integer slices.
\<close>

record Dimension =
  Cols :: int
  Rows :: int

definition NewDimension :: "int \<Rightarrow> int \<Rightarrow> Dimension" where
  "NewDimension cols rows = \<lparr>Cols = cols, Rows = rows\<rparr>"

definition Area :: "Dimension \<Rightarrow> int" where
  "Area d = Cols d * Rows d"

definition IsValidForGrid :: "Dimension \<Rightarrow> int \<Rightarrow> int \<Rightarrow> bool" where
  "IsValidForGrid d gridCols gridRows \<longleftrightarrow>
     Cols d \<ge> 1 \<and> Cols d \<le> gridCols \<and> Rows d \<ge> 1 \<and> Rows d \<le> gridRows"

definition IsValid :: "Dimension \<Rightarrow> bool" where
  "IsValid d \<longleftrightarrow> IsValidForGrid d 6 2 \<or> IsValidForGrid d 3 6"

datatype dimension_error =
    DimensionSliceLength nat
  | DimensionOutOfBounds int int

definition DimensionFromSlice :: "int list \<Rightarrow> dimension_error + Dimension" where
  "DimensionFromSlice s =
     (if length s \<noteq> 2 then Inl (DimensionSliceLength (length s))
      else let d = \<lparr>Cols = s ! 0, Rows = s ! 1\<rparr> in
        if \<not> IsValid d then Inl (DimensionOutOfBounds (Cols d) (Rows d)) else Inr d)"

definition Slice :: "Dimension \<Rightarrow> int list" where
  "Slice d = [Cols d, Rows d]"

definition String :: "Dimension \<Rightarrow> string" where
  "String d = ''['' @ show_int (Cols d) @ '', '' @ show_int (Rows d) @ '']''"

lemma Area_pos: "IsValidForGrid d gc gr \<Longrightarrow> 0 < Area d"
  by (auto simp: IsValidForGrid_def Area_def)

lemma DimensionFromSlice_Slice: "IsValid d \<Longrightarrow> DimensionFromSlice (Slice d) = Inr d"
  by (cases d) (simp add: DimensionFromSlice_def Slice_def)

lemma DimensionFromSlice_Inr:
  "DimensionFromSlice s = Inr d \<longleftrightarrow> s = Slice d \<and> IsValid d"
proof
  assume "DimensionFromSlice s = Inr d"
  then have "length s = 2" "d = \<lparr>Cols = s ! 0, Rows = s ! 1\<rparr>" "IsValid d"
    by (auto simp: DimensionFromSlice_def Let_def split: if_splits)
  then show "s = Slice d \<and> IsValid d"
    by (auto simp: Slice_def numeral_2_eq_2 length_Suc_conv)
qed (simp add: DimensionFromSlice_Slice)

end
