(* ===== verification/Grid.thy ===== *)
theory Grid
  imports Domain
begin

text \<open>
  The bit-mask arithmetic of \<^verbatim>\<open>internal/layout/solver.go\<close>: the footprint of a widget on a
  screen as a \<^verbatim>\<open>uint32\<close>, cell \<open>col + row * gridCols\<close> being bit \<open>col + row * gridCols\<close>, the
  full mask, the search for the first empty cell. Each is related to sets of cells, which is how
  the solver theories reason about overlap and coverage.
\<close>

unbundle bit_operations_syntax

definition GridColumns :: int where "GridColumns = 6"
definition GridRows :: int where "GridRows = 2"
definition GridTotalCells :: int where "GridTotalCells = GridColumns * GridRows"

definition fullGridMask :: "int \<Rightarrow> int \<Rightarrow> u32" where
  "fullGridMask gridCols gridRows = push_bit (nat (gridCols * gridRows)) 1 - 1"

definition ComputeWidgetBitmask :: "int \<Rightarrow> int \<Rightarrow> int \<Rightarrow> int \<Rightarrow> u32" where
  "ComputeWidgetBitmask cols rows originCol originRow =
     (let rowMask = push_bit (nat originCol) (push_bit (nat cols) 1 - 1) in
      if rows = 1 then push_bit (nat (originRow * GridColumns)) rowMask
      else rowMask OR push_bit (nat GridColumns) rowMask)"

definition ComputeWidgetBitmaskForGrid :: "int \<Rightarrow> int \<Rightarrow> int \<Rightarrow> int \<Rightarrow> int \<Rightarrow> u32" where
  "ComputeWidgetBitmaskForGrid cols rows originCol originRow gridCols =
     (if gridCols = GridColumns \<and> rows \<le> 2
      then ComputeWidgetBitmask cols rows originCol originRow
      else let rowMask = push_bit (nat originCol) (push_bit (nat cols) 1 - 1) in
        foldl (\<lambda>mask r. mask OR push_bit (nat ((originRow + int r) * gridCols)) rowMask)
          0 [0..<nat rows])"

definition NormalizeGrid :: "int \<Rightarrow> int \<Rightarrow> int \<times> int" where
  "NormalizeGrid gridCols gridRows =
     (if gridCols = 3 \<and> gridRows = 6 then (3, 6)
      else if gridCols = 2 \<and> gridRows = 6 then (2, 6)
      else (GridColumns, GridRows))"

text \<open>\<^verbatim>\<open>bits.TrailingZeros32\<close>: the position of the lowest set bit, 32 for zero.\<close>

definition TrailingZeros32 :: "u32 \<Rightarrow> nat" where
  "TrailingZeros32 w = (case filter (bit w) [0..<32] of [] \<Rightarrow> 32 | n # _ \<Rightarrow> n)"

subsection \<open>Masks as sets of cells\<close>

definition cells_of :: "u32 \<Rightarrow> nat set" where
  "cells_of m = {n. bit m n}"

text \<open>The cells a footprint covers, read off the grid without any bit arithmetic.\<close>

definition footprint :: "int \<Rightarrow> int \<Rightarrow> int \<Rightarrow> int \<Rightarrow> int \<Rightarrow> nat set" where
  "footprint gc w h c r =
     {n. r \<le> int n div gc \<and> int n div gc < r + h \<and> c \<le> int n mod gc \<and> int n mod gc < c + w}"

definition grid_cells :: "int \<Rightarrow> int \<Rightarrow> nat set" where
  "grid_cells gc gr = {n. int n < gc * gr}"

text \<open>A placement lies on the grid, and the grid is one of the shapes the solver supports.\<close>

definition on_grid :: "int \<Rightarrow> int \<Rightarrow> Dimension \<Rightarrow> int \<Rightarrow> int \<Rightarrow> bool" where
  "on_grid gc gr d c r \<longleftrightarrow>
     IsValidForGrid d gc gr \<and> 0 \<le> c \<and> c + Cols d \<le> gc \<and> 0 \<le> r \<and> r + Rows d \<le> gr"

definition supported_grid :: "int \<Rightarrow> int \<Rightarrow> bool" where
  "supported_grid gc gr \<longleftrightarrow> (gc, gr) \<in> {(6, 2), (3, 6), (2, 6)}"

lemma NormalizeGrid_supported: "NormalizeGrid a b = (gc, gr) \<Longrightarrow> supported_grid gc gr"
  by (auto simp: NormalizeGrid_def supported_grid_def GridColumns_def GridRows_def split: if_splits)

lemma supported_grid_bounds:
  "supported_grid gc gr \<Longrightarrow> 0 < gc \<and> 0 < gr \<and> gc * gr \<le> 18"
  by (auto simp: supported_grid_def)

lemma cells_of_0 [simp]: "cells_of 0 = {}"
  by (simp add: cells_of_def)

lemma cells_of_OR [simp]: "cells_of (a OR b) = cells_of a \<union> cells_of b"
  by (auto simp: cells_of_def bit_simps)

lemma cells_of_and_not [simp]: "cells_of (a AND NOT b) = cells_of a - cells_of b"
  by (auto simp: cells_of_def bit_simps dest: bit_imp_le_length)

lemma cells_of_AND: "cells_of (a AND b) = cells_of a \<inter> cells_of b"
  by (auto simp: cells_of_def bit_simps)

lemma cells_of_inject: "cells_of a = cells_of b \<longleftrightarrow> a = b"
  by (auto simp: cells_of_def set_eq_iff intro: bit_eqI)

lemma cells_of_lt: "n \<in> cells_of m \<Longrightarrow> n < 32"
  by (auto simp: cells_of_def dest: bit_imp_le_length)

lemma finite_cells_of [simp]: "finite (cells_of m)"
  by (rule finite_subset [of _ "{..<32}"]) (auto dest: cells_of_lt)

lemma and_eq_0_iff: "a AND b = (0 :: u32) \<longleftrightarrow> cells_of a \<inter> cells_of b = {}"
  by (simp flip: cells_of_inject add: cells_of_AND)

lemma bit_row_mask:
  "bit (push_bit c (push_bit w 1 - 1) :: u32) n \<longleftrightarrow> n < 32 \<and> c \<le> n \<and> n < c + w"
proof -
  have "push_bit w 1 - 1 = (mask w :: u32)"
    by (simp add: mask_eq_exp_minus_1 push_bit_eq_mult)
  then show ?thesis by (auto simp: bit_simps)
qed

lemma bit_row_mask':
  "bit (push_bit c (2 ^ w - 1) :: u32) n \<longleftrightarrow> n < 32 \<and> c \<le> n \<and> n < c + w"
  using bit_row_mask [of c w n] by simp

lemma cells_of_fullGridMask:
  "supported_grid gc gr \<Longrightarrow> cells_of (fullGridMask gc gr) = grid_cells gc gr"
proof -
  assume "supported_grid gc gr"
  then have "0 < gc * gr" "gc * gr \<le> 18"
    using supported_grid_bounds by (auto simp: zero_less_mult_iff)
  then have "n < 32 \<and> n < nat (gc * gr) \<longleftrightarrow> int n < gc * gr" for n by linarith
  then show ?thesis
    using bit_row_mask [of 0 "nat (gc * gr)"]
    by (simp add: cells_of_def fullGridMask_def grid_cells_def)
qed

lemma bit_foldl_or:
  "bit (foldl (\<lambda>m r. m OR f r) a rs :: u32) n \<longleftrightarrow> bit a n \<or> (\<exists>r\<in>set rs. bit (f r) n)"
  by (induction rs arbitrary: a) (auto simp: bit_simps)

lemma row_lt_imp_cell_lt: "0 < gc \<Longrightarrow> n div gc < gr \<Longrightarrow> n < gc * (gr::int)"
proof -
  assume "0 < gc" "n div gc < gr"
  then have "gc * (n div gc) \<le> gc * (gr - 1)" by (intro mult_left_mono) auto
  moreover have "n = gc * (n div gc) + n mod gc" "n mod gc < gc" using \<open>0 < gc\<close> by simp_all
  ultimately show "n < gc * gr" unfolding right_diff_distrib by linarith
qed

text \<open>A run of consecutive cells starting in column \<open>c\<close> of row \<open>q\<close> stays in that row.\<close>

lemma row_run_iff:
  assumes "0 \<le> c" "0 < w" "c + w \<le> gc" "0 \<le> q"
  shows "q * gc + c \<le> n \<and> n < q * gc + c + w \<longleftrightarrow> n div gc = q \<and> c \<le> n mod gc \<and> n mod gc < c + (w::int)"
proof
  assume a: "q * gc + c \<le> n \<and> n < q * gc + c + w"
  define k where "k = n - q * gc"
  have n: "n = k + q * gc" and k: "0 \<le> k" "k < gc" using a assms by (auto simp: k_def)
  then have "n div gc = q" "n mod gc = k" by simp_all
  with a n show "n div gc = q \<and> c \<le> n mod gc \<and> n mod gc < c + w" by auto
next
  assume "n div gc = q \<and> c \<le> n mod gc \<and> n mod gc < c + w"
  moreover have "n = n div gc * gc + n mod gc" by simp
  ultimately show "q * gc + c \<le> n \<and> n < q * gc + c + w" by auto
qed

text \<open>The solver's masks are exactly the footprints, for every placement on a supported grid.\<close>

lemma cells_of_general_mask:
  assumes og: "on_grid gc gr d c r" and sg: "supported_grid gc gr"
  shows "{n. n < 32 \<and> (\<exists>i < nat (Rows d). bit (push_bit (nat ((r + int i) * gc))
            (push_bit (nat c) (push_bit (nat (Cols d)) 1 - 1)) :: u32) n)}
     = footprint gc (Cols d) (Rows d) c r"
proof (rule set_eqI)
  fix n
  have b: "0 \<le> c" "0 < Cols d" "c + Cols d \<le> gc" "0 \<le> r" "r + Rows d \<le> gr" "0 < gc" "0 < Rows d"
    and g18: "gc * gr \<le> 18"
    using og supported_grid_bounds [OF sg] by (auto simp: on_grid_def IsValidForGrid_def)
  have run: "bit (push_bit (nat ((r + int i) * gc)) (push_bit (nat c)
       (push_bit (nat (Cols d)) 1 - 1)) :: u32) n
     \<longleftrightarrow> n < 32 \<and> int n div gc = r + int i \<and> c \<le> int n mod gc \<and> int n mod gc < c + Cols d" for i
  proof -
    have q: "int (nat ((r + int i) * gc)) = (r + int i) * gc" "int (nat c) = c"
      "int (nat (Cols d)) = Cols d" using b by simp_all
    have "bit (push_bit (nat ((r + int i) * gc)) (push_bit (nat c)
       (push_bit (nat (Cols d)) 1 - 1)) :: u32) n
      \<longleftrightarrow> n < 32 \<and> nat ((r + int i) * gc) + nat c \<le> n
        \<and> n < nat ((r + int i) * gc) + nat c + nat (Cols d)"
      by (simp add: bit_row_mask')
    also have "\<dots> \<longleftrightarrow> n < 32 \<and> (r + int i) * gc + c \<le> int n \<and> int n < (r + int i) * gc + c + Cols d"
      using q by linarith
    finally have "bit (push_bit (nat ((r + int i) * gc)) (push_bit (nat c)
       (push_bit (nat (Cols d)) 1 - 1)) :: u32) n
      \<longleftrightarrow> n < 32 \<and> (r + int i) * gc + c \<le> int n \<and> int n < (r + int i) * gc + c + Cols d" .
    then show ?thesis
      using row_run_iff [of c "Cols d" gc "r + int i" "int n"] b by auto
  qed
  have small: "n \<in> footprint gc (Cols d) (Rows d) c r \<Longrightarrow> n < 32"
  proof -
    assume "n \<in> footprint gc (Cols d) (Rows d) c r"
    then have "int n div gc < gr" using b by (auto simp: footprint_def)
    then have "int n < gc * gr" using b by (intro row_lt_imp_cell_lt)
    then show ?thesis using g18 by linarith
  qed
  have row: "(\<exists>i < nat (Rows d). int n div gc = r + int i) \<longleftrightarrow> r \<le> int n div gc \<and> int n div gc < r + Rows d"
    using b by (auto simp: intro!: exI [of _ "nat (int n div gc - r)"])
  show "n \<in> {n. n < 32 \<and> (\<exists>i < nat (Rows d). bit (push_bit (nat ((r + int i) * gc))
            (push_bit (nat c) (push_bit (nat (Cols d)) 1 - 1)) :: u32) n)}
     \<longleftrightarrow> n \<in> footprint gc (Cols d) (Rows d) c r"
    unfolding mem_Collect_eq run using row small by (auto simp: footprint_def)
qed

lemma cells_of_widget_mask:
  assumes og: "on_grid gc gr d c r" and sg: "supported_grid gc gr"
  shows "cells_of (ComputeWidgetBitmaskForGrid (Cols d) (Rows d) c r gc)
     = footprint gc (Cols d) (Rows d) c r"
proof -
  let ?row = "push_bit (nat c) (push_bit (nat (Cols d)) 1 - 1) :: u32"
  have "bit (ComputeWidgetBitmaskForGrid (Cols d) (Rows d) c r gc) n
     \<longleftrightarrow> (\<exists>i < nat (Rows d). bit (push_bit (nat ((r + int i) * gc)) ?row) n)" for n
  proof (cases "gc = 6 \<and> Rows d \<le> 2")
    case True
    with og sg have "Rows d = 1 \<or> Rows d = 2 \<and> r = 0"
      by (auto simp: on_grid_def IsValidForGrid_def supported_grid_def)
    moreover have two: "(\<exists>i < nat 2. P i) \<longleftrightarrow> P 0 \<or> P (Suc 0)" for P :: "nat \<Rightarrow> bool"
      by (auto simp: less_2_cases_iff)
    ultimately show ?thesis
    proof (elim disjE conjE)
      assume "Rows d = 1"
      with True show ?thesis
        by (simp add: ComputeWidgetBitmaskForGrid_def ComputeWidgetBitmask_def GridColumns_def)
    next
      assume "Rows d = 2" "r = 0"
      with True show ?thesis unfolding \<open>Rows d = 2\<close> two
        by (simp add: ComputeWidgetBitmaskForGrid_def ComputeWidgetBitmask_def GridColumns_def
            bit_or_iff)
    qed
  next
    case False
    then show ?thesis
      by (auto simp: ComputeWidgetBitmaskForGrid_def GridColumns_def bit_foldl_or Let_def)
  qed
  then have "cells_of (ComputeWidgetBitmaskForGrid (Cols d) (Rows d) c r gc)
     = {n. n < 32 \<and> (\<exists>i < nat (Rows d). bit (push_bit (nat ((r + int i) * gc)) ?row) n)}"
    by (auto simp: cells_of_def dest: bit_imp_le_length)
  with cells_of_general_mask [OF og sg] show ?thesis by simp
qed

lemma footprint_subset_grid:
  assumes "on_grid gc gr d c r" "supported_grid gc gr"
  shows "footprint gc (Cols d) (Rows d) c r \<subseteq> grid_cells gc gr"
proof
  fix n assume n: "n \<in> footprint gc (Cols d) (Rows d) c r"
  have b: "0 < gc" "r + Rows d \<le> gr"
    using assms supported_grid_bounds by (auto simp: on_grid_def)
  have "int n div gc < gr" using n b by (auto simp: footprint_def)
  then have "int n < gc * gr" using b by (intro row_lt_imp_cell_lt)
  then show "n \<in> grid_cells gc gr" by (simp add: grid_cells_def)
qed

lemma card_footprint:
  assumes "on_grid gc gr d c r"
  shows "int (card (footprint gc (Cols d) (Rows d) c r)) = Area d"
proof -
  have b: "0 \<le> c" "0 < Cols d" "c + Cols d \<le> gc" "0 \<le> r" "0 < Rows d"
    using assms by (auto simp: on_grid_def IsValidForGrid_def)
  let ?f = "\<lambda>(i, j). nat (i * gc + j)"
  let ?R = "{r..<r + Rows d} \<times> {c..<c + Cols d}"
  have dm: "(i * gc + j) div gc = i" "(i * gc + j) mod gc = j" if "(i, j) \<in> ?R" for i j
    using that b by auto
  have inj: "inj_on ?f ?R"
  proof (rule inj_onI, clarify)
    fix i j i' j' assume ij: "i \<in> {r..<r + Rows d}" "j \<in> {c..<c + Cols d}"
      and ij': "i' \<in> {r..<r + Rows d}" "j' \<in> {c..<c + Cols d}"
      and eq: "nat (i * gc + j) = nat (i' * gc + j')"
    have "0 \<le> i * gc + j" "0 \<le> i' * gc + j'" using ij ij' b by simp_all
    with eq have "i * gc + j = i' * gc + j'" by (simp only: eq_nat_nat_iff)
    moreover have "(i, j) \<in> ?R" "(i', j') \<in> ?R" using ij ij' by simp_all
    ultimately show "i = i' \<and> j = j'" by (metis dm)
  qed
  have "footprint gc (Cols d) (Rows d) c r = ?f ` ?R"
  proof (rule set_eqI, rule iffI)
    fix n assume "n \<in> footprint gc (Cols d) (Rows d) c r"
    then have "(int n div gc, int n mod gc) \<in> ?R" by (simp add: footprint_def)
    moreover have "n = ?f (int n div gc, int n mod gc)" by simp
    ultimately show "n \<in> ?f ` ?R" by blast
  next
    fix n assume "n \<in> ?f ` ?R"
    then obtain i j where ij: "(i, j) \<in> ?R" "n = nat (i * gc + j)" by auto
    then have "int n = i * gc + j" using b by auto
    then show "n \<in> footprint gc (Cols d) (Rows d) c r"
      using dm [OF ij(1)] ij(1) by (auto simp: footprint_def)
  qed
  then have "card (footprint gc (Cols d) (Rows d) c r) = card ?R"
    using inj by (simp add: card_image)
  then show ?thesis using b by (simp add: Area_def mult.commute)
qed

lemma card_grid_cells: "0 \<le> gc * gr \<Longrightarrow> int (card (grid_cells gc gr)) = gc * gr"
proof -
  assume "0 \<le> gc * gr"
  then have "grid_cells gc gr = {..<nat (gc * gr)}" by (auto simp: grid_cells_def)
  then show ?thesis using \<open>0 \<le> gc * gr\<close> by simp
qed

lemma finite_grid_cells [simp]: "finite (grid_cells gc gr)"
proof -
  have "grid_cells gc gr \<subseteq> {..<nat (gc * gr)}" by (auto simp: grid_cells_def)
  then show ?thesis by (rule finite_subset) simp
qed

text \<open>The first empty cell.\<close>

lemma TrailingZeros32_least:
  assumes "n < 32" "bit w n"
  shows "bit w (TrailingZeros32 w)" "TrailingZeros32 w \<le> n"
    "\<And>k. k < TrailingZeros32 w \<Longrightarrow> \<not> bit w k"
proof -
  have ne: "filter (bit w) [0..<32] \<noteq> []" using assms by (auto simp: filter_empty_conv)
  then obtain m ms where f: "filter (bit w) [0..<32] = m # ms" by (cases "filter (bit w) [0..<32]") auto
  have tz: "TrailingZeros32 w = m" by (simp add: TrailingZeros32_def f)
  have "sorted (m # ms)" unfolding f [symmetric] by (rule sorted_wrt_filter) simp
  moreover have "set (m # ms) = {k. k < 32 \<and> bit w k}" unfolding f [symmetric] by auto
  ultimately have "bit w m" "m \<le> n" "\<And>k. k < m \<Longrightarrow> k < 32 \<Longrightarrow> \<not> bit w k" "m < 32"
    using assms by (auto simp: set_eq_iff) (metis leD order_less_imp_le)+
  then show "bit w (TrailingZeros32 w)" "TrailingZeros32 w \<le> n"
    "\<And>k. k < TrailingZeros32 w \<Longrightarrow> \<not> bit w k"
    unfolding tz by auto
qed

lemma first_empty_cell:
  assumes "cells_of m \<subset> grid_cells gc gr" "supported_grid gc gr"
  shows "TrailingZeros32 (NOT m) \<in> grid_cells gc gr - cells_of m"
    "\<And>k. k < TrailingZeros32 (NOT m) \<Longrightarrow> k \<in> cells_of m"
proof -
  obtain n where n: "n \<in> grid_cells gc gr" "n \<notin> cells_of m" using assms(1) by auto
  have "n < 32" using n(1) supported_grid_bounds [OF assms(2)] by (auto simp: grid_cells_def)
  then have b: "bit (NOT m) n" using n(2) by (simp add: bit_not_iff cells_of_def)
  note tz = TrailingZeros32_least [OF \<open>n < 32\<close> b]
  show "TrailingZeros32 (NOT m) \<in> grid_cells gc gr - cells_of m"
    using tz(1,2) n(1) by (auto simp: cells_of_def bit_not_iff grid_cells_def)
  show "k \<in> cells_of m" if "k < TrailingZeros32 (NOT m)" for k
    using tz(3) [OF that] tz(2) that \<open>n < 32\<close> by (auto simp: cells_of_def bit_not_iff)
qed

end
