(* ===== verification/Layout_Model.thy ===== *)
theory Layout_Model
  imports Grid
begin

text \<open>
  The data and the search of \<^verbatim>\<open>internal/layout/solver.go\<close>: validation and partition of the
  declared widgets, the number of rotation screens and the cell deficit with its guidance message,
  grouping by shape, the two-phase backtracking search over \<^verbatim>\<open>gridSolver\<close>, and the assembly
  of the solved layout. The mutable solver is a record passed from call to call; a failed branch
  returns the state it leaves behind, as the Go method does.
\<close>

subsection \<open>Data\<close>

record WidgetInput =
  wi_ID :: string
  wi_Type :: string
  wi_Dimensions :: Dimension
  wi_Pinned :: bool

record PlacedWidget =
  pw_WidgetID :: string
  pw_Type :: string
  pw_Origin :: "int \<times> int"
  pw_Dimensions :: Dimension
  pw_Pinned :: bool

record Screen =
  sc_Index :: nat
  sc_Bitmask :: u32
  sc_Widgets :: "PlacedWidget list"

record Layout =
  TotalScreens :: int
  Screens :: "Screen list"

definition Col :: "PlacedWidget \<Rightarrow> int" where "Col pw = fst (pw_Origin pw)"
definition Row :: "PlacedWidget \<Rightarrow> int" where "Row pw = snd (pw_Origin pw)"

datatype layout_error =
    NegativeArea int int
  | PinnedExceedsScreen int int
  | PinnedFillsScreen int int
  | DeficitError string
  | EmptyWidgetID nat
  | DuplicateWidgetID string nat nat
  | InvalidDimensions string int int int int
  | WidgetOutOfBounds string int int int int int int
  | InvalidScreen string int
  | WidgetOverlap nat int int
  | CannotTile int int
  | OutOfFuel

subsection \<open>Screens, deficit and guidance\<close>

definition ComputeScreensForGrid :: "int \<Rightarrow> int \<Rightarrow> int \<Rightarrow> layout_error + (int \<times> int)" where
  "ComputeScreensForGrid pinnedArea unpinnedArea totalCells =
     (if pinnedArea < 0 \<or> unpinnedArea < 0 then Inl (NegativeArea pinnedArea unpinnedArea)
      else if pinnedArea > totalCells then Inl (PinnedExceedsScreen pinnedArea totalCells)
      else if pinnedArea = totalCells then
        (if unpinnedArea > 0 then Inl (PinnedFillsScreen totalCells unpinnedArea) else Inr (1, 0))
      else let capacityPerScreen = totalCells - pinnedArea in
        if unpinnedArea = 0 then Inr (1, capacityPerScreen)
        else let k = (unpinnedArea + capacityPerScreen - 1) div capacityPerScreen in
          Inr (k, k * capacityPerScreen - unpinnedArea))"

definition ComputeScreens :: "int \<Rightarrow> int \<Rightarrow> layout_error + (int \<times> int)" where
  "ComputeScreens pinnedArea unpinnedArea =
     ComputeScreensForGrid pinnedArea unpinnedArea GridTotalCells"

definition nl :: string where "nl = [CHR 0x0A]"
definition dq :: string where "dq = [CHR 0x22]"

definition spacer_shape :: "int \<Rightarrow> int \<times> int" where
  "spacer_shape deficit =
     (if deficit \<in> {1, 2, 3} then (deficit, 1)
      else if deficit \<in> {4, 10} then (2, 2)
      else if deficit = 6 then (3, 2)
      else if deficit = 8 then (4, 2)
      else if deficit = 12 then (6, 2)
      else if deficit = 18 then (6, 3)
      else if deficit \<le> 6 then (deficit, 1) else (2, 1))"

definition recommendedSpacerDimensions :: "int \<Rightarrow> bool \<Rightarrow> int \<times> int" where
  "recommendedSpacerDimensions deficit portrait =
     (let dim = spacer_shape deficit in if portrait then (snd dim, fst dim) else dim)"

text \<open>The greedy loops of \<^verbatim>\<open>decomposeDeficit\<close>: for every option, largest area first, as many
  copies as still fit. The result is the list of suggested shapes with their areas.\<close>

definition deficit_options :: "((int \<times> int) \<times> int) list" where
  "deficit_options = [((4, 2), 8), ((3, 2), 6), ((2, 2), 4), ((3, 1), 3), ((2, 1), 2), ((1, 1), 1)]"

function take_option :: "int \<times> int \<Rightarrow> int \<Rightarrow> int \<Rightarrow> ((int \<times> int) \<times> int) list \<times> int" where
  "take_option dim area deficit =
     (if deficit \<ge> area \<and> area > 0
      then (let (ps, rest) = take_option dim area (deficit - area) in ((dim, area) # ps, rest))
      else ([], deficit))"
  by pat_completeness auto
termination
  by (relation "measure (\<lambda>(dim, area, deficit). nat deficit)") auto

declare take_option.simps [simp del]

fun take_options ::
    "bool \<Rightarrow> ((int \<times> int) \<times> int) list \<Rightarrow> int \<Rightarrow> ((int \<times> int) \<times> int) list" where
  "take_options portrait [] deficit = []"
| "take_options portrait (((a, b), area) # opts) deficit =
     (let (ps, rest) = take_option (if portrait then (b, a) else (a, b)) area deficit
      in ps @ take_options portrait opts rest)"

definition show_part :: "(int \<times> int) \<times> int \<Rightarrow> string" where
  "show_part p = ''a ['' @ show_int (fst (fst p)) @ '', '' @ show_int (snd (fst p))
     @ ''] widget ('' @ show_int (snd p) @ '' cells)''"

fun join :: "string list \<Rightarrow> string \<Rightarrow> string" where
  "join [] sep = []"
| "join [x] sep = x"
| "join (x # xs) sep = x @ sep @ join xs sep"

definition decomposeDeficit :: "int \<Rightarrow> bool \<Rightarrow> string" where
  "decomposeDeficit deficit portrait =
     (if deficit = 18 \<and> portrait then ''Add a [3, 6] widget (18 cells).''
      else if deficit = 12 then
        (if portrait then ''Add a [2, 6] widget (12 cells).'' else ''Add a [6, 2] widget (12 cells).'')
      else let parts = map show_part (take_options portrait deficit_options deficit) in
        (case parts of
           [] \<Rightarrow> []
         | [p] \<Rightarrow> ''Add '' @ p @ ''.''
         | [p, q] \<Rightarrow> ''Add '' @ p @ '' and '' @ q @ ''.''
         | _ \<Rightarrow> ''Add '' @ join (butlast parts) '', '' @ '', and '' @ last parts @ ''.''))"

definition buildSuggestions :: "int \<Rightarrow> bool \<Rightarrow> string list" where
  "buildSuggestions deficit portrait =
     (let sp = recommendedSpacerDimensions deficit portrait;
          expandHint = (if portrait then ''Or expand existing [1, 2] widgets to [2, 3] / [2, 4].''
                        else ''Or expand existing [2, 1] widgets to [3, 2] / [4, 2].'');
          sugs = [expandHint,
            ''Or insert native spacer tiles (e.g. { type: '' @ dq @ ''spacer'' @ dq @ '', dimensions: [''
            @ show_int (fst sp) @ '', '' @ show_int (snd sp)
            @ ''] }) to intentionally leave layout space open.''];
          add = decomposeDeficit deficit portrait
      in if add \<noteq> [] then add # sugs else sugs)"

text \<open>\<^verbatim>\<open>strings.TrimRight(s, "\n")\<close>.\<close>

definition trim_newlines :: "string \<Rightarrow> string" where
  "trim_newlines s = rev (dropWhile (\<lambda>c. c = CHR 0x0A) (rev s))"

definition formatGridDeficitError :: "int \<Rightarrow> int \<Rightarrow> int \<Rightarrow> int \<Rightarrow> int \<Rightarrow> layout_error" where
  "formatGridDeficitError totalArea targetScreens deficit gridCols gridRows =
     (let totalCells = gridCols * gridRows;
          portrait = ((gridCols = 2 \<or> gridCols = 3) \<and> gridRows = 6)
      in DeficitError (trim_newlines (
          ''[Mirrormere Config Error] Invalid widget layout configuration:'' @ nl
        @ ''  Total widget area is '' @ show_int totalArea @ '' cells.'' @ nl
        @ ''  A '' @ show_int gridCols @ ''x'' @ show_int gridRows
        @ '' grid requires screen areas in multiples of '' @ show_int totalCells
        @ '' (Target: '' @ show_int targetScreens @ '' screens = ''
        @ show_int (targetScreens * totalCells) @ '' cells).'' @ nl
        @ ''  Deficit: '' @ show_int deficit
        @ '' cells needed to achieve 100% fully-filled screens.'' @ nl
        @ ''  Suggestions:'' @ nl
        @ concat (map (\<lambda>s. ''    - '' @ s @ nl) (buildSuggestions deficit portrait)))))"

definition FormatDeficitError :: "int \<Rightarrow> int \<Rightarrow> int \<Rightarrow> layout_error" where
  "FormatDeficitError totalArea targetScreens deficit =
     formatGridDeficitError totalArea targetScreens deficit GridColumns GridRows"

definition formatDeficitErrorForGrid :: "int \<Rightarrow> int \<Rightarrow> int \<Rightarrow> int \<Rightarrow> int \<Rightarrow> layout_error" where
  "formatDeficitErrorForGrid totalArea targetScreens deficit gridCols gridRows =
     (if gridCols = GridColumns \<and> gridRows = GridRows
      then FormatDeficitError totalArea targetScreens deficit
      else formatGridDeficitError totalArea targetScreens deficit gridCols gridRows)"

subsection \<open>Validation and partition\<close>

record partition =
  pt_pinned :: "WidgetInput list"
  pt_unpinned :: "WidgetInput list"
  pt_pinnedArea :: int
  pt_unpinnedArea :: int

fun partition_loop ::
    "int \<Rightarrow> int \<Rightarrow> nat \<Rightarrow> WidgetInput list \<Rightarrow> (string \<rightharpoonup> nat) \<Rightarrow> partition
     \<Rightarrow> layout_error + partition" where
  "partition_loop gridCols gridRows i [] seen acc = Inr acc"
| "partition_loop gridCols gridRows i (w # ws) seen acc =
     (let trimmedID = TrimSpace (wi_ID w) in
      if trimmedID = [] then Inl (EmptyWidgetID i)
      else case seen trimmedID of
        Some prevIdx \<Rightarrow> Inl (DuplicateWidgetID trimmedID prevIdx i)
      | None \<Rightarrow>
        if \<not> IsValidForGrid (wi_Dimensions w) gridCols gridRows
        then Inl (InvalidDimensions (wi_ID w) (Cols (wi_Dimensions w)) (Rows (wi_Dimensions w))
               gridCols gridRows)
        else let area = Area (wi_Dimensions w) in
          partition_loop gridCols gridRows (Suc i) ws (seen(trimmedID \<mapsto> i))
            (if wi_Pinned w
             then acc\<lparr>pt_pinned := pt_pinned acc @ [w], pt_pinnedArea := pt_pinnedArea acc + area\<rparr>
             else acc\<lparr>pt_unpinned := pt_unpinned acc @ [w],
                      pt_unpinnedArea := pt_unpinnedArea acc + area\<rparr>))"

definition partitionAndValidateWidgets ::
    "WidgetInput list \<Rightarrow> int \<Rightarrow> int
     \<Rightarrow> layout_error + (WidgetInput list \<times> WidgetInput list \<times> int)" where
  "partitionAndValidateWidgets widgets gridCols gridRows =
     (let totalCells = gridCols * gridRows in
      res_bind (partition_loop gridCols gridRows 0 widgets Map.empty
          \<lparr>pt_pinned = [], pt_unpinned = [], pt_pinnedArea = 0, pt_unpinnedArea = 0\<rparr>) (\<lambda>p.
      res_bind (if totalCells = GridTotalCells
                then ComputeScreens (pt_pinnedArea p) (pt_unpinnedArea p)
                else ComputeScreensForGrid (pt_pinnedArea p) (pt_unpinnedArea p) totalCells)
       (\<lambda>(k, deficit).
        if deficit > 0
        then Inl (formatDeficitErrorForGrid (k * totalCells - deficit) k deficit gridCols gridRows)
        else Inr (pt_pinned p, pt_unpinned p, k))))"

subsection \<open>Grouping by shape\<close>

record shapeGroup =
  sg_dims :: Dimension
  sg_count :: nat
  sg_widgets :: "WidgetInput list"
  sg_orders :: "int list"

text \<open>Byte-wise comparison of strings, Go's \<^verbatim>\<open><\<close>.\<close>

fun string_less :: "string \<Rightarrow> string \<Rightarrow> bool" where
  "string_less _ [] = False"
| "string_less [] (_ # _) = True"
| "string_less (a # as) (b # bs) =
     ((of_char a :: nat) < of_char b \<or> a = b \<and> string_less as bs)"

definition pinned_less :: "WidgetInput \<Rightarrow> WidgetInput \<Rightarrow> bool" where
  "pinned_less a b =
     (if Area (wi_Dimensions a) \<noteq> Area (wi_Dimensions b)
      then Area (wi_Dimensions a) > Area (wi_Dimensions b)
      else if Rows (wi_Dimensions a) \<noteq> Rows (wi_Dimensions b)
      then Rows (wi_Dimensions a) > Rows (wi_Dimensions b)
      else string_less (wi_ID a) (wi_ID b))"

definition group_less :: "shapeGroup \<Rightarrow> shapeGroup \<Rightarrow> bool" where
  "group_less a b =
     (if Area (sg_dims a) \<noteq> Area (sg_dims b) then Area (sg_dims a) > Area (sg_dims b)
      else Rows (sg_dims a) > Rows (sg_dims b))"

fun group_add :: "int \<Rightarrow> WidgetInput \<Rightarrow> shapeGroup list \<Rightarrow> shapeGroup list" where
  "group_add idx w [] =
     [\<lparr>sg_dims = wi_Dimensions w, sg_count = 1, sg_widgets = [w], sg_orders = [idx]\<rparr>]"
| "group_add idx w (sg # sgs) =
     (if sg_dims sg = wi_Dimensions w
      then sg\<lparr>sg_count := Suc (sg_count sg), sg_widgets := sg_widgets sg @ [w],
              sg_orders := sg_orders sg @ [idx]\<rparr> # sgs
      else sg # group_add idx w sgs)"

fun group_all :: "int \<Rightarrow> WidgetInput list \<Rightarrow> shapeGroup list \<Rightarrow> shapeGroup list" where
  "group_all idx [] sgs = sgs"
| "group_all idx (w # ws) sgs = group_all (idx + 1) ws (group_add idx w sgs)"

definition sortAndGroupWidgets ::
    "WidgetInput list \<Rightarrow> WidgetInput list \<Rightarrow> WidgetInput list \<times> shapeGroup list" where
  "sortAndGroupWidgets pinned unpinned =
     (sort_by pinned_less pinned, sort_by group_less (group_all 0 unpinned []))"

definition nextOrder :: "shapeGroup \<Rightarrow> int" where
  "nextOrder sg =
     (let idx = length (sg_widgets sg) - sg_count sg in
      if idx < length (sg_orders sg) then sg_orders sg ! idx else 2 ^ 30)"

subsection \<open>The search\<close>

record unpinnedPlacement =
  up_screen :: nat
  up_origin :: "int \<times> int"
  up_widget :: WidgetInput
  up_order :: int

record gridSolver =
  gs_gridCols :: int
  gs_gridRows :: int
  gs_maxSearchNodes :: int
  gs_k :: nat
  gs_pinned :: "WidgetInput list"
  gs_unpinned :: "WidgetInput list"
  gs_shapeGroups :: "shapeGroup list"
  gs_screenMasks :: "u32 list"
  gs_pinnedPlacements :: "PlacedWidget list"
  gs_unpinnedPlacements :: "unpinnedPlacement list"
  gs_placedCount :: nat
  gs_nodeCount :: int
  gs_orderByConfig :: bool

definition firstIncompleteScreen :: "u32 list \<Rightarrow> nat \<Rightarrow> int \<Rightarrow> int \<Rightarrow> nat option" where
  "firstIncompleteScreen masks n gc gr =
     (case filter (\<lambda>s. masks ! s \<noteq> fullGridMask gc gr) [0..<n] of [] \<Rightarrow> None | s # _ \<Rightarrow> Some s)"

definition fillMaskAllScreens :: "u32 list \<Rightarrow> nat \<Rightarrow> u32 \<Rightarrow> bool \<Rightarrow> u32 list" where
  "fillMaskAllScreens masks n m on =
     map (\<lambda>s. if s < n then (if on then masks ! s OR m else masks ! s AND NOT m)
              else masks ! s) [0..<length masks]"

text \<open>The guards of \<^verbatim>\<open>tryPlaceShapeGroup\<close>, the updates before its recursive call, and the
  ones that take them back.\<close>

definition group_mask :: "gridSolver \<Rightarrow> nat \<Rightarrow> int \<Rightarrow> int \<Rightarrow> u32" where
  "group_mask s g c r =
     (let sg = gs_shapeGroups s ! g in
      ComputeWidgetBitmaskForGrid (Cols (sg_dims sg)) (Rows (sg_dims sg)) c r (gs_gridCols s))"

definition can_place :: "gridSolver \<Rightarrow> nat \<Rightarrow> u32 \<Rightarrow> int \<Rightarrow> int \<Rightarrow> bool" where
  "can_place s g sMask c r =
     (let sg = gs_shapeGroups s ! g in
      \<not> (sg_count sg = 0 \<or> c + Cols (sg_dims sg) > gs_gridCols s \<or> r + Rows (sg_dims sg) > gs_gridRows s)
      \<and> sMask AND group_mask s g c r = 0)"

definition do_place :: "gridSolver \<Rightarrow> nat \<Rightarrow> nat \<Rightarrow> int \<Rightarrow> int \<Rightarrow> gridSolver" where
  "do_place s g target c r =
     (let sg = gs_shapeGroups s ! g;
          wIdx = length (sg_widgets sg) - sg_count sg in
      s\<lparr>gs_screenMasks := (gs_screenMasks s)[target := gs_screenMasks s ! target OR group_mask s g c r],
        gs_shapeGroups := (gs_shapeGroups s)[g := sg\<lparr>sg_count := sg_count sg - 1\<rparr>],
        gs_unpinnedPlacements := (gs_unpinnedPlacements s)[gs_placedCount s :=
          \<lparr>up_screen = target, up_origin = (c, r), up_widget = sg_widgets sg ! wIdx,
           up_order = sg_orders sg ! wIdx\<rparr>],
        gs_placedCount := Suc (gs_placedCount s)\<rparr>)"

definition undo_place :: "gridSolver \<Rightarrow> nat \<Rightarrow> nat \<Rightarrow> u32 \<Rightarrow> gridSolver" where
  "undo_place s g target m =
     (let sg = gs_shapeGroups s ! g in
      s\<lparr>gs_placedCount := gs_placedCount s - 1,
        gs_shapeGroups := (gs_shapeGroups s)[g := sg\<lparr>sg_count := Suc (sg_count sg)\<rparr>],
        gs_screenMasks := (gs_screenMasks s)[target := gs_screenMasks s ! target AND NOT m]\<rparr>)"

text \<open>The groups the search tries at a node, in order: by the position of their next widget in the
  configuration in the first phase, by decreasing shape in the second.\<close>

definition candidates :: "gridSolver \<Rightarrow> nat list" where
  "candidates s =
     (if gs_orderByConfig s
      then sort_by (\<lambda>g h. nextOrder (gs_shapeGroups s ! g) < nextOrder (gs_shapeGroups s ! h))
             (filter (\<lambda>g. sg_count (gs_shapeGroups s ! g) > 0) [0..<length (gs_shapeGroups s)])
      else [0..<length (gs_shapeGroups s)])"

text \<open>
  \<open>placeUnpinnedExactCover\<close> and the loop over \<open>tryPlaceShapeGroup\<close>. Every placement spends
  one unit of fuel; \<open>None\<close> stands for running out of it, which the depth of the recursion (one
  level per gs_unpinned widget) rules out for the fuel the caller gives.
\<close>

function (sequential) placeUnpinnedExactCover ::
    "nat \<Rightarrow> gridSolver \<Rightarrow> (bool \<times> gridSolver) option"
  and tryShapeGroups ::
    "nat \<Rightarrow> nat list \<Rightarrow> nat \<Rightarrow> u32 \<Rightarrow> int \<Rightarrow> int \<Rightarrow> gridSolver \<Rightarrow> (bool \<times> gridSolver) option" where
  "placeUnpinnedExactCover 0 s0 = None"
| "placeUnpinnedExactCover (Suc fuel) s0 =
     (let s = s0\<lparr>gs_nodeCount := gs_nodeCount s0 + 1\<rparr> in
      if gs_nodeCount s > gs_maxSearchNodes s then Some (False, s)
      else case firstIncompleteScreen (gs_screenMasks s) (gs_k s) (gs_gridCols s) (gs_gridRows s) of
        None \<Rightarrow> Some (True, s)
      | Some target \<Rightarrow>
        let sMask = gs_screenMasks s ! target;
            emptyCell = int (TrailingZeros32 (NOT sMask))
        in tryShapeGroups fuel (candidates s) target sMask
             (emptyCell mod gs_gridCols s) (emptyCell div gs_gridCols s) s)"
| "tryShapeGroups fuel [] target sMask c r s = Some (False, s)"
| "tryShapeGroups fuel (g # gs) target sMask c r s =
     (if \<not> can_place s g sMask c r then tryShapeGroups fuel gs target sMask c r s
      else case placeUnpinnedExactCover fuel (do_place s g target c r) of
        None \<Rightarrow> None
      | Some (True, s') \<Rightarrow> Some (True, s')
      | Some (False, s') \<Rightarrow>
          tryShapeGroups fuel gs target sMask c r (undo_place s' g target (group_mask s g c r)))"
  by pat_completeness auto
termination
  by (relation "measures [\<lambda>x. case x of Inl (f, s) \<Rightarrow> f | Inr (f, gs, t, m, c, r, s) \<Rightarrow> f,
        \<lambda>x. case x of Inl (f, s) \<Rightarrow> 0 | Inr (f, gs, t, m, c, r, s) \<Rightarrow> Suc (length gs)]")
     auto

text \<open>The end of \<open>placePinned\<close>: a configuration-ordered pass of at most 512 nodes, then, if that
  pass was cut short and budget is left, the shape-ordered pass.\<close>

definition placeAllUnpinned :: "nat \<Rightarrow> gridSolver \<Rightarrow> (bool \<times> gridSolver) option" where
  "placeAllUnpinned fuel s =
     (if gs_unpinned s = [] then Some (True, s)
      else let origBudget = gs_maxSearchNodes s;
               savedNodes = gs_nodeCount s;
               seqCeiling = savedNodes + min 512 (max 0 (origBudget - savedNodes))
      in case placeUnpinnedExactCover fuel (s\<lparr>gs_orderByConfig := True, gs_maxSearchNodes := seqCeiling\<rparr>) of
           None \<Rightarrow> None
         | Some (True, s') \<Rightarrow> Some (True, s'\<lparr>gs_maxSearchNodes := origBudget\<rparr>)
         | Some (False, s') \<Rightarrow>
             let hitSeqCeiling = (gs_nodeCount s' > seqCeiling);
                 s'' = s'\<lparr>gs_orderByConfig := False, gs_maxSearchNodes := origBudget\<rparr>
             in if \<not> hitSeqCeiling \<or> gs_nodeCount s'' \<ge> origBudget then Some (False, s'')
                else placeUnpinnedExactCover fuel s'')"

definition pinned_at :: "WidgetInput \<Rightarrow> int \<Rightarrow> int \<Rightarrow> PlacedWidget" where
  "pinned_at w c r =
     \<lparr>pw_WidgetID = wi_ID w, pw_Type = wi_Type w, pw_Origin = (c, r),
      pw_Dimensions = wi_Dimensions w, pw_Pinned = True\<rparr>"

definition positions :: "int \<Rightarrow> int \<Rightarrow> (int \<times> int) list" where
  "positions maxCol maxRow = concat (map (\<lambda>r. map (\<lambda>c. (c, r)) [0..maxCol]) [0..maxRow])"

function (sequential) placePinned ::
    "nat \<Rightarrow> nat \<Rightarrow> WidgetInput list \<Rightarrow> gridSolver \<Rightarrow> (bool \<times> gridSolver) option"
  and tryPositions ::
    "nat \<Rightarrow> nat \<Rightarrow> WidgetInput \<Rightarrow> WidgetInput list \<Rightarrow> (int \<times> int) list \<Rightarrow> gridSolver
     \<Rightarrow> (bool \<times> gridSolver) option" where
  "placePinned fuel pIdx [] s = placeAllUnpinned fuel s"
| "placePinned fuel pIdx (pw # rest) s =
     tryPositions fuel pIdx pw rest
       (positions (gs_gridCols s - Cols (wi_Dimensions pw)) (gs_gridRows s - Rows (wi_Dimensions pw))) s"
| "tryPositions fuel pIdx pw rest [] s = Some (False, s)"
| "tryPositions fuel pIdx pw rest ((c, r) # ps) s =
     (let m = ComputeWidgetBitmaskForGrid (Cols (wi_Dimensions pw)) (Rows (wi_Dimensions pw))
                   c r (gs_gridCols s) in
      if gs_screenMasks s ! 0 AND m \<noteq> 0 then tryPositions fuel pIdx pw rest ps s
      else case placePinned fuel (Suc pIdx) rest
          (s\<lparr>gs_screenMasks := fillMaskAllScreens (gs_screenMasks s) (gs_k s) m True,
             gs_pinnedPlacements := (gs_pinnedPlacements s)[pIdx := pinned_at pw c r]\<rparr>) of
        None \<Rightarrow> None
      | Some (True, s') \<Rightarrow> Some (True, s')
      | Some (False, s') \<Rightarrow>
          tryPositions fuel pIdx pw rest ps
            (s'\<lparr>gs_screenMasks := fillMaskAllScreens (gs_screenMasks s') (gs_k s') m False\<rparr>))"
  by pat_completeness auto
termination
  by (relation "measures [\<lambda>x. case x of Inl (f, i, ws, s) \<Rightarrow> length ws | Inr (f, i, w, ws, ps, s) \<Rightarrow> length ws,
        \<lambda>x. case x of Inl (f, i, ws, s) \<Rightarrow> 0 | Inr (f, i, w, ws, ps, s) \<Rightarrow> length ps]")
     auto

subsection \<open>Assembly\<close>

definition placed_less :: "PlacedWidget \<Rightarrow> PlacedWidget \<Rightarrow> bool" where
  "placed_less a b = (if Row a \<noteq> Row b then Row a < Row b else Col a < Col b)"

definition unpinned_placed :: "unpinnedPlacement \<Rightarrow> PlacedWidget" where
  "unpinned_placed u =
     \<lparr>pw_WidgetID = wi_ID (up_widget u), pw_Type = wi_Type (up_widget u),
      pw_Origin = up_origin u, pw_Dimensions = wi_Dimensions (up_widget u), pw_Pinned = False\<rparr>"

definition on_screen :: "nat \<Rightarrow> unpinnedPlacement list \<Rightarrow> nat \<Rightarrow> unpinnedPlacement list" where
  "on_screen s ups placed = filter (\<lambda>u. up_screen u = s) (take placed ups)"

definition min_order :: "nat \<Rightarrow> unpinnedPlacement list \<Rightarrow> nat \<Rightarrow> int" where
  "min_order s ups placed = foldl min (2 ^ 30) (map up_order (on_screen s ups placed))"

definition assemble_screen ::
    "nat \<Rightarrow> u32 list \<Rightarrow> PlacedWidget list \<Rightarrow> unpinnedPlacement list \<Rightarrow> nat \<Rightarrow> Screen" where
  "assemble_screen s masks pps ups placed =
     \<lparr>sc_Index = s, sc_Bitmask = masks ! s,
      sc_Widgets = sort_by placed_less (pps @ map unpinned_placed (on_screen s ups placed))\<rparr>"

definition assembleSolvedLayout ::
    "nat \<Rightarrow> u32 list \<Rightarrow> PlacedWidget list \<Rightarrow> unpinnedPlacement list \<Rightarrow> nat \<Rightarrow> Layout" where
  "assembleSolvedLayout n masks pps ups placed =
     (let screens = map (\<lambda>s. assemble_screen s masks pps ups placed) [0..<n];
          orderIdx = sort_by (\<lambda>i j. min_order i ups placed < min_order j ups placed) [0..<n]
      in \<lparr>TotalScreens = int n,
          Screens = map (\<lambda>(newIdx, oldIdx). (screens ! oldIdx)\<lparr>sc_Index := newIdx\<rparr>)
            (zip [0..<n] orderIdx)\<rparr>)"

definition defaultMaxSearchNodes :: int where "defaultMaxSearchNodes = 100000"

definition zero_placed :: PlacedWidget where
  "zero_placed = \<lparr>pw_WidgetID = [], pw_Type = [], pw_Origin = (0, 0),
     pw_Dimensions = \<lparr>Cols = 0, Rows = 0\<rparr>, pw_Pinned = False\<rparr>"

definition zero_widget :: WidgetInput where
  "zero_widget = \<lparr>wi_ID = [], wi_Type = [], wi_Dimensions = \<lparr>Cols = 0, Rows = 0\<rparr>, wi_Pinned = False\<rparr>"

definition zero_unpinned :: unpinnedPlacement where
  "zero_unpinned = \<lparr>up_screen = 0, up_origin = (0, 0), up_widget = zero_widget, up_order = 0\<rparr>"

definition init_solver ::
    "int \<Rightarrow> int \<Rightarrow> int \<Rightarrow> nat \<Rightarrow> WidgetInput list \<Rightarrow> WidgetInput list \<Rightarrow> shapeGroup list
     \<Rightarrow> gridSolver" where
  "init_solver gc gr budget n pins unpins groups =
     \<lparr>gs_gridCols = gc, gs_gridRows = gr, gs_maxSearchNodes = budget, gs_k = n, gs_pinned = pins,
      gs_unpinned = unpins, gs_shapeGroups = groups, gs_screenMasks = replicate n 0,
      gs_pinnedPlacements = replicate (length pins) zero_placed,
      gs_unpinnedPlacements = replicate (length unpins) zero_unpinned,
      gs_placedCount = 0, gs_nodeCount = 0, gs_orderByConfig = False\<rparr>"

definition SolveGridWithBudget ::
    "WidgetInput list \<Rightarrow> int \<Rightarrow> int \<Rightarrow> int \<Rightarrow> layout_error + Layout" where
  "SolveGridWithBudget widgets gridCols0 gridRows0 budget0 =
     (let (gc, gr) = NormalizeGrid gridCols0 gridRows0;
          totalCells = gc * gr;
          budget = (if budget0 \<le> 0 then defaultMaxSearchNodes else budget0)
      in if widgets = [] then Inl (formatDeficitErrorForGrid 0 1 totalCells gc gr)
      else res_bind (partitionAndValidateWidgets widgets gc gr) (\<lambda>(pins, unpins, screens).
        let (pins', groups) = sortAndGroupWidgets pins unpins;
            solver = init_solver gc gr budget (nat screens) pins' unpins groups
        in case placePinned (Suc (length unpins)) 0 pins' solver of
             None \<Rightarrow> Inl OutOfFuel
           | Some (False, s) \<Rightarrow> Inl (CannotTile gc gr)
           | Some (True, s) \<Rightarrow> Inr (assembleSolvedLayout (nat screens) (gs_screenMasks s)
               (gs_pinnedPlacements s) (gs_unpinnedPlacements s) (gs_placedCount s))))"

definition SolveWithBudget :: "WidgetInput list \<Rightarrow> int \<Rightarrow> layout_error + Layout" where
  "SolveWithBudget widgets budget = SolveGridWithBudget widgets GridColumns GridRows budget"

definition Solve :: "WidgetInput list \<Rightarrow> layout_error + Layout" where
  "Solve widgets = SolveWithBudget widgets defaultMaxSearchNodes"

end
