(* ===== verification/Event_Model.thy ===== *)
theory Event_Model
  imports Prelude
begin

text \<open>
  \<^verbatim>\<open>internal/events/event.go\<close> and what it uses of \<^verbatim>\<open>encoding/json\<close>: JSON documents and
  their compact text, events, the text frame a server-sent event is written as, and the generator of
  event identifiers. Every payload the program publishes is the result of \<^verbatim>\<open>json.Marshal\<close>, so the
  data of an event is the document; \<open>json_text\<close> gives its bytes.
\<close>

subsection \<open>JSON documents\<close>

text \<open>A number is an integer literal or any other literal, kept as written. The members of an object
  are listed in the order they are written.\<close>

datatype json =
    JNull
  | JBool bool
  | JInt int
  | JNum string
  | JStr string
  | JArr "json list"
  | JObj "(string \<times> json) list"

definition hex_digit :: "nat \<Rightarrow> char" where
  "hex_digit n = ''0123456789abcdef'' ! n"

definition u_escape :: "nat \<Rightarrow> string" where
  "u_escape b = [CHR 0x5C, CHR ''u'', CHR ''0'', CHR ''0'', hex_digit (b div 16), hex_digit (b mod 16)]"

text \<open>The number of bytes of a well-formed UTF-8 sequence at the front of a string; 0 when the first
  byte starts none.\<close>

definition cont_byte :: "nat \<Rightarrow> bool" where "cont_byte b \<longleftrightarrow> 128 \<le> b \<and> b < 192"

fun utf8_len :: "nat list \<Rightarrow> nat" where
  "utf8_len [] = 0"
| "utf8_len (b # bs) =
     (if b < 128 then 1
      else if 194 \<le> b \<and> b < 224 then
        (case bs of c # _ \<Rightarrow> if cont_byte c then 2 else 0 | _ \<Rightarrow> 0)
      else if 224 \<le> b \<and> b < 240 then
        (case bs of c # d # _ \<Rightarrow>
           if cont_byte c \<and> cont_byte d \<and> (b = 224 \<longrightarrow> 160 \<le> c) \<and> (b = 237 \<longrightarrow> c < 160) then 3 else 0
         | _ \<Rightarrow> 0)
      else if 240 \<le> b \<and> b < 245 then
        (case bs of c # d # e # _ \<Rightarrow>
           if cont_byte c \<and> cont_byte d \<and> cont_byte e \<and> (b = 240 \<longrightarrow> 144 \<le> c) \<and> (b = 244 \<longrightarrow> c < 144)
           then 4 else 0
         | _ \<Rightarrow> 0)
      else 0)"

definition ascii_escape :: "nat \<Rightarrow> string" where
  "ascii_escape b =
     (if b = 34 \<or> b = 92 then [CHR 0x5C, char_of b]
      else if b = 8 then [CHR 0x5C, CHR ''b''] else if b = 12 then [CHR 0x5C, CHR ''f'']
      else if b = 10 then [CHR 0x5C, CHR ''n''] else if b = 13 then [CHR 0x5C, CHR ''r'']
      else if b = 9 then [CHR 0x5C, CHR ''t'']
      else if b < 32 \<or> b = 60 \<or> b = 62 \<or> b = 38 then u_escape b
      else [char_of b])"

text \<open>The characters of a JSON string: the escapes of \<^verbatim>\<open>json.Marshal\<close>, which also hides the HTML
  characters and the two Unicode line separators, and replaces malformed bytes.\<close>

function json_chars :: "nat list \<Rightarrow> string" where
  "json_chars [] = []"
| "json_chars (b # bs) =
     (let n = utf8_len (b # bs) in
      if b < 128 then ascii_escape b @ json_chars bs
      else if n \<le> 1 then [CHR 0x5C] @ ''ufffd'' @ json_chars bs
      else if b = 226 \<and> take 2 bs = [128, 168] then [CHR 0x5C] @ ''u2028'' @ json_chars (drop 2 bs)
      else if b = 226 \<and> take 2 bs = [128, 169] then [CHR 0x5C] @ ''u2029'' @ json_chars (drop 2 bs)
      else map char_of (b # take (n - 1) bs) @ json_chars (drop (n - 1) bs))"
  by pat_completeness auto
termination
  by (relation "measure length") auto

definition json_string :: "string \<Rightarrow> string" where
  "json_string s = [CHR 0x22] @ json_chars (map of_char s) @ [CHR 0x22]"

fun comma_join :: "string list \<Rightarrow> string" where
  "comma_join [] = []"
| "comma_join [x] = x"
| "comma_join (x # y # zs) = x @ '','' @ comma_join (y # zs)"

fun json_text :: "json \<Rightarrow> string" where
  "json_text JNull = ''null''"
| "json_text (JBool b) = (if b then ''true'' else ''false'')"
| "json_text (JInt i) = show_int i"
| "json_text (JNum s) = s"
| "json_text (JStr s) = json_string s"
| "json_text (JArr js) = ''['' @ comma_join (map json_text js) @ '']''"
| "json_text (JObj ms) =
     ''{'' @ comma_join (map (\<lambda>(k, v). json_string k @ '':'' @ json_text v) ms) @ ''}''"

subsection \<open>Events\<close>

definition EventWidgetUpdate :: string where "EventWidgetUpdate = ''widget.update''"
definition EventHeaderUpdate :: string where "EventHeaderUpdate = ''header.update''"
definition EventScreenRotate :: string where "EventScreenRotate = ''screen.rotate''"
definition EventThemeUpdate :: string where "EventThemeUpdate = ''theme.update''"
definition EventSystemStatus :: string where "EventSystemStatus = ''system.status''"
definition EventVideoState :: string where "EventVideoState = ''video.state''"
definition EventAudioState :: string where "EventAudioState = ''audio.state''"
definition EventVoiceState :: string where "EventVoiceState = ''voice.state''"
definition EventWidgetReload :: string where "EventWidgetReload = ''widget.reload''"
definition EventStyleReload :: string where "EventStyleReload = ''style.reload''"
definition EventSystemReload :: string where "EventSystemReload = ''system.reload''"

lemmas event_type_defs =
  EventWidgetUpdate_def EventHeaderUpdate_def EventScreenRotate_def EventThemeUpdate_def
  EventSystemStatus_def EventVideoState_def EventAudioState_def EventVoiceState_def
  EventWidgetReload_def EventStyleReload_def EventSystemReload_def

record Event =
  ev_ID :: string
  ev_Type :: string
  ev_Data :: json
  ev_Timestamp :: gotime

definition newline :: char where "newline = CHR 0x0A"
definition cr :: char where "cr = CHR 0x0D"

text \<open>\<^verbatim>\<open>bytes.ReplaceAll(data, "\r\n", "\n")\<close>.\<close>

fun replace_crlf :: "string \<Rightarrow> string" where
  "replace_crlf [] = []"
| "replace_crlf [c] = [c]"
| "replace_crlf (c # d # cs) =
     (if c = cr \<and> d = newline then newline # replace_crlf cs else c # replace_crlf (d # cs))"

definition format_frame :: "string \<Rightarrow> string \<Rightarrow> string \<Rightarrow> string" where
  "format_frame type ident data =
     ''event: '' @ type @ [newline]
     @ (if ident \<noteq> [] then ''id: '' @ ident @ [newline] else [])
     @ ''data: '' @ replace_crlf data @ [newline, newline]"

definition Format :: "Event \<Rightarrow> string" where
  "Format e = format_frame (ev_Type e) (ev_ID e) (json_text (ev_Data e))"

definition FormatPing :: "gotime \<Rightarrow> string" where
  "FormatPing t = '': ping '' @ show_int (time_unix t) @ [newline, newline]"

subsection \<open>Identifiers\<close>

text \<open>The generator's state is its sequence number, an unsigned 64-bit counter.\<close>

record IDGenerator =
  ig_seq :: u64

definition NewIDGenerator :: IDGenerator where
  "NewIDGenerator = \<lparr>ig_seq = 0\<rparr>"

definition event_id :: "gotime \<Rightarrow> nat \<Rightarrow> string" where
  "event_id now n = ''evt_'' @ show_int (time_unix now) @ ''_'' @ show_pad6 n"

definition Next :: "IDGenerator \<Rightarrow> gotime \<Rightarrow> string \<times> IDGenerator" where
  "Next g now = (let n = ig_seq g + 1 in (event_id now (unat n), g\<lparr>ig_seq := n\<rparr>))"

text \<open>A sequence of draws, one per instant.\<close>

fun draw_ids :: "IDGenerator \<Rightarrow> gotime list \<Rightarrow> string list \<times> IDGenerator" where
  "draw_ids g [] = ([], g)"
| "draw_ids g (t # ts) =
     (let (i, g') = Next g t; (is, g'') = draw_ids g' ts in (i # is, g''))"

end
