(* ===== verification/Any_Value.thy ===== *)
theory Any_Value
  imports Event_Model
begin

text \<open>
  Values of the Go types \<^verbatim>\<open>float64\<close> and \<^verbatim>\<open>any\<close>, as the configuration holds them, and what the program
  uses of comparison and \<^verbatim>\<open>reflect.DeepEqual\<close> at these types.
\<close>

subsection \<open>Floating-point numbers\<close>

text \<open>A \<^verbatim>\<open>float64\<close> is its bit pattern: a sign bit above eleven exponent bits above the significand, so that the
  numbers of one sign are ordered as their patterns are. Comparisons with a NaN are false.\<close>

type_synonym f64 = "64 word"

definition f64_mag :: "f64 \<Rightarrow> nat" where
  "f64_mag x = unat x mod 2 ^ 63"

definition f64_key :: "f64 \<Rightarrow> int" where
  "f64_key x = (if unat x < 2 ^ 63 then int (f64_mag x) else - int (f64_mag x))"

definition f64_is_nan :: "f64 \<Rightarrow> bool" where
  "f64_is_nan x \<longleftrightarrow> f64_mag x > 2047 * 2 ^ 52"

definition f64_is_inf :: "f64 \<Rightarrow> bool" where
  "f64_is_inf x \<longleftrightarrow> f64_mag x = 2047 * 2 ^ 52"

definition f64_is_zero :: "f64 \<Rightarrow> bool" where
  "f64_is_zero x \<longleftrightarrow> f64_mag x = 0"

definition f64_eq :: "f64 \<Rightarrow> f64 \<Rightarrow> bool" where
  "f64_eq x y \<longleftrightarrow> \<not> f64_is_nan x \<and> \<not> f64_is_nan y \<and> f64_key x = f64_key y"

definition f64_less :: "f64 \<Rightarrow> f64 \<Rightarrow> bool" where
  "f64_less x y \<longleftrightarrow> \<not> f64_is_nan x \<and> \<not> f64_is_nan y \<and> f64_key x < f64_key y"

definition f64_le :: "f64 \<Rightarrow> f64 \<Rightarrow> bool" where
  "f64_le x y \<longleftrightarrow> \<not> f64_is_nan x \<and> \<not> f64_is_nan y \<and> f64_key x \<le> f64_key y"

definition f64_zero :: f64 where "f64_zero = 0"
definition f64_one :: f64 where "f64_one = 0x3FF0000000000000"
definition f64_90 :: f64 where "f64_90 = 0x4056800000000000"
definition f64_m90 :: f64 where "f64_m90 = 0xC056800000000000"
definition f64_180 :: f64 where "f64_180 = 0x4066800000000000"
definition f64_m180 :: f64 where "f64_m180 = 0xC066800000000000"

text \<open>The square of a number is rounded to zero exactly when its magnitude is at most the square root of
  \<open>2\<close> to the power \<open>-1075\<close>, half of the least positive number.\<close>

definition f64_square_zero :: "f64 \<Rightarrow> bool" where
  "f64_square_zero x \<longleftrightarrow> f64_mag x \<le> 0x1E56A09E667F3BCC"

lemmas f64_consts = f64_zero_def f64_one_def f64_90_def f64_m90_def f64_180_def f64_m180_def

lemma f64_eq_refl: "f64_eq x x \<longleftrightarrow> \<not> f64_is_nan x"
  by (simp add: f64_eq_def)

subsection \<open>Values of any type\<close>

text \<open>What a YAML document decodes to. The keys of a mapping are listed without repetition; where a key is not a
  string it is given as \<^verbatim>\<open>fmt.Sprint\<close> prints it, which is how the program reads such mappings. A map in Go has no
  order: definitions that range over one do so in the order of the list, and where the order could matter the
  description of the definition says so.\<close>

datatype any =
    ANil
  | ABool bool
  | AInt int
  | AFloat f64
  | AStr string
  | ATime gotime
  | AList "any list"
  | AMap "(string \<times> any) list"

type_synonym any_map = "(string \<times> any) list"

text \<open>Indexing a map with a missing key gives nil.\<close>

definition any_get :: "string \<Rightarrow> any_map \<Rightarrow> any" where
  "any_get k m = (case map_of m k of None \<Rightarrow> ANil | Some v \<Rightarrow> v)"

fun any_put :: "string \<Rightarrow> any \<Rightarrow> any_map \<Rightarrow> any_map" where
  "any_put k v [] = [(k, v)]"
| "any_put k v ((j, w) # m) = (if j = k then (k, v) # m else (j, w) # any_put k v m)"

lemma map_of_any_put: "map_of (any_put k v m) = (map_of m)(k \<mapsto> v)"
  by (induction m) auto

lemma any_get_put: "any_get j (any_put k v m) = (if j = k then v else any_get j m)"
  by (simp add: any_get_def map_of_any_put)

lemma size_any_elem [termination_simp]: "v \<in> set vs \<Longrightarrow> size v < size (AList vs)"
  by (induction vs) auto

lemma size_any_value [termination_simp]: "(k, v) \<in> set ms \<Longrightarrow> size v < size (AMap ms)"
  by (induction ms) auto

lemma size_any_zip [termination_simp]: "(a, b) \<in> set (zip xs ys) \<Longrightarrow> size a < Suc (size_list size xs)"
  for a :: any
  using size_any_elem [of a xs] by (auto dest: set_zip_leftD)

text \<open>\<^verbatim>\<open>reflect.DeepEqual\<close>.\<close>

fun any_deep_eq :: "any \<Rightarrow> any \<Rightarrow> bool" where
  "any_deep_eq (AFloat x) (AFloat y) \<longleftrightarrow> f64_eq x y"
| "any_deep_eq (AList xs) (AList ys) \<longleftrightarrow> length xs = length ys \<and> list_all (\<lambda>(x, y). any_deep_eq x y) (zip xs ys)"
| "any_deep_eq (AMap xs) (AMap ys) \<longleftrightarrow> length xs = length ys
     \<and> list_all (\<lambda>(k, x). case map_of ys k of None \<Rightarrow> False | Some y \<Rightarrow> any_deep_eq x y) xs"
| "any_deep_eq a b \<longleftrightarrow> a = b"

definition any_map_deep_eq :: "any_map option \<Rightarrow> any_map option \<Rightarrow> bool" where
  "any_map_deep_eq a b = (case (a, b) of
      (None, None) \<Rightarrow> True | (Some x, Some y) \<Rightarrow> any_deep_eq (AMap x) (AMap y) | _ \<Rightarrow> False)"

end
