(* ===== verification/Manifest.thy ===== *)
theory Manifest
  imports Domain Any_Value
begin

text \<open>
  \<^verbatim>\<open>internal/domain/manifest.go\<close> and \<^verbatim>\<open>package.go\<close>: widget packages and the validation of their manifests. An
  error of \<^verbatim>\<open>Validate\<close> is the condition its message reports.
\<close>

record ManifestRefresh =
  mr_IntervalSeconds :: int

record WidgetManifest =
  wm_Name :: string
  wm_Version :: string
  wm_Description :: string
  wm_Provider :: string
  wm_Capabilities :: "string list"
  wm_DefaultDimensions :: Dimension
  wm_SupportedDimensions :: "Dimension list"
  wm_Refresh :: ManifestRefresh
  wm_ConfigSchema :: "any_map option"
  wm_ResponseSchema :: "any_map option"

record Package =
  pk_Type :: string
  pk_Source :: string
  pk_Dir :: string
  pk_ManifestPath :: string
  pk_ViewPath :: string
  pk_AssetsDir :: string
  pk_Manifest :: WidgetManifest

definition HasAssets :: "Package \<Rightarrow> bool" where
  "HasAssets p \<longleftrightarrow> pk_AssetsDir p \<noteq> []"

definition isNamedSchemaMapKeyword :: "string \<Rightarrow> bool" where
  "isNamedSchemaMapKeyword k \<longleftrightarrow>
     k \<in> set [''properties'', ''patternProperties'', ''$defs'', ''definitions'', ''dependentSchemas'']"

fun first_error :: "'e option list \<Rightarrow> 'e option" where
  "first_error [] = None"
| "first_error (Some e # es) = Some e"
| "first_error (None # es) = first_error es"

lemma first_error_None [simp]: "first_error es = None \<longleftrightarrow> set es \<subseteq> {None}"
  by (induction es rule: first_error.induct) auto

lemma first_error_map: "first_error (map f xs) = None \<longleftrightarrow> (\<forall>x \<in> set xs. f x = None)"
  by (simp add: image_subset_iff)

lemma size_any_enumerate: "(i, v) \<in> set (enumerate n vs) \<Longrightarrow> size v < size (AList vs)"
  by (metis enumerate_eq_zip set_zip_rightD size_any_elem)

text \<open>The search for the keyword \<^verbatim>\<open>default\<close>. The error is the path of the schema that declares it; the code ranges
  over maps, so which path is reported when there are several is not determined, but whether there is one is.\<close>

function checkForDisallowedDefaultKeyword :: "any \<Rightarrow> string \<Rightarrow> string option"
  and checkSchemaMapEntry :: "string \<Rightarrow> any \<Rightarrow> string \<Rightarrow> string option"
  and checkNamedSchemaMap :: "any \<Rightarrow> string \<Rightarrow> string option" where
  "checkForDisallowedDefaultKeyword v path =
     (case v of
        AMap ms \<Rightarrow> first_error (map (\<lambda>(k, child). checkSchemaMapEntry k child path) ms)
      | AList vs \<Rightarrow> first_error (map (\<lambda>(i, child). checkForDisallowedDefaultKeyword child
            (path @ ''['' @ show_nat i @ '']'')) (enumerate 0 vs))
      | _ \<Rightarrow> None)"
| "checkSchemaMapEntry k child path =
     (if k = ''default'' then Some path
      else if isNamedSchemaMapKeyword k then checkNamedSchemaMap child (path @ ''.'' @ k)
      else checkForDisallowedDefaultKeyword child (path @ ''.'' @ k))"
| "checkNamedSchemaMap v path =
     (case v of
        AMap ms \<Rightarrow> first_error (map (\<lambda>(k, child). checkForDisallowedDefaultKeyword child (path @ ''.'' @ k)) ms)
      | _ \<Rightarrow> None)"
  by pat_completeness auto

termination
proof (relation "measure (\<lambda>x. case x of Inl (v, _) \<Rightarrow> 2 * size v
    | Inr (Inl (_, v, _)) \<Rightarrow> 2 * size v + 1 | Inr (Inr (v, _)) \<Rightarrow> 2 * size v)", goal_cases)
qed (auto simp del: any.size dest!: size_any_value size_any_enumerate)

lemmas check_keyword_simps =
  checkForDisallowedDefaultKeyword.simps checkSchemaMapEntry.simps checkNamedSchemaMap.simps

declare check_keyword_simps [simp del]

datatype manifest_error =
    MissingName
  | MissingVersion string
  | MissingProvider string
  | BadDefaultDimensions string Dimension
  | BadSupportedDimensions string nat Dimension
  | DisallowedDefault string string
  | MissingResponseSchema string

definition check_schema :: "string \<Rightarrow> any_map option \<Rightarrow> string \<Rightarrow> manifest_error option" where
  "check_schema nm schema label =
     (case schema of None \<Rightarrow> None
      | Some ms \<Rightarrow> map_option (DisallowedDefault nm) (checkForDisallowedDefaultKeyword (AMap ms) label))"

definition manifest_Validate :: "WidgetManifest \<Rightarrow> manifest_error option" where
  "manifest_Validate m = first_error
     [if TrimSpace (wm_Name m) = [] then Some MissingName else None,
      if TrimSpace (wm_Version m) = [] then Some (MissingVersion (wm_Name m)) else None,
      if TrimSpace (wm_Provider m) = [] then Some (MissingProvider (wm_Name m)) else None,
      if (Cols (wm_DefaultDimensions m) \<noteq> 0 \<or> Rows (wm_DefaultDimensions m) \<noteq> 0) \<and> \<not> IsValid (wm_DefaultDimensions m)
      then Some (BadDefaultDimensions (wm_Name m) (wm_DefaultDimensions m)) else None,
      first_error (map (\<lambda>(i, d). if IsValid d then None else Some (BadSupportedDimensions (wm_Name m) i d))
        (enumerate 0 (wm_SupportedDimensions m))),
      check_schema (wm_Name m) (wm_ConfigSchema m) ''config_schema'',
      check_schema (wm_Name m) (wm_ResponseSchema m) ''response_schema'',
      if wm_Provider m = ''http'' \<and> wm_ResponseSchema m \<in> {None, Some []} then Some (MissingResponseSchema (wm_Name m)) else None]"
section \<open>What validation guarantees\<close>

text \<open>The schemas inside a schema: the values of its keywords, except that a keyword that holds named schemas
  contributes the schemas and not the names, and the elements of lists.\<close>

inductive subschema :: "any \<Rightarrow> any \<Rightarrow> bool" where
  here: "subschema v v"
| keyword: "(k, c) \<in> set ms \<Longrightarrow> \<not> isNamedSchemaMapKeyword k \<Longrightarrow> subschema c u \<Longrightarrow> subschema (AMap ms) u"
| named: "(k, AMap ns) \<in> set ms \<Longrightarrow> isNamedSchemaMapKeyword k \<Longrightarrow> (j, c) \<in> set ns \<Longrightarrow> subschema c u
    \<Longrightarrow> subschema (AMap ms) u"
| element: "c \<in> set vs \<Longrightarrow> subschema c u \<Longrightarrow> subschema (AList vs) u"

inductive_cases subschema_AMapE: "subschema (AMap ms) u"
inductive_cases subschema_AListE: "subschema (AList vs) u"
inductive_simps subschema_leaf: "subschema ANil u" "subschema (ABool b) u" "subschema (AInt i) u" "subschema (AFloat x) u"
  "subschema (AStr s) u" "subschema (ATime t) u"

fun declares_default :: "any \<Rightarrow> bool" where
  "declares_default (AMap ms) \<longleftrightarrow> ''default'' \<in> fst ` set ms"
| "declares_default _ \<longleftrightarrow> False"

definition clean :: "any \<Rightarrow> bool" where
  "clean v \<longleftrightarrow> (\<forall>u. subschema v u \<longrightarrow> \<not> declares_default u)"

lemma default_not_named: "\<not> isNamedSchemaMapKeyword ''default''"
  by (simp add: isNamedSchemaMapKeyword_def)

definition entry_clean :: "string \<Rightarrow> any \<Rightarrow> bool" where
  "entry_clean k c \<longleftrightarrow> k \<noteq> ''default'' \<and> (if isNamedSchemaMapKeyword k
     then (case c of AMap ns \<Rightarrow> \<forall>(j, d) \<in> set ns. clean d | _ \<Rightarrow> True) else clean c)"

lemma clean_AMap: "clean (AMap ms) \<longleftrightarrow> (\<forall>(k, c) \<in> set ms. entry_clean k c)"
proof
  assume cl: "clean (AMap ms)"
  have top: "\<not> declares_default (AMap ms)" using cl subschema.here [of "AMap ms"] by (simp only: clean_def) blast
  show "\<forall>(k, c) \<in> set ms. entry_clean k c"
  proof (rule ballI, clarify)
    fix k c assume kc: "(k, c) \<in> set ms"
    then have "k \<noteq> ''default''" using top by force
    moreover have "clean c" if "\<not> isNamedSchemaMapKeyword k"
      using cl subschema.keyword [OF kc that] by (auto simp: clean_def)
    moreover have "clean d" if "isNamedSchemaMapKeyword k" "c = AMap ns" "(j, d) \<in> set ns" for ns j d
      using cl subschema.named [OF kc [unfolded that(2)] that(1,3)] by (auto simp: clean_def)
    ultimately show "entry_clean k c" by (auto simp: entry_clean_def split: any.split)
  qed
next
  assume all: "\<forall>(k, c) \<in> set ms. entry_clean k c"
  show "clean (AMap ms)" unfolding clean_def
  proof (intro allI impI)
    fix u assume "subschema (AMap ms) u"
    then show "\<not> declares_default u"
      using all by (cases rule: subschema_AMapE) (force simp: entry_clean_def clean_def)+
  qed
qed

lemma clean_AList: "clean (AList vs) \<longleftrightarrow> (\<forall>v \<in> set vs. clean v)"
  by (auto simp: clean_def elim: subschema_AListE intro: subschema.element subschema.here)

lemma ball_enumerate: "(\<forall>(i, v) \<in> set (enumerate n vs). P v) \<longleftrightarrow> (\<forall>v \<in> set vs. P v)"
  by (induction vs arbitrary: n) auto

lemma check_clean:
  "checkForDisallowedDefaultKeyword v path = None \<longleftrightarrow> clean v"
  "checkSchemaMapEntry k c path = None \<longleftrightarrow> entry_clean k c"
  "checkNamedSchemaMap v path = None \<longleftrightarrow> (case v of AMap ns \<Rightarrow> \<forall>(j, d) \<in> set ns. clean d | _ \<Rightarrow> True)"
proof (induction v path and k c path and v path
    rule: checkForDisallowedDefaultKeyword_checkSchemaMapEntry_checkNamedSchemaMap.induct)
  case (1 v path)
  show ?case
  proof (cases v)
    case (AMap ms)
    have "checkForDisallowedDefaultKeyword v path = None \<longleftrightarrow> (\<forall>(k, c) \<in> set ms. checkSchemaMapEntry k c path = None)"
      unfolding AMap checkForDisallowedDefaultKeyword.simps [of "AMap ms"] by (auto simp: first_error_map)
    also have "\<dots> \<longleftrightarrow> (\<forall>(k, c) \<in> set ms. entry_clean k c)" using 1(2) [OF AMap _ refl] by auto
    finally show ?thesis unfolding AMap clean_AMap .
  next
    case (AList vs)
    have "checkForDisallowedDefaultKeyword v path = None \<longleftrightarrow>
        (\<forall>(i, c) \<in> set (enumerate 0 vs). checkForDisallowedDefaultKeyword c (path @ ''['' @ show_nat i @ '']'') = None)"
      unfolding AList checkForDisallowedDefaultKeyword.simps [of "AList vs"] by (auto simp: first_error_map)
    also have "\<dots> \<longleftrightarrow> (\<forall>(i, c) \<in> set (enumerate 0 vs). clean c)" using 1(1) [OF AList _ refl] by auto
    finally show ?thesis unfolding AList clean_AList ball_enumerate .
  qed (simp_all add: clean_def subschema_leaf checkForDisallowedDefaultKeyword.simps)
next
  case (2 k c path)
  then show ?case by (simp add: entry_clean_def checkSchemaMapEntry.simps)
next
  case (3 v path)
  show ?case
  proof (cases v)
    case (AMap ms)
    have "checkNamedSchemaMap v path = None \<longleftrightarrow>
        (\<forall>(k, c) \<in> set ms. checkForDisallowedDefaultKeyword c (path @ ''.'' @ k) = None)"
      unfolding AMap checkNamedSchemaMap.simps [of "AMap ms"] by (auto simp: first_error_map)
    also have "\<dots> \<longleftrightarrow> (\<forall>(k, c) \<in> set ms. clean c)" using 3 [OF AMap _ refl] by auto
    finally show ?thesis by (simp add: AMap)
  qed (simp_all add: checkNamedSchemaMap.simps)
qed

definition schema_clean :: "any_map option \<Rightarrow> bool" where
  "schema_clean s \<longleftrightarrow> (case s of None \<Rightarrow> True | Some ms \<Rightarrow> clean (AMap ms))"

text \<open>A manifest is valid exactly when its name, version and provider are not blank, its default and
  supported dimensions fit one of the two grids (no default is fine), neither of its schemas nor any schema inside them,
  at whatever depth, declares a default value, and an \<^verbatim>\<open>http\<close> provider comes with a response schema. A property that
  happens to be called \<^verbatim>\<open>default\<close> is not mistaken for the keyword.\<close>

lemma manifest_valid_iff:
  "manifest_Validate m = None \<longleftrightarrow>
     TrimSpace (wm_Name m) \<noteq> [] \<and> TrimSpace (wm_Version m) \<noteq> [] \<and> TrimSpace (wm_Provider m) \<noteq> []
     \<and> (wm_DefaultDimensions m = \<lparr>Cols = 0, Rows = 0\<rparr> \<or> IsValid (wm_DefaultDimensions m))
     \<and> list_all IsValid (wm_SupportedDimensions m)
     \<and> schema_clean (wm_ConfigSchema m) \<and> schema_clean (wm_ResponseSchema m)
     \<and> (if wm_Provider m = ''http'' then wm_ResponseSchema m \<notin> {None, Some []} else True)"
proof -
  have cs: "check_schema nm s l = None \<longleftrightarrow> schema_clean s" for nm s l
    by (simp add: check_schema_def schema_clean_def check_clean(1) split: option.split)
  have dims: "first_error (map (\<lambda>(i, d). if IsValid d then None else Some (BadSupportedDimensions (wm_Name m) i d))
      (enumerate 0 (wm_SupportedDimensions m))) = None \<longleftrightarrow> list_all IsValid (wm_SupportedDimensions m)"
    using ball_enumerate [of 0 "wm_SupportedDimensions m" IsValid] by (auto simp: first_error_map list_all_iff)
  have dd: "(Cols d = 0 \<longrightarrow> Rows d \<noteq> 0) \<longleftrightarrow> d \<noteq> \<lparr>Cols = 0, Rows = 0\<rparr>" for d by (cases d) simp
  show ?thesis
    unfolding manifest_Validate_def first_error_None by (simp add: cs dims dd del: first_error_None)
qed

end
