(* ===== verification/Config_Model.thy ===== *)
theory Config_Model
  imports Layout_Model Manifest
begin

text \<open>
  The configuration structures of \<^verbatim>\<open>internal/config/config.go\<close> and \<^verbatim>\<open>lkgc.go\<close>, their
  accessors with defaults, and the comparison of two configurations. A pointer is an option; a slice or
  map that the code distinguishes from nil is an option too. The cached \<^verbatim>\<open>time.Location\<close> of a configuration is
  left out: it is a function of the time zone.
\<close>

subsection \<open>Structures\<close>

record RotationConfig =
  rc_IntervalSeconds :: "int option"
  rc_Transition :: string
  rc_PauseOnTouch :: "bool option"
  rc_PauseDurationSeconds :: "int option"

record HeaderWeatherConfig =
  hwc_RefreshIntervalSeconds :: "int option"
  hwc_Latitude :: f64
  hwc_Longitude :: f64
  hwc_Units :: string
  hwc_Location :: string

record HeaderVideoConfig =
  hvc_Enabled :: "bool option"
  hvc_StreamID :: string
  hvc_StreamURL :: string
  hvc_ControlURL :: string
  hvc_Type :: string

record HeaderConfig =
  hc_Enabled :: "bool option"
  hc_Elements :: "string list option"
  hc_Weather :: "HeaderWeatherConfig option"
  hc_Video :: "HeaderVideoConfig option"

record GridConfig =
  gc_Columns :: int
  gc_Rows :: int

record VoiceWaveformConfig =
  vw_Enabled :: "bool option"
  vw_LevelsURL :: string
  vw_Gain :: "f64 option"

record DisplayVoiceConfig =
  dv_Waveform :: "VoiceWaveformConfig option"

record WidgetConfig =
  wc_ID :: string
  wc_Type :: string
  wc_Dimensions :: "int list option"
  wc_Pinned :: bool
  wc_RefreshIntervalSeconds :: "int option"
  wc_Endpoint :: string
  wc_Method :: string
  wc_TokenEnv :: string
  wc_Token :: string
  wc_Secrets :: "string \<rightharpoonup> string"
  wc_Config :: "any_map option"

record LocationConfig =
  lo_Name :: string
  lo_Latitude :: "f64 option"
  lo_Longitude :: "f64 option"

record ThemeConfig =
  th_Mode :: string

record ChatLogConfig =
  cl_TTLMinutes :: "int option"
  cl_MaxMessagesPerNode :: "int option"

record FastPathConfig =
  fp_URL :: string
  fp_TimeoutMS :: "int option"

record SpeakerFingerprint =
  sf_ID :: string
  sf_Embedding :: "f64 list"

record SpeakerIDConfig =
  si_EmbedURL :: string
  si_Model :: string
  si_Speakers :: "SpeakerFingerprint list"
  si_Threshold :: "f64 option"
  si_TimeoutSeconds :: "int option"

record VoiceHubConfig =
  vh_Enabled :: bool
  vh_STTURL :: string
  vh_BrainURL :: string
  vh_BrainTimeoutSeconds :: "int option"
  vh_TTSURL :: string
  vh_TTSVoice :: string
  vh_TTSModel :: string
  vh_TTSTimeoutSeconds :: "int option"
  vh_SpeakerID :: "SpeakerIDConfig option"
  vh_FastPath :: "FastPathConfig option"

record DisplayConfig =
  dc_UI :: string
  dc_HideCursor :: bool
  dc_RemoteURL :: string
  dc_AllowLayoutEdit :: "bool option"
  dc_LayoutOverridePath :: string
  dc_Rotation :: RotationConfig
  dc_Header :: HeaderConfig
  dc_Grid :: GridConfig
  dc_Widgets :: "WidgetConfig list"
  dc_Theme :: "ThemeConfig option"
  dc_Voice :: "DisplayVoiceConfig option"

record Config =
  cf_Host :: string
  cf_Port :: "int option"
  cf_Timezone :: string
  cf_LocationConfig :: "LocationConfig option"
  cf_Display :: DisplayConfig
  cf_VoiceHub :: "VoiceHubConfig option"
  cf_ChatLog :: "ChatLogConfig option"

record Snapshot =
  sn_Config :: "Config option"
  sn_Layout :: "Layout option"
  sn_Packages :: "string \<rightharpoonup> Package"
  sn_LoadedAt :: gotime
  sn_HasOverride :: bool

datatype ConfigStatus = ConfigStatusOK | ConfigStatusError | ConfigStatusOther string

record Status =
  st_ConfigStatus :: ConfigStatus
  st_ConfigError :: "string option"
  st_LastChecked :: gotime
  st_LastSuccess :: gotime

datatype InstanceChangeType = ChangeUnchanged | ChangeAdded | ChangeRemoved | ChangeModified | ChangeReplaced

record InstanceDiff =
  id_ID :: string
  id_Type :: string
  id_Change :: InstanceChangeType
  id_OldInstance :: WidgetConfig
  id_NewInstance :: WidgetConfig
  id_DomainChange :: bool

record ConfigDiff =
  cd_Unchanged :: "WidgetConfig list"
  cd_Added :: "WidgetConfig list"
  cd_Removed :: "WidgetConfig list"
  cd_LayoutModified :: "WidgetConfig list"
  cd_Modified :: "InstanceDiff list"
  cd_TimezoneChanged :: bool
  cd_ShellChanged :: bool

subsection \<open>Accessors\<close>

definition derefOr :: "'a option \<Rightarrow> 'a \<Rightarrow> 'a" where
  "derefOr p d = (case p of None \<Rightarrow> d | Some x \<Rightarrow> x)"

definition positiveIntOr :: "int option \<Rightarrow> int \<Rightarrow> int" where
  "positiveIntOr p d = (case p of None \<Rightarrow> d | Some x \<Rightarrow> if x \<le> 0 then d else x)"

definition trimmedOr :: "string \<Rightarrow> string \<Rightarrow> string" where
  "trimmedOr s d = (let t = TrimSpace s in if t = [] then d else t)"

definition GetIntervalSeconds :: "RotationConfig \<Rightarrow> int" where
  "GetIntervalSeconds r = derefOr (rc_IntervalSeconds r) 30"

definition GetPauseDurationSeconds :: "RotationConfig \<Rightarrow> int" where
  "GetPauseDurationSeconds r = derefOr (rc_PauseDurationSeconds r) 120"

definition IsLayoutEditAllowed :: "DisplayConfig \<Rightarrow> bool" where
  "IsLayoutEditAllowed dc = derefOr (dc_AllowLayoutEdit dc) True"

definition DefaultLayoutOverridePath :: string where
  "DefaultLayoutOverridePath = ''/data/layout-override.yaml''"

definition GetLayoutOverridePath :: "DisplayConfig \<Rightarrow> string" where
  "GetLayoutOverridePath dc = trimmedOr (dc_LayoutOverridePath dc) DefaultLayoutOverridePath"

subsection \<open>Comparing configurations\<close>

definition opt_eq :: "('a \<Rightarrow> 'a \<Rightarrow> bool) \<Rightarrow> 'a option \<Rightarrow> 'a option \<Rightarrow> bool" where
  "opt_eq eq a b = (case (a, b) of (None, None) \<Rightarrow> True | (Some x, Some y) \<Rightarrow> eq x y | _ \<Rightarrow> False)"

text \<open>\<^verbatim>\<open>reflect.DeepEqual\<close> at the types it is used with.\<close>

definition weather_deep_eq :: "HeaderWeatherConfig \<Rightarrow> HeaderWeatherConfig \<Rightarrow> bool" where
  "weather_deep_eq a b \<longleftrightarrow>
     hwc_RefreshIntervalSeconds a = hwc_RefreshIntervalSeconds b
     \<and> f64_eq (hwc_Latitude a) (hwc_Latitude b) \<and> f64_eq (hwc_Longitude a) (hwc_Longitude b)
     \<and> hwc_Units a = hwc_Units b \<and> hwc_Location a = hwc_Location b"

definition header_deep_eq :: "HeaderConfig \<Rightarrow> HeaderConfig \<Rightarrow> bool" where
  "header_deep_eq a b \<longleftrightarrow>
     hc_Enabled a = hc_Enabled b \<and> hc_Elements a = hc_Elements b
     \<and> opt_eq weather_deep_eq (hc_Weather a) (hc_Weather b) \<and> hc_Video a = hc_Video b"

definition waveform_deep_eq :: "VoiceWaveformConfig \<Rightarrow> VoiceWaveformConfig \<Rightarrow> bool" where
  "waveform_deep_eq a b \<longleftrightarrow>
     vw_Enabled a = vw_Enabled b \<and> vw_LevelsURL a = vw_LevelsURL b \<and> opt_eq f64_eq (vw_Gain a) (vw_Gain b)"

definition voice_deep_eq :: "DisplayVoiceConfig option \<Rightarrow> DisplayVoiceConfig option \<Rightarrow> bool" where
  "voice_deep_eq = opt_eq (\<lambda>a b. opt_eq waveform_deep_eq (dv_Waveform a) (dv_Waveform b))"

definition equalIntPtr :: "int option \<Rightarrow> int option \<Rightarrow> bool" where
  "equalIntPtr a b \<longleftrightarrow> a = None \<and> b = None \<or> a \<noteq> None \<and> b \<noteq> None \<and> the a = the b"

text \<open>The map built by \<^verbatim>\<open>widgetMap\<close>: the last widget with an identifier wins.\<close>

definition widgetMap :: "Config option \<Rightarrow> (string \<rightharpoonup> WidgetConfig) \<times> WidgetConfig list" where
  "widgetMap c =
     (case c of
        None \<Rightarrow> (Map.empty, [])
      | Some cfg \<Rightarrow>
          (foldl (\<lambda>m w. m(wc_ID w \<mapsto> w)) Map.empty (dc_Widgets (cf_Display cfg)), dc_Widgets (cf_Display cfg)))"

definition empty_diff :: ConfigDiff where
  "empty_diff = \<lparr>cd_Unchanged = [], cd_Added = [], cd_Removed = [], cd_LayoutModified = [],
     cd_Modified = [], cd_TimezoneChanged = False, cd_ShellChanged = False\<rparr>"

definition mk_diff :: "WidgetConfig \<Rightarrow> WidgetConfig \<Rightarrow> InstanceChangeType \<Rightarrow> bool \<Rightarrow> InstanceDiff" where
  "mk_diff oldW w change domainChange =
     \<lparr>id_ID = wc_ID w, id_Type = wc_Type w, id_Change = change, id_OldInstance = oldW,
      id_NewInstance = w, id_DomainChange = domainChange\<rparr>"

definition diff_widget :: "(string \<rightharpoonup> WidgetConfig) \<Rightarrow> ConfigDiff \<Rightarrow> WidgetConfig \<Rightarrow> ConfigDiff" where
  "diff_widget oldMap diff w =
     (case oldMap (wc_ID w) of
        None \<Rightarrow> diff\<lparr>cd_Added := cd_Added diff @ [w]\<rparr>
      | Some oldW \<Rightarrow>
          if wc_Type oldW \<noteq> wc_Type w
          then diff\<lparr>cd_Modified := cd_Modified diff @ [mk_diff oldW w ChangeReplaced True]\<rparr>
          else if \<not> any_map_deep_eq (wc_Config oldW) (wc_Config w)
          then diff\<lparr>cd_Modified := cd_Modified diff @ [mk_diff oldW w ChangeModified True]\<rparr>
          else if wc_Endpoint oldW \<noteq> wc_Endpoint w \<or> wc_Method oldW \<noteq> wc_Method w
             \<or> wc_TokenEnv oldW \<noteq> wc_TokenEnv w
             \<or> \<not> equalIntPtr (wc_RefreshIntervalSeconds oldW) (wc_RefreshIntervalSeconds w)
          then diff\<lparr>cd_Modified := cd_Modified diff @ [mk_diff oldW w ChangeModified False]\<rparr>
          else let diff' = diff\<lparr>cd_Unchanged := cd_Unchanged diff @ [w]\<rparr> in
            if wc_Dimensions oldW \<noteq> wc_Dimensions w \<or> wc_Pinned oldW \<noteq> wc_Pinned w
            then diff'\<lparr>cd_LayoutModified := cd_LayoutModified diff' @ [w]\<rparr> else diff')"

definition shell_changed :: "DisplayConfig \<Rightarrow> DisplayConfig \<Rightarrow> bool" where
  "shell_changed a b \<longleftrightarrow>
     \<not> header_deep_eq (dc_Header a) (dc_Header b) \<or> dc_Grid a \<noteq> dc_Grid b
     \<or> dc_HideCursor a \<noteq> dc_HideCursor b \<or> dc_RemoteURL a \<noteq> dc_RemoteURL b
     \<or> \<not> voice_deep_eq (dc_Voice a) (dc_Voice b)"

definition DiffConfigs :: "Config option \<Rightarrow> Config option \<Rightarrow> ConfigDiff" where
  "DiffConfigs oldCfg newCfg =
     (let (oldMap, oldWidgets) = widgetMap oldCfg;
          (newMap, newWidgets) = widgetMap newCfg;
          diff = (case (oldCfg, newCfg) of
              (Some a, Some b) \<Rightarrow> empty_diff\<lparr>cd_TimezoneChanged := cf_Timezone a \<noteq> cf_Timezone b,
                 cd_ShellChanged := shell_changed (cf_Display a) (cf_Display b)\<rparr>
            | _ \<Rightarrow> empty_diff);
          diff' = foldl (diff_widget oldMap) diff newWidgets
      in diff'\<lparr>cd_Removed := filter (\<lambda>w. newMap (wc_ID w) = None) oldWidgets\<rparr>)"

end
