(* ===== verification/Config_Defaults.thy ===== *)
theory Config_Defaults
  imports Config_Model
begin

text \<open>
  \<^verbatim>\<open>internal/config/config.go\<close>: the accessors that supply a default for a setting that is missing, and
  \<^verbatim>\<open>applyDefaults\<close>, which fills them in after decoding.
\<close>

subsection \<open>Letter case\<close>

text \<open>\<^verbatim>\<open>strings.ToLower\<close> and \<^verbatim>\<open>strings.ToUpper\<close> on the bytes of a string. The results are only compared with
  ASCII words, so beside the ASCII letters only those other letters are mapped whose lower or upper case is an ASCII
  letter: the Kelvin sign and the dotted capital I, the long s and the dotless i.\<close>

function lower_bytes :: "nat list \<Rightarrow> nat list" where
  "lower_bytes [] = []"
| "lower_bytes (b # bs) =
     (if b = 0xC4 \<and> take 1 bs = [0xB0] then 105 # lower_bytes (drop 1 bs)
      else if b = 0xE2 \<and> take 2 bs = [0x84, 0xAA] then 107 # lower_bytes (drop 2 bs)
      else (if 65 \<le> b \<and> b \<le> 90 then b + 32 else b) # lower_bytes bs)"
  by pat_completeness auto
termination
  by (relation "measure length") auto

function upper_bytes :: "nat list \<Rightarrow> nat list" where
  "upper_bytes [] = []"
| "upper_bytes (b # bs) =
     (if b = 0xC5 \<and> take 1 bs = [0xBF] then 83 # upper_bytes (drop 1 bs)
      else if b = 0xC4 \<and> take 1 bs = [0xB1] then 73 # upper_bytes (drop 1 bs)
      else (if 97 \<le> b \<and> b \<le> 122 then b - 32 else b) # upper_bytes bs)"
  by pat_completeness auto
termination
  by (relation "measure length") auto

definition ToLower :: "string \<Rightarrow> string" where
  "ToLower s = map char_of (lower_bytes (map of_char s))"

definition ToUpper :: "string \<Rightarrow> string" where
  "ToUpper s = map char_of (upper_bytes (map of_char s))"

subsection \<open>Accessors\<close>

text \<open>A receiver that may be nil is an option.\<close>

definition GetUI :: "DisplayConfig \<Rightarrow> string" where
  "GetUI dc = ToLower (trimmedOr (dc_UI dc) ''react'')"

definition waveform_IsEnabled :: "VoiceWaveformConfig option \<Rightarrow> bool" where
  "waveform_IsEnabled vw = (case vw of None \<Rightarrow> False | Some w \<Rightarrow> derefOr (vw_Enabled w) False)"

definition default_levels_url :: string where
  "default_levels_url = ''http://127.0.0.1:8765/levels''"

definition GetLevelsURL :: "VoiceWaveformConfig option \<Rightarrow> string" where
  "GetLevelsURL vw = (case vw of None \<Rightarrow> default_levels_url | Some w \<Rightarrow> trimmedOr (vw_LevelsURL w) default_levels_url)"

definition default_gain :: f64 where "default_gain = 0x400199999999999A"

definition GetGain :: "VoiceWaveformConfig option \<Rightarrow> f64" where
  "GetGain vw = (case vw of None \<Rightarrow> default_gain | Some w \<Rightarrow> derefOr (vw_Gain w) default_gain)"

definition GetLatitude :: "LocationConfig option \<Rightarrow> f64" where
  "GetLatitude lc = (case lc of None \<Rightarrow> f64_zero | Some l \<Rightarrow> derefOr (lo_Latitude l) f64_zero)"

definition GetLongitude :: "LocationConfig option \<Rightarrow> f64" where
  "GetLongitude lc = (case lc of None \<Rightarrow> f64_zero | Some l \<Rightarrow> derefOr (lo_Longitude l) f64_zero)"

definition GetMode :: "ThemeConfig option \<Rightarrow> string" where
  "GetMode tc = (case tc of None \<Rightarrow> ''day'' | Some t \<Rightarrow> ToLower (trimmedOr (th_Mode t) ''day''))"

definition f64_nonzero :: "f64 \<Rightarrow> bool" where
  "f64_nonzero x \<longleftrightarrow> \<not> f64_eq x f64_zero"

definition GetLocationConfig :: "Config \<Rightarrow> LocationConfig option" where
  "GetLocationConfig c =
     (case cf_LocationConfig c of
        Some l \<Rightarrow> Some l
      | None \<Rightarrow> (case hc_Weather (dc_Header (cf_Display c)) of
          None \<Rightarrow> None
        | Some hw \<Rightarrow>
            if f64_nonzero (hwc_Latitude hw) \<or> f64_nonzero (hwc_Longitude hw)
            then Some \<lparr>lo_Name = hwc_Location hw, lo_Latitude = Some (hwc_Latitude hw), lo_Longitude = Some (hwc_Longitude hw)\<rparr>
            else None))"

definition video_IsEnabled :: "HeaderVideoConfig option \<Rightarrow> bool" where
  "video_IsEnabled hv = (case hv of None \<Rightarrow> False | Some h \<Rightarrow> derefOr (hvc_Enabled h) False)"

definition GetStreamID :: "HeaderVideoConfig option \<Rightarrow> string" where
  "GetStreamID hv = (case hv of None \<Rightarrow> ''chromecast'' | Some h \<Rightarrow> trimmedOr (hvc_StreamID h) ''chromecast'')"

definition GetType :: "HeaderVideoConfig option \<Rightarrow> string" where
  "GetType hv = (case hv of None \<Rightarrow> ''webrtc'' | Some h \<Rightarrow> trimmedOr (hvc_Type h) ''webrtc'')"

definition GetRefreshIntervalSeconds :: "HeaderWeatherConfig option \<Rightarrow> int" where
  "GetRefreshIntervalSeconds hw = (case hw of None \<Rightarrow> 900 | Some h \<Rightarrow> derefOr (hwc_RefreshIntervalSeconds h) 900)"

text \<open>The lifetime is a product of two \<^verbatim>\<open>int64\<close>, which wraps.\<close>

definition GetTTL :: "ChatLogConfig option \<Rightarrow> duration" where
  "GetTTL c = (case c of None \<Rightarrow> 20 * (60 * second)
     | Some l \<Rightarrow> wrap64 (positiveIntOr (cl_TTLMinutes l) 20 * (60 * second)))"

definition GetMaxMessagesPerNode :: "ChatLogConfig option \<Rightarrow> int" where
  "GetMaxMessagesPerNode c = (case c of None \<Rightarrow> 50 | Some l \<Rightarrow> positiveIntOr (cl_MaxMessagesPerNode l) 50)"

definition fastpath_IsEnabled :: "FastPathConfig option \<Rightarrow> bool" where
  "fastpath_IsEnabled f = (case f of None \<Rightarrow> False | Some p \<Rightarrow> TrimSpace (fp_URL p) \<noteq> [])"

definition GetTimeoutMS :: "FastPathConfig option \<Rightarrow> int" where
  "GetTimeoutMS f = (case f of None \<Rightarrow> 800 | Some p \<Rightarrow> positiveIntOr (fp_TimeoutMS p) 800)"

definition speaker_IsEnabled :: "SpeakerIDConfig option \<Rightarrow> bool" where
  "speaker_IsEnabled s = (case s of None \<Rightarrow> False | Some c \<Rightarrow> TrimSpace (si_EmbedURL c) \<noteq> [] \<and> si_Speakers c \<noteq> [])"

definition default_threshold :: f64 where "default_threshold = 0x3FE6666666666666"

definition GetThreshold :: "SpeakerIDConfig option \<Rightarrow> f64" where
  "GetThreshold s = (case s of None \<Rightarrow> default_threshold | Some c \<Rightarrow> derefOr (si_Threshold c) default_threshold)"

definition speaker_GetTimeoutSeconds :: "SpeakerIDConfig option \<Rightarrow> int" where
  "speaker_GetTimeoutSeconds s = (case s of None \<Rightarrow> 5 | Some c \<Rightarrow> positiveIntOr (si_TimeoutSeconds c) 5)"

definition voicehub_IsEnabled :: "VoiceHubConfig option \<Rightarrow> bool" where
  "voicehub_IsEnabled vh = (case vh of None \<Rightarrow> False | Some v \<Rightarrow> vh_Enabled v)"

definition GetBrainTimeoutSeconds :: "VoiceHubConfig option \<Rightarrow> int" where
  "GetBrainTimeoutSeconds vh = (case vh of None \<Rightarrow> 30 | Some v \<Rightarrow> positiveIntOr (vh_BrainTimeoutSeconds v) 30)"

definition GetTTSTimeoutSeconds :: "VoiceHubConfig option \<Rightarrow> int" where
  "GetTTSTimeoutSeconds vh = (case vh of None \<Rightarrow> 10 | Some v \<Rightarrow> positiveIntOr (vh_TTSTimeoutSeconds v) 10)"

definition GetTTSVoice :: "VoiceHubConfig option \<Rightarrow> string" where
  "GetTTSVoice vh = (case vh of None \<Rightarrow> ''af_bella'' | Some v \<Rightarrow> trimmedOr (vh_TTSVoice v) ''af_bella'')"

definition GetTTSModel :: "VoiceHubConfig option \<Rightarrow> string" where
  "GetTTSModel vh = (case vh of None \<Rightarrow> ''kokoro'' | Some v \<Rightarrow> trimmedOr (vh_TTSModel v) ''kokoro'')"

definition header_IsEnabled :: "HeaderConfig option \<Rightarrow> bool" where
  "header_IsEnabled h = (case h of None \<Rightarrow> True | Some c \<Rightarrow> derefOr (hc_Enabled c) True)"

definition DefaultHeaderElements :: "string list" where
  "DefaultHeaderElements = [''clock'', ''date'', ''weather_badge'', ''sync_status'']"

subsection \<open>Filling in defaults\<close>

definition forecast_defaults :: "f64 \<Rightarrow> f64 \<Rightarrow> string \<Rightarrow> WidgetConfig \<Rightarrow> WidgetConfig" where
  "forecast_defaults lat lon nm w =
     (if wc_Type w \<noteq> ''weather-forecast'' then w
      else let m0 = derefOr (wc_Config w) [];
               m1 = (if any_get ''latitude'' m0 = ANil then any_put ''latitude'' (AFloat lat) m0 else m0);
               m2 = (if any_get ''longitude'' m1 = ANil then any_put ''longitude'' (AFloat lon) m1 else m1);
               m3 = (if any_get ''name'' m2 = ANil \<and> any_get ''location_name'' m2 = ANil \<and> nm \<noteq> []
                     then any_put ''location_name'' (AStr nm) m2 else m2)
           in w\<lparr>wc_Config := Some m3\<rparr>)"

definition applyWeatherForecastDefaults :: "f64 \<Rightarrow> f64 \<Rightarrow> string \<Rightarrow> DisplayConfig \<Rightarrow> DisplayConfig" where
  "applyWeatherForecastDefaults lat lon nm dc = dc\<lparr>dc_Widgets := map (forecast_defaults lat lon nm) (dc_Widgets dc)\<rparr>"

definition weather_location :: "f64 \<Rightarrow> f64 \<Rightarrow> string \<Rightarrow> HeaderWeatherConfig \<Rightarrow> HeaderWeatherConfig" where
  "weather_location lat lon nm hw0 =
     (let hw = (if f64_eq (hwc_Latitude hw0) f64_zero \<and> f64_eq (hwc_Longitude hw0) f64_zero
                then hw0\<lparr>hwc_Latitude := lat, hwc_Longitude := lon\<rparr> else hw0)
      in if hwc_Location hw = [] \<and> nm \<noteq> [] then hw\<lparr>hwc_Location := nm\<rparr> else hw)"

definition set_weather :: "HeaderWeatherConfig option \<Rightarrow> DisplayConfig \<Rightarrow> DisplayConfig" where
  "set_weather hw dc = dc\<lparr>dc_Header := (dc_Header dc)\<lparr>hc_Weather := hw\<rparr>\<rparr>"

definition applyConfiguredLocation :: "f64 \<Rightarrow> f64 \<Rightarrow> string \<Rightarrow> DisplayConfig \<Rightarrow> DisplayConfig" where
  "applyConfiguredLocation lat lon nm dc =
     applyWeatherForecastDefaults lat lon nm
       (set_weather (map_option (weather_location lat lon nm) (hc_Weather (dc_Header dc))) dc)"

definition applyLocationDefaults :: "Config \<Rightarrow> Config" where
  "applyLocationDefaults c =
     (let given = (case cf_LocationConfig c of
            Some lc \<Rightarrow> (case (lo_Latitude lc, lo_Longitude lc) of
                (Some lat, Some lon) \<Rightarrow> Some (lat, lon, lo_Name lc) | _ \<Rightarrow> None)
          | None \<Rightarrow> None)
      in case given of
        Some (lat, lon, nm) \<Rightarrow> c\<lparr>cf_Display := applyConfiguredLocation lat lon nm (cf_Display c)\<rparr>
      | None \<Rightarrow> (case hc_Weather (dc_Header (cf_Display c)) of
          None \<Rightarrow> c
        | Some hw \<Rightarrow>
            if f64_eq (hwc_Latitude hw) f64_zero \<and> f64_eq (hwc_Longitude hw) f64_zero then c
            else (case cf_LocationConfig c of
              None \<Rightarrow> c\<lparr>cf_LocationConfig := Some \<lparr>lo_Name = hwc_Location hw, lo_Latitude = Some (hwc_Latitude hw),
                                                  lo_Longitude = Some (hwc_Longitude hw)\<rparr>\<rparr>
            | Some lc \<Rightarrow> c\<lparr>cf_LocationConfig := Some
                \<lparr>lo_Name = (if lo_Name lc = [] then hwc_Location hw else lo_Name lc),
                 lo_Latitude = Some (derefOr (lo_Latitude lc) (hwc_Latitude hw)),
                 lo_Longitude = Some (derefOr (lo_Longitude lc) (hwc_Longitude hw))\<rparr>\<rparr>)))"

definition weather_defaults :: "HeaderWeatherConfig \<Rightarrow> HeaderWeatherConfig" where
  "weather_defaults hw =
     hw\<lparr>hwc_Units := (if hwc_Units hw = [] then ''imperial'' else hwc_Units hw),
        hwc_RefreshIntervalSeconds := Some (derefOr (hwc_RefreshIntervalSeconds hw) 900)\<rparr>"

definition applyHeaderAndThemeDefaults :: "DisplayConfig \<Rightarrow> DisplayConfig" where
  "applyHeaderAndThemeDefaults dc =
     (let h = dc_Header dc in
      dc\<lparr>dc_Header := h\<lparr>hc_Weather := map_option weather_defaults (hc_Weather h),
                        hc_Elements := Some (derefOr (hc_Elements h) DefaultHeaderElements)\<rparr>,
         dc_Theme := Some (case dc_Theme dc of None \<Rightarrow> \<lparr>th_Mode = ''day''\<rparr>
           | Some t \<Rightarrow> if th_Mode t = [] then t\<lparr>th_Mode := ''day''\<rparr> else t)\<rparr>)"

definition display_defaults :: "DisplayConfig \<Rightarrow> DisplayConfig" where
  "display_defaults dc =
     dc\<lparr>dc_Rotation := (dc_Rotation dc)\<lparr>rc_Transition :=
           (if rc_Transition (dc_Rotation dc) = [] then ''slide'' else rc_Transition (dc_Rotation dc))\<rparr>,
        dc_Grid := \<lparr>gc_Columns = (if gc_Columns (dc_Grid dc) = 0 then 6 else gc_Columns (dc_Grid dc)),
                    gc_Rows = (if gc_Rows (dc_Grid dc) = 0 then 2 else gc_Rows (dc_Grid dc))\<rparr>\<rparr>"

definition applyDefaults :: "Config \<Rightarrow> Config" where
  "applyDefaults c0 =
     (let c1 = applyLocationDefaults (c0\<lparr>cf_Display := display_defaults (cf_Display c0)\<rparr>)
      in c1\<lparr>cf_Display := applyHeaderAndThemeDefaults (cf_Display c1)\<rparr>)"

end
