(* ===== verification/Config_Yaml.thy ===== *)
theory Config_Yaml
  imports Config_Defaults
begin

text \<open>
  \<^verbatim>\<open>internal/config/config.go\<close> and \<^verbatim>\<open>lkgc.go\<close>: the first stage of validation, on the nodes of the YAML
  document. The parser and the decoder of \<^verbatim>\<open>gopkg.in/yaml.v3\<close> are parameters. A mapping node lists its keys and
  values alternately.
\<close>

datatype yaml_kind = DocumentNode | SequenceNode | MappingNode | ScalarNode | AliasNode

datatype yaml_node = Node (yn_Kind: yaml_kind) (yn_Value: string) (yn_Line: int) (yn_Content: "yaml_node list")

datatype yaml_error =
    EmptyConfig
  | SyntaxError
  | NotMapping
  | Interpolation int string
  | DisallowedKey int string
  | UnknownKey int string
  | DecodeFailed

text \<open>A match of the regular expression \<^verbatim>\<open>\$\{([^}]+)\}\<close> at the front of a string, and anywhere in it.\<close>

definition interpolation_here :: "string \<Rightarrow> bool" where
  "interpolation_here s \<longleftrightarrow> take 2 s = ''${'' \<and>
     (let body = takeWhile (\<lambda>c. c \<noteq> CHR ''}'') (drop 2 s) in body \<noteq> [] \<and> 2 + length body < length s)"

fun has_interpolation :: "string \<Rightarrow> bool" where
  "has_interpolation [] \<longleftrightarrow> False"
| "has_interpolation (c # cs) \<longleftrightarrow> interpolation_here (c # cs) \<or> has_interpolation cs"

fun checkNodeForInterpolation :: "yaml_node \<Rightarrow> yaml_error option" where
  "checkNodeForInterpolation (Node kind v line content) =
     (if kind = ScalarNode \<and> has_interpolation v then Some (Interpolation line v)
      else first_error (map checkNodeForInterpolation content))"

fun key_values :: "yaml_node list \<Rightarrow> (yaml_node \<times> yaml_node) list" where
  "key_values (k # v # ns) = (k, v) # key_values ns"
| "key_values _ = []"

definition waveform_keys :: "string list" where
  "waveform_keys = [''enabled'', ''levels_url'', ''gain'']"

definition check_waveform :: "yaml_node \<Rightarrow> yaml_error option" where
  "check_waveform n =
     (if yn_Kind n \<noteq> MappingNode then None
      else first_error (map (\<lambda>(k, _). if yn_Value k \<in> set waveform_keys then None else Some (UnknownKey (yn_Line k) (yn_Value k)))
        (key_values (yn_Content n))))"

definition validateVoiceKeys :: "yaml_node \<Rightarrow> yaml_error option" where
  "validateVoiceKeys n =
     (if yn_Kind n \<noteq> MappingNode then None
      else first_error (map (\<lambda>(k, v). if yn_Value k \<noteq> ''waveform'' then Some (UnknownKey (yn_Line k) (yn_Value k))
        else check_waveform v) (key_values (yn_Content n))))"

definition display_keys :: "string list" where
  "display_keys = [''rotation'', ''grid'', ''header'', ''widgets'', ''hide_cursor'', ''remote_url'', ''theme'', ''ui'',
     ''allow_layout_edit'', ''layout_override_path'']"

definition check_display_key :: "yaml_node \<times> yaml_node \<Rightarrow> yaml_error option" where
  "check_display_key kv =
     (let (k, v) = kv; key = yn_Value k in
      if key = ''screens'' \<or> key = ''providers'' then Some (DisallowedKey (yn_Line k) key)
      else if key = ''voice'' then validateVoiceKeys v
      else if key \<in> set display_keys then None
      else Some (UnknownKey (yn_Line k) key))"

definition validateDisplayKeys :: "yaml_node \<Rightarrow> yaml_error option" where
  "validateDisplayKeys n = first_error (map check_display_key (key_values (yn_Content n)))"

definition top_keys :: "string list" where
  "top_keys = [''timezone'', ''host'', ''port'', ''voice_hub'', ''chat_log'', ''location'']"

definition check_top_key :: "yaml_node \<times> yaml_node \<Rightarrow> yaml_error option" where
  "check_top_key kv =
     (let (k, v) = kv; key = yn_Value k in
      if key = ''screens'' \<or> key = ''providers'' \<or> key = ''header'' then Some (DisallowedKey (yn_Line k) key)
      else if key \<in> set top_keys then None
      else if key = ''display'' then (if yn_Kind v = MappingNode then validateDisplayKeys v else None)
      else Some (UnknownKey (yn_Line k) key))"

definition validateStructuralKeys :: "yaml_node \<Rightarrow> yaml_error option" where
  "validateStructuralKeys root =
     (case yn_Content root of
        [] \<Rightarrow> Some EmptyConfig
      | topNode # _ \<Rightarrow>
          if yn_Kind topNode \<noteq> MappingNode then Some NotMapping
          else first_error (map check_top_key (key_values (yn_Content topNode))))"

text \<open>\<^verbatim>\<open>yaml.Unmarshal\<close> into a node, and \<^verbatim>\<open>Node.Decode\<close> into a configuration.\<close>

record yaml_lib =
  yl_Unmarshal :: "string \<Rightarrow> yaml_node option"
  yl_Decode :: "yaml_node \<Rightarrow> Config option"

definition parseYAMLStage :: "yaml_lib \<Rightarrow> string \<Rightarrow> yaml_error + Config" where
  "parseYAMLStage lib data =
     (if TrimSpace data = [] then Inl EmptyConfig
      else case yl_Unmarshal lib data of
        None \<Rightarrow> Inl SyntaxError
      | Some root \<Rightarrow> (case checkNodeForInterpolation root of
          Some e \<Rightarrow> Inl e
        | None \<Rightarrow> (case validateStructuralKeys root of
            Some e \<Rightarrow> Inl e
          | None \<Rightarrow> (case yl_Decode lib root of
              None \<Rightarrow> Inl DecodeFailed
            | Some cfg \<Rightarrow> Inr (applyDefaults cfg)))))"

section \<open>What the first stage lets through\<close>

inductive subnode :: "yaml_node \<Rightarrow> yaml_node \<Rightarrow> bool" where
  here: "subnode n n"
| child: "c \<in> set (yn_Content n) \<Longrightarrow> subnode c m \<Longrightarrow> subnode n m"

lemma subnode_Node: "subnode (Node k v l cs) m \<longleftrightarrow> m = Node k v l cs \<or> (\<exists>c \<in> set cs. subnode c m)"
  by (subst subnode.simps) auto

lemma no_interpolation_iff:
  "checkNodeForInterpolation n = None \<longleftrightarrow> (\<forall>m. subnode n m \<longrightarrow> \<not> (yn_Kind m = ScalarNode \<and> has_interpolation (yn_Value m)))"
proof (induction n rule: checkNodeForInterpolation.induct)
  case (1 kind v line content)
  then show ?case by (auto simp: subnode_Node first_error_map simp del: first_error_None)
qed

text \<open>Which keys a mapping has, and the value of one.\<close>

definition node_keys :: "yaml_node \<Rightarrow> string set" where
  "node_keys n = (yn_Value \<circ> fst) ` set (key_values (yn_Content n))"

definition node_at :: "string \<Rightarrow> yaml_node \<Rightarrow> yaml_node \<Rightarrow> bool" where
  "node_at k n v \<longleftrightarrow> (\<exists>kn. (kn, v) \<in> set (key_values (yn_Content n)) \<and> yn_Value kn = k \<and> yn_Kind v = MappingNode)"

text \<open>A loop over the keys of a mapping, one of which may have a mapping of its own.\<close>

lemma keys_loop:
  assumes "\<And>k v. f (k, v) = None \<longleftrightarrow> yn_Value k \<in> S \<and> (yn_Value k = a \<longrightarrow> yn_Kind v = MappingNode \<longrightarrow> Q v)"
  shows "first_error (map f (key_values (yn_Content n))) = None \<longleftrightarrow>
    node_keys n \<subseteq> S \<and> (\<forall>v. node_at a n v \<longrightarrow> Q v)"
proof -
  have "first_error (map f (key_values (yn_Content n))) = None \<longleftrightarrow>
      (\<forall>(k, v) \<in> set (key_values (yn_Content n)). yn_Value k \<in> S \<and> (yn_Value k = a \<longrightarrow> yn_Kind v = MappingNode \<longrightarrow> Q v))"
    unfolding first_error_map using assms by (auto split: prod.split)
  then show ?thesis by (auto simp: node_keys_def node_at_def)
qed

lemma waveform_ok: "check_waveform n = None \<longleftrightarrow> (if yn_Kind n = MappingNode then node_keys n \<subseteq> set waveform_keys else True)"
  using keys_loop [where f = "\<lambda>(k, _). if yn_Value k \<in> set waveform_keys then None else Some (UnknownKey (yn_Line k) (yn_Value k))"
      and S = "set waveform_keys" and Q = "\<lambda>_. True" and n = n and a = "[]"]
  by (simp add: check_waveform_def del: first_error_None)

definition voice_keys_ok :: "yaml_node \<Rightarrow> bool" where
  "voice_keys_ok n \<longleftrightarrow> node_keys n \<subseteq> {''waveform''}
     \<and> (\<forall>w. node_at ''waveform'' n w \<longrightarrow> node_keys w \<subseteq> set waveform_keys)"

definition display_keys_ok :: "yaml_node \<Rightarrow> bool" where
  "display_keys_ok n \<longleftrightarrow> node_keys n \<subseteq> set (''voice'' # display_keys) \<and> (\<forall>v. node_at ''voice'' n v \<longrightarrow> voice_keys_ok v)"

lemma voice_ok: "yn_Kind n = MappingNode \<Longrightarrow> validateVoiceKeys n = None \<longleftrightarrow> voice_keys_ok n"
  unfolding voice_keys_ok_def validateVoiceKeys_def
  by (simp del: first_error_None, rule keys_loop) (auto simp: waveform_ok)

lemma display_ok: "validateDisplayKeys n = None \<longleftrightarrow> display_keys_ok n"
  unfolding display_keys_ok_def validateDisplayKeys_def
  by (rule keys_loop) (auto simp: check_display_key_def display_keys_def validateVoiceKeys_def Let_def
      simp flip: voice_ok simp del: first_error_None)

text \<open>The first stage of validation passes exactly the documents that are not blank, that the YAML library
  reads and decodes, in which no scalar at any depth contains an interpolation \<^verbatim>\<open>${...}\<close>, whose root is a mapping, and
  in which every key at the top, under \<^verbatim>\<open>display\<close>, under \<^verbatim>\<open>display.voice\<close> and under its \<^verbatim>\<open>waveform\<close> is one
  the program knows. What it returns is the decoded configuration with defaults filled in.\<close>

lemma yaml_stage_iff:
  "parseYAMLStage lib data = Inr cfg \<longleftrightarrow>
     TrimSpace data \<noteq> [] \<and> (\<exists>root topNode rest cfg0. yl_Unmarshal lib data = Some root
       \<and> {m. subnode root m \<and> yn_Kind m = ScalarNode \<and> has_interpolation (yn_Value m)} = {}
       \<and> yn_Content root = topNode # rest \<and> yn_Kind topNode = MappingNode
       \<and> node_keys topNode \<subseteq> set (''display'' # top_keys) \<and> {d. node_at ''display'' topNode d} \<subseteq> {d. display_keys_ok d}
       \<and> yl_Decode lib root = Some cfg0 \<and> cfg = applyDefaults cfg0)"
proof -
  have keys: "first_error (map check_top_key (key_values (yn_Content n))) = None \<longleftrightarrow>
      node_keys n \<subseteq> set (''display'' # top_keys) \<and> {d. node_at ''display'' n d} \<subseteq> {d. display_keys_ok d}" for n
    by (subst keys_loop [where a = "''display''" and Q = display_keys_ok and S = "set (''display'' # top_keys)"])
      (auto simp: check_top_key_def top_keys_def Let_def display_ok)
  have structural: "validateStructuralKeys root = None \<longleftrightarrow> (\<exists>topNode rest. yn_Content root = topNode # rest
      \<and> yn_Kind topNode = MappingNode \<and> node_keys topNode \<subseteq> set (''display'' # top_keys)
      \<and> {d. node_at ''display'' topNode d} \<subseteq> {d. display_keys_ok d})" for root
    by (simp add: validateStructuralKeys_def keys del: first_error_None split: list.split)
  have scalars: "checkNodeForInterpolation root = None \<longleftrightarrow>
      {m. subnode root m \<and> yn_Kind m = ScalarNode \<and> has_interpolation (yn_Value m)} = {}" for root
    by (auto simp: no_interpolation_iff)
  show ?thesis
  proof (cases "TrimSpace data = [] \<or> yl_Unmarshal lib data = None")
    case True
    then show ?thesis by (auto simp: parseYAMLStage_def)
  next
    case False
    then obtain root where root: "yl_Unmarshal lib data = Some root" by auto
    then have "parseYAMLStage lib data = Inr cfg \<longleftrightarrow> checkNodeForInterpolation root = None
        \<and> validateStructuralKeys root = None \<and> (\<exists>cfg0. yl_Decode lib root = Some cfg0 \<and> cfg = applyDefaults cfg0)"
      using False by (auto simp: parseYAMLStage_def split: option.splits)
    then show ?thesis using root False unfolding scalars structural by auto
  qed
qed

end
