(* ===== verification/Config_Validate.thy ===== *)
theory Config_Validate
  imports Config_Defaults
begin

text \<open>
  \<^verbatim>\<open>internal/config/config.go\<close>: \<^verbatim>\<open>Validate\<close> and its helpers. The time zone database and
  \<^verbatim>\<open>url.ParseRequestURI\<close> are parameters: whether a zone is known, and the scheme and host of a string that is a
  request URI. An error is the condition its message reports; a check gives \<^const>\<open>None\<close> when it passes.
\<close>

record platform =
  pf_LoadLocation :: "string \<Rightarrow> bool"
  pf_ParseRequestURI :: "string \<Rightarrow> (string \<times> string) option"

datatype config_error =
    MissingTimezone
  | UnknownTimezone string
  | NotPositive string int
  | NegativeInt string int
  | BadLatitude string f64
  | BadLongitude string f64
  | BadGrid int int
  | DimensionCount string
  | DimensionBounds string int int
  | BadTransition string
  | BadThemeMode string
  | AutoThemeNeedsLocation
  | BadUI string
  | BadUnits string
  | BadLevelsURL string
  | BadGain f64
  | MissingID nat
  | DuplicateID string nat nat
  | MissingType string
  | BadMethod string string
  | BadEndpoint string string
  | BadFastPathURL string
  | MissingEmbedURL
  | BadThreshold f64
  | EmptySpeakerID nat
  | DuplicateSpeaker string
  | EmptyEmbedding string
  | NotFiniteEmbedding string
  | ZeroEmbedding string
  | SpeakerDimension string nat nat
  | UnsetTokenEnv string string
  | BothKeys string string string
  | BadEnvName string string
  | UnsetEnv string string string

definition isValidHTTPURL :: "platform \<Rightarrow> string \<Rightarrow> bool" where
  "isValidHTTPURL pf raw \<longleftrightarrow> raw \<noteq> [] \<and> raw = TrimSpace raw \<and>
     (case pf_ParseRequestURI pf raw of None \<Rightarrow> False
      | Some (scheme, host) \<Rightarrow> (scheme = ''http'' \<or> scheme = ''https'') \<and> host \<noteq> [])"

definition checkPositiveInt :: "int option \<Rightarrow> string \<Rightarrow> config_error option" where
  "checkPositiveInt p label = (case p of None \<Rightarrow> None | Some i \<Rightarrow> if i \<le> 0 then Some (NotPositive label i) else None)"

definition checkNonNegativeInt :: "int option \<Rightarrow> string \<Rightarrow> config_error option" where
  "checkNonNegativeInt p label = (case p of None \<Rightarrow> None | Some i \<Rightarrow> if i < 0 then Some (NegativeInt label i) else None)"

definition checkLatLon :: "f64 \<Rightarrow> f64 \<Rightarrow> string \<Rightarrow> config_error option" where
  "checkLatLon lat lon prefix =
     (if f64_less lat f64_m90 \<or> f64_less f64_90 lat then Some (BadLatitude prefix lat)
      else if f64_less lon f64_m180 \<or> f64_less f64_180 lon then Some (BadLongitude prefix lon)
      else None)"

definition validateGridAndWidgetDimensions :: "GridConfig \<Rightarrow> string \<Rightarrow> int list \<Rightarrow> config_error option" where
  "validateGridAndWidgetDimensions grid widgetID dims =
     (if (gc_Columns grid \<noteq> 6 \<or> gc_Rows grid \<noteq> 2) \<and> (gc_Columns grid \<noteq> 3 \<or> gc_Rows grid \<noteq> 6)
      then Some (BadGrid (gc_Columns grid) (gc_Rows grid))
      else if dims = [] then None
      else if length dims \<noteq> 2 then Some (DimensionCount widgetID)
      else if dims ! 0 < 1 \<or> dims ! 0 > gc_Columns grid \<or> dims ! 1 < 1 \<or> dims ! 1 > gc_Rows grid
      then Some (DimensionBounds widgetID (dims ! 0) (dims ! 1))
      else None)"

definition validateTheme :: "Config \<Rightarrow> config_error option" where
  "validateTheme c =
     (case dc_Theme (cf_Display c) of
        None \<Rightarrow> None
      | Some tc \<Rightarrow>
          let mode = GetMode (Some tc) in
          if mode \<notin> set [''auto'', ''day'', ''night''] then Some (BadThemeMode (th_Mode tc))
          else if mode = ''auto'' then
            (case GetLocationConfig c of
               None \<Rightarrow> Some AutoThemeNeedsLocation
             | Some l \<Rightarrow> if lo_Latitude l = None \<or> lo_Longitude l = None then Some AutoThemeNeedsLocation else None)
          else None)"

definition validateUI :: "Config \<Rightarrow> config_error option" where
  "validateUI c = (if GetUI (cf_Display c) \<in> set [''legacy'', ''react''] then None else Some (BadUI (dc_UI (cf_Display c))))"

definition validateHeaderWeather :: "Config \<Rightarrow> config_error option" where
  "validateHeaderWeather c =
     (case hc_Weather (dc_Header (cf_Display c)) of
        None \<Rightarrow> None
      | Some hw \<Rightarrow> first_error
          [checkPositiveInt (hwc_RefreshIntervalSeconds hw) ''header weather refresh_interval_seconds'',
           checkLatLon (hwc_Latitude hw) (hwc_Longitude hw) ''header weather'',
           if ToLower (hwc_Units hw) \<in> set [''imperial'', ''metric''] then None else Some (BadUnits (hwc_Units hw))])"

definition validateDisplayVoice :: "platform \<Rightarrow> Config \<Rightarrow> config_error option" where
  "validateDisplayVoice pf c =
     (case dc_Voice (cf_Display c) of
        None \<Rightarrow> None
      | Some v \<Rightarrow> (case dv_Waveform v of
          None \<Rightarrow> None
        | Some vw \<Rightarrow> first_error
            [if TrimSpace (vw_LevelsURL vw) \<noteq> [] \<and> \<not> isValidHTTPURL pf (vw_LevelsURL vw)
             then Some (BadLevelsURL (vw_LevelsURL vw)) else None,
             case vw_Gain vw of None \<Rightarrow> None | Some g \<Rightarrow> if f64_less f64_zero g then None else Some (BadGain g)]))"

definition validateDisplayAndHeader :: "platform \<Rightarrow> Config \<Rightarrow> config_error option" where
  "validateDisplayAndHeader pf c =
     (let dc = cf_Display c; ro = dc_Rotation dc in
      first_error
        [validateGridAndWidgetDimensions (dc_Grid dc) [] [],
         checkNonNegativeInt (rc_IntervalSeconds ro) ''rotation interval_seconds'',
         checkNonNegativeInt (rc_PauseDurationSeconds ro) ''rotation pause_duration_seconds'',
         if rc_Transition ro \<in> set [''slide'', ''fade'', ''instant'', ''none''] then None else Some (BadTransition (rc_Transition ro)),
         case cf_LocationConfig c of
           None \<Rightarrow> None
         | Some lc \<Rightarrow>
             if lo_Latitude lc \<noteq> None \<or> lo_Longitude lc \<noteq> None
             then checkLatLon (derefOr (lo_Latitude lc) f64_zero) (derefOr (lo_Longitude lc) f64_zero) ''location''
             else None,
         validateTheme c, validateUI c, validateHeaderWeather c, validateDisplayVoice pf c])"

text \<open>One widget of \<^verbatim>\<open>validateWidgets\<close>: the method is normalised, the map of identifiers seen gives their index.\<close>

definition normal_method :: "WidgetConfig \<Rightarrow> config_error + string" where
  "normal_method w =
     (if wc_Method w \<noteq> [] then
        let up = ToUpper (TrimSpace (wc_Method w)) in
        if up \<noteq> ''GET'' \<and> up \<noteq> ''POST'' then Inl (BadMethod (wc_ID w) (wc_Method w)) else Inr up
      else if wc_Endpoint w \<noteq> [] then Inr ''POST''
      else Inr [])"

definition as_result :: "'e option \<Rightarrow> 'a \<Rightarrow> 'e + 'a" where
  "as_result e x = (case e of None \<Rightarrow> Inr x | Some err \<Rightarrow> Inl err)"

definition validate_widget ::
    "platform \<Rightarrow> GridConfig \<Rightarrow> nat \<Rightarrow> (string \<rightharpoonup> nat) \<Rightarrow> WidgetConfig \<Rightarrow> config_error + WidgetConfig" where
  "validate_widget pf grid i seen w =
     res_bind (as_result (first_error
       [if TrimSpace (wc_ID w) = [] then Some (MissingID i) else None,
        map_option (\<lambda>prev. DuplicateID (wc_ID w) prev i) (seen (wc_ID w)),
        if TrimSpace (wc_Type w) = [] then Some (MissingType (wc_ID w)) else None,
        validateGridAndWidgetDimensions grid (wc_ID w) (derefOr (wc_Dimensions w) []),
        checkPositiveInt (wc_RefreshIntervalSeconds w) (''widget '' @ [CHR 0x27] @ wc_ID w @ [CHR 0x27] @ '': refresh_interval_seconds'')]) ()) (\<lambda>_.
     res_bind (normal_method w) (\<lambda>m.
     if wc_Endpoint w \<noteq> [] \<and> \<not> isValidHTTPURL pf (wc_Endpoint w) then Inl (BadEndpoint (wc_ID w) (wc_Endpoint w))
     else Inr (w\<lparr>wc_Method := m\<rparr>)))"

fun validate_widgets_from ::
    "platform \<Rightarrow> GridConfig \<Rightarrow> nat \<Rightarrow> (string \<rightharpoonup> nat) \<Rightarrow> WidgetConfig list \<Rightarrow> config_error + WidgetConfig list" where
  "validate_widgets_from pf grid i seen [] = Inr []"
| "validate_widgets_from pf grid i seen (w # ws) =
     res_bind (validate_widget pf grid i seen w) (\<lambda>w'.
     res_bind (validate_widgets_from pf grid (Suc i) (seen(wc_ID w \<mapsto> i)) ws) (\<lambda>ws'. Inr (w' # ws')))"

definition validateWidgets :: "platform \<Rightarrow> Config \<Rightarrow> config_error + Config" where
  "validateWidgets pf c =
     res_bind (validate_widgets_from pf (dc_Grid (cf_Display c)) 0 Map.empty (dc_Widgets (cf_Display c)))
       (\<lambda>ws. Inr (c\<lparr>cf_Display := (cf_Display c)\<lparr>dc_Widgets := ws\<rparr>\<rparr>))"

definition validateVoiceHubFastPath :: "platform \<Rightarrow> FastPathConfig option \<Rightarrow> config_error option" where
  "validateVoiceHubFastPath pf fp =
     (case fp of
        None \<Rightarrow> None
      | Some f \<Rightarrow> first_error
          [checkPositiveInt (fp_TimeoutMS f) ''voice_hub fast_path timeout_ms'',
           if fastpath_IsEnabled (Some f) \<and> \<not> isValidHTTPURL pf (fp_URL f) then Some (BadFastPathURL (fp_URL f)) else None])"

text \<open>The sum of the squares is zero only if each of them is.\<close>

definition validateSpeakerVector :: "string \<Rightarrow> f64 list \<Rightarrow> config_error option" where
  "validateSpeakerVector ident vec =
     (if vec = [] then Some (EmptyEmbedding ident)
      else if list_ex (\<lambda>x. f64_is_nan x \<or> f64_is_inf x) vec then Some (NotFiniteEmbedding ident)
      else if list_all f64_square_zero vec then Some (ZeroEmbedding ident)
      else None)"

fun validate_speakers :: "nat \<Rightarrow> string set \<Rightarrow> nat \<Rightarrow> SpeakerFingerprint list \<Rightarrow> config_error option" where
  "validate_speakers i seen dim [] = None"
| "validate_speakers i seen dim (sp # sps) =
     (let ident = TrimSpace (sf_ID sp); n = length (sf_Embedding sp) in
      if ident = [] then Some (EmptySpeakerID i)
      else if ident \<in> seen then Some (DuplicateSpeaker ident)
      else case validateSpeakerVector ident (sf_Embedding sp) of
        Some e \<Rightarrow> Some e
      | None \<Rightarrow>
          if dim = 0 then validate_speakers (Suc i) (insert ident seen) n sps
          else if n \<noteq> dim then Some (SpeakerDimension ident n dim)
          else validate_speakers (Suc i) (insert ident seen) dim sps)"

definition validateSpeakerID :: "SpeakerIDConfig option \<Rightarrow> config_error option" where
  "validateSpeakerID sid =
     (case sid of
        None \<Rightarrow> None
      | Some s \<Rightarrow> first_error
          [if TrimSpace (si_EmbedURL s) = [] then Some MissingEmbedURL else None,
           case si_Threshold s of None \<Rightarrow> None
           | Some t \<Rightarrow> if f64_le t f64_zero \<or> f64_less f64_one t then Some (BadThreshold t) else None,
           checkPositiveInt (si_TimeoutSeconds s) ''voice_hub speaker_id timeout_seconds'',
           validate_speakers 0 {} 0 (si_Speakers s)])"

definition validateVoiceAndChatLog :: "platform \<Rightarrow> Config \<Rightarrow> config_error option" where
  "validateVoiceAndChatLog pf c = first_error
     [case cf_ChatLog c of
        None \<Rightarrow> None
      | Some cl \<Rightarrow> first_error [checkPositiveInt (cl_TTLMinutes cl) ''chat_log ttl_minutes'',
          checkPositiveInt (cl_MaxMessagesPerNode cl) ''chat_log max_messages_per_node''],
      case cf_VoiceHub c of
        None \<Rightarrow> None
      | Some vh \<Rightarrow>
          if \<not> vh_Enabled vh then None
          else first_error
            [checkPositiveInt (vh_BrainTimeoutSeconds vh) ''voice_hub brain_timeout_seconds'',
             checkPositiveInt (vh_TTSTimeoutSeconds vh) ''voice_hub tts_timeout_seconds'',
             validateVoiceHubFastPath pf (vh_FastPath vh), validateSpeakerID (vh_SpeakerID vh)]]"

definition Validate :: "platform \<Rightarrow> Config \<Rightarrow> config_error + Config" where
  "Validate pf c =
     (if TrimSpace (cf_Timezone c) = [] then Inl MissingTimezone
      else if \<not> pf_LoadLocation pf (cf_Timezone c) then Inl (UnknownTimezone (cf_Timezone c))
      else res_bind (as_result (validateDisplayAndHeader pf c) ()) (\<lambda>_.
        res_bind (validateWidgets pf c) (\<lambda>c'.
        as_result (validateVoiceAndChatLog pf c') c')))"

end
