(* ===== verification/Config_Env.thy ===== *)
theory Config_Env
  imports Config_Validate
begin

text \<open>
  \<^verbatim>\<open>internal/config/config.go\<close>: \<^verbatim>\<open>ResolveEnv\<close>, which reads the secrets that a widget's settings name
  through keys ending in \<^verbatim>\<open>_env\<close> into a map of their own, indexed by the path of the setting. The environment is a
  parameter. The code also replaces a mapping whose keys are not strings by one whose keys are; in the
  representation of values used here that changes nothing.
\<close>

definition CutSuffix :: "string \<Rightarrow> string \<Rightarrow> string option" where
  "CutSuffix s suffix =
     (if length suffix \<le> length s \<and> drop (length s - length suffix) s = suffix
      then Some (take (length s - length suffix) s) else None)"

type_synonym secrets = "string \<rightharpoonup> string"

definition child_path :: "string \<Rightarrow> string \<Rightarrow> string" where
  "child_path prefix k = (if prefix = [] then k else prefix @ ''.'' @ k)"

text \<open>One key of \<^verbatim>\<open>resolveEnvInMap\<close>.\<close>

definition resolve_key ::
    "(string \<Rightarrow> string) \<Rightarrow> string \<Rightarrow> any_map \<Rightarrow> string \<Rightarrow> string \<Rightarrow> any \<Rightarrow> secrets \<Rightarrow> config_error + secrets" where
  "resolve_key getenv widgetID m prefix k v sec =
     (case CutSuffix k ''_env'' of
        None \<Rightarrow> Inr sec
      | Some baseKey \<Rightarrow>
          if map_of m baseKey \<noteq> None then Inl (BothKeys widgetID baseKey k)
          else (case v of
            AStr s \<Rightarrow>
              let envVarName = TrimSpace s in
              if envVarName = [] then Inl (BadEnvName widgetID k)
              else if getenv envVarName = [] then Inl (UnsetEnv widgetID envVarName k)
              else Inr (sec(child_path prefix baseKey \<mapsto> getenv envVarName))
          | _ \<Rightarrow> Inl (BadEnvName widgetID k)))"

definition item_path :: "string \<Rightarrow> nat \<Rightarrow> string" where
  "item_path prefix i = prefix @ ''['' @ show_nat i @ '']''"

function resolveEnvInValue ::
    "(string \<Rightarrow> string) \<Rightarrow> string \<Rightarrow> any \<Rightarrow> string \<Rightarrow> secrets \<Rightarrow> config_error + secrets"
  and resolveEnvInMap ::
    "(string \<Rightarrow> string) \<Rightarrow> string \<Rightarrow> any_map \<Rightarrow> string \<Rightarrow> secrets \<Rightarrow> config_error + secrets"
  and resolveEnvInSlice ::
    "(string \<Rightarrow> string) \<Rightarrow> string \<Rightarrow> any list \<Rightarrow> string \<Rightarrow> secrets \<Rightarrow> config_error + secrets" where
  "resolveEnvInValue getenv widgetID v prefix sec =
     (case v of
        AMap m \<Rightarrow> resolveEnvInMap getenv widgetID m prefix sec
      | AList vs \<Rightarrow> resolveEnvInSlice getenv widgetID vs prefix sec
      | _ \<Rightarrow> Inr sec)"
| "resolveEnvInMap getenv widgetID m prefix sec =
     each (\<lambda>(k, v) s. res_bind (resolve_key getenv widgetID m prefix k v s)
       (resolveEnvInValue getenv widgetID v (child_path prefix k))) m sec"
| "resolveEnvInSlice getenv widgetID vs prefix sec =
     each (\<lambda>(i, v) s. resolveEnvInValue getenv widgetID v (item_path prefix i) s) (enumerate 0 vs) sec"
  by pat_completeness auto
termination
proof (relation "measure (\<lambda>x. case x of Inl (_, _, v, _) \<Rightarrow> 2 * size v + 1
    | Inr (Inl (_, _, m, _)) \<Rightarrow> 2 * size (AMap m) | Inr (Inr (_, _, vs, _)) \<Rightarrow> 2 * size (AList vs))", goal_cases)
qed (auto simp del: any.size dest!: size_any_value size_any_enumerate)

lemmas resolve_env_simps = resolveEnvInValue.simps resolveEnvInMap.simps resolveEnvInSlice.simps

declare resolve_env_simps [simp del]

definition resolve_token :: "(string \<Rightarrow> string) \<Rightarrow> WidgetConfig \<Rightarrow> config_error + WidgetConfig" where
  "resolve_token getenv w =
     (if wc_TokenEnv w = [] then Inr w
      else let envVar = TrimSpace (wc_TokenEnv w); val = getenv envVar in
        if val = [] then Inl (UnsetTokenEnv (wc_ID w) envVar)
        else Inr (w\<lparr>wc_Token := val, wc_Secrets := (wc_Secrets w)(''token'' \<mapsto> val)\<rparr>))"

definition resolve_widget :: "(string \<Rightarrow> string) \<Rightarrow> WidgetConfig \<Rightarrow> config_error + WidgetConfig" where
  "resolve_widget getenv w0 =
     res_bind (resolve_token getenv w0) (\<lambda>w.
     case wc_Config w of
       None \<Rightarrow> Inr w
     | Some m \<Rightarrow> res_bind (resolveEnvInMap getenv (wc_ID w) m [] (wc_Secrets w)) (\<lambda>sec. Inr (w\<lparr>wc_Secrets := sec\<rparr>)))"

fun resolve_widgets :: "(string \<Rightarrow> string) \<Rightarrow> WidgetConfig list \<Rightarrow> config_error + WidgetConfig list" where
  "resolve_widgets getenv [] = Inr []"
| "resolve_widgets getenv (w # ws) =
     res_bind (resolve_widget getenv w) (\<lambda>w'. res_bind (resolve_widgets getenv ws) (\<lambda>ws'. Inr (w' # ws')))"

definition ResolveEnv :: "(string \<Rightarrow> string) \<Rightarrow> Config \<Rightarrow> config_error + Config" where
  "ResolveEnv getenv c =
     res_bind (resolve_widgets getenv (dc_Widgets (cf_Display c)))
       (\<lambda>ws. Inr (c\<lparr>cf_Display := (cf_Display c)\<lparr>dc_Widgets := ws\<rparr>\<rparr>))"

section \<open>A reference definition\<close>

lemma size_any_enumerate_less [termination_simp]:
  "(i, v) \<in> set (enumerate n vs) \<Longrightarrow> size v < Suc (size_list size vs)" for v :: any
  by (drule size_any_enumerate) simp

text \<open>What the \<^verbatim>\<open>_env\<close> keys of a value declare: the mapping, its path, the key and the value.\<close>

fun decls :: "any \<Rightarrow> string \<Rightarrow> (any_map \<times> string \<times> string \<times> any) list" where
  "decls (AMap m) prefix = concat (map (\<lambda>(k, v).
     (if CutSuffix k ''_env'' = None then [] else [(m, prefix, k, v)]) @ decls v (child_path prefix k)) m)"
| "decls (AList vs) prefix = concat (map (\<lambda>(i, v). decls v (item_path prefix i)) (enumerate 0 vs))"
| "decls _ prefix = []"

definition resolve_decl ::
    "(string \<Rightarrow> string) \<Rightarrow> string \<Rightarrow> any_map \<times> string \<times> string \<times> any \<Rightarrow> secrets \<Rightarrow> config_error + secrets" where
  "resolve_decl getenv widgetID d sec = (case d of (m, prefix, k, v) \<Rightarrow> resolve_key getenv widgetID m prefix k v sec)"

lemma each_entry:
  "each (resolve_decl getenv wid) ((if CutSuffix k ''_env'' = None then [] else [(m, prefix, k, v)]) @ ds) sec
   = res_bind (resolve_key getenv wid m prefix k v sec) (each (resolve_decl getenv wid) ds)"
  by (auto simp: resolve_decl_def resolve_key_def)

text \<open>The recursion resolves the declarations one after the other.\<close>

lemma resolve_each:
  "resolveEnvInValue getenv wid v prefix sec = each (resolve_decl getenv wid) (decls v prefix) sec"
  "resolveEnvInMap getenv wid m prefix sec = each (resolve_decl getenv wid) (decls (AMap m) prefix) sec"
  "resolveEnvInSlice getenv wid vs prefix sec = each (resolve_decl getenv wid) (decls (AList vs) prefix) sec"
proof (induction getenv wid v prefix sec and getenv wid m prefix sec and getenv wid vs prefix sec
    rule: resolveEnvInValue_resolveEnvInMap_resolveEnvInSlice.induct)
  case (1 getenv wid v prefix sec)
  then show ?case by (cases v) (auto simp: resolveEnvInValue.simps)
next
  case (2 getenv wid m prefix sec)
  have "each (\<lambda>(k, v) s. res_bind (resolve_key getenv wid m prefix k v s)
       (resolveEnvInValue getenv wid v (child_path prefix k))) m sec
    = each (\<lambda>(k, v) s. each (resolve_decl getenv wid) ((if CutSuffix k ''_env'' = None then [] else [(m, prefix, k, v)])
        @ decls v (child_path prefix k)) s) m sec"
    unfolding each_entry using 2 by (intro each_cong refl) (auto intro!: res_bind_cong)
  then show ?case
    by (simp add: resolveEnvInMap.simps each_concat each_map case_prod_unfold)
next
  case (3 getenv wid vs prefix sec)
  have "each (\<lambda>(i, v) s. resolveEnvInValue getenv wid v (item_path prefix i) s) (enumerate 0 vs) sec
    = each (\<lambda>(i, v) s. each (resolve_decl getenv wid) (decls v (item_path prefix i)) s) (enumerate 0 vs) sec"
    using 3 by (intro each_cong refl) auto
  then show ?case
    by (simp add: resolveEnvInSlice.simps each_concat each_map case_prod_unfold)
qed

text \<open>When a declaration can be resolved, and the secret it gives.\<close>

definition decl_ok :: "(string \<Rightarrow> string) \<Rightarrow> any_map \<times> string \<times> string \<times> any \<Rightarrow> bool" where
  "decl_ok getenv d \<longleftrightarrow> (case d of (m, prefix, k, v) \<Rightarrow>
     map_of m (the (CutSuffix k ''_env'')) = None
     \<and> (case v of AStr s \<Rightarrow> TrimSpace s \<noteq> [] \<and> getenv (TrimSpace s) \<noteq> [] | _ \<Rightarrow> False))"

definition decl_secret :: "(string \<Rightarrow> string) \<Rightarrow> any_map \<times> string \<times> string \<times> any \<Rightarrow> string \<times> string" where
  "decl_secret getenv d = (case d of (m, prefix, k, v) \<Rightarrow>
     (child_path prefix (the (CutSuffix k ''_env'')), case v of AStr s \<Rightarrow> getenv (TrimSpace s) | _ \<Rightarrow> []))"

lemma decls_env: "d \<in> set (decls v prefix) \<Longrightarrow> CutSuffix (fst (snd (snd d))) ''_env'' \<noteq> None"
  by (induction v prefix rule: decls.induct) (auto split: if_splits)

lemma resolve_decl_Inr:
  "CutSuffix (fst (snd (snd d))) ''_env'' \<noteq> None \<Longrightarrow>
   resolve_decl getenv wid d sec = Inr sec' \<longleftrightarrow>
     decl_ok getenv d \<and> sec' = sec(fst (decl_secret getenv d) \<mapsto> snd (decl_secret getenv d))"
  by (cases d) (auto simp: resolve_decl_def resolve_key_def decl_ok_def decl_secret_def Let_def
      split: any.splits if_splits option.splits)

lemma each_decls_Inr:
  "(\<And>d. d \<in> set ds \<Longrightarrow> CutSuffix (fst (snd (snd d))) ''_env'' \<noteq> None) \<Longrightarrow>
   each (resolve_decl getenv wid) ds sec = Inr sec' \<longleftrightarrow>
     list_all (decl_ok getenv) ds \<and> sec' = sec ++ map_of (rev (map (decl_secret getenv) ds))"
proof (induction ds arbitrary: sec)
  case (Cons d ds)
  have "each (resolve_decl getenv wid) (d # ds) sec = Inr sec' \<longleftrightarrow>
      (\<exists>s. resolve_decl getenv wid d sec = Inr s \<and> each (resolve_decl getenv wid) ds s = Inr sec')"
    by simp
  also have "\<dots> \<longleftrightarrow> decl_ok getenv d \<and> list_all (decl_ok getenv) ds
      \<and> sec' = sec(fst (decl_secret getenv d) \<mapsto> snd (decl_secret getenv d)) ++ map_of (rev (map (decl_secret getenv) ds))"
    using Cons by (auto simp: resolve_decl_Inr)
  also have "sec(fst (decl_secret getenv d) \<mapsto> snd (decl_secret getenv d)) ++ map_of (rev (map (decl_secret getenv) ds))
      = sec ++ map_of (rev (map (decl_secret getenv) (d # ds)))"
    by (rule ext) (auto simp: map_add_def split: option.split)
  finally show ?case by simp
qed auto

definition token_ok :: "(string \<Rightarrow> string) \<Rightarrow> WidgetConfig \<Rightarrow> bool" where
  "token_ok getenv w \<longleftrightarrow> (if wc_TokenEnv w = [] then True else getenv (TrimSpace (wc_TokenEnv w)) \<noteq> [])"

definition env_decls :: "WidgetConfig \<Rightarrow> (any_map \<times> string \<times> string \<times> any) list" where
  "env_decls w = (case wc_Config w of None \<Rightarrow> [] | Some m \<Rightarrow> decls (AMap m) [])"

definition with_token :: "(string \<Rightarrow> string) \<Rightarrow> WidgetConfig \<Rightarrow> WidgetConfig" where
  "with_token getenv w = (if wc_TokenEnv w = [] then w
     else w\<lparr>wc_Token := getenv (TrimSpace (wc_TokenEnv w)),
            wc_Secrets := (wc_Secrets w)(''token'' \<mapsto> getenv (TrimSpace (wc_TokenEnv w)))\<rparr>)"

definition with_secrets :: "(string \<Rightarrow> string) \<Rightarrow> WidgetConfig \<Rightarrow> WidgetConfig" where
  "with_secrets getenv w = (with_token getenv w)\<lparr>wc_Secrets :=
     wc_Secrets (with_token getenv w) ++ map_of (rev (map (decl_secret getenv) (env_decls w)))\<rparr>"

lemma resolve_widget_Inr:
  "resolve_widget getenv w = Inr w' \<longleftrightarrow>
     token_ok getenv w \<and> list_all (decl_ok getenv) (env_decls w) \<and> w' = with_secrets getenv w"
proof -
  have tok: "resolve_token getenv w = Inr v \<longleftrightarrow> token_ok getenv w \<and> v = with_token getenv w" for v
    by (auto simp: resolve_token_def token_ok_def with_token_def Let_def)
  have cfg: "wc_Config (with_token getenv w) = wc_Config w" by (simp add: with_token_def)
  have map: "resolveEnvInMap getenv wid m [] sec = Inr sec' \<longleftrightarrow>
      list_all (decl_ok getenv) (decls (AMap m) []) \<and> sec' = sec ++ map_of (rev (map (decl_secret getenv) (decls (AMap m) [])))"
    for wid m sec sec'
    unfolding resolve_each(2) by (rule each_decls_Inr) (rule decls_env)
  show ?thesis
  proof (cases "wc_Config w")
    case None
    then show ?thesis using cfg by (auto simp: resolve_widget_def tok env_decls_def with_secrets_def)
  next
    case (Some m)
    then show ?thesis using cfg
      by (auto simp: resolve_widget_def tok env_decls_def with_secrets_def map simp del: decls.simps)
  qed
qed

lemma resolve_widgets_Inr:
  "resolve_widgets getenv ws = Inr ws' \<longleftrightarrow>
     list_all (\<lambda>w. token_ok getenv w \<and> list_all (decl_ok getenv) (env_decls w)) ws \<and> ws' = map (with_secrets getenv) ws"
  by (induction ws arbitrary: ws') (auto simp: resolve_widget_Inr)

text \<open>C40: Secrets are resolved exactly when every variable that is named has a value: \<^verbatim>\<open>ResolveEnv\<close> succeeds if and
  only if each token variable and each variable named by an \<^verbatim>\<open>_env\<close> key, at any depth of mappings and lists in a widget's
  settings, is set, every such key holds a non-blank name and its plain counterpart is absent. Each secret is
  then found under the path of its setting without the suffix, later declarations of the same path winning, and nothing
  else of the configuration changes: values of variables never enter the settings.\<close>

theorem env_resolved:
  "ResolveEnv getenv c = Inr c' \<longleftrightarrow>
     list_all (\<lambda>w. token_ok getenv w \<and> list_all (decl_ok getenv) (env_decls w)) (dc_Widgets (cf_Display c))
     \<and> c' = c\<lparr>cf_Display := (cf_Display c)\<lparr>dc_Widgets := map (with_secrets getenv) (dc_Widgets (cf_Display c))\<rparr>\<rparr>"
  by (auto simp: ResolveEnv_def resolve_widgets_Inr)

end
