(* ===== verification/Layout_Tiles.thy ===== *)
theory Layout_Tiles
  imports Layout_Model
begin

text \<open>
  What it means for a list of placed widgets to tile a set of cells: every widget lies on the grid
  and every cell of the set is covered exactly once, every other cell not at all. The solver's bit
  masks are related to it by adding one placement at a time.
\<close>

text \<open>The comparisons the solver sorts with are orderings, so sorting with them gives sorted lists.\<close>

interpretation reading: weak_order placed_less
  by unfold_locales (auto simp: placed_less_def split: if_splits)

interpretation shapes: weak_order group_less
  by unfold_locales (auto simp: group_less_def split: if_splits)

definition pw_cells :: "int \<Rightarrow> PlacedWidget \<Rightarrow> nat set" where
  "pw_cells gc pw =
     footprint gc (Cols (pw_Dimensions pw)) (Rows (pw_Dimensions pw)) (Col pw) (Row pw)"

definition covers :: "int \<Rightarrow> PlacedWidget list \<Rightarrow> nat \<Rightarrow> nat" where
  "covers gc pws n = length (filter (\<lambda>pw. n \<in> pw_cells gc pw) pws)"

definition pw_on_grid :: "int \<Rightarrow> int \<Rightarrow> PlacedWidget \<Rightarrow> bool" where
  "pw_on_grid gc gr pw \<longleftrightarrow> on_grid gc gr (pw_Dimensions pw) (Col pw) (Row pw)"

definition tiles :: "int \<Rightarrow> int \<Rightarrow> PlacedWidget list \<Rightarrow> nat set \<Rightarrow> bool" where
  "tiles gc gr pws S \<longleftrightarrow>
     (\<forall>pw \<in> set pws. pw_on_grid gc gr pw) \<and> (\<forall>n. covers gc pws n = (if n \<in> S then 1 else 0))"

lemma tiles_Nil [simp]: "tiles gc gr [] S \<longleftrightarrow> S = {}"
  by (auto simp: tiles_def covers_def split: if_splits)

lemma tiles_snoc:
  assumes "tiles gc gr pws S" "pw_on_grid gc gr pw" "pw_cells gc pw \<inter> S = {}"
  shows "tiles gc gr (pws @ [pw]) (S \<union> pw_cells gc pw)"
  using assms by (fastforce simp: tiles_def covers_def)

lemma covers_mset: "covers gc pws n = size (filter_mset (\<lambda>pw. n \<in> pw_cells gc pw) (mset pws))"
  unfolding covers_def by (metis mset_filter size_mset)

lemma tiles_mset: "mset pws = mset pws' \<Longrightarrow> tiles gc gr pws S \<longleftrightarrow> tiles gc gr pws' S"
  using mset_eq_setD [of pws pws'] by (simp add: tiles_def covers_mset)

lemma tiles_set_unique: "tiles gc gr pws S \<Longrightarrow> tiles gc gr pws T \<Longrightarrow> S = T"
  by (auto simp: tiles_def split: if_splits)

lemma pw_cells_subset_grid:
  "pw_on_grid gc gr pw \<Longrightarrow> supported_grid gc gr \<Longrightarrow> pw_cells gc pw \<subseteq> grid_cells gc gr"
  unfolding pw_on_grid_def pw_cells_def by (rule footprint_subset_grid)

lemma tiles_subset_grid:
  assumes "tiles gc gr pws S" "supported_grid gc gr"
  shows "S \<subseteq> grid_cells gc gr"
proof
  fix n assume "n \<in> S"
  with assms(1) have "covers gc pws n = 1" by (simp add: tiles_def)
  then have "filter (\<lambda>pw. n \<in> pw_cells gc pw) pws \<noteq> []"
    by (auto simp: covers_def)
  then obtain pw where "pw \<in> set pws" "n \<in> pw_cells gc pw"
    by (auto simp: filter_empty_conv)
  with assms show "n \<in> grid_cells gc gr"
    using pw_cells_subset_grid by (auto simp: tiles_def)
qed

text \<open>Counting cells: the areas of the tiles add up to the size of the tiled set.\<close>

lemma sum_covers:
  assumes "\<forall>pw \<in> set pws. pw_on_grid gc gr pw" "supported_grid gc gr"
  shows "int (\<Sum>n \<in> grid_cells gc gr. covers gc pws n)
     = sum_list (map (\<lambda>pw. Area (pw_Dimensions pw)) pws)"
  using assms(1)
proof (induction pws)
  case Nil
  then show ?case by (simp add: covers_def)
next
  case (Cons pw pws)
  have sub: "pw_cells gc pw \<subseteq> grid_cells gc gr"
    using Cons.prems assms(2) pw_cells_subset_grid by auto
  have "(\<Sum>n \<in> grid_cells gc gr. covers gc (pw # pws) n)
     = (\<Sum>n \<in> grid_cells gc gr. (if n \<in> pw_cells gc pw then 1 else 0))
       + (\<Sum>n \<in> grid_cells gc gr. covers gc pws n)"
    by (simp add: covers_def sum.distrib [symmetric] if_distrib cong: if_cong)
      (rule sum.cong, simp_all)
  also have "(\<Sum>n \<in> grid_cells gc gr. (if n \<in> pw_cells gc pw then 1 else 0)) = card (pw_cells gc pw)"
    using sub by (simp add: sum.inter_restrict [symmetric] Int_absorb1)
  finally show ?case
    using Cons card_footprint [of gc gr "pw_Dimensions pw"] by (simp add: pw_cells_def pw_on_grid_def)
qed

lemma tiles_area:
  assumes "tiles gc gr pws S" "supported_grid gc gr"
  shows "sum_list (map (\<lambda>pw. Area (pw_Dimensions pw)) pws) = int (card S)"
proof -
  have "(\<Sum>n \<in> grid_cells gc gr. covers gc pws n) = (\<Sum>n \<in> grid_cells gc gr. if n \<in> S then 1 else 0)"
    using assms(1) by (simp add: tiles_def)
  also have "\<dots> = card S"
    using tiles_subset_grid [OF assms] by (simp add: sum.inter_restrict [symmetric] Int_absorb1)
  finally show ?thesis
    using sum_covers [of pws gc gr] assms by (simp add: tiles_def)
qed

text \<open>A tiled set with as many cells as the grid is the grid.\<close>

lemma tiles_full:
  assumes "tiles gc gr pws S" "supported_grid gc gr" "int (card S) = gc * gr"
  shows "S = grid_cells gc gr"
proof (rule card_subset_eq)
  show "S \<subseteq> grid_cells gc gr" using assms tiles_subset_grid by blast
  have "0 \<le> gc * gr" using supported_grid_bounds [OF assms(2)] by simp
  then show "card S = card (grid_cells gc gr)" using assms(3) card_grid_cells by fastforce
qed simp

lemma tiles_placement:
  assumes t: "tiles gc gr pws (cells_of m)" and sg: "supported_grid gc gr"
    and og: "on_grid gc gr d c r"
    and free: "m AND ComputeWidgetBitmaskForGrid (Cols d) (Rows d) c r gc = 0"
    and pw: "pw_Dimensions pw = d" "pw_Origin pw = (c, r)"
  shows "tiles gc gr (pws @ [pw])
     (cells_of (m OR ComputeWidgetBitmaskForGrid (Cols d) (Rows d) c r gc))"
proof -
  have cells: "cells_of (ComputeWidgetBitmaskForGrid (Cols d) (Rows d) c r gc) = pw_cells gc pw"
    using cells_of_widget_mask [OF og sg] pw by (simp add: pw_cells_def Col_def Row_def)
  have "pw_cells gc pw \<inter> cells_of m = {}" using free and_eq_0_iff cells by blast
  moreover have "pw_on_grid gc gr pw" using og pw by (simp add: pw_on_grid_def Col_def Row_def)
  ultimately show ?thesis using tiles_snoc [OF t, of pw] cells by simp
qed

lemma or_and_not_cancel: "m AND (n :: u32) = 0 \<Longrightarrow> (m OR n) AND NOT n = m"
  unfolding and_eq_0_iff by (subst cells_of_inject [symmetric]) auto

text \<open>A layout whose screens are numbered in order and each tile the grid.\<close>

definition tiled_layout :: "int \<Rightarrow> int \<Rightarrow> Layout \<Rightarrow> bool" where
  "tiled_layout gc gr L \<longleftrightarrow> TotalScreens L = int (length (Screens L)) \<and> Screens L \<noteq> []
    \<and> (\<forall>i < length (Screens L).
         sc_Index (Screens L ! i) = i \<and> sc_Bitmask (Screens L ! i) = fullGridMask gc gr
         \<and> tiles gc gr (sc_Widgets (Screens L ! i)) (grid_cells gc gr))"

end
