(* ===== verification/Layout_Explicit.thy ===== *)
theory Layout_Explicit
  imports Layout_Tiles
begin

text \<open>
  \<^verbatim>\<open>SolveExplicit\<close> of \<^verbatim>\<open>internal/layout/solver.go\<close>: widgets at coordinates the user chose,
  checked, moved onto consecutive screens, placed, and the cells left free covered with spacers. The
  spacer loop takes fuel; a cell of the grid per unit is enough, since every spacer covers at least
  the cell it starts at.
\<close>

record ExplicitPlacement =
  ep_ID :: string
  ep_Type :: string
  ep_Screen :: int
  ep_Origin :: "int \<times> int"
  ep_Dimensions :: Dimension
  ep_Pinned :: bool

fun explicit_loop ::
    "int \<Rightarrow> int \<Rightarrow> nat \<Rightarrow> ExplicitPlacement list \<Rightarrow> (string \<rightharpoonup> nat) \<Rightarrow> int list \<Rightarrow> layout_error + int list" where
  "explicit_loop gridCols gridRows i [] seen unpinned = Inr unpinned"
| "explicit_loop gridCols gridRows i (p # ps) seen unpinned =
     (let trimmedID = TrimSpace (ep_ID p);
          col = fst (ep_Origin p); row = snd (ep_Origin p);
          cols = Cols (ep_Dimensions p); rows = Rows (ep_Dimensions p) in
      if trimmedID = [] then Inl (EmptyWidgetID i)
      else case seen trimmedID of
        Some prevIdx \<Rightarrow> Inl (DuplicateWidgetID trimmedID prevIdx i)
      | None \<Rightarrow>
        if \<not> IsValidForGrid (ep_Dimensions p) gridCols gridRows
        then Inl (InvalidDimensions (ep_ID p) cols rows gridCols gridRows)
        else if col < 0 \<or> col + cols > gridCols \<or> row < 0 \<or> row + rows > gridRows
        then Inl (WidgetOutOfBounds (ep_ID p) col row cols rows gridCols gridRows)
        else if ep_Screen p < 0 \<or> ep_Screen p \<ge> 16 then Inl (InvalidScreen (ep_ID p) (ep_Screen p))
        else explicit_loop gridCols gridRows (Suc i) ps (seen(trimmedID \<mapsto> i))
          (if \<not> ep_Pinned p then unpinned @ [ep_Screen p] else unpinned))"

definition validateExplicitPlacements ::
    "ExplicitPlacement list \<Rightarrow> int \<Rightarrow> int \<Rightarrow> layout_error + int list" where
  "validateExplicitPlacements placements gridCols gridRows =
     explicit_loop gridCols gridRows 0 placements Map.empty []"

definition compactScreenIndices :: "int list \<Rightarrow> nat \<times> (int \<rightharpoonup> nat)" where
  "compactScreenIndices unpinnedScreens =
     (let us = remdups_adj (sort unpinnedScreens); count = length us
      in (max 1 count, map_of (zip us [0..<count])))"

definition explicit_placed :: "ExplicitPlacement \<Rightarrow> PlacedWidget" where
  "explicit_placed p =
     \<lparr>pw_WidgetID = ep_ID p, pw_Type = ep_Type p, pw_Origin = ep_Origin p,
      pw_Dimensions = ep_Dimensions p, pw_Pinned = ep_Pinned p\<rparr>"

definition explicit_mask :: "int \<Rightarrow> ExplicitPlacement \<Rightarrow> u32" where
  "explicit_mask gridCols p =
     ComputeWidgetBitmaskForGrid (Cols (ep_Dimensions p)) (Rows (ep_Dimensions p))
       (fst (ep_Origin p)) (snd (ep_Origin p)) gridCols"

type_synonym boards = "u32 list \<times> PlacedWidget list list"

fun place_pinned_widgets ::
    "ExplicitPlacement list \<Rightarrow> nat \<Rightarrow> int \<Rightarrow> boards \<Rightarrow> layout_error + boards" where
  "place_pinned_widgets [] n gridCols st = Inr st"
| "place_pinned_widgets (p # ps) n gridCols (masks, wss) =
     (if \<not> ep_Pinned p then place_pinned_widgets ps n gridCols (masks, wss)
      else let m = explicit_mask gridCols p in
        case filter (\<lambda>s. masks ! s AND m \<noteq> 0) [0..<n] of
          s # _ \<Rightarrow> Inl (WidgetOverlap s (fst (ep_Origin p)) (snd (ep_Origin p)))
        | [] \<Rightarrow> place_pinned_widgets ps n gridCols
            (fillMaskAllScreens masks n m True, map (\<lambda>ws. ws @ [explicit_placed p]) wss))"

fun place_unpinned_widgets ::
    "ExplicitPlacement list \<Rightarrow> (int \<rightharpoonup> nat) \<Rightarrow> int \<Rightarrow> boards \<Rightarrow> layout_error + boards" where
  "place_unpinned_widgets [] screenMap gridCols st = Inr st"
| "place_unpinned_widgets (p # ps) screenMap gridCols (masks, wss) =
     (if ep_Pinned p then place_unpinned_widgets ps screenMap gridCols (masks, wss)
      else let target = (case screenMap (ep_Screen p) of Some t \<Rightarrow> t | None \<Rightarrow> 0);
               m = explicit_mask gridCols p in
        if masks ! target AND m \<noteq> 0
        then Inl (WidgetOverlap target (fst (ep_Origin p)) (snd (ep_Origin p)))
        else place_unpinned_widgets ps screenMap gridCols
          (masks[target := masks ! target OR m], wss[target := wss ! target @ [explicit_placed p]]))"

definition placeExplicitWidgets ::
    "ExplicitPlacement list \<Rightarrow> nat \<Rightarrow> (int \<rightharpoonup> nat) \<Rightarrow> int \<Rightarrow> layout_error + boards" where
  "placeExplicitWidgets placements n screenMap gridCols =
     res_bind (place_pinned_widgets placements n gridCols (replicate n 0, replicate n [])) (\<lambda>st.
       place_unpinned_widgets placements screenMap gridCols st)"

subsection \<open>Spacers\<close>

definition isFree :: "u32 \<Rightarrow> int \<Rightarrow> int \<Rightarrow> int \<Rightarrow> int \<Rightarrow> int \<Rightarrow> bool" where
  "isFree sMask c r w h gridCols \<longleftrightarrow> sMask AND ComputeWidgetBitmaskForGrid w h c r gridCols = 0"

definition isBetterSpacer :: "int \<Rightarrow> int \<Rightarrow> Dimension \<Rightarrow> bool" where
  "isBetterSpacer w h current \<longleftrightarrow>
     w * h > Area current \<or> w * h = Area current \<and> h > Rows current"

text \<open>The shapes in the order of the two loops: heights downwards, and widths downwards in each.\<close>

definition spacer_shapes :: "int \<Rightarrow> int \<Rightarrow> Dimension list" where
  "spacer_shapes maxW maxH =
     concat (map (\<lambda>h. map (\<lambda>w. \<lparr>Cols = w, Rows = h\<rparr>) (rev [1..maxW])) (rev [1..maxH]))"

definition largestSpacerAt :: "u32 \<Rightarrow> int \<Rightarrow> int \<Rightarrow> int \<Rightarrow> int \<Rightarrow> Dimension" where
  "largestSpacerAt sMask c r gridCols gridRows =
     foldl (\<lambda>best d. if isFree sMask c r (Cols d) (Rows d) gridCols \<and> isBetterSpacer (Cols d) (Rows d) best
                     then d else best)
       \<lparr>Cols = 0, Rows = 0\<rparr> (spacer_shapes (gridCols - c) (gridRows - r))"

definition spacer_at :: "nat \<Rightarrow> int \<Rightarrow> int \<Rightarrow> Dimension \<Rightarrow> PlacedWidget" where
  "spacer_at s c r dim =
     \<lparr>pw_WidgetID = ''auto-spacer-'' @ show_int (int s) @ ''-'' @ show_int c @ ''-'' @ show_int r,
      pw_Type = ''spacer'', pw_Origin = (c, r), pw_Dimensions = dim, pw_Pinned = False\<rparr>"

fun fillRemainingWithSpacers ::
    "nat \<Rightarrow> nat \<Rightarrow> u32 \<Rightarrow> int \<Rightarrow> int \<Rightarrow> (PlacedWidget list \<times> u32) option" where
  "fillRemainingWithSpacers fuel s sMask gridCols gridRows =
     (if sMask = fullGridMask gridCols gridRows then Some ([], sMask)
      else case fuel of
        0 \<Rightarrow> None
      | Suc fuel' \<Rightarrow>
        let emptyCell = int (TrailingZeros32 (NOT sMask));
            c = emptyCell mod gridCols; r = emptyCell div gridCols;
            dim = largestSpacerAt sMask c r gridCols gridRows;
            m = ComputeWidgetBitmaskForGrid (Cols dim) (Rows dim) c r gridCols
        in case fillRemainingWithSpacers fuel' s (sMask OR m) gridCols gridRows of
             None \<Rightarrow> None
           | Some (spacers, final) \<Rightarrow> Some (spacer_at s c r dim # spacers, final))"

declare fillRemainingWithSpacers.simps [simp del]

definition sortPlacedWidgets :: "PlacedWidget list \<Rightarrow> PlacedWidget list" where
  "sortPlacedWidgets widgets = sort_by placed_less widgets"

text \<open>The loop of \<^verbatim>\<open>SolveExplicit\<close> over the screens: the screens and all spacers so far.\<close>

fun finish_screens ::
    "nat \<Rightarrow> int \<Rightarrow> int \<Rightarrow> nat \<Rightarrow> u32 list \<Rightarrow> PlacedWidget list list \<Rightarrow> (Screen list \<times> PlacedWidget list) option" where
  "finish_screens fuel gc gr s (m # ms) (ws # wss) =
     (case fillRemainingWithSpacers fuel s m gc gr of
        None \<Rightarrow> None
      | Some (spacers, m') \<Rightarrow>
        (case finish_screens fuel gc gr (Suc s) ms wss of
           None \<Rightarrow> None
         | Some (screens, allSpacers) \<Rightarrow>
             Some (\<lparr>sc_Index = s, sc_Bitmask = m', sc_Widgets = sortPlacedWidgets (ws @ spacers)\<rparr> # screens,
                   spacers @ allSpacers)))"
| "finish_screens fuel gc gr s _ _ = Some ([], [])"

definition SolveExplicit ::
    "ExplicitPlacement list \<Rightarrow> int \<Rightarrow> int \<Rightarrow> layout_error + (Layout \<times> PlacedWidget list)" where
  "SolveExplicit placements gridCols0 gridRows0 =
     (let (gc, gr) = NormalizeGrid gridCols0 gridRows0 in
      res_bind (validateExplicitPlacements placements gc gr) (\<lambda>unpinnedScreens.
      let (n, screenMap) = compactScreenIndices unpinnedScreens in
      res_bind (placeExplicitWidgets placements n screenMap gc) (\<lambda>(screenMasks, screenWidgets).
      case finish_screens (nat (gc * gr)) gc gr 0 screenMasks screenWidgets of
        None \<Rightarrow> Inl OutOfFuel
      | Some (screens, allSpacers) \<Rightarrow>
          Inr (\<lparr>TotalScreens = int n, Screens = screens\<rparr>, allSpacers))))"

subsection \<open>What validation establishes\<close>

definition ep_valid :: "int \<Rightarrow> int \<Rightarrow> ExplicitPlacement \<Rightarrow> bool" where
  "ep_valid gc gr p \<longleftrightarrow>
     on_grid gc gr (ep_Dimensions p) (fst (ep_Origin p)) (snd (ep_Origin p))
     \<and> 0 \<le> ep_Screen p \<and> ep_Screen p < 16 \<and> TrimSpace (ep_ID p) \<noteq> []"

lemma explicit_loop_Inr:
  "explicit_loop gc gr i ps seen us = Inr vs \<longleftrightarrow>
     (\<forall>p \<in> set ps. ep_valid gc gr p) \<and> distinct (map (\<lambda>p. TrimSpace (ep_ID p)) ps)
     \<and> dom seen \<inter> set (map (\<lambda>p. TrimSpace (ep_ID p)) ps) = {}
     \<and> vs = us @ map ep_Screen (filter (\<lambda>p. \<not> ep_Pinned p) ps)"
proof (induction ps arbitrary: i seen us)
  case (Cons p ps)
  have step: "explicit_loop gc gr i (p # ps) seen us = Inr vs \<longleftrightarrow>
     ep_valid gc gr p \<and> seen (TrimSpace (ep_ID p)) = None
     \<and> explicit_loop gc gr (Suc i) ps (seen(TrimSpace (ep_ID p) \<mapsto> i))
         (if \<not> ep_Pinned p then us @ [ep_Screen p] else us) = Inr vs"
    by (auto simp: Let_def ep_valid_def on_grid_def not_less split: option.split)
  have "dom seen \<inter> set (map (\<lambda>p. TrimSpace (ep_ID p)) (p # ps)) = {} \<longleftrightarrow>
     seen (TrimSpace (ep_ID p)) = None \<and> dom seen \<inter> set (map (\<lambda>p. TrimSpace (ep_ID p)) ps) = {}"
    by auto
  then show ?case unfolding step Cons.IH by auto
qed auto

lemma distinct_remdups_adj_sorted: "sorted xs \<Longrightarrow> distinct (remdups_adj xs)"
  by (induction xs rule: remdups_adj.induct) auto

lemma compact_list:
  fixes xs :: "int list"
  defines "us \<equiv> remdups_adj (sort xs)"
  shows "sorted us" "distinct us" "set us = set xs"
  unfolding us_def by (simp_all add: distinct_remdups_adj_sorted)

lemma compactScreenIndices_rank:
  assumes "compactScreenIndices xs = (n, sm)" "x \<in> set xs"
  shows "sm x = Some (card {y \<in> set xs. y < x})" "card {y \<in> set xs. y < x} < n"
proof -
  define us where "us = remdups_adj (sort xs)"
  note us = compact_list [of xs, folded us_def]
  have n: "n = max 1 (length us)" and sm: "sm = map_of (zip us [0..<length us])"
    using assms(1) by (simp_all add: compactScreenIndices_def us_def Let_def)
  obtain i where i: "i < length us" "us ! i = x" using assms(2) us(3) by (metis in_set_conv_nth)
  have st: "sorted_wrt (<) us" using us by (simp add: strict_sorted_iff)
  have "{y \<in> set xs. y < x} = (!) us ` {..<i}"
  proof (intro set_eqI iffI)
    fix y assume "y \<in> {y \<in> set xs. y < x}"
    then obtain j where j: "j < length us" "us ! j = y" "us ! j < us ! i"
      using us(3) i by (metis in_set_conv_nth mem_Collect_eq)
    then have "\<not> i \<le> j" using us(1) i by (metis leD sorted_nth_mono)
    then show "y \<in> (!) us ` {..<i}" using j by auto
  next
    fix y assume "y \<in> (!) us ` {..<i}"
    then show "y \<in> {y \<in> set xs. y < x}"
      using i us(3) sorted_wrt_nth_less [OF st, of _ i] by (auto simp flip: us(3))
  qed
  moreover have "inj_on ((!) us) {..<i}" using us(2) i by (auto simp: inj_on_def nth_eq_iff_index_eq)
  ultimately have card: "card {y \<in> set xs. y < x} = i" by (simp add: card_image)
  show "sm x = Some (card {y \<in> set xs. y < x})"
    unfolding card sm using map_of_zip_nth [of us "[0..<length us]" i] i us(2) by simp
  show "card {y \<in> set xs. y < x} < n" unfolding card n using i by simp
qed

subsection \<open>Placing keeps every screen a tiling\<close>

definition boards_ok :: "int \<Rightarrow> int \<Rightarrow> nat \<Rightarrow> boards \<Rightarrow> bool" where
  "boards_ok gc gr n st \<longleftrightarrow> length (fst st) = n \<and> length (snd st) = n
     \<and> (\<forall>t < n. tiles gc gr (snd st ! t) (cells_of (fst st ! t)))"

lemma explicit_tile:
  assumes "tiles gc gr ws (cells_of m)" "supported_grid gc gr" "ep_valid gc gr p"
    "m AND explicit_mask gc p = 0"
  shows "tiles gc gr (ws @ [explicit_placed p]) (cells_of (m OR explicit_mask gc p))"
  unfolding explicit_mask_def
  by (rule tiles_placement [OF assms(1,2)])
    (use assms(3,4) in \<open>simp_all add: ep_valid_def explicit_mask_def explicit_placed_def\<close>)

lemma boards_ok_pinned:
  assumes "boards_ok gc gr n (masks, wss)" "supported_grid gc gr" "ep_valid gc gr p"
    "filter (\<lambda>s. masks ! s AND explicit_mask gc p \<noteq> 0) [0..<n] = []"
  shows "boards_ok gc gr n (fillMaskAllScreens masks n (explicit_mask gc p) True,
     map (\<lambda>ws. ws @ [explicit_placed p]) wss)"
proof -
  have "masks ! t AND explicit_mask gc p = 0" if "t < n" for t
    using assms(4) that by (simp add: filter_empty_conv)
  then show ?thesis
    using assms(1) explicit_tile [OF _ assms(2,3)] by (simp add: boards_ok_def fillMaskAllScreens_def)
qed

lemma boards_ok_unpinned:
  assumes "boards_ok gc gr n (masks, wss)" "supported_grid gc gr" "ep_valid gc gr p"
    "masks ! t AND explicit_mask gc p = 0"
  shows "boards_ok gc gr n (masks[t := masks ! t OR explicit_mask gc p],
     wss[t := wss ! t @ [explicit_placed p]])"
  using assms(1) explicit_tile [OF _ assms(2,3,4)]
  by (cases "t < n") (simp_all add: boards_ok_def nth_list_update)

lemma place_pinned_widgets_sound:
  assumes "place_pinned_widgets ps n gc st = Inr st'" "boards_ok gc gr n st" "supported_grid gc gr"
    "\<forall>p \<in> set ps. ep_valid gc gr p"
  shows "boards_ok gc gr n st'
    \<and> (\<forall>t < n. snd st' ! t = snd st ! t @ map explicit_placed (filter ep_Pinned ps))"
  using assms
proof (induction ps n gc st rule: place_pinned_widgets.induct)
  case (2 p ps n gc masks wss)
  show ?case
  proof (cases "ep_Pinned p")
    case True
    with 2(3) have none: "filter (\<lambda>s. masks ! s AND explicit_mask gc p \<noteq> 0) [0..<n] = []"
      by (auto simp: Let_def split: list.splits)
    note ok = boards_ok_pinned [OF 2(4,5) _ none]
    show ?thesis
      using 2(2) [of "explicit_mask gc p"] 2(3-6) none True ok by (auto simp: boards_ok_def)
  next
    case False
    then show ?thesis using 2(1,3-6) by simp
  qed
qed simp

definition target_of :: "(int \<rightharpoonup> nat) \<Rightarrow> ExplicitPlacement \<Rightarrow> nat" where
  "target_of sm p = (case sm (ep_Screen p) of Some t \<Rightarrow> t | None \<Rightarrow> 0)"

lemma place_unpinned_widgets_sound:
  assumes "place_unpinned_widgets ps sm gc st = Inr st'" "boards_ok gc gr n st" "supported_grid gc gr"
    "\<forall>p \<in> set ps. ep_valid gc gr p \<and> (\<not> ep_Pinned p \<longrightarrow> target_of sm p < n)"
  shows "boards_ok gc gr n st'
    \<and> (\<forall>t < n. snd st' ! t = snd st ! t
         @ map explicit_placed (filter (\<lambda>p. \<not> ep_Pinned p \<and> target_of sm p = t) ps))"
  using assms
proof (induction ps sm gc st rule: place_unpinned_widgets.induct)
  case (2 p ps sm gc masks wss)
  show ?case
  proof (cases "ep_Pinned p")
    case True
    then show ?thesis using 2(1,3-6) by simp
  next
    case False
    let ?t = "target_of sm p"
    let ?st = "(masks[?t := masks ! ?t OR explicit_mask gc p], wss[?t := wss ! ?t @ [explicit_placed p]])"
    have free: "masks ! ?t AND explicit_mask gc p = 0" and rec: "place_unpinned_widgets ps sm gc ?st = Inr st'"
      using 2(3) False by (simp_all add: Let_def target_of_def split: if_splits)
    have ok: "boards_ok gc gr n ?st" using boards_ok_unpinned [OF 2(4,5) _ free] 2(6) by simp
    have len: "length wss = n" using 2(4) by (simp add: boards_ok_def)
    have "boards_ok gc gr n st' \<and> (\<forall>t < n. snd st' ! t = snd ?st ! t
         @ map explicit_placed (filter (\<lambda>p. \<not> ep_Pinned p \<and> target_of sm p = t) ps))"
      using 2(2) [OF _ _ refl] False free rec ok 2(5,6) by (simp add: target_of_def)
    then show ?thesis using len False 2(6) by (auto simp: nth_list_update)
  qed
qed simp

subsection \<open>The largest free rectangle and the spacer loop\<close>

lemma foldl_best:
  fixes P :: "Dimension \<Rightarrow> bool"
  defines "f \<equiv> \<lambda>best d. if P d \<and> isBetterSpacer (Cols d) (Rows d) best then d else best"
  shows "foldl f b ds \<in> insert b {d \<in> set ds. P d} \<and> Area b \<le> Area (foldl f b ds)
     \<and> (\<forall>d \<in> set ds. P d \<longrightarrow> Area d \<le> Area (foldl f b ds))"
proof (induction ds arbitrary: b)
  case (Cons d ds)
  have step: "f b d = b \<or> f b d = d \<and> P d" "Area b \<le> Area (f b d)" "P d \<longrightarrow> Area d \<le> Area (f b d)"
    by (auto simp: f_def isBetterSpacer_def Area_def)
  show ?case using Cons [of "f b d"] step by auto
qed simp

lemma spacer_shapes_set:
  "set (spacer_shapes w h) = {d. 1 \<le> Cols d \<and> Cols d \<le> w \<and> 1 \<le> Rows d \<and> Rows d \<le> h}"
proof (intro set_eqI iffI)
  fix d :: Dimension assume "d \<in> {d. 1 \<le> Cols d \<and> Cols d \<le> w \<and> 1 \<le> Rows d \<and> Rows d \<le> h}"
  moreover have "d = \<lparr>Cols = Cols d, Rows = Rows d\<rparr>" by simp
  ultimately show "d \<in> set (spacer_shapes w h)"
    by (cases d) (auto simp: spacer_shapes_def image_iff)
qed (auto simp: spacer_shapes_def)

lemma largestSpacerAt_spec:
  assumes "0 \<le> c" "c < gc" "0 \<le> r" "r < gr" "isFree m c r 1 1 gc"
  shows "on_grid gc gr (largestSpacerAt m c r gc gr) c r"
    "isFree m c r (Cols (largestSpacerAt m c r gc gr)) (Rows (largestSpacerAt m c r gc gr)) gc"
    "\<And>d. on_grid gc gr d c r \<Longrightarrow> isFree m c r (Cols d) (Rows d) gc \<Longrightarrow>
       Area d \<le> Area (largestSpacerAt m c r gc gr)"
proof -
  let ?L = "largestSpacerAt m c r gc gr" and ?z = "\<lparr>Cols = 0, Rows = 0\<rparr> :: Dimension"
  note b = foldl_best [of "\<lambda>d. isFree m c r (Cols d) (Rows d) gc" ?z "spacer_shapes (gc - c) (gr - r)",
      folded largestSpacerAt_def, unfolded spacer_shapes_set]
  have "Area \<lparr>Cols = 1, Rows = 1\<rparr> \<le> Area ?L"
    using b assms by (auto dest!: bspec [of _ _ "\<lparr>Cols = 1, Rows = 1\<rparr>"])
  then have "?L \<noteq> ?z" by (auto simp: Area_def)
  with b have "1 \<le> Cols ?L \<and> Cols ?L \<le> gc - c \<and> 1 \<le> Rows ?L \<and> Rows ?L \<le> gr - r
     \<and> isFree m c r (Cols ?L) (Rows ?L) gc" by auto
  then show "on_grid gc gr ?L c r" "isFree m c r (Cols ?L) (Rows ?L) gc"
    using assms by (simp_all add: on_grid_def IsValidForGrid_def)
  show "Area d \<le> Area ?L" if "on_grid gc gr d c r" "isFree m c r (Cols d) (Rows d) gc" for d
    using b that by (auto simp: on_grid_def IsValidForGrid_def)
qed

lemma cell_footprint:
  assumes "supported_grid gc gr" "n \<in> grid_cells gc gr"
  shows "footprint gc 1 1 (int n mod gc) (int n div gc) = {n}"
    "on_grid gc gr \<lparr>Cols = 1, Rows = 1\<rparr> (int n mod gc) (int n div gc)"
proof -
  have b: "0 < gc" "0 < gr" "int n < gc * gr"
    using assms supported_grid_bounds by (auto simp: grid_cells_def)
  have r: "int n div gc < gr"
  proof (rule ccontr)
    assume "\<not> int n div gc < gr"
    then have "gc * gr \<le> gc * (int n div gc)" using b(1) by (intro mult_left_mono) simp_all
    also have "\<dots> \<le> int n" using b(1) by (simp add: minus_mod_eq_mult_div [symmetric])
    finally show False using b(3) by simp
  qed
  show "footprint gc 1 1 (int n mod gc) (int n div gc) = {n}"
  proof (intro set_eqI iffI)
    fix k assume "k \<in> footprint gc 1 1 (int n mod gc) (int n div gc)"
    then have "int k div gc = int n div gc" "int k mod gc = int n mod gc" by (auto simp: footprint_def)
    then show "k \<in> {n}" by (metis div_mult_mod_eq insertI1 of_nat_eq_iff)
  qed (simp add: footprint_def)
  show "on_grid gc gr \<lparr>Cols = 1, Rows = 1\<rparr> (int n mod gc) (int n div gc)"
    using b r pos_mod_bound [OF b(1), of "int n"] pos_mod_sign [OF b(1), of "int n"]
    by (simp add: on_grid_def IsValidForGrid_def pos_imp_zdiv_nonneg_iff)
qed

definition is_spacer :: "nat \<Rightarrow> PlacedWidget \<Rightarrow> bool" where
  "is_spacer s pw \<longleftrightarrow> pw = spacer_at s (Col pw) (Row pw) (pw_Dimensions pw)"

lemma is_spacer_at [simp]: "is_spacer s (spacer_at s c r d)"
  by (simp add: is_spacer_def spacer_at_def Col_def Row_def)

text \<open>One turn of the loop: the spacer it adds extends the tiling by the first empty cell at least.\<close>

lemma spacer_step:
  assumes t: "tiles gc gr ws (cells_of m)" and sg: "supported_grid gc gr" and ne: "m \<noteq> fullGridMask gc gr"
  defines "n \<equiv> int (TrailingZeros32 (NOT m))"
  defines "dim \<equiv> largestSpacerAt m (n mod gc) (n div gc) gc gr"
  defines "sm \<equiv> ComputeWidgetBitmaskForGrid (Cols dim) (Rows dim) (n mod gc) (n div gc) gc"
  shows "tiles gc gr (ws @ [spacer_at s (n mod gc) (n div gc) dim]) (cells_of (m OR sm))"
    "card (grid_cells gc gr - cells_of (m OR sm)) < card (grid_cells gc gr - cells_of m)"
proof -
  have "cells_of m \<noteq> grid_cells gc gr"
    using ne by (simp flip: cells_of_inject add: cells_of_fullGridMask [OF sg])
  with tiles_subset_grid [OF t sg] have sub: "cells_of m \<subset> grid_cells gc gr" by blast
  note cell = first_empty_cell(1) [OF sub sg]
  note fp = cell_footprint [OF sg DiffD1 [OF cell], folded n_def]
  have free1: "isFree m (n mod gc) (n div gc) 1 1 gc"
    using cells_of_widget_mask [OF fp(2) sg] fp(1) cell by (simp add: isFree_def and_eq_0_iff)
  have b: "0 \<le> n mod gc" "n mod gc < gc" "0 \<le> n div gc" "n div gc < gr"
    using fp(2) by (auto simp: on_grid_def)
  note L = largestSpacerAt_spec [OF b free1, folded dim_def]
  have fr: "m AND sm = 0" using L(2) by (simp add: isFree_def sm_def)
  show "tiles gc gr (ws @ [spacer_at s (n mod gc) (n div gc) dim]) (cells_of (m OR sm))"
    unfolding sm_def by (rule tiles_placement [OF t sg L(1) fr [unfolded sm_def]])
      (simp_all add: spacer_at_def)
  have "TrailingZeros32 (NOT m) \<in> cells_of sm"
    using cells_of_widget_mask [OF L(1) sg] L(1)
    by (simp add: sm_def footprint_def on_grid_def IsValidForGrid_def n_def)
  then show "card (grid_cells gc gr - cells_of (m OR sm)) < card (grid_cells gc gr - cells_of m)"
    using cell by (intro psubset_card_mono) auto
qed

lemma fillRemainingWithSpacers_sound:
  assumes "tiles gc gr ws (cells_of m)" "supported_grid gc gr"
    "card (grid_cells gc gr - cells_of m) \<le> fuel"
  shows "\<exists>sp. fillRemainingWithSpacers fuel s m gc gr = Some (sp, fullGridMask gc gr)
    \<and> tiles gc gr (ws @ sp) (grid_cells gc gr) \<and> (\<forall>pw \<in> set sp. is_spacer s pw)"
  using assms
proof (induction fuel arbitrary: m ws)
  case 0
  then have "grid_cells gc gr \<subseteq> cells_of m" by simp
  with tiles_subset_grid [OF 0(1,2)] have "cells_of m = grid_cells gc gr" by blast
  moreover from this have "m = fullGridMask gc gr"
    by (simp flip: cells_of_inject add: cells_of_fullGridMask [OF 0(2)])
  ultimately show ?case using 0(1) by (simp add: fillRemainingWithSpacers.simps)
next
  case (Suc fuel)
  show ?case
  proof (cases "m = fullGridMask gc gr")
    case True
    then show ?thesis
      using Suc.prems by (simp add: fillRemainingWithSpacers.simps cells_of_fullGridMask)
  next
    case False
    note st = spacer_step(1) [OF Suc.prems(1,2) False, of s] spacer_step(2) [OF Suc.prems(1,2) False]
    from Suc.IH [OF st(1) Suc.prems(2)] st(2) Suc.prems(3) obtain sp where
      "fillRemainingWithSpacers fuel s (m OR ComputeWidgetBitmaskForGrid
         (Cols (largestSpacerAt m (int (TrailingZeros32 (NOT m)) mod gc) (int (TrailingZeros32 (NOT m)) div gc) gc gr))
         (Rows (largestSpacerAt m (int (TrailingZeros32 (NOT m)) mod gc) (int (TrailingZeros32 (NOT m)) div gc) gc gr))
         (int (TrailingZeros32 (NOT m)) mod gc) (int (TrailingZeros32 (NOT m)) div gc) gc) gc gr
         = Some (sp, fullGridMask gc gr)"
      "tiles gc gr ((ws @ [spacer_at s (int (TrailingZeros32 (NOT m)) mod gc) (int (TrailingZeros32 (NOT m)) div gc)
         (largestSpacerAt m (int (TrailingZeros32 (NOT m)) mod gc) (int (TrailingZeros32 (NOT m)) div gc) gc gr)]) @ sp)
         (grid_cells gc gr)" "\<forall>pw \<in> set sp. is_spacer s pw"
      by auto
    then show ?thesis
      using False by (subst fillRemainingWithSpacers.simps) (simp add: Let_def)
  qed
qed

text \<open>A finished screen holds what was placed on it and spacers, and nothing else.\<close>

definition finished :: "int \<Rightarrow> int \<Rightarrow> nat \<Rightarrow> PlacedWidget list \<Rightarrow> PlacedWidget list \<Rightarrow> Screen \<Rightarrow> bool" where
  "finished gc gr s ws sp sc \<longleftrightarrow> sc_Index sc = s \<and> sc_Bitmask sc = fullGridMask gc gr
     \<and> tiles gc gr (sc_Widgets sc) (grid_cells gc gr)
     \<and> mset (sc_Widgets sc) = mset ws + mset sp \<and> (\<forall>pw \<in> set sp. is_spacer s pw)"

lemma finish_screens_sound:
  assumes "boards_ok gc gr n (ms, wss)" "supported_grid gc gr" "nat (gc * gr) \<le> fuel"
  shows "\<exists>scs sps. finish_screens fuel gc gr s ms wss = Some (scs, concat sps)
    \<and> length scs = n \<and> length sps = n \<and> (\<forall>i < n. finished gc gr (s + i) (wss ! i) (sps ! i) (scs ! i))"
  using assms
proof (induction n arbitrary: s ms wss)
  case (Suc n)
  from Suc.prems(1) obtain m ms' ws wss' where c: "ms = m # ms'" "wss = ws # wss'"
    by (auto simp: boards_ok_def length_Suc_conv)
  have ok: "tiles gc gr ws (cells_of m)" "boards_ok gc gr n (ms', wss')"
    using Suc.prems(1) unfolding c boards_ok_def by auto
  have "card (grid_cells gc gr - cells_of m) \<le> card (grid_cells gc gr)" by (intro card_mono) auto
  also have "\<dots> \<le> fuel"
    using card_grid_cells [of gc gr] supported_grid_bounds [OF Suc.prems(2)] Suc.prems(3) by simp
  finally obtain sp where sp: "fillRemainingWithSpacers fuel s m gc gr = Some (sp, fullGridMask gc gr)"
    "tiles gc gr (ws @ sp) (grid_cells gc gr)" "\<forall>pw \<in> set sp. is_spacer s pw"
    using fillRemainingWithSpacers_sound [OF ok(1) Suc.prems(2)] by blast
  from Suc.IH [OF ok(2) Suc.prems(2,3), of "Suc s"] obtain scs sps where
    rest: "finish_screens fuel gc gr (Suc s) ms' wss' = Some (scs, concat sps)"
    "length scs = n" "length sps = n"
    "\<forall>i < n. finished gc gr (Suc s + i) (wss' ! i) (sps ! i) (scs ! i)" by blast
  let ?sc = "\<lparr>sc_Index = s, sc_Bitmask = fullGridMask gc gr, sc_Widgets = sortPlacedWidgets (ws @ sp)\<rparr>"
  have "finished gc gr s ws sp ?sc"
    using sp(2,3) tiles_mset [of "sort_by placed_less (ws @ sp)" "ws @ sp"]
    by (simp add: finished_def sortPlacedWidgets_def)
  with rest sp(1) show ?case
    by (intro exI [of _ "?sc # scs"] exI [of _ "sp # sps"])
      (auto simp: c nth_Cons split: nat.split)
qed (simp add: boards_ok_def)

subsection \<open>Properties of explicit layouts\<close>

definition unpinned_screens :: "ExplicitPlacement list \<Rightarrow> int list" where
  "unpinned_screens ps = map ep_Screen (filter (\<lambda>p. \<not> ep_Pinned p) ps)"

text \<open>The screen a placement ends up on: how many of the screens in use come before its own.\<close>

definition screen_rank :: "ExplicitPlacement list \<Rightarrow> ExplicitPlacement \<Rightarrow> nat" where
  "screen_rank ps p = card {y \<in> set (unpinned_screens ps). y < ep_Screen p}"

definition user_widgets :: "ExplicitPlacement list \<Rightarrow> nat \<Rightarrow> PlacedWidget list" where
  "user_widgets ps t =
     map explicit_placed (filter ep_Pinned ps)
   @ map explicit_placed (filter (\<lambda>p. \<not> ep_Pinned p \<and> screen_rank ps p = t) ps)"

lemma validate_Inr:
  "validateExplicitPlacements ps gc gr = Inr us \<longleftrightarrow>
     (\<forall>p \<in> set ps. ep_valid gc gr p) \<and> distinct (map (\<lambda>p. TrimSpace (ep_ID p)) ps)
     \<and> us = unpinned_screens ps"
  by (simp add: validateExplicitPlacements_def explicit_loop_Inr unpinned_screens_def)

lemma target_rank:
  assumes "compactScreenIndices (unpinned_screens ps) = (n, sm)" "p \<in> set ps" "\<not> ep_Pinned p"
  shows "target_of sm p = screen_rank ps p" "screen_rank ps p < n"
proof -
  have "ep_Screen p \<in> set (unpinned_screens ps)" using assms(2,3) by (auto simp: unpinned_screens_def)
  from compactScreenIndices_rank [OF assms(1) this] show "target_of sm p = screen_rank ps p" "screen_rank ps p < n"
    by (simp_all add: target_of_def screen_rank_def)
qed

lemma placeExplicitWidgets_sound:
  assumes "placeExplicitWidgets ps n sm gc = Inr (ms, wss)" "supported_grid gc gr"
    "\<forall>p \<in> set ps. ep_valid gc gr p" "compactScreenIndices (unpinned_screens ps) = (n, sm)"
  shows "boards_ok gc gr n (ms, wss)" "t < n \<Longrightarrow> wss ! t = user_widgets ps t"
proof -
  obtain st where pin: "place_pinned_widgets ps n gc (replicate n 0, replicate n []) = Inr st"
    and unp: "place_unpinned_widgets ps sm gc st = Inr (ms, wss)"
    using assms(1) by (cases "place_pinned_widgets ps n gc (replicate n 0, replicate n [])")
      (auto simp: placeExplicitWidgets_def)
  have "boards_ok gc gr n (replicate n 0, replicate n [])" by (simp add: boards_ok_def)
  note p = place_pinned_widgets_sound [OF pin this assms(2,3)]
  note tr = target_rank [OF assms(4)]
  have "\<forall>p \<in> set ps. ep_valid gc gr p \<and> (\<not> ep_Pinned p \<longrightarrow> target_of sm p < n)"
    using assms(3) tr by simp
  note u = place_unpinned_widgets_sound [OF unp p [THEN conjunct1] assms(2) this]
  show "boards_ok gc gr n (ms, wss)" using u by simp
  have "filter (\<lambda>p. \<not> ep_Pinned p \<and> target_of sm p = t) ps
      = filter (\<lambda>p. \<not> ep_Pinned p \<and> screen_rank ps p = t) ps"
    using tr(1) by (intro filter_cong) auto
  then show "wss ! t = user_widgets ps t" if "t < n" using u p that by (simp add: user_widgets_def)
qed

lemma explicit_loop_fuel: "explicit_loop gc gr i ps seen us \<noteq> Inl OutOfFuel"
proof (induction ps arbitrary: i seen us)
  case (Cons p ps)
  then show ?case by (simp add: Let_def split: option.split)
qed simp

lemma place_pinned_fuel: "place_pinned_widgets ps n gc st \<noteq> Inl OutOfFuel"
  by (induction ps n gc st rule: place_pinned_widgets.induct) (auto simp: Let_def split: list.split)

lemma place_unpinned_fuel: "place_unpinned_widgets ps sm gc st \<noteq> Inl OutOfFuel"
  by (induction ps sm gc st rule: place_unpinned_widgets.induct) (auto simp: Let_def)

lemma placeExplicitWidgets_fuel: "placeExplicitWidgets ps n sm gc \<noteq> Inl OutOfFuel"
  using place_pinned_fuel place_unpinned_fuel
  by (cases "place_pinned_widgets ps n gc (replicate n 0, replicate n [])")
    (auto simp: placeExplicitWidgets_def)

lemma SolveExplicit_cases:
  assumes "NormalizeGrid gc0 gr0 = (gc, gr)"
  obtains e where "SolveExplicit ps gc0 gr0 = Inl e" "e \<noteq> OutOfFuel"
    | n sps scs where "SolveExplicit ps gc0 gr0 = Inr (\<lparr>TotalScreens = int n, Screens = scs\<rparr>, concat sps)"
      "n = max 1 (card (set (unpinned_screens ps)))" "length scs = n" "length sps = n"
      "\<forall>i < n. finished gc gr i (user_widgets ps i) (sps ! i) (scs ! i)"
proof -
  note sg = NormalizeGrid_supported [OF assms]
  obtain n sm where cs: "compactScreenIndices (unpinned_screens ps) = (n, sm)"
    by (cases "compactScreenIndices (unpinned_screens ps)")
  have n: "n = max 1 (card (set (unpinned_screens ps)))"
    using cs compact_list(2,3) [of "unpinned_screens ps"]
    by (metis Pair_inject compactScreenIndices_def distinct_card)
  show thesis
  proof (cases "validateExplicitPlacements ps gc gr")
    case (Inl e)
    then have "e \<noteq> OutOfFuel" using explicit_loop_fuel by (metis validateExplicitPlacements_def)
    with Inl show thesis by (intro that(1)) (simp_all add: SolveExplicit_def assms)
  next
    case v: (Inr us)
    then have valid: "\<forall>p \<in> set ps. ep_valid gc gr p" and us: "us = unpinned_screens ps"
      by (simp_all add: validate_Inr)
    show thesis
    proof (cases "placeExplicitWidgets ps n sm gc")
      case (Inl e)
      then have "e \<noteq> OutOfFuel" using placeExplicitWidgets_fuel by metis
      with Inl v us cs show thesis by (intro that(1)) (simp_all add: SolveExplicit_def assms)
    next
      case (Inr st)
      obtain ms wss where st: "st = (ms, wss)" by (cases st)
      note pl = placeExplicitWidgets_sound [OF Inr [unfolded st] sg valid cs]
      obtain scs sps where f: "finish_screens (nat (gc * gr)) gc gr 0 ms wss = Some (scs, concat sps)"
        and l: "length scs = n" "length sps = n" "\<forall>i < n. finished gc gr (0 + i) (wss ! i) (sps ! i) (scs ! i)"
        using finish_screens_sound [OF pl(1) sg order.refl, of 0] by blast
      show thesis
        by (rule that(2) [OF _ n l(1,2)])
          (use l(3) pl(2) f v us cs Inr st in \<open>simp_all add: SolveExplicit_def assms\<close>)
    qed
  qed
qed

lemma explicit_tiled:
  assumes "SolveExplicit ps gc0 gr0 = Inr (L, spacers)" "NormalizeGrid gc0 gr0 = (gc, gr)"
  shows "tiled_layout gc gr L"
  by (rule SolveExplicit_cases [OF assms(2), of ps]) (use assms(1) in \<open>auto simp: tiled_layout_def finished_def\<close>)


definition sample_placements :: "ExplicitPlacement list" where
  "sample_placements = [\<lparr>ep_ID = ''cal'', ep_Type = ''calendar'', ep_Screen = 7, ep_Origin = (0, 0),
     ep_Dimensions = \<lparr>Cols = 6, Rows = 1\<rparr>, ep_Pinned = False\<rparr>]"

definition sample_explicit :: Layout where
  "sample_explicit = \<lparr>TotalScreens = 1, Screens = [\<lparr>sc_Index = 0, sc_Bitmask = 4095, sc_Widgets =
     [explicit_placed (hd sample_placements), spacer_at 0 0 1 \<lparr>Cols = 6, Rows = 1\<rparr>]\<rparr>]\<rparr>"

lemma sample_explicit_run:
  "SolveExplicit sample_placements 6 2 = Inr (sample_explicit, [spacer_at 0 0 1 \<lparr>Cols = 6, Rows = 1\<rparr>])"
  by code_simp


text \<open>Filling the free cells with spacers always ends: no explicit layout runs out of the fuel of one
  turn per grid cell and screen.\<close>

lemma explicit_terminates: "SolveExplicit ps gc0 gr0 \<noteq> Inl OutOfFuel"
proof -
  obtain gc gr where ng: "NormalizeGrid gc0 gr0 = (gc, gr)" by (cases "NormalizeGrid gc0 gr0")
  show ?thesis by (rule SolveExplicit_cases [OF ng, of ps]) simp_all
qed

text \<open>The spacer chosen for a free cell is the largest free rectangle that starts there: it lies on the
  grid, covers only free cells, and no other such rectangle has a larger area.\<close>

lemma spacer_is_largest:
  assumes "supported_grid gc gr" "n \<in> grid_cells gc gr" "n \<notin> cells_of m"
    "c = int n mod gc" "r = int n div gc" "dim = largestSpacerAt m c r gc gr"
  shows "on_grid gc gr dim c r \<and> footprint gc (Cols dim) (Rows dim) c r \<inter> cells_of m = {}
    \<and> (\<forall>d. on_grid gc gr d c r \<and> footprint gc (Cols d) (Rows d) c r \<inter> cells_of m = {} \<longrightarrow> Area d \<le> Area dim)"
proof -
  note fp = cell_footprint [OF assms(1,2), folded assms(4,5)]
  have free: "isFree m c r (Cols d) (Rows d) gc \<longleftrightarrow> footprint gc (Cols d) (Rows d) c r \<inter> cells_of m = {}"
    if "on_grid gc gr d c r" for d
    using cells_of_widget_mask [OF that assms(1)] by (auto simp: isFree_def and_eq_0_iff)
  have "isFree m c r 1 1 gc" using free [OF fp(2)] fp(1) assms(3) by simp
  moreover have "0 \<le> c" "c < gc" "0 \<le> r" "r < gr" using fp(2) by (simp_all add: on_grid_def)
  ultimately have "on_grid gc gr dim c r" "isFree m c r (Cols dim) (Rows dim) gc"
    "\<And>d. on_grid gc gr d c r \<Longrightarrow> isFree m c r (Cols d) (Rows d) gc \<Longrightarrow> Area d \<le> Area dim"
    unfolding assms(6) using largestSpacerAt_spec by blast+
  then show ?thesis using free by blast
qed

end
