(* ===== verification/Layout_Accept.thy ===== *)
theory Layout_Accept
  imports Layout_Explicit
begin

text \<open>
  When \<^verbatim>\<open>SolveExplicit\<close> accepts: exactly when every placement is valid, the identifiers differ and no two
  placements that meet on some screen share a cell.
\<close>

text \<open>Two placements meet if one of them is on every screen or both are on the same one.\<close>

definition meet :: "ExplicitPlacement \<Rightarrow> ExplicitPlacement \<Rightarrow> bool" where
  "meet p q \<longleftrightarrow> ep_Pinned p \<or> ep_Pinned q \<or> ep_Screen p = ep_Screen q"

definition compatible :: "int \<Rightarrow> ExplicitPlacement \<Rightarrow> ExplicitPlacement \<Rightarrow> bool" where
  "compatible gc p q \<longleftrightarrow> (meet p q \<longrightarrow> explicit_mask gc p AND explicit_mask gc q = 0)"

definition apart :: "int \<Rightarrow> ExplicitPlacement \<Rightarrow> ExplicitPlacement \<Rightarrow> bool" where
  "apart gc p q \<longleftrightarrow> explicit_mask gc p AND explicit_mask gc q = 0"

lemma or_and_eq_0: "(a OR b) AND x = (0 :: u32) \<longleftrightarrow> a AND x = 0 \<and> b AND x = 0"
  by (auto simp: and_eq_0_iff)

lemma fill_replicate: "fillMaskAllScreens (replicate n M) n m True = replicate n (M OR m)"
  by (rule nth_equalityI) (simp_all add: fillMaskAllScreens_def)

lemma pinned_accepts:
  assumes "0 < n"
  shows "(\<exists>st. place_pinned_widgets ps n gc (replicate n M, wss) = Inr st) \<longleftrightarrow>
      (\<forall>p \<in> set (filter ep_Pinned ps). M AND explicit_mask gc p = 0) \<and> sorted_wrt (apart gc) (filter ep_Pinned ps)"
    and "place_pinned_widgets ps n gc (replicate n M, wss) = Inr (ms, wss') \<Longrightarrow>
      \<exists>M'. ms = replicate n M' \<and> (\<forall>x. M' AND x = 0 \<longleftrightarrow> M AND x = 0 \<and> (\<forall>p \<in> set (filter ep_Pinned ps). explicit_mask gc p AND x = 0))"
proof (induction ps arbitrary: M wss)
  case (Cons p ps)
  let ?M = "\<lambda>M. M OR explicit_mask gc p" and ?wss = "map (\<lambda>ws. ws @ [explicit_placed p])"
  have step: "place_pinned_widgets (p # ps) n gc (replicate n M, wss) =
      (if \<not> ep_Pinned p then place_pinned_widgets ps n gc (replicate n M, wss)
       else if M AND explicit_mask gc p = 0 then place_pinned_widgets ps n gc (replicate n (?M M), ?wss wss)
       else Inl (WidgetOverlap 0 (fst (ep_Origin p)) (snd (ep_Origin p))))" for M wss
  proof (cases "M AND explicit_mask gc p = 0")
    case True
    then have "filter (\<lambda>s. replicate n M ! s AND explicit_mask gc p \<noteq> 0) [0..<n] = []"
      by (simp add: filter_empty_conv)
    with True show ?thesis by (simp add: Let_def fill_replicate)
  next
    case False
    then have "filter (\<lambda>s. replicate n M ! s AND explicit_mask gc p \<noteq> 0) [0..<n] = [0..<n]"
      by (simp add: filter_id_conv)
    moreover have "[0..<n] = 0 # [1..<n]" using assms by (simp add: upt_conv_Cons)
    ultimately show ?thesis using False by (simp add: Let_def)
  qed
  {
    case (1 M wss)
    show ?case
      unfolding step using Cons.IH(1) [of M wss] Cons.IH(1) [of "?M M" "?wss wss"]
      by (cases "ep_Pinned p"; cases "M AND explicit_mask gc p = 0") (auto simp: or_and_eq_0 apart_def)
  next
    case (2 M wss)
    then show ?case
      unfolding step using Cons.IH(2) [of M wss] Cons.IH(2) [of "?M M" "?wss wss"]
      by (cases "ep_Pinned p"; cases "M AND explicit_mask gc p = 0") (auto simp: or_and_eq_0)
  }
qed auto

lemma unpinned_accepts:
  assumes "\<forall>p \<in> set ps. \<not> ep_Pinned p \<longrightarrow> target_of sm p < length ms"
  shows "(\<exists>st. place_unpinned_widgets ps sm gc (ms, wss) = Inr st) \<longleftrightarrow>
    (\<forall>p \<in> set (filter (\<lambda>p. \<not> ep_Pinned p) ps). ms ! target_of sm p AND explicit_mask gc p = 0)
    \<and> sorted_wrt (\<lambda>p q. target_of sm p = target_of sm q \<longrightarrow> apart gc p q) (filter (\<lambda>p. \<not> ep_Pinned p) ps)"
  using assms
proof (induction ps arbitrary: ms wss)
  case (Cons p ps)
  show ?case
  proof (cases "ep_Pinned p")
    case True
    with Cons show ?thesis by simp
  next
    case False
    let ?t = "target_of sm p" and ?m = "explicit_mask gc p"
    let ?us = "filter (\<lambda>p. \<not> ep_Pinned p) ps"
    have t: "(case sm (ep_Screen p) of None \<Rightarrow> 0 | Some t \<Rightarrow> t) = ?t" "?t < length ms"
      using Cons.prems False by (simp_all add: target_of_def)
    have "(\<exists>st. place_unpinned_widgets (p # ps) sm gc (ms, wss) = Inr st) \<longleftrightarrow> ms ! ?t AND ?m = 0
        \<and> (\<exists>st. place_unpinned_widgets ps sm gc (ms[?t := ms ! ?t OR ?m], wss[?t := wss ! ?t @ [explicit_placed p]]) = Inr st)"
      using False by (simp add: Let_def t(1))
    also have "\<dots> \<longleftrightarrow> ms ! ?t AND ?m = 0
        \<and> (\<forall>q \<in> set ?us. ms[?t := ms ! ?t OR ?m] ! target_of sm q AND explicit_mask gc q = 0)
        \<and> sorted_wrt (\<lambda>p q. target_of sm p = target_of sm q \<longrightarrow> apart gc p q) ?us"
      using Cons.prems by (subst Cons.IH) auto
    also have "(\<forall>q \<in> set ?us. ms[?t := ms ! ?t OR ?m] ! target_of sm q AND explicit_mask gc q = 0) \<longleftrightarrow>
        (\<forall>q \<in> set ?us. ms ! target_of sm q AND explicit_mask gc q = 0 \<and> (?t = target_of sm q \<longrightarrow> apart gc p q))"
      using t(2) by (auto simp: nth_list_update or_and_eq_0 apart_def split: if_splits)
    finally show ?thesis using False by auto
  qed
qed simp

text \<open>Compacting keeps different screens different.\<close>

lemma same_target:
  assumes "compactScreenIndices (unpinned_screens ps) = (n, sm)"
    and "p \<in> set ps" "\<not> ep_Pinned p" "q \<in> set ps" "\<not> ep_Pinned q"
  shows "target_of sm p = target_of sm q \<longleftrightarrow> ep_Screen p = ep_Screen q"
proof
  let ?us = "set (unpinned_screens ps)"
  have mem: "ep_Screen p \<in> ?us" "ep_Screen q \<in> ?us" using assms by (auto simp: unpinned_screens_def)
  have less: "screen_rank ps a < screen_rank ps b" if "ep_Screen a < ep_Screen b" "ep_Screen a \<in> ?us" for a b
    unfolding screen_rank_def by (rule psubset_card_mono) (use that in auto)
  assume "target_of sm p = target_of sm q"
  then have "screen_rank ps p = screen_rank ps q" using target_rank(1) [OF assms(1)] assms(2-5) by simp
  then show "ep_Screen p = ep_Screen q"
    using less [of p q] less [of q p] mem by (cases "ep_Screen p" "ep_Screen q" rule: linorder_cases) simp_all
qed (simp add: target_of_def)

lemma sorted_wrt_split:
  "(\<forall>x y. R x y \<longleftrightarrow> R y x) \<Longrightarrow> sorted_wrt R xs \<longleftrightarrow>
     sorted_wrt R (filter P xs) \<and> sorted_wrt R (filter (\<lambda>x. \<not> P x) xs)
     \<and> (\<forall>x \<in> set xs. \<forall>y \<in> set xs. P x \<and> \<not> P y \<longrightarrow> R x y)"
  by (induction xs) auto

lemma sorted_wrt_cong_iff:
  "(\<And>x y. x \<in> set xs \<Longrightarrow> y \<in> set xs \<Longrightarrow> R x y \<longleftrightarrow> S x y) \<Longrightarrow> sorted_wrt R xs \<longleftrightarrow> sorted_wrt S xs"
  by (induction xs) auto

lemma compatible_sym: "compatible gc p q \<longleftrightarrow> compatible gc q p"
  by (auto simp: compatible_def meet_def and.commute)

lemma place_accepts:
  assumes cs: "compactScreenIndices (unpinned_screens ps) = (n, sm)"
  shows "(\<exists>st. placeExplicitWidgets ps n sm gc = Inr st) \<longleftrightarrow> sorted_wrt (compatible gc) ps"
proof -
  let ?pin = "filter ep_Pinned ps" and ?un = "filter (\<lambda>p. \<not> ep_Pinned p) ps"
  have n: "0 < n" using cs by (auto simp: compactScreenIndices_def Let_def)
  have "sorted_wrt (compatible gc) ps \<longleftrightarrow> sorted_wrt (compatible gc) ?pin \<and> sorted_wrt (compatible gc) ?un
      \<and> (\<forall>p \<in> set ps. \<forall>q \<in> set ps. ep_Pinned p \<and> \<not> ep_Pinned q \<longrightarrow> compatible gc p q)"
    using compatible_sym by (intro sorted_wrt_split) blast
  moreover have "sorted_wrt (compatible gc) ?pin \<longleftrightarrow> sorted_wrt (apart gc) ?pin"
    by (rule sorted_wrt_cong_iff) (simp add: compatible_def meet_def apart_def)
  moreover have "sorted_wrt (compatible gc) ?un \<longleftrightarrow> sorted_wrt (\<lambda>p q. target_of sm p = target_of sm q \<longrightarrow> apart gc p q) ?un"
    by (rule sorted_wrt_cong_iff) (auto simp: compatible_def meet_def apart_def same_target [OF cs])
  moreover have "(\<forall>p \<in> set ps. \<forall>q \<in> set ps. ep_Pinned p \<and> \<not> ep_Pinned q \<longrightarrow> compatible gc p q)
      \<longleftrightarrow> (\<forall>q \<in> set ?un. \<forall>p \<in> set ?pin. explicit_mask gc p AND explicit_mask gc q = 0)"
    by (auto simp: compatible_def meet_def)
  moreover have "(\<exists>st. placeExplicitWidgets ps n sm gc = Inr st) \<longleftrightarrow> sorted_wrt (apart gc) ?pin
      \<and> (\<forall>q \<in> set ?un. \<forall>p \<in> set ?pin. explicit_mask gc p AND explicit_mask gc q = 0)
      \<and> sorted_wrt (\<lambda>p q. target_of sm p = target_of sm q \<longrightarrow> apart gc p q) ?un"
  proof (cases "place_pinned_widgets ps n gc (replicate n 0, replicate n [])")
    case (Inl e)
    then have "\<not> (\<exists>st. place_pinned_widgets ps n gc (replicate n 0, replicate n []) = Inr st)" by simp
    then have "\<not> sorted_wrt (apart gc) ?pin" unfolding pinned_accepts(1) [OF n] by simp
    with Inl show ?thesis by (simp add: placeExplicitWidgets_def)
  next
    case (Inr st)
    obtain ms wss where st: "st = (ms, wss)" by (cases st)
    have pin: "sorted_wrt (apart gc) ?pin" using pinned_accepts(1) [OF n, of ps gc 0 "replicate n []"] Inr by auto
    obtain M where M: "ms = replicate n M" "\<And>x. M AND x = 0 \<longleftrightarrow> (\<forall>p \<in> set ?pin. explicit_mask gc p AND x = 0)"
      using pinned_accepts(2) [OF n, of ps gc 0 "replicate n []" ms wss] Inr st by auto
    have targets: "\<forall>p \<in> set ps. \<not> ep_Pinned p \<longrightarrow> target_of sm p < length ms"
      using target_rank [OF cs] M(1) by simp
    have "(\<exists>st. placeExplicitWidgets ps n sm gc = Inr st) \<longleftrightarrow> (\<exists>st. place_unpinned_widgets ps sm gc (ms, wss) = Inr st)"
      using Inr st by (simp add: placeExplicitWidgets_def)
    also have "\<dots> \<longleftrightarrow> (\<forall>q \<in> set ?un. \<forall>p \<in> set ?pin. explicit_mask gc p AND explicit_mask gc q = 0)
        \<and> sorted_wrt (\<lambda>p q. target_of sm p = target_of sm q \<longrightarrow> apart gc p q) ?un"
      unfolding unpinned_accepts [OF targets] using targets M by simp
    finally show ?thesis using pin by simp
  qed
  ultimately show ?thesis by blast
qed

lemma solve_explicit_accepts:
  assumes "NormalizeGrid gc0 gr0 = (gc, gr)"
  shows "(\<exists>r. SolveExplicit ps gc0 gr0 = Inr r) \<longleftrightarrow>
    (\<forall>p \<in> set ps. ep_valid gc gr p) \<and> distinct (map (\<lambda>p. TrimSpace (ep_ID p)) ps) \<and> sorted_wrt (compatible gc) ps"
proof -
  obtain n sm where cs: "compactScreenIndices (unpinned_screens ps) = (n, sm)"
    by (cases "compactScreenIndices (unpinned_screens ps)")
  have "(\<exists>r. SolveExplicit ps gc0 gr0 = Inr r) \<longleftrightarrow>
    (\<exists>us. validateExplicitPlacements ps gc gr = Inr us) \<and> (\<exists>st. placeExplicitWidgets ps n sm gc = Inr st)"
  proof (cases rule: SolveExplicit_cases [OF assms, of ps])
    case (1 e)
    have "SolveExplicit ps gc0 gr0 \<noteq> Inl e"
      if "validateExplicitPlacements ps gc gr = Inr us" "placeExplicitWidgets ps n sm gc = Inr st" for us st
    proof -
      have "us = unpinned_screens ps" using that(1) by (simp add: validate_Inr)
      with that cs assms 1(2) show ?thesis by (auto simp: SolveExplicit_def split: prod.split option.split)
    qed
    with 1(1) show ?thesis by auto
  next
    case (2 n' sps scs)
    then show ?thesis using cs assms by (auto simp: SolveExplicit_def validate_Inr)
  qed
  then show ?thesis unfolding place_accepts [OF cs] by (simp add: validate_Inr)
qed

text \<open>An explicit layout is accepted exactly when every placement lies on the grid, on one of the sixteen screens
  and has an identifier, no two have the same, and no two that meet on some screen (one of them pinned, or both
  on the same screen) cover a common cell.\<close>

lemma explicit_accepts_iff:
  assumes "NormalizeGrid gc0 gr0 = (gc, gr)"
  shows "(\<exists>r. SolveExplicit ps gc0 gr0 = Inr r) \<longleftrightarrow>
    (\<forall>p \<in> set ps. ep_valid gc gr p) \<and> distinct (map (\<lambda>p. TrimSpace (ep_ID p)) ps)
    \<and> sorted_wrt (\<lambda>p q. meet p q \<longrightarrow>
         footprint gc (Cols (ep_Dimensions p)) (Rows (ep_Dimensions p)) (fst (ep_Origin p)) (snd (ep_Origin p))
         \<inter> footprint gc (Cols (ep_Dimensions q)) (Rows (ep_Dimensions q)) (fst (ep_Origin q)) (snd (ep_Origin q)) = {}) ps"
proof -
  note cells = cells_of_widget_mask [OF _ NormalizeGrid_supported [OF assms]]
  have "sorted_wrt (compatible gc) ps \<longleftrightarrow> sorted_wrt (\<lambda>p q. meet p q \<longrightarrow>
         footprint gc (Cols (ep_Dimensions p)) (Rows (ep_Dimensions p)) (fst (ep_Origin p)) (snd (ep_Origin p))
         \<inter> footprint gc (Cols (ep_Dimensions q)) (Rows (ep_Dimensions q)) (fst (ep_Origin q)) (snd (ep_Origin q)) = {}) ps"
    if "\<forall>p \<in> set ps. ep_valid gc gr p"
    using that by (intro sorted_wrt_cong_iff)
      (simp add: compatible_def explicit_mask_def and_eq_0_iff cells ep_valid_def)
  then show ?thesis using solve_explicit_accepts [OF assms, of ps] by blast
qed

definition overlapping :: "ExplicitPlacement list" where
  "overlapping = [\<lparr>ep_ID = ''a'', ep_Type = ''clock'', ep_Screen = 0, ep_Origin = (0, 0), ep_Dimensions = \<lparr>Cols = 2, Rows = 1\<rparr>, ep_Pinned = True\<rparr>,
     \<lparr>ep_ID = ''b'', ep_Type = ''clock'', ep_Screen = 3, ep_Origin = (1, 0), ep_Dimensions = \<lparr>Cols = 2, Rows = 1\<rparr>, ep_Pinned = False\<rparr>]"

end
