(* ===== verification/Config_Override.thy ===== *)
theory Config_Override
  imports Config_Model Layout_Accept
begin

text \<open>
  \<^verbatim>\<open>internal/config/override.go\<close>: applying a layout override to a configuration. Widgets with an override go
  where it says; the others are put into the first open slot. The package loader is a parameter: it gives the package of
  a widget type, or \<^const>\<open>None\<close> for an error; there may be no loader. Error values are the conditions the messages
  report; \<open>NilConfig\<close> stands for the dereference of a nil pointer.
\<close>

record WidgetOverride =
  wo_ID :: string
  wo_Screen :: int
  wo_Origin :: "int \<times> int"
  wo_Dimensions :: "int list"
  wo_Pinned :: bool

record LayoutOverrideFile =
  lf_Version :: int
  lf_Widgets :: "WidgetOverride list"

datatype override_error =
    BadDimension dimension_error
  | DimensionsOffGrid string Dimension
  | ScreenOutOfBounds string int
  | OriginOutOfBounds string "int \<times> int" Dimension
  | UnsupportedDimensions string Dimension
  | NoOpenSlot string
  | LayoutRejected layout_error
  | NilConfig

type_synonym loader = "(string \<Rightarrow> Package option) option"

definition LoadPackage :: "loader \<Rightarrow> string \<Rightarrow> Package option" where
  "LoadPackage loader t = (case loader of None \<Rightarrow> None | Some f \<Rightarrow> f t)"

definition slot_origins :: "Dimension \<Rightarrow> int \<Rightarrow> int \<Rightarrow> (int \<times> int) list" where
  "slot_origins dim gridCols gridRows =
     concat (map (\<lambda>r. map (\<lambda>c. (c, r)) [0..gridCols - Cols dim]) [0..gridRows - Rows dim])"

definition findSlotOnScreen :: "u32 \<Rightarrow> Dimension \<Rightarrow> int \<Rightarrow> int \<Rightarrow> (int \<times> int) option" where
  "findSlotOnScreen sMask dim gridCols gridRows =
     find (\<lambda>(c, r). sMask AND ComputeWidgetBitmaskForGrid (Cols dim) (Rows dim) c r gridCols = 0)
       (slot_origins dim gridCols gridRows)"

fun first_screen :: "u32 list \<Rightarrow> nat \<Rightarrow> u32 \<Rightarrow> Dimension \<Rightarrow> int \<Rightarrow> int \<Rightarrow> (nat \<times> (int \<times> int)) option" where
  "first_screen [] s pinnedMask dim gc gr = None"
| "first_screen (m # ms) s pinnedMask dim gc gr =
     (case findSlotOnScreen (m OR pinnedMask) dim gc gr of
        Some origin \<Rightarrow> Some (s, origin)
      | None \<Rightarrow> first_screen ms (Suc s) pinnedMask dim gc gr)"

definition findFirstOpenSlot ::
    "u32 list \<Rightarrow> u32 \<Rightarrow> bool \<Rightarrow> Dimension \<Rightarrow> int \<Rightarrow> int \<Rightarrow> (nat \<times> (int \<times> int)) option" where
  "findFirstOpenSlot screenMasks pinnedMask pinned dim gridCols gridRows =
     (if pinned
      then map_option (Pair 0) (findSlotOnScreen (foldl (OR) pinnedMask screenMasks) dim gridCols gridRows)
      else case first_screen screenMasks 0 pinnedMask dim gridCols gridRows of
        Some r \<Rightarrow> Some r
      | None \<Rightarrow>
          if length screenMasks < 16
          then map_option (Pair (length screenMasks)) (findSlotOnScreen pinnedMask dim gridCols gridRows)
          else None)"

definition trackScreenMask ::
    "u32 list \<Rightarrow> nat \<Rightarrow> (int \<times> int) \<Rightarrow> Dimension \<Rightarrow> int \<Rightarrow> bool \<Rightarrow> u32 \<Rightarrow> u32 list \<times> u32" where
  "trackScreenMask masks0 screen origin dim gridCols pinned pinnedMask =
     (let masks = masks0 @ replicate (Suc screen - length masks0) pinnedMask;
          m = ComputeWidgetBitmaskForGrid (Cols dim) (Rows dim) (fst origin) (snd origin) gridCols
      in if pinned then (map (\<lambda>x. x OR m) masks, pinnedMask OR m)
         else (masks[screen := masks ! screen OR (m OR pinnedMask)], pinnedMask))"

definition validatePlacementBounds ::
    "string \<Rightarrow> int \<Rightarrow> (int \<times> int) \<Rightarrow> Dimension \<Rightarrow> int \<Rightarrow> int \<Rightarrow> override_error + unit" where
  "validatePlacementBounds ident screen origin dim gridCols gridRows =
     (if \<not> IsValidForGrid dim gridCols gridRows then Inl (DimensionsOffGrid ident dim)
      else if screen < 0 \<or> screen \<ge> 16 then Inl (ScreenOutOfBounds ident screen)
      else if fst origin < 0 \<or> fst origin + Cols dim > gridCols \<or> snd origin < 0 \<or> snd origin + Rows dim > gridRows
      then Inl (OriginOutOfBounds ident origin dim)
      else Inr ())"

definition dim_from :: "int list \<Rightarrow> override_error + Dimension" where
  "dim_from s = map_sum BadDimension id (DimensionFromSlice s)"

text \<open>A package that lists no dimensions supports all.\<close>

definition validateWidgetSupportedDimensions :: "WidgetConfig \<Rightarrow> Package \<Rightarrow> override_error + unit" where
  "validateWidgetSupportedDimensions w pkg =
     (if wm_SupportedDimensions (pk_Manifest pkg) = [] then Inr ()
      else res_bind (dim_from (derefOr (wc_Dimensions w) [])) (\<lambda>d.
        if d \<in> set (wm_SupportedDimensions (pk_Manifest pkg)) then Inr () else Inl (UnsupportedDimensions (wc_ID w) d)))"

definition validateOverrideDimension ::
    "WidgetConfig \<Rightarrow> (string \<rightharpoonup> Package) \<Rightarrow> loader \<Rightarrow> override_error + unit" where
  "validateOverrideDimension w pkgs loader =
     (let pkg = (case pkgs (wc_Type w) of Some p \<Rightarrow> Some p | None \<Rightarrow> LoadPackage loader (wc_Type w))
      in case pkg of None \<Rightarrow> Inr () | Some p \<Rightarrow> validateWidgetSupportedDimensions w p)"

record build_state =
  bs_placements :: "ExplicitPlacement list"
  bs_widgets :: "WidgetConfig list"
  bs_masks :: "u32 list"
  bs_pinned :: u32

definition add_placement :: "int \<Rightarrow> ExplicitPlacement \<Rightarrow> WidgetConfig \<Rightarrow> build_state \<Rightarrow> build_state" where
  "add_placement gridCols p w st =
     (let (masks, pm) = trackScreenMask (bs_masks st) (nat (ep_Screen p)) (ep_Origin p) (ep_Dimensions p) gridCols
            (ep_Pinned p) (bs_pinned st)
      in \<lparr>bs_placements = bs_placements st @ [p], bs_widgets = bs_widgets st @ [w], bs_masks = masks, bs_pinned = pm\<rparr>)"

text \<open>The bodies of the two loops of \<^verbatim>\<open>buildPlacementsFromOverrides\<close>.\<close>

definition place_override ::
    "(string \<rightharpoonup> WidgetOverride) \<Rightarrow> (string \<rightharpoonup> Package) \<Rightarrow> loader \<Rightarrow> int \<Rightarrow> int \<Rightarrow> WidgetConfig \<Rightarrow> build_state
     \<Rightarrow> override_error + build_state" where
  "place_override ovMap pkgs loader gc gr w st =
     (case ovMap (wc_ID w) of
        None \<Rightarrow> Inr st
      | Some ov \<Rightarrow>
          let dimSlice = (if wo_Dimensions ov = [] then derefOr (wc_Dimensions w) [] else wo_Dimensions ov) in
          res_bind (dim_from dimSlice) (\<lambda>dim.
          res_bind (validatePlacementBounds (wc_ID w) (wo_Screen ov) (wo_Origin ov) dim gc gr) (\<lambda>_.
          let wUpdated = w\<lparr>wc_Dimensions := Some dimSlice, wc_Pinned := wo_Pinned ov\<rparr> in
          res_bind (validateOverrideDimension wUpdated pkgs loader) (\<lambda>_.
          Inr (add_placement gc \<lparr>ep_ID = wc_ID w, ep_Type = wc_Type w, ep_Screen = wo_Screen ov, ep_Origin = wo_Origin ov,
                                 ep_Dimensions = dim, ep_Pinned = wo_Pinned ov\<rparr> wUpdated st)))))"

definition place_open ::
    "(string \<rightharpoonup> WidgetOverride) \<Rightarrow> int \<Rightarrow> int \<Rightarrow> WidgetConfig \<Rightarrow> build_state \<Rightarrow> override_error + build_state" where
  "place_open ovMap gc gr w st =
     (if ovMap (wc_ID w) \<noteq> None \<or> wc_Type w = ''spacer'' then Inr st
      else res_bind (dim_from (derefOr (wc_Dimensions w) [])) (\<lambda>dim.
        case findFirstOpenSlot (bs_masks st) (bs_pinned st) (wc_Pinned w) dim gc gr of
          None \<Rightarrow> Inl (NoOpenSlot (wc_ID w))
        | Some (s, origin) \<Rightarrow>
            Inr (add_placement gc \<lparr>ep_ID = wc_ID w, ep_Type = wc_Type w, ep_Screen = int s, ep_Origin = origin,
                                   ep_Dimensions = dim, ep_Pinned = wc_Pinned w\<rparr> w st)))"

definition buildPlacementsFromOverrides ::
    "WidgetConfig list \<Rightarrow> (string \<rightharpoonup> WidgetOverride) \<Rightarrow> (string \<rightharpoonup> Package) \<Rightarrow> loader \<Rightarrow> int \<Rightarrow> int
     \<Rightarrow> override_error + (ExplicitPlacement list \<times> WidgetConfig list)" where
  "buildPlacementsFromOverrides widgets ovMap pkgs loader gc gr =
     res_bind (each (place_override ovMap pkgs loader gc gr) widgets
       \<lparr>bs_placements = [], bs_widgets = [], bs_masks = [0], bs_pinned = 0\<rparr>) (\<lambda>st1.
     res_bind (each (place_open ovMap gc gr) widgets st1) (\<lambda>st2.
     Inr (bs_placements st2, bs_widgets st2)))"

definition appendAutoSpacers :: "WidgetConfig list \<Rightarrow> PlacedWidget list \<Rightarrow> WidgetConfig list" where
  "appendAutoSpacers widgets spacers =
     widgets @ map (\<lambda>sp. \<lparr>wc_ID = pw_WidgetID sp, wc_Type = ''spacer'', wc_Dimensions = Some (Slice (pw_Dimensions sp)),
       wc_Pinned = False, wc_RefreshIntervalSeconds = None, wc_Endpoint = [], wc_Method = [], wc_TokenEnv = [], wc_Token = [],
       wc_Secrets = Map.empty, wc_Config = None\<rparr>) spacers"

definition override_map :: "WidgetOverride list \<Rightarrow> string \<rightharpoonup> WidgetOverride" where
  "override_map ws = foldl (\<lambda>m w. m(wo_ID w \<mapsto> w)) Map.empty ws"

definition ensureSpacerPackage :: "(string \<rightharpoonup> Package) \<Rightarrow> loader \<Rightarrow> string \<rightharpoonup> Package" where
  "ensureSpacerPackage pkgs loader =
     (if loader = None \<or> pkgs ''spacer'' \<noteq> None then pkgs
      else case LoadPackage loader ''spacer'' of None \<Rightarrow> pkgs | Some p \<Rightarrow> pkgs(''spacer'' \<mapsto> p))"

definition applyOverrideToSnapshot ::
    "Snapshot \<Rightarrow> LayoutOverrideFile \<Rightarrow> loader \<Rightarrow> gotime \<Rightarrow> override_error + Snapshot" where
  "applyOverrideToSnapshot baseSnap ov loader now =
     (case sn_Config baseSnap of None \<Rightarrow> Inl NilConfig | Some cfg \<Rightarrow>
      let disp = cf_Display cfg;
          (gc, gr) = NormalizeGrid (gc_Columns (dc_Grid disp)) (gc_Rows (dc_Grid disp)) in
      res_bind (buildPlacementsFromOverrides (dc_Widgets disp) (override_map (lf_Widgets ov)) (sn_Packages baseSnap)
          loader gc gr) (\<lambda>(placements, updatedWidgets).
      res_bind (map_sum LayoutRejected id (SolveExplicit placements gc gr)) (\<lambda>(solvedLayout, autoSpacers).
      Inr \<lparr>sn_Config = Some (cfg\<lparr>cf_Display := disp\<lparr>dc_Widgets := appendAutoSpacers updatedWidgets autoSpacers\<rparr>\<rparr>),
           sn_Layout = Some solvedLayout,
           sn_Packages = (if autoSpacers = [] then sn_Packages baseSnap else ensureSpacerPackage (sn_Packages baseSnap) loader),
           sn_LoadedAt = now, sn_HasOverride = True\<rparr>)))"

end
