(* ===== verification/Layout_Search.thy ===== *)
theory Layout_Search
  imports Layout_Tiles
begin

text \<open>
  The backtracking search keeps, at every node, an exact account of what is placed where: the mask
  of each screen is tiled by the pinned widgets and by the unpinned placements recorded for it, and
  the recorded placements together with what is left in the shape groups are the unpinned widgets.
  A failed branch restores everything but the node counter and stale array slots.
\<close>

subsection \<open>The invariant of the search\<close>

definition group_ok :: "int \<Rightarrow> int \<Rightarrow> shapeGroup \<Rightarrow> bool" where
  "group_ok gc gr sg \<longleftrightarrow>
     sg_count sg \<le> length (sg_widgets sg) \<and> length (sg_orders sg) = length (sg_widgets sg)
     \<and> (\<forall>w \<in> set (sg_widgets sg). wi_Dimensions w = sg_dims sg)
     \<and> IsValidForGrid (sg_dims sg) gc gr"

definition remaining :: "shapeGroup \<Rightarrow> WidgetInput list" where
  "remaining sg = drop (length (sg_widgets sg) - sg_count sg) (sg_widgets sg)"

definition left_over :: "shapeGroup list \<Rightarrow> WidgetInput multiset" where
  "left_over sgs = sum_list (map (\<lambda>sg. mset (remaining sg)) sgs)"

definition screen_widgets :: "gridSolver \<Rightarrow> nat \<Rightarrow> PlacedWidget list" where
  "screen_widgets s t =
     gs_pinnedPlacements s
     @ map unpinned_placed (on_screen t (gs_unpinnedPlacements s) (gs_placedCount s))"

definition cover_inv :: "gridSolver \<Rightarrow> bool" where
  "cover_inv s \<longleftrightarrow>
     supported_grid (gs_gridCols s) (gs_gridRows s)
     \<and> length (gs_screenMasks s) = gs_k s
     \<and> length (gs_unpinnedPlacements s) = length (gs_unpinned s)
     \<and> gs_placedCount s \<le> length (gs_unpinned s)
     \<and> (\<forall>sg \<in> set (gs_shapeGroups s). group_ok (gs_gridCols s) (gs_gridRows s) sg)
     \<and> mset (map up_widget (take (gs_placedCount s) (gs_unpinnedPlacements s)))
         + left_over (gs_shapeGroups s) = mset (gs_unpinned s)
     \<and> (\<forall>u \<in> set (take (gs_placedCount s) (gs_unpinnedPlacements s)). up_screen u < gs_k s)
     \<and> (\<forall>t < gs_k s. tiles (gs_gridCols s) (gs_gridRows s) (screen_widgets s t)
           (cells_of (gs_screenMasks s ! t)))"

definition all_full :: "gridSolver \<Rightarrow> bool" where
  "all_full s \<longleftrightarrow>
     (\<forall>t < gs_k s. gs_screenMasks s ! t = fullGridMask (gs_gridCols s) (gs_gridRows s))"

text \<open>Equal up to the node counter and the slots past the placed ones.\<close>

definition restored :: "gridSolver \<Rightarrow> gridSolver \<Rightarrow> bool" where
  "restored s s' \<longleftrightarrow>
     s' = s\<lparr>gs_nodeCount := gs_nodeCount s', gs_unpinnedPlacements := gs_unpinnedPlacements s'\<rparr>
     \<and> length (gs_unpinnedPlacements s') = length (gs_unpinnedPlacements s)
     \<and> take (gs_placedCount s) (gs_unpinnedPlacements s')
         = take (gs_placedCount s) (gs_unpinnedPlacements s)"

text \<open>The fields the search never writes.\<close>

definition same_problem :: "gridSolver \<Rightarrow> gridSolver \<Rightarrow> bool" where
  "same_problem s s' \<longleftrightarrow>
     gs_gridCols s' = gs_gridCols s \<and> gs_gridRows s' = gs_gridRows s
     \<and> gs_maxSearchNodes s' = gs_maxSearchNodes s \<and> gs_k s' = gs_k s
     \<and> gs_pinned s' = gs_pinned s \<and> gs_unpinned s' = gs_unpinned s
     \<and> gs_pinnedPlacements s' = gs_pinnedPlacements s \<and> gs_orderByConfig s' = gs_orderByConfig s
     \<and> length (gs_shapeGroups s') = length (gs_shapeGroups s)"

lemma same_problem_refl [simp]: "same_problem s s"
  by (simp add: same_problem_def)

lemma same_problem_trans: "same_problem s t \<Longrightarrow> same_problem t u \<Longrightarrow> same_problem s u"
  by (simp add: same_problem_def)

lemma same_problem_do_place [simp]: "same_problem s (do_place s g t c r)"
  by (simp add: same_problem_def do_place_def Let_def)

lemma restored_refl [simp]: "restored s s"
  by (simp add: restored_def)

lemma restored_trans: "restored s t \<Longrightarrow> restored t u \<Longrightarrow> restored s u"
  unfolding restored_def by (cases s; cases t; cases u) auto

lemma restored_fields:
  assumes "restored s s'"
  shows "gs_gridCols s' = gs_gridCols s" "gs_gridRows s' = gs_gridRows s"
    "gs_maxSearchNodes s' = gs_maxSearchNodes s" "gs_k s' = gs_k s" "gs_pinned s' = gs_pinned s"
    "gs_unpinned s' = gs_unpinned s" "gs_shapeGroups s' = gs_shapeGroups s"
    "gs_screenMasks s' = gs_screenMasks s" "gs_pinnedPlacements s' = gs_pinnedPlacements s"
    "gs_placedCount s' = gs_placedCount s" "gs_orderByConfig s' = gs_orderByConfig s"
    "length (gs_unpinnedPlacements s') = length (gs_unpinnedPlacements s)"
    "take (gs_placedCount s) (gs_unpinnedPlacements s')
      = take (gs_placedCount s) (gs_unpinnedPlacements s)"
  using assms unfolding restored_def by (cases s; cases s'; simp)+

lemma restored_same_problem:
  assumes "restored s s'"
  shows "same_problem s s'"
  by (simp add: same_problem_def restored_fields [OF assms])

lemma restored_node [simp]: "restored s (s\<lparr>gs_nodeCount := n\<rparr>)"
  by (simp add: restored_def)

lemma on_screen_restored:
  "restored s s' \<Longrightarrow>
     on_screen t (gs_unpinnedPlacements s') (gs_placedCount s)
   = on_screen t (gs_unpinnedPlacements s) (gs_placedCount s)"
  by (drule restored_fields(13)) (simp add: on_screen_def)

lemma cover_inv_restored:
  assumes "restored s s'" "cover_inv s"
  shows "cover_inv s'"
  using assms(2) unfolding cover_inv_def screen_widgets_def
  by (simp add: restored_fields [OF assms(1)] on_screen_restored [OF assms(1)])

subsection \<open>One placement\<close>

lemma size_left_over: "size (left_over sgs) = sum_list (map (\<lambda>sg. length (remaining sg)) sgs)"
  by (induction sgs) (simp_all add: left_over_def)

lemma length_remaining: "group_ok gc gr sg \<Longrightarrow> length (remaining sg) = sg_count sg"
  by (simp add: group_ok_def remaining_def)

lemma left_over_update:
  assumes "g < length sgs" "mset (remaining (sgs ! g)) = add_mset w (mset (remaining sg'))"
  shows "left_over sgs = add_mset w (left_over (sgs[g := sg']))"
  using assms
proof (induction sgs arbitrary: g)
  case (Cons sg sgs)
  then show ?case by (cases g) (simp_all add: left_over_def)
qed simp

text \<open>Taking the next widget of a group.\<close>

lemma remaining_take:
  assumes "group_ok gc gr sg" "0 < sg_count sg"
  shows "remaining sg = sg_widgets sg ! (length (sg_widgets sg) - sg_count sg)
       # remaining (sg\<lparr>sg_count := sg_count sg - 1\<rparr>)"
proof -
  let ?i = "length (sg_widgets sg) - sg_count sg"
  have "?i < length (sg_widgets sg)"
    "length (sg_widgets sg) - (sg_count sg - 1) = Suc ?i"
    using assms by (auto simp: group_ok_def)
  then show ?thesis
    by (simp add: remaining_def Cons_nth_drop_Suc [symmetric])
qed

definition next_widget :: "gridSolver \<Rightarrow> nat \<Rightarrow> WidgetInput" where
  "next_widget s g =
     (let sg = gs_shapeGroups s ! g in sg_widgets sg ! (length (sg_widgets sg) - sg_count sg))"

lemma next_widget_dims:
  assumes "cover_inv s" "g < length (gs_shapeGroups s)" "0 < sg_count (gs_shapeGroups s ! g)"
  shows "wi_Dimensions (next_widget s g) = sg_dims (gs_shapeGroups s ! g)"
    "IsValidForGrid (sg_dims (gs_shapeGroups s ! g)) (gs_gridCols s) (gs_gridRows s)"
proof -
  have "group_ok (gs_gridCols s) (gs_gridRows s) (gs_shapeGroups s ! g)"
    using assms by (simp add: cover_inv_def)
  then show "wi_Dimensions (next_widget s g) = sg_dims (gs_shapeGroups s ! g)"
    "IsValidForGrid (sg_dims (gs_shapeGroups s ! g)) (gs_gridCols s) (gs_gridRows s)"
    using assms(3) by (auto simp: group_ok_def next_widget_def Let_def)
qed

lemma left_over_do_place:
  assumes "cover_inv s" "g < length (gs_shapeGroups s)" "0 < sg_count (gs_shapeGroups s ! g)"
  shows "left_over (gs_shapeGroups s)
     = add_mset (next_widget s g) (left_over (gs_shapeGroups (do_place s g t c r)))"
proof -
  let ?sg = "gs_shapeGroups s ! g"
  have "group_ok (gs_gridCols s) (gs_gridRows s) ?sg" using assms by (simp add: cover_inv_def)
  from remaining_take [OF this assms(3)]
  have "mset (remaining ?sg)
     = add_mset (next_widget s g) (mset (remaining (?sg\<lparr>sg_count := sg_count ?sg - 1\<rparr>)))"
    by (simp add: next_widget_def Let_def)
  from left_over_update [OF assms(2) this] show ?thesis
    by (simp add: do_place_def Let_def)
qed

text \<open>There is a free slot for the placement, so the array write is in range.\<close>

lemma placedCount_lt:
  assumes "cover_inv s" "g < length (gs_shapeGroups s)" "0 < sg_count (gs_shapeGroups s ! g)"
  shows "gs_placedCount s < length (gs_unpinnedPlacements s)"
proof -
  have "size (mset (map up_widget (take (gs_placedCount s) (gs_unpinnedPlacements s)))
       + left_over (gs_shapeGroups s)) = length (gs_unpinned s)"
    using assms(1) by (simp add: cover_inv_def)
  then have "gs_placedCount s + size (left_over (gs_shapeGroups s)) = length (gs_unpinnedPlacements s)"
    using assms(1) by (simp add: cover_inv_def)
  moreover have "size (left_over (gs_shapeGroups s)) > 0"
    by (subst left_over_do_place [OF assms]) simp
  ultimately show ?thesis by linarith
qed

definition new_placement :: "gridSolver \<Rightarrow> nat \<Rightarrow> nat \<Rightarrow> int \<Rightarrow> int \<Rightarrow> unpinnedPlacement" where
  "new_placement s g t c r =
     (let sg = gs_shapeGroups s ! g in
      \<lparr>up_screen = t, up_origin = (c, r), up_widget = next_widget s g,
       up_order = sg_orders sg ! (length (sg_widgets sg) - sg_count sg)\<rparr>)"

lemma do_place_slots:
  assumes "gs_placedCount s < length (gs_unpinnedPlacements s)"
  shows "take (gs_placedCount (do_place s g t c r)) (gs_unpinnedPlacements (do_place s g t c r))
     = take (gs_placedCount s) (gs_unpinnedPlacements s) @ [new_placement s g t c r]"
  using assms
  by (simp add: do_place_def Let_def take_Suc_conv_app_nth new_placement_def next_widget_def)

lemma screen_widgets_do_place:
  assumes "gs_placedCount s < length (gs_unpinnedPlacements s)"
  shows "screen_widgets (do_place s g t c r) u
     = screen_widgets s u @ (if u = t then [unpinned_placed (new_placement s g t c r)] else [])"
  using do_place_slots [OF assms, of g t c r]
  by (simp add: screen_widgets_def on_screen_def)
    (simp add: do_place_def Let_def new_placement_def)

lemma can_place_count: "can_place s g m c r \<Longrightarrow> 0 < sg_count (gs_shapeGroups s ! g)"
  by (simp add: can_place_def Let_def)

lemma can_place_on_grid:
  assumes "can_place s g m c r" "cover_inv s" "g < length (gs_shapeGroups s)" "0 \<le> c" "0 \<le> r"
  shows "on_grid (gs_gridCols s) (gs_gridRows s) (sg_dims (gs_shapeGroups s ! g)) c r"
  using assms next_widget_dims(2) [OF assms(2,3) can_place_count [OF assms(1)]]
  by (simp add: can_place_def on_grid_def Let_def)

lemma do_place_tiles:
  assumes inv: "cover_inv s" and g: "g < length (gs_shapeGroups s)" and t: "t < gs_k s"
    and cp: "can_place s g (gs_screenMasks s ! t) c r" and cr: "0 \<le> c" "0 \<le> r" and u: "u < gs_k s"
  shows "tiles (gs_gridCols s) (gs_gridRows s) (screen_widgets (do_place s g t c r) u)
     (cells_of (gs_screenMasks (do_place s g t c r) ! u))"
proof -
  note n = can_place_count [OF cp]
  have len: "t < length (gs_screenMasks s)" and sg: "supported_grid (gs_gridCols s) (gs_gridRows s)"
    and old: "tiles (gs_gridCols s) (gs_gridRows s) (screen_widgets s u) (cells_of (gs_screenMasks s ! u))"
    using inv t u by (simp_all add: cover_inv_def)
  have mask: "gs_screenMasks (do_place s g t c r) ! u
     = (if u = t then gs_screenMasks s ! t OR group_mask s g c r else gs_screenMasks s ! u)"
    using len by (simp add: do_place_def Let_def nth_list_update)
  show ?thesis
  proof (cases "u = t")
    case False
    then show ?thesis
      using old mask screen_widgets_do_place [OF placedCount_lt [OF inv g n]] by simp
  next
    case True
    have "tiles (gs_gridCols s) (gs_gridRows s)
       (screen_widgets s t @ [unpinned_placed (new_placement s g t c r)])
       (cells_of (gs_screenMasks s ! t OR group_mask s g c r))"
      unfolding group_mask_def Let_def
    proof (rule tiles_placement [OF _ sg can_place_on_grid [OF cp inv g cr]])
      show "gs_screenMasks s ! t AND ComputeWidgetBitmaskForGrid (Cols (sg_dims (gs_shapeGroups s ! g)))
         (Rows (sg_dims (gs_shapeGroups s ! g))) c r (gs_gridCols s) = 0"
        using cp by (simp add: can_place_def group_mask_def Let_def)
    qed (use old True next_widget_dims(1) [OF inv g n] in
        \<open>simp_all add: unpinned_placed_def new_placement_def Let_def\<close>)
    then show ?thesis
      using True mask screen_widgets_do_place [OF placedCount_lt [OF inv g n]] by simp
  qed
qed

lemma do_place_inv:
  assumes inv: "cover_inv s" and g: "g < length (gs_shapeGroups s)" and t: "t < gs_k s"
    and cp: "can_place s g (gs_screenMasks s ! t) c r" and cr: "0 \<le> c" "0 \<le> r"
  shows "cover_inv (do_place s g t c r)"
proof -
  let ?s' = "do_place s g t c r"
  note n = can_place_count [OF cp]
  note pl = placedCount_lt [OF inv g n]
  note sp = same_problem_do_place [of s g t c r, unfolded same_problem_def]
  have groups: "\<forall>sg \<in> set (gs_shapeGroups ?s'). group_ok (gs_gridCols s) (gs_gridRows s) sg"
  proof -
    have "group_ok (gs_gridCols s) (gs_gridRows s) (gs_shapeGroups s ! g)"
      using inv g by (simp add: cover_inv_def)
    then have "group_ok (gs_gridCols s) (gs_gridRows s)
       ((gs_shapeGroups s ! g)\<lparr>sg_count := sg_count (gs_shapeGroups s ! g) - 1\<rparr>)"
      by (auto simp: group_ok_def)
    moreover have "\<forall>sg \<in> set (gs_shapeGroups s). group_ok (gs_gridCols s) (gs_gridRows s) sg"
      using inv by (simp add: cover_inv_def)
    ultimately show ?thesis
      using set_update_subset_insert [of "gs_shapeGroups s" g] by (fastforce simp: do_place_def Let_def)
  qed
  have acct: "mset (map up_widget (take (gs_placedCount ?s') (gs_unpinnedPlacements ?s')))
     + left_over (gs_shapeGroups ?s') = mset (gs_unpinned s)"
    using inv left_over_do_place [OF inv g n, of t c r]
    by (simp add: do_place_slots [OF pl] cover_inv_def new_placement_def Let_def)
  have screens: "\<forall>u \<in> set (take (gs_placedCount ?s') (gs_unpinnedPlacements ?s')). up_screen u < gs_k s"
    using inv t by (auto simp: do_place_slots [OF pl] cover_inv_def new_placement_def Let_def)
  have "gs_placedCount ?s' = Suc (gs_placedCount s)"
    "length (gs_screenMasks ?s') = length (gs_screenMasks s)"
    "length (gs_unpinnedPlacements ?s') = length (gs_unpinnedPlacements s)"
    by (simp_all add: do_place_def Let_def)
  then show ?thesis
    unfolding cover_inv_def using inv pl sp groups acct screens do_place_tiles [OF inv g t cp cr]
    by (simp add: cover_inv_def)
qed

lemma undo_do_place:
  assumes rest: "restored (do_place s g t c r) s'"
    and g: "g < length (gs_shapeGroups s)" and t: "t < length (gs_screenMasks s)"
    and cp: "can_place s g (gs_screenMasks s ! t) c r"
  shows "restored s (undo_place s' g t (group_mask s g c r))"
proof -
  let ?u = "undo_place s' g t (group_mask s g c r)"
  note f = restored_fields [OF rest]
  have masks: "gs_screenMasks ?u = gs_screenMasks s"
    using t cp or_and_not_cancel [of "gs_screenMasks s ! t" "group_mask s g c r"]
    by (simp add: undo_place_def Let_def f) (simp add: do_place_def Let_def can_place_def)
  have groups: "gs_shapeGroups ?u = gs_shapeGroups s"
    using g can_place_count [OF cp]
    by (simp add: undo_place_def Let_def f) (simp add: do_place_def Let_def)
  have cnt: "gs_placedCount ?u = gs_placedCount s"
    by (simp add: undo_place_def Let_def f) (simp add: do_place_def Let_def)
  have ups: "gs_unpinnedPlacements ?u = gs_unpinnedPlacements s'"
    by (simp add: undo_place_def Let_def)
  have tk: "take (gs_placedCount s) (gs_unpinnedPlacements s') = take (gs_placedCount s) (gs_unpinnedPlacements s)"
  proof -
    have "take (gs_placedCount s) (take (Suc (gs_placedCount s)) (gs_unpinnedPlacements s'))
       = take (gs_placedCount s) (take (Suc (gs_placedCount s)) (gs_unpinnedPlacements (do_place s g t c r)))"
      using f(13) by (simp add: do_place_def Let_def)
    then show ?thesis by (simp add: do_place_def Let_def)
  qed
  have oth: "gs_gridCols ?u = gs_gridCols s" "gs_gridRows ?u = gs_gridRows s"
    "gs_maxSearchNodes ?u = gs_maxSearchNodes s" "gs_k ?u = gs_k s" "gs_pinned ?u = gs_pinned s"
    "gs_unpinned ?u = gs_unpinned s" "gs_pinnedPlacements ?u = gs_pinnedPlacements s"
    "gs_orderByConfig ?u = gs_orderByConfig s" "gridSolver.more ?u = gridSolver.more s"
    using f by (simp_all add: undo_place_def Let_def do_place_def)
  have "length (gs_unpinnedPlacements s') = length (gs_unpinnedPlacements s)"
    using f(12) by (simp add: do_place_def Let_def)
  with masks groups cnt ups tk oth show ?thesis
    unfolding restored_def by (cases s; cases ?u) auto
qed

subsection \<open>The search as a whole\<close>

text \<open>What a call leaves behind: a full cover when it succeeds, the state it started from when it
  fails.\<close>

definition search_post :: "gridSolver \<Rightarrow> bool \<Rightarrow> gridSolver \<Rightarrow> bool" where
  "search_post s b s' \<longleftrightarrow>
     cover_inv s' \<and> same_problem s s' \<and> (if b then all_full s' else restored s s')"

lemma search_post_via:
  "restored s t \<Longrightarrow> search_post t b s' \<Longrightarrow> search_post s b s'"
  by (auto simp: search_post_def intro: same_problem_trans restored_trans restored_same_problem)

lemma firstIncompleteScreen_Some:
  "firstIncompleteScreen masks n gc gr = Some t \<Longrightarrow> t < n \<and> masks ! t \<noteq> fullGridMask gc gr"
proof -
  assume a: "firstIncompleteScreen masks n gc gr = Some t"
  then obtain ts where "filter (\<lambda>s. masks ! s \<noteq> fullGridMask gc gr) [0..<n] = t # ts"
    by (auto simp: firstIncompleteScreen_def split: list.splits)
  then have "t \<in> set (filter (\<lambda>s. masks ! s \<noteq> fullGridMask gc gr) [0..<n])" by simp
  then show ?thesis by simp
qed

lemma firstIncompleteScreen_None:
  "firstIncompleteScreen masks n gc gr = None \<Longrightarrow> \<forall>t < n. masks ! t = fullGridMask gc gr"
  by (auto simp: firstIncompleteScreen_def filter_empty_conv split: list.splits)

lemma candidates_in_range: "g \<in> set (candidates s) \<Longrightarrow> g < length (gs_shapeGroups s)"
  by (auto simp: candidates_def split: if_splits)

lemma candidates_node:
  "\<forall>g \<in> set (candidates (s\<lparr>gs_nodeCount := n\<rparr>)). g < length (gs_shapeGroups s)"
  using candidates_in_range [of _ "s\<lparr>gs_nodeCount := n\<rparr>"] by auto

lemma cell_coords_nonneg:
  assumes "cover_inv s"
  shows "0 \<le> int n mod gs_gridCols s" "0 \<le> int n div gs_gridCols s"
  using assms by (auto simp: cover_inv_def pos_imp_zdiv_nonneg_iff dest!: supported_grid_bounds)

lemma search_sound:
  "placeUnpinnedExactCover fuel s = Some (b, s') \<Longrightarrow> cover_inv s \<Longrightarrow> search_post s b s'"
  "tryShapeGroups fuel gs t m c r s = Some (b, s') \<Longrightarrow> cover_inv s \<Longrightarrow> t < gs_k s
     \<Longrightarrow> m = gs_screenMasks s ! t \<Longrightarrow> \<forall>g \<in> set gs. g < length (gs_shapeGroups s)
     \<Longrightarrow> 0 \<le> c \<Longrightarrow> 0 \<le> r \<Longrightarrow> search_post s b s'"
proof (induction fuel s and fuel gs t m c r s arbitrary: b s' and b s'
    rule: placeUnpinnedExactCover_tryShapeGroups.induct)
  case (1 s)
  then show ?case by simp
next
  case (2 fuel s0)
  let ?s = "s0\<lparr>gs_nodeCount := gs_nodeCount s0 + 1\<rparr>"
  have inv: "cover_inv ?s" using "2.prems"(2) by (rule cover_inv_restored [OF restored_node])
  consider "gs_nodeCount ?s > gs_maxSearchNodes ?s"
    | "\<not> gs_nodeCount ?s > gs_maxSearchNodes ?s"
      "firstIncompleteScreen (gs_screenMasks ?s) (gs_k ?s) (gs_gridCols ?s) (gs_gridRows ?s) = None"
    | t where "\<not> gs_nodeCount ?s > gs_maxSearchNodes ?s"
      "firstIncompleteScreen (gs_screenMasks ?s) (gs_k ?s) (gs_gridCols ?s) (gs_gridRows ?s) = Some t"
    by (cases "firstIncompleteScreen (gs_screenMasks ?s) (gs_k ?s) (gs_gridCols ?s) (gs_gridRows ?s)")
      auto
  then have "search_post ?s b s'"
  proof cases
    case 1
    with "2.prems" inv show ?thesis by (auto simp: search_post_def Let_def)
  next
    case 2
    with "2.prems" inv show ?thesis
      by (auto simp: search_post_def Let_def all_full_def dest: firstIncompleteScreen_None)
  next
    case 3
    with "2.prems"(1) have run: "tryShapeGroups fuel (candidates ?s) t (gs_screenMasks ?s ! t)
       (int (TrailingZeros32 (NOT (gs_screenMasks ?s ! t))) mod gs_gridCols ?s)
       (int (TrailingZeros32 (NOT (gs_screenMasks ?s ! t))) div gs_gridCols ?s) ?s = Some (b, s')"
      by (simp add: Let_def)
    have "t < gs_k ?s" using 3 firstIncompleteScreen_Some by blast
    then show ?thesis
      using "2.IH" [OF refl 3 refl refl run inv] candidates_node cell_coords_nonneg [OF "2.prems"(2)]
      by simp
  qed
  then show ?case by (rule search_post_via [OF restored_node])
next
  case (3 fuel t m c r s)
  then show ?case by (auto simp: search_post_def)
next
  case (4 fuel g gs t m c r s)
  have g: "g < length (gs_shapeGroups s)" and gs: "\<forall>g \<in> set gs. g < length (gs_shapeGroups s)"
    using "4.prems" by auto
  show ?case
  proof (cases "can_place s g m c r")
    case False
    with "4.prems" have "tryShapeGroups fuel gs t m c r s = Some (b, s')" by simp
    then show ?thesis using "4.IH"(1) [OF False] "4.prems" gs by blast
  next
    case True
    let ?p = "do_place s g t c r"
    have cp: "can_place s g (gs_screenMasks s ! t) c r" using True "4.prems"(4) by simp
    have pinv: "cover_inv ?p" using "4.prems" g cp by (intro do_place_inv) auto
    have tl: "t < length (gs_screenMasks s)" using "4.prems" by (simp add: cover_inv_def)
    from True "4.prems"(1) obtain b1 s1
      where run: "placeUnpinnedExactCover fuel ?p = Some (b1, s1)"
      by (auto split: option.splits)
    have post: "search_post ?p b1 s1" using "4.IH"(2) [of b1 s1] True run pinv by simp
    show ?thesis
    proof (cases b1)
      case b1: True
      with True run "4.prems"(1) have "b" "s' = s1" by auto
      then show ?thesis using post b1 same_problem_trans [OF same_problem_do_place]
        by (auto simp: search_post_def)
    next
      case b1: False
      let ?u = "undo_place s1 g t (group_mask s g c r)"
      have res: "restored s ?u"
        using post b1 g tl cp by (intro undo_do_place) (auto simp: search_post_def)
      have "tryShapeGroups fuel gs t m c r ?u = Some (b, s')"
        using True run b1 "4.prems"(1) by simp
      then have "search_post ?u b s'"
        using "4.IH"(3) [of "(b1, s1)" b1 s1 b s'] True run b1 "4.prems" gs cover_inv_restored [OF res]
        by (simp add: restored_fields [OF res])
      with res show ?thesis by (rule search_post_via)
    qed
  qed
qed

text \<open>One level of recursion per unpinned widget: the fuel the solver starts with is enough.\<close>

lemma search_fuel:
  "cover_inv s \<Longrightarrow> length (gs_unpinned s) < fuel + gs_placedCount s
     \<Longrightarrow> placeUnpinnedExactCover fuel s \<noteq> None"
  "cover_inv s \<Longrightarrow> length (gs_unpinned s) \<le> fuel + gs_placedCount s \<Longrightarrow> t < gs_k s
     \<Longrightarrow> m = gs_screenMasks s ! t \<Longrightarrow> \<forall>g \<in> set gs. g < length (gs_shapeGroups s)
     \<Longrightarrow> 0 \<le> c \<Longrightarrow> 0 \<le> r \<Longrightarrow> tryShapeGroups fuel gs t m c r s \<noteq> None"
proof (induction fuel s and fuel gs t m c r s
    rule: placeUnpinnedExactCover_tryShapeGroups.induct)
  case (1 s)
  then show ?case by (simp add: cover_inv_def)
next
  case (2 fuel s0)
  let ?s = "s0\<lparr>gs_nodeCount := gs_nodeCount s0 + 1\<rparr>"
  have inv: "cover_inv ?s" using "2.prems"(1) by (rule cover_inv_restored [OF restored_node])
  show ?case
  proof (cases "gs_nodeCount ?s > gs_maxSearchNodes ?s")
    case False
    show ?thesis
    proof (cases "firstIncompleteScreen (gs_screenMasks ?s) (gs_k ?s) (gs_gridCols ?s) (gs_gridRows ?s)")
      case (Some t)
      then have "t < gs_k ?s" using firstIncompleteScreen_Some by blast
      then show ?thesis
        using "2.IH" [OF refl False Some refl refl inv] "2.prems"(2) False Some candidates_node
          cell_coords_nonneg [OF "2.prems"(1)] by (simp add: Let_def)
    qed (use False in \<open>simp add: Let_def\<close>)
  qed (simp add: Let_def)
next
  case (3 fuel t m c r s)
  then show ?case by simp
next
  case (4 fuel g gs t m c r s)
  have g: "g < length (gs_shapeGroups s)" and gs: "\<forall>g \<in> set gs. g < length (gs_shapeGroups s)"
    using "4.prems" by auto
  show ?case
  proof (cases "can_place s g m c r")
    case False
    then show ?thesis using "4.IH"(1) [OF False] "4.prems" gs by simp
  next
    case True
    let ?p = "do_place s g t c r"
    have cp: "can_place s g (gs_screenMasks s ! t) c r" using True "4.prems"(4) by simp
    have pinv: "cover_inv ?p" using "4.prems" g cp by (intro do_place_inv) auto
    have tl: "t < length (gs_screenMasks s)" using "4.prems" by (simp add: cover_inv_def)
    have "gs_unpinned ?p = gs_unpinned s" "gs_placedCount ?p = Suc (gs_placedCount s)"
      by (simp_all add: do_place_def Let_def)
    then obtain b1 s1 where run: "placeUnpinnedExactCover fuel ?p = Some (b1, s1)"
      using "4.IH"(2) True pinv "4.prems"(2) by auto
    show ?thesis
    proof (cases b1)
      case b1: True
      then show ?thesis using True run by simp
    next
      case b1: False
      let ?u = "undo_place s1 g t (group_mask s g c r)"
      have "search_post ?p b1 s1" using search_sound(1) [OF run pinv] .
      then have res: "restored s ?u"
        using b1 g tl cp by (intro undo_do_place) (auto simp: search_post_def)
      have "tryShapeGroups fuel gs t m c r ?u \<noteq> None"
        using "4.IH"(3) [of "(b1, s1)" b1 s1] True run b1 "4.prems" gs
          cover_inv_restored [OF res] by (simp add: restored_fields [OF res])
      then show ?thesis using True run b1 by simp
    qed
  qed
qed

end
