(* ===== verification/Layout_Pinned.thy ===== *)
theory Layout_Pinned
  imports Layout_Search
begin

text \<open>
  The outer search over the positions of the pinned widgets. Pinned widgets sit on every screen at
  the same place, so before the unpinned phase all screens are tiled alike; a position that leads
  nowhere is taken back.
\<close>

subsection \<open>The end of the recursion: both passes over the unpinned widgets\<close>

text \<open>Equal up to bookkeeping that carries no placement.\<close>

definition pin_restored :: "nat \<Rightarrow> gridSolver \<Rightarrow> gridSolver \<Rightarrow> bool" where
  "pin_restored i s s' \<longleftrightarrow>
     gs_gridCols s' = gs_gridCols s \<and> gs_gridRows s' = gs_gridRows s \<and> gs_k s' = gs_k s
     \<and> gs_maxSearchNodes s' = gs_maxSearchNodes s \<and> gs_unpinned s' = gs_unpinned s
     \<and> gs_shapeGroups s' = gs_shapeGroups s \<and> gs_screenMasks s' = gs_screenMasks s
     \<and> gs_placedCount s' = gs_placedCount s
     \<and> length (gs_unpinnedPlacements s') = length (gs_unpinnedPlacements s)
     \<and> length (gs_pinnedPlacements s') = length (gs_pinnedPlacements s)
     \<and> take i (gs_pinnedPlacements s') = take i (gs_pinnedPlacements s)"

definition pin_inv :: "nat \<Rightarrow> gridSolver \<Rightarrow> bool" where
  "pin_inv i s \<longleftrightarrow>
     supported_grid (gs_gridCols s) (gs_gridRows s) \<and> 0 < gs_k s
     \<and> length (gs_screenMasks s) = gs_k s
     \<and> length (gs_unpinnedPlacements s) = length (gs_unpinned s) \<and> gs_placedCount s = 0
     \<and> (\<forall>sg \<in> set (gs_shapeGroups s). group_ok (gs_gridCols s) (gs_gridRows s) sg)
     \<and> left_over (gs_shapeGroups s) = mset (gs_unpinned s)
     \<and> i \<le> length (gs_pinnedPlacements s)
     \<and> (\<forall>t < gs_k s. tiles (gs_gridCols s) (gs_gridRows s) (take i (gs_pinnedPlacements s))
           (cells_of (gs_screenMasks s ! t)))"

lemma pin_restored_refl [simp]: "pin_restored i s s"
  by (simp add: pin_restored_def)

lemma pin_restored_trans: "pin_restored i s t \<Longrightarrow> pin_restored i t u \<Longrightarrow> pin_restored i s u"
  by (simp add: pin_restored_def)

lemma pin_inv_restored: "pin_restored i s s' \<Longrightarrow> pin_inv i s \<Longrightarrow> pin_inv i s'"
  by (simp add: pin_restored_def pin_inv_def)

lemma restored_pin_restored:
  assumes "restored s s'"
  shows "pin_restored i s s'"
  by (simp add: pin_restored_def restored_fields [OF assms])

lemma pin_inv_cover_inv:
  assumes "pin_inv (length (gs_pinnedPlacements s)) s"
  shows "cover_inv s"
  using assms by (simp add: pin_inv_def cover_inv_def screen_widgets_def on_screen_def)

lemma cover_inv_options [simp]:
  "cover_inv (s\<lparr>gs_orderByConfig := q\<rparr>) \<longleftrightarrow> cover_inv s"
  "cover_inv (s\<lparr>gs_maxSearchNodes := n\<rparr>) \<longleftrightarrow> cover_inv s"
  by (simp_all add: cover_inv_def screen_widgets_def)

lemma all_full_options [simp]: "all_full (s\<lparr>gs_maxSearchNodes := n\<rparr>) \<longleftrightarrow> all_full s"
  by (simp add: all_full_def)

definition pin_post :: "nat \<Rightarrow> gridSolver \<Rightarrow> bool \<Rightarrow> gridSolver \<Rightarrow> bool" where
  "pin_post i s b s' \<longleftrightarrow>
     (if b then cover_inv s' \<and> gs_gridCols s' = gs_gridCols s \<and> gs_gridRows s' = gs_gridRows s
         \<and> gs_k s' = gs_k s \<and> gs_unpinned s' = gs_unpinned s
         \<and> (gs_unpinned s = [] \<or> all_full s')
         \<and> length (gs_pinnedPlacements s') = length (gs_pinnedPlacements s)
         \<and> take i (gs_pinnedPlacements s') = take i (gs_pinnedPlacements s)
      else pin_restored i s s')"

lemma search_post_pin_post:
  assumes "search_post s b s'"
  shows "pin_post i s b s'"
proof (cases b)
  case True
  with assms show ?thesis by (simp add: search_post_def pin_post_def same_problem_def)
next
  case False
  with assms have "restored s s'" by (simp add: search_post_def)
  with False show ?thesis by (simp add: pin_post_def restored_pin_restored)
qed

lemma pin_post_via: "pin_restored i s t \<Longrightarrow> pin_post i t b s' \<Longrightarrow> pin_post i s b s'"
  by (auto simp: pin_post_def pin_restored_def)

lemma placeAllUnpinned_post:
  assumes run: "placeAllUnpinned fuel s = Some (b, s')" and inv: "cover_inv s"
  shows "pin_post i s b s'"
proof (cases "gs_unpinned s = []")
  case True
  with run inv show ?thesis by (simp add: placeAllUnpinned_def pin_post_def split: if_splits)
next
  case ne: False
  define top where "top = gs_nodeCount s + min 512 (max 0 (gs_maxSearchNodes s - gs_nodeCount s))"
  let ?s1 = "s\<lparr>gs_orderByConfig := True, gs_maxSearchNodes := top\<rparr>"
  from run ne obtain b1 s1 where r1: "placeUnpinnedExactCover fuel ?s1 = Some (b1, s1)"
    by (auto simp: placeAllUnpinned_def top_def Let_def split: option.splits)
  have p1: "search_post ?s1 b1 s1" using search_sound(1) [OF r1] inv by simp
  show ?thesis
  proof (cases b1)
    case True
    with run ne r1 have "b" "s' = s1\<lparr>gs_maxSearchNodes := gs_maxSearchNodes s\<rparr>"
      by (auto simp: placeAllUnpinned_def top_def Let_def)
    with p1 True show ?thesis by (simp add: search_post_def pin_post_def same_problem_def)
  next
    case False
    let ?s2 = "s1\<lparr>gs_orderByConfig := False, gs_maxSearchNodes := gs_maxSearchNodes s\<rparr>"
    from p1 False have res: "restored ?s1 s1" by (simp add: search_post_def)
    have r2: "pin_restored i s ?s2"
      using restored_fields [OF res] by (simp add: pin_restored_def)
    show ?thesis
    proof (cases "\<not> gs_nodeCount s1 > top \<or> gs_nodeCount s1 \<ge> gs_maxSearchNodes s")
      case True
      with run ne r1 False have "\<not> b" "s' = ?s2"
        by (auto simp: placeAllUnpinned_def top_def Let_def split: if_splits)
      with r2 show ?thesis by (simp add: pin_post_def)
    next
      case False2: False
      with run ne r1 False have "placeUnpinnedExactCover fuel ?s2 = Some (b, s')"
        by (auto simp: placeAllUnpinned_def top_def Let_def split: if_splits)
      moreover have "cover_inv ?s2" using p1 by (simp add: search_post_def)
      ultimately show ?thesis
        using search_sound(1) search_post_pin_post pin_post_via [OF r2] by blast
    qed
  qed
qed

lemma placeAllUnpinned_fuel:
  assumes inv: "cover_inv s" and fuel: "length (gs_unpinned s) < fuel + gs_placedCount s"
  shows "placeAllUnpinned fuel s \<noteq> None"
proof (cases "gs_unpinned s = []")
  case True
  then show ?thesis by (simp add: placeAllUnpinned_def)
next
  case ne: False
  define top where "top = gs_nodeCount s + min 512 (max 0 (gs_maxSearchNodes s - gs_nodeCount s))"
  let ?s1 = "s\<lparr>gs_orderByConfig := True, gs_maxSearchNodes := top\<rparr>"
  obtain b1 s1 where r1: "placeUnpinnedExactCover fuel ?s1 = Some (b1, s1)"
    using search_fuel(1) [of ?s1 fuel] inv fuel by auto
  have p1: "search_post ?s1 b1 s1" using search_sound(1) [OF r1] inv by simp
  let ?s2 = "s1\<lparr>gs_orderByConfig := False, gs_maxSearchNodes := gs_maxSearchNodes s\<rparr>"
  have "\<not> b1 \<Longrightarrow> placeUnpinnedExactCover fuel ?s2 \<noteq> None"
  proof -
    assume "\<not> b1"
    with p1 have "restored ?s1 s1" by (simp add: search_post_def)
    from restored_fields [OF this] have "gs_unpinned ?s2 = gs_unpinned s" "gs_placedCount ?s2 = gs_placedCount s"
      by simp_all
    moreover have "cover_inv ?s2" using p1 by (simp add: search_post_def)
    ultimately show ?thesis using search_fuel(1) [of ?s2 fuel] fuel by simp
  qed
  with ne r1 show ?thesis
    by (auto simp: placeAllUnpinned_def top_def Let_def split: bool.splits)
qed

subsection \<open>Trying positions\<close>

lemma positions_iff [simp]:
  "(c, r) \<in> set (positions mc mr) \<longleftrightarrow> 0 \<le> c \<and> c \<le> mc \<and> 0 \<le> r \<and> r \<le> mr"
  by (force simp: positions_def)

lemma fillMaskAllScreens_nth:
  "length masks = n \<Longrightarrow> t < n \<Longrightarrow>
     fillMaskAllScreens masks n m on ! t = (if on then masks ! t OR m else masks ! t AND NOT m)"
  by (simp add: fillMaskAllScreens_def)

lemma length_fillMaskAllScreens [simp]: "length (fillMaskAllScreens masks n m on) = length masks"
  by (simp add: fillMaskAllScreens_def)

lemma fillMaskAllScreens_undo:
  assumes "length masks = n" "\<forall>t < n. masks ! t AND m = 0"
  shows "fillMaskAllScreens (fillMaskAllScreens masks n m True) n m False = masks"
  using assms by (intro nth_equalityI) (simp_all add: fillMaskAllScreens_nth or_and_not_cancel)

lemma pin_inv_masks_eq:
  assumes "pin_inv i s" "t < gs_k s"
  shows "gs_screenMasks s ! t = gs_screenMasks s ! 0"
proof -
  have "cells_of (gs_screenMasks s ! t) = cells_of (gs_screenMasks s ! 0)"
    using assms tiles_set_unique unfolding pin_inv_def by blast
  then show ?thesis by (simp add: cells_of_inject)
qed

definition pin_step :: "gridSolver \<Rightarrow> nat \<Rightarrow> WidgetInput \<Rightarrow> int \<Rightarrow> int \<Rightarrow> gridSolver" where
  "pin_step s i w c r =
     s\<lparr>gs_screenMasks := fillMaskAllScreens (gs_screenMasks s) (gs_k s)
         (ComputeWidgetBitmaskForGrid (Cols (wi_Dimensions w)) (Rows (wi_Dimensions w)) c r (gs_gridCols s)) True,
       gs_pinnedPlacements := (gs_pinnedPlacements s)[i := pinned_at w c r]\<rparr>"

lemma pin_step_inv:
  assumes inv: "pin_inv i s" and i: "i < length (gs_pinnedPlacements s)"
    and og: "on_grid (gs_gridCols s) (gs_gridRows s) (wi_Dimensions w) c r"
    and free: "gs_screenMasks s ! 0 AND ComputeWidgetBitmaskForGrid (Cols (wi_Dimensions w))
         (Rows (wi_Dimensions w)) c r (gs_gridCols s) = 0"
  shows "pin_inv (Suc i) (pin_step s i w c r)"
proof -
  let ?m = "ComputeWidgetBitmaskForGrid (Cols (wi_Dimensions w)) (Rows (wi_Dimensions w)) c r (gs_gridCols s)"
  have tk: "take (Suc i) ((gs_pinnedPlacements s)[i := pinned_at w c r])
     = take i (gs_pinnedPlacements s) @ [pinned_at w c r]"
    using i by (simp add: take_Suc_conv_app_nth)
  have "tiles (gs_gridCols s) (gs_gridRows s) (take i (gs_pinnedPlacements s) @ [pinned_at w c r])
      (cells_of (gs_screenMasks s ! t OR ?m))" if "t < gs_k s" for t
    using inv that og free pin_inv_masks_eq [OF inv that]
    by (intro tiles_placement) (auto simp: pin_inv_def pinned_at_def)
  then show ?thesis
    using inv i unfolding pin_inv_def pin_step_def
    by (simp add: tk fillMaskAllScreens_nth)
qed

lemma pin_step_undo:
  assumes inv: "pin_inv i s" and i: "i < length (gs_pinnedPlacements s)"
    and free: "gs_screenMasks s ! 0 AND m = 0"
    and m: "m = ComputeWidgetBitmaskForGrid (Cols (wi_Dimensions w)) (Rows (wi_Dimensions w)) c r (gs_gridCols s)"
    and res: "pin_restored (Suc i) (pin_step s i w c r) s'"
  shows "pin_restored i s (s'\<lparr>gs_screenMasks := fillMaskAllScreens (gs_screenMasks s') (gs_k s') m False\<rparr>)"
proof -
  have "\<forall>t < gs_k s. gs_screenMasks s ! t AND m = 0"
    using free by (metis pin_inv_masks_eq [OF inv])
  moreover have "length (gs_screenMasks s) = gs_k s" using inv by (simp add: pin_inv_def)
  moreover have "take i (gs_pinnedPlacements s') = take i (gs_pinnedPlacements s)"
  proof -
    have "take i (take (Suc i) (gs_pinnedPlacements s'))
       = take i (take (Suc i) ((gs_pinnedPlacements s)[i := pinned_at w c r]))"
      using res by (simp add: pin_restored_def pin_step_def)
    then show ?thesis by (simp only: take_take min_def take_update_cancel) simp
  qed
  moreover have "gs_screenMasks s' = fillMaskAllScreens (gs_screenMasks s) (gs_k s) m True"
    "gs_k s' = gs_k s"
    using res by (simp_all add: pin_restored_def pin_step_def m)
  ultimately show ?thesis
    using res unfolding m by (simp add: pin_restored_def pin_step_def fillMaskAllScreens_undo)
qed

text \<open>The placement recorded for a pinned widget carries its identity, type and footprint.\<close>

definition placed_as :: "WidgetInput \<Rightarrow> PlacedWidget \<Rightarrow> bool" where
  "placed_as w pw \<longleftrightarrow> pw = pinned_at w (Col pw) (Row pw)"

definition pinned_sound :: "nat \<Rightarrow> WidgetInput list \<Rightarrow> gridSolver \<Rightarrow> bool \<Rightarrow> gridSolver \<Rightarrow> bool" where
  "pinned_sound i ws s b s' \<longleftrightarrow>
     pin_post i s b s' \<and> (b \<longrightarrow> list_all2 placed_as ws (drop i (gs_pinnedPlacements s')))"

lemma pinned_sound_via: "pin_restored i s t \<Longrightarrow> pinned_sound i ws t b s' \<Longrightarrow> pinned_sound i ws s b s'"
  by (auto simp: pinned_sound_def intro: pin_post_via)

lemma pinned_sound_step:
  assumes post: "pinned_sound (Suc i) ws (pin_step s i w c r) True s'"
    and i: "i < length (gs_pinnedPlacements s)"
  shows "pinned_sound i (w # ws) s True s'"
proof -
  have len: "length (gs_pinnedPlacements s') = length (gs_pinnedPlacements s)"
    and tk: "take (Suc i) (gs_pinnedPlacements s') = take i (gs_pinnedPlacements s) @ [pinned_at w c r]"
    using post i by (auto simp: pinned_sound_def pin_post_def pin_step_def take_Suc_conv_app_nth)
  have "take i (gs_pinnedPlacements s') = take i (take (Suc i) (gs_pinnedPlacements s'))" by simp
  also have "\<dots> = take i (gs_pinnedPlacements s)" unfolding tk using i by simp
  finally have tk': "take i (gs_pinnedPlacements s') = take i (gs_pinnedPlacements s)" .
  have "gs_pinnedPlacements s' ! i = take (Suc i) (gs_pinnedPlacements s') ! i" by simp
  also have "\<dots> = pinned_at w c r" unfolding tk using i by (simp add: nth_append)
  finally have "drop i (gs_pinnedPlacements s') = pinned_at w c r # drop (Suc i) (gs_pinnedPlacements s')"
    using i len by (metis Cons_nth_drop_Suc)
  with post tk' show ?thesis
    by (auto simp: pinned_sound_def pin_post_def pin_step_def placed_as_def pinned_at_def Col_def Row_def)
qed

lemma pinned_search:
  "pin_inv i s \<Longrightarrow> length (gs_pinnedPlacements s) = i + length ws
     \<Longrightarrow> \<forall>w \<in> set ws. IsValidForGrid (wi_Dimensions w) (gs_gridCols s) (gs_gridRows s)
     \<Longrightarrow> length (gs_unpinned s) < fuel
     \<Longrightarrow> \<exists>b s'. placePinned fuel i ws s = Some (b, s') \<and> pinned_sound i ws s b s'"
  "pin_inv i s \<Longrightarrow> length (gs_pinnedPlacements s) = i + Suc (length ws)
     \<Longrightarrow> \<forall>w \<in> set (w # ws). IsValidForGrid (wi_Dimensions w) (gs_gridCols s) (gs_gridRows s)
     \<Longrightarrow> \<forall>(c, r) \<in> set ps. on_grid (gs_gridCols s) (gs_gridRows s) (wi_Dimensions w) c r
     \<Longrightarrow> length (gs_unpinned s) < fuel
     \<Longrightarrow> \<exists>b s'. tryPositions fuel i w ws ps s = Some (b, s') \<and> pinned_sound i (w # ws) s b s'"
proof (induction fuel i ws s and fuel i w ws ps s rule: placePinned_tryPositions.induct)
  case (1 fuel i s)
  then have inv: "cover_inv s" using pin_inv_cover_inv [of s] by simp
  moreover have "gs_placedCount s = 0" using "1.prems"(1) by (simp add: pin_inv_def)
  ultimately obtain b s' where run: "placeAllUnpinned fuel s = Some (b, s')"
    using placeAllUnpinned_fuel [of s fuel] "1.prems"(4) by auto
  from placeAllUnpinned_post [OF run inv] have post: "pin_post i s b s'" .
  then have "b \<Longrightarrow> length (gs_pinnedPlacements s') = i"
    using "1.prems"(2) by (simp add: pin_post_def)
  with run post show ?case by (auto simp: pinned_sound_def)
next
  case (2 fuel i w ws s)
  let ?ps = "positions (gs_gridCols s - Cols (wi_Dimensions w)) (gs_gridRows s - Rows (wi_Dimensions w))"
  have "\<forall>(c, r) \<in> set ?ps. on_grid (gs_gridCols s) (gs_gridRows s) (wi_Dimensions w) c r"
    using "2.prems"(3) by (auto simp: on_grid_def)
  then show ?case using "2.IH" "2.prems" by simp
next
  case (3 fuel i w ws s)
  show ?case by (rule exI [of _ False], rule exI [of _ s]) (simp add: pinned_sound_def pin_post_def)
next
  case (4 fuel i w ws c r ps s)
  let ?m = "ComputeWidgetBitmaskForGrid (Cols (wi_Dimensions w)) (Rows (wi_Dimensions w)) c r (gs_gridCols s)"
  have i: "i < length (gs_pinnedPlacements s)" using "4.prems"(2) by simp
  show ?case
  proof (cases "gs_screenMasks s ! 0 AND ?m \<noteq> 0")
    case True
    then show ?thesis using "4.IH"(1) [OF refl True] "4.prems" by auto
  next
    case free: False
    have inv': "pin_inv (Suc i) (pin_step s i w c r)"
      using "4.prems" i free by (intro pin_step_inv) auto
    then obtain b1 s1 where run: "placePinned fuel (Suc i) ws (pin_step s i w c r) = Some (b1, s1)"
      and post: "pinned_sound (Suc i) ws (pin_step s i w c r) b1 s1"
      using "4.IH"(2) [OF refl free, folded pin_step_def] "4.prems"
      by (auto simp: pin_step_def)
    show ?thesis
    proof (cases b1)
      case True
      with free run have "tryPositions fuel i w ws ((c, r) # ps) s = Some (True, s1)"
        by (simp add: Let_def flip: pin_step_def)
      then show ?thesis using True post pinned_sound_step [of i ws s w c r s1] i by auto
    next
      case False
      let ?u = "s1\<lparr>gs_screenMasks := fillMaskAllScreens (gs_screenMasks s1) (gs_k s1) ?m False\<rparr>"
      have res: "pin_restored i s ?u"
        using "4.prems"(1) i free post False
        by (intro pin_step_undo [where w = w and c = c and r = r])
           (auto simp: pinned_sound_def pin_post_def)
      have "\<exists>b s'. tryPositions fuel i w ws ps ?u = Some (b, s') \<and> pinned_sound i (w # ws) ?u b s'"
        using "4.IH"(3) [OF refl free, folded pin_step_def, OF run refl] False "4.prems"
          pin_inv_restored [OF res] res
        by (auto simp: pin_restored_def)
      then show ?thesis
        using free run False pinned_sound_via [OF res] by (auto simp: Let_def simp flip: pin_step_def)
    qed
  qed
qed

end
