(* ===== verification/Layout_Sound.thy ===== *)
theory Layout_Sound
  imports Layout_Pinned
begin

text \<open>
  Correctness of \<^verbatim>\<open>SolveGridWithBudget\<close>: the facts its validation establishes, the counting
  argument that a full cover uses every widget, and the solved layout as a specification. The
  properties of the solver are stated at the end.
\<close>

subsection \<open>What validation establishes\<close>

definition total_area :: "WidgetInput list \<Rightarrow> int" where
  "total_area ws = sum_list (map (\<lambda>w. Area (wi_Dimensions w)) ws)"

lemma total_area_simps [simp]:
  "total_area [] = 0"
  "total_area (w # ws) = Area (wi_Dimensions w) + total_area ws"
  "total_area (ws @ vs) = total_area ws + total_area vs"
  by (simp_all add: total_area_def)

definition partition_step :: "partition \<Rightarrow> WidgetInput \<Rightarrow> partition" where
  "partition_step acc w =
     (if wi_Pinned w
      then acc\<lparr>pt_pinned := pt_pinned acc @ [w],
               pt_pinnedArea := pt_pinnedArea acc + Area (wi_Dimensions w)\<rparr>
      else acc\<lparr>pt_unpinned := pt_unpinned acc @ [w],
               pt_unpinnedArea := pt_unpinnedArea acc + Area (wi_Dimensions w)\<rparr>)"

lemma partition_loop_Cons_Inr:
  "partition_loop gc gr i (w # ws) seen acc = Inr p \<longleftrightarrow>
     TrimSpace (wi_ID w) \<noteq> [] \<and> seen (TrimSpace (wi_ID w)) = None
     \<and> IsValidForGrid (wi_Dimensions w) gc gr
     \<and> partition_loop gc gr (Suc i) ws (seen(TrimSpace (wi_ID w) \<mapsto> i)) (partition_step acc w) = Inr p"
  by (simp add: Let_def partition_step_def split: option.split)

lemma partition_loop_parts:
  assumes "partition_loop gc gr i ws seen acc = Inr p"
  shows "pt_pinned p = pt_pinned acc @ filter wi_Pinned ws
    \<and> pt_unpinned p = pt_unpinned acc @ filter (\<lambda>w. \<not> wi_Pinned w) ws
    \<and> pt_pinnedArea p = pt_pinnedArea acc + total_area (filter wi_Pinned ws)
    \<and> pt_unpinnedArea p = pt_unpinnedArea acc + total_area (filter (\<lambda>w. \<not> wi_Pinned w) ws)"
  using assms
proof (induction ws arbitrary: i seen acc)
  case (Cons w ws)
  from Cons.IH [OF Cons.prems [unfolded partition_loop_Cons_Inr, THEN conjunct2, THEN conjunct2, THEN conjunct2]]
  show ?case by (simp add: partition_step_def)
qed simp

lemma partition_loop_valid:
  assumes "partition_loop gc gr i ws seen acc = Inr p"
  shows "(\<forall>w \<in> set ws. IsValidForGrid (wi_Dimensions w) gc gr \<and> TrimSpace (wi_ID w) \<noteq> [])
    \<and> distinct (map (TrimSpace \<circ> wi_ID) ws) \<and> dom seen \<inter> set (map (TrimSpace \<circ> wi_ID) ws) = {}"
  using assms
proof (induction ws arbitrary: i seen acc)
  case (Cons w ws)
  note c = Cons.prems [unfolded partition_loop_Cons_Inr]
  note ih = Cons.IH [OF c [THEN conjunct2, THEN conjunct2, THEN conjunct2]]
  have "insert (TrimSpace (wi_ID w)) (dom seen) \<inter> set (map (TrimSpace \<circ> wi_ID) ws) = {}"
    using ih [THEN conjunct2, THEN conjunct2] by (simp only: dom_fun_upd) simp
  with ih c show ?case by (simp add: domIff)
qed simp

lemma ceil_div_bounds:
  assumes "0 < (d::int)"
  shows "n \<le> (n + d - 1) div d * d" "(n + d - 1) div d * d < n + d"
proof -
  have "n + d - 1 = (n + d - 1) div d * d + (n + d - 1) mod d" by simp
  moreover have "0 \<le> (n + d - 1) mod d" "(n + d - 1) mod d < d" using assms by simp_all
  ultimately show "n \<le> (n + d - 1) div d * d" "(n + d - 1) div d * d < n + d" by linarith+
qed

lemma ComputeScreensForGrid_cases:
  assumes "ComputeScreensForGrid pa ua tc = Inr (n, d)"
  obtains "pa = tc" "ua = 0" "n = 1" "d = 0"
    | "0 \<le> pa" "pa < tc" "ua = 0" "n = 1" "d = tc - pa"
    | "0 \<le> pa" "pa < tc" "0 < ua" "n = (ua + (tc - pa) - 1) div (tc - pa)" "d = n * (tc - pa) - ua"
  using assms by (fastforce simp: ComputeScreensForGrid_def Let_def split: if_splits)

lemma ComputeScreensForGrid_deficit:
  assumes "ComputeScreensForGrid pa ua tc = Inr (n, d)"
  shows "0 \<le> d"
  using assms by (rule ComputeScreensForGrid_cases) (use ceil_div_bounds(1) [of "tc - pa" ua] in simp_all)

lemma ComputeScreensForGrid_Inr:
  assumes "ComputeScreensForGrid pa ua tc = Inr (n, 0)"
  shows "1 \<le> n" "n * tc = n * pa + ua" "ua = 0 \<Longrightarrow> pa = tc"
  using assms
proof (atomize (full), cases rule: ComputeScreensForGrid_cases [OF assms])
  case 3
  then have "0 < n * (tc - pa)" "0 < tc - pa" by simp_all
  then have "0 < n" by (simp only: zero_less_mult_iff) linarith
  with 3 show "1 \<le> n \<and> n * tc = n * pa + ua \<and> (ua = 0 \<longrightarrow> pa = tc)" by (simp add: algebra_simps)
qed simp_all

lemma partitionAndValidateWidgets_Inr:
  assumes "partitionAndValidateWidgets ws gc gr = Inr (pins, unpins, n)"
  shows "pins = filter wi_Pinned ws" "unpins = filter (\<lambda>w. \<not> wi_Pinned w) ws"
    "\<forall>w \<in> set ws. IsValidForGrid (wi_Dimensions w) gc gr"
    "1 \<le> n" "n * (gc * gr) = n * total_area pins + total_area unpins"
    "unpins = [] \<Longrightarrow> total_area pins = gc * gr"
    "distinct (map (TrimSpace \<circ> wi_ID) ws)"
proof -
  from assms obtain p d where pl: "partition_loop gc gr 0 ws Map.empty
       \<lparr>pt_pinned = [], pt_unpinned = [], pt_pinnedArea = 0, pt_unpinnedArea = 0\<rparr> = Inr p"
    and cs: "ComputeScreensForGrid (pt_pinnedArea p) (pt_unpinnedArea p) (gc * gr) = Inr (n, d)"
    and d: "d \<le> 0" and eq: "pins = pt_pinned p" "unpins = pt_unpinned p"
    by (auto simp: partitionAndValidateWidgets_def ComputeScreens_def Let_def split: if_splits)
  note p = partition_loop_parts [OF pl, simplified] and v = partition_loop_valid [OF pl]
  have "d = 0" using ComputeScreensForGrid_deficit [OF cs] d by simp
  note c = ComputeScreensForGrid_Inr [OF cs [unfolded \<open>d = 0\<close>]]
  show "pins = filter wi_Pinned ws" "unpins = filter (\<lambda>w. \<not> wi_Pinned w) ws"
    "\<forall>w \<in> set ws. IsValidForGrid (wi_Dimensions w) gc gr" "1 \<le> n"
    "distinct (map (TrimSpace \<circ> wi_ID) ws)"
    using p v eq c(1) by simp_all
  show "n * (gc * gr) = n * total_area pins + total_area unpins"
    "unpins = [] \<Longrightarrow> total_area pins = gc * gr"
    using p eq c(2,3) by simp_all
qed

subsection \<open>Grouping keeps every widget\<close>

lemma sum_list_sort_by:
  "sum_list (map f (sort_by lt xs)) = (sum_list (map f xs) :: 'a :: comm_monoid_add)"
proof -
  have "sum_mset (mset (map f (sort_by lt xs))) = sum_mset (mset (map f xs))" by simp
  then show ?thesis by (simp only: sum_mset_sum_list)
qed

lemma left_over_sum_mset: "left_over sgs = (\<Sum>sg \<in># mset sgs. mset (remaining sg))"
  unfolding left_over_def by (metis mset_map sum_mset_sum_list)

lemma left_over_sort_by [simp]: "left_over (sort_by lt sgs) = left_over sgs"
  by (simp add: left_over_sum_mset)

definition fresh_group :: "int \<Rightarrow> int \<Rightarrow> shapeGroup \<Rightarrow> bool" where
  "fresh_group gc gr sg \<longleftrightarrow> group_ok gc gr sg \<and> sg_count sg = length (sg_widgets sg)"

lemma fresh_group_remaining: "fresh_group gc gr sg \<Longrightarrow> remaining sg = sg_widgets sg"
  by (simp add: fresh_group_def remaining_def)

lemma group_add_ok:
  assumes "\<forall>sg \<in> set sgs. fresh_group gc gr sg" "IsValidForGrid (wi_Dimensions w) gc gr"
  shows "(\<forall>sg \<in> set (group_add i w sgs). fresh_group gc gr sg)
    \<and> left_over (group_add i w sgs) = add_mset w (left_over sgs)"
  using assms(1)
proof (induction sgs)
  case Nil
  show ?case using assms(2) by (simp add: fresh_group_def group_ok_def left_over_def remaining_def)
next
  case (Cons sg sgs)
  show ?case
  proof (cases "sg_dims sg = wi_Dimensions w")
    case True
    let ?sg = "sg\<lparr>sg_count := Suc (sg_count sg), sg_widgets := sg_widgets sg @ [w],
       sg_orders := sg_orders sg @ [i]\<rparr>"
    have "fresh_group gc gr ?sg" using Cons.prems True by (auto simp: fresh_group_def group_ok_def)
    from fresh_group_remaining [OF this] this show ?thesis
      using Cons.prems True fresh_group_remaining [of gc gr sg] by (simp add: left_over_def)
  next
    case False
    then show ?thesis using Cons by (simp add: left_over_def)
  qed
qed

lemma group_all_ok:
  assumes "\<forall>sg \<in> set sgs. fresh_group gc gr sg" "\<forall>w \<in> set ws. IsValidForGrid (wi_Dimensions w) gc gr"
  shows "(\<forall>sg \<in> set (group_all i ws sgs). fresh_group gc gr sg)
    \<and> left_over (group_all i ws sgs) = mset ws + left_over sgs"
  using assms
proof (induction i ws sgs rule: group_all.induct)
  case (2 i w ws sgs)
  then show ?case using group_add_ok [of sgs gc gr w i] by simp
qed simp

lemma init_pin_inv:
  assumes "supported_grid gc gr" "0 < n" "\<forall>w \<in> set unpins. IsValidForGrid (wi_Dimensions w) gc gr"
  shows "pin_inv 0 (init_solver gc gr b n pins unpins (sort_by group_less (group_all 0 unpins [])))"
  using assms group_all_ok [of "[]" gc gr unpins 0]
  by (simp add: pin_inv_def init_solver_def fresh_group_def left_over_def [of "[]"])

subsection \<open>Counting\<close>

lemma sum_by_screen:
  assumes "\<forall>u \<in> set us. up_screen u < n"
  shows "(\<Sum>t < n. sum_list (map f (filter (\<lambda>u. up_screen u = t) us))) = (sum_list (map f us) :: int)"
  using assms
proof (induction us)
  case (Cons u us)
  have "(\<Sum>t < n. sum_list (map f (filter (\<lambda>v. up_screen v = t) (u # us))))
     = (\<Sum>t < n. (if up_screen u = t then f u else 0) + sum_list (map f (filter (\<lambda>v. up_screen v = t) us)))"
    by (rule sum.cong) simp_all
  also have "\<dots> = f u + sum_list (map f us)"
    using Cons by (simp add: sum.distrib)
  finally show ?case by simp
qed simp

lemma sum_mset_by_screen:
  assumes "\<forall>u \<in> set us. up_screen u < n"
  shows "(\<Sum>t < n. mset (map f (filter (\<lambda>u. up_screen u = t) us))) = mset (map f us)"
  using assms
proof (induction us)
  case (Cons u us)
  have "(\<Sum>t < n. mset (map f (filter (\<lambda>v. up_screen v = t) (u # us))))
     = (\<Sum>t < n. (if up_screen u = t then {#f u#} else {#}) + mset (map f (filter (\<lambda>v. up_screen v = t) us)))"
    by (rule sum.cong) simp_all
  also have "\<dots> = {#f u#} + mset (map f us)"
    using Cons by (simp add: sum.distrib)
  finally show ?case by simp
qed simp

lemma sum_mset_pos_zero:
  assumes "\<And>x. x \<in># M \<Longrightarrow> 0 < (f x :: int)" "(\<Sum>x \<in># M. f x) = 0"
  shows "M = {#}"
proof -
  have "(\<forall>x \<in># M. 0 < f x) \<longrightarrow> 0 \<le> (\<Sum>x \<in># M. f x) \<and> (M \<noteq> {#} \<longrightarrow> 0 < (\<Sum>x \<in># M. f x))"
    by (induction M) auto
  with assms show ?thesis by auto
qed

definition placed :: "gridSolver \<Rightarrow> unpinnedPlacement list" where
  "placed s = take (gs_placedCount s) (gs_unpinnedPlacements s)"

lemma screen_area:
  assumes "cover_inv s" "t < gs_k s"
  shows "sum_list (map (\<lambda>pw. Area (pw_Dimensions pw)) (gs_pinnedPlacements s))
       + sum_list (map (\<lambda>u. Area (wi_Dimensions (up_widget u))) (filter (\<lambda>u. up_screen u = t) (placed s)))
     = int (card (cells_of (gs_screenMasks s ! t)))"
proof -
  have t: "tiles (gs_gridCols s) (gs_gridRows s) (screen_widgets s t) (cells_of (gs_screenMasks s ! t))"
    and g: "supported_grid (gs_gridCols s) (gs_gridRows s)"
    using assms by (simp_all add: cover_inv_def)
  show ?thesis
    using tiles_area [OF t g]
    by (simp add: screen_widgets_def on_screen_def placed_def unpinned_placed_def comp_def)
qed

lemma all_full_uses_all:
  assumes inv: "cover_inv s" and full: "all_full s"
    and pos: "\<forall>w \<in> set (gs_unpinned s). 0 < Area (wi_Dimensions w)"
    and area: "int (gs_k s) * (gs_gridCols s * gs_gridRows s)
       = int (gs_k s) * sum_list (map (\<lambda>pw. Area (pw_Dimensions pw)) (gs_pinnedPlacements s))
         + total_area (gs_unpinned s)"
  shows "mset (map up_widget (placed s)) = mset (gs_unpinned s)"
proof -
  let ?g = "gs_gridCols s * gs_gridRows s"
  let ?p = "sum_list (map (\<lambda>pw. Area (pw_Dimensions pw)) (gs_pinnedPlacements s))"
  let ?a = "\<lambda>u. Area (wi_Dimensions (up_widget u))"
  have sg: "supported_grid (gs_gridCols s) (gs_gridRows s)" using inv by (simp add: cover_inv_def)
  have "0 \<le> ?g" using supported_grid_bounds [OF sg] by simp
  then have "?p + sum_list (map ?a (filter (\<lambda>u. up_screen u = t) (placed s))) = ?g" if "t < gs_k s" for t
    using screen_area [OF inv that] full that sg
    by (simp add: all_full_def cells_of_fullGridMask card_grid_cells)
  then have "(\<Sum>t < gs_k s. ?p + sum_list (map ?a (filter (\<lambda>u. up_screen u = t) (placed s))))
     = (\<Sum>t < gs_k s. ?g)" by simp
  then have "int (gs_k s) * ?p + sum_list (map ?a (placed s)) = int (gs_k s) * ?g"
    using sum_by_screen [of "placed s" "gs_k s" ?a] inv
    by (simp add: sum.distrib cover_inv_def placed_def)
  with area have pl: "sum_list (map ?a (placed s)) = total_area (gs_unpinned s)" by simp
  have acct: "mset (map up_widget (placed s)) + left_over (gs_shapeGroups s) = mset (gs_unpinned s)"
    using inv by (simp add: cover_inv_def placed_def)
  then have "(\<Sum>w \<in># mset (map up_widget (placed s)). Area (wi_Dimensions w))
      + (\<Sum>w \<in># left_over (gs_shapeGroups s). Area (wi_Dimensions w))
     = (\<Sum>w \<in># mset (gs_unpinned s). Area (wi_Dimensions w))"
    by (metis image_mset_union sum_mset.union)
  with pl have zero: "(\<Sum>w \<in># left_over (gs_shapeGroups s). Area (wi_Dimensions w)) = 0"
    by (simp add: sum_mset_sum_list total_area_def image_mset.compositionality comp_def flip: mset_map)
  have "w \<in># left_over (gs_shapeGroups s) \<Longrightarrow> 0 < Area (wi_Dimensions w)" for w
    using acct pos by (metis Un_iff set_mset_mset set_mset_union)
  with zero have "left_over (gs_shapeGroups s) = {#}"
    by (rule sum_mset_pos_zero [rotated])
  with acct show ?thesis by simp
qed

subsection \<open>The solved layout\<close>

text \<open>What identifies a widget in its declaration and in a placement.\<close>

definition wi_key :: "WidgetInput \<Rightarrow> string \<times> string \<times> Dimension" where
  "wi_key w = (wi_ID w, wi_Type w, wi_Dimensions w)"

definition pw_key :: "PlacedWidget \<Rightarrow> string \<times> string \<times> Dimension" where
  "pw_key pw = (pw_WidgetID pw, pw_Type pw, pw_Dimensions pw)"

text \<open>The final state of a successful search: everything full, everything placed.\<close>

definition solved_state :: "int \<Rightarrow> int \<Rightarrow> nat \<Rightarrow> WidgetInput list \<Rightarrow> WidgetInput list \<Rightarrow> gridSolver \<Rightarrow> bool" where
  "solved_state gc gr n pins unpins s \<longleftrightarrow>
     supported_grid gc gr \<and> 0 < n \<and> length (gs_screenMasks s) = n
     \<and> (\<forall>t < n. gs_screenMasks s ! t = fullGridMask gc gr
          \<and> tiles gc gr (screen_widgets s t) (grid_cells gc gr))
     \<and> list_all2 placed_as pins (gs_pinnedPlacements s)
     \<and> mset (map up_widget (placed s)) = mset unpins
     \<and> (\<forall>u \<in> set (placed s). up_screen u < n)"

lemma placed_as_area:
  "list_all2 placed_as pins pps \<Longrightarrow>
     sum_list (map (\<lambda>pw. Area (pw_Dimensions pw)) pps) = total_area pins"
  by (induction rule: list_all2_induct) (simp_all add: placed_as_def pinned_at_def, metis PlacedWidget.select_convs(4))

lemma all_full_if_pinned_full:
  assumes inv: "cover_inv s" and none: "gs_unpinned s = []"
    and area: "sum_list (map (\<lambda>pw. Area (pw_Dimensions pw)) (gs_pinnedPlacements s))
       = gs_gridCols s * gs_gridRows s"
  shows "all_full s"
  unfolding all_full_def
proof (intro allI impI)
  fix t assume t: "t < gs_k s"
  have sg: "supported_grid (gs_gridCols s) (gs_gridRows s)" using inv by (simp add: cover_inv_def)
  have "placed s = []" using inv none by (simp add: cover_inv_def placed_def)
  with screen_area [OF inv t] area
  have "int (card (cells_of (gs_screenMasks s ! t))) = gs_gridCols s * gs_gridRows s" by simp
  then have "cells_of (gs_screenMasks s ! t) = grid_cells (gs_gridCols s) (gs_gridRows s)"
    using inv t sg by (intro tiles_full [of _ _ "screen_widgets s t"]) (simp_all add: cover_inv_def)
  then show "gs_screenMasks s ! t = fullGridMask (gs_gridCols s) (gs_gridRows s)"
    using cells_of_fullGridMask [OF sg] by (simp flip: cells_of_inject)
qed

lemma solver_run:
  assumes sg: "supported_grid gc gr" and v: "partitionAndValidateWidgets ws gc gr = Inr (pins, unpins, n)"
    and g: "sortAndGroupWidgets pins unpins = (pins', groups)"
  shows "\<exists>b s. placePinned (Suc (length unpins)) 0 pins' (init_solver gc gr bud (nat n) pins' unpins groups)
       = Some (b, s) \<and> (b \<longrightarrow> solved_state gc gr (nat n) pins' unpins s)"
proof -
  note v = partitionAndValidateWidgets_Inr [OF v]
  let ?s0 = "init_solver gc gr bud (nat n) pins' unpins groups"
  have g': "pins' = sort_by pinned_less pins" "groups = sort_by group_less (group_all 0 unpins [])"
    using g by (simp_all add: sortAndGroupWidgets_def)
  have valid: "\<forall>w \<in> set pins'. IsValidForGrid (wi_Dimensions w) gc gr"
    "\<forall>w \<in> set unpins. IsValidForGrid (wi_Dimensions w) gc gr"
    using v(1-3) g' by auto
  have inv0: "pin_inv 0 ?s0" using init_pin_inv [OF sg _ valid(2)] v(4) g' by simp
  obtain b s where run: "placePinned (Suc (length unpins)) 0 pins' ?s0 = Some (b, s)"
    and post: "pinned_sound 0 pins' ?s0 b s"
    using pinned_search(1) [OF inv0, of pins' "Suc (length unpins)"] valid(1)
    by (auto simp: init_solver_def)
  have "b \<longrightarrow> solved_state gc gr (nat n) pins' unpins s"
  proof
    assume b
    with post have inv: "cover_inv s" and f: "gs_gridCols s = gc" "gs_gridRows s = gr"
      "gs_k s = nat n" "gs_unpinned s = unpins" and fl: "unpins = [] \<or> all_full s"
      and pp: "list_all2 placed_as pins' (gs_pinnedPlacements s)"
      by (simp_all add: pinned_sound_def pin_post_def init_solver_def)
    have pa: "sum_list (map (\<lambda>pw. Area (pw_Dimensions pw)) (gs_pinnedPlacements s)) = total_area pins"
      using placed_as_area [OF pp] g'(1) by (simp add: total_area_def sum_list_sort_by)
    have full: "all_full s"
      using fl all_full_if_pinned_full [OF inv] f pa v(6) by auto
    have "\<forall>w \<in> set unpins. 0 < Area (wi_Dimensions w)" using valid(2) Area_pos by blast
    then have "mset (map up_widget (placed s)) = mset unpins"
      using all_full_uses_all [OF inv full] f pa v(4,5) by simp
    with inv full f pp sg v(4) show "solved_state gc gr (nat n) pins' unpins s"
      by (auto simp: solved_state_def cover_inv_def all_full_def placed_def cells_of_fullGridMask)
  qed
  with run show ?thesis by blast
qed

lemma assemble_screen_sound:
  assumes "solved_state gc gr n pins unpins s" "t < n"
  shows "sc_Bitmask (assemble_screen t (gs_screenMasks s) (gs_pinnedPlacements s)
           (gs_unpinnedPlacements s) (gs_placedCount s)) = fullGridMask gc gr"
    "tiles gc gr (sc_Widgets (assemble_screen t (gs_screenMasks s) (gs_pinnedPlacements s)
           (gs_unpinnedPlacements s) (gs_placedCount s))) (grid_cells gc gr)"
    "mset (sc_Widgets (assemble_screen t (gs_screenMasks s) (gs_pinnedPlacements s)
           (gs_unpinnedPlacements s) (gs_placedCount s)))
      = mset (gs_pinnedPlacements s) + mset (map unpinned_placed (filter (\<lambda>u. up_screen u = t) (placed s)))"
proof -
  have "mset (screen_widgets s t) = mset (sort_by placed_less (screen_widgets s t))" by simp
  then show "tiles gc gr (sc_Widgets (assemble_screen t (gs_screenMasks s) (gs_pinnedPlacements s)
           (gs_unpinnedPlacements s) (gs_placedCount s))) (grid_cells gc gr)"
    using assms tiles_mset unfolding assemble_screen_def screen_widgets_def solved_state_def
    by (metis Screen.select_convs(3))
qed (use assms in \<open>simp_all add: assemble_screen_def solved_state_def on_screen_def placed_def\<close>)

lemma assembled_screen:
  assumes "i < n"
  shows "\<exists>t < n. Screens (assembleSolvedLayout n masks pps ups p) ! i
     = (assemble_screen t masks pps ups p)\<lparr>sc_Index := i\<rparr>"
proof -
  let ?o = "sort_by (\<lambda>i j. min_order i ups p < min_order j ups p) [0..<n]"
  have "?o ! i \<in> set ?o" using assms by (intro nth_mem) simp
  then have "?o ! i < n" by simp
  then show ?thesis using assms by (auto simp: assembleSolvedLayout_def Let_def)
qed

text \<open>Reordering the screens neither loses nor repeats one.\<close>

lemma assembled_widgets:
  "(\<Sum>sc \<leftarrow> Screens (assembleSolvedLayout n masks pps ups p). h (sc_Widgets sc))
     = (\<Sum>t < n. (h (sc_Widgets (assemble_screen t masks pps ups p)) :: 'a multiset))"
proof -
  let ?o = "sort_by (\<lambda>i j. min_order i ups p < min_order j ups p) [0..<n]"
  let ?f = "\<lambda>t. h (sc_Widgets (assemble_screen t masks pps ups p))"
  have "map (\<lambda>sc. h (sc_Widgets sc)) (Screens (assembleSolvedLayout n masks pps ups p)) = map ?f ?o"
  proof (rule nth_equalityI)
    fix i assume "i < length (map (\<lambda>sc. h (sc_Widgets sc)) (Screens (assembleSolvedLayout n masks pps ups p)))"
    then have i: "i < n" by (simp add: assembleSolvedLayout_def Let_def)
    have "?o ! i \<in> set ?o" using i by (intro nth_mem) simp
    then have "?o ! i < n" by simp
    with i show "map (\<lambda>sc. h (sc_Widgets sc)) (Screens (assembleSolvedLayout n masks pps ups p)) ! i = map ?f ?o ! i"
      by (simp add: assembleSolvedLayout_def Let_def)
  qed (simp add: assembleSolvedLayout_def Let_def)
  then have "(\<Sum>sc \<leftarrow> Screens (assembleSolvedLayout n masks pps ups p). h (sc_Widgets sc)) = sum_list (map ?f ?o)"
    by simp
  also have "\<dots> = sum_list (map ?f [0..<n])"
    by (rule sum_list_sort_by)
  finally show ?thesis by (simp add: interv_sum_list_conv_sum_set_nat atLeast0LessThan)
qed

definition solver_verdict :: "int \<Rightarrow> int \<Rightarrow> nat \<Rightarrow> (bool \<times> gridSolver) option \<Rightarrow> layout_error + Layout" where
  "solver_verdict gc gr n res =
     (case res of
        None \<Rightarrow> Inl OutOfFuel
      | Some (b, s) \<Rightarrow> if b then Inr (assembleSolvedLayout n (gs_screenMasks s)
           (gs_pinnedPlacements s) (gs_unpinnedPlacements s) (gs_placedCount s)) else Inl (CannotTile gc gr))"

lemma formatDeficit_DeficitError:
  obtains e where "formatDeficitErrorForGrid a n d gc gr = DeficitError e"
  by (cases "gc = GridColumns \<and> gr = GridRows")
    (simp_all add: formatDeficitErrorForGrid_def FormatDeficitError_def formatGridDeficitError_def Let_def)

lemma SolveGridWithBudget_cases:
  assumes "NormalizeGrid gc0 gr0 = (gc, gr)"
  obtains e where "SolveGridWithBudget ws gc0 gr0 b = Inl (DeficitError e)"
    | e where "partitionAndValidateWidgets ws gc gr = Inl e" "SolveGridWithBudget ws gc0 gr0 b = Inl e"
    | pins unpins n bud pins' groups where
        "partitionAndValidateWidgets ws gc gr = Inr (pins, unpins, n)"
        "sortAndGroupWidgets pins unpins = (pins', groups)"
        "SolveGridWithBudget ws gc0 gr0 b = solver_verdict gc gr (nat n)
           (placePinned (Suc (length unpins)) 0 pins' (init_solver gc gr bud (nat n) pins' unpins groups))"
proof (cases "ws = []")
  case True
  then show thesis
    using assms that(1) formatDeficit_DeficitError [of 0 1 "gc * gr" gc gr]
    by (auto simp: SolveGridWithBudget_def Let_def)
next
  case False
  note unf = SolveGridWithBudget_def Let_def assms
  show thesis
  proof (cases "partitionAndValidateWidgets ws gc gr")
    case (Inl e)
    then show thesis using False by (intro that(2) [OF Inl]) (simp add: unf)
  next
    case (Inr p)
    obtain pins unpins n where p: "p = (pins, unpins, n)" by (cases p)
    obtain pins' groups where g: "sortAndGroupWidgets pins unpins = (pins', groups)"
      by (cases "sortAndGroupWidgets pins unpins")
    show thesis
      by (rule that(3) [OF Inr [unfolded p] g, of "if b \<le> 0 then defaultMaxSearchNodes else b"])
        (use False Inr p g in \<open>simp add: unf solver_verdict_def split: option.split prod.split bool.split\<close>)
  qed
qed

lemma partition_loop_fuel: "partition_loop gc gr i ws seen acc \<noteq> Inl OutOfFuel"
proof (induction ws arbitrary: i seen acc)
  case (Cons w ws)
  then show ?case by (simp add: Let_def split: option.split)
qed simp

lemma ComputeScreensForGrid_fuel: "ComputeScreensForGrid a b c \<noteq> Inl OutOfFuel"
  by (simp add: ComputeScreensForGrid_def Let_def)

lemma res_bind_fuel:
  "a \<noteq> Inl OutOfFuel \<Longrightarrow> (\<And>x. f x \<noteq> Inl OutOfFuel) \<Longrightarrow> res_bind a f \<noteq> Inl OutOfFuel"
  by (cases a) simp_all

lemma partition_fuel: "partitionAndValidateWidgets ws gc gr \<noteq> Inl OutOfFuel"
proof -
  have d: "formatDeficitErrorForGrid a n d gc gr \<noteq> OutOfFuel" for a n d
    by (rule formatDeficit_DeficitError [of a n d gc gr]) simp
  show ?thesis
    unfolding partitionAndValidateWidgets_def Let_def ComputeScreens_def
    by (intro res_bind_fuel partition_loop_fuel)
      (use ComputeScreensForGrid_fuel d in \<open>simp_all split: prod.split\<close>)
qed

lemma Solve_Inr:
  assumes "SolveGridWithBudget ws gc0 gr0 b = Inr L" "NormalizeGrid gc0 gr0 = (gc, gr)"
  obtains n s where
    "solved_state gc gr n (sort_by pinned_less (filter wi_Pinned ws)) (filter (\<lambda>w. \<not> wi_Pinned w) ws) s"
    "L = assembleSolvedLayout n (gs_screenMasks s) (gs_pinnedPlacements s) (gs_unpinnedPlacements s)
       (gs_placedCount s)"
proof (rule SolveGridWithBudget_cases [OF assms(2), of ws b])
  fix pins unpins n bud pins' groups
  assume v: "partitionAndValidateWidgets ws gc gr = Inr (pins, unpins, n)"
    and g: "sortAndGroupWidgets pins unpins = (pins', groups)"
    and r: "SolveGridWithBudget ws gc0 gr0 b = solver_verdict gc gr (nat n)
           (placePinned (Suc (length unpins)) 0 pins' (init_solver gc gr bud (nat n) pins' unpins groups))"
  have sg: "supported_grid gc gr" using NormalizeGrid_supported assms(2) .
  from solver_run [OF sg v g, of bud] r assms(1) obtain s where
    "solved_state gc gr (nat n) pins' unpins s"
    "L = assembleSolvedLayout (nat n) (gs_screenMasks s) (gs_pinnedPlacements s)
       (gs_unpinnedPlacements s) (gs_placedCount s)"
    by (auto simp: solver_verdict_def split: if_splits)
  then show thesis
    using that g partitionAndValidateWidgets_Inr(1,2) [OF v] by (simp add: sortAndGroupWidgets_def)
qed (use assms(1) in simp_all)

lemma placed_as_key: "placed_as w pw \<Longrightarrow> pw_key pw = wi_key w \<and> pw_Pinned pw"
  unfolding placed_as_def pinned_at_def pw_key_def wi_key_def by (metis PlacedWidget.select_convs(1,2,4,5))

lemma placed_as_keys:
  "list_all2 placed_as pins pps \<Longrightarrow> map pw_key pps = map wi_key pins \<and> (\<forall>pw \<in> set pps. pw_Pinned pw)"
  by (induction rule: list_all2_induct) (simp_all add: placed_as_key)

lemma unpinned_placed_key [simp]:
  "pw_key (unpinned_placed u) = wi_key (up_widget u)" "\<not> pw_Pinned (unpinned_placed u)"
  by (simp_all add: unpinned_placed_def pw_key_def wi_key_def)

lemma unpinned_placed_msets:
  "filter_mset pw_Pinned (mset (map unpinned_placed us)) = {#}"
  "filter_mset (\<lambda>pw. \<not> pw_Pinned pw) (mset (map unpinned_placed us)) = mset (map unpinned_placed us)"
  "image_mset pw_key (mset (map unpinned_placed us)) = mset (map (\<lambda>u. wi_key (up_widget u)) us)"
  by (induction us) simp_all

lemma all_pinned_msets:
  assumes "\<forall>pw \<in> set pps. pw_Pinned pw"
  shows "filter_mset pw_Pinned (mset pps) = mset pps" "filter_mset (\<lambda>pw. \<not> pw_Pinned pw) (mset pps) = {#}"
  using assms by (induction pps) simp_all

subsection \<open>A worked example\<close>

definition sample_widget :: "string \<Rightarrow> bool \<Rightarrow> WidgetInput" where
  "sample_widget n pin = \<lparr>wi_ID = n, wi_Type = n, wi_Dimensions = \<lparr>Cols = 6, Rows = 1\<rparr>, wi_Pinned = pin\<rparr>"

definition sample_widgets :: "WidgetInput list" where
  "sample_widgets = [sample_widget ''clock'' True, sample_widget ''cal'' False, sample_widget ''photos'' False]"

definition sample_screen :: "nat \<Rightarrow> string \<Rightarrow> Screen" where
  "sample_screen i n = \<lparr>sc_Index = i, sc_Bitmask = 4095, sc_Widgets =
     [\<lparr>pw_WidgetID = ''clock'', pw_Type = ''clock'', pw_Origin = (0, 0),
       pw_Dimensions = \<lparr>Cols = 6, Rows = 1\<rparr>, pw_Pinned = True\<rparr>,
      \<lparr>pw_WidgetID = n, pw_Type = n, pw_Origin = (0, 1),
       pw_Dimensions = \<lparr>Cols = 6, Rows = 1\<rparr>, pw_Pinned = False\<rparr>]\<rparr>"

definition sample_layout :: Layout where
  "sample_layout = \<lparr>TotalScreens = 2, Screens = [sample_screen 0 ''cal'', sample_screen 1 ''photos'']\<rparr>"

lemma sample_solve: "SolveGridWithBudget sample_widgets 6 2 0 = Inr sample_layout"
  by code_simp

lemma sample_grid: "NormalizeGrid 6 2 = (6, 2)"
  by (simp add: NormalizeGrid_def GridColumns_def GridRows_def)

text \<open>Every pinned widget is on every screen and every other one on exactly one.\<close>

definition shows_widgets :: "WidgetInput list \<Rightarrow> Layout \<Rightarrow> bool" where
  "shows_widgets ws L \<longleftrightarrow> (\<forall>sc \<in> set (Screens L).
       image_mset pw_key (filter_mset pw_Pinned (mset (sc_Widgets sc)))
       = image_mset wi_key (filter_mset wi_Pinned (mset ws)))
    \<and> (\<Sum>sc \<leftarrow> Screens L. image_mset pw_key (filter_mset (\<lambda>pw. \<not> pw_Pinned pw) (mset (sc_Widgets sc))))
       = image_mset wi_key (filter_mset (\<lambda>w. \<not> wi_Pinned w) (mset ws))"

lemma solve_shows:
  assumes "SolveGridWithBudget ws gc0 gr0 budget = Inr L" "NormalizeGrid gc0 gr0 = (gc, gr)"
  shows "shows_widgets ws L"
proof -
  from Solve_Inr [OF assms] obtain n s where
    st: "solved_state gc gr n (sort_by pinned_less (filter wi_Pinned ws)) (filter (\<lambda>w. \<not> wi_Pinned w) ws) s"
    and L: "L = assembleSolvedLayout n (gs_screenMasks s) (gs_pinnedPlacements s) (gs_unpinnedPlacements s)
       (gs_placedCount s)" .
  have pp: "list_all2 placed_as (sort_by pinned_less (filter wi_Pinned ws)) (gs_pinnedPlacements s)"
    using st by (simp add: solved_state_def)
  note pinned = all_pinned_msets [OF placed_as_keys [OF pp, THEN conjunct2]]
  have pk: "image_mset pw_key (mset (gs_pinnedPlacements s)) = image_mset wi_key (filter_mset wi_Pinned (mset ws))"
    using arg_cong [OF placed_as_keys [OF pp, THEN conjunct1], of mset] by simp
  note unp = unpinned_placed_msets
  note w = assemble_screen_sound(3) [OF st]
  show ?thesis unfolding shows_widgets_def
  proof (rule conjI)
    show "\<forall>sc \<in> set (Screens L). image_mset pw_key (filter_mset pw_Pinned (mset (sc_Widgets sc)))
       = image_mset wi_key (filter_mset wi_Pinned (mset ws))"
    proof
      fix sc assume "sc \<in> set (Screens L)"
      then obtain i where "i < n" "sc = Screens L ! i"
        by (auto simp: in_set_conv_nth L assembleSolvedLayout_def Let_def)
      with assembled_screen [OF \<open>i < n\<close>] obtain t where "t < n"
        "sc = (assemble_screen t (gs_screenMasks s) (gs_pinnedPlacements s) (gs_unpinnedPlacements s)
           (gs_placedCount s))\<lparr>sc_Index := i\<rparr>" unfolding L by metis
      then show "image_mset pw_key (filter_mset pw_Pinned (mset (sc_Widgets sc)))
         = image_mset wi_key (filter_mset wi_Pinned (mset ws))"
        using w [of t] by (simp add: pinned(1) pk unp(1) del: mset_map)
    qed
    have "(\<Sum>sc \<leftarrow> Screens L. image_mset pw_key (filter_mset (\<lambda>pw. \<not> pw_Pinned pw) (mset (sc_Widgets sc))))
       = (\<Sum>t < n. mset (map (\<lambda>u. wi_key (up_widget u)) (filter (\<lambda>u. up_screen u = t) (placed s))))"
      unfolding L assembled_widgets [of "\<lambda>ws. image_mset pw_key (filter_mset (\<lambda>pw. \<not> pw_Pinned pw) (mset ws))"]
      by (rule sum.cong) (simp_all add: w pinned(2) unp(2,3) del: mset_map)
    also have "\<dots> = mset (map (\<lambda>u. wi_key (up_widget u)) (placed s))"
      using st by (intro sum_mset_by_screen) (simp add: solved_state_def)
    also have "\<dots> = image_mset wi_key (mset (map up_widget (placed s)))"
      by (simp add: multiset.map_comp comp_def)
    also have "\<dots> = image_mset wi_key (filter_mset (\<lambda>w. \<not> wi_Pinned w) (mset ws))"
      using st by (simp add: solved_state_def del: mset_map)
    finally show "(\<Sum>sc \<leftarrow> Screens L. image_mset pw_key (filter_mset (\<lambda>pw. \<not> pw_Pinned pw) (mset (sc_Widgets sc))))
       = image_mset wi_key (filter_mset (\<lambda>w. \<not> wi_Pinned w) (mset ws))" .
  qed
qed

lemma solve_tiled:
  assumes "SolveGridWithBudget ws gc0 gr0 budget = Inr L" "NormalizeGrid gc0 gr0 = (gc, gr)"
  shows "tiled_layout gc gr L"
proof -
  from Solve_Inr [OF assms] obtain n s where
    st: "solved_state gc gr n (sort_by pinned_less (filter wi_Pinned ws)) (filter (\<lambda>w. \<not> wi_Pinned w) ws) s"
    and L: "L = assembleSolvedLayout n (gs_screenMasks s) (gs_pinnedPlacements s) (gs_unpinnedPlacements s)
       (gs_placedCount s)" .
  have len: "length (Screens L) = n" "TotalScreens L = int n"
    by (simp_all add: L assembleSolvedLayout_def Let_def)
  have "0 < n" using st by (simp add: solved_state_def)
  moreover have "sc_Index (Screens L ! i) = i \<and> sc_Bitmask (Screens L ! i) = fullGridMask gc gr
         \<and> tiles gc gr (sc_Widgets (Screens L ! i)) (grid_cells gc gr)" if "i < n" for i
    using assembled_screen [OF that, of "gs_screenMasks s" "gs_pinnedPlacements s"
        "gs_unpinnedPlacements s" "gs_placedCount s"] assemble_screen_sound(1,2) [OF st]
    by (auto simp: L)
  ultimately show ?thesis using len by (auto simp: tiled_layout_def)
qed

lemma solve_inputs_valid:
  assumes "SolveGridWithBudget ws gc0 gr0 budget = Inr L" "NormalizeGrid gc0 gr0 = (gc, gr)"
  shows "(\<forall>w \<in> set ws. IsValidForGrid (wi_Dimensions w) gc gr) \<and> distinct (map (TrimSpace \<circ> wi_ID) ws)"
proof (rule SolveGridWithBudget_cases [OF assms(2), of ws budget])
  fix pins unpins n assume "partitionAndValidateWidgets ws gc gr = Inr (pins, unpins, n)"
  from partitionAndValidateWidgets_Inr(3,7) [OF this] show ?thesis by simp
qed (use assms(1) in simp_all)

subsection \<open>Properties of the solver\<close>

text \<open>C1: Every screen of a layout the solver returns is a perfect tiling of the grid: each widget lies
  inside the grid, every cell is covered by exactly one widget, the recorded bit mask is the full
  mask, and the screens are numbered in order. There is at least one screen and \<^verbatim>\<open>TotalScreens\<close>
  counts them.\<close>

theorem solve_tiles_every_screen:
  assumes "SolveGridWithBudget ws gc0 gr0 budget = Inr L" "NormalizeGrid gc0 gr0 = (gc, gr)"
  shows "TotalScreens L = int (length (Screens L)) \<and> Screens L \<noteq> []
    \<and> (\<forall>i < length (Screens L).
         sc_Index (Screens L ! i) = i \<and> sc_Bitmask (Screens L ! i) = fullGridMask gc gr
         \<and> tiles gc gr (sc_Widgets (Screens L ! i)) (grid_cells gc gr))"
  using solve_tiled [OF assms] unfolding tiled_layout_def .

theorem solve_tiles_every_screen_witness:
  "TotalScreens sample_layout = int (length (Screens sample_layout)) \<and> Screens sample_layout \<noteq> []
    \<and> list_all (\<lambda>i. sc_Index (Screens sample_layout ! i) = i \<and> sc_Bitmask (Screens sample_layout ! i) = fullGridMask 6 2
         \<and> tiles 6 2 (sc_Widgets (Screens sample_layout ! i)) (grid_cells 6 2)) [0 ..< length (Screens sample_layout)]"
  using solve_tiles_every_screen [OF sample_solve sample_grid] by (simp add: list_all_iff)

text \<open>C2: A solved layout shows every pinned widget on every screen and every other widget on exactly
  one screen, with the identifier, type and dimensions it was declared with, and nothing else.\<close>

theorem solve_places_every_widget:
  assumes "SolveGridWithBudget ws gc0 gr0 budget = Inr L" "NormalizeGrid gc0 gr0 = (gc, gr)"
  shows "(\<forall>sc \<in> set (Screens L).
       image_mset pw_key (filter_mset pw_Pinned (mset (sc_Widgets sc)))
       = image_mset wi_key (filter_mset wi_Pinned (mset ws)))
    \<and> (\<Sum>sc \<leftarrow> Screens L. image_mset pw_key (filter_mset (\<lambda>pw. \<not> pw_Pinned pw) (mset (sc_Widgets sc))))
       = image_mset wi_key (filter_mset (\<lambda>w. \<not> wi_Pinned w) (mset ws))"
  using solve_shows [OF assms] unfolding shows_widgets_def .

theorem solve_places_every_widget_witness:
  "list_all (\<lambda>sc. image_mset pw_key (filter_mset pw_Pinned (mset (sc_Widgets sc)))
       = image_mset wi_key (filter_mset wi_Pinned (mset sample_widgets))) (Screens sample_layout)
    \<and> (\<Sum>sc \<leftarrow> Screens sample_layout. image_mset pw_key (filter_mset (\<lambda>pw. \<not> pw_Pinned pw) (mset (sc_Widgets sc))))
       = image_mset wi_key (filter_mset (\<lambda>w. \<not> wi_Pinned w) (mset sample_widgets))"
  using solve_places_every_widget [OF sample_solve sample_grid] unfolding list_all_iff .

text \<open>The widgets of a solved screen are listed in reading order, row by row from the left.\<close>

lemma solve_reading_order:
  assumes "SolveGridWithBudget ws gc0 gr0 budget = Inr L" "sc \<in> set (Screens L)"
  shows "sorted_wrt (\<lambda>a b. Row a < Row b \<or> Row a = Row b \<and> Col a \<le> Col b) (sc_Widgets sc)"
proof -
  obtain gc gr where "NormalizeGrid gc0 gr0 = (gc, gr)" by (cases "NormalizeGrid gc0 gr0")
  from Solve_Inr [OF assms(1) this] obtain n s where
    "solved_state gc gr n (sort_by pinned_less (filter wi_Pinned ws)) (filter (\<lambda>w. \<not> wi_Pinned w) ws) s"
    and L: "L = assembleSolvedLayout n (gs_screenMasks s) (gs_pinnedPlacements s) (gs_unpinnedPlacements s)
       (gs_placedCount s)" .
  from assms(2) obtain i where "i < n" "sc = Screens L ! i"
    by (auto simp: in_set_conv_nth L assembleSolvedLayout_def Let_def)
  moreover obtain t where "Screens L ! i = (assemble_screen t (gs_screenMasks s) (gs_pinnedPlacements s)
      (gs_unpinnedPlacements s) (gs_placedCount s))\<lparr>sc_Index := i\<rparr>"
    using assembled_screen [OF \<open>i < n\<close>] unfolding L by blast
  ultimately obtain pws where "sc_Widgets sc = sort_by placed_less pws"
    by (simp add: assemble_screen_def)
  then have "sorted_wrt (\<lambda>a b. \<not> placed_less b a) (sc_Widgets sc)" by (simp add: reading.sorted_sort_by)
  then show ?thesis by (rule sorted_wrt_mono_rel [rotated]) (auto simp: placed_less_def split: if_splits)
qed

text \<open>C3: The search always comes to a verdict: with one unit of fuel per unpinned widget and one more,
  the depth of the recursion is never exhausted, whatever the widgets, the grid and the budget.\<close>

theorem solve_terminates: "SolveGridWithBudget ws gc0 gr0 budget \<noteq> Inl OutOfFuel"
proof -
  obtain gc gr where ng: "NormalizeGrid gc0 gr0 = (gc, gr)" by (cases "NormalizeGrid gc0 gr0")
  note sg = NormalizeGrid_supported [OF ng]
  show ?thesis
  proof (rule SolveGridWithBudget_cases [OF ng, of ws budget])
    fix e assume "partitionAndValidateWidgets ws gc gr = Inl e" "SolveGridWithBudget ws gc0 gr0 budget = Inl e"
    then show ?thesis using partition_fuel [of ws gc gr] by auto
  next
    fix pins unpins n bud pins' groups
    assume v: "partitionAndValidateWidgets ws gc gr = Inr (pins, unpins, n)"
      and g: "sortAndGroupWidgets pins unpins = (pins', groups)"
      and r: "SolveGridWithBudget ws gc0 gr0 budget = solver_verdict gc gr (nat n)
           (placePinned (Suc (length unpins)) 0 pins' (init_solver gc gr bud (nat n) pins' unpins groups))"
    obtain b s where "placePinned (Suc (length unpins)) 0 pins'
        (init_solver gc gr bud (nat n) pins' unpins groups) = Some (b, s)"
      using solver_run [OF sg v g, of bud] by blast
    with r show ?thesis by (simp add: solver_verdict_def)
  qed simp
qed

text \<open>C5: The number of rotation screens is the least one whose cells hold the widgets: a pinned widget
  counts on every screen, the reported deficit is exactly what is missing to fill the screens, and no
  smaller number of screens has room.\<close>

theorem compute_screens_least:
  assumes "ComputeScreensForGrid pinned unpinned cells = Inr (n, deficit)"
  shows "1 \<le> n \<and> 0 \<le> deficit \<and> n * cells = n * pinned + unpinned + deficit
    \<and> (\<forall>m. 1 \<le> m \<and> m < n \<longrightarrow> m * cells < m * pinned + unpinned)"
proof (cases rule: ComputeScreensForGrid_cases [OF assms])
  case 3
  let ?c = "cells - pinned"
  have c: "0 < ?c" using 3 by simp
  note b = ceil_div_bounds [OF c, of unpinned, folded 3(4)]
  have "0 < n * ?c" using b(1) 3(3) by linarith
  then have "0 < n" using c by (simp only: zero_less_mult_iff) linarith
  moreover have "m * ?c < unpinned" if "m < n" for m
  proof -
    have "(m + 1) * ?c \<le> n * ?c" using that c by (intro mult_right_mono) simp_all
    then show ?thesis using b(2) by (simp add: algebra_simps)
  qed
  ultimately show ?thesis using 3(5) b(1) by (auto simp: algebra_simps)
qed simp_all

theorem compute_screens_least_witness:
  "ComputeScreensForGrid 4 40 18 = Inr (3, 2) \<and> 1 \<le> (3::int) \<and> 0 \<le> (2::int) \<and> 3 * 18 = 3 * 4 + 40 + (2::int)
    \<and> (2::int) * 18 < 2 * 4 + 40"
proof -
  have run: "ComputeScreensForGrid 4 40 18 = Inr (3, 2)" by (simp add: ComputeScreensForGrid_def)
  then show ?thesis using compute_screens_least [OF run] by simp
qed

lemma take_option_sum:
  "0 < area \<Longrightarrow> take_option dim area d = (ps, rest) \<Longrightarrow>
     sum_list (map snd ps) + rest = d \<and> (0 \<le> d \<longrightarrow> 0 \<le> rest \<and> rest < area) \<and> set ps \<subseteq> {(dim, area)}"
proof (induction dim area d arbitrary: ps rest rule: take_option.induct)
  case (1 dim area d)
  then show ?case
    by (subst (asm) take_option.simps) (fastforce simp: Let_def split: if_splits prod.splits)
qed

lemma take_options_sum:
  assumes "\<forall>o' \<in> set opts. 0 < snd o'" "0 \<le> d" "opts \<noteq> []" "snd (last opts) = 1"
  shows "sum_list (map snd (take_options p opts d)) = d"
  using assms
proof (induction p opts d rule: take_options.induct)
  case (2 p a b area opts d)
  obtain ps rest where t: "take_option (if p then (b, a) else (a, b)) area d = (ps, rest)"
    by (cases "take_option (if p then (b, a) else (a, b)) area d")
  note ts = take_option_sum [OF _ t]
  show ?case
    using 2 t ts by (cases "opts = []") auto
qed simp

definition oriented :: "bool \<Rightarrow> (int \<times> int) \<times> int \<Rightarrow> (int \<times> int) \<times> int" where
  "oriented portrait x = (if portrait then (snd (fst x), fst (fst x)) else fst x, snd x)"

lemma take_options_set:
  assumes "\<forall>x \<in> set opts. 0 < snd x"
  shows "set (take_options p opts d) \<subseteq> oriented p ` set opts"
  using assms
proof (induction p opts d rule: take_options.induct)
  case (2 p a b area opts d)
  obtain ps rest where t: "take_option (if p then (b, a) else (a, b)) area d = (ps, rest)"
    by (cases "take_option (if p then (b, a) else (a, b)) area d")
  have "set ps \<subseteq> {oriented p ((a, b), area)}"
    using take_option_sum [OF _ t] 2(2) by (cases p) (simp_all add: oriented_def)
  moreover have "set (take_options p opts rest) \<subseteq> oriented p ` set opts"
    using 2(1) [OF t [symmetric] refl] 2(2) by simp
  ultimately show ?case using t by auto
qed simp

text \<open>The widgets the deficit message proposes fill the deficit exactly, each proposed shape has the
  number of cells the message names, and every one fits the grid of its orientation.\<close>

lemma guidance_fills_deficit:
  assumes "0 \<le> deficit"
  shows "sum_list (map snd (take_options portrait deficit_options deficit)) = deficit
    \<and> (\<forall>((c, r), area) \<in> set (take_options portrait deficit_options deficit).
         c * r = area \<and> IsValidForGrid \<lparr>Cols = c, Rows = r\<rparr>
           (if portrait then 2 else GridColumns) (if portrait then 6 else GridRows))"
proof -
  have pos: "\<forall>o' \<in> set deficit_options. 0 < snd o'" "deficit_options \<noteq> []" "snd (last deficit_options) = 1"
    by (simp_all add: deficit_options_def)
  have "c * r = area \<and> IsValidForGrid \<lparr>Cols = c, Rows = r\<rparr>
           (if portrait then 2 else GridColumns) (if portrait then 6 else GridRows)"
    if "((c, r), area) \<in> set (take_options portrait deficit_options deficit)" for c r area
  proof -
    have "((c, r), area) \<in> oriented portrait ` set deficit_options"
      using take_options_set [OF pos(1)] that by blast
    then show ?thesis
      by (cases portrait) (auto simp: deficit_options_def oriented_def IsValidForGrid_def GridColumns_def GridRows_def)
  qed
  with take_options_sum [OF pos(1) assms pos(2,3)] show ?thesis by auto
qed

end
