(* ===== verification/Config_Pipeline.thy ===== *)
theory Config_Pipeline
  imports Config_Yaml Config_Env Config_Override Layout_Sound
begin

text \<open>
  \<^verbatim>\<open>internal/config/lkgc.go\<close>: the six stages a configuration passes before it is used. Parameters are the YAML
  library, the platform, the environment, the package loader and the JSON schema library, which says for a schema and a
  document whether the schema is unusable or the document violates it. The code compiles a schema once for each widget
  type; since a type has one package, compiling it again gives the same schema.
\<close>

datatype package_error =
    PackageNotLoaded string
  | ManifestInvalid string manifest_error
  | NoDefaultDimensions string string
  | NotSupported override_error

datatype schema_failure = SchemaUnusable | SchemaViolated

datatype domain_error =
    MissingHTTPEndpoint string
  | MissingSource string
  | BadSource string string
  | MissingSourceBlock string string
  | BadTodoistURL string string
  | MissingTasklist string
  | TooManyMembers string nat
  | MemberNotMapping string nat
  | MemberUnnamed string nat
  | DuplicateMember string string
  | DuplicatePattern string string string string
  | EmptyCalendar string string
  | UnknownCalendar string string string
  | BadHours string string string

datatype pipeline_error =
    NilLoader
  | Stage1 yaml_error
  | Stage2 config_error
  | Stage3 package_error
  | Stage4 string schema_failure
  | Stage5 domain_error
  | Stage6Dimensions dimension_error
  | Stage6Layout layout_error

subsection \<open>Stage 3: packages\<close>

definition portraitDefaultDimMap :: "Dimension \<rightharpoonup> Dimension" where
  "portraitDefaultDimMap = map_of
     [(\<lparr>Cols = 6, Rows = 2\<rparr>, \<lparr>Cols = 3, Rows = 6\<rparr>), (\<lparr>Cols = 4, Rows = 2\<rparr>, \<lparr>Cols = 3, Rows = 4\<rparr>),
      (\<lparr>Cols = 3, Rows = 2\<rparr>, \<lparr>Cols = 3, Rows = 3\<rparr>), (\<lparr>Cols = 2, Rows = 2\<rparr>, \<lparr>Cols = 3, Rows = 2\<rparr>),
      (\<lparr>Cols = 2, Rows = 1\<rparr>, \<lparr>Cols = 3, Rows = 1\<rparr>)]"

definition supports :: "WidgetManifest \<Rightarrow> Dimension \<Rightarrow> bool" where
  "supports m d \<longleftrightarrow> wm_SupportedDimensions m = [] \<or> d \<in> set (wm_SupportedDimensions m)"

definition default_dimension :: "WidgetManifest \<Rightarrow> GridConfig \<Rightarrow> Dimension" where
  "default_dimension m grid =
     (let d0 = wm_DefaultDimensions m;
          d1 = (if gc_Columns grid = 3 \<and> gc_Rows grid = 6 then
                  (case portraitDefaultDimMap d0 of None \<Rightarrow> d0 | Some mapped \<Rightarrow> if supports m mapped then mapped else d0)
                else d0);
          flipped = NewDimension (Rows d1) (Cols d1)
      in if \<not> IsValidForGrid d1 (gc_Columns grid) (gc_Rows grid)
            \<and> IsValidForGrid flipped (gc_Columns grid) (gc_Rows grid) \<and> supports m flipped
         then flipped else d1)"

definition resolveWidgetDefaultDimensions :: "WidgetConfig \<Rightarrow> Package \<Rightarrow> GridConfig \<Rightarrow> package_error + WidgetConfig" where
  "resolveWidgetDefaultDimensions w pkg grid =
     (if derefOr (wc_Dimensions w) [] \<noteq> [] then Inr w
      else if \<not> IsValid (wm_DefaultDimensions (pk_Manifest pkg)) then Inl (NoDefaultDimensions (wc_ID w) (wc_Type w))
      else Inr (w\<lparr>wc_Dimensions := Some (Slice (default_dimension (pk_Manifest pkg) grid))\<rparr>))"

definition find_package ::
    "(string \<Rightarrow> Package option) \<Rightarrow> (string \<rightharpoonup> Package) \<Rightarrow> string \<Rightarrow> package_error + Package" where
  "find_package load registry t =
     (case registry t of
        Some pkg \<Rightarrow> Inr pkg
      | None \<Rightarrow> (case load t of
          None \<Rightarrow> Inl (PackageNotLoaded t)
        | Some pkg \<Rightarrow> (case manifest_Validate (pk_Manifest pkg) of
            Some e \<Rightarrow> Inl (ManifestInvalid t e)
          | None \<Rightarrow> Inr pkg)))"

definition default_refresh :: "Package \<Rightarrow> WidgetConfig \<Rightarrow> WidgetConfig" where
  "default_refresh pkg w =
     (let i = mr_IntervalSeconds (wm_Refresh (pk_Manifest pkg)) in
      if wc_RefreshIntervalSeconds w = None \<and> i > 0 then w\<lparr>wc_RefreshIntervalSeconds := Some i\<rparr> else w)"

definition package_widget :: "Package \<Rightarrow> GridConfig \<Rightarrow> WidgetConfig \<Rightarrow> package_error + WidgetConfig" where
  "package_widget pkg grid w0 =
     res_bind (resolveWidgetDefaultDimensions w0 pkg grid) (\<lambda>w1.
     let w2 = default_refresh pkg w1 in
     res_bind (map_sum NotSupported id (validateWidgetSupportedDimensions w2 pkg)) (\<lambda>_. Inr w2))"

fun package_widgets ::
    "(string \<Rightarrow> Package option) \<Rightarrow> GridConfig \<Rightarrow> (string \<rightharpoonup> Package) \<Rightarrow> WidgetConfig list
     \<Rightarrow> package_error + (WidgetConfig list \<times> (string \<rightharpoonup> Package))" where
  "package_widgets load grid registry [] = Inr ([], registry)"
| "package_widgets load grid registry (w # ws) =
     res_bind (find_package load registry (wc_Type w)) (\<lambda>pkg.
     res_bind (package_widget pkg grid w) (\<lambda>w'.
     res_bind (package_widgets load grid (registry(wc_Type w \<mapsto> pkg)) ws) (\<lambda>(ws', reg). Inr (w' # ws', reg))))"

definition set_widgets :: "WidgetConfig list \<Rightarrow> Config \<Rightarrow> Config" where
  "set_widgets ws c = c\<lparr>cf_Display := (cf_Display c)\<lparr>dc_Widgets := ws\<rparr>\<rparr>"

definition validatePackagesStage ::
    "(string \<Rightarrow> Package option) \<Rightarrow> Config \<Rightarrow> package_error + (Config \<times> (string \<rightharpoonup> Package))" where
  "validatePackagesStage load cfg =
     res_bind (package_widgets load (dc_Grid (cf_Display cfg)) Map.empty (dc_Widgets (cf_Display cfg)))
       (\<lambda>(ws, registry). Inr (set_widgets ws cfg, registry))"

subsection \<open>Stage 4: the schemas of the packages\<close>

type_synonym schema_lib = "any_map \<Rightarrow> any_map \<Rightarrow> schema_failure option"

definition check_widget_schema ::
    "schema_lib \<Rightarrow> (string \<rightharpoonup> Package) \<Rightarrow> WidgetConfig \<Rightarrow> (string \<times> schema_failure) option" where
  "check_widget_schema js registry w =
     (case registry (wc_Type w) of
        None \<Rightarrow> None
      | Some pkg \<Rightarrow> (case derefOr (wm_ConfigSchema (pk_Manifest pkg)) [] of
          [] \<Rightarrow> None
        | schema \<Rightarrow> map_option (Pair (wc_ID w)) (js schema (derefOr (wc_Config w) []))))"

definition validateManifestConfigSchemasStage ::
    "schema_lib \<Rightarrow> Config \<Rightarrow> (string \<rightharpoonup> Package) \<Rightarrow> (string \<times> schema_failure) option" where
  "validateManifestConfigSchemasStage js cfg registry =
     first_error (map (check_widget_schema js registry) (dc_Widgets (cf_Display cfg)))"

subsection \<open>Stage 5: rules of the widget types\<close>

fun derefStr :: "any \<Rightarrow> string" where
  "derefStr (AStr s) = s"
| "derefStr _ = []"

fun derefSlice :: "any \<Rightarrow> any list" where
  "derefSlice (AList vs) = vs"
| "derefSlice _ = []"

definition validateTasksSourceConfig :: "platform \<Rightarrow> string \<Rightarrow> string \<Rightarrow> any_map \<Rightarrow> domain_error option" where
  "validateTasksSourceConfig pf widgetID source cfg =
     (if source \<noteq> ''gtasks'' \<and> source \<noteq> ''todoist'' then Some (BadSource widgetID source)
      else case any_get source cfg of
        AMap subCfg \<Rightarrow>
          let u = derefStr (any_get ''base_url'' subCfg) in
          if source = ''todoist'' \<and> u \<noteq> [] \<and> \<not> isValidHTTPURL pf u then Some (BadTodoistURL widgetID u)
          else if source = ''gtasks'' \<and> derefStr (any_get ''tasklist_id'' subCfg) = [] then Some (MissingTasklist widgetID)
          else None
      | _ \<Rightarrow> Some (MissingSourceBlock widgetID source))"

definition calendar_names :: "any_map \<Rightarrow> string set" where
  "calendar_names cfg = set (filter (\<lambda>n. n \<noteq> []) (concat (map (\<lambda>item.
     case item of AMap m \<Rightarrow> [TrimSpace (derefStr (any_get ''name'' m))] | _ \<Rightarrow> []) (derefSlice (any_get ''calendars'' cfg)))))"

definition check_member_calendar :: "string \<Rightarrow> string set \<Rightarrow> string \<Rightarrow> any \<Rightarrow> domain_error option" where
  "check_member_calendar widgetID cals nm c =
     (let cal = TrimSpace (derefStr c) in
      if cal = [] then Some (EmptyCalendar widgetID nm)
      else if cal \<notin> cals then Some (UnknownCalendar widgetID nm cal)
      else None)"

fun check_members ::
    "string \<Rightarrow> string set \<Rightarrow> nat \<Rightarrow> string set \<Rightarrow> (string \<rightharpoonup> string) \<Rightarrow> any list \<Rightarrow> domain_error option" where
  "check_members widgetID cals idx names patterns [] = None"
| "check_members widgetID cals idx names patterns (item # items) =
     (case item of
        AMap m \<Rightarrow>
          let nm = TrimSpace (derefStr (any_get ''name'' m)) in
          if nm = [] then Some (MemberUnnamed widgetID idx)
          else if nm \<in> names then Some (DuplicateMember widgetID nm)
          else let pattern = trimmedOr (derefStr (any_get ''pattern'' m)) ''solid'' in
            (case patterns pattern of
               Some prev \<Rightarrow> Some (DuplicatePattern widgetID prev nm pattern)
             | None \<Rightarrow> (case first_error (map (check_member_calendar widgetID cals nm) (derefSlice (any_get ''calendars'' m))) of
                 Some e \<Rightarrow> Some e
               | None \<Rightarrow> check_members widgetID cals (Suc idx) (insert nm names) (patterns(pattern \<mapsto> nm)) items))
      | _ \<Rightarrow> Some (MemberNotMapping widgetID idx))"

definition check_hours :: "string \<Rightarrow> any list \<Rightarrow> domain_error option" where
  "check_hours widgetID h =
     (if length h = 2 then
        let s = derefStr (h ! 0); e = derefStr (h ! 1) in
        if s \<noteq> [] \<and> e \<noteq> [] \<and> \<not> string_less s e then Some (BadHours widgetID s e) else None
      else None)"

definition validateFamilyCalendarConfig :: "string \<Rightarrow> any_map \<Rightarrow> domain_error option" where
  "validateFamilyCalendarConfig widgetID rawConfig =
     (let members = derefSlice (any_get ''members'' rawConfig) in
      if length members > 8 then Some (TooManyMembers widgetID (length members))
      else first_error [check_members widgetID (calendar_names rawConfig) 0 {} Map.empty members,
        check_hours widgetID (derefSlice (any_get ''hours'' rawConfig))])"

definition check_domain_rules :: "platform \<Rightarrow> (string \<rightharpoonup> Package) \<Rightarrow> WidgetConfig \<Rightarrow> domain_error option" where
  "check_domain_rules pf registry w =
     (let cfg = derefOr (wc_Config w) []; src = derefStr (any_get ''source'' cfg) in
      first_error
        [case registry (wc_Type w) of
           None \<Rightarrow> None
         | Some pkg \<Rightarrow>
             if wm_Provider (pk_Manifest pkg) = ''http'' \<and> wc_Endpoint w = [] then Some (MissingHTTPEndpoint (wc_ID w)) else None,
         if wc_Type w = ''calendar-grid'' then validateFamilyCalendarConfig (wc_ID w) cfg else None,
         if wc_Type w \<noteq> ''tasks'' then None
         else if src = [] then Some (MissingSource (wc_ID w))
         else validateTasksSourceConfig pf (wc_ID w) src cfg])"

definition validateDomainRulesStage :: "platform \<Rightarrow> Config \<Rightarrow> (string \<rightharpoonup> Package) \<Rightarrow> domain_error option" where
  "validateDomainRulesStage pf cfg registry = first_error (map (check_domain_rules pf registry) (dc_Widgets (cf_Display cfg)))"

subsection \<open>Stage 6 and the whole pipeline\<close>

definition solveForConfigGrid :: "WidgetInput list \<Rightarrow> GridConfig \<Rightarrow> layout_error + Layout" where
  "solveForConfigGrid inputs grid =
     (if gc_Columns grid = 3 \<and> gc_Rows grid = 6 then SolveGridWithBudget inputs 3 6 0 else Solve inputs)"

fun widget_inputs :: "WidgetConfig list \<Rightarrow> dimension_error + WidgetInput list" where
  "widget_inputs [] = Inr []"
| "widget_inputs (w # ws) =
     res_bind (DimensionFromSlice (derefOr (wc_Dimensions w) [])) (\<lambda>dim.
     res_bind (widget_inputs ws) (\<lambda>is.
     Inr (\<lparr>wi_ID = wc_ID w, wi_Type = wc_Type w, wi_Dimensions = dim, wi_Pinned = wc_Pinned w\<rparr> # is)))"

record world =
  wd_yaml :: yaml_lib
  wd_platform :: platform
  wd_getenv :: "string \<Rightarrow> string"
  wd_loader :: loader
  wd_schema :: schema_lib

definition validateCoreInstancesStage :: "world \<Rightarrow> Config \<Rightarrow> config_error + Config" where
  "validateCoreInstancesStage wd cfg = res_bind (Validate (wd_platform wd) cfg) (ResolveEnv (wd_getenv wd))"

definition ValidatePipeline :: "world \<Rightarrow> string \<Rightarrow> gotime \<Rightarrow> pipeline_error + Snapshot" where
  "ValidatePipeline wd data now =
     (case wd_loader wd of None \<Rightarrow> Inl NilLoader | Some load \<Rightarrow>
      res_bind (map_sum Stage1 id (parseYAMLStage (wd_yaml wd) data)) (\<lambda>cfg1.
      res_bind (map_sum Stage2 id (validateCoreInstancesStage wd cfg1)) (\<lambda>cfg2.
      res_bind (map_sum Stage3 id (validatePackagesStage load cfg2)) (\<lambda>(cfg, pkgs).
      res_bind (as_result (map_option (\<lambda>(i, f). Stage4 i f) (validateManifestConfigSchemasStage (wd_schema wd) cfg pkgs)) ()) (\<lambda>_.
      res_bind (as_result (map_option Stage5 (validateDomainRulesStage (wd_platform wd) cfg pkgs)) ()) (\<lambda>_.
      res_bind (map_sum Stage6Dimensions id (widget_inputs (dc_Widgets (cf_Display cfg)))) (\<lambda>inputs.
      res_bind (map_sum Stage6Layout id (solveForConfigGrid inputs (dc_Grid (cf_Display cfg)))) (\<lambda>l.
      Inr \<lparr>sn_Config = Some cfg, sn_Layout = Some l, sn_Packages = pkgs, sn_LoadedAt = now, sn_HasOverride = False\<rparr>))))))))"

end
