(* ===== verification/Config_Pipeline_Props.thy ===== *)
theory Config_Pipeline_Props
  imports Config_Pipeline
begin

text \<open>
  What a configuration that passes the pipeline is: the lemmas follow the widgets through the stages, which keep
  their order, identifiers and types.
\<close>

lemma map_sum_Inr: "map_sum f id r = Inr x \<longleftrightarrow> r = Inr x"
  by (cases r) simp_all

lemma as_result_Inr: "as_result e x = Inr y \<longleftrightarrow> e = None \<and> x = y"
  by (auto simp: as_result_def split: option.split)

section \<open>Stage 2\<close>

definition widget_ok :: "platform \<Rightarrow> WidgetConfig \<Rightarrow> bool" where
  "widget_ok pf w \<longleftrightarrow> TrimSpace (wc_ID w) \<noteq> [] \<and> TrimSpace (wc_Type w) \<noteq> [] \<and> wc_Method w \<in> {[], ''GET'', ''POST''}
     \<and> (wc_Endpoint w \<noteq> [] \<longrightarrow> isValidHTTPURL pf (wc_Endpoint w) \<and> wc_Method w \<noteq> [])
     \<and> (case wc_RefreshIntervalSeconds w of None \<Rightarrow> True | Some i \<Rightarrow> 0 < i)"

lemma validate_widget_ok:
  assumes "validate_widget pf grid i seen w = Inr w'"
  shows "widget_ok pf w' \<and> wc_ID w' = wc_ID w \<and> wc_Type w' = wc_Type w \<and> wc_Dimensions w' = wc_Dimensions w
    \<and> seen (wc_ID w) = None"
proof -
  from assms obtain m where none: "TrimSpace (wc_ID w) \<noteq> []" "seen (wc_ID w) = None" "TrimSpace (wc_Type w) \<noteq> []"
      "checkPositiveInt (wc_RefreshIntervalSeconds w) (''widget '' @ [CHR 0x27] @ wc_ID w @ [CHR 0x27] @ '': refresh_interval_seconds'') = None"
    and m: "normal_method w = Inr m" and ep: "wc_Endpoint w \<noteq> [] \<longrightarrow> isValidHTTPURL pf (wc_Endpoint w)"
    and w': "w' = w\<lparr>wc_Method := m\<rparr>"
    by (auto simp: validate_widget_def as_result_Inr split: if_splits)
  have "m \<in> {[], ''GET'', ''POST''} \<and> (wc_Endpoint w \<noteq> [] \<longrightarrow> m \<noteq> [])"
    using m by (auto simp: normal_method_def Let_def split: if_splits)
  moreover have "case wc_RefreshIntervalSeconds w of None \<Rightarrow> True | Some i \<Rightarrow> 0 < i"
    using none(4) by (auto simp: checkPositiveInt_def split: option.splits if_splits)
  ultimately show ?thesis using none ep by (simp add: w' widget_ok_def)
qed

lemma validate_widgets_ok:
  "validate_widgets_from pf grid i seen ws = Inr ws' \<Longrightarrow>
     list_all (widget_ok pf) ws' \<and> map wc_ID ws' = map wc_ID ws \<and> distinct (map wc_ID ws) \<and> dom seen \<inter> wc_ID ` set ws = {}"
proof (induction ws arbitrary: i seen ws')
  case (Cons w ws)
  then obtain w1 ws1 where w1: "validate_widget pf grid i seen w = Inr w1"
    and ws1: "validate_widgets_from pf grid (Suc i) (seen(wc_ID w \<mapsto> i)) ws = Inr ws1" and ws': "ws' = w1 # ws1"
    by auto
  note ih = Cons.IH [OF ws1]
  have "insert (wc_ID w) (dom seen) \<inter> wc_ID ` set ws = {}"
    using ih [THEN conjunct2, THEN conjunct2, THEN conjunct2] by (simp only: dom_fun_upd) simp
  then show ?case using validate_widget_ok [OF w1] ih by (auto simp: ws')
qed simp

definition supported_config_grid :: "GridConfig \<Rightarrow> bool" where
  "supported_config_grid g \<longleftrightarrow> (gc_Columns g, gc_Rows g) \<in> {(6, 2), (3, 6)}"

lemma grid_checked:
  "validateGridAndWidgetDimensions g i dims = None \<Longrightarrow> supported_config_grid g"
  by (auto simp: validateGridAndWidgetDimensions_def supported_config_grid_def split: if_splits)

lemma Validate_Inr:
  assumes "Validate pf c = Inr c'"
  shows "supported_config_grid (dc_Grid (cf_Display c')) \<and> list_all (widget_ok pf) (dc_Widgets (cf_Display c'))
    \<and> distinct (map wc_ID (dc_Widgets (cf_Display c')))"
proof -
  from assms obtain ws where d: "validateDisplayAndHeader pf c = None"
    and ws: "validate_widgets_from pf (dc_Grid (cf_Display c)) 0 Map.empty (dc_Widgets (cf_Display c)) = Inr ws"
    and c': "c' = c\<lparr>cf_Display := (cf_Display c)\<lparr>dc_Widgets := ws\<rparr>\<rparr>"
    by (auto simp: Validate_def validateWidgets_def as_result_Inr split: if_splits)
  have "supported_config_grid (dc_Grid (cf_Display c))"
    by (rule grid_checked [of _ "[]" "[]"]) (use d in \<open>simp add: validateDisplayAndHeader_def Let_def\<close>)
  then show ?thesis using validate_widgets_ok [OF ws] by (simp add: c')
qed

lemma with_secrets_fields [simp]:
  "wc_ID (with_secrets g w) = wc_ID w" "wc_Type (with_secrets g w) = wc_Type w"
  "wc_Endpoint (with_secrets g w) = wc_Endpoint w" "wc_Method (with_secrets g w) = wc_Method w"
  "wc_RefreshIntervalSeconds (with_secrets g w) = wc_RefreshIntervalSeconds w"
  "wc_Config (with_secrets g w) = wc_Config w"
  by (simp_all add: with_secrets_def with_token_def)

lemma core_stage_Inr:
  assumes "validateCoreInstancesStage wd c = Inr c'"
  shows "supported_config_grid (dc_Grid (cf_Display c')) \<and> list_all (widget_ok (wd_platform wd)) (dc_Widgets (cf_Display c'))
    \<and> distinct (map wc_ID (dc_Widgets (cf_Display c')))"
proof -
  from assms obtain c1 where c1: "Validate (wd_platform wd) c = Inr c1" "ResolveEnv (wd_getenv wd) c1 = Inr c'"
    by (auto simp: validateCoreInstancesStage_def)
  have "c' = c1\<lparr>cf_Display := (cf_Display c1)\<lparr>dc_Widgets := map (with_secrets (wd_getenv wd)) (dc_Widgets (cf_Display c1))\<rparr>\<rparr>"
    using c1(2) by (auto simp: ResolveEnv_def resolve_widgets_Inr)
  then show ?thesis
    using Validate_Inr [OF c1(1)] by (simp add: list_all_iff widget_ok_def comp_def)
qed

section \<open>Stage 3\<close>

definition package_ok :: "(string \<rightharpoonup> Package) \<Rightarrow> WidgetConfig \<Rightarrow> bool" where
  "package_ok reg w \<longleftrightarrow> (\<exists>p. reg (wc_Type w) = Some p \<and> manifest_Validate (pk_Manifest p) = None
     \<and> (\<forall>d. derefOr (wc_Dimensions w) [] = Slice d \<longrightarrow> supports (pk_Manifest p) d))"

definition kept_fields :: "WidgetConfig \<Rightarrow> WidgetConfig \<Rightarrow> bool" where
  "kept_fields w w' \<longleftrightarrow> wc_ID w' = wc_ID w \<and> wc_Type w' = wc_Type w \<and> wc_Endpoint w' = wc_Endpoint w
     \<and> wc_Method w' = wc_Method w \<and> wc_Config w' = wc_Config w
     \<and> (wc_RefreshIntervalSeconds w' = wc_RefreshIntervalSeconds w
        \<or> (\<exists>i > 0. wc_RefreshIntervalSeconds w = None \<and> wc_RefreshIntervalSeconds w' = Some i))"

definition valid_registry :: "(string \<rightharpoonup> Package) \<Rightarrow> bool" where
  "valid_registry reg \<longleftrightarrow> (\<forall>p \<in> ran reg. manifest_Validate (pk_Manifest p) = None)"

lemma Slice_inject: "Slice a = Slice b \<longleftrightarrow> a = b"
  by (cases a; cases b) (simp add: Slice_def)

lemma supported_Inr:
  assumes "validateWidgetSupportedDimensions w pkg = Inr u" "derefOr (wc_Dimensions w) [] = Slice d"
  shows "supports (pk_Manifest pkg) d"
proof (cases "wm_SupportedDimensions (pk_Manifest pkg) = []")
  case False
  with assms obtain d' where "dim_from (Slice d) = Inr d'" "d' \<in> set (wm_SupportedDimensions (pk_Manifest pkg))"
    by (auto simp: validateWidgetSupportedDimensions_def split: if_splits)
  then show ?thesis
    by (auto simp: dim_from_def map_sum_Inr DimensionFromSlice_Inr Slice_inject supports_def)
qed (simp add: supports_def)

lemma package_widget_Inr:
  assumes "package_widget pkg grid w = Inr w'"
  shows "kept_fields w w'" "derefOr (wc_Dimensions w') [] = Slice d \<Longrightarrow> supports (pk_Manifest pkg) d"
proof -
  from assms obtain w1 where w1: "resolveWidgetDefaultDimensions w pkg grid = Inr w1"
    and sup: "validateWidgetSupportedDimensions w' pkg = Inr ()" and w': "w' = default_refresh pkg w1"
    by (auto simp: package_widget_def Let_def map_sum_Inr)
  have "w1 = w \<or> (\<exists>d. w1 = w\<lparr>wc_Dimensions := d\<rparr>)"
    using w1 by (auto simp: resolveWidgetDefaultDimensions_def split: if_splits)
  then show "kept_fields w w'" by (auto simp: w' default_refresh_def Let_def kept_fields_def)
  show "derefOr (wc_Dimensions w') [] = Slice d \<Longrightarrow> supports (pk_Manifest pkg) d" by (rule supported_Inr [OF sup])
qed

lemma find_package_Inr:
  assumes "find_package load reg t = Inr pkg" "valid_registry reg"
  shows "manifest_Validate (pk_Manifest pkg) = None \<and> valid_registry (reg(t \<mapsto> pkg)) \<and> reg \<subseteq>\<^sub>m reg(t \<mapsto> pkg)"
proof (cases "reg t")
  case None
  then have "manifest_Validate (pk_Manifest pkg) = None"
    using assms(1) by (auto simp: find_package_def split: option.splits)
  then show ?thesis using None assms(2) by (auto simp: valid_registry_def map_le_def ran_def)
next
  case (Some p)
  then have "pkg = p" using assms(1) by (simp add: find_package_def)
  then show ?thesis using Some assms(2) by (auto simp: valid_registry_def map_le_def ran_def)
qed

lemma package_ok_mono: "package_ok reg w \<Longrightarrow> reg \<subseteq>\<^sub>m reg' \<Longrightarrow> package_ok reg' w"
  unfolding package_ok_def by (metis domI map_le_def)

lemma package_widgets_Inr:
  "package_widgets load grid reg ws = Inr (ws', reg') \<Longrightarrow> valid_registry reg \<Longrightarrow>
     reg \<subseteq>\<^sub>m reg' \<and> list_all2 kept_fields ws ws' \<and> list_all (package_ok reg') ws'"
proof (induction ws arbitrary: reg ws')
  case (Cons w ws)
  then obtain pkg w1 ws1 where pkg: "find_package load reg (wc_Type w) = Inr pkg" and w1: "package_widget pkg grid w = Inr w1"
    and ws1: "package_widgets load grid (reg(wc_Type w \<mapsto> pkg)) ws = Inr (ws1, reg')" and ws': "ws' = w1 # ws1"
    by auto
  note p = find_package_Inr [OF pkg Cons.prems(2)]
  from Cons.IH [OF ws1] p have ih: "reg(wc_Type w \<mapsto> pkg) \<subseteq>\<^sub>m reg'" "list_all2 kept_fields ws ws1" "list_all (package_ok reg') ws1"
    by blast+
  have "package_ok (reg(wc_Type w \<mapsto> pkg)) w1"
    using package_widget_Inr [OF w1] p by (simp add: package_ok_def kept_fields_def)
  then have "package_ok reg' w1" using ih(1) by (rule package_ok_mono)
  moreover have "reg \<subseteq>\<^sub>m reg'" using p ih(1) map_le_trans by blast
  ultimately show ?case using ih package_widget_Inr(1) [OF w1] by (simp add: ws')
qed simp

section \<open>Stage 6\<close>

definition input_of :: "WidgetConfig \<Rightarrow> WidgetInput \<Rightarrow> bool" where
  "input_of w i \<longleftrightarrow> wi_ID i = wc_ID w \<and> wi_Type i = wc_Type w \<and> wi_Pinned i = wc_Pinned w
     \<and> derefOr (wc_Dimensions w) [] = Slice (wi_Dimensions i)"

lemma widget_inputs_Inr: "widget_inputs ws = Inr is \<Longrightarrow> list_all2 input_of ws is"
  by (induction ws arbitrary: "is") (auto simp: input_of_def DimensionFromSlice_Inr)

lemma solveForConfigGrid_Inr:
  assumes "solveForConfigGrid is g = Inr L" "supported_config_grid g"
  obtains budget where "SolveGridWithBudget is (gc_Columns g) (gc_Rows g) budget = Inr L"
    "NormalizeGrid (gc_Columns g) (gc_Rows g) = (gc_Columns g, gc_Rows g)"
  using assms that
  by (auto simp: solveForConfigGrid_def supported_config_grid_def Solve_def SolveWithBudget_def NormalizeGrid_def
      GridColumns_def GridRows_def split: if_splits)
section \<open>The snapshot\<close>

lemma widget_ok_kept: "kept_fields w w' \<Longrightarrow> widget_ok pf w \<Longrightarrow> widget_ok pf w'"
  by (auto simp: kept_fields_def widget_ok_def)

lemma list_all2_widget_ok: "list_all2 kept_fields ws ws' \<Longrightarrow> list_all (widget_ok pf) ws \<Longrightarrow> list_all (widget_ok pf) ws'"
  by (induction ws ws' rule: list_all2_induct) (auto intro: widget_ok_kept)

lemma input_ids: "list_all2 input_of ws is \<Longrightarrow> map (TrimSpace \<circ> wi_ID) is = map (\<lambda>w. TrimSpace (wc_ID w)) ws"
  by (induction ws "is" rule: list_all2_induct) (auto simp: input_of_def)

text \<open>A snapshot whose layout tiles the grid of its configuration and shows the configured widgets.\<close>

definition solved_snapshot :: "Snapshot \<Rightarrow> Config \<Rightarrow> Layout \<Rightarrow> int \<Rightarrow> int \<Rightarrow> WidgetInput list \<Rightarrow> bool" where
  "solved_snapshot snap cfg L gc gr is \<longleftrightarrow> sn_Config snap = Some cfg \<and> sn_Layout snap = Some L
     \<and> dc_Grid (cf_Display cfg) = \<lparr>gc_Columns = gc, gc_Rows = gr\<rparr> \<and> (gc, gr) \<in> {(6, 2), (3, 6)}
     \<and> tiled_layout gc gr L \<and> list_all2 input_of (dc_Widgets (cf_Display cfg)) is \<and> shows_widgets is L
     \<and> list_all (\<lambda>i. IsValidForGrid (wi_Dimensions i) gc gr) is
     \<and> distinct (map (\<lambda>w. TrimSpace (wc_ID w)) (dc_Widgets (cf_Display cfg)))"

definition checked_widgets :: "world \<Rightarrow> (string \<rightharpoonup> Package) \<Rightarrow> WidgetConfig list \<Rightarrow> bool" where
  "checked_widgets wd pkgs ws \<longleftrightarrow> list_all (widget_ok (wd_platform wd)) ws \<and> list_all (package_ok pkgs) ws
     \<and> list_all (\<lambda>w. check_widget_schema (wd_schema wd) pkgs w = None) ws
     \<and> list_all (\<lambda>w. check_domain_rules (wd_platform wd) pkgs w = None) ws"

lemma pipeline_Inr:
  assumes "ValidatePipeline wd data now = Inr snap"
  obtains cfg L gc gr "is" where "solved_snapshot snap cfg L gc gr is"
    "checked_widgets wd (sn_Packages snap) (dc_Widgets (cf_Display cfg))"
    "sn_LoadedAt snap = now" "\<not> sn_HasOverride snap"
proof -
  from assms obtain load cfg1 cfg2 cfg pkgs "is" L where
    core: "validateCoreInstancesStage wd cfg1 = Inr cfg2" and pk: "validatePackagesStage load cfg2 = Inr (cfg, pkgs)"
    and s4: "validateManifestConfigSchemasStage (wd_schema wd) cfg pkgs = None"
    and s5: "validateDomainRulesStage (wd_platform wd) cfg pkgs = None"
    and inp: "widget_inputs (dc_Widgets (cf_Display cfg)) = Inr is"
    and sol: "solveForConfigGrid is (dc_Grid (cf_Display cfg)) = Inr L"
    and snap: "snap = \<lparr>sn_Config = Some cfg, sn_Layout = Some L, sn_Packages = pkgs, sn_LoadedAt = now, sn_HasOverride = False\<rparr>"
    by (auto simp: ValidatePipeline_def map_sum_Inr as_result_Inr split: option.splits)
  note c = core_stage_Inr [OF core]
  from pk obtain ws where ws: "package_widgets load (dc_Grid (cf_Display cfg2)) Map.empty (dc_Widgets (cf_Display cfg2)) = Inr (ws, pkgs)"
    and cfg: "cfg = set_widgets ws cfg2"
    by (auto simp: validatePackagesStage_def)
  have p: "list_all2 kept_fields (dc_Widgets (cf_Display cfg2)) ws" "list_all (package_ok pkgs) ws"
    using package_widgets_Inr [OF ws] by (simp_all add: valid_registry_def)
  have fields: "dc_Widgets (cf_Display cfg) = ws" "dc_Grid (cf_Display cfg) = dc_Grid (cf_Display cfg2)"
    by (simp_all add: cfg set_widgets_def)
  let ?g = "dc_Grid (cf_Display cfg)"
  have g: "supported_config_grid ?g" using c fields by simp
  obtain b where b: "SolveGridWithBudget is (gc_Columns ?g) (gc_Rows ?g) b = Inr L"
    "NormalizeGrid (gc_Columns ?g) (gc_Rows ?g) = (gc_Columns ?g, gc_Rows ?g)"
    using solveForConfigGrid_Inr [OF sol g] .
  note ins = widget_inputs_Inr [OF inp, unfolded fields]
  have "solved_snapshot snap cfg L (gc_Columns ?g) (gc_Rows ?g) is"
    using solve_tiled [OF b] solve_shows [OF b] solve_inputs_valid [OF b] g ins input_ids [OF ins]
    by (simp add: solved_snapshot_def snap fields supported_config_grid_def list_all_iff)
  moreover have "checked_widgets wd (sn_Packages snap) (dc_Widgets (cf_Display cfg))"
    using list_all2_widget_ok [OF p(1)] c p(2) s4 s5
    by (simp add: checked_widgets_def snap fields list_all_iff validateManifestConfigSchemasStage_def
        validateDomainRulesStage_def first_error_map del: first_error_None)
  ultimately show thesis by (rule that) (simp_all add: snap)
qed

text \<open>C35: A configuration is used only if all of it can be shown. When the six stages accept a document, the
  snapshot has a grid of one of the two supported shapes and a layout that tiles every screen of it, shows each pinned widget
  on every screen and each other widget on exactly one, at the dimensions configured or taken from its package. Identifiers
  differ and are not blank, every widget has a package with a valid manifest that supports its dimensions, its settings satisfy
  the package's schema and the rules of its type, its endpoint is an HTTP URL with a method, and a refresh interval is
  positive.\<close>

theorem pipeline_snapshot:
  assumes "ValidatePipeline wd data now = Inr snap"
  shows "\<exists>cfg L gc gr is. solved_snapshot snap cfg L gc gr is
    \<and> checked_widgets wd (sn_Packages snap) (dc_Widgets (cf_Display cfg))"
  using pipeline_Inr [OF assms] by metis

definition sample_manifest :: WidgetManifest where
  "sample_manifest = \<lparr>wm_Name = ''clock'', wm_Version = ''1'', wm_Description = [], wm_Provider = ''clock'', wm_Capabilities = [],
     wm_DefaultDimensions = \<lparr>Cols = 6, Rows = 2\<rparr>, wm_SupportedDimensions = [], wm_Refresh = \<lparr>mr_IntervalSeconds = 60\<rparr>,
     wm_ConfigSchema = None, wm_ResponseSchema = None\<rparr>"

definition sample_package :: Package where
  "sample_package = \<lparr>pk_Type = ''clock'', pk_Source = ''builtin'', pk_Dir = [], pk_ManifestPath = [], pk_ViewPath = [],
     pk_AssetsDir = [], pk_Manifest = sample_manifest\<rparr>"

definition clock_wc :: WidgetConfig where
  "clock_wc = \<lparr>wc_ID = ''c'', wc_Type = ''clock'', wc_Dimensions = None, wc_Pinned = False, wc_RefreshIntervalSeconds = None,
     wc_Endpoint = [], wc_Method = [], wc_TokenEnv = [], wc_Token = [], wc_Secrets = Map.empty, wc_Config = None\<rparr>"

definition plain_config :: Config where
  "plain_config = \<lparr>cf_Host = [], cf_Port = None, cf_Timezone = ''UTC'', cf_LocationConfig = None, cf_Display =
     \<lparr>dc_UI = [], dc_HideCursor = False, dc_RemoteURL = [], dc_AllowLayoutEdit = None, dc_LayoutOverridePath = [],
      dc_Rotation = \<lparr>rc_IntervalSeconds = None, rc_Transition = [], rc_PauseOnTouch = None, rc_PauseDurationSeconds = None\<rparr>,
      dc_Header = \<lparr>hc_Enabled = None, hc_Elements = None, hc_Weather = None, hc_Video = None\<rparr>,
      dc_Grid = \<lparr>gc_Columns = 0, gc_Rows = 0\<rparr>, dc_Widgets = [clock_wc], dc_Theme = None, dc_Voice = None\<rparr>,
      cf_VoiceHub = None, cf_ChatLog = None\<rparr>"

definition sample_world :: world where
  "sample_world = \<lparr>wd_yaml = \<lparr>yl_Unmarshal = (\<lambda>_. Some (Node DocumentNode [] 1 [Node MappingNode [] 1 []])),
       yl_Decode = (\<lambda>_. Some plain_config)\<rparr>,
     wd_platform = \<lparr>pf_LoadLocation = (\<lambda>_. True), pf_ParseRequestURI = (\<lambda>_. None)\<rparr>,
     wd_getenv = (\<lambda>_. []), wd_loader = Some (\<lambda>_. Some sample_package), wd_schema = (\<lambda>_ _. None)\<rparr>"

lemma sample_pipeline_run: "\<not> isl (ValidatePipeline sample_world ''x'' 0)"
  by code_simp

theorem pipeline_snapshot_witness:
  "\<exists>snap cfg L gc gr is. ValidatePipeline sample_world ''x'' 0 = Inr snap \<and> solved_snapshot snap cfg L gc gr is
    \<and> checked_widgets sample_world (sn_Packages snap) (dc_Widgets (cf_Display cfg))"
proof (cases "ValidatePipeline sample_world ''x'' 0")
  case (Inr snap)
  then show ?thesis using pipeline_snapshot [OF Inr] by blast
qed (use sample_pipeline_run in simp)

end
