(* ===== verification/Config_Diff.thy ===== *)
theory Config_Diff
  imports Config_Model
begin

text \<open>
  What \<^verbatim>\<open>DiffConfigs\<close> promises the components that react to a reload: every widget of the new
  configuration is reported exactly once as added, unchanged or modified, and every old widget that is gone
  as removed.
\<close>

lemma foldl_widget_map:
  "foldl (\<lambda>m w. m(wc_ID w \<mapsto> w)) m ws i = (case map_of (rev (map (\<lambda>w. (wc_ID w, w)) ws)) i of
     None \<Rightarrow> m i | Some w \<Rightarrow> Some w)"
proof (induction ws arbitrary: m)
  case (Cons w ws)
  show ?case unfolding foldl_Cons Cons.IH
    by (auto simp: map_add_def split: option.split)
qed simp

lemma widgetMap_None_iff:
  "fst (widgetMap (Some c)) i = None \<longleftrightarrow> i \<notin> wc_ID ` set (dc_Widgets (cf_Display c))"
proof -
  let ?ws = "dc_Widgets (cf_Display c)"
  have "fst (widgetMap (Some c)) i = None \<longleftrightarrow> map_of (rev (map (\<lambda>w. (wc_ID w, w)) ?ws)) i = None"
    by (simp add: widgetMap_def foldl_widget_map split: option.split)
  then show ?thesis by (simp add: map_of_eq_None_iff image_image)
qed

lemma widgetMap_distinct:
  assumes "distinct (map wc_ID (dc_Widgets (cf_Display c)))"
  shows "fst (widgetMap (Some c)) i = Some w \<longleftrightarrow> w \<in> set (dc_Widgets (cf_Display c)) \<and> wc_ID w = i"
proof -
  let ?ws = "dc_Widgets (cf_Display c)"
  have "distinct (map fst (rev (map (\<lambda>w. (wc_ID w, w)) ?ws)))"
    using assms by (simp add: rev_map [symmetric] comp_def)
  then have "map_of (rev (map (\<lambda>w. (wc_ID w, w)) ?ws)) i = Some w \<longleftrightarrow> (i, w) \<in> set (rev (map (\<lambda>w. (wc_ID w, w)) ?ws))"
    by (rule map_of_eq_Some_iff)
  then show ?thesis by (auto simp: widgetMap_def foldl_widget_map split: option.split)
qed

subsection \<open>The loop over the new widgets\<close>

text \<open>What the loop reports for one widget, in the order of its cases.\<close>

definition same_source :: "WidgetConfig \<Rightarrow> WidgetConfig \<Rightarrow> bool" where
  "same_source a b \<longleftrightarrow> wc_Type a = wc_Type b \<and> any_map_deep_eq (wc_Config a) (wc_Config b) \<and> wc_Endpoint a = wc_Endpoint b
     \<and> wc_Method a = wc_Method b \<and> wc_TokenEnv a = wc_TokenEnv b
     \<and> wc_RefreshIntervalSeconds a = wc_RefreshIntervalSeconds b"

lemma equalIntPtr_iff [simp]: "equalIntPtr a b \<longleftrightarrow> a = b"
  by (cases a; cases b) (auto simp: equalIntPtr_def)

definition kept :: "(string \<rightharpoonup> WidgetConfig) \<Rightarrow> WidgetConfig \<Rightarrow> bool" where
  "kept m w \<longleftrightarrow> (case m (wc_ID w) of None \<Rightarrow> False | Some v \<Rightarrow> same_source v w)"

definition changed :: "(string \<rightharpoonup> WidgetConfig) \<Rightarrow> WidgetConfig \<Rightarrow> bool" where
  "changed m w \<longleftrightarrow> (case m (wc_ID w) of None \<Rightarrow> False | Some v \<Rightarrow> \<not> same_source v w)"

definition relaid :: "(string \<rightharpoonup> WidgetConfig) \<Rightarrow> WidgetConfig \<Rightarrow> bool" where
  "relaid m w \<longleftrightarrow> (case m (wc_ID w) of None \<Rightarrow> False
     | Some v \<Rightarrow> wc_Dimensions v \<noteq> wc_Dimensions w \<or> wc_Pinned v \<noteq> wc_Pinned w)"

definition change_of :: "(string \<rightharpoonup> WidgetConfig) \<Rightarrow> WidgetConfig \<Rightarrow> InstanceDiff" where
  "change_of m w = (let v = the (m (wc_ID w)) in
     mk_diff v w (if wc_Type v \<noteq> wc_Type w then ChangeReplaced else ChangeModified)
       (wc_Type v \<noteq> wc_Type w \<or> \<not> any_map_deep_eq (wc_Config v) (wc_Config w)))"

lemma diff_widget_eq:
  "diff_widget m d w = d\<lparr>
     cd_Unchanged := cd_Unchanged d @ filter (kept m) [w],
     cd_Added := cd_Added d @ filter (\<lambda>w. m (wc_ID w) = None) [w],
     cd_LayoutModified := cd_LayoutModified d @ filter (\<lambda>w. kept m w \<and> relaid m w) [w],
     cd_Modified := cd_Modified d @ map (change_of m) (filter (changed m) [w])\<rparr>"
proof (cases "m (wc_ID w)")
  case None
  then show ?thesis by (simp add: diff_widget_def kept_def changed_def)
next
  case (Some v)
  then show ?thesis
    by (simp add: diff_widget_def kept_def changed_def relaid_def change_of_def same_source_def Let_def)
qed

lemma diff_loop_eq:
  "foldl (diff_widget m) d ws = d\<lparr>
     cd_Unchanged := cd_Unchanged d @ filter (kept m) ws,
     cd_Added := cd_Added d @ filter (\<lambda>w. m (wc_ID w) = None) ws,
     cd_LayoutModified := cd_LayoutModified d @ filter (\<lambda>w. kept m w \<and> relaid m w) ws,
     cd_Modified := cd_Modified d @ map (change_of m) (filter (changed m) ws)\<rparr>"
proof (induction ws arbitrary: d)
  case (Cons w ws)
  show ?case unfolding foldl_Cons Cons.IH unfolding diff_widget_eq by simp
qed simp

lemma DiffConfigs_eq:
  fixes a b :: Config
  defines "m \<equiv> fst (widgetMap (Some a))" and "ws \<equiv> dc_Widgets (cf_Display b)"
  shows "DiffConfigs (Some a) (Some b) =
    \<lparr>cd_Unchanged = filter (kept m) ws, cd_Added = filter (\<lambda>w. m (wc_ID w) = None) ws,
     cd_Removed = filter (\<lambda>w. fst (widgetMap (Some b)) (wc_ID w) = None) (dc_Widgets (cf_Display a)),
     cd_LayoutModified = filter (\<lambda>w. kept m w \<and> relaid m w) ws,
     cd_Modified = map (change_of m) (filter (changed m) ws),
     cd_TimezoneChanged = (cf_Timezone a \<noteq> cf_Timezone b),
     cd_ShellChanged = shell_changed (cf_Display a) (cf_Display b)\<rparr>"
  unfolding DiffConfigs_def m_def ws_def
  by (simp add: diff_loop_eq widgetMap_def empty_diff_def)

lemma mset_filter_cases:
  assumes "\<And>x. x \<in> set xs \<Longrightarrow> (P x \<and> \<not> Q x \<and> \<not> R x) \<or> (\<not> P x \<and> Q x \<and> \<not> R x) \<or> (\<not> P x \<and> \<not> Q x \<and> R x)"
  shows "mset xs = mset (filter P xs) + mset (filter Q xs) + mset (filter R xs)"
  using assms by (induction xs) auto

subsection \<open>Properties\<close>

text \<open>C13: A configuration diff accounts for every widget: each widget of the new configuration is reported
  exactly once as added, unchanged or modified (with itself as the new instance), a widget is unchanged
  exactly when the old one with its identifier has the same type, domain settings, endpoint, method,
  token variable and refresh interval, layout changes are reported among the unchanged ones, and the
  removed widgets are those old ones whose identifier is gone.\<close>

theorem diff_accounts_for_widgets:
  assumes "distinct (map wc_ID (dc_Widgets (cf_Display a)))"
    "d = DiffConfigs (Some a) (Some b)" "old = dc_Widgets (cf_Display a)" "new = dc_Widgets (cf_Display b)"
  shows "mset new = mset (cd_Added d) + mset (cd_Unchanged d) + mset (map id_NewInstance (cd_Modified d))
    \<and> set (cd_Unchanged d) = {w \<in> set new. \<exists>v \<in> set old. wc_ID v = wc_ID w \<and> same_source v w}
    \<and> set (cd_Added d) = {w \<in> set new. wc_ID w \<notin> wc_ID ` set old}
    \<and> set (cd_LayoutModified d) = {w \<in> set (cd_Unchanged d).
         \<exists>v \<in> set old. wc_ID v = wc_ID w \<and> (wc_Dimensions v \<noteq> wc_Dimensions w \<or> wc_Pinned v \<noteq> wc_Pinned w)}
    \<and> set (cd_Removed d) = {v \<in> set old. wc_ID v \<notin> wc_ID ` set new}"
proof -
  let ?m = "fst (widgetMap (Some a))"
  note m = widgetMap_distinct [OF assms(1), folded assms(3)]
  note none = widgetMap_None_iff [of a, folded assms(3)]
  have kept: "kept ?m w \<longleftrightarrow> (\<exists>v \<in> set old. wc_ID v = wc_ID w \<and> same_source v w)" for w
    using m by (auto simp: kept_def split: option.split) (metis option.inject option.discI)+
  have relaid: "relaid ?m w \<longleftrightarrow> (\<exists>v \<in> set old. wc_ID v = wc_ID w
      \<and> (wc_Dimensions v \<noteq> wc_Dimensions w \<or> wc_Pinned v \<noteq> wc_Pinned w))" for w
    using m by (auto simp: relaid_def split: option.split) (metis option.inject option.discI)+
  have new_inst: "id_NewInstance (change_of ?m w) = w" for w
    by (simp add: change_of_def mk_diff_def Let_def)
  have "mset new = mset (filter (\<lambda>w. ?m (wc_ID w) = None) new) + mset (filter (kept ?m) new)
      + mset (filter (changed ?m) new)"
    by (rule mset_filter_cases) (auto simp: kept_def changed_def split: option.split)
  then show ?thesis
    by (auto simp: assms(2) DiffConfigs_eq kept relaid none widgetMap_None_iff comp_def new_inst
        multiset.map_comp simp flip: assms(3,4))
qed

definition sample_wc :: "string \<Rightarrow> string \<Rightarrow> WidgetConfig" where
  "sample_wc i ep = \<lparr>wc_ID = i, wc_Type = ''http'', wc_Dimensions = Some [2, 1], wc_Pinned = False,
     wc_RefreshIntervalSeconds = None, wc_Endpoint = ep, wc_Method = [], wc_TokenEnv = [], wc_Token = [], wc_Secrets = Map.empty, wc_Config = None\<rparr>"

definition sample_config :: "WidgetConfig list \<Rightarrow> Config" where
  "sample_config ws = \<lparr>cf_Host = [], cf_Port = None, cf_Timezone = ''UTC'', cf_LocationConfig = None, cf_Display =
     \<lparr>dc_UI = [], dc_HideCursor = False, dc_RemoteURL = [], dc_AllowLayoutEdit = None, dc_LayoutOverridePath = [],
      dc_Rotation = \<lparr>rc_IntervalSeconds = None, rc_Transition = [], rc_PauseOnTouch = None, rc_PauseDurationSeconds = None\<rparr>,
      dc_Header = \<lparr>hc_Enabled = None, hc_Elements = None, hc_Weather = None, hc_Video = None\<rparr>,
      dc_Grid = \<lparr>gc_Columns = 6, gc_Rows = 2\<rparr>, dc_Widgets = ws, dc_Theme = None, dc_Voice = None\<rparr>,
      cf_VoiceHub = None, cf_ChatLog = None\<rparr>"

definition sample_old :: Config where
  "sample_old = sample_config [sample_wc ''x'' ''u'', sample_wc ''y'' ''u'']"

definition sample_new :: Config where
  "sample_new = sample_config [sample_wc ''y'' ''v'', sample_wc ''z'' ''u'']"

definition sample_diff :: ConfigDiff where
  "sample_diff = DiffConfigs (Some sample_old) (Some sample_new)"

theorem diff_accounts_for_widgets_witness:
  "mset (dc_Widgets (cf_Display sample_new))
      = mset (cd_Added sample_diff) + mset (cd_Unchanged sample_diff) + mset (map id_NewInstance (cd_Modified sample_diff))
    \<and> set (cd_Unchanged sample_diff) = {w \<in> set (dc_Widgets (cf_Display sample_new)).
         \<exists>v \<in> set (dc_Widgets (cf_Display sample_old)). wc_ID v = wc_ID w \<and> same_source v w}
    \<and> set (cd_Added sample_diff) = {w \<in> set (dc_Widgets (cf_Display sample_new)).
         wc_ID w \<notin> wc_ID ` set (dc_Widgets (cf_Display sample_old))}
    \<and> set (cd_LayoutModified sample_diff) = {w \<in> set (cd_Unchanged sample_diff).
         \<exists>v \<in> set (dc_Widgets (cf_Display sample_old)). wc_ID v = wc_ID w
           \<and> (wc_Dimensions v \<noteq> wc_Dimensions w \<or> wc_Pinned v \<noteq> wc_Pinned w)}
    \<and> set (cd_Removed sample_diff) = {v \<in> set (dc_Widgets (cf_Display sample_old)).
         wc_ID v \<notin> wc_ID ` set (dc_Widgets (cf_Display sample_new))}"
  by (rule diff_accounts_for_widgets [OF _ sample_diff_def refl refl])
    (simp add: sample_old_def sample_config_def sample_wc_def)

end
