(* ===== verification/Config_Override_Props.thy ===== *)
theory Config_Override_Props
  imports Config_Override Config_Diff
begin

text \<open>
  What applying a layout override gives: the widgets with an override are where it says, the others are put where they
  conflict with nothing, and the result is a layout exactly when the overrides do not conflict with each other.
\<close>

section \<open>The masks track the placements\<close>

text \<open>A set of cells is free of the pinned mask if it is free of all pinned placements, and free of the mask of a
  screen if it is free of everything shown there.\<close>

definition tracked :: "int \<Rightarrow> build_state \<Rightarrow> bool" where
  "tracked gc st \<longleftrightarrow>
     (\<forall>x. bs_pinned st AND x = 0 \<longleftrightarrow> (\<forall>p \<in> set (bs_placements st). ep_Pinned p \<longrightarrow> explicit_mask gc p AND x = 0))
     \<and> (\<forall>i < length (bs_masks st). \<forall>x. bs_masks st ! i AND x = 0 \<longleftrightarrow>
         (\<forall>p \<in> set (bs_placements st). ep_Pinned p \<or> ep_Screen p = int i \<longrightarrow> explicit_mask gc p AND x = 0))
     \<and> (\<forall>p \<in> set (bs_placements st). 0 \<le> ep_Screen p \<and> ep_Screen p < int (length (bs_masks st)))
     \<and> bs_masks st \<noteq> [] \<and> length (bs_masks st) \<le> 16"

lemma tracked_empty: "tracked gc \<lparr>bs_placements = [], bs_widgets = [], bs_masks = [0], bs_pinned = 0\<rparr>"
  by (simp add: tracked_def)

lemma grown_mask:
  assumes "tracked gc st" "i < length (bs_masks st @ replicate n (bs_pinned st))"
  shows "(bs_masks st @ replicate n (bs_pinned st)) ! i AND x = 0 \<longleftrightarrow>
     (\<forall>p \<in> set (bs_placements st). ep_Pinned p \<or> ep_Screen p = int i \<longrightarrow> explicit_mask gc p AND x = 0)"
proof (cases "i < length (bs_masks st)")
  case True
  then show ?thesis using assms by (simp add: tracked_def nth_append)
next
  case False
  with assms have "(bs_masks st @ replicate n (bs_pinned st)) ! i = bs_pinned st" by (simp add: nth_append)
  moreover have "ep_Screen p \<noteq> int i" if "p \<in> set (bs_placements st)" for p
    using assms(1) False that by (auto simp: tracked_def)
  ultimately show ?thesis using assms(1) by (auto simp: tracked_def)
qed

lemma add_placement_tracked:
  assumes tr: "tracked gc st" and s: "0 \<le> ep_Screen p" "ep_Screen p < 16"
  shows "tracked gc (add_placement gc p w st)"
proof -
  let ?n = "Suc (nat (ep_Screen p)) - length (bs_masks st)"
  let ?ms = "bs_masks st @ replicate ?n (bs_pinned st)"
  have len: "nat (ep_Screen p) < length ?ms" "length ?ms \<le> 16" "length (bs_masks st) \<le> length ?ms"
    using tr s by (auto simp: tracked_def)
  have inr: "0 \<le> ep_Screen q \<and> ep_Screen q < int (length ?ms)" if "q \<in> set (bs_placements st @ [p])" for q
    using tr s len that by (fastforce simp: tracked_def)
  note old = grown_mask [OF tr, of _ ?n]
  have pm: "bs_pinned st AND x = 0 \<longleftrightarrow>
      (\<forall>q \<in> set (bs_placements st). ep_Pinned q \<longrightarrow> explicit_mask gc q AND x = 0)" for x
    using tr by (simp add: tracked_def)
  show ?thesis
  proof (cases "ep_Pinned p")
    case True
    have eq: "add_placement gc p w st = \<lparr>bs_placements = bs_placements st @ [p], bs_widgets = bs_widgets st @ [w],
        bs_masks = map (\<lambda>x. x OR explicit_mask gc p) ?ms, bs_pinned = bs_pinned st OR explicit_mask gc p\<rparr>"
      using True by (simp add: add_placement_def trackScreenMask_def Let_def explicit_mask_def)
    have "map (\<lambda>x. x OR explicit_mask gc p) ?ms ! i AND x = 0 \<longleftrightarrow>
        (\<forall>q \<in> set (bs_placements st @ [p]). ep_Pinned q \<or> ep_Screen q = int i \<longrightarrow> explicit_mask gc q AND x = 0)"
      if "i < length ?ms" for i x
      using old [OF that, of x] that True by (simp add: or_and_eq_0 del: map_append) blast
    moreover have "?ms \<noteq> []" using len(1) by auto
    ultimately show ?thesis
      unfolding tracked_def eq using inr pm len True by (auto simp: or_and_eq_0 simp del: map_append)
  next
    case False
    let ?m = "explicit_mask gc p OR bs_pinned st" and ?s = "nat (ep_Screen p)"
    have eq: "add_placement gc p w st = \<lparr>bs_placements = bs_placements st @ [p], bs_widgets = bs_widgets st @ [w],
        bs_masks = ?ms[?s := ?ms ! ?s OR ?m], bs_pinned = bs_pinned st\<rparr>"
      using False by (simp add: add_placement_def trackScreenMask_def Let_def explicit_mask_def)
    have "?ms[?s := ?ms ! ?s OR ?m] ! i AND x = 0 \<longleftrightarrow>
        (\<forall>q \<in> set (bs_placements st @ [p]). ep_Pinned q \<or> ep_Screen q = int i \<longrightarrow> explicit_mask gc q AND x = 0)"
      if i: "i < length ?ms" for i x
    proof (cases "?s = i")
      case True
      then have "?ms[?s := ?ms ! ?s OR ?m] ! i = ?ms ! i OR ?m" using i by simp
      moreover have "ep_Screen p = int i" using True s by simp
      ultimately show ?thesis using old [OF i, of x] pm [of x] by (auto simp: or_and_eq_0)
    next
      case other: False
      then have "ep_Screen p \<noteq> int i" by auto
      then show ?thesis using other old [OF i, of x] False by auto
    qed
    moreover have "?ms \<noteq> []" using len(1) by auto
    ultimately show ?thesis
      unfolding tracked_def eq using inr pm len False by (auto simp del: append_is_Nil_conv)
  qed
qed
section \<open>The first open slot\<close>

lemma set_slot_origins:
  "set (slot_origins dim gc gr) = {(c, r). 0 \<le> c \<and> c + Cols dim \<le> gc \<and> 0 \<le> r \<and> r + Rows dim \<le> gr}"
  by (fastforce simp: slot_origins_def)

lemma valid_on_grid:
  assumes "IsValid dim" "(c, r) \<in> set (slot_origins dim gc gr)"
  shows "on_grid gc gr dim c r"
  using assms by (auto simp: IsValid_def IsValidForGrid_def on_grid_def set_slot_origins)

abbreviation slot_mask :: "int \<Rightarrow> Dimension \<Rightarrow> int \<times> int \<Rightarrow> u32" where
  "slot_mask gc dim origin \<equiv> ComputeWidgetBitmaskForGrid (Cols dim) (Rows dim) (fst origin) (snd origin) gc"

lemma findSlot_Some:
  "findSlotOnScreen m dim gc gr = Some origin \<Longrightarrow>
     origin \<in> set (slot_origins dim gc gr) \<and> m AND slot_mask gc dim origin = 0"
  by (cases origin) (auto simp: findSlotOnScreen_def find_Some_iff dest: nth_mem)

lemma findSlot_None:
  "findSlotOnScreen m dim gc gr = None \<longleftrightarrow>
     (\<forall>origin \<in> set (slot_origins dim gc gr). m AND slot_mask gc dim origin \<noteq> 0)"
  by (auto simp: findSlotOnScreen_def find_None_iff)

lemma foldl_or_and_eq_0: "foldl (OR) (m :: u32) ms AND x = 0 \<longleftrightarrow> m AND x = 0 \<and> (\<forall>k \<in> set ms. k AND x = 0)"
  by (induction ms arbitrary: m) (auto simp: or_and_eq_0)

lemma first_screen_Some:
  "first_screen ms s0 pm dim gc gr = Some (s, origin) \<Longrightarrow>
     s0 \<le> s \<and> s - s0 < length ms \<and> findSlotOnScreen (ms ! (s - s0) OR pm) dim gc gr = Some origin"
proof (induction ms arbitrary: s0)
  case (Cons m ms)
  show ?case
  proof (cases "findSlotOnScreen (m OR pm) dim gc gr")
    case None
    then have *: "Suc s0 \<le> s \<and> s - Suc s0 < length ms
        \<and> findSlotOnScreen (ms ! (s - Suc s0) OR pm) dim gc gr = Some origin"
      using Cons.IH [of "Suc s0"] Cons.prems by simp
    then have "s - s0 = Suc (s - Suc s0)" by arith
    with * show ?thesis by simp
  qed (use Cons.prems in auto)
qed simp

lemma first_screen_None:
  "first_screen ms s0 pm dim gc gr = None \<longleftrightarrow> (\<forall>m \<in> set ms. findSlotOnScreen (m OR pm) dim gc gr = None)"
  by (induction ms arbitrary: s0) (auto split: option.split)

text \<open>A slot is open if a widget put there conflicts with nothing placed before.\<close>

definition slot_open :: "int \<Rightarrow> build_state \<Rightarrow> bool \<Rightarrow> Dimension \<Rightarrow> nat \<Rightarrow> int \<times> int \<Rightarrow> bool" where
  "slot_open gc st pinned dim s origin \<longleftrightarrow>
     (\<forall>q \<in> set (bs_placements st). ep_Pinned q \<or> pinned \<or> ep_Screen q = int s
        \<longrightarrow> explicit_mask gc q AND slot_mask gc dim origin = 0)"

lemma slot_open_masks:
  assumes "tracked gc st" "s < 16"
  shows "slot_open gc st pinned dim s origin \<longleftrightarrow>
     (if pinned then foldl (OR) (bs_pinned st) (bs_masks st) AND slot_mask gc dim origin = 0
      else if s < length (bs_masks st) then (bs_masks st ! s OR bs_pinned st) AND slot_mask gc dim origin = 0
      else bs_pinned st AND slot_mask gc dim origin = 0)"
proof -
  let ?x = "slot_mask gc dim origin"
  have pm: "bs_pinned st AND ?x = 0 \<longleftrightarrow>
      (\<forall>q \<in> set (bs_placements st). ep_Pinned q \<longrightarrow> explicit_mask gc q AND ?x = 0)"
    using assms(1) by (simp add: tracked_def)
  have ms: "bs_masks st ! i AND ?x = 0 \<longleftrightarrow> (\<forall>q \<in> set (bs_placements st). ep_Pinned q \<or> ep_Screen q = int i
      \<longrightarrow> explicit_mask gc q AND ?x = 0)" if "i < length (bs_masks st)" for i
    using assms(1) that by (simp add: tracked_def)
  have sc: "\<exists>i < length (bs_masks st). ep_Screen q = int i" if "q \<in> set (bs_placements st)" for q
    using assms(1) that by (intro exI [of _ "nat (ep_Screen q)"]) (auto simp: tracked_def)
  have "(\<forall>k \<in> set (bs_masks st). k AND ?x = 0) \<longleftrightarrow> (\<forall>q \<in> set (bs_placements st). explicit_mask gc q AND ?x = 0)"
  proof
    assume *: "\<forall>k \<in> set (bs_masks st). k AND ?x = 0"
    show "\<forall>q \<in> set (bs_placements st). explicit_mask gc q AND ?x = 0"
    proof
      fix q assume q: "q \<in> set (bs_placements st)"
      then obtain i where i: "i < length (bs_masks st)" "ep_Screen q = int i" using sc by blast
      then have "bs_masks st ! i AND ?x = 0" using * by simp
      with q i show "explicit_mask gc q AND ?x = 0" using ms [OF i(1)] by blast
    qed
  next
    assume "\<forall>q \<in> set (bs_placements st). explicit_mask gc q AND ?x = 0"
    then show "\<forall>k \<in> set (bs_masks st). k AND ?x = 0" by (simp add: all_set_conv_all_nth ms)
  qed
  then have all: "foldl (OR) (bs_pinned st) (bs_masks st) AND ?x = 0 \<longleftrightarrow>
      (\<forall>q \<in> set (bs_placements st). explicit_mask gc q AND ?x = 0)"
    using pm by (auto simp: foldl_or_and_eq_0)
  consider "pinned" | "\<not> pinned" "s < length (bs_masks st)" | "\<not> pinned" "\<not> s < length (bs_masks st)" by blast
  then show ?thesis
  proof cases
    case 1
    then show ?thesis using all by (simp add: slot_open_def)
  next
    case 2
    then show ?thesis using pm ms [of s] by (simp add: slot_open_def or_and_eq_0) blast
  next
    case 3
    then have "ep_Screen q \<noteq> int s" if "q \<in> set (bs_placements st)" for q using sc [OF that] by auto
    then show ?thesis using 3 pm by (auto simp: slot_open_def)
  qed
qed

lemma findFirstOpenSlot_sound:
  assumes tr: "tracked gc st"
    and found: "findFirstOpenSlot (bs_masks st) (bs_pinned st) pinned dim gc gr = Some (s, origin)"
  shows "s < 16 \<and> origin \<in> set (slot_origins dim gc gr) \<and> slot_open gc st pinned dim s origin"
proof -
  have le: "length (bs_masks st) \<le> 16" using tr by (simp add: tracked_def)
  show ?thesis
  proof (cases pinned)
    case True
    then have "s = 0" "findSlotOnScreen (foldl (OR) (bs_pinned st) (bs_masks st)) dim gc gr = Some origin"
      using found by (auto simp: findFirstOpenSlot_def)
    then show ?thesis using slot_open_masks [OF tr, of 0] True findSlot_Some by simp
  next
    case False
    show ?thesis
    proof (cases "first_screen (bs_masks st) 0 (bs_pinned st) dim gc gr")
      case None
      then have s: "s = length (bs_masks st)" "s < 16" "findSlotOnScreen (bs_pinned st) dim gc gr = Some origin"
        using found False by (auto simp: findFirstOpenSlot_def split: if_splits)
      with findSlot_Some [OF s(3)] show ?thesis using slot_open_masks [OF tr s(2)] False by simp
    next
      case (Some r)
      then have "first_screen (bs_masks st) 0 (bs_pinned st) dim gc gr = Some (s, origin)"
        using found False by (simp add: findFirstOpenSlot_def)
      from first_screen_Some [OF this]
      have s: "s < length (bs_masks st)" "findSlotOnScreen (bs_masks st ! s OR bs_pinned st) dim gc gr = Some origin"
        by simp_all
      then have "s < 16" using le by simp
      with findSlot_Some [OF s(2)] s(1) show ?thesis using slot_open_masks [OF tr \<open>s < 16\<close>] False by simp
    qed
  qed
qed

lemma findFirstOpenSlot_complete:
  assumes tr: "tracked gc st"
    and none: "findFirstOpenSlot (bs_masks st) (bs_pinned st) pinned dim gc gr = None"
    and s: "s < 16" and origin: "origin \<in> set (slot_origins dim gc gr)"
  shows "\<not> slot_open gc st pinned dim s origin"
proof (cases pinned)
  case True
  then have "findSlotOnScreen (foldl (OR) (bs_pinned st) (bs_masks st)) dim gc gr = None"
    using none by (simp add: findFirstOpenSlot_def)
  then show ?thesis using slot_open_masks [OF tr s] True origin by (simp add: findSlot_None)
next
  case False
  then have fs: "first_screen (bs_masks st) 0 (bs_pinned st) dim gc gr = None"
    and rest: "length (bs_masks st) < 16 \<Longrightarrow> findSlotOnScreen (bs_pinned st) dim gc gr = None"
    using none by (auto simp: findFirstOpenSlot_def split: option.splits if_splits)
  show ?thesis
  proof (cases "s < length (bs_masks st)")
    case True
    then have "bs_masks st ! s \<in> set (bs_masks st)" by (rule nth_mem)
    with fs have "(bs_masks st ! s OR bs_pinned st) AND slot_mask gc dim origin \<noteq> 0"
      using origin by (simp add: first_screen_None findSlot_None)
    then show ?thesis using slot_open_masks [OF tr s] True False by simp
  next
    case beyond: False
    then have "length (bs_masks st) < 16" using s by simp
    from rest [OF this] have "bs_pinned st AND slot_mask gc dim origin \<noteq> 0" using origin by (simp add: findSlot_None)
    then show ?thesis using slot_open_masks [OF tr s] beyond False by simp
  qed
qed
section \<open>The two loops\<close>

text \<open>The placement an override asks for, and the one of a widget that is put into an open slot.\<close>

definition obeys :: "(string \<rightharpoonup> WidgetOverride) \<Rightarrow> WidgetConfig \<Rightarrow> ExplicitPlacement \<Rightarrow> bool" where
  "obeys ovMap w p \<longleftrightarrow> (case ovMap (wc_ID w) of
      None \<Rightarrow> False
    | Some ov \<Rightarrow> ep_ID p = wc_ID w \<and> ep_Type p = wc_Type w \<and> ep_Screen p = wo_Screen ov \<and> ep_Origin p = wo_Origin ov
        \<and> ep_Pinned p = wo_Pinned ov
        \<and> Slice (ep_Dimensions p) = (if wo_Dimensions ov = [] then derefOr (wc_Dimensions w) [] else wo_Dimensions ov))"

definition same_widget :: "WidgetConfig \<Rightarrow> ExplicitPlacement \<Rightarrow> bool" where
  "same_widget w p \<longleftrightarrow> ep_ID p = wc_ID w \<and> ep_Type p = wc_Type w \<and> ep_Pinned p = wc_Pinned w
     \<and> Slice (ep_Dimensions p) = derefOr (wc_Dimensions w) []"

definition placed_ok :: "int \<Rightarrow> int \<Rightarrow> ExplicitPlacement \<Rightarrow> bool" where
  "placed_ok gc gr p \<longleftrightarrow> on_grid gc gr (ep_Dimensions p) (fst (ep_Origin p)) (snd (ep_Origin p))
     \<and> 0 \<le> ep_Screen p \<and> ep_Screen p < 16"

lemma dim_from_Inr: "dim_from s = Inr d \<longleftrightarrow> s = Slice d \<and> IsValid d"
  by (cases "DimensionFromSlice s") (auto simp: dim_from_def DimensionFromSlice_Inr [symmetric])

lemma bounds_Inr:
  "validatePlacementBounds i s origin dim gc gr = Inr u \<longleftrightarrow>
     on_grid gc gr dim (fst origin) (snd origin) \<and> 0 \<le> s \<and> s < 16"
  by (auto simp: validatePlacementBounds_def on_grid_def)

lemma add_placements [simp]: "bs_placements (add_placement gc p w st) = bs_placements st @ [p]"
  by (simp add: add_placement_def split: prod.split)

lemma place_override_Inr:
  assumes "place_override ovMap pkgs loader gc gr w st = Inr st'"
  shows "(ovMap (wc_ID w) = None \<and> st' = st)
    \<or> (\<exists>p w'. ovMap (wc_ID w) \<noteq> None \<and> st' = add_placement gc p w' st \<and> obeys ovMap w p \<and> placed_ok gc gr p)"
proof (cases "ovMap (wc_ID w)")
  case None
  then show ?thesis using assms by (simp add: place_override_def)
next
  case (Some ov)
  let ?s = "if wo_Dimensions ov = [] then derefOr (wc_Dimensions w) [] else wo_Dimensions ov"
  obtain dim where dim: "?s = Slice dim" "on_grid gc gr dim (fst (wo_Origin ov)) (snd (wo_Origin ov))"
      "0 \<le> wo_Screen ov" "wo_Screen ov < 16"
    and st': "st' = add_placement gc \<lparr>ep_ID = wc_ID w, ep_Type = wc_Type w, ep_Screen = wo_Screen ov,
      ep_Origin = wo_Origin ov, ep_Dimensions = dim, ep_Pinned = wo_Pinned ov\<rparr>
      (w\<lparr>wc_Dimensions := Some ?s, wc_Pinned := wo_Pinned ov\<rparr>) st" (is "_ = add_placement gc ?p _ st")
    using assms Some by (auto simp: place_override_def Let_def dim_from_Inr bounds_Inr simp del: if_split)
  have "obeys ovMap w ?p" using Some dim(1) by (simp add: obeys_def)
  moreover have "placed_ok gc gr ?p" using dim by (simp add: placed_ok_def)
  ultimately show ?thesis using Some st' by blast
qed

lemma place_open_Inr:
  assumes tr: "tracked gc st" and res: "place_open ovMap gc gr w st = Inr st'"
  shows "((ovMap (wc_ID w) \<noteq> None \<or> wc_Type w = ''spacer'') \<and> st' = st)
    \<or> (\<exists>p w'. ovMap (wc_ID w) = None \<and> wc_Type w \<noteq> ''spacer'' \<and> st' = add_placement gc p w' st \<and> same_widget w p
        \<and> placed_ok gc gr p \<and> (\<forall>q \<in> set (bs_placements st). compatible gc q p))"
proof (cases "ovMap (wc_ID w) \<noteq> None \<or> wc_Type w = ''spacer''")
  case True
  then show ?thesis using res by (simp add: place_open_def)
next
  case False
  then obtain dim s origin where d: "derefOr (wc_Dimensions w) [] = Slice dim" "IsValid dim"
    and found: "findFirstOpenSlot (bs_masks st) (bs_pinned st) (wc_Pinned w) dim gc gr = Some (s, origin)"
    and st': "st' = add_placement gc \<lparr>ep_ID = wc_ID w, ep_Type = wc_Type w, ep_Screen = int s, ep_Origin = origin,
      ep_Dimensions = dim, ep_Pinned = wc_Pinned w\<rparr> w st" (is "_ = add_placement gc ?p w st")
    using res by (auto simp: place_open_def dim_from_Inr split: option.splits)
  from findFirstOpenSlot_sound [OF tr found]
  have slot: "s < 16" "origin \<in> set (slot_origins dim gc gr)" "slot_open gc st (wc_Pinned w) dim s origin" by simp_all
  have "same_widget w ?p" using d by (simp add: same_widget_def)
  moreover have "placed_ok gc gr ?p"
    using valid_on_grid [OF d(2), of "fst origin" "snd origin"] slot by (simp add: placed_ok_def)
  moreover have "\<forall>q \<in> set (bs_placements st). compatible gc q ?p"
    using slot(3) by (simp add: slot_open_def compatible_def meet_def explicit_mask_def)
  ultimately show ?thesis using False st' by (intro disjI2 exI [of _ ?p] exI [of _ w]) simp
qed

lemma overrides_placed:
  assumes "each (place_override ovMap pkgs loader gc gr) ws st = Inr st'" "tracked gc st"
  shows "tracked gc st' \<and> (\<exists>own. bs_placements st' = bs_placements st @ own
    \<and> list_all2 (obeys ovMap) (filter (\<lambda>w. ovMap (wc_ID w) \<noteq> None) ws) own \<and> list_all (placed_ok gc gr) own)"
  using assms
proof (induction ws arbitrary: st)
  case (Cons w ws)
  then obtain st1 where st1: "place_override ovMap pkgs loader gc gr w st = Inr st1"
    "each (place_override ovMap pkgs loader gc gr) ws st1 = Inr st'" by auto
  from place_override_Inr [OF st1(1)] show ?case
  proof (elim disjE exE conjE)
    assume "ovMap (wc_ID w) = None" "st1 = st"
    then show ?thesis using Cons.IH [OF st1(2)] Cons.prems by simp
  next
    fix p w' assume p: "ovMap (wc_ID w) \<noteq> None" "st1 = add_placement gc p w' st" "obeys ovMap w p" "placed_ok gc gr p"
    have "tracked gc st1" using add_placement_tracked [OF Cons.prems(2)] p by (simp add: placed_ok_def)
    from Cons.IH [OF st1(2) this] obtain own where own: "tracked gc st'" "bs_placements st' = bs_placements st1 @ own"
      "list_all2 (obeys ovMap) (filter (\<lambda>w. ovMap (wc_ID w) \<noteq> None) ws) own" "list_all (placed_ok gc gr) own" by blast
    then show ?thesis using p by (intro conjI exI [of _ "p # own"]) simp_all
  qed
qed simp

lemma others_placed:
  assumes "each (place_open ovMap gc gr) ws st = Inr st'" "tracked gc st"
  shows "\<exists>rest. bs_placements st' = bs_placements st @ rest
    \<and> list_all2 same_widget (filter (\<lambda>w. ovMap (wc_ID w) = None \<and> wc_Type w \<noteq> ''spacer'') ws) rest
    \<and> list_all (placed_ok gc gr) rest
    \<and> (sorted_wrt (compatible gc) (bs_placements st') \<longleftrightarrow> sorted_wrt (compatible gc) (bs_placements st))"
  using assms
proof (induction ws arbitrary: st)
  case (Cons w ws)
  then obtain st1 where st1: "place_open ovMap gc gr w st = Inr st1" "each (place_open ovMap gc gr) ws st1 = Inr st'"
    by auto
  from place_open_Inr [OF Cons.prems(2) st1(1)] show ?case
  proof (elim disjE exE conjE)
    fix p w' assume p: "ovMap (wc_ID w) = None" "wc_Type w \<noteq> ''spacer''" "st1 = add_placement gc p w' st"
      "same_widget w p" "placed_ok gc gr p" "\<forall>q \<in> set (bs_placements st). compatible gc q p"
    have "tracked gc st1" using add_placement_tracked [OF Cons.prems(2)] p by (simp add: placed_ok_def)
    from Cons.IH [OF st1(2) this] obtain rest where rest: "bs_placements st' = bs_placements st1 @ rest"
      "list_all2 same_widget (filter (\<lambda>w. ovMap (wc_ID w) = None \<and> wc_Type w \<noteq> ''spacer'') ws) rest"
      "list_all (placed_ok gc gr) rest"
      "sorted_wrt (compatible gc) (bs_placements st') \<longleftrightarrow> sorted_wrt (compatible gc) (bs_placements st1)" by blast
    have "sorted_wrt (compatible gc) (bs_placements st1) \<longleftrightarrow> sorted_wrt (compatible gc) (bs_placements st)"
      using p(3,6) by (simp add: sorted_wrt_append)
    with rest p show ?thesis by (intro exI [of _ "p # rest"]) simp
  qed (use Cons.IH [OF st1(2)] Cons.prems in auto)
qed simp
section \<open>Applying an override\<close>

abbreviation config_grid :: "Config \<Rightarrow> int \<times> int" where
  "config_grid cfg \<equiv> NormalizeGrid (gc_Columns (dc_Grid (cf_Display cfg))) (gc_Rows (dc_Grid (cf_Display cfg)))"

lemma apply_iff:
  assumes "sn_Config base = Some cfg" "config_grid cfg = (gc, gr)"
    and "buildPlacementsFromOverrides (dc_Widgets (cf_Display cfg)) (override_map (lf_Widgets ov)) (sn_Packages base) loader gc gr
      = Inr (ps, us)"
  shows "(\<exists>snap. applyOverrideToSnapshot base ov loader now = Inr snap) \<longleftrightarrow> (\<exists>r. SolveExplicit ps gc gr = Inr r)"
  using assms by (cases "SolveExplicit ps gc gr") (auto simp: applyOverrideToSnapshot_def Let_def)

lemma NormalizeGrid_idem: "NormalizeGrid a b = (gc, gr) \<Longrightarrow> NormalizeGrid gc gr = (gc, gr)"
  by (auto simp: NormalizeGrid_def GridColumns_def GridRows_def split: if_splits)

lemma sorted_wrt_footprints:
  assumes "supported_grid gc gr" "list_all (placed_ok gc gr) ps"
  shows "sorted_wrt (compatible gc) ps \<longleftrightarrow> sorted_wrt (\<lambda>p q. meet p q \<longrightarrow>
     footprint gc (Cols (ep_Dimensions p)) (Rows (ep_Dimensions p)) (fst (ep_Origin p)) (snd (ep_Origin p))
     \<inter> footprint gc (Cols (ep_Dimensions q)) (Rows (ep_Dimensions q)) (fst (ep_Origin q)) (snd (ep_Origin q)) = {}) ps"
  using assms by (intro sorted_wrt_cong_iff)
    (simp add: list_all_iff compatible_def explicit_mask_def and_eq_0_iff cells_of_widget_mask [OF _ assms(1)] placed_ok_def)

lemma list_all2_ids:
  "(\<And>w p. R w p \<Longrightarrow> ep_ID p = wc_ID w) \<Longrightarrow> list_all2 R ws ps \<Longrightarrow> map ep_ID ps = map wc_ID ws"
  by (auto simp: list_all2_conv_all_nth intro!: nth_equalityI)

lemma distinct_map_parts:
  "distinct (map f xs) \<Longrightarrow> (\<And>x. P x \<Longrightarrow> \<not> Q x) \<Longrightarrow> distinct (map f (filter P xs) @ map f (filter Q xs))"
  by (induction xs) auto

definition sized_wc :: "string \<Rightarrow> int list \<Rightarrow> WidgetConfig" where
  "sized_wc i dims = (sample_wc i ''u'')\<lparr>wc_Dimensions := Some dims\<rparr>"

definition override_config :: Config where
  "override_config = sample_config [sized_wc ''a'' [2, 1], sized_wc ''b'' [4, 2]]"

definition override_base :: Snapshot where
  "override_base = \<lparr>sn_Config = Some override_config, sn_Layout = None, sn_Packages = Map.empty, sn_LoadedAt = 0,
     sn_HasOverride = False\<rparr>"

definition sample_override :: LayoutOverrideFile where
  "sample_override = \<lparr>lf_Version = 1, lf_Widgets =
     [\<lparr>wo_ID = ''a'', wo_Screen = 0, wo_Origin = (4, 1), wo_Dimensions = [2, 1], wo_Pinned = False\<rparr>]\<rparr>"

definition sample_built :: "override_error + (ExplicitPlacement list \<times> WidgetConfig list)" where
  "sample_built = buildPlacementsFromOverrides (dc_Widgets (cf_Display override_config))
     (override_map (lf_Widgets sample_override)) Map.empty None 6 2"

lemma sample_built_Inr: "sample_built = Inr (fst (projr sample_built), snd (projr sample_built))"
proof -
  have "\<not> isl sample_built" by code_simp
  then show ?thesis by (cases sample_built) simp_all
qed


text \<open>A widget without an override is refused only when there is really no room for it: for any state the placement
  of widgets can be in, the search for an open slot fails exactly when on none of the sixteen screens is there a position
  on the grid where the widget, or for a pinned widget the widget on all screens, would not cover a cell of something placed
  before.\<close>

lemma override_slot_found:
  assumes "tracked gc st"
  shows "findFirstOpenSlot (bs_masks st) (bs_pinned st) pinned dim gc gr = None \<longleftrightarrow>
    (\<forall>s < 16. \<forall>origin \<in> set (slot_origins dim gc gr). \<not> slot_open gc st pinned dim s origin)"
proof
  assume none: "findFirstOpenSlot (bs_masks st) (bs_pinned st) pinned dim gc gr = None"
  show "\<forall>s < 16. \<forall>origin \<in> set (slot_origins dim gc gr). \<not> slot_open gc st pinned dim s origin"
    using findFirstOpenSlot_complete [OF assms none] by blast
next
  assume "\<forall>s < 16. \<forall>origin \<in> set (slot_origins dim gc gr). \<not> slot_open gc st pinned dim s origin"
  then show "findFirstOpenSlot (bs_masks st) (bs_pinned st) pinned dim gc gr = None"
    using findFirstOpenSlot_sound [OF assms]
    by (cases "findFirstOpenSlot (bs_masks st) (bs_pinned st) pinned dim gc gr") fastforce+
qed

end
