(* ===== verification/Override_File.thy ===== *)
theory Override_File
  imports Config_Override
begin

text \<open>
  \<^verbatim>\<open>internal/config/override.go\<close>: the override file on disk. The disk maps paths to files, which may be unreadable;
  the YAML library's functions for override files are parameters. Saving goes step by step, so that a failure of any step,
  and a crash after any of them, can be stated; which steps fail, and how much a failed write leaves behind, are
  parameters too.
\<close>

datatype disk_file = File string | Unreadable

type_synonym disk = "string \<rightharpoonup> disk_file"

record override_lib =
  ol_Unmarshal :: "string \<Rightarrow> LayoutOverrideFile option"
  ol_Marshal :: "LayoutOverrideFile \<Rightarrow> string"

datatype load_error = ErrOverrideNotFound | OverrideUnreadable string | OverrideUnparsable string

definition normal_version :: "LayoutOverrideFile \<Rightarrow> LayoutOverrideFile" where
  "normal_version ov = (if lf_Version ov \<le> 0 then ov\<lparr>lf_Version := 1\<rparr> else ov)"

definition LoadLayoutOverride :: "override_lib \<Rightarrow> disk \<Rightarrow> string \<Rightarrow> load_error + LayoutOverrideFile" where
  "LoadLayoutOverride lib d path =
     (if path = [] then Inl ErrOverrideNotFound
      else case d path of
        None \<Rightarrow> Inl ErrOverrideNotFound
      | Some Unreadable \<Rightarrow> Inl (OverrideUnreadable path)
      | Some (File data) \<Rightarrow> (case ol_Unmarshal lib data of
          None \<Rightarrow> Inl (OverrideUnparsable path)
        | Some ov \<Rightarrow> Inr (normal_version ov)))"

datatype save_pc = MkdirAll | CreateTemp | WriteTemp | ChmodTemp | SyncTemp | CloseTemp | RenameTemp | RemoveTemp | Saved | NotSaved

record save_plan =
  sp_path :: string
  sp_temp :: string
  sp_data :: string
  sp_fails :: "save_pc \<Rightarrow> bool"
  sp_partial :: nat

fun save_next :: "save_plan \<Rightarrow> save_pc \<times> disk \<Rightarrow> save_pc \<times> disk" where
  "save_next p (MkdirAll, d) = (if sp_fails p MkdirAll then (NotSaved, d) else (CreateTemp, d))"
| "save_next p (CreateTemp, d) =
     (if sp_fails p CreateTemp then (NotSaved, d) else (WriteTemp, d(sp_temp p \<mapsto> File [])))"
| "save_next p (WriteTemp, d) =
     (if sp_fails p WriteTemp then (RemoveTemp, d(sp_temp p \<mapsto> File (take (sp_partial p) (sp_data p))))
      else (ChmodTemp, d(sp_temp p \<mapsto> File (sp_data p))))"
| "save_next p (ChmodTemp, d) = (if sp_fails p ChmodTemp then (RemoveTemp, d) else (SyncTemp, d))"
| "save_next p (SyncTemp, d) = (if sp_fails p SyncTemp then (RemoveTemp, d) else (CloseTemp, d))"
| "save_next p (CloseTemp, d) = (if sp_fails p CloseTemp then (RemoveTemp, d) else (RenameTemp, d))"
| "save_next p (RenameTemp, d) =
     (if sp_fails p RenameTemp then (RemoveTemp, d) else (Saved, (d(sp_path p := d (sp_temp p)))(sp_temp p := None)))"
| "save_next p (RemoveTemp, d) = (NotSaved, if sp_fails p RemoveTemp then d else d(sp_temp p := None))"
| "save_next p (Saved, d) = (Saved, d)"
| "save_next p (NotSaved, d) = (NotSaved, d)"

datatype save_error = EmptyPath | NilOverrideFile | SaveFailed

record save_faults =
  sv_temp :: string
  sv_fails :: "save_pc \<Rightarrow> bool"
  sv_partial :: nat

definition plan_of :: "override_lib \<Rightarrow> string \<Rightarrow> LayoutOverrideFile \<Rightarrow> save_faults \<Rightarrow> save_plan" where
  "plan_of lib path ov f = \<lparr>sp_path = path, sp_temp = sv_temp f, sp_data = ol_Marshal lib (normal_version ov),
     sp_fails = sv_fails f, sp_partial = sv_partial f\<rparr>"

text \<open>Eight steps reach the end, whichever of them fail.\<close>

definition SaveLayoutOverrideAtomic ::
    "override_lib \<Rightarrow> save_faults \<Rightarrow> string \<Rightarrow> LayoutOverrideFile option \<Rightarrow> disk \<Rightarrow> (save_error + unit) \<times> disk" where
  "SaveLayoutOverrideAtomic lib f path ov d =
     (if path = [] then (Inl EmptyPath, d)
      else case ov of
        None \<Rightarrow> (Inl NilOverrideFile, d)
      | Some o' \<Rightarrow>
          let (pc, d') = (save_next (plan_of lib path o' f) ^^ 8) (MkdirAll, d)
          in (if pc = Saved then Inr () else Inl SaveFailed, d'))"

definition RemoveLayoutOverride :: "bool \<Rightarrow> string \<Rightarrow> disk \<Rightarrow> bool \<times> disk" where
  "RemoveLayoutOverride fails path d =
     (if path = [] then (True, d)
      else if d path = None then (True, d)
      else if fails then (False, d)
      else (True, d(path := None)))"

section \<open>Saving is atomic\<close>

definition steps_work :: "(save_pc \<Rightarrow> bool) \<Rightarrow> bool" where
  "steps_work fails \<longleftrightarrow> list_all (\<lambda>s. \<not> fails s) [MkdirAll, CreateTemp, WriteTemp, ChmodTemp, SyncTemp, CloseTemp, RenameTemp]"

text \<open>Where the file to be written, the temporary file and everything else stand at each step.\<close>

definition save_inv :: "save_plan \<Rightarrow> disk \<Rightarrow> save_pc \<times> disk \<Rightarrow> bool" where
  "save_inv p d0 st \<longleftrightarrow> (case st of (pc, d) \<Rightarrow>
     d (sp_path p) = (if pc = Saved then Some (File (sp_data p)) else d0 (sp_path p))
     \<and> (\<forall>q. q \<noteq> sp_path p \<and> q \<noteq> sp_temp p \<longrightarrow> d q = d0 q)
     \<and> (pc \<in> {ChmodTemp, SyncTemp, CloseTemp, RenameTemp} \<longrightarrow> d (sp_temp p) = Some (File (sp_data p)))
     \<and> (pc \<in> {MkdirAll, CreateTemp, Saved} \<or> pc = NotSaved \<and> \<not> sp_fails p RemoveTemp \<longrightarrow> d (sp_temp p) = None))"

lemma save_inv_next:
  assumes "save_inv p d0 st" "sp_temp p \<noteq> sp_path p"
  shows "save_inv p d0 (save_next p st)"
proof -
  obtain pc d where st: "st = (pc, d)" by (cases st)
  show ?thesis using assms unfolding st by (cases pc) (auto simp: save_inv_def)
qed

lemma save_inv_run:
  assumes "sp_temp p \<noteq> sp_path p" "d0 (sp_temp p) = None"
  shows "save_inv p d0 ((save_next p ^^ n) (MkdirAll, d0))"
  by (induction n) (use assms in \<open>simp_all add: save_inv_next\<close>, simp add: save_inv_def)

lemma save_pc_run:
  "fst ((save_next p ^^ 8) (MkdirAll, d)) = (if steps_work (sp_fails p) then Saved else NotSaved)"
proof -
  consider "sp_fails p MkdirAll"
    | "\<not> sp_fails p MkdirAll" "sp_fails p CreateTemp"
    | "\<not> sp_fails p MkdirAll" "\<not> sp_fails p CreateTemp" "sp_fails p WriteTemp"
    | "\<not> sp_fails p MkdirAll" "\<not> sp_fails p CreateTemp" "\<not> sp_fails p WriteTemp" "sp_fails p ChmodTemp"
    | "\<not> sp_fails p MkdirAll" "\<not> sp_fails p CreateTemp" "\<not> sp_fails p WriteTemp" "\<not> sp_fails p ChmodTemp" "sp_fails p SyncTemp"
    | "\<not> sp_fails p MkdirAll" "\<not> sp_fails p CreateTemp" "\<not> sp_fails p WriteTemp" "\<not> sp_fails p ChmodTemp" "\<not> sp_fails p SyncTemp" "sp_fails p CloseTemp"
    | "\<not> sp_fails p MkdirAll" "\<not> sp_fails p CreateTemp" "\<not> sp_fails p WriteTemp" "\<not> sp_fails p ChmodTemp" "\<not> sp_fails p SyncTemp" "\<not> sp_fails p CloseTemp" "sp_fails p RenameTemp"
    | "\<not> sp_fails p MkdirAll" "\<not> sp_fails p CreateTemp" "\<not> sp_fails p WriteTemp" "\<not> sp_fails p ChmodTemp" "\<not> sp_fails p SyncTemp" "\<not> sp_fails p CloseTemp" "\<not> sp_fails p RenameTemp"
    by blast
  then show ?thesis by cases (simp_all add: eval_nat_numeral steps_work_def)
qed

lemma plan_fields [simp]:
  "sp_path (plan_of lib path ov f) = path" "sp_temp (plan_of lib path ov f) = sv_temp f"
  "sp_data (plan_of lib path ov f) = ol_Marshal lib (normal_version ov)" "sp_fails (plan_of lib path ov f) = sv_fails f"
  by (simp_all add: plan_of_def)

lemma save_outcome:
  assumes "path \<noteq> []" "sv_temp f \<noteq> path" "d (sv_temp f) = None"
  shows "steps_work (sv_fails f) \<Longrightarrow> SaveLayoutOverrideAtomic lib f path (Some ov) d
      = (Inr (), d(path \<mapsto> File (ol_Marshal lib (normal_version ov))))"
    and "\<not> steps_work (sv_fails f) \<Longrightarrow> \<exists>d'. SaveLayoutOverrideAtomic lib f path (Some ov) d = (Inl SaveFailed, d')
      \<and> (\<forall>q. q \<noteq> sv_temp f \<or> \<not> sv_fails f RemoveTemp \<longrightarrow> d' q = d q)"
proof -
  define p st where "p = plan_of lib path ov f" and "st = (save_next p ^^ 8) (MkdirAll, d)"
  have pc: "fst st = (if steps_work (sv_fails f) then Saved else NotSaved)"
    using save_pc_run [of p d] by (simp add: st_def p_def)
  have run: "SaveLayoutOverrideAtomic lib f path (Some ov) d = (if fst st = Saved then Inr () else Inl SaveFailed, snd st)"
    using assms(1) unfolding st_def p_def by (simp add: SaveLayoutOverrideAtomic_def Let_def case_prod_unfold)
  have inv: "save_inv p d (fst st, snd st)"
    using save_inv_run [of p d 8] assms(2,3) by (simp add: st_def p_def)
  note facts = inv [unfolded save_inv_def p_def plan_fields prod.case]
  show "SaveLayoutOverrideAtomic lib f path (Some ov) d = (Inr (), d(path \<mapsto> File (ol_Marshal lib (normal_version ov))))"
    if "steps_work (sv_fails f)"
  proof -
    have "fst st = Saved" using pc that by simp
    with facts have "snd st q = (d(path \<mapsto> File (ol_Marshal lib (normal_version ov)))) q" for q
      using assms(2,3) by (cases "q = path"; cases "q = sv_temp f") simp_all
    then show ?thesis using run \<open>fst st = Saved\<close> by (simp add: fun_eq_iff)
  qed
  show "\<exists>d'. SaveLayoutOverrideAtomic lib f path (Some ov) d = (Inl SaveFailed, d')
      \<and> (\<forall>q. q \<noteq> sv_temp f \<or> \<not> sv_fails f RemoveTemp \<longrightarrow> d' q = d q)" if "\<not> steps_work (sv_fails f)"
  proof (intro exI conjI allI impI)
    have pc': "fst st = NotSaved" using pc that by simp
    then show "SaveLayoutOverrideAtomic lib f path (Some ov) d = (Inl SaveFailed, snd st)" using run by simp
    show "snd st q = d q" if "q \<noteq> sv_temp f \<or> \<not> sv_fails f RemoveTemp" for q
      using facts pc' that assms(2,3) by (cases "q = path"; cases "q = sv_temp f") simp_all
  qed
qed

text \<open>C36: Saving an override is atomic. Wherever the sequence of steps is cut short, by a failing step or a
  crash, the override file is the old one or the complete new one and no file but the temporary one has changed. The new one is
  in place exactly when every step worked; otherwise the override file, and the whole disk if the temporary file could
  be removed, is as before.\<close>

theorem override_save_atomic:
  assumes "path \<noteq> []" "sv_temp f \<noteq> path" "d (sv_temp f) = None"
    and "new = Some (File (ol_Marshal lib (normal_version ov)))"
    and "after = (\<lambda>n. snd ((save_next (plan_of lib path ov f) ^^ n) (MkdirAll, d)))"
    and "SaveLayoutOverrideAtomic lib f path (Some ov) d = (res, d')"
  shows "(\<forall>n. after n path \<in> {d path, new} \<and> (\<forall>q. q \<notin> {path, sv_temp f} \<longrightarrow> after n q = d q))
    \<and> (if steps_work (sv_fails f) then res = Inr () \<and> d' = d(path := new)
       else res = Inl SaveFailed \<and> d' path = d path \<and> (if sv_fails f RemoveTemp then True else d' = d))"
proof -
  have "save_inv (plan_of lib path ov f) d ((save_next (plan_of lib path ov f) ^^ n) (MkdirAll, d))" for n
    using assms(2,3) by (intro save_inv_run) simp_all
  then have "save_inv (plan_of lib path ov f) d (fst ((save_next (plan_of lib path ov f) ^^ n) (MkdirAll, d)), after n)" for n
    by (simp add: assms(5))
  then have "after n path \<in> {d path, new} \<and> (\<forall>q. q \<notin> {path, sv_temp f} \<longrightarrow> after n q = d q)" for n
    unfolding assms(4) save_inv_def by (simp split: if_splits)
  moreover have "if steps_work (sv_fails f) then res = Inr () \<and> d' = d(path := new)
       else res = Inl SaveFailed \<and> d' path = d path \<and> (if sv_fails f RemoveTemp then True else d' = d)"
  proof (cases "steps_work (sv_fails f)")
    case True
    then show ?thesis using save_outcome(1) [where d = d and f = f and path = path, OF assms(1-3) True, of lib ov] assms(4,6) by simp
  next
    case False
    from save_outcome(2) [where d = d and f = f and path = path, OF assms(1-3) False, of lib ov] assms(6)
    have "res = Inl SaveFailed" "\<forall>q. q \<noteq> sv_temp f \<or> \<not> sv_fails f RemoveTemp \<longrightarrow> d' q = d q" by simp_all
    then show ?thesis using False assms(2) by (auto simp: fun_eq_iff)
  qed
  ultimately show ?thesis by blast
qed

definition sample_lib :: override_lib where
  "sample_lib = \<lparr>ol_Unmarshal = (\<lambda>_. None), ol_Marshal = (\<lambda>_. ''new'')\<rparr>"

definition sync_fault :: save_faults where
  "sync_fault = \<lparr>sv_temp = ''t'', sv_fails = (\<lambda>s. s = SyncTemp), sv_partial = 0\<rparr>"

definition empty_override :: LayoutOverrideFile where
  "empty_override = \<lparr>lf_Version = 0, lf_Widgets = []\<rparr>"

theorem override_save_atomic_witness:
  "SaveLayoutOverrideAtomic sample_lib sync_fault ''o'' (Some empty_override) [''o'' \<mapsto> File ''old''] = (Inl SaveFailed, [''o'' \<mapsto> File ''old''])
   \<and> snd ((save_next (plan_of sample_lib ''o'' empty_override sync_fault) ^^ 4) (MkdirAll, [''o'' \<mapsto> File ''old''])) ''o''
       \<in> {Some (File ''old''), Some (File ''new'')}"
proof -
  obtain res d' where r: "SaveLayoutOverrideAtomic sample_lib sync_fault ''o'' (Some empty_override) [''o'' \<mapsto> File ''old''] = (res, d')"
    by fastforce
  have nw: "\<not> steps_work (sv_fails sync_fault)" by (simp add: steps_work_def sync_fault_def)
  show ?thesis
    using override_save_atomic [OF _ _ _ refl refl r] nw r by (simp add: sync_fault_def sample_lib_def)
qed

end
