(* ===== verification/Config_Manager.thy ===== *)
theory Config_Manager
  imports Config_Pipeline_Props Config_Override_Props Override_File
begin

text \<open>
  \<^verbatim>\<open>internal/config/lkgc.go\<close> and \<^verbatim>\<open>override.go\<close>: the manager that keeps the last known good configuration. Its mutex makes
  each operation one step. The readings of the clock are arguments: one for the pipeline, one for an override and one for
  the status. The text of an error is its stage and a detail that is a parameter.
\<close>

record Manager =
  mg_current :: "Snapshot option"
  mg_status :: "Status option"
  mg_configReloadErr :: "string option"
  mg_packageErrors :: "(string \<times> string) list"
  mg_baseYAML :: string
  mg_overridePath :: string
  mg_useConfigOverridePath :: bool

datatype ManagerOption = WithOverridePath string | WithUseConfigOverridePath

fun apply_manager_option :: "Manager \<Rightarrow> ManagerOption \<Rightarrow> Manager" where
  "apply_manager_option m (WithOverridePath path) = m\<lparr>mg_overridePath := path\<rparr>"
| "apply_manager_option m WithUseConfigOverridePath = m\<lparr>mg_useConfigOverridePath := True\<rparr>"

datatype manager_error =
    InitialInvalid pipeline_error
  | ReloadFailed pipeline_error
  | ErrLayoutEditDisabled
  | NilOverride
  | NoOverridePath
  | BaseInvalid pipeline_error
  | OverrideRejected override_error
  | OverrideNotSaved save_error
  | OverrideNotRemoved

record times =
  tm_pipeline :: gotime
  tm_override :: gotime
  tm_status :: gotime

record deployment =
  su_world :: world
  su_lib :: override_lib
  su_detail :: "pipeline_error \<Rightarrow> string"

definition pipeline_message :: "(pipeline_error \<Rightarrow> string) \<Rightarrow> pipeline_error \<Rightarrow> string" where
  "pipeline_message detail e =
     (case e of
        NilLoader \<Rightarrow> ''package loader cannot be nil''
      | Stage1 _ \<Rightarrow> ''stage 1 (syntax & structure): '' @ detail e
      | Stage2 _ \<Rightarrow> ''stage 2 (instance schemas): '' @ detail e
      | Stage3 _ \<Rightarrow> ''stage 3 (package existence & completeness): '' @ detail e
      | Stage4 _ _ \<Rightarrow> ''stage 4 (manifest config_schema): '' @ detail e
      | Stage5 _ \<Rightarrow> ''stage 5 (domain rules): '' @ detail e
      | Stage6Dimensions _ \<Rightarrow> ''stage 6 (layout solver): '' @ detail e
      | Stage6Layout _ \<Rightarrow> ''stage 6 (layout solver): layout solver error: '' @ detail e)"

definition resolveOverridePath :: "Manager \<Rightarrow> Snapshot option \<Rightarrow> string" where
  "resolveOverridePath m snap =
     (if mg_overridePath m \<noteq> [] then mg_overridePath m
      else if mg_useConfigOverridePath m then
        (case snap of
           None \<Rightarrow> []
         | Some s \<Rightarrow> (case sn_Config s of None \<Rightarrow> [] | Some c \<Rightarrow> GetLayoutOverridePath (cf_Display c)))
      else [])"

definition applyDiskOverrideIfPresent :: "deployment \<Rightarrow> gotime \<Rightarrow> disk \<Rightarrow> Manager \<Rightarrow> Snapshot \<Rightarrow> Snapshot" where
  "applyDiskOverrideIfPresent su now d m snapshot =
     (let path = resolveOverridePath m (Some snapshot) in
      if path = [] then snapshot
      else case LoadLayoutOverride (su_lib su) d path of
        Inl _ \<Rightarrow> snapshot
      | Inr ov \<Rightarrow> (case applyOverrideToSnapshot snapshot ov (wd_loader (su_world su)) now of
          Inl _ \<Rightarrow> snapshot
        | Inr overridden \<Rightarrow> overridden))"

definition zero_manager :: "string \<Rightarrow> Manager" where
  "zero_manager yaml = \<lparr>mg_current = None, mg_status = None, mg_configReloadErr = None, mg_packageErrors = [],
     mg_baseYAML = yaml, mg_overridePath = [], mg_useConfigOverridePath = False\<rparr>"

definition NewManager :: "deployment \<Rightarrow> times \<Rightarrow> disk \<Rightarrow> string \<Rightarrow> ManagerOption list \<Rightarrow> manager_error + Manager" where
  "NewManager su t d initialYAML opts =
     res_bind (map_sum InitialInvalid id (ValidatePipeline (su_world su) initialYAML (tm_pipeline t))) (\<lambda>base.
     let m = foldl apply_manager_option (zero_manager initialYAML) opts;
         snapshot = applyDiskOverrideIfPresent su (tm_override t) d m base
     in Inr (m\<lparr>mg_current := Some snapshot,
               mg_status := Some \<lparr>st_ConfigStatus = ConfigStatusOK, st_ConfigError = None,
                 st_LastChecked = sn_LoadedAt snapshot, st_LastSuccess = sn_LoadedAt snapshot\<rparr>\<rparr>))"

definition Current :: "Manager \<Rightarrow> Config option" where
  "Current m = (case mg_current m of None \<Rightarrow> None | Some s \<Rightarrow> sn_Config s)"

definition manager_Status :: "Manager \<Rightarrow> Status" where
  "manager_Status m = (case mg_status m of
      Some s \<Rightarrow> s
    | None \<Rightarrow> \<lparr>st_ConfigStatus = ConfigStatusOK, st_ConfigError = None, st_LastChecked = 0, st_LastSuccess = 0\<rparr>)"

definition error_message :: "Manager \<Rightarrow> string" where
  "error_message m =
     (case mg_configReloadErr m of
        Some e \<Rightarrow> e
      | None \<Rightarrow> (case sort_by string_less (map fst (mg_packageErrors m)) of
          [] \<Rightarrow> []
        | k # _ \<Rightarrow> (case map_of (mg_packageErrors m) k of None \<Rightarrow> [] | Some e \<Rightarrow> e)))"

definition updateStatusLocked :: "gotime \<Rightarrow> Manager \<Rightarrow> Manager" where
  "updateStatusLocked now m =
     (let lastSuccess = (case mg_status m of None \<Rightarrow> 0 | Some prev \<Rightarrow> st_LastSuccess prev);
          errMsg = error_message m
      in m\<lparr>mg_status := Some (if errMsg \<noteq> []
           then \<lparr>st_ConfigStatus = ConfigStatusError, st_ConfigError = Some errMsg, st_LastChecked = now, st_LastSuccess = lastSuccess\<rparr>
           else \<lparr>st_ConfigStatus = ConfigStatusOK, st_ConfigError = None, st_LastChecked = now, st_LastSuccess = now\<rparr>)\<rparr>)"

fun put_error :: "string \<Rightarrow> string \<Rightarrow> (string \<times> string) list \<Rightarrow> (string \<times> string) list" where
  "put_error k e [] = [(k, e)]"
| "put_error k e ((j, f) # es) = (if j = k then (k, e) # es else (j, f) # put_error k e es)"

definition SetPackageError :: "gotime \<Rightarrow> string \<Rightarrow> string option \<Rightarrow> Manager \<Rightarrow> Manager" where
  "SetPackageError now widgetType err m =
     (case err of None \<Rightarrow> m
      | Some e \<Rightarrow> updateStatusLocked now (m\<lparr>mg_packageErrors := put_error widgetType e (mg_packageErrors m)\<rparr>))"

definition ClearPackageError :: "gotime \<Rightarrow> string \<Rightarrow> Manager \<Rightarrow> bool \<times> Manager" where
  "ClearPackageError now widgetType m =
     (map_of (mg_packageErrors m) widgetType \<noteq> None,
      updateStatusLocked now (m\<lparr>mg_packageErrors := filter (\<lambda>(k, _). k \<noteq> widgetType) (mg_packageErrors m)\<rparr>))"

definition SetErrorStatus :: "gotime \<Rightarrow> string option \<Rightarrow> Manager \<Rightarrow> Manager" where
  "SetErrorStatus now err m =
     (case err of None \<Rightarrow> m | Some e \<Rightarrow> updateStatusLocked now (m\<lparr>mg_configReloadErr := Some e\<rparr>))"

definition Reload ::
    "deployment \<Rightarrow> times \<Rightarrow> disk \<Rightarrow> string \<Rightarrow> Manager \<Rightarrow> (manager_error + Snapshot \<times> ConfigDiff) \<times> Manager" where
  "Reload su t d data m =
     (case ValidatePipeline (su_world su) data (tm_pipeline t) of
        Inl e \<Rightarrow> (Inl (ReloadFailed e),
          updateStatusLocked (tm_status t) (m\<lparr>mg_configReloadErr := Some (pipeline_message (su_detail su) e)\<rparr>))
      | Inr base \<Rightarrow>
          let m1 = m\<lparr>mg_baseYAML := data\<rparr>;
              candidate = applyDiskOverrideIfPresent su (tm_override t) d m1 base;
              oldCfg = (case mg_current m1 of None \<Rightarrow> None | Some s \<Rightarrow> sn_Config s);
              diff = DiffConfigs oldCfg (sn_Config candidate)
          in (Inr (candidate, diff), updateStatusLocked (tm_status t)
                (m1\<lparr>mg_configReloadErr := None, mg_packageErrors := [], mg_current := Some candidate\<rparr>)))"

definition edit_allowed :: "Manager \<Rightarrow> bool" where
  "edit_allowed m \<longleftrightarrow> (case Current m of None \<Rightarrow> False | Some c \<Rightarrow> IsLayoutEditAllowed (cf_Display c))"

definition ApplyLayoutOverride ::
    "deployment \<Rightarrow> times \<Rightarrow> save_faults \<Rightarrow> LayoutOverrideFile option \<Rightarrow> Manager \<Rightarrow> disk
     \<Rightarrow> (manager_error + Snapshot \<times> ConfigDiff) \<times> Manager \<times> disk" where
  "ApplyLayoutOverride su t f ov m d =
     (if \<not> edit_allowed m then (Inl ErrLayoutEditDisabled, m, d)
      else case ov of
        None \<Rightarrow> (Inl NilOverride, m, d)
      | Some o' \<Rightarrow>
          let path = resolveOverridePath m (mg_current m) in
          if path = [] then (Inl NoOverridePath, m, d)
          else (case ValidatePipeline (su_world su) (mg_baseYAML m) (tm_pipeline t) of
            Inl e \<Rightarrow> (Inl (BaseInvalid e), m, d)
          | Inr base \<Rightarrow> (case applyOverrideToSnapshot base o' (wd_loader (su_world su)) (tm_override t) of
              Inl e \<Rightarrow> (Inl (OverrideRejected e), m, d)
            | Inr newSnap \<Rightarrow> (case SaveLayoutOverrideAtomic (su_lib su) f path (Some o') d of
                (Inl e, d') \<Rightarrow> (Inl (OverrideNotSaved e), m, d')
              | (Inr _, d') \<Rightarrow>
                  (Inr (newSnap, DiffConfigs (Current m) (sn_Config newSnap)),
                   updateStatusLocked (tm_status t) (m\<lparr>mg_current := Some newSnap\<rparr>), d')))))"

definition ResetLayoutOverride ::
    "deployment \<Rightarrow> times \<Rightarrow> bool \<Rightarrow> Manager \<Rightarrow> disk \<Rightarrow> (manager_error + Snapshot \<times> ConfigDiff) \<times> Manager \<times> disk" where
  "ResetLayoutOverride su t remove_fails m d =
     (if \<not> edit_allowed m then (Inl ErrLayoutEditDisabled, m, d)
      else let path = resolveOverridePath m (mg_current m);
               (removed, d') = RemoveLayoutOverride remove_fails path d in
        if \<not> removed then (Inl OverrideNotRemoved, m, d')
        else (case ValidatePipeline (su_world su) (mg_baseYAML m) (tm_pipeline t) of
          Inl e \<Rightarrow> (Inl (BaseInvalid e), m, d')
        | Inr base \<Rightarrow>
            (Inr (base, DiffConfigs (Current m) (sn_Config base)),
             updateStatusLocked (tm_status t) (m\<lparr>mg_current := Some base\<rparr>), d')))"

end
