(* ===== verification/Config_Manager_Props.thy ===== *)
theory Config_Manager_Props
  imports Config_Manager
begin

text \<open>
  The manager keeps a configuration that can be shown, whatever fails, and reports the failure.
\<close>

section \<open>What a snapshot shows\<close>

definition pkey :: "PlacedWidget \<Rightarrow> string \<times> string \<times> int list" where
  "pkey pw = (pw_WidgetID pw, pw_Type pw, Slice (pw_Dimensions pw))"

definition ckey :: "WidgetConfig \<Rightarrow> string \<times> string \<times> int list" where
  "ckey w = (wc_ID w, wc_Type w, derefOr (wc_Dimensions w) [])"

definition shown :: "Layout \<Rightarrow> PlacedWidget set" where
  "shown L = (\<Union>sc \<in> set (Screens L). set (sc_Widgets sc))"

text \<open>The layout of a snapshot tiles the configured grid and shows exactly the configured widgets.\<close>

definition snapshot_good :: "Snapshot \<Rightarrow> bool" where
  "snapshot_good snap \<longleftrightarrow> (\<exists>cfg L gc gr. sn_Config snap = Some cfg \<and> sn_Layout snap = Some L
     \<and> dc_Grid (cf_Display cfg) = \<lparr>gc_Columns = gc, gc_Rows = gr\<rparr> \<and> (gc, gr) \<in> {(6, 2), (3, 6)}
     \<and> tiled_layout gc gr L \<and> pkey ` shown L = ckey ` set (dc_Widgets (cf_Display cfg)))"

lemma UN_set_nth: "(\<Union>x \<in> set xs. f x) = (\<Union>i < length xs. f (xs ! i))"
  by (auto simp: set_conv_nth)

lemma set_mset_sum_list: "set_mset (sum_list ms) = (\<Union>m \<in> set ms. set_mset m)"
  by (induction ms) auto

lemma shows_widgets_keys:
  assumes "shows_widgets ws L" "Screens L \<noteq> []"
  shows "pw_key ` shown L = wi_key ` set ws"
proof -
  have pin: "pw_key ` {pw \<in> set (sc_Widgets sc). pw_Pinned pw} = wi_key ` {w \<in> set ws. wi_Pinned w}" if "sc \<in> set (Screens L)" for sc
  proof -
    have "set_mset (image_mset pw_key (filter_mset pw_Pinned (mset (sc_Widgets sc))))
      = set_mset (image_mset wi_key (filter_mset wi_Pinned (mset ws)))"
      using assms(1) that unfolding shows_widgets_def by (metis (no_types))
    then show ?thesis by simp
  qed
  have "set_mset (\<Sum>sc \<leftarrow> Screens L. image_mset pw_key (filter_mset (\<lambda>pw. \<not> pw_Pinned pw) (mset (sc_Widgets sc))))
      = set_mset (image_mset wi_key (filter_mset (\<lambda>w. \<not> wi_Pinned w) (mset ws)))"
    using assms(1) unfolding shows_widgets_def by presburger
  then have unp: "(\<Union>sc \<in> set (Screens L). pw_key ` {pw \<in> set (sc_Widgets sc). \<not> pw_Pinned pw}) = wi_key ` {w \<in> set ws. \<not> wi_Pinned w}"
    by (simp add: set_mset_sum_list)
  have "pw_key ` shown L = (\<Union>sc \<in> set (Screens L). pw_key ` {pw \<in> set (sc_Widgets sc). pw_Pinned pw})
      \<union> (\<Union>sc \<in> set (Screens L). pw_key ` {pw \<in> set (sc_Widgets sc). \<not> pw_Pinned pw})"
    unfolding shown_def by blast
  also have "\<dots> = wi_key ` {w \<in> set ws. wi_Pinned w} \<union> wi_key ` {w \<in> set ws. \<not> wi_Pinned w}"
    using assms(2) by (simp add: unp pin)
  also have "\<dots> = wi_key ` set ws" by blast
  finally show ?thesis .
qed

definition to_slice :: "string \<times> string \<times> Dimension \<Rightarrow> string \<times> string \<times> int list" where
  "to_slice k = (fst k, fst (snd k), Slice (snd (snd k)))"

lemma input_keys: "list_all2 input_of ws is \<Longrightarrow> to_slice ` wi_key ` set is = ckey ` set ws"
  by (induction ws "is" rule: list_all2_induct) (auto simp: input_of_def wi_key_def ckey_def to_slice_def)

lemma solved_snapshot_good:
  assumes "solved_snapshot snap cfg L gc gr is"
  shows "snapshot_good snap"
proof -
  have "to_slice ` pw_key ` shown L = ckey ` set (dc_Widgets (cf_Display cfg))"
    using shows_widgets_keys [of "is" L] input_keys [of "dc_Widgets (cf_Display cfg)" "is"] assms
    by (simp add: solved_snapshot_def tiled_layout_def)
  moreover have "to_slice ` pw_key ` S = pkey ` S" for S
    by (simp add: image_image pw_key_def pkey_def to_slice_def)
  ultimately show ?thesis using assms unfolding snapshot_good_def solved_snapshot_def by metis
qed

section \<open>Overridden snapshots\<close>

lemma explicit_shown:
  assumes "SolveExplicit ps gc0 gr0 = Inr (L, spacers)" "NormalizeGrid gc0 gr0 = (gc, gr)"
  shows "shown L = explicit_placed ` set ps \<union> set spacers"
proof (rule SolveExplicit_cases [OF assms(2), of ps])
  fix n sps scs
  assume run: "SolveExplicit ps gc0 gr0 = Inr (\<lparr>TotalScreens = int n, Screens = scs\<rparr>, concat sps)"
    and n: "n = max 1 (card (set (unpinned_screens ps)))" and len: "length scs = n" "length sps = n"
    and fin: "\<forall>i < n. finished gc gr i (user_widgets ps i) (sps ! i) (scs ! i)"
  have L: "Screens L = scs" "spacers = concat sps" using run assms(1) by auto
  have ws: "set (sc_Widgets (scs ! i)) = set (user_widgets ps i) \<union> set (sps ! i)" if "i < n" for i
  proof -
    have "set_mset (mset (sc_Widgets (scs ! i))) = set_mset (mset (user_widgets ps i) + mset (sps ! i))"
      using fin that by (simp add: finished_def)
    then show ?thesis by simp
  qed
  have rank: "screen_rank ps p < n" if "p \<in> set ps" "\<not> ep_Pinned p" for p
  proof -
    have "screen_rank ps p < card (set (unpinned_screens ps))"
      unfolding screen_rank_def by (rule psubset_card_mono) (use that in \<open>auto simp: unpinned_screens_def\<close>)
    then show ?thesis using n by simp
  qed
  have "shown L = (\<Union>i < n. set (user_widgets ps i) \<union> set (sps ! i))"
    unfolding shown_def L(1) UN_set_nth len(1) using ws by simp
  also have "\<dots> = (\<Union>i < n. set (user_widgets ps i)) \<union> (\<Union>i < n. set (sps ! i))" by blast
  also have "(\<Union>i < n. set (user_widgets ps i)) = explicit_placed ` set ps"
  proof
    show "(\<Union>i < n. set (user_widgets ps i)) \<subseteq> explicit_placed ` set ps" by (auto simp: user_widgets_def)
    show "explicit_placed ` set ps \<subseteq> (\<Union>i < n. set (user_widgets ps i))"
    proof clarify
      fix p assume p: "p \<in> set ps"
      show "explicit_placed p \<in> (\<Union>i < n. set (user_widgets ps i))"
      proof (cases "ep_Pinned p")
        case True
        have "0 < n" using n by simp
        then show ?thesis using True p by (auto simp: user_widgets_def)
      next
        case False
        then show ?thesis using rank [OF p False] p by (auto simp: user_widgets_def)
      qed
    qed
  qed
  also have "(\<Union>i < n. set (sps ! i)) = set spacers"
    using UN_set_nth [of set sps] by (simp add: L(2) len(2))
  finally show ?thesis .
qed (use assms(1) in simp)

lemma explicit_spacer_type:
  assumes "SolveExplicit ps gc0 gr0 = Inr (L, spacers)" "NormalizeGrid gc0 gr0 = (gc, gr)" "sp \<in> set spacers"
  shows "pw_Type sp = ''spacer''"
proof (rule SolveExplicit_cases [OF assms(2), of ps])
  fix n sps scs
  assume run: "SolveExplicit ps gc0 gr0 = Inr (\<lparr>TotalScreens = int n, Screens = scs\<rparr>, concat sps)"
    and len: "length sps = n" and fin: "\<forall>i < n. finished gc gr i (user_widgets ps i) (sps ! i) (scs ! i)"
  have "sp \<in> (\<Union>i < n. set (sps ! i))"
    using run assms(1,3) UN_set_nth [of set sps] by (simp add: len)
  then obtain i where i: "i < n" "sp \<in> set (sps ! i)" by blast
  then have "is_spacer i sp" using fin by (simp add: finished_def)
  then show ?thesis by (metis PlacedWidget.select_convs(2) is_spacer_def spacer_at_def)
qed (use assms(1) in simp)

definition in_step :: "build_state \<Rightarrow> bool" where
  "in_step st \<longleftrightarrow> list_all2 (\<lambda>w p. pkey (explicit_placed p) = ckey w) (bs_widgets st) (bs_placements st)"

lemma add_placement_in_step:
  "in_step st \<Longrightarrow> pkey (explicit_placed p) = ckey w \<Longrightarrow> in_step (add_placement gc p w st)"
  by (simp add: in_step_def add_placement_def list_all2_appendI split: prod.split)

lemma place_override_in_step:
  assumes "in_step st" "place_override ovMap pkgs loader gc gr w st = Inr st'"
  shows "in_step st'"
proof (cases "ovMap (wc_ID w)")
  case (Some ov)
  let ?s = "if wo_Dimensions ov = [] then derefOr (wc_Dimensions w) [] else wo_Dimensions ov"
  obtain dim where dim: "?s = Slice dim" and st': "st' = add_placement gc \<lparr>ep_ID = wc_ID w, ep_Type = wc_Type w,
      ep_Screen = wo_Screen ov, ep_Origin = wo_Origin ov, ep_Dimensions = dim, ep_Pinned = wo_Pinned ov\<rparr>
      (w\<lparr>wc_Dimensions := Some ?s, wc_Pinned := wo_Pinned ov\<rparr>) st"
    using assms(2) Some by (auto simp: place_override_def Let_def dim_from_Inr simp del: if_split)
  show ?thesis unfolding st'
    by (rule add_placement_in_step [OF assms(1)]) (simp add: pkey_def ckey_def explicit_placed_def derefOr_def dim [symmetric])
qed (use assms in \<open>simp add: place_override_def\<close>)

lemma place_open_in_step:
  assumes "in_step st" "place_open ovMap gc gr w st = Inr st'"
  shows "in_step st'"
proof (cases "ovMap (wc_ID w) \<noteq> None \<or> wc_Type w = ''spacer''")
  case False
  then obtain dim s origin where "derefOr (wc_Dimensions w) [] = Slice dim"
    and "st' = add_placement gc \<lparr>ep_ID = wc_ID w, ep_Type = wc_Type w, ep_Screen = int s, ep_Origin = origin,
      ep_Dimensions = dim, ep_Pinned = wc_Pinned w\<rparr> w st"
    using assms(2) by (auto simp: place_open_def dim_from_Inr split: option.splits)
  then show ?thesis using add_placement_in_step [OF assms(1)] by (simp add: pkey_def ckey_def explicit_placed_def)
qed (use assms in \<open>simp add: place_open_def\<close>)

lemma built_keys:
  assumes "buildPlacementsFromOverrides ws ovMap pkgs loader gc gr = Inr (ps, us)"
  shows "pkey ` explicit_placed ` set ps = ckey ` set us"
proof -
  from assms obtain st1 st2 where st1: "each (place_override ovMap pkgs loader gc gr) ws
        \<lparr>bs_placements = [], bs_widgets = [], bs_masks = [0], bs_pinned = 0\<rparr> = Inr st1"
    and st2: "each (place_open ovMap gc gr) ws st1 = Inr st2" and "ps = bs_placements st2" "us = bs_widgets st2"
    by (auto simp: buildPlacementsFromOverrides_def)
  moreover have "in_step st1" by (rule each_inv [OF st1]) (simp add: in_step_def, rule place_override_in_step)
  then have "in_step st2" by (rule each_inv [OF st2]) (rule place_open_in_step)
  ultimately have "list_all2 (\<lambda>w p. pkey (explicit_placed p) = ckey w) us ps" by (simp add: in_step_def)
  then show ?thesis by (induction us ps rule: list_all2_induct) auto
qed

lemma spacer_keys: "\<forall>sp \<in> set spacers. pw_Type sp = ''spacer'' \<Longrightarrow>
  ckey ` set (appendAutoSpacers us spacers) = ckey ` set us \<union> pkey ` set spacers"
  by (auto simp: appendAutoSpacers_def ckey_def pkey_def derefOr_def image_Un image_image)

lemma override_good:
  assumes good: "snapshot_good base" and ap: "applyOverrideToSnapshot base ov loader now = Inr snap"
  shows "snapshot_good snap"
proof -
  from good obtain cfg gc gr where cfg: "sn_Config base = Some cfg"
    and g: "dc_Grid (cf_Display cfg) = \<lparr>gc_Columns = gc, gc_Rows = gr\<rparr>" "(gc, gr) \<in> {(6, 2), (3, 6)}"
    by (auto simp: snapshot_good_def)
  have ng: "NormalizeGrid gc gr = (gc, gr)" using g(2) by (auto simp: NormalizeGrid_def GridColumns_def GridRows_def)
  from ap obtain ps us L spacers where
    built: "buildPlacementsFromOverrides (dc_Widgets (cf_Display cfg)) (override_map (lf_Widgets ov)) (sn_Packages base) loader gc gr
      = Inr (ps, us)"
    and sol: "SolveExplicit ps gc gr = Inr (L, spacers)" and snap: "sn_Layout snap = Some L"
      "sn_Config snap = Some (cfg\<lparr>cf_Display := (cf_Display cfg)\<lparr>dc_Widgets := appendAutoSpacers us spacers\<rparr>\<rparr>)"
    by (auto simp: applyOverrideToSnapshot_def cfg g ng Let_def map_sum_Inr)
  have "pkey ` shown L = ckey ` set (appendAutoSpacers us spacers)"
    using explicit_spacer_type [OF sol ng] built_keys [OF built]
    by (simp add: explicit_shown [OF sol ng] spacer_keys image_Un)
  then show ?thesis using explicit_tiled [OF sol ng] snap g unfolding snapshot_good_def by simp
qed

section \<open>The last known good configuration\<close>

text \<open>
  What can happen to a manager and the disk beside it. The environment (files, packages, variables, libraries, clock) may
  differ from one operation to the next, and others may change the disk between them.
\<close>

inductive manager_reach :: "Manager \<times> disk \<Rightarrow> bool" where
  started: "NewManager su t d yaml opts = Inr m \<Longrightarrow> manager_reach (m, d)"
| reloaded: "manager_reach (m, d) \<Longrightarrow> manager_reach (snd (Reload su t d data m), d)"
| package_failed: "manager_reach (m, d) \<Longrightarrow> manager_reach (SetPackageError now wt err m, d)"
| package_cleared: "manager_reach (m, d) \<Longrightarrow> manager_reach (snd (ClearPackageError now wt m), d)"
| error_set: "manager_reach (m, d) \<Longrightarrow> manager_reach (SetErrorStatus now err m, d)"
| applied: "manager_reach (m, d) \<Longrightarrow> manager_reach (snd (ApplyLayoutOverride su t f ov m d))"
| reset: "manager_reach (m, d) \<Longrightarrow> manager_reach (snd (ResetLayoutOverride su t fails m d))"
| disk_changed: "manager_reach (m, d) \<Longrightarrow> manager_reach (m, d')"

definition status_matches :: "Manager \<Rightarrow> bool" where
  "status_matches m \<longleftrightarrow> (let msg = error_message m; s = manager_Status m in
     st_ConfigStatus s = (if msg = [] then ConfigStatusOK else ConfigStatusError)
     \<and> st_ConfigError s = (if msg = [] then None else Some msg))"

definition accepted :: "string \<Rightarrow> bool" where
  "accepted yaml \<longleftrightarrow> (\<exists>wd now snap. ValidatePipeline wd yaml now = Inr snap)"

definition manager_ok :: "Manager \<Rightarrow> bool" where
  "manager_ok m \<longleftrightarrow> (\<exists>snap. mg_current m = Some snap \<and> snapshot_good snap) \<and> status_matches m
     \<and> accepted (mg_baseYAML m) \<and> distinct (map fst (mg_packageErrors m))"

lemma error_message_status [simp]:
  "error_message (m\<lparr>mg_status := s\<rparr>) = error_message m" "error_message (m\<lparr>mg_current := c\<rparr>) = error_message m"
  by (simp_all add: error_message_def cong: option.case_cong list.case_cong)

lemma manager_ok_update:
  "\<exists>snap. mg_current m = Some snap \<and> snapshot_good snap \<Longrightarrow> accepted (mg_baseYAML m)
    \<Longrightarrow> distinct (map fst (mg_packageErrors m)) \<Longrightarrow> manager_ok (updateStatusLocked now m)"
  by (simp add: manager_ok_def status_matches_def updateStatusLocked_def manager_Status_def Let_def)

lemma pipeline_good:
  assumes "ValidatePipeline wd data now = Inr snap"
  shows "snapshot_good snap" "accepted data"
proof -
  show "snapshot_good snap" by (rule pipeline_Inr [OF assms]) (rule solved_snapshot_good)
  show "accepted data" using assms unfolding accepted_def by blast
qed

lemma disk_override_good: "snapshot_good base \<Longrightarrow> snapshot_good (applyDiskOverrideIfPresent su now d m base)"
  by (auto simp: applyDiskOverrideIfPresent_def Let_def intro: override_good split: sum.split)

lemma apply_options_fields [simp]:
  "mg_baseYAML (foldl apply_manager_option m opts) = mg_baseYAML m"
  "mg_packageErrors (foldl apply_manager_option m opts) = mg_packageErrors m"
  "mg_configReloadErr (foldl apply_manager_option m opts) = mg_configReloadErr m"
proof (induction opts arbitrary: m)
  case (Cons op opts)
  { case 1 show ?case by (cases op) (simp_all add: Cons) }
  { case 2 show ?case by (cases op) (simp_all add: Cons) }
  { case 3 show ?case by (cases op) (simp_all add: Cons) }
qed simp_all

lemma new_manager_ok: "NewManager su t d yaml opts = Inr m \<Longrightarrow> manager_ok m"
  by (auto simp: NewManager_def map_sum_Inr Let_def manager_ok_def status_matches_def manager_Status_def error_message_def
      zero_manager_def sort_by_def pipeline_good disk_override_good)

lemma reload_ok: "manager_ok m \<Longrightarrow> manager_ok (snd (Reload su t d data m))"
  by (auto simp: Reload_def Let_def manager_ok_def [of m] pipeline_good disk_override_good
      intro!: manager_ok_update split: sum.split)

lemma put_error_keys: "set (map fst (put_error k e es)) = insert k (set (map fst es))"
  by (induction k e es rule: put_error.induct) auto

lemma put_error_distinct: "distinct (map fst es) \<Longrightarrow> distinct (map fst (put_error k e es))"
  using put_error_keys by (induction k e es rule: put_error.induct) (auto simp del: set_map)

lemma set_package_error_ok: "manager_ok m \<Longrightarrow> manager_ok (SetPackageError now wt err m)"
  by (cases err) (auto simp: SetPackageError_def manager_ok_def [of m] put_error_distinct intro!: manager_ok_update)

lemma clear_package_error_ok: "manager_ok m \<Longrightarrow> manager_ok (snd (ClearPackageError now wt m))"
  by (auto simp: ClearPackageError_def manager_ok_def [of m] distinct_map_filter intro!: manager_ok_update)

lemma set_error_status_ok: "manager_ok m \<Longrightarrow> manager_ok (SetErrorStatus now err m)"
  by (cases err) (auto simp: SetErrorStatus_def manager_ok_def [of m] intro!: manager_ok_update)

lemma apply_override_ok: "manager_ok m \<Longrightarrow> manager_ok (fst (snd (ApplyLayoutOverride su t f ov m d)))"
  by (auto simp: ApplyLayoutOverride_def Let_def manager_ok_def [of m] pipeline_good
      intro!: manager_ok_update dest: override_good [OF pipeline_good(1)] split: sum.split prod.split option.split)

lemma reset_override_ok: "manager_ok m \<Longrightarrow> manager_ok (fst (snd (ResetLayoutOverride su t fails m d)))"
  by (auto simp: ResetLayoutOverride_def Let_def manager_ok_def [of m] pipeline_good
      intro!: manager_ok_update split: sum.split prod.split)

lemmas operation_ok = new_manager_ok reload_ok set_package_error_ok clear_package_error_ok set_error_status_ok
  apply_override_ok reset_override_ok

lemma manager_reach_ok: "manager_reach s \<Longrightarrow> manager_ok (fst s)"
  by (induction rule: manager_reach.induct) (simp_all add: operation_ok)

text \<open>A reload that fails is reported and keeps what was there.\<close>

lemma reload_failed:
  assumes "Reload su t d data m = (Inl e, m')"
  shows "mg_current m' = mg_current m \<and> mg_baseYAML m' = mg_baseYAML m
    \<and> (\<exists>msg. msg \<noteq> [] \<and> st_ConfigStatus (manager_Status m') = ConfigStatusError \<and> st_ConfigError (manager_Status m') = Some msg)"
proof -
  from assms obtain pe where
    m': "m' = updateStatusLocked (tm_status t) (m\<lparr>mg_configReloadErr := Some (pipeline_message (su_detail su) pe)\<rparr>)"
    by (auto simp: Reload_def Let_def split: sum.splits)
  moreover have "pipeline_message (su_detail su) pe \<noteq> []" by (cases pe) (simp_all add: pipeline_message_def)
  ultimately show ?thesis by (simp add: updateStatusLocked_def error_message_def manager_Status_def Let_def)
qed

lemma reload_succeeded:
  assumes "Reload su t d data m = (Inr (snap, diff), m')"
  shows "mg_current m' = Some snap \<and> mg_baseYAML m' = data \<and> st_ConfigStatus (manager_Status m') = ConfigStatusOK
    \<and> diff = DiffConfigs (Current m) (sn_Config snap)"
  using assms by (auto simp: Reload_def Let_def updateStatusLocked_def error_message_def manager_Status_def sort_by_def
      Current_def split: sum.splits)


definition sample_deployment :: deployment where
  "sample_deployment = \<lparr>su_world = sample_world, su_lib = sample_lib, su_detail = (\<lambda>_. [])\<rparr>"

definition zero_times :: times where
  "zero_times = \<lparr>tm_pipeline = 0, tm_override = 0, tm_status = 0\<rparr>"

lemma sample_manager: "\<exists>m. NewManager sample_deployment zero_times Map.empty ''x'' [] = Inr m"
  using sample_pipeline_run
  by (cases "ValidatePipeline sample_world ''x'' 0") (simp_all add: NewManager_def sample_deployment_def zero_times_def Let_def)

definition broken_deployment :: deployment where
  "broken_deployment = sample_deployment\<lparr>su_world := sample_world\<lparr>wd_loader := None\<rparr>\<rparr>"


section \<open>Overrides survive a restart\<close>

lemma pipeline_clock:
  "ValidatePipeline wd data now = map_sum id (\<lambda>s. s\<lparr>sn_LoadedAt := now\<rparr>) (ValidatePipeline wd data now0)"
  by (auto simp: ValidatePipeline_def res_bind_def as_result_def split: option.split sum.split prod.split)

lemma override_clock:
  "applyOverrideToSnapshot (base\<lparr>sn_LoadedAt := t\<rparr>) ov loader now
   = map_sum id (\<lambda>s. s\<lparr>sn_LoadedAt := now\<rparr>) (applyOverrideToSnapshot base ov loader now0)"
  by (auto simp: applyOverrideToSnapshot_def Let_def res_bind_def split: option.split sum.split prod.split)

lemma normal_version_simps [simp]:
  "normal_version (normal_version ov) = normal_version ov" "lf_Widgets (normal_version ov) = lf_Widgets ov"
  by (simp_all add: normal_version_def)

lemma override_version: "applyOverrideToSnapshot base (normal_version ov) loader now = applyOverrideToSnapshot base ov loader now"
  unfolding applyOverrideToSnapshot_def normal_version_simps ..

lemma resolve_path_cong:
  "mg_overridePath m2 = mg_overridePath m \<Longrightarrow> mg_useConfigOverridePath m2 = mg_useConfigOverridePath m
    \<Longrightarrow> resolveOverridePath m2 s = resolveOverridePath m s"
  by (simp add: resolveOverridePath_def)

lemma resolve_path_clock: "resolveOverridePath m (Some (s\<lparr>sn_LoadedAt := now\<rparr>)) = resolveOverridePath m (Some s)"
  by (simp add: resolveOverridePath_def)

lemma apply_override_Inr:
  assumes "ApplyLayoutOverride su t f (Some ov) m d = (Inr (snap, diff), m', d')"
  obtains base where "ValidatePipeline (su_world su) (mg_baseYAML m) (tm_pipeline t) = Inr base"
    "applyOverrideToSnapshot base ov (wd_loader (su_world su)) (tm_override t) = Inr snap"
    "SaveLayoutOverrideAtomic (su_lib su) f (resolveOverridePath m (mg_current m)) (Some ov) d = (Inr (), d')"
    "resolveOverridePath m (mg_current m) \<noteq> []" "mg_current m' = Some snap"
  using assms by (auto simp: ApplyLayoutOverride_def Let_def updateStatusLocked_def split: if_splits sum.splits prod.splits)

lemma saved_override_loads:
  assumes "SaveLayoutOverrideAtomic lib f path (Some ov) d = (Inr (), d')" "path \<noteq> []" "sv_temp f \<noteq> path" "d (sv_temp f) = None"
    and "ol_Unmarshal lib (ol_Marshal lib (normal_version ov)) = Some (normal_version ov)"
  shows "LoadLayoutOverride lib d' path = Inr (normal_version ov)"
proof (cases "steps_work (sv_fails f)")
  case True
  then show ?thesis using save_outcome(1) [of path f d lib ov] assms by (simp add: LoadLayoutOverride_def)
next
  case False
  then show ?thesis using save_outcome(2) [of path f d lib ov] assms by auto
qed

text \<open>C37: An edited layout survives a restart. Once an override is accepted and saved, a manager started on the same base
  document and disk comes up with the same configuration, layout and packages as the one that accepted it. The YAML library must
  read back what it wrote, the temporary file must be new, and the options must lead to the same path.\<close>

theorem override_survives_restart:
  assumes "ApplyLayoutOverride su t f (Some ov) m d = (Inr (snap, diff), m', d')"
    and "path = resolveOverridePath m (mg_current m)" "sv_temp f \<noteq> path" "d (sv_temp f) = None"
    and "ol_Unmarshal (su_lib su) (ol_Marshal (su_lib su) (normal_version ov)) = Some (normal_version ov)"
    and "m0 = foldl apply_manager_option (zero_manager (mg_baseYAML m)) opts"
    and "mg_overridePath m0 = mg_overridePath m" "mg_useConfigOverridePath m0 = mg_useConfigOverridePath m"
    and "\<forall>base. ValidatePipeline (su_world su) (mg_baseYAML m) (tm_pipeline t) = Inr base
      \<longrightarrow> resolveOverridePath m (Some base) = path"
  shows "\<exists>m2. NewManager su t2 d' (mg_baseYAML m) opts = Inr m2 \<and> mg_current m' = Some snap
    \<and> mg_current m2 = Some (snap\<lparr>sn_LoadedAt := tm_override t2\<rparr>)"
proof -
  from assms(1) obtain base where v: "ValidatePipeline (su_world su) (mg_baseYAML m) (tm_pipeline t) = Inr base"
    and ap: "applyOverrideToSnapshot base ov (wd_loader (su_world su)) (tm_override t) = Inr snap"
    and save: "SaveLayoutOverrideAtomic (su_lib su) f path (Some ov) d = (Inr (), d')" and path: "path \<noteq> []"
    and cur: "mg_current m' = Some snap"
    unfolding assms(2) by (rule apply_override_Inr)
  let ?base = "base\<lparr>sn_LoadedAt := tm_pipeline t2\<rparr>"
  have "resolveOverridePath m0 (Some ?base) = path"
    using assms(9) v by (simp add: resolve_path_cong [OF assms(7,8)] resolve_path_clock)
  then have "applyDiskOverrideIfPresent su (tm_override t2) d' m0 ?base = snap\<lparr>sn_LoadedAt := tm_override t2\<rparr>"
    using saved_override_loads [OF save path assms(3-5)] override_clock [of "tm_pipeline t2" base ov _ "tm_override t2" "tm_override t"] ap path
    by (simp add: applyDiskOverrideIfPresent_def override_version)
  then show ?thesis using pipeline_clock [of "su_world su" "mg_baseYAML m" "tm_pipeline t2" "tm_pipeline t"] v cur assms(6)
    by (simp add: NewManager_def Let_def)
qed

definition stable_lib :: override_lib where
  "stable_lib = \<lparr>ol_Unmarshal = (\<lambda>_. Some (normal_version empty_override)), ol_Marshal = (\<lambda>_. ''v1'')\<rparr>"

definition stable_deployment :: deployment where
  "stable_deployment = sample_deployment\<lparr>su_lib := stable_lib\<rparr>"

definition no_faults :: save_faults where
  "no_faults = \<lparr>sv_temp = ''t'', sv_fails = (\<lambda>_. False), sv_partial = 0\<rparr>"

text \<open>What the operations of the witness give, with the clock widget alone on the screen.\<close>

lemma sample_override_run:
  "case NewManager stable_deployment zero_times Map.empty ''x'' [WithOverridePath ''o''] of
     Inl _ \<Rightarrow> False
   | Inr m \<Rightarrow> mg_baseYAML m = ''x'' \<and> mg_overridePath m = ''o'' \<and> \<not> mg_useConfigOverridePath m
       \<and> \<not> isl (fst (ApplyLayoutOverride stable_deployment zero_times no_faults (Some empty_override) m Map.empty))"
  by code_simp

theorem override_survives_restart_witness:
  "\<exists>m snap diff m' d' m2. NewManager stable_deployment zero_times Map.empty ''x'' [WithOverridePath ''o''] = Inr m
     \<and> ApplyLayoutOverride stable_deployment zero_times no_faults (Some empty_override) m Map.empty = (Inr (snap, diff), m', d')
     \<and> NewManager stable_deployment zero_times d' ''x'' [WithOverridePath ''o''] = Inr m2 \<and> mg_current m' = Some snap
     \<and> mg_current m2 = Some (snap\<lparr>sn_LoadedAt := 0\<rparr>)"
proof -
  obtain m where m: "NewManager stable_deployment zero_times Map.empty ''x'' [WithOverridePath ''o''] = Inr m"
    and f: "mg_baseYAML m = ''x''" "mg_overridePath m = ''o''" "\<not> mg_useConfigOverridePath m"
    and r: "\<not> isl (fst (ApplyLayoutOverride stable_deployment zero_times no_faults (Some empty_override) m Map.empty))"
    using sample_override_run by (auto split: sum.splits)
  obtain snap diff m' d' where
    run: "ApplyLayoutOverride stable_deployment zero_times no_faults (Some empty_override) m Map.empty = (Inr (snap, diff), m', d')"
    using r by (metis isl_def prod.collapse sum.exhaust)
  have path: "resolveOverridePath m s = ''o''" for s by (simp add: resolveOverridePath_def f)
  have "\<exists>m2. NewManager stable_deployment zero_times d' (mg_baseYAML m) [WithOverridePath ''o''] = Inr m2 \<and> mg_current m' = Some snap
    \<and> mg_current m2 = Some (snap\<lparr>sn_LoadedAt := tm_override zero_times\<rparr>)"
    by (rule override_survives_restart [OF run refl _ _ _ refl])
      (simp_all add: path f no_faults_def stable_deployment_def stable_lib_def zero_manager_def)
  then show ?thesis using m run unfolding f(1) zero_times_def by auto
qed

section \<open>Resetting\<close>

text \<open>
  A reset removes the file before it looks at the base document: when the document no longer passes, the reset fails with the
  override still on display and its file already gone, so that the next restart shows another layout.
\<close>

lemma reset_failure_loses_file:
  assumes "edit_allowed m" "path = resolveOverridePath m (mg_current m)" "path \<noteq> []" "d path \<noteq> None"
    and "ValidatePipeline (su_world su) (mg_baseYAML m) (tm_pipeline t) = Inl e"
  shows "ResetLayoutOverride su t False m d = (Inl (BaseInvalid e), m, d(path := None))"
  using assms by (auto simp: ResetLayoutOverride_def RemoveLayoutOverride_def Let_def)

end
