(* ===== verification/Event_Sse.thy ===== *)
theory Event_Sse
  imports Event_Model
begin

text \<open>
  What the event frames and identifiers promise: a reader that follows the grammar of the
  event-stream format gets back every event the server wrote, keep-alive comments and all, and the
  identifiers a generator draws never repeat.
\<close>

subsection \<open>Identifiers\<close>

lemma append_sep_inject:
  assumes "xs @ c # ys = xs' @ c # ys'" "c \<notin> set xs" "c \<notin> set xs'"
  shows "xs = xs' \<and> ys = ys'"
  using assms
proof (induction xs arbitrary: xs')
  case Nil
  then show ?case by (cases xs') auto
next
  case (Cons x xs)
  then show ?case by (cases xs') auto
qed

lemma event_id_inject: "event_id t n = event_id t' n' \<Longrightarrow> n = n'"
  using append_sep_inject [of "show_int (time_unix t)" "CHR ''_''" "show_pad6 n" "show_int (time_unix t')" "show_pad6 n'"]
  by (simp add: event_id_def show_int_no_underscore)

lemma draw_ids_eq:
  "fst (draw_ids g ts) = map (\<lambda>(i, t). event_id t (unat (ig_seq g + of_nat (Suc i)))) (enumerate 0 ts)"
proof (induction ts arbitrary: g)
  case (Cons t ts)
  have "enumerate 0 (t # ts) = (0, t) # map (\<lambda>(i, u). (Suc i, u)) (enumerate 0 ts)"
    by (simp add: enumerate_Suc_eq apfst_def map_prod_def)
  moreover have "ig_seq g + 1 + of_nat (Suc i) = ig_seq g + of_nat (Suc (Suc i))" for i by simp
  ultimately show ?case
    using Cons by (simp add: Next_def Let_def case_prod_unfold comp_def add_ac)
qed simp

lemma of_nat_word_inject:
  assumes "(x :: u64) + of_nat (Suc i) = x + of_nat (Suc j)" "i < 2 ^ 64" "j < 2 ^ 64"
  shows "i = j"
proof -
  have "(of_nat i :: u64) = of_nat j" using assms(1) by simp
  then show ?thesis using assms(2,3) by (simp add: word_of_nat_eq_iff take_bit_nat_eq_self)
qed

lemma draw_ids_distinct:
  assumes "length ts < 2 ^ 64"
  shows "distinct (fst (draw_ids g ts))"
proof (unfold draw_ids_eq, subst distinct_conv_nth, intro allI impI notI)
  fix i j
  let ?xs = "map (\<lambda>(i, t). event_id t (unat (ig_seq g + of_nat (Suc i)))) (enumerate 0 ts)"
  assume ij: "i < length ?xs" "j < length ?xs" "i \<noteq> j" and eq: "?xs ! i = ?xs ! j"
  then have "unat (ig_seq g + of_nat (Suc i)) = unat (ig_seq g + of_nat (Suc j))"
    using event_id_inject by (simp add: nth_enumerate_eq del: of_nat_Suc)
  then have "ig_seq g + of_nat (Suc i) = ig_seq g + of_nat (Suc j)" by (rule unsigned_word_eqI)
  moreover have "i < 2 ^ 64" "j < 2 ^ 64" using ij assms by simp_all
  ultimately show False using of_nat_word_inject ij(3) by blast
qed

text \<open>Event identifiers are unique: as long as a generator is asked fewer than 2^64 times, no two
  identifiers it draws are equal, whatever the instants (equal, increasing or going back).\<close>

lemma event_ids_unique:
  assumes "length ts < 2 ^ 64"
  shows "distinct (fst (draw_ids g ts))"
  using assms by (rule draw_ids_distinct)

subsection \<open>Frames are plain text lines\<close>

text \<open>No byte below the space: in particular no line end.\<close>

definition printable :: "string \<Rightarrow> bool" where
  "printable s \<longleftrightarrow> (\<forall>c \<in> set s. 32 \<le> (of_char c :: nat))"

lemma printable_simps [simp]:
  "printable []" "printable (c # s) \<longleftrightarrow> 32 \<le> (of_char c :: nat) \<and> printable s"
  "printable (s @ t) \<longleftrightarrow> printable s \<and> printable t"
  by (auto simp: printable_def)

lemma printable_show_nat: "printable (show_nat n)"
  using show_nat_digits by (force simp: printable_def)

lemma printable_show_int [simp]: "printable (show_int i)"
  by (simp add: show_int_def printable_show_nat)

lemma hex_digit_printable: "n < 16 \<Longrightarrow> 32 \<le> (of_char (hex_digit n) :: nat)"
proof -
  assume "n < 16"
  then have "n \<in> set [0..<16]" by simp
  moreover have "\<forall>n \<in> set [0..<16]. 32 \<le> (of_char (hex_digit n) :: nat)" by code_simp
  ultimately show ?thesis by blast
qed

lemma printable_ascii_escape: "b < 128 \<Longrightarrow> printable (ascii_escape b)"
  by (simp add: ascii_escape_def u_escape_def hex_digit_printable)

lemma utf8_tail:
  assumes "128 \<le> b" "x \<in> set (take (utf8_len (b # bs) - 1) bs)"
  shows "128 \<le> x"
proof (cases bs)
  case (Cons c cs)
  show ?thesis
  proof (cases cs)
    case Nil
    then show ?thesis using assms Cons by (auto simp: cont_byte_def split: if_splits)
  next
    case ds: (Cons d ds)
    then show ?thesis
      using assms Cons by (cases ds) (auto simp: cont_byte_def take_Cons' split: if_splits)
  qed
qed (use assms in simp)

lemma printable_json_chars: "\<forall>b \<in> set bs. b < 256 \<Longrightarrow> printable (json_chars bs)"
proof (induction bs rule: json_chars.induct)
  case (2 b bs)
  have sub: "\<forall>x \<in> set (drop n bs). x < 256" for n using 2(6) by (auto dest: in_set_dropD)
  have tl: "\<forall>c \<in> set (take (utf8_len (b # bs) - 1) bs). 128 \<le> c \<and> c < 256" if "128 \<le> b"
    using utf8_tail [OF that] 2(6) by (auto dest: in_set_takeD)
  have "printable (map char_of (b # take (utf8_len (b # bs) - 1) bs))" if "128 \<le> b"
  proof -
    have "32 \<le> (of_char (char_of x :: char) :: nat)" if "x \<in> set (b # take (utf8_len (b # bs) - 1) bs)" for x
      using tl [OF \<open>128 \<le> b\<close>] that 2(6) \<open>128 \<le> b\<close> by (force simp del: utf8_len.simps)
    then show ?thesis by (simp only: printable_def set_map) blast
  qed
  then show ?case
    using 2 sub printable_ascii_escape [of b] by (auto simp: Let_def simp del: utf8_len.simps)
qed simp

lemma printable_json_string [simp]: "printable (json_string s)"
  by (simp add: json_string_def printable_json_chars)

lemma printable_comma_join: "(\<And>x. x \<in> set xs \<Longrightarrow> printable x) \<Longrightarrow> printable (comma_join xs)"
  by (induction xs rule: comma_join.induct) auto

text \<open>Number literals hold no control characters.\<close>

fun json_wf :: "json \<Rightarrow> bool" where
  "json_wf (JNum s) \<longleftrightarrow> printable s"
| "json_wf (JArr js) \<longleftrightarrow> (\<forall>j \<in> set js. json_wf j)"
| "json_wf (JObj ms) \<longleftrightarrow> (\<forall>m \<in> set ms. json_wf (snd m))"
| "json_wf _ \<longleftrightarrow> True"

lemma printable_json_text: "json_wf j \<Longrightarrow> printable (json_text j)"
proof (induction j rule: json_text.induct)
  case (6 js)
  then show ?case by (auto intro!: printable_comma_join)
next
  case (7 ms)
  have "printable (json_text v)" if "(k, v) \<in> set ms" for k v
    using 7(1) [OF that refl] 7(2) that by force
  then show ?case by (auto intro!: printable_comma_join)
qed auto

lemma printable_no_line_end: "printable s \<Longrightarrow> newline \<notin> set s \<and> cr \<notin> set s"
  by (auto simp: printable_def newline_def cr_def)

lemma replace_crlf_plain: "cr \<notin> set s \<Longrightarrow> replace_crlf s = s"
  by (induction s rule: replace_crlf.induct) auto

subsection \<open>A reader of the event stream\<close>

text \<open>Lines end with a line feed, a carriage return, or both; an unfinished last line is dropped.\<close>

function stream_lines :: "string \<Rightarrow> string \<Rightarrow> string list" where
  "stream_lines acc [] = []"
| "stream_lines acc (c # cs) =
     (if c = newline then rev acc # stream_lines [] cs
      else if c = cr then rev acc # stream_lines [] (if cs \<noteq> [] \<and> hd cs = newline then tl cs else cs)
      else stream_lines (c # acc) cs)"
  by pat_completeness auto
termination
  by (relation "measure (\<lambda>(acc, cs). length cs)") auto

record reader =
  rd_type :: string
  rd_data :: "string list"
  rd_id :: string

text \<open>A dispatched message: its type, identifier and data.\<close>

type_synonym message = "string \<times> string \<times> string"

fun join_lines :: "string list \<Rightarrow> string" where
  "join_lines [] = []"
| "join_lines [l] = l"
| "join_lines (l # m # ls) = l @ newline # join_lines (m # ls)"

definition field_of :: "string \<Rightarrow> string \<times> string" where
  "field_of l =
     (let name = takeWhile (\<lambda>c. c \<noteq> CHR '':'') l; rest = drop (Suc (length name)) l
      in (name, if rest \<noteq> [] \<and> hd rest = CHR '' '' then tl rest else rest))"

definition read_line :: "reader \<Rightarrow> string \<Rightarrow> reader \<times> message list" where
  "read_line r l =
     (if l = [] then
        (r\<lparr>rd_type := [], rd_data := []\<rparr>,
         if rd_data r = [] then []
         else [(if rd_type r = [] then ''message'' else rd_type r, rd_id r, join_lines (rd_data r))])
      else if hd l = CHR '':'' then (r, [])
      else let (name, v) = field_of l in
        (if name = ''event'' then r\<lparr>rd_type := v\<rparr>
         else if name = ''data'' then r\<lparr>rd_data := rd_data r @ [v]\<rparr>
         else if name = ''id'' then (if CHR 0x00 \<in> set v then r else r\<lparr>rd_id := v\<rparr>)
         else r, []))"

fun read_lines :: "reader \<Rightarrow> string list \<Rightarrow> message list" where
  "read_lines r [] = []"
| "read_lines r (l # ls) = (let (r', ms) = read_line r l in ms @ read_lines r' ls)"

definition read_stream :: "string \<Rightarrow> message list" where
  "read_stream s = read_lines \<lparr>rd_type = [], rd_data = [], rd_id = []\<rparr> (stream_lines [] s)"

subsection \<open>Reading back what was written\<close>

datatype sse_item = Ev Event | Ping gotime

fun item_text :: "sse_item \<Rightarrow> string" where
  "item_text (Ev e) = Format e"
| "item_text (Ping t) = FormatPing t"

definition event_ok :: "Event \<Rightarrow> bool" where
  "event_ok e \<longleftrightarrow> printable (ev_Type e) \<and> ev_Type e \<noteq> [] \<and> printable (ev_ID e) \<and> ev_ID e \<noteq> []
     \<and> json_wf (ev_Data e)"

fun item_ok :: "sse_item \<Rightarrow> bool" where
  "item_ok (Ev e) = event_ok e"
| "item_ok (Ping t) = True"

fun item_messages :: "sse_item \<Rightarrow> message list" where
  "item_messages (Ev e) = [(ev_Type e, ev_ID e, json_text (ev_Data e))]"
| "item_messages (Ping t) = []"

lemma stream_lines_line:
  "newline \<notin> set l \<Longrightarrow> cr \<notin> set l \<Longrightarrow> stream_lines acc (l @ newline # cs) = (rev acc @ l) # stream_lines [] cs"
  by (induction l arbitrary: acc) auto

lemma item_lines:
  assumes "item_ok it"
  shows "stream_lines [] (item_text it @ cs) =
     (case it of
        Ev e \<Rightarrow> [''event: '' @ ev_Type e, ''id: '' @ ev_ID e, ''data: '' @ json_text (ev_Data e), []]
      | Ping t \<Rightarrow> ['': ping '' @ show_int (time_unix t), []]) @ stream_lines [] cs"
proof (cases it)
  case (Ev e)
  note ok = assms [unfolded Ev item_ok.simps event_ok_def]
  have pl: "printable (ev_Type e)" "printable (ev_ID e)" "printable (json_text (ev_Data e))" "ev_ID e \<noteq> []"
    using ok printable_json_text by auto
  have "Format e @ cs = (''event: '' @ ev_Type e) @ newline # ((''id: '' @ ev_ID e) @ newline #
      ((''data: '' @ json_text (ev_Data e)) @ newline # ([] @ newline # cs)))"
    using pl(3,4) printable_no_line_end [OF pl(3)] by (simp add: Format_def format_frame_def replace_crlf_plain)
  moreover have "printable (''event: '' @ ev_Type e)" "printable (''id: '' @ ev_ID e)"
    "printable (''data: '' @ json_text (ev_Data e))" using pl by simp_all
  ultimately show ?thesis
    unfolding Ev item_text.simps
    by (simp only: stream_lines_line printable_no_line_end simp_thms list.set empty_iff) simp
next
  case (Ping t)
  have "FormatPing t @ cs = ('': ping '' @ show_int (time_unix t)) @ newline # ([] @ newline # cs)"
    by (simp add: FormatPing_def)
  moreover have "printable ('': ping '' @ show_int (time_unix t))" by simp
  ultimately show ?thesis
    unfolding Ping item_text.simps
    by (simp only: stream_lines_line printable_no_line_end simp_thms list.set empty_iff) simp
qed

lemma read_item:
  assumes "item_ok it" "rd_type r = []" "rd_data r = []"
  shows "\<exists>r'. rd_type r' = [] \<and> rd_data r' = []
    \<and> read_lines r (stream_lines [] (item_text it @ cs)) = item_messages it @ read_lines r' (stream_lines [] cs)"
proof (cases it)
  case (Ev e)
  have id: "CHR 0x00 \<notin> set (ev_ID e)" "ev_Type e \<noteq> []"
    using assms(1) by (auto simp: Ev event_ok_def printable_def)
  show ?thesis
    using assms id unfolding item_lines [OF assms(1)]
    by (intro exI [of _ "r\<lparr>rd_id := ev_ID e, rd_type := [], rd_data := []\<rparr>"])
      (simp add: Ev read_line_def field_of_def Let_def)
next
  case (Ping t)
  then show ?thesis
    using assms unfolding item_lines [OF assms(1)]
    by (intro exI [of _ "r\<lparr>rd_type := [], rd_data := []\<rparr>"]) (simp add: Ping read_line_def)
qed

lemma read_items:
  assumes "\<forall>it \<in> set items. item_ok it" "rd_type r = []" "rd_data r = []"
  shows "read_lines r (stream_lines [] (concat (map item_text items))) = concat (map item_messages items)"
  using assms
proof (induction items arbitrary: r)
  case (Cons it items)
  from read_item [of it r "concat (map item_text items)"] Cons.prems obtain r' where
    r': "rd_type r' = []" "rd_data r' = []" and
    eq: "read_lines r (stream_lines [] (item_text it @ concat (map item_text items)))
      = item_messages it @ read_lines r' (stream_lines [] (concat (map item_text items)))" by auto
  show ?case using eq Cons.IH [OF _ r'] Cons.prems(1) by simp
qed simp

text \<open>C12: The event stream reads back: from any interleaving of event frames and keep-alive pings, a
  reader of the event-stream grammar dispatches exactly the events, in order, each with the type,
  identifier and JSON text it was published with, and nothing for the pings.\<close>

theorem sse_roundtrip:
  assumes "\<forall>it \<in> set items. item_ok it"
  shows "read_stream (concat (map item_text items)) = concat (map item_messages items)"
  unfolding read_stream_def by (rule read_items [OF assms]) simp_all

theorem sse_roundtrip_witness:
  "read_stream (concat (map item_text
     [Ping 1000000000, Ev \<lparr>ev_ID = ''evt_1_000001'', ev_Type = ''theme.update'',
        ev_Data = JObj [(''theme'', JStr ''night'')], ev_Timestamp = 1\<rparr>]))
   = concat (map item_messages
     [Ping 1000000000, Ev \<lparr>ev_ID = ''evt_1_000001'', ev_Type = ''theme.update'',
        ev_Data = JObj [(''theme'', JStr ''night'')], ev_Timestamp = 1\<rparr>])"
  by (rule sse_roundtrip) (simp add: event_ok_def)

end
