(* ===== verification/Json_Codec.thy ===== *)
theory Json_Codec
  imports Event_Model Domain
begin

text \<open>
  What the program uses of \<^verbatim>\<open>json.Unmarshal\<close>: decoding of scalars, pointers, slices and
  structures from a document. A decoder updates the value it is given and returns \<open>None\<close> on a type
  error; a member whose name matches no field is skipped, names match up to case, and \<open>null\<close>
  leaves a scalar alone. The codec of \<^verbatim>\<open>domain.Dimension\<close> is built from these.
\<close>

type_synonym 'a decoder = "json \<Rightarrow> 'a \<Rightarrow> 'a option"

definition in_int64 :: "int \<Rightarrow> bool" where
  "in_int64 i \<longleftrightarrow> - (2 ^ 63) \<le> i \<and> i < 2 ^ 63"

fun dec_int :: "int decoder" where
  "dec_int (JInt i) _ = (if in_int64 i then Some i else None)"
| "dec_int JNull x = Some x"
| "dec_int _ _ = None"

fun dec_bool :: "bool decoder" where
  "dec_bool (JBool b) _ = Some b"
| "dec_bool JNull x = Some x"
| "dec_bool _ _ = None"

fun dec_string :: "string decoder" where
  "dec_string (JStr s) _ = Some s"
| "dec_string JNull x = Some x"
| "dec_string _ _ = None"

definition dec_any :: "json decoder" where
  "dec_any j _ = Some j"

fun dec_ptr :: "'a \<Rightarrow> 'a decoder \<Rightarrow> 'a option decoder" where
  "dec_ptr zero d JNull _ = Some None"
| "dec_ptr zero d j x = map_option Some (d j (case x of None \<Rightarrow> zero | Some y \<Rightarrow> y))"

fun dec_all :: "'a \<Rightarrow> 'a decoder \<Rightarrow> json list \<Rightarrow> 'a list option" where
  "dec_all zero d [] = Some []"
| "dec_all zero d (j # js) =
     (case d j zero of None \<Rightarrow> None
      | Some x \<Rightarrow> (case dec_all zero d js of None \<Rightarrow> None | Some xs \<Rightarrow> Some (x # xs)))"

text \<open>A slice decoded into a nil slice.\<close>

fun dec_slice :: "'a \<Rightarrow> 'a decoder \<Rightarrow> 'a list option decoder" where
  "dec_slice zero d JNull _ = Some None"
| "dec_slice zero d (JArr js) _ = map_option Some (dec_all zero d js)"
| "dec_slice zero d _ _ = None"

text \<open>A \<^verbatim>\<open>[2]int\<close>: missing elements are zeroed, further ones skipped.\<close>

fun dec_pair :: "(int \<times> int) decoder" where
  "dec_pair (JArr []) _ = Some (0, 0)"
| "dec_pair (JArr [a]) p = map_option (\<lambda>x. (x, 0)) (dec_int a (fst p))"
| "dec_pair (JArr (a # b # _)) p =
     (case (dec_int a (fst p), dec_int b (snd p)) of (Some x, Some y) \<Rightarrow> Some (x, y) | _ \<Rightarrow> None)"
| "dec_pair JNull p = Some p"
| "dec_pair _ _ = None"

text \<open>Field names match up to case: ASCII letters, and the two other characters whose case folding is an
  ASCII letter, the long s and the Kelvin sign.\<close>

definition lower_char :: "char \<Rightarrow> char" where
  "lower_char c = (let n = (of_char c :: nat) in if 65 \<le> n \<and> n \<le> 90 then char_of (n + 32) else c)"

fun fold_name :: "string \<Rightarrow> string" where
  "fold_name [] = []"
| "fold_name (c # cs) =
     (if c = CHR 0xC5 \<and> take 1 cs = [CHR 0xBF] then CHR ''s'' # fold_name (drop 1 cs)
      else if c = CHR 0xE2 \<and> take 2 cs = [CHR 0x84, CHR 0xAA] then CHR ''k'' # fold_name (drop 2 cs)
      else lower_char c # fold_name cs)"

text \<open>The fields of a structure with their decoders, and the members of an object decoded in order.\<close>

type_synonym 'a fields = "(string \<times> 'a decoder) list"

definition dec_member :: "'a fields \<Rightarrow> string \<times> json \<Rightarrow> 'a \<Rightarrow> 'a option" where
  "dec_member fs m x =
     (case filter (\<lambda>f. fold_name (fst f) = fold_name (fst m)) fs of
        [] \<Rightarrow> Some x
      | f # _ \<Rightarrow> snd f (snd m) x)"

fun dec_members :: "'a fields \<Rightarrow> (string \<times> json) list \<Rightarrow> 'a \<Rightarrow> 'a option" where
  "dec_members fs [] x = Some x"
| "dec_members fs (m # ms) x =
     (case dec_member fs m x of None \<Rightarrow> None | Some y \<Rightarrow> dec_members fs ms y)"

fun dec_struct :: "'a fields \<Rightarrow> 'a decoder" where
  "dec_struct fs (JObj ms) x = dec_members fs ms x"
| "dec_struct fs JNull x = Some x"
| "dec_struct fs _ x = None"

text \<open>A decoder of a field from a decoder of its values.\<close>

definition on_field :: "('a \<Rightarrow> 'b) \<Rightarrow> ('b \<Rightarrow> 'a \<Rightarrow> 'a) \<Rightarrow> 'b decoder \<Rightarrow> 'a decoder" where
  "on_field get put d j x = map_option (\<lambda>v. put v x) (d j (get x))"

subsection \<open>Dimensions\<close>

definition MarshalDimension :: "Dimension \<Rightarrow> json" where
  "MarshalDimension d = JArr [JInt (Cols d), JInt (Rows d)]"

definition UnmarshalDimension :: "Dimension decoder" where
  "UnmarshalDimension j _ =
     (case dec_slice 0 dec_int j None of
        Some sl \<Rightarrow>
          (case sl of Some [c, r] \<Rightarrow> Some \<lparr>Cols = c, Rows = r\<rparr> | _ \<Rightarrow> None)
      | None \<Rightarrow>
          dec_struct [(''cols'', on_field Cols (\<lambda>v d. d\<lparr>Cols := v\<rparr>) dec_int),
                      (''rows'', on_field Rows (\<lambda>v d. d\<lparr>Rows := v\<rparr>) dec_int)] j
            \<lparr>Cols = 0, Rows = 0\<rparr>)"

definition dimension_in_range :: "Dimension \<Rightarrow> bool" where
  "dimension_in_range d \<longleftrightarrow> in_int64 (Cols d) \<and> in_int64 (Rows d)"

lemma dimension_roundtrip [simp]:
  "dimension_in_range d \<Longrightarrow> UnmarshalDimension (MarshalDimension d) x = Some d"
  by (simp add: UnmarshalDimension_def MarshalDimension_def dimension_in_range_def)

lemma dec_all_roundtrip:
  "(\<And>x y. x \<in> set xs \<Longrightarrow> d (enc x) y = Some x) \<Longrightarrow> dec_all zero d (map enc xs) = Some xs"
  by (induction xs) simp_all

end
