(* ===== verification/Clock.thy ===== *)
theory Clock
  imports Prelude
begin

text \<open>
  The text of an instant as \<^verbatim>\<open>t.UTC().Format(time.RFC3339)\<close> writes it, by conversion of the day
  number to a date of the proleptic Gregorian calendar.
\<close>

definition show_pad :: "nat \<Rightarrow> int \<Rightarrow> string" where
  "show_pad w i =
     (let s = show_nat (nat (abs i)) in
      (if i < 0 then ''-'' else []) @ replicate (w - length s) (CHR ''0'') @ s)"

definition civil_from_days :: "int \<Rightarrow> int \<times> int \<times> int" where
  "civil_from_days days =
     (let z = days + 719468; era = z div 146097; doe = z - era * 146097;
          yoe = (doe - doe div 1460 + doe div 36524 - doe div 146096) div 365;
          doy = doe - (365 * yoe + yoe div 4 - yoe div 100);
          mp = (5 * doy + 2) div 153;
          d = doy - (153 * mp + 2) div 5 + 1;
          m = (if mp < 10 then mp + 3 else mp - 9);
          y = yoe + era * 400
      in (if m \<le> 2 then y + 1 else y, m, d))"

definition rfc3339 :: "gotime \<Rightarrow> string" where
  "rfc3339 t =
     (let sec = time_unix t; days = sec div 86400; s = sec mod 86400;
          (y, m, d) = civil_from_days days
      in show_pad 4 y @ ''-'' @ show_pad 2 m @ ''-'' @ show_pad 2 d @ ''T''
         @ show_pad 2 (s div 3600) @ '':'' @ show_pad 2 (s div 60 mod 60) @ '':'' @ show_pad 2 (s mod 60) @ ''Z'')"

text \<open>Dates at the ends of leap and common years.\<close>

lemma rfc3339_epoch: "rfc3339 0 = ''1970-01-01T00:00:00Z''"
  by code_simp

lemma rfc3339_leap_day: "rfc3339 (951827696 * second) = ''2000-02-29T12:34:56Z''"
  by code_simp

end
