(* ===== verification/Event_State.thy ===== *)
theory Event_State
  imports Json_Codec Config_Model Clock
begin

text \<open>
  \<^verbatim>\<open>internal/events/hydration.go\<close>: the payloads of the events with their JSON forms, the state
  provider that remembers the last state of every subsystem, and the batch of events a newly connected
  client is hydrated with. A manager, when one is attached, is represented by the snapshot and status it
  reports. A temperature is only passed through, and kept as the number literal it is encoded as.
\<close>

subsection \<open>Payloads\<close>

record ScreenRotateWidget =
  sw_WidgetID :: string
  sw_Origin :: "int \<times> int"
  sw_Dimensions :: Dimension

record ScreenRotateData =
  sr_CurrentScreen :: int
  sr_TotalScreens :: int
  sr_IntervalSeconds :: int
  sr_Widgets :: "ScreenRotateWidget list option"

record WidgetUpdateData =
  wu_WidgetID :: string
  wu_Timestamp :: string
  wu_State :: string
  wu_Data :: json

record HeaderWeather =
  hw_Temperature :: json
  hw_Units :: string
  hw_WeatherCode :: int
  hw_Icon :: string
  hw_Condition :: string
  hw_Location :: string

record HeaderUpdateData =
  hu_Timestamp :: string
  hu_Timezone :: string
  hu_Weather :: "HeaderWeather option"

record VideoStateData =
  vs_Mode :: string
  vs_Primary :: json
  vs_Pip :: json

record AudioStateData =
  as_Volume :: int
  as_Muted :: bool

record VoiceStateData =
  vo_State :: string
  vo_Transcript :: "string option"
  vo_Reply :: "string option"
  vo_TTSEngine :: "string option"
  vo_Status :: "string option"

record SystemStatusData =
  ss_Online :: bool
  ss_Time :: string
  ss_ConfigStatus :: string
  ss_ConfigError :: "string option"
  ss_Providers :: "(string \<times> string) list"
  ss_BootID :: string

subsection \<open>Their JSON forms\<close>

definition j_pair :: "int \<times> int \<Rightarrow> json" where
  "j_pair p = JArr [JInt (fst p), JInt (snd p)]"

definition j_opt_str :: "string option \<Rightarrow> json" where
  "j_opt_str s = (case s of None \<Rightarrow> JNull | Some x \<Rightarrow> JStr x)"

text \<open>A member with \<^verbatim>\<open>omitempty\<close>.\<close>

definition omit_empty :: "bool \<Rightarrow> string \<times> json \<Rightarrow> (string \<times> json) list" where
  "omit_empty is_empty m = (if is_empty then [] else [m])"

definition j_rotate_widget :: "ScreenRotateWidget \<Rightarrow> json" where
  "j_rotate_widget w = JObj [(''widget_id'', JStr (sw_WidgetID w)), (''origin'', j_pair (sw_Origin w)),
     (''dimensions'', MarshalDimension (sw_Dimensions w))]"

definition j_rotate :: "ScreenRotateData \<Rightarrow> json" where
  "j_rotate d = JObj [(''current_screen'', JInt (sr_CurrentScreen d)), (''total_screens'', JInt (sr_TotalScreens d)),
     (''interval_seconds'', JInt (sr_IntervalSeconds d)),
     (''widgets'', case sr_Widgets d of None \<Rightarrow> JNull | Some ws \<Rightarrow> JArr (map j_rotate_widget ws))]"

definition j_widget_update :: "WidgetUpdateData \<Rightarrow> json" where
  "j_widget_update d = JObj [(''widget_id'', JStr (wu_WidgetID d)), (''timestamp'', JStr (wu_Timestamp d)),
     (''state'', JStr (wu_State d)), (''data'', wu_Data d)]"

definition j_weather :: "HeaderWeather \<Rightarrow> json" where
  "j_weather w = JObj ([(''temperature'', hw_Temperature w), (''units'', JStr (hw_Units w)),
     (''weather_code'', JInt (hw_WeatherCode w)), (''icon'', JStr (hw_Icon w))]
     @ omit_empty (hw_Condition w = []) (''condition'', JStr (hw_Condition w))
     @ omit_empty (hw_Location w = []) (''location'', JStr (hw_Location w)))"

definition j_header :: "HeaderUpdateData \<Rightarrow> json" where
  "j_header d = JObj ([(''timestamp'', JStr (hu_Timestamp d)), (''timezone'', JStr (hu_Timezone d))]
     @ (case hu_Weather d of None \<Rightarrow> [] | Some w \<Rightarrow> [(''weather'', j_weather w)]))"

definition j_video :: "VideoStateData \<Rightarrow> json" where
  "j_video d = JObj [(''mode'', JStr (vs_Mode d)), (''primary'', vs_Primary d), (''pip'', vs_Pip d)]"

definition j_audio :: "AudioStateData \<Rightarrow> json" where
  "j_audio d = JObj [(''volume'', JInt (as_Volume d)), (''muted'', JBool (as_Muted d))]"

definition j_voice :: "VoiceStateData \<Rightarrow> json" where
  "j_voice d = JObj [(''state'', JStr (vo_State d)), (''transcript'', j_opt_str (vo_Transcript d)),
     (''reply'', j_opt_str (vo_Reply d)), (''tts_engine'', j_opt_str (vo_TTSEngine d)),
     (''status'', j_opt_str (vo_Status d))]"

definition j_theme :: "string \<Rightarrow> json" where
  "j_theme t = JObj [(''theme'', JStr t)]"

definition j_status :: "SystemStatusData \<Rightarrow> json" where
  "j_status d = JObj ([(''online'', JBool (ss_Online d)), (''time'', JStr (ss_Time d)),
     (''config_status'', JStr (ss_ConfigStatus d)), (''config_error'', j_opt_str (ss_ConfigError d))]
     @ omit_empty (ss_Providers d = []) (''providers'', JObj (map (\<lambda>(k, v). (k, JStr v)) (ss_Providers d)))
     @ omit_empty (ss_BootID d = []) (''boot_id'', JStr (ss_BootID d)))"

subsection \<open>Reading them back\<close>

definition zero_rotate_widget :: ScreenRotateWidget where
  "zero_rotate_widget = \<lparr>sw_WidgetID = [], sw_Origin = (0, 0), sw_Dimensions = \<lparr>Cols = 0, Rows = 0\<rparr>\<rparr>"

definition dec_rotate_widget :: "ScreenRotateWidget decoder" where
  "dec_rotate_widget = dec_struct
     [(''widget_id'', on_field sw_WidgetID (\<lambda>v d. d\<lparr>sw_WidgetID := v\<rparr>) dec_string),
      (''origin'', on_field sw_Origin (\<lambda>v d. d\<lparr>sw_Origin := v\<rparr>) dec_pair),
      (''dimensions'', on_field sw_Dimensions (\<lambda>v d. d\<lparr>sw_Dimensions := v\<rparr>) UnmarshalDimension)]"

definition dec_rotate :: "json \<Rightarrow> ScreenRotateData option" where
  "dec_rotate j = dec_struct
     [(''current_screen'', on_field sr_CurrentScreen (\<lambda>v d. d\<lparr>sr_CurrentScreen := v\<rparr>) dec_int),
      (''total_screens'', on_field sr_TotalScreens (\<lambda>v d. d\<lparr>sr_TotalScreens := v\<rparr>) dec_int),
      (''interval_seconds'', on_field sr_IntervalSeconds (\<lambda>v d. d\<lparr>sr_IntervalSeconds := v\<rparr>) dec_int),
      (''widgets'', on_field sr_Widgets (\<lambda>v d. d\<lparr>sr_Widgets := v\<rparr>) (dec_slice zero_rotate_widget dec_rotate_widget))]
     j \<lparr>sr_CurrentScreen = 0, sr_TotalScreens = 0, sr_IntervalSeconds = 0, sr_Widgets = None\<rparr>"

definition dec_audio :: "json \<Rightarrow> AudioStateData option" where
  "dec_audio j = dec_struct
     [(''volume'', on_field as_Volume (\<lambda>v d. d\<lparr>as_Volume := v\<rparr>) dec_int),
      (''muted'', on_field as_Muted (\<lambda>v d. d\<lparr>as_Muted := v\<rparr>) dec_bool)]
     j \<lparr>as_Volume = 0, as_Muted = False\<rparr>"

definition dec_video :: "json \<Rightarrow> VideoStateData option" where
  "dec_video j = dec_struct
     [(''mode'', on_field vs_Mode (\<lambda>v d. d\<lparr>vs_Mode := v\<rparr>) dec_string),
      (''primary'', on_field vs_Primary (\<lambda>v d. d\<lparr>vs_Primary := v\<rparr>) dec_any),
      (''pip'', on_field vs_Pip (\<lambda>v d. d\<lparr>vs_Pip := v\<rparr>) dec_any)]
     j \<lparr>vs_Mode = [], vs_Primary = JNull, vs_Pip = JNull\<rparr>"

definition dec_voice :: "json \<Rightarrow> VoiceStateData option" where
  "dec_voice j = dec_struct
     [(''state'', on_field vo_State (\<lambda>v d. d\<lparr>vo_State := v\<rparr>) dec_string),
      (''transcript'', on_field vo_Transcript (\<lambda>v d. d\<lparr>vo_Transcript := v\<rparr>) (dec_ptr [] dec_string)),
      (''reply'', on_field vo_Reply (\<lambda>v d. d\<lparr>vo_Reply := v\<rparr>) (dec_ptr [] dec_string)),
      (''tts_engine'', on_field vo_TTSEngine (\<lambda>v d. d\<lparr>vo_TTSEngine := v\<rparr>) (dec_ptr [] dec_string)),
      (''status'', on_field vo_Status (\<lambda>v d. d\<lparr>vo_Status := v\<rparr>) (dec_ptr [] dec_string))]
     j \<lparr>vo_State = [], vo_Transcript = None, vo_Reply = None, vo_TTSEngine = None, vo_Status = None\<rparr>"

definition dec_theme :: "json \<Rightarrow> string option" where
  "dec_theme j = dec_struct [(''theme'', dec_string)] j []"

subsection \<open>The state provider\<close>

record widgetStateEntry =
  we_data :: "json option"
  we_state :: string
  we_timestamp :: string

record InMemoryStateProvider =
  sp_mgr :: "(Snapshot option \<times> Status) option"
  sp_snapshot :: "Snapshot option"
  sp_status :: "Status option"
  sp_widgetStates :: "string \<rightharpoonup> widgetStateEntry"
  sp_weather :: "HeaderWeather option"
  sp_videoState :: "VideoStateData option"
  sp_audioState :: "AudioStateData option"
  sp_voiceState :: "VoiceStateData option"
  sp_theme :: string
  sp_providers :: "(string \<times> string) list"
  sp_screenRotate :: "ScreenRotateData option"
  sp_bootID :: string

definition default_video :: VideoStateData where
  "default_video = \<lparr>vs_Mode = ''widgets'', vs_Primary = JNull, vs_Pip = JNull\<rparr>"

definition default_audio :: AudioStateData where
  "default_audio = \<lparr>as_Volume = 75, as_Muted = False\<rparr>"

definition default_voice :: VoiceStateData where
  "default_voice = \<lparr>vo_State = ''idle'', vo_Transcript = None, vo_Reply = None, vo_TTSEngine = None, vo_Status = None\<rparr>"

definition NewInMemoryStateProvider :: "(Snapshot option \<times> Status) option \<Rightarrow> gotime \<Rightarrow> InMemoryStateProvider" where
  "NewInMemoryStateProvider mgr now =
     \<lparr>sp_mgr = mgr, sp_snapshot = None, sp_status = None, sp_widgetStates = Map.empty, sp_weather = None,
      sp_videoState = Some default_video, sp_audioState = Some default_audio, sp_voiceState = Some default_voice,
      sp_theme = ''day'', sp_providers = [], sp_screenRotate = None, sp_bootID = show_int now\<rparr>"

definition SetSnapshot :: "Snapshot option \<Rightarrow> InMemoryStateProvider \<Rightarrow> InMemoryStateProvider" where
  "SetSnapshot s p = p\<lparr>sp_snapshot := s\<rparr>"

definition CurrentSnapshot :: "InMemoryStateProvider \<Rightarrow> Snapshot option" where
  "CurrentSnapshot p = (case sp_mgr p of Some m \<Rightarrow> fst m | None \<Rightarrow> sp_snapshot p)"

definition SetStatus :: "Status \<Rightarrow> InMemoryStateProvider \<Rightarrow> InMemoryStateProvider" where
  "SetStatus s p = p\<lparr>sp_status := Some s\<rparr>"

definition CurrentStatus :: "InMemoryStateProvider \<Rightarrow> Status" where
  "CurrentStatus p =
     (case sp_mgr p of
        Some m \<Rightarrow> snd m
      | None \<Rightarrow> (case sp_status p of
           Some s \<Rightarrow> s
         | None \<Rightarrow> \<lparr>st_ConfigStatus = ConfigStatusOK, st_ConfigError = None, st_LastChecked = zero_time, st_LastSuccess = zero_time\<rparr>))"

definition SetWidgetState ::
    "string \<Rightarrow> json option \<Rightarrow> string \<Rightarrow> string list \<Rightarrow> InMemoryStateProvider \<Rightarrow> InMemoryStateProvider" where
  "SetWidgetState wid data state timestamp p =
     p\<lparr>sp_widgetStates := (sp_widgetStates p)(wid \<mapsto>
        \<lparr>we_data = data, we_state = state, we_timestamp = (case timestamp of [] \<Rightarrow> [] | ts # _ \<Rightarrow> ts)\<rparr>)\<rparr>"

definition GetWidgetState :: "InMemoryStateProvider \<Rightarrow> string \<Rightarrow> (json option \<times> string \<times> string) option" where
  "GetWidgetState p wid =
     (case sp_widgetStates p wid of None \<Rightarrow> None | Some e \<Rightarrow> Some (we_data e, we_state e, we_timestamp e))"

definition GetWidgetTimestamp :: "InMemoryStateProvider \<Rightarrow> string \<Rightarrow> string option" where
  "GetWidgetTimestamp p wid =
     (case sp_widgetStates p wid of
        None \<Rightarrow> None | Some e \<Rightarrow> if we_timestamp e = [] then None else Some (we_timestamp e))"

definition SetHeaderWeather :: "HeaderWeather option \<Rightarrow> InMemoryStateProvider \<Rightarrow> InMemoryStateProvider" where
  "SetHeaderWeather w p = p\<lparr>sp_weather := w\<rparr>"

definition GetHeaderWeather :: "InMemoryStateProvider \<Rightarrow> HeaderWeather option" where
  "GetHeaderWeather p = sp_weather p"

definition SetVideoState :: "VideoStateData option \<Rightarrow> InMemoryStateProvider \<Rightarrow> InMemoryStateProvider" where
  "SetVideoState s p = p\<lparr>sp_videoState := s\<rparr>"

definition GetVideoState :: "InMemoryStateProvider \<Rightarrow> VideoStateData" where
  "GetVideoState p = derefOr (sp_videoState p) default_video"

definition SetAudioState :: "AudioStateData option \<Rightarrow> InMemoryStateProvider \<Rightarrow> InMemoryStateProvider" where
  "SetAudioState s p = p\<lparr>sp_audioState := s\<rparr>"

definition GetAudioState :: "InMemoryStateProvider \<Rightarrow> AudioStateData" where
  "GetAudioState p = derefOr (sp_audioState p) default_audio"

definition SetVoiceState :: "VoiceStateData option \<Rightarrow> InMemoryStateProvider \<Rightarrow> InMemoryStateProvider" where
  "SetVoiceState s p = p\<lparr>sp_voiceState := s\<rparr>"

definition GetVoiceState :: "InMemoryStateProvider \<Rightarrow> VoiceStateData" where
  "GetVoiceState p = derefOr (sp_voiceState p) default_voice"

definition SetTheme :: "string \<Rightarrow> InMemoryStateProvider \<Rightarrow> InMemoryStateProvider" where
  "SetTheme t p = p\<lparr>sp_theme := t\<rparr>"

definition GetTheme :: "InMemoryStateProvider \<Rightarrow> string" where
  "GetTheme p = (if sp_theme p \<noteq> [] then sp_theme p else ''day'')"

definition SetProvidersStatus :: "(string \<times> string) list \<Rightarrow> InMemoryStateProvider \<Rightarrow> InMemoryStateProvider" where
  "SetProvidersStatus ps p = p\<lparr>sp_providers := ps\<rparr>"

definition GetProvidersStatus :: "InMemoryStateProvider \<Rightarrow> (string \<times> string) list" where
  "GetProvidersStatus p = sp_providers p"

definition SetScreenRotateData :: "ScreenRotateData option \<Rightarrow> InMemoryStateProvider \<Rightarrow> InMemoryStateProvider" where
  "SetScreenRotateData d p = p\<lparr>sp_screenRotate := d\<rparr>"

definition GetScreenRotateData :: "InMemoryStateProvider \<Rightarrow> ScreenRotateData option" where
  "GetScreenRotateData p = sp_screenRotate p"

subsection \<open>Hydration\<close>

definition appendHydrationEvent ::
    "Event list \<Rightarrow> IDGenerator \<Rightarrow> gotime \<Rightarrow> string \<Rightarrow> json \<Rightarrow> Event list \<times> IDGenerator" where
  "appendHydrationEvent evs g now eventType payload =
     (let (i, g') = Next g now in
      (evs @ [\<lparr>ev_ID = i, ev_Type = eventType, ev_Data = payload, ev_Timestamp = now\<rparr>], g'))"

definition buildScreenRotateFromSnapshot :: "Snapshot option \<Rightarrow> ScreenRotateData" where
  "buildScreenRotateFromSnapshot snap =
     (let rd = \<lparr>sr_CurrentScreen = 0, sr_TotalScreens = 1, sr_IntervalSeconds = 30, sr_Widgets = Some []\<rparr> in
      case snap of None \<Rightarrow> rd | Some s \<Rightarrow>
      (case sn_Config s of None \<Rightarrow> rd | Some cfg \<Rightarrow>
       let rd' = rd\<lparr>sr_IntervalSeconds := GetIntervalSeconds (dc_Rotation (cf_Display cfg))\<rparr> in
       (case sn_Layout s of None \<Rightarrow> rd' | Some l \<Rightarrow>
        (case Screens l of [] \<Rightarrow> rd' | sc # _ \<Rightarrow>
           rd'\<lparr>sr_TotalScreens := TotalScreens l,
               sr_Widgets := Some (map (\<lambda>pw. \<lparr>sw_WidgetID = pw_WidgetID pw, sw_Origin = pw_Origin pw,
                  sw_Dimensions = pw_Dimensions pw\<rparr>) (sc_Widgets sc))\<rparr>))))"

definition config_status_string :: "ConfigStatus \<Rightarrow> string" where
  "config_status_string s =
     (case s of ConfigStatusOK \<Rightarrow> ''ok'' | ConfigStatusError \<Rightarrow> ''error'' | ConfigStatusOther x \<Rightarrow> x)"

definition buildSystemStatusData ::
    "InMemoryStateProvider option \<Rightarrow> Status \<Rightarrow> string \<Rightarrow> SystemStatusData" where
  "buildSystemStatusData provider status nowStr =
     (let cs = config_status_string (st_ConfigStatus status) in
      \<lparr>ss_Online = True, ss_Time = nowStr, ss_ConfigStatus = (if cs = [] then ''ok'' else cs),
       ss_ConfigError = st_ConfigError status,
       ss_Providers = (case provider of None \<Rightarrow> [] | Some p \<Rightarrow> GetProvidersStatus p),
       ss_BootID = (case provider of None \<Rightarrow> [] | Some p \<Rightarrow> sp_bootID p)\<rparr>)"

definition buildWidgetUpdatePayload ::
    "InMemoryStateProvider option \<Rightarrow> string \<Rightarrow> string \<Rightarrow> WidgetUpdateData" where
  "buildWidgetUpdatePayload provider wid nowStr =
     (let payload = \<lparr>wu_WidgetID = wid, wu_Timestamp = nowStr, wu_State = ''healthy'', wu_Data = JObj []\<rparr> in
      case provider of
        None \<Rightarrow> payload
      | Some p \<Rightarrow>
        let payload1 = (case GetWidgetState p wid of
              None \<Rightarrow> payload
            | Some (d, s, ts) \<Rightarrow>
                \<lparr>wu_WidgetID = wid, wu_Timestamp = (if ts \<noteq> [] then ts else nowStr),
                 wu_State = (if s \<noteq> [] then s else ''healthy''),
                 wu_Data = (case d of None \<Rightarrow> JObj [] | Some x \<Rightarrow> x)\<rparr>)
        in (case GetWidgetTimestamp p wid of
              Some ts \<Rightarrow> if ts \<noteq> [] then payload1\<lparr>wu_Timestamp := ts\<rparr> else payload1
            | None \<Rightarrow> payload1))"

definition appendWidgetHydrationEvents ::
    "Event list \<Rightarrow> Snapshot option \<Rightarrow> InMemoryStateProvider option \<Rightarrow> IDGenerator \<Rightarrow> gotime \<Rightarrow> string
     \<Rightarrow> Event list \<times> IDGenerator" where
  "appendWidgetHydrationEvents evs snap provider g now nowStr =
     (case snap of None \<Rightarrow> (evs, g) | Some s \<Rightarrow>
      (case sn_Config s of None \<Rightarrow> (evs, g) | Some cfg \<Rightarrow>
       foldl (\<lambda>(evs, g) w. appendHydrationEvent evs g now EventWidgetUpdate
                (j_widget_update (buildWidgetUpdatePayload provider (wc_ID w) nowStr)))
         (evs, g) (dc_Widgets (cf_Display cfg))))"

record hydration_state =
  hs_weather :: "HeaderWeather option"
  hs_tz :: string
  hs_video :: VideoStateData
  hs_audio :: AudioStateData
  hs_voice :: VoiceStateData
  hs_status :: Status
  hs_theme :: string

definition zero_status :: Status where
  "zero_status = \<lparr>st_ConfigStatus = ConfigStatusOther [], st_ConfigError = None,
     st_LastChecked = zero_time, st_LastSuccess = zero_time\<rparr>"

definition resolveSubsystemHydrationState ::
    "InMemoryStateProvider option \<Rightarrow> Snapshot option \<Rightarrow> hydration_state" where
  "resolveSubsystemHydrationState provider snap =
     (case provider of
        None \<Rightarrow> \<lparr>hs_weather = None, hs_tz = ''UTC'', hs_video = default_video, hs_audio = default_audio,
                 hs_voice = default_voice, hs_status = zero_status, hs_theme = ''day''\<rparr>
      | Some p \<Rightarrow>
          \<lparr>hs_weather = GetHeaderWeather p,
           hs_tz = (case snap of None \<Rightarrow> ''UTC'' | Some s \<Rightarrow>
              (case sn_Config s of None \<Rightarrow> ''UTC'' | Some cfg \<Rightarrow>
                 if cf_Timezone cfg \<noteq> [] then cf_Timezone cfg else ''UTC'')),
           hs_video = GetVideoState p, hs_audio = GetAudioState p, hs_voice = GetVoiceState p,
           hs_status = CurrentStatus p,
           hs_theme = (if GetTheme p \<noteq> [] then GetTheme p else ''day'')\<rparr>)"

definition BuildHydrationBatch ::
    "InMemoryStateProvider option \<Rightarrow> IDGenerator \<Rightarrow> gotime \<Rightarrow> Event list \<times> IDGenerator" where
  "BuildHydrationBatch provider g now =
     (let nowStr = rfc3339 now;
          snap = (case provider of None \<Rightarrow> None | Some p \<Rightarrow> CurrentSnapshot p);
          rotateData = (case provider of
              None \<Rightarrow> buildScreenRotateFromSnapshot snap
            | Some p \<Rightarrow> (case GetScreenRotateData p of Some rd \<Rightarrow> rd | None \<Rightarrow> buildScreenRotateFromSnapshot snap));
          (e1, g1) = appendHydrationEvent [] g now EventScreenRotate (j_rotate rotateData);
          (e2, g2) = appendWidgetHydrationEvents e1 snap provider g1 now nowStr;
          hs = resolveSubsystemHydrationState provider snap;
          (e3, g3) = appendHydrationEvent e2 g2 now EventHeaderUpdate
             (j_header \<lparr>hu_Timestamp = nowStr, hu_Timezone = hs_tz hs, hu_Weather = hs_weather hs\<rparr>);
          (e4, g4) = appendHydrationEvent e3 g3 now EventVideoState (j_video (hs_video hs));
          (e5, g5) = appendHydrationEvent e4 g4 now EventAudioState (j_audio (hs_audio hs));
          (e6, g6) = appendHydrationEvent e5 g5 now EventVoiceState (j_voice (hs_voice hs));
          (e7, g7) = appendHydrationEvent e6 g6 now EventSystemStatus
             (j_status (buildSystemStatusData provider (hs_status hs) nowStr))
      in appendHydrationEvent e7 g7 now EventThemeUpdate (j_theme (hs_theme hs)))"

end
