(* ===== verification/Event_Ring.thy ===== *)
theory Event_Ring
  imports Event_Model
begin

text \<open>
  \<^verbatim>\<open>internal/events/ring.go\<close>: the circular buffer of recent events. It is shown to implement a
  bounded log that keeps the newest entries, and replay from an event identifier to be a scan of that
  log. The clock the buffer reads is an argument of each operation.
\<close>

definition DefaultRingCapacity :: int where "DefaultRingCapacity = 1000"
definition DefaultRingTTL :: duration where "DefaultRingTTL = 300 * second"
definition MaxEventIDLength :: nat where "MaxEventIDLength = 128"

record ringEntry =
  re_event :: "Event option"
  re_createdAt :: gotime

record RingBuffer =
  rb_entries :: "ringEntry list"
  rb_capacity :: nat
  rb_ttl :: duration
  rb_head :: nat
  rb_count :: nat

definition NewRingBuffer :: "int \<Rightarrow> duration \<Rightarrow> RingBuffer" where
  "NewRingBuffer capacity0 ttl0 =
     (let capacity = nat (if capacity0 \<le> 0 then DefaultRingCapacity else capacity0);
          ttl = (if ttl0 \<le> 0 then DefaultRingTTL else ttl0)
      in \<lparr>rb_entries = replicate capacity \<lparr>re_event = None, re_createdAt = zero_time\<rparr>,
          rb_capacity = capacity, rb_ttl = ttl, rb_head = 0, rb_count = 0\<rparr>)"

text \<open>\<^verbatim>\<open>Add\<close> also stamps an event that carries no time; the stamped event is returned.\<close>

definition stamp :: "Event \<Rightarrow> gotime \<Rightarrow> Event" where
  "stamp e now = (if time_is_zero (ev_Timestamp e) then e\<lparr>ev_Timestamp := now\<rparr> else e)"

definition ring_Add :: "RingBuffer \<Rightarrow> Event \<Rightarrow> gotime \<Rightarrow> RingBuffer" where
  "ring_Add r e now =
     r\<lparr>rb_entries := (rb_entries r)[rb_head r := \<lparr>re_event = Some (stamp e now), re_createdAt = now\<rparr>],
       rb_head := (rb_head r + 1) mod rb_capacity r,
       rb_count := (if rb_count r < rb_capacity r then rb_count r + 1 else rb_count r)\<rparr>"

definition ring_start :: "RingBuffer \<Rightarrow> nat" where
  "ring_start r = (rb_head r + rb_capacity r - rb_count r) mod rb_capacity r"

definition ring_at :: "RingBuffer \<Rightarrow> nat \<Rightarrow> ringEntry" where
  "ring_at r i = rb_entries r ! ((ring_start r + i) mod rb_capacity r)"

definition entry_fresh :: "duration \<Rightarrow> gotime \<Rightarrow> ringEntry \<Rightarrow> bool" where
  "entry_fresh ttl now e \<longleftrightarrow>
     \<not> (time_sub now (re_createdAt e) < 0 \<or> time_sub now (re_createdAt e) > ttl)"

fun find_entry :: "RingBuffer \<Rightarrow> string \<Rightarrow> gotime \<Rightarrow> nat list \<Rightarrow> nat option" where
  "find_entry r lastEventID now [] = None"
| "find_entry r lastEventID now (i # is) =
     (case re_event (ring_at r i) of
        Some ev \<Rightarrow>
          if ev_ID ev = lastEventID
          then (if entry_fresh (rb_ttl r) now (ring_at r i) then Some i else None)
          else find_entry r lastEventID now is
      | None \<Rightarrow> find_entry r lastEventID now is)"

definition collect_entry :: "RingBuffer \<Rightarrow> gotime \<Rightarrow> nat \<Rightarrow> Event list" where
  "collect_entry r now i =
     (case re_event (ring_at r i) of
        Some ev \<Rightarrow> if entry_fresh (rb_ttl r) now (ring_at r i) then [ev] else []
      | None \<Rightarrow> [])"

definition ReplaySince :: "RingBuffer \<Rightarrow> string \<Rightarrow> gotime \<Rightarrow> Event list option" where
  "ReplaySince r lastEventID now =
     (if lastEventID = [] \<or> length lastEventID > MaxEventIDLength then None
      else if rb_count r = 0 then None
      else case find_entry r lastEventID now [0..<rb_count r] of
        None \<Rightarrow> None
      | Some foundIdx \<Rightarrow>
          if int (rb_count r) - 1 - int foundIdx \<le> 0 then Some []
          else Some (concat (map (collect_entry r now) [Suc foundIdx..<rb_count r])))"

subsection \<open>The interface: a bounded log\<close>

text \<open>A log that holds the newest entries up to its capacity, oldest first; adding an item appends the
  entry the log makes of it.\<close>

locale bounded_log =
  fixes inv :: "'l \<Rightarrow> bool"
    and capacity :: "'l \<Rightarrow> nat"
    and entries :: "'l \<Rightarrow> 'e list"
    and entry :: "'i \<Rightarrow> 'e"
    and add :: "'l \<Rightarrow> 'i \<Rightarrow> 'l"
  assumes add_inv: "inv l \<Longrightarrow> inv (add l i)"
    and add_capacity: "inv l \<Longrightarrow> capacity (add l i) = capacity l"
    and add_entries: "inv l \<Longrightarrow>
      entries (add l i) = drop (Suc (length (entries l)) - capacity l) (entries l @ [entry i])"
    and bounded: "inv l \<Longrightarrow> length (entries l) \<le> capacity l"
begin

lemma add_all_inv: "inv l \<Longrightarrow> inv (foldl add l is) \<and> capacity (foldl add l is) = capacity l"
  by (induction "is" arbitrary: l) (simp_all add: add_inv add_capacity)

lemma drop_newest:
  assumes "length xs \<le> n"
  shows "drop (length (drop (Suc (length xs) - n) (xs @ [e])) + m - n) (drop (Suc (length xs) - n) (xs @ [e]) @ ys)
     = drop (length xs + Suc m - n) (xs @ e # ys)"
proof -
  let ?k = "Suc (length xs) - n"
  have "drop ?k (xs @ [e]) @ ys = drop ?k (xs @ e # ys)" by (cases n) simp_all
  then have "drop (length (drop ?k (xs @ [e])) + m - n) (drop ?k (xs @ [e]) @ ys)
      = drop (length (drop ?k (xs @ [e])) + m - n + ?k) (xs @ e # ys)" by (simp only: drop_drop)
  also have "length (drop ?k (xs @ [e])) + m - n + ?k = length xs + Suc m - n"
    using assms by (cases "length xs = n") auto
  finally show ?thesis .
qed

text \<open>After any number of additions, the log holds the newest of the old and the added entries.\<close>

lemma newest_kept:
  "inv l \<Longrightarrow>
     entries (foldl add l is) = drop (length (entries l) + length is - capacity l) (entries l @ map entry is)"
proof (induction "is" arbitrary: l)
  case Nil
  then show ?case using bounded by simp
next
  case (Cons i "is")
  have "entries (foldl add (add l i) is)
      = drop (length (entries (add l i)) + length is - capacity l) (entries (add l i) @ map entry is)"
    using Cons.IH [OF add_inv [OF Cons.prems]] add_capacity [OF Cons.prems] by simp
  then show ?case
    using drop_newest [OF bounded [OF Cons.prems], of "entry i" "length is" "map entry is"]
      add_entries [OF Cons.prems] by simp
qed

end

subsection \<open>The buffer is such a log\<close>

definition ring_ok :: "RingBuffer \<Rightarrow> bool" where
  "ring_ok r \<longleftrightarrow> 0 < rb_capacity r \<and> length (rb_entries r) = rb_capacity r
     \<and> rb_head r < rb_capacity r \<and> rb_count r \<le> rb_capacity r \<and> 0 < rb_ttl r"

definition ring_list :: "RingBuffer \<Rightarrow> ringEntry list" where
  "ring_list r = map (ring_at r) [0..<rb_count r]"

lemma length_ring_list [simp]: "length (ring_list r) = rb_count r"
  by (simp add: ring_list_def)

lemma mod_shift_neq:
  assumes "i < j" "j < i + c" "(x + i) mod c = (x + j) mod (c :: nat)"
  shows False
proof -
  have "c dvd (x + j) - (x + i)" using assms by (metis mod_eq_dvd_iff_nat nat_add_left_cancel_le less_imp_le)
  then have "c dvd j - i" by simp
  moreover have "0 < j - i" "j - i < c" using assms by auto
  ultimately show False using nat_dvd_not_less by blast
qed

lemma ring_slot: "ring_ok r \<Longrightarrow> (ring_start r + i) mod rb_capacity r
   = (rb_head r + rb_capacity r - rb_count r + i) mod rb_capacity r"
  by (simp add: ring_start_def mod_add_left_eq)

text \<open>The slot after the last entry is the write position, and entries sit in different slots.\<close>

lemma ring_slot_count: "ring_ok r \<Longrightarrow> (ring_start r + rb_count r) mod rb_capacity r = rb_head r"
  by (simp add: ring_slot) (simp add: ring_ok_def)

lemma ring_slot_neq_head:
  assumes "ring_ok r" "i < rb_count r" "rb_count r < i + rb_capacity r"
  shows "(ring_start r + i) mod rb_capacity r \<noteq> rb_head r"
  using mod_shift_neq [OF assms(2,3), of "ring_start r"] ring_slot_count [OF assms(1)] by auto

lemma ring_ok_Add [inv_rules]: "ring_ok r \<Longrightarrow> ring_ok (ring_Add r e now)"
  by (simp add: ring_ok_def ring_Add_def)

lemma ring_start_Add:
  assumes "ring_ok r"
  shows "ring_start (ring_Add r e now) =
     (if rb_count r < rb_capacity r then ring_start r else (ring_start r + 1) mod rb_capacity r)"
proof (cases "rb_count r < rb_capacity r")
  case True
  show ?thesis
  proof (cases "rb_head r + 1 = rb_capacity r")
    case wrap: True
    have "rb_head r + rb_capacity r - rb_count r = (rb_capacity r - Suc (rb_count r)) + rb_capacity r"
      using True wrap by simp
    then have "(rb_head r + rb_capacity r - rb_count r) mod rb_capacity r = rb_capacity r - Suc (rb_count r)"
      using True by (simp only: mod_add_self2) simp
    then show ?thesis using True wrap by (simp add: ring_start_def ring_Add_def)
  next
    case False
    then have "rb_head r + 1 < rb_capacity r" using assms by (simp add: ring_ok_def)
    then show ?thesis using True by (simp add: ring_start_def ring_Add_def)
  qed
next
  case False
  then have "rb_count r = rb_capacity r" using assms by (simp add: ring_ok_def)
  then show ?thesis using assms by (simp add: ring_start_def ring_Add_def mod_Suc_eq)
qed

lemma ring_list_Add:
  assumes ok: "ring_ok r"
  shows "ring_list (ring_Add r e now) = drop (Suc (length (ring_list r)) - rb_capacity r)
     (ring_list r @ [\<lparr>re_event = Some (stamp e now), re_createdAt = now\<rparr>])"
proof -
  let ?new = "\<lparr>re_event = Some (stamp e now), re_createdAt = now\<rparr>" and ?r = "ring_Add r e now"
  have at: "ring_at ?r i = (if (ring_start ?r + i) mod rb_capacity r = rb_head r then ?new
      else rb_entries r ! ((ring_start ?r + i) mod rb_capacity r))" for i
    using ok by (auto simp: ring_at_def ring_Add_def ring_ok_def nth_list_update)
  show ?thesis
  proof (cases "rb_count r < rb_capacity r")
    case True
    have "ring_at ?r i = ring_at r i" if "i < rb_count r" for i
      using ring_slot_neq_head [OF ok that] True unfolding at ring_start_Add [OF ok] by (simp add: ring_at_def)
    moreover have "ring_at ?r (rb_count r) = ?new"
      using ring_slot_count [OF ok] True by (simp add: at ring_start_Add ok)
    moreover have "rb_count ?r = Suc (rb_count r)" using True by (simp add: ring_Add_def)
    ultimately show ?thesis using True by (simp add: ring_list_def)
  next
    case False
    then have c: "rb_count r = rb_capacity r" "rb_count ?r = rb_capacity r" "0 < rb_capacity r"
      using ok by (simp_all add: ring_ok_def ring_Add_def)
    have slot: "(ring_start ?r + i) mod rb_capacity r = (ring_start r + Suc i) mod rb_capacity r" for i
      using c by (simp add: ring_start_Add ok mod_simps)
    have "ring_at ?r i = ring_at r (Suc i)" if "Suc i < rb_count r" for i
      using ring_slot_neq_head [OF ok that] c unfolding at slot by (simp add: ring_at_def)
    moreover have "ring_at ?r (rb_count r - 1) = ?new"
      using ring_slot_count [OF ok] c unfolding at slot by simp
    ultimately have "ring_list ?r = map (\<lambda>i. ring_at r (Suc i)) [0..<rb_count r - 1] @ [?new]"
      using c by (cases "rb_capacity r") (simp_all add: ring_list_def)
    also have "map (\<lambda>i. ring_at r (Suc i)) [0..<rb_count r - 1] = drop 1 (ring_list r)"
      using c by (cases "rb_capacity r") (simp_all add: ring_list_def map_Suc_upt [symmetric] upt_conv_Cons del: upt_Suc)
    finally show ?thesis using c by (simp add: ring_list_def)
  qed
qed

lemma ring_ok_New: "ring_ok (NewRingBuffer c ttl)"
  by (simp add: ring_ok_def NewRingBuffer_def Let_def DefaultRingCapacity_def DefaultRingTTL_def second_def)

lemma ring_list_New: "ring_list (NewRingBuffer c ttl) = []"
  by (simp add: ring_list_def NewRingBuffer_def Let_def)

lemma ring_Add_frame [simp, frame]:
  "rb_capacity (ring_Add r e now) = rb_capacity r" "rb_ttl (ring_Add r e now) = rb_ttl r"
  by (simp_all add: ring_Add_def)

definition ring_push :: "RingBuffer \<Rightarrow> Event \<times> gotime \<Rightarrow> RingBuffer" where
  "ring_push r p = ring_Add r (fst p) (snd p)"

definition logged :: "Event \<times> gotime \<Rightarrow> ringEntry" where
  "logged p = \<lparr>re_event = Some (stamp (fst p) (snd p)), re_createdAt = snd p\<rparr>"

interpretation ring: bounded_log ring_ok rb_capacity ring_list logged ring_push
  by unfold_locales (auto simp: ring_push_def logged_def ring_list_Add ring_ok_Add, simp add: ring_ok_def)

subsection \<open>Replay is a scan of the log\<close>

text \<open>Replay as a specification on the list of entries: skip to the entry with the identifier; if it
  has not expired, the unexpired events after it.\<close>

definition replay_spec :: "duration \<Rightarrow> gotime \<Rightarrow> string \<Rightarrow> ringEntry list \<Rightarrow> Event list option" where
  "replay_spec ttl now lastID es =
     (case dropWhile (\<lambda>en. \<forall>ev. re_event en = Some ev \<longrightarrow> ev_ID ev \<noteq> lastID) es of
        [] \<Rightarrow> None
      | en # rest \<Rightarrow>
          if entry_fresh ttl now en
          then Some (map (the \<circ> re_event) (filter (\<lambda>en. re_event en \<noteq> None \<and> entry_fresh ttl now en) rest))
          else None)"

lemma collect_entries:
  "concat (map (collect_entry r now) is) =
     map (the \<circ> re_event) (filter (\<lambda>en. re_event en \<noteq> None \<and> entry_fresh (rb_ttl r) now en) (map (ring_at r) is))"
  by (induction "is") (auto simp: collect_entry_def split: option.split)

lemma find_entry_spec:
  assumes "i \<le> n"
  shows "(case find_entry r lastID now [i..<n] of None \<Rightarrow> None
      | Some f \<Rightarrow> Some (concat (map (collect_entry r now) [Suc f..<n])))
    = replay_spec (rb_ttl r) now lastID (map (ring_at r) [i..<n])"
  using assms
proof (induction "n - i" arbitrary: i)
  case 0
  then show ?case by (simp add: replay_spec_def)
next
  case (Suc d)
  then have u: "[i..<n] = i # [Suc i..<n]" by (simp add: upt_rec)
  have ih: "(case find_entry r lastID now [Suc i..<n] of None \<Rightarrow> None
      | Some f \<Rightarrow> Some (concat (map (collect_entry r now) [Suc f..<n])))
    = replay_spec (rb_ttl r) now lastID (map (ring_at r) [Suc i..<n])"
    using Suc by simp
  show ?case
  proof (cases "\<exists>ev. re_event (ring_at r i) = Some ev \<and> ev_ID ev = lastID")
    case True
    then show ?thesis unfolding u by (auto simp: replay_spec_def collect_entries)
  next
    case False
    then have "replay_spec (rb_ttl r) now lastID (map (ring_at r) (i # [Suc i..<n]))
      = replay_spec (rb_ttl r) now lastID (map (ring_at r) [Suc i..<n])"
      by (auto simp: replay_spec_def)
    moreover have "find_entry r lastID now (i # [Suc i..<n]) = find_entry r lastID now [Suc i..<n]"
      using False by (auto split: option.split)
    ultimately show ?thesis using ih unfolding u by simp
  qed
qed

lemma find_entry_lt: "find_entry r lastID now is = Some f \<Longrightarrow> f \<in> set is"
  by (induction "is") (auto split: option.splits if_splits)

lemma ReplaySince_spec:
  "ReplaySince r lastID now =
     (if lastID = [] \<or> length lastID > MaxEventIDLength then None
      else replay_spec (rb_ttl r) now lastID (ring_list r))"
proof -
  have "(case find_entry r lastID now [0..<rb_count r] of None \<Rightarrow> None
        | Some f \<Rightarrow> if int (rb_count r) - 1 - int f \<le> 0 then Some []
            else Some (concat (map (collect_entry r now) [Suc f..<rb_count r])))
     = replay_spec (rb_ttl r) now lastID (ring_list r)"
    using find_entry_spec [of 0 "rb_count r" r now lastID] unfolding ring_list_def
    by (cases "find_entry r lastID now [0..<rb_count r]") auto
  then show ?thesis by (auto simp: ReplaySince_def ring_list_def replay_spec_def)
qed

text \<open>C11: The ring buffer keeps the newest events: after any sequence of additions to a fresh buffer, its
  contents, oldest first, are the last \<^verbatim>\<open>capacity\<close> of the added events with their times, and
  \<^verbatim>\<open>ReplaySince\<close> answers from exactly that list: nothing for an empty, overlong, unknown or expired
  identifier, and otherwise the unexpired events that came after it, in order.\<close>

theorem ring_replays_newest:
  assumes "r = foldl ring_push (NewRingBuffer capacity ttl) added"
    "n = rb_capacity (NewRingBuffer capacity ttl)"
  shows "ring_list r = drop (length added - n) (map logged added)
    \<and> ReplaySince r lastID now =
        (if lastID = [] \<or> length lastID > MaxEventIDLength then None
         else replay_spec (rb_ttl r) now lastID (drop (length added - n) (map logged added)))"
  using ring.newest_kept [OF ring_ok_New, of capacity ttl added]
  by (simp add: ReplaySince_spec assms ring_list_New)

text \<open>A replay misses nothing while the entries are unexpired.\<close>

lemma replay_rest:
  assumes "ring_list r = before @ [en] @ rest" "re_event en = Some ev"
    "\<forall>e \<in> set before. \<forall>ev'. re_event e = Some ev' \<longrightarrow> ev_ID ev' \<noteq> ev_ID ev"
    "\<forall>e \<in> set (en # rest). re_event e \<noteq> None \<and> entry_fresh (rb_ttl r) now e"
    "ev_ID ev \<noteq> []" "length (ev_ID ev) \<le> MaxEventIDLength"
  shows "ReplaySince r (ev_ID ev) now = Some (map (the \<circ> re_event) rest)"
proof -
  have "dropWhile (\<lambda>e. \<forall>ev'. re_event e = Some ev' \<longrightarrow> ev_ID ev' \<noteq> ev_ID ev) (before @ en # rest) = en # rest"
    using assms(2,3) by (subst dropWhile_append2) auto
  moreover have "filter (\<lambda>e. re_event e \<noteq> None \<and> entry_fresh (rb_ttl r) now e) rest = rest"
    using assms(4) by simp
  ultimately show ?thesis using assms by (simp add: ReplaySince_spec replay_spec_def)
qed

definition sample_event :: "string \<Rightarrow> Event" where
  "sample_event i = \<lparr>ev_ID = i, ev_Type = EventThemeUpdate, ev_Data = JNull, ev_Timestamp = 5\<rparr>"

definition sample_ring :: RingBuffer where
  "sample_ring = foldl ring_push (NewRingBuffer 2 0) [(sample_event ''a'', 1), (sample_event ''b'', 2), (sample_event ''c'', 3)]"

theorem ring_replays_newest_witness:
  "ring_list sample_ring = drop (3 - 2) (map logged
     [(sample_event ''a'', 1), (sample_event ''b'', 2), (sample_event ''c'', 3)])
   \<and> ReplaySince sample_ring ''b'' 4 =
      (if ''b'' = [] \<or> length ''b'' > MaxEventIDLength then None
       else replay_spec (rb_ttl sample_ring) 4 ''b'' (drop (3 - 2) (map logged
         [(sample_event ''a'', 1), (sample_event ''b'', 2), (sample_event ''c'', 3)])))"
  using ring_replays_newest [OF sample_ring_def refl, of "''b''" 4]
  by (simp add: NewRingBuffer_def Let_def)

end
