(* ===== verification/Event_Hub.thy ===== *)
theory Event_Hub
  imports Event_State Event_Ring
begin

text \<open>
  \<^verbatim>\<open>internal/events/hub.go\<close>, \<^verbatim>\<open>dispatcher.go\<close> and the delivery part of
  \<^verbatim>\<open>handler.go\<close>. The hub holds the objects of all subscribers ever created and the
  identifiers of those registered; a subscriber's channel is the queue of the events it buffers. Each
  operation runs under the hub's locks and is one step; the clock is read once per step. The
  coordinators an operation calls back are parameters of it.
\<close>

definition DefaultSubscriberBuffer :: int where "DefaultSubscriberBuffer = 128"
definition DefaultHeartbeatInterval :: duration where "DefaultHeartbeatInterval = 15 * second"

record HubConfig =
  cg_RingCapacity :: int
  cg_RingTTL :: duration
  cg_HeartbeatInterval :: duration
  cg_SubscriberBuffer :: int

definition ApplyDefaults :: "HubConfig \<Rightarrow> HubConfig" where
  "ApplyDefaults c =
     \<lparr>cg_RingCapacity = (if cg_RingCapacity c \<le> 0 then DefaultRingCapacity else cg_RingCapacity c),
      cg_RingTTL = (if cg_RingTTL c \<le> 0 then DefaultRingTTL else cg_RingTTL c),
      cg_HeartbeatInterval = (if cg_HeartbeatInterval c \<le> 0 then DefaultHeartbeatInterval else cg_HeartbeatInterval c),
      cg_SubscriberBuffer = (if cg_SubscriberBuffer c \<le> 0 then DefaultSubscriberBuffer else cg_SubscriberBuffer c)\<rparr>"

datatype sendResult = sendSuccess | sendBufferFull | sendClosed

record subscriber =
  sb_id :: u64
  sb_ch :: "Event list"
  sb_done :: bool
  sb_closed :: bool

definition trySend :: "nat \<Rightarrow> subscriber \<Rightarrow> Event \<Rightarrow> subscriber \<times> sendResult" where
  "trySend buffer s evt =
     (if sb_closed s then (s, sendClosed)
      else if length (sb_ch s) < buffer then (s\<lparr>sb_ch := sb_ch s @ [evt]\<rparr>, sendSuccess)
      else (s, sendBufferFull))"

definition sub_close :: "subscriber \<Rightarrow> subscriber" where
  "sub_close s = (if \<not> sb_closed s then s\<lparr>sb_closed := True\<rparr> else s)"

record Hub =
  hb_cfg :: HubConfig
  hb_objs :: "subscriber list"
  hb_subscribers :: "u64 list"
  hb_ring :: RingBuffer
  hb_idGen :: IDGenerator
  hb_stateProvider :: "InMemoryStateProvider option"
  hb_nextSubID :: u64
  hb_closed :: bool

definition NewHub :: "HubConfig \<Rightarrow> InMemoryStateProvider option \<Rightarrow> Hub" where
  "NewHub cfg0 provider =
     (let cfg = ApplyDefaults cfg0 in
      \<lparr>hb_cfg = cfg, hb_objs = [], hb_subscribers = [],
       hb_ring = NewRingBuffer (cg_RingCapacity cfg) (cg_RingTTL cfg), hb_idGen = NewIDGenerator,
       hb_stateProvider = provider, hb_nextSubID = 0, hb_closed = False\<rparr>)"

definition update_sub :: "(subscriber \<Rightarrow> subscriber) \<Rightarrow> u64 \<Rightarrow> Hub \<Rightarrow> Hub" where
  "update_sub f i h = h\<lparr>hb_objs := map (\<lambda>s. if sb_id s = i then f s else s) (hb_objs h)\<rparr>"

definition find_sub :: "Hub \<Rightarrow> u64 \<Rightarrow> subscriber option" where
  "find_sub h i = find (\<lambda>s. sb_id s = i) (hb_objs h)"

definition Unsubscribe :: "u64 \<Rightarrow> Hub \<Rightarrow> Hub" where
  "Unsubscribe subID h =
     (if subID \<in> set (hb_subscribers h)
      then update_sub sub_close subID (h\<lparr>hb_subscribers := filter (\<lambda>i. i \<noteq> subID) (hb_subscribers h)\<rparr>)
      else h)"

definition Subscribe :: "bool \<Rightarrow> Hub \<Rightarrow> u64 \<times> Hub" where
  "Subscribe done h =
     (let subID = hb_nextSubID h + 1;
          sub = \<lparr>sb_id = subID, sb_ch = [], sb_done = done, sb_closed = False\<rparr>;
          h' = h\<lparr>hb_nextSubID := subID\<rparr>
      in if \<not> hb_closed h
         then (subID, h'\<lparr>hb_objs := hb_objs h @ [sub], hb_subscribers := hb_subscribers h @ [subID]\<rparr>)
         else (subID, h'\<lparr>hb_objs := hb_objs h @ [sub_close sub]\<rparr>))"

definition Close :: "Hub \<Rightarrow> Hub" where
  "Close h =
     (if hb_closed h then h
      else let subs = hb_subscribers h in
        foldl (\<lambda>h i. update_sub sub_close i h) (h\<lparr>hb_closed := True, hb_subscribers := []\<rparr>) subs)"

definition syncStateProvider :: "InMemoryStateProvider \<Rightarrow> Event \<Rightarrow> InMemoryStateProvider" where
  "syncStateProvider isp evt =
     (if ev_Type evt = EventScreenRotate then
        (case dec_rotate (ev_Data evt) of Some d \<Rightarrow> SetScreenRotateData (Some d) isp | None \<Rightarrow> isp)
      else if ev_Type evt = EventAudioState then
        (case dec_audio (ev_Data evt) of Some d \<Rightarrow> SetAudioState (Some d) isp | None \<Rightarrow> isp)
      else if ev_Type evt = EventVideoState then
        (case dec_video (ev_Data evt) of Some d \<Rightarrow> SetVideoState (Some d) isp | None \<Rightarrow> isp)
      else if ev_Type evt = EventVoiceState then
        (case dec_voice (ev_Data evt) of Some d \<Rightarrow> SetVoiceState (Some d) isp | None \<Rightarrow> isp)
      else if ev_Type evt = EventThemeUpdate then
        (case dec_theme (ev_Data evt) of Some t \<Rightarrow> SetTheme t isp | None \<Rightarrow> isp)
      else isp)"

definition buffer_size :: "Hub \<Rightarrow> nat" where
  "buffer_size h = nat (cg_SubscriberBuffer (hb_cfg h))"

text \<open>One turn of the fan-out loop: a subscriber whose context is done or whose buffer is full is
  dropped, any other gets the event.\<close>

definition send_to :: "Event \<Rightarrow> Hub \<Rightarrow> u64 \<Rightarrow> Hub" where
  "send_to evt h i =
     (case find_sub h i of
        None \<Rightarrow> h
      | Some s \<Rightarrow>
          if sb_done s then Unsubscribe i h
          else (case trySend (buffer_size h) s evt of
                  (s', sendBufferFull) \<Rightarrow> Unsubscribe i h
                | (s', _) \<Rightarrow> update_sub (\<lambda>_. s') i h))"

definition PublishEvent :: "Hub \<Rightarrow> Event option \<Rightarrow> gotime \<Rightarrow> Hub" where
  "PublishEvent h evt0 now =
     (case evt0 of
        None \<Rightarrow> h
      | Some evt1 \<Rightarrow>
        if hb_closed h then h
        else let evt2 = stamp evt1 now;
                 (evt, g) = (if ev_ID evt2 = [] then (let (i, g) = Next (hb_idGen h) now in (evt2\<lparr>ev_ID := i\<rparr>, g))
                             else (evt2, hb_idGen h));
                 h1 = h\<lparr>hb_idGen := g, hb_ring := ring_Add (hb_ring h) evt now,
                        hb_stateProvider := map_option (\<lambda>p. syncStateProvider p evt) (hb_stateProvider h)\<rparr>
             in foldl (send_to evt) h1 (hb_subscribers h1))"

definition Publish :: "Hub \<Rightarrow> string \<Rightarrow> json \<Rightarrow> gotime \<Rightarrow> Hub" where
  "Publish h eventType data now =
     (let (i, g) = Next (hb_idGen h) now in
      PublishEvent (h\<lparr>hb_idGen := g\<rparr>)
        (Some \<lparr>ev_ID = i, ev_Type = eventType, ev_Data = data, ev_Timestamp = now\<rparr>) now)"

definition hub_ReplaySince :: "Hub \<Rightarrow> string \<Rightarrow> gotime \<Rightarrow> Event list option" where
  "hub_ReplaySince h i now = ReplaySince (hb_ring h) i now"

definition BuildHydration :: "Hub \<Rightarrow> gotime \<Rightarrow> Event list \<times> Hub" where
  "BuildHydration h now =
     (let (evs, g) = BuildHydrationBatch (hb_stateProvider h) (hb_idGen h) now in (evs, h\<lparr>hb_idGen := g\<rparr>))"

subsection \<open>Dispatching reloads and status\<close>

definition dispatchTimezoneChange :: "Hub \<Rightarrow> Config \<Rightarrow> string \<Rightarrow> gotime \<Rightarrow> Hub" where
  "dispatchTimezoneChange h cfg nowStr now =
     (let weather = (case hb_stateProvider h of None \<Rightarrow> None | Some p \<Rightarrow> GetHeaderWeather p);
          tz = (if cf_Timezone cfg = [] then ''UTC'' else cf_Timezone cfg)
      in Publish h EventHeaderUpdate
           (j_header \<lparr>hu_Timestamp = nowStr, hu_Timezone = tz, hu_Weather = weather\<rparr>) now)"

definition DispatchSystemReload :: "Hub \<Rightarrow> string \<Rightarrow> string \<Rightarrow> gotime \<Rightarrow> Hub" where
  "DispatchSystemReload h reason timestamp now =
     Publish h EventSystemReload (JObj [(''reason'', JStr reason), (''timestamp'', JStr timestamp)]) now"

definition DispatchStyleReload :: "Hub \<Rightarrow> string \<Rightarrow> string \<Rightarrow> gotime \<Rightarrow> Hub" where
  "DispatchStyleReload h file timestamp now =
     Publish h EventStyleReload (JObj [(''file'', JStr file), (''timestamp'', JStr timestamp)]) now"

definition DispatchWidgetReload :: "Hub \<Rightarrow> string \<Rightarrow> gotime \<Rightarrow> Hub" where
  "DispatchWidgetReload h widgetType now = Publish h EventWidgetReload (JObj [(''type'', JStr widgetType)]) now"

text \<open>\<open>pc\<close> tells whether a provider coordinator is registered.\<close>

definition dispatchDegradedWidgetUpdates :: "Hub \<Rightarrow> bool \<Rightarrow> ConfigDiff \<Rightarrow> string \<Rightarrow> gotime \<Rightarrow> Hub" where
  "dispatchDegradedWidgetUpdates h pc diff nowStr now =
     (if pc then h
      else foldl (\<lambda>h m. if id_DomainChange m
             then Publish h EventWidgetUpdate (j_widget_update
                    \<lparr>wu_WidgetID = id_ID m, wu_Timestamp = nowStr, wu_State = ''degraded'', wu_Data = JObj []\<rparr>) now
             else h) h (cd_Modified diff))"

definition dispatchDiffReloads :: "Hub \<Rightarrow> bool \<Rightarrow> Snapshot \<Rightarrow> ConfigDiff option \<Rightarrow> gotime \<Rightarrow> Hub" where
  "dispatchDiffReloads h pc snapshot diff0 now =
     (case diff0 of
        None \<Rightarrow> h
      | Some diff \<Rightarrow>
        let nowStr = rfc3339 now;
            h1 = dispatchDegradedWidgetUpdates h pc diff nowStr now;
            h2 = (case sn_Config snapshot of
                    Some cfg \<Rightarrow> if cd_TimezoneChanged diff then dispatchTimezoneChange h1 cfg nowStr now else h1
                  | None \<Rightarrow> h1)
        in if cd_ShellChanged diff then DispatchSystemReload h2 ''shell_change'' nowStr now else h2)"

definition DispatchConfigReload ::
    "Hub \<Rightarrow> (Snapshot \<Rightarrow> Hub \<Rightarrow> Hub) option \<Rightarrow> (Snapshot \<Rightarrow> Hub \<Rightarrow> Hub) option
     \<Rightarrow> Snapshot option \<Rightarrow> ConfigDiff option \<Rightarrow> gotime \<Rightarrow> Hub" where
  "DispatchConfigReload h rc pc snapshot0 diff now =
     (case snapshot0 of
        None \<Rightarrow> h
      | Some snapshot \<Rightarrow>
        let h1 = h\<lparr>hb_stateProvider := map_option (SetSnapshot (Some snapshot)) (hb_stateProvider h)\<rparr>;
            h2 = (case rc of
                    Some update \<Rightarrow> update snapshot h1
                  | None \<Rightarrow> (case sn_Layout snapshot of
                       Some l \<Rightarrow> if Screens l \<noteq> []
                         then Publish h1 EventScreenRotate (j_rotate (buildScreenRotateFromSnapshot (Some snapshot))) now
                         else h1
                     | None \<Rightarrow> h1));
            h3 = (case pc of Some update \<Rightarrow> update snapshot h2 | None \<Rightarrow> h2)
        in dispatchDiffReloads h3 (pc \<noteq> None) snapshot diff now)"

definition DispatchStatus :: "Hub \<Rightarrow> Status \<Rightarrow> gotime \<Rightarrow> Hub" where
  "DispatchStatus h status now =
     (let p = map_option (SetStatus status) (hb_stateProvider h);
          h1 = h\<lparr>hb_stateProvider := p\<rparr>
      in Publish h1 EventSystemStatus (j_status (buildSystemStatusData p status (rfc3339 now))) now)"

subsection \<open>Connections\<close>

definition resolveLastEventID :: "string \<Rightarrow> string \<Rightarrow> string \<Rightarrow> string" where
  "resolveLastEventID header q1 q2 =
     (if TrimSpace header \<noteq> [] then TrimSpace header
      else if TrimSpace q1 \<noteq> [] then TrimSpace q1 else TrimSpace q2)"

definition prepareInitialEvents :: "Hub \<Rightarrow> string \<Rightarrow> gotime \<Rightarrow> (Event list \<times> string list option) \<times> Hub" where
  "prepareInitialEvents h lastEventID now =
     (if lastEventID = [] then (let (evs, h') = BuildHydration h now in ((evs, None), h'))
      else case hub_ReplaySince h lastEventID now of
        None \<Rightarrow> (let (evs, h') = BuildHydration h now in ((evs, None), h'))
      | Some replayed \<Rightarrow> ((replayed, Some (lastEventID # map ev_ID replayed)), h))"

text \<open>The state of a stream: the identifiers still to be skipped and what was written, and
  \<^verbatim>\<open>deliverEvent\<close>, which stops skipping at the first event it does not know.\<close>

record stream_state =
  ss_seen :: "string list option"
  ss_written :: "Event list"

definition deliverEvent :: "stream_state \<Rightarrow> Event \<Rightarrow> stream_state" where
  "deliverEvent st evt =
     (case ss_seen st of
        Some ids \<Rightarrow> if ev_ID evt \<in> set ids then st
                    else st\<lparr>ss_seen := None, ss_written := ss_written st @ [evt]\<rparr>
      | None \<Rightarrow> st\<lparr>ss_written := ss_written st @ [evt]\<rparr>)"

end
