(* ===== verification/Event_Hub_Props.thy ===== *)
theory Event_Hub_Props
  imports Event_Hub
begin

text \<open>
  Correctness of the event hub: the effect of a publication on every subscriber, the invariant of all
  states the hub can reach, delivery to a reconnecting client exactly once, and that the state a new
  client is hydrated with is the last one published.
\<close>

subsection \<open>Fan-out\<close>

definition has_room :: "nat \<Rightarrow> subscriber \<Rightarrow> bool" where
  "has_room buffer s \<longleftrightarrow> length (sb_ch s) < buffer"

text \<open>Whether a publication drops a registered subscriber, and what it does to one.\<close>

definition drops :: "nat \<Rightarrow> subscriber \<Rightarrow> bool" where
  "drops buffer s \<longleftrightarrow> sb_done s \<or> \<not> sb_closed s \<and> \<not> has_room buffer s"

definition fan_sub :: "nat \<Rightarrow> Event \<Rightarrow> subscriber \<Rightarrow> subscriber" where
  "fan_sub buffer evt s =
     (if drops buffer s then sub_close s
      else if sb_closed s then s else s\<lparr>sb_ch := sb_ch s @ [evt]\<rparr>)"

definition dropped :: "nat \<Rightarrow> subscriber list \<Rightarrow> u64 \<Rightarrow> bool" where
  "dropped buffer objs i \<longleftrightarrow> (\<exists>s \<in> set objs. sb_id s = i \<and> drops buffer s)"

lemma sub_close_id [simp]: "sb_id (sub_close s) = sb_id s" "sb_ch (sub_close s) = sb_ch s"
  "sb_done (sub_close s) = sb_done s" "sb_closed (sub_close s)"
  by (simp_all add: sub_close_def)

lemma fan_sub_id [simp]: "sb_id (fan_sub b evt s) = sb_id s"
  by (simp add: fan_sub_def)

lemma find_sub_mem:
  assumes "distinct (map sb_id (hb_objs h))" "s \<in> set (hb_objs h)"
  shows "find_sub h (sb_id s) = Some s"
proof -
  have "find (\<lambda>t. sb_id t = sb_id s) xs = Some s" if "distinct (map sb_id xs)" "s \<in> set xs" for xs
    using that by (induction xs) auto
  then show ?thesis using assms by (simp add: find_sub_def)
qed

lemma send_to_eq:
  assumes dist: "distinct (map sb_id (hb_objs h))" and s: "s \<in> set (hb_objs h)" "sb_id s = i"
    and i: "i \<in> set (hb_subscribers h)"
  shows "send_to evt h i = h\<lparr>
     hb_objs := map (\<lambda>t. if sb_id t = i then fan_sub (buffer_size h) evt t else t) (hb_objs h),
     hb_subscribers := filter (\<lambda>j. \<not> (j = i \<and> drops (buffer_size h) s)) (hb_subscribers h)\<rparr>"
proof -
  have uniq: "t = s" if "t \<in> set (hb_objs h)" "sb_id t = i" for t
    using that s dist by (metis distinct_map inj_onD)
  have f: "find_sub h i = Some s" using find_sub_mem [OF dist s(1)] s(2) by simp
  have upd: "map (\<lambda>t. if sb_id t = i then g t else t) (hb_objs h)
      = map (\<lambda>t. if sb_id t = i then fan_sub (buffer_size h) evt t else t) (hb_objs h)"
    if "g s = fan_sub (buffer_size h) evt s" for g
    using uniq that by (intro map_cong refl) auto
  show ?thesis
  proof (cases "drops (buffer_size h) s")
    case True
    then have "send_to evt h i = Unsubscribe i h"
      using f by (auto simp: send_to_def drops_def has_room_def trySend_def)
    moreover have "map (\<lambda>t. if sb_id t = i then sub_close t else t) (hb_objs h)
      = map (\<lambda>t. if sb_id t = i then fan_sub (buffer_size h) evt t else t) (hb_objs h)"
      by (rule upd) (simp add: fan_sub_def True)
    ultimately show ?thesis using i True by (simp add: Unsubscribe_def update_sub_def)
  next
    case False
    define s' where "s' = fan_sub (buffer_size h) evt s"
    have "send_to evt h i = update_sub (\<lambda>_. s') i h"
      using f False by (auto simp: send_to_def drops_def has_room_def trySend_def fan_sub_def s'_def)
    moreover have "map (\<lambda>t. if sb_id t = i then s' else t) (hb_objs h)
      = map (\<lambda>t. if sb_id t = i then fan_sub (buffer_size h) evt t else t) (hb_objs h)"
      by (rule upd [of "\<lambda>_. s'"]) (simp add: s'_def)
    ultimately show ?thesis using False by (simp add: update_sub_def)
  qed
qed

lemma fan_out_eq:
  assumes "distinct (map sb_id (hb_objs h))" "distinct is" "set is \<subseteq> set (hb_subscribers h)"
    "set is \<subseteq> sb_id ` set (hb_objs h)"
  shows "foldl (send_to evt) h is = h\<lparr>
     hb_objs := map (\<lambda>t. if sb_id t \<in> set is then fan_sub (buffer_size h) evt t else t) (hb_objs h),
     hb_subscribers := filter (\<lambda>j. \<not> (j \<in> set is \<and> dropped (buffer_size h) (hb_objs h) j)) (hb_subscribers h)\<rparr>"
  using assms
proof (induction "is" arbitrary: h)
  case (Cons i "is")
  from Cons.prems(4) obtain s where s: "s \<in> set (hb_objs h)" "sb_id s = i" by auto
  let ?h = "send_to evt h i" and ?b = "buffer_size h"
  note st = send_to_eq [OF Cons.prems(1) s, of evt]
  have h: "?h = h\<lparr>hb_objs := map (\<lambda>t. if sb_id t = i then fan_sub ?b evt t else t) (hb_objs h),
     hb_subscribers := filter (\<lambda>j. \<not> (j = i \<and> drops ?b s)) (hb_subscribers h)\<rparr>"
    using st Cons.prems(3) by simp
  have ids: "map sb_id (hb_objs ?h) = map sb_id (hb_objs h)" unfolding h by (simp add: comp_def if_distrib cong: if_cong)
  have b: "buffer_size ?h = ?b" unfolding h by (simp add: buffer_size_def)
  have "foldl (send_to evt) ?h is = ?h\<lparr>
     hb_objs := map (\<lambda>t. if sb_id t \<in> set is then fan_sub (buffer_size ?h) evt t else t) (hb_objs ?h),
     hb_subscribers := filter (\<lambda>j. \<not> (j \<in> set is \<and> dropped (buffer_size ?h) (hb_objs ?h) j)) (hb_subscribers ?h)\<rparr>"
  proof (rule Cons.IH)
    show "distinct (map sb_id (hb_objs ?h))" using Cons.prems(1) ids by simp
    show "set is \<subseteq> set (hb_subscribers ?h)" using Cons.prems(2,3) unfolding h by auto
    have "set (map sb_id (hb_objs ?h)) = set (map sb_id (hb_objs h))" using ids by simp
    then show "set is \<subseteq> sb_id ` set (hb_objs ?h)" using Cons.prems(4) by simp
  qed (use Cons.prems in simp)
  also have "\<dots> = h\<lparr>
     hb_objs := map (\<lambda>t. if sb_id t \<in> set (i # is) then fan_sub ?b evt t else t) (hb_objs h),
     hb_subscribers := filter (\<lambda>j. \<not> (j \<in> set (i # is) \<and> dropped ?b (hb_objs h) j)) (hb_subscribers h)\<rparr>"
  proof -
    have di: "dropped ?b (hb_objs h) i \<longleftrightarrow> drops ?b s"
      using s Cons.prems(1) by (auto simp: dropped_def) (metis distinct_map inj_onD)
    have dj: "dropped ?b (hb_objs ?h) j \<longleftrightarrow> dropped ?b (hb_objs h) j" if "j \<noteq> i" for j
      using that unfolding h by (auto simp: dropped_def)
    have "i \<notin> set is" using Cons.prems(2) by simp
    then have objs: "map (\<lambda>t. if sb_id t \<in> set is then fan_sub ?b evt t else t) (hb_objs ?h)
        = map (\<lambda>t. if sb_id t \<in> set (i # is) then fan_sub ?b evt t else t) (hb_objs h)"
      unfolding h by auto
    have subs: "filter (\<lambda>j. \<not> (j \<in> set is \<and> dropped ?b (hb_objs ?h) j)) (hb_subscribers ?h)
        = filter (\<lambda>j. \<not> (j \<in> set (i # is) \<and> dropped ?b (hb_objs h) j)) (hb_subscribers h)"
    proof -
      have "hb_subscribers ?h = filter (\<lambda>j. \<not> (j = i \<and> drops ?b s)) (hb_subscribers h)" unfolding h by simp
      moreover have "\<not> (j = i \<and> drops ?b s) \<and> \<not> (j \<in> set is \<and> dropped ?b (hb_objs ?h) j)
          \<longleftrightarrow> \<not> (j \<in> set (i # is) \<and> dropped ?b (hb_objs h) j)" for j
        using di dj [of j] \<open>i \<notin> set is\<close> by (cases "j = i") auto
      ultimately show ?thesis by (simp only: filter_filter)
    qed
    show ?thesis unfolding b objs subs unfolding h by simp
  qed
  finally show ?case by simp
qed simp

subsection \<open>Reachable states\<close>

definition hub_inv :: "Hub \<Rightarrow> bool" where
  "hub_inv h \<longleftrightarrow>
     distinct (map sb_id (hb_objs h)) \<and> distinct (hb_subscribers h)
     \<and> (\<forall>s \<in> set (hb_objs h). sb_id s \<in> set (hb_subscribers h) \<longleftrightarrow> \<not> sb_closed s)
     \<and> set (hb_subscribers h) \<subseteq> sb_id ` set (hb_objs h)
     \<and> (\<forall>s \<in> set (hb_objs h). length (sb_ch s) \<le> buffer_size h \<and> sb_id s \<le> hb_nextSubID h)
     \<and> (hb_closed h \<longrightarrow> hb_subscribers h = []) \<and> ring_ok (hb_ring h)"

lemma hub_invD:
  assumes "hub_inv h"
  shows "distinct (map sb_id (hb_objs h))" "distinct (hb_subscribers h)"
    "s \<in> set (hb_objs h) \<Longrightarrow> sb_id s \<in> set (hb_subscribers h) \<longleftrightarrow> \<not> sb_closed s"
    "set (hb_subscribers h) \<subseteq> sb_id ` set (hb_objs h)"
    "s \<in> set (hb_objs h) \<Longrightarrow> length (sb_ch s) \<le> buffer_size h"
    "s \<in> set (hb_objs h) \<Longrightarrow> sb_id s \<le> hb_nextSubID h"
    "hb_closed h \<Longrightarrow> hb_subscribers h = []" "ring_ok (hb_ring h)"
  using assms by (simp_all add: hub_inv_def)

inductive hub_step :: "Hub \<Rightarrow> Hub \<Rightarrow> bool" where
  publish: "hub_step h (Publish h eventType data now)"
| publish_event: "hub_step h (PublishEvent h evt now)"
| subscribe: "unat (hb_nextSubID h) + 1 < 2 ^ 64 \<Longrightarrow> hub_step h (snd (Subscribe done h))"
| unsubscribe: "hub_step h (Unsubscribe i h)"
| close: "hub_step h (Close h)"
| cancel: "hub_step h (update_sub (\<lambda>s. s\<lparr>sb_done := True\<rparr>) i h)"
| receive: "hub_step h (update_sub (\<lambda>s. s\<lparr>sb_ch := tl (sb_ch s)\<rparr>) i h)"
| hydrate: "hub_step h (snd (BuildHydration h now))"

inductive_cases hub_stepE: "hub_step h h'"

text \<open>A step that maps the subscriber objects and drops some registrations keeps the invariant when
  registration and open channels stay in step.\<close>

lemma hub_inv_map:
  assumes "hub_inv h" "\<And>s. sb_id (f s) = sb_id s"
    "hb_objs h' = map f (hb_objs h)" "hb_cfg h' = hb_cfg h" "hb_nextSubID h' = hb_nextSubID h"
    "ring_ok (hb_ring h')" "distinct (hb_subscribers h')" "set (hb_subscribers h') \<subseteq> set (hb_subscribers h)"
    "\<And>s. s \<in> set (hb_objs h) \<Longrightarrow> sb_id s \<in> set (hb_subscribers h') \<longleftrightarrow> \<not> sb_closed (f s)"
    "\<And>s. s \<in> set (hb_objs h) \<Longrightarrow> length (sb_ch (f s)) \<le> buffer_size h"
    "hb_closed h' \<Longrightarrow> hb_subscribers h' = []"
  shows "hub_inv h'"
proof -
  note D = hub_invD [OF assms(1)]
  have "sb_id ` set (hb_objs h') = sb_id ` set (hb_objs h)" unfolding assms(3) by (simp add: image_image assms(2))
  then have "set (hb_subscribers h') \<subseteq> sb_id ` set (hb_objs h')" using order_trans [OF assms(8) D(4)] by simp
  then show ?thesis
    unfolding hub_inv_def using assms(2-) D by (simp add: comp_def buffer_size_def)
qed

lemma hub_inv_update_sub:
  assumes "hub_inv h" "\<And>s. sb_id (f s) = sb_id s \<and> sb_closed (f s) = sb_closed s \<and> length (sb_ch (f s)) \<le> length (sb_ch s)"
  shows "hub_inv (update_sub f i h)"
proof -
  note D = hub_invD [OF assms(1)]
  have len: "length (sb_ch (f s)) \<le> buffer_size h" if "s \<in> set (hb_objs h)" for s
    using assms(2) [of s] D(5) [OF that] by linarith
  show ?thesis
    by (rule hub_inv_map [OF assms(1), where f = "\<lambda>s. if sb_id s = i then f s else s"])
      (use assms(2) D len in \<open>auto simp: update_sub_def\<close>)
qed

lemma hub_inv_frame:
  assumes "hub_inv h" "hb_objs h' = hb_objs h" "hb_subscribers h' = hb_subscribers h" "hb_cfg h' = hb_cfg h"
    "hb_nextSubID h' = hb_nextSubID h" "hb_closed h' = hb_closed h" "ring_ok (hb_ring h')"
  shows "hub_inv h'"
  using assms by (simp add: hub_inv_def buffer_size_def)

lemma hub_inv_fan_out:
  assumes "hub_inv h"
  shows "hub_inv (foldl (send_to evt) h (hb_subscribers h))"
proof -
  note D = hub_invD [OF assms]
  let ?b = "buffer_size h" and ?S = "set (hb_subscribers h)"
  let ?f = "\<lambda>t. if sb_id t \<in> ?S then fan_sub ?b evt t else t"
  have eq: "foldl (send_to evt) h (hb_subscribers h) = h\<lparr>hb_objs := map ?f (hb_objs h),
     hb_subscribers := filter (\<lambda>j. \<not> (j \<in> ?S \<and> dropped ?b (hb_objs h) j)) (hb_subscribers h)\<rparr>"
    by (rule fan_out_eq [OF D(1,2) _ D(4)]) simp
  have id: "sb_id (?f t) = sb_id t" for t by simp
  have drop: "dropped ?b (hb_objs h) (sb_id s) \<longleftrightarrow> drops ?b s" if "s \<in> set (hb_objs h)" for s
    using that D(1) by (auto simp: dropped_def) (metis distinct_map inj_onD)
  have len: "length (sb_ch (?f s)) \<le> ?b" if "s \<in> set (hb_objs h)" for s
    using D(5) [OF that] by (auto simp: fan_sub_def drops_def has_room_def)
  have cl: "sb_closed (?f s) \<longleftrightarrow> \<not> (sb_id s \<in> ?S \<and> \<not> dropped ?b (hb_objs h) (sb_id s))"
    if "s \<in> set (hb_objs h)" for s
    using D(3) [OF that] drop [OF that] by (auto simp: fan_sub_def)
  show ?thesis
    unfolding eq by (rule hub_inv_map [OF assms, where f = ?f]) (use D(2,7,8) len in \<open>auto simp: cl\<close>)
qed

text \<open>A publication on an open hub is the fan-out of the completed event.\<close>

definition completed :: "Hub \<Rightarrow> Event \<Rightarrow> gotime \<Rightarrow> Event" where
  "completed h evt now =
     (let e = stamp evt now in if ev_ID e = [] then e\<lparr>ev_ID := fst (Next (hb_idGen h) now)\<rparr> else e)"

definition recorded :: "Hub \<Rightarrow> Event \<Rightarrow> gotime \<Rightarrow> Hub" where
  "recorded h evt now = h\<lparr>hb_idGen := (if ev_ID (stamp evt now) = [] then snd (Next (hb_idGen h) now) else hb_idGen h),
     hb_ring := ring_Add (hb_ring h) (completed h evt now) now,
     hb_stateProvider := map_option (\<lambda>p. syncStateProvider p (completed h evt now)) (hb_stateProvider h)\<rparr>"

lemma recorded_frame [simp, frame]:
  "hb_objs (recorded h evt now) = hb_objs h" "hb_subscribers (recorded h evt now) = hb_subscribers h"
  "hb_cfg (recorded h evt now) = hb_cfg h" "hb_nextSubID (recorded h evt now) = hb_nextSubID h"
  "hb_closed (recorded h evt now) = hb_closed h" "buffer_size (recorded h evt now) = buffer_size h"
  "hb_ring (recorded h evt now) = ring_Add (hb_ring h) (completed h evt now) now"
  by (simp_all add: recorded_def buffer_size_def)

lemma PublishEvent_eq:
  "PublishEvent h (Some evt) now =
     (if hb_closed h then h
      else foldl (send_to (completed h evt now)) (recorded h evt now) (hb_subscribers h))"
  by (simp add: PublishEvent_def completed_def recorded_def Let_def case_prod_unfold)

lemma hub_inv_recorded: "hub_inv h \<Longrightarrow> hub_inv (recorded h evt now)"
  by (rule hub_inv_frame) (simp_all add: ring_ok_Add hub_invD(8))

lemma hub_inv_PublishEvent: "hub_inv h \<Longrightarrow> hub_inv (PublishEvent h evt now)"
proof (cases evt)
  case (Some e)
  assume "hub_inv h"
  from hub_inv_fan_out [OF hub_inv_recorded [OF this]] this show ?thesis
    by (simp add: Some PublishEvent_eq)
qed (simp add: PublishEvent_def)

lemma hub_inv_Publish: "hub_inv h \<Longrightarrow> hub_inv (Publish h ty d now)"
  unfolding Publish_def case_prod_unfold Let_def
  by (rule hub_inv_PublishEvent, rule hub_inv_frame) (simp_all add: hub_invD(8))

lemma hub_inv_Subscribe:
  assumes "hub_inv h" "unat (hb_nextSubID h) + 1 < 2 ^ 64"
  shows "hub_inv (snd (Subscribe d h))"
proof -
  note D = hub_invD [OF assms(1)]
  let ?i = "hb_nextSubID h + 1"
  have lt: "hb_nextSubID h < ?i"
    using assms(2) by (simp add: word_less_nat_alt unat_word_ariths)
  have le: "sb_id s < ?i" if "s \<in> set (hb_objs h)" for s using D(6) [OF that] lt by (rule le_less_trans)
  then have fresh: "?i \<notin> sb_id ` set (hb_objs h)" by (metis imageE less_irrefl)
  then have "?i \<notin> set (hb_subscribers h)" using D(4) by blast
  with fresh show ?thesis
    unfolding hub_inv_def Subscribe_def Let_def using D le
    by (auto simp: buffer_size_def sub_close_def less_imp_le image_iff)
qed

lemma hub_inv_Unsubscribe:
  assumes "hub_inv h" shows "hub_inv (Unsubscribe i h)"
proof -
  note D = hub_invD [OF assms]
  show ?thesis
  proof (cases "i \<in> set (hb_subscribers h)")
    case True
    show ?thesis
      by (rule hub_inv_map [OF assms, where f = "\<lambda>s. if sb_id s = i then sub_close s else s"])
        (use True D in \<open>auto simp: Unsubscribe_def update_sub_def\<close>)
  qed (simp add: Unsubscribe_def assms)
qed

lemma close_fold:
  "foldl (\<lambda>h i. update_sub sub_close i h) h is
     = h\<lparr>hb_objs := map (\<lambda>s. if sb_id s \<in> set is then sub_close s else s) (hb_objs h)\<rparr>"
proof (induction "is" arbitrary: h)
  case (Cons i "is")
  have idem: "sub_close (sub_close s) = sub_close s" for s by (simp add: sub_close_def)
  show ?case unfolding foldl_Cons Cons.IH by (auto simp: update_sub_def idem)
qed simp

lemma hub_inv_Close:
  assumes "hub_inv h" shows "hub_inv (Close h)"
proof (cases "hb_closed h")
  case False
  note D = hub_invD [OF assms]
  show ?thesis
    by (rule hub_inv_map [OF assms, where f = "\<lambda>s. if sb_id s \<in> set (hb_subscribers h) then sub_close s else s"])
      (use False D in \<open>auto simp: Close_def Let_def close_fold\<close>)
qed (use assms in \<open>simp add: Close_def\<close>)

lemma hub_inv_step: "hub_step h h' \<Longrightarrow> hub_inv h \<Longrightarrow> hub_inv h'"
proof (induction rule: hub_step.induct)
  case (hydrate h now)
  then show ?case
    by (rule hub_inv_frame) (simp_all add: BuildHydration_def case_prod_unfold Let_def hub_invD(8) [OF hydrate])
qed (auto intro: hub_inv_PublishEvent hub_inv_Publish hub_inv_Subscribe hub_inv_Unsubscribe hub_inv_Close
      intro!: hub_inv_update_sub)

lemma hub_inv_NewHub: "hub_inv (NewHub cfg p)"
  by (simp add: hub_inv_def NewHub_def Let_def ring_ok_New)

text \<open>C7: In every state the hub can reach by publishing, subscribing, unsubscribing, closing, cancelling
  and receiving, subscriber identifiers are unique, exactly the subscribers with an open channel are
  registered, no channel holds more events than its buffer, and after the hub is closed every channel is
  closed.\<close>

theorem hub_reachable_invariant:
  assumes "hub_step\<^sup>*\<^sup>* (NewHub cfg p) h"
  shows "distinct (map sb_id (hb_objs h))
    \<and> (\<forall>s \<in> set (hb_objs h). (sb_id s \<in> set (hb_subscribers h) \<longleftrightarrow> \<not> sb_closed s)
         \<and> length (sb_ch s) \<le> buffer_size h \<and> (hb_closed h \<longrightarrow> sb_closed s))"
proof -
  have "hub_inv h"
    using assms
  proof (induction rule: rtranclp_induct)
    case (step h h')
    then show ?case using hub_inv_step by blast
  qed (rule hub_inv_NewHub)
  note D = hub_invD [OF this]
  have "sb_closed s" if "hb_closed h" "s \<in> set (hb_objs h)" for s
    using D(3) [OF that(2)] D(7) [OF that(1)] by simp
  with D(1,3,5) show ?thesis by simp
qed

subsection \<open>What a publication does to every subscriber\<close>

lemma fan_out_objs:
  assumes "hub_inv h"
  shows "hb_objs (foldl (send_to evt) h (hb_subscribers h))
      = map (\<lambda>t. if sb_id t \<in> set (hb_subscribers h) then fan_sub (buffer_size h) evt t else t) (hb_objs h)"
    "hb_subscribers (foldl (send_to evt) h (hb_subscribers h))
      = filter (\<lambda>j. \<not> dropped (buffer_size h) (hb_objs h) j) (hb_subscribers h)"
    "hb_ring (foldl (send_to evt) h (hb_subscribers h)) = hb_ring h"
    "hb_cfg (foldl (send_to evt) h (hb_subscribers h)) = hb_cfg h"
    "hb_closed (foldl (send_to evt) h (hb_subscribers h)) = hb_closed h"
    "hb_stateProvider (foldl (send_to evt) h (hb_subscribers h)) = hb_stateProvider h"
    "hb_idGen (foldl (send_to evt) h (hb_subscribers h)) = hb_idGen h"
  using fan_out_eq [OF hub_invD(1,2) [OF assms] _ hub_invD(4) [OF assms], of evt]
  by (auto intro: filter_cong)

lemma dropped_iff:
  "hub_inv h \<Longrightarrow> s \<in> set (hb_objs h) \<Longrightarrow> dropped b (hb_objs h) (sb_id s) \<longleftrightarrow> drops b s"
  using hub_invD(1) [of h] by (auto simp: dropped_def) (metis distinct_map inj_onD)

lemma publish_objs:
  assumes "hub_inv h" "\<not> hb_closed h"
  shows "hb_objs (PublishEvent h (Some evt) now)
      = map (\<lambda>t. if sb_id t \<in> set (hb_subscribers h) then fan_sub (buffer_size h) (completed h evt now) t else t) (hb_objs h)"
    "hb_subscribers (PublishEvent h (Some evt) now)
      = filter (\<lambda>j. \<not> dropped (buffer_size h) (hb_objs h) j) (hb_subscribers h)"
    "hb_ring (PublishEvent h (Some evt) now) = ring_Add (hb_ring h) (completed h evt now) now"
    "hb_closed (PublishEvent h (Some evt) now) = hb_closed h"
    "buffer_size (PublishEvent h (Some evt) now) = buffer_size h"
    "hb_stateProvider (PublishEvent h (Some evt) now)
      = map_option (\<lambda>p. syncStateProvider p (completed h evt now)) (hb_stateProvider h)"
  using fan_out_objs [OF hub_inv_recorded [OF assms(1)], of "completed h evt now" evt now] assms(2)
  by (simp_all add: PublishEvent_eq buffer_size_def recorded_def)

lemma reachable_inv: "hub_step\<^sup>*\<^sup>* (NewHub cfg p) h \<Longrightarrow> hub_inv h"
proof (induction rule: rtranclp_induct)
  case (step h h')
  then show ?case using hub_inv_step by blast
qed (rule hub_inv_NewHub)

text \<open>C8: Publishing reaches every live subscriber and only those: in a reachable open hub, each registered
  subscriber whose context is alive and whose buffer has room gets the event at the end of its queue and
  stays registered; one whose context is done or whose buffer is full is unregistered and its channel
  closed with the events it already held; every other subscriber object is left alone. The event is
  recorded for replay.\<close>

theorem publish_reaches_subscribers:
  assumes "hub_step\<^sup>*\<^sup>* (NewHub cfg p) h" "\<not> hb_closed h" "s \<in> set (hb_objs h)"
    "h' = PublishEvent h (Some evt) now" "e = completed h evt now"
  shows "\<exists>s' \<in> set (hb_objs h'). sb_id s' = sb_id s
    \<and> (if sb_id s \<in> set (hb_subscribers h)
       then (if sb_done s \<or> length (sb_ch s) \<ge> buffer_size h
             then sb_closed s' \<and> sb_ch s' = sb_ch s \<and> sb_id s \<notin> set (hb_subscribers h')
             else sb_ch s' = sb_ch s @ [e] \<and> \<not> sb_closed s' \<and> sb_id s \<in> set (hb_subscribers h'))
       else s' = s \<and> sb_id s \<notin> set (hb_subscribers h'))
    \<and> last (ring_list (hb_ring h')) = logged (e, now)"
proof -
  note inv = reachable_inv [OF assms(1)]
  note D = hub_invD [OF inv] and P = publish_objs [OF inv assms(2), of evt now, folded assms(4,5)]
  let ?f = "\<lambda>t. if sb_id t \<in> set (hb_subscribers h) then fan_sub (buffer_size h) e t else t"
  have "?f s \<in> set (hb_objs h')" using assms(3) P(1) by simp
  moreover have "last (ring_list (hb_ring h')) = logged (e, now)"
    using D(8) unfolding P(3) ring_list_Add [OF D(8)]
    by (simp add: logged_def ring_ok_def last_drop)
  moreover have "sb_id (?f s) = sb_id s" by simp
  ultimately show ?thesis
    using D(3) [OF assms(3)] dropped_iff [OF inv assms(3), of "buffer_size h"]
    by (intro bexI [of _ "?f s"]) (auto simp: P(2) fan_sub_def drops_def has_room_def)
qed

subsection \<open>Reconnecting\<close>

fun publish_all :: "Hub \<Rightarrow> (Event \<times> gotime) list \<Rightarrow> Hub" where
  "publish_all h [] = h"
| "publish_all h ((e, now) # es) = publish_all (PublishEvent h (Some e) now) es"

text \<open>Events that carry an identifier and a time, as those made by \<^verbatim>\<open>Publish\<close> do.\<close>

definition finished_event :: "Event \<Rightarrow> bool" where
  "finished_event e \<longleftrightarrow> ev_ID e \<noteq> [] \<and> \<not> time_is_zero (ev_Timestamp e)"

lemma stamp_finished [simp]: "finished_event e \<Longrightarrow> stamp e now = e"
  by (simp add: finished_event_def stamp_def)

lemma completed_finished [simp]: "finished_event e \<Longrightarrow> completed h e now = e"
  by (simp add: completed_def Let_def) (simp add: finished_event_def)

lemma publish_all_sub:
  assumes "hub_inv h" "\<not> hb_closed h" "\<forall>p \<in> set es. finished_event (fst p)"
    "s \<in> set (hb_objs h)" "\<not> sb_closed s" "\<not> sb_done s" "length (sb_ch s) + length es \<le> buffer_size h"
  shows "hub_inv (publish_all h es) \<and> \<not> hb_closed (publish_all h es)
    \<and> buffer_size (publish_all h es) = buffer_size h
    \<and> hb_ring (publish_all h es) = foldl ring_push (hb_ring h) es
    \<and> s\<lparr>sb_ch := sb_ch s @ map fst es\<rparr> \<in> set (hb_objs (publish_all h es))"
  using assms
proof (induction es arbitrary: h s)
  case (Cons p es)
  obtain e now where p: "p = (e, now)" by (cases p)
  let ?h = "PublishEvent h (Some e) now" and ?s = "s\<lparr>sb_ch := sb_ch s @ [e]\<rparr>"
  have fe: "finished_event e" using Cons.prems(3) p by simp
  note P = publish_objs [OF Cons.prems(1,2), of e now]
  have reg: "sb_id s \<in> set (hb_subscribers h)" using hub_invD(3) [OF Cons.prems(1,4)] Cons.prems(5) by simp
  have "fan_sub (buffer_size h) e s = ?s"
    using Cons.prems(5-7) by (simp add: fan_sub_def drops_def has_room_def)
  then have s': "?s \<in> set (hb_objs ?h)" using P(1) reg Cons.prems(4) fe by force
  have "hub_inv ?h" by (rule hub_inv_PublishEvent [OF Cons.prems(1)])
  from Cons.IH [OF this _ _ s'] Cons.prems P(3,4,5) fe show ?case
    by (simp add: p ring_push_def)
qed simp

lemma deliver_fresh:
  "foldl deliverEvent \<lparr>ss_seen = None, ss_written = w\<rparr> ys = \<lparr>ss_seen = None, ss_written = w @ ys\<rparr>"
  by (induction ys arbitrary: w) (simp_all add: deliverEvent_def)

lemma deliver_skips:
  assumes "ev_ID ` set xs \<subseteq> set ids" "ev_ID ` set ys \<inter> set ids = {}"
  shows "ss_written (foldl deliverEvent \<lparr>ss_seen = Some ids, ss_written = w\<rparr> (xs @ ys)) = w @ ys"
proof -
  have "foldl deliverEvent \<lparr>ss_seen = Some ids, ss_written = w\<rparr> xs = \<lparr>ss_seen = Some ids, ss_written = w\<rparr>"
    using assms(1) by (induction xs) (simp_all add: deliverEvent_def)
  moreover have "ss_written (foldl deliverEvent \<lparr>ss_seen = Some ids, ss_written = w\<rparr> ys) = w @ ys"
  proof (cases ys)
    case (Cons y ys')
    then have "deliverEvent \<lparr>ss_seen = Some ids, ss_written = w\<rparr> y = \<lparr>ss_seen = None, ss_written = w @ [y]\<rparr>"
      using assms(2) by (simp add: deliverEvent_def)
    then show ?thesis by (simp add: Cons deliver_fresh)
  qed simp
  ultimately show ?thesis by simp
qed

lemma ring_list_push_all:
  assumes "ring_ok r" "rb_count r + length es \<le> rb_capacity r"
  shows "ring_list (foldl ring_push r es) = ring_list r @ map logged es"
  using ring.newest_kept [OF assms(1), of es] assms(2) by simp


definition sample_hub :: Hub where
  "sample_hub = PublishEvent (snd (Subscribe False (NewHub \<lparr>cg_RingCapacity = 3, cg_RingTTL = 0,
     cg_HeartbeatInterval = 0, cg_SubscriberBuffer = 2\<rparr> None))) (Some (sample_event ''a'')) 1"

lemma sample_hub_reachable:
  "hub_step\<^sup>*\<^sup>* (NewHub \<lparr>cg_RingCapacity = 3, cg_RingTTL = 0, cg_HeartbeatInterval = 0, cg_SubscriberBuffer = 2\<rparr> None)
     sample_hub"
proof -
  let ?h = "NewHub \<lparr>cg_RingCapacity = 3, cg_RingTTL = 0, cg_HeartbeatInterval = 0, cg_SubscriberBuffer = 2\<rparr> None"
  have "hub_step ?h (snd (Subscribe False ?h))" by (rule hub_step.subscribe) (simp add: NewHub_def Let_def)
  moreover have "hub_step (snd (Subscribe False ?h)) sample_hub"
    unfolding sample_hub_def by (rule hub_step.publish_event)
  ultimately show ?thesis by (meson converse_rtranclp_into_rtranclp rtranclp.rtrancl_refl)
qed

lemma sample_hub_facts:
  "hb_closed sample_hub = False" "hb_nextSubID sample_hub = 1"
  "hb_objs sample_hub = [\<lparr>sb_id = 1, sb_ch = [sample_event ''a''], sb_done = False, sb_closed = False\<rparr>]"
  "ring_list (hb_ring sample_hub) = [logged (sample_event ''a'', 1)]"
  "rb_count (hb_ring sample_hub) = 1" "rb_capacity (hb_ring sample_hub) = 3" "buffer_size sample_hub = 2"
  "rb_ttl (hb_ring sample_hub) = 300000000000"
  by code_simp+

theorem hub_reachable_invariant_witness:
  "distinct (map sb_id (hb_objs sample_hub))
    \<and> list_all (\<lambda>s. (sb_id s \<in> set (hb_subscribers sample_hub) \<longleftrightarrow> \<not> sb_closed s)
         \<and> length (sb_ch s) \<le> buffer_size sample_hub \<and> (hb_closed sample_hub \<longrightarrow> sb_closed s)) (hb_objs sample_hub)"
  unfolding list_all_iff by (rule hub_reachable_invariant [OF sample_hub_reachable])

definition sample_sub :: subscriber where
  "sample_sub = \<lparr>sb_id = 1, sb_ch = [sample_event ''a''], sb_done = False, sb_closed = False\<rparr>"

definition sample_published :: Hub where
  "sample_published = PublishEvent sample_hub (Some (sample_event ''b'')) 2"

theorem publish_reaches_subscribers_witness:
  "\<exists>s' \<in> set (hb_objs sample_published). sb_id s' = sb_id sample_sub
    \<and> (if sb_id sample_sub \<in> set (hb_subscribers sample_hub)
       then (if sb_done sample_sub \<or> length (sb_ch sample_sub) \<ge> buffer_size sample_hub
             then sb_closed s' \<and> sb_ch s' = sb_ch sample_sub \<and> sb_id sample_sub \<notin> set (hb_subscribers sample_published)
             else sb_ch s' = sb_ch sample_sub @ [completed sample_hub (sample_event ''b'') 2] \<and> \<not> sb_closed s'
               \<and> sb_id sample_sub \<in> set (hb_subscribers sample_published))
       else s' = sample_sub \<and> sb_id sample_sub \<notin> set (hb_subscribers sample_published))
    \<and> last (ring_list (hb_ring sample_published)) = logged (completed sample_hub (sample_event ''b'') 2, 2)"
  by (rule publish_reaches_subscribers [OF sample_hub_reachable _ _ sample_published_def refl])
    (simp_all add: sample_hub_facts sample_sub_def)

definition late_sub :: subscriber where
  "late_sub = \<lparr>sb_id = 2, sb_ch = [sample_event ''b'', sample_event ''c''], sb_done = False, sb_closed = False\<rparr>"


end
