(* ===== verification/Event_Hydration.thy ===== *)
theory Event_Hydration
  imports Event_Hub_Props Event_Sse
begin

text \<open>
  What hydration shows a new client: the payload codecs read back what they write, the batch is the
  list of the current states in a fixed order under fresh identifiers, and each subsystem's entry is the
  state that was published last.
\<close>

subsection \<open>Codecs\<close>

lemmas codec_defs = dec_member_def on_field_def lower_char_def

lemma audio_roundtrip: "in_int64 (as_Volume d) \<Longrightarrow> dec_audio (j_audio d) = Some d"
  by (simp add: dec_audio_def j_audio_def codec_defs)

lemma video_roundtrip: "dec_video (j_video d) = Some d"
  by (simp add: dec_video_def j_video_def codec_defs dec_any_def)

lemma dec_ptr_opt_str [simp]: "dec_ptr [] dec_string (j_opt_str s) None = Some s"
  by (cases s) (simp_all add: j_opt_str_def)

lemma voice_roundtrip: "dec_voice (j_voice d) = Some d"
  by (simp add: dec_voice_def j_voice_def codec_defs)

lemma theme_roundtrip: "dec_theme (j_theme t) = Some t"
  by (simp add: dec_theme_def j_theme_def codec_defs)

definition rotate_widget_ok :: "ScreenRotateWidget \<Rightarrow> bool" where
  "rotate_widget_ok w \<longleftrightarrow> in_int64 (fst (sw_Origin w)) \<and> in_int64 (snd (sw_Origin w))
     \<and> dimension_in_range (sw_Dimensions w)"

definition rotate_ok :: "ScreenRotateData \<Rightarrow> bool" where
  "rotate_ok d \<longleftrightarrow> in_int64 (sr_CurrentScreen d) \<and> in_int64 (sr_TotalScreens d) \<and> in_int64 (sr_IntervalSeconds d)
     \<and> (\<forall>ws. sr_Widgets d = Some ws \<longrightarrow> (\<forall>w \<in> set ws. rotate_widget_ok w))"

lemma rotate_widget_roundtrip: "rotate_widget_ok w \<Longrightarrow> dec_rotate_widget (j_rotate_widget w) x = Some w"
  by (simp add: dec_rotate_widget_def j_rotate_widget_def codec_defs rotate_widget_ok_def j_pair_def)

lemma rotate_widgets_roundtrip:
  "\<forall>w \<in> set ws. rotate_widget_ok w \<Longrightarrow>
     dec_all zero_rotate_widget dec_rotate_widget (map j_rotate_widget ws) = Some ws"
  by (rule dec_all_roundtrip) (simp add: rotate_widget_roundtrip)

lemma rotate_roundtrip: "rotate_ok d \<Longrightarrow> dec_rotate (j_rotate d) = Some d"
  by (cases "sr_Widgets d")
    (simp_all add: dec_rotate_def j_rotate_def codec_defs rotate_ok_def rotate_widgets_roundtrip)

subsection \<open>The batch\<close>

text \<open>What a batch is made of, without its identifiers: the types and payloads in order.\<close>

definition widget_ids :: "Snapshot option \<Rightarrow> string list" where
  "widget_ids snap = (case snap of None \<Rightarrow> [] | Some s \<Rightarrow>
     (case sn_Config s of None \<Rightarrow> [] | Some cfg \<Rightarrow> map wc_ID (dc_Widgets (cf_Display cfg))))"

definition provider_snapshot :: "InMemoryStateProvider option \<Rightarrow> Snapshot option" where
  "provider_snapshot p = (case p of None \<Rightarrow> None | Some q \<Rightarrow> CurrentSnapshot q)"

definition rotate_payload :: "InMemoryStateProvider option \<Rightarrow> ScreenRotateData" where
  "rotate_payload p = (case p of
     None \<Rightarrow> buildScreenRotateFromSnapshot (provider_snapshot p)
   | Some q \<Rightarrow> (case GetScreenRotateData q of
        Some rd \<Rightarrow> rd | None \<Rightarrow> buildScreenRotateFromSnapshot (provider_snapshot p)))"

definition hydration_payloads :: "InMemoryStateProvider option \<Rightarrow> gotime \<Rightarrow> (string \<times> json) list" where
  "hydration_payloads p now =
     (let hs = resolveSubsystemHydrationState p (provider_snapshot p) in
      [(EventScreenRotate, j_rotate (rotate_payload p))]
    @ map (\<lambda>i. (EventWidgetUpdate, j_widget_update (buildWidgetUpdatePayload p i (rfc3339 now))))
        (widget_ids (provider_snapshot p))
    @ [(EventHeaderUpdate, j_header \<lparr>hu_Timestamp = rfc3339 now, hu_Timezone = hs_tz hs, hu_Weather = hs_weather hs\<rparr>),
       (EventVideoState, j_video (hs_video hs)), (EventAudioState, j_audio (hs_audio hs)),
       (EventVoiceState, j_voice (hs_voice hs)),
       (EventSystemStatus, j_status (buildSystemStatusData p (hs_status hs) (rfc3339 now))),
       (EventThemeUpdate, j_theme (hs_theme hs))])"

definition emit :: "gotime \<Rightarrow> Event list \<times> IDGenerator \<Rightarrow> (string \<times> json) list \<Rightarrow> Event list \<times> IDGenerator" where
  "emit now = foldl (\<lambda>(evs, g) q. appendHydrationEvent evs g now (fst q) (snd q))"

lemma emit_simps [simp]:
  "emit now eg [] = eg"
  "emit now eg (q # qs) = emit now (appendHydrationEvent (fst eg) (snd eg) now (fst q) (snd q)) qs"
  "emit now eg (qs @ rs) = emit now (emit now eg qs) rs"
  by (simp_all add: emit_def case_prod_unfold)

lemma appendWidgetHydrationEvents_emit:
  "appendWidgetHydrationEvents evs snap p g now nowStr = emit now (evs, g)
     (map (\<lambda>i. (EventWidgetUpdate, j_widget_update (buildWidgetUpdatePayload p i nowStr))) (widget_ids snap))"
  by (simp add: appendWidgetHydrationEvents_def widget_ids_def emit_def foldl_map case_prod_unfold split: option.split)

lemma BuildHydrationBatch_emit:
  "BuildHydrationBatch p g now = emit now ([], g) (hydration_payloads p now)"
  unfolding BuildHydrationBatch_def hydration_payloads_def Let_def appendWidgetHydrationEvents_emit
    provider_snapshot_def [symmetric] rotate_payload_def [symmetric]
  by (simp add: case_prod_unfold)

lemma emit_ids:
  "map (\<lambda>e. (ev_Type e, ev_Data e)) (fst (emit now eg qs)) = map (\<lambda>e. (ev_Type e, ev_Data e)) (fst eg) @ qs
   \<and> map ev_ID (fst (emit now eg qs)) = map ev_ID (fst eg) @ fst (draw_ids (snd eg) (replicate (length qs) now))
   \<and> ((\<forall>e \<in> set (fst eg). ev_Timestamp e = now) \<longrightarrow> (\<forall>e \<in> set (fst (emit now eg qs)). ev_Timestamp e = now))"
proof (induction qs arbitrary: eg)
  case (Cons q qs)
  show ?case
    using Cons.IH [of "appendHydrationEvent (fst eg) (snd eg) now (fst q) (snd q)"]
    by (auto simp: appendHydrationEvent_def case_prod_unfold Let_def)
qed simp

text \<open>C9: Hydration is complete and in order: a new client gets one screen.rotate event, one widget.update
  per configured widget in configuration order, then the header, video, audio, voice, system status and
  theme events, each with the payload of the current state, all stamped with the time of hydration and
  carrying identifiers that differ from one another.\<close>

theorem hydration_complete:
  assumes "BuildHydrationBatch p g now = (evs, g')" "length (widget_ids (provider_snapshot p)) < 2 ^ 63"
  shows "map (\<lambda>e. (ev_Type e, ev_Data e)) evs = hydration_payloads p now
    \<and> map fst (hydration_payloads p now) = EventScreenRotate
        # replicate (length (widget_ids (provider_snapshot p))) EventWidgetUpdate
        @ [EventHeaderUpdate, EventVideoState, EventAudioState, EventVoiceState, EventSystemStatus, EventThemeUpdate]
    \<and> distinct (map ev_ID evs) \<and> (\<forall>e \<in> set evs. ev_Timestamp e = now)"
proof -
  have evs: "evs = fst (emit now ([], g) (hydration_payloads p now))"
    using assms(1) by (simp add: BuildHydrationBatch_emit)
  have len: "length (hydration_payloads p now) = length (widget_ids (provider_snapshot p)) + 7"
    by (simp add: hydration_payloads_def Let_def)
  have "distinct (map ev_ID evs)"
    using emit_ids [of now "([], g)" "hydration_payloads p now"] assms(2)
    by (simp add: evs draw_ids_distinct len)
  moreover have "map fst (hydration_payloads p now) = EventScreenRotate
        # replicate (length (widget_ids (provider_snapshot p))) EventWidgetUpdate
        @ [EventHeaderUpdate, EventVideoState, EventAudioState, EventVoiceState, EventSystemStatus, EventThemeUpdate]"
    by (simp add: hydration_payloads_def Let_def comp_def map_replicate_const)
  ultimately show ?thesis
    using emit_ids [of now "([], g)" "hydration_payloads p now"] by (simp add: evs)
qed

theorem hydration_complete_witness:
  "map (\<lambda>e. (ev_Type e, ev_Data e)) (fst (BuildHydrationBatch None NewIDGenerator 5)) = hydration_payloads None 5
    \<and> map fst (hydration_payloads None 5) = EventScreenRotate
        # replicate (length (widget_ids (provider_snapshot None))) EventWidgetUpdate
        @ [EventHeaderUpdate, EventVideoState, EventAudioState, EventVoiceState, EventSystemStatus, EventThemeUpdate]
    \<and> distinct (map ev_ID (fst (BuildHydrationBatch None NewIDGenerator 5)))
    \<and> list_all (\<lambda>e. ev_Timestamp e = 5) (fst (BuildHydrationBatch None NewIDGenerator 5))"
  unfolding list_all_iff by (rule hydration_complete [OF surjective_pairing]) (simp add: provider_snapshot_def widget_ids_def)

subsection \<open>The last published state is what hydration shows\<close>

datatype subsystem_state =
    RotateState ScreenRotateData
  | AudioState AudioStateData
  | VideoState VideoStateData
  | VoiceState VoiceStateData
  | ThemeState string

fun state_event :: "subsystem_state \<Rightarrow> string \<times> json" where
  "state_event (RotateState d) = (EventScreenRotate, j_rotate d)"
| "state_event (AudioState d) = (EventAudioState, j_audio d)"
| "state_event (VideoState d) = (EventVideoState, j_video d)"
| "state_event (VoiceState d) = (EventVoiceState, j_voice d)"
| "state_event (ThemeState t) = (EventThemeUpdate, j_theme t)"

text \<open>States that fit their Go types; an empty theme counts as none.\<close>

fun state_ok :: "subsystem_state \<Rightarrow> bool" where
  "state_ok (RotateState d) = rotate_ok d"
| "state_ok (AudioState d) = in_int64 (as_Volume d)"
| "state_ok (VideoState d) = True"
| "state_ok (VoiceState d) = True"
| "state_ok (ThemeState t) = (t \<noteq> [])"

lemma sync_hydrates:
  assumes "state_ok st" "ev_Type e = fst (state_event st)" "ev_Data e = snd (state_event st)"
  shows "state_event st \<in> set (hydration_payloads (Some (syncStateProvider p e)) now)"
  using assms
  by (cases st)
    (simp_all add: syncStateProvider_def hydration_payloads_def Let_def event_type_defs rotate_roundtrip
      audio_roundtrip video_roundtrip voice_roundtrip theme_roundtrip rotate_payload_def
      resolveSubsystemHydrationState_def GetScreenRotateData_def SetScreenRotateData_def
      GetAudioState_def SetAudioState_def GetVideoState_def SetVideoState_def GetVoiceState_def
      SetVoiceState_def GetTheme_def SetTheme_def derefOr_def)



end
