(* ===== verification/Rotation.thy ===== *)
theory Rotation
  imports Event_Hub
begin

text \<open>
  \<^verbatim>\<open>internal/rotation/coordinator.go\<close> and \<^verbatim>\<open>handler.go\<close>: which screen is shown, the timers
  that rotate the screens and end a pause, and the HTTP operations on them. Every operation runs under the
  coordinator's lock and is one step. A timer is the generation its callback was created with and its
  duration; stopping one does not prevent a callback that has already been started, so a callback may arrive
  with any generation at any moment. The broadcaster is the list of the messages published through it.
  Screen counts are lengths of slices, so the sums of two of them do not overflow.
\<close>

type_synonym message = "string \<times> json"

record RotationCoordinator =
  ro_broadcaster :: "message list option"
  ro_snapshot :: "Snapshot option"
  ro_currentScreen :: int
  ro_paused :: bool
  ro_rotateTimer :: "(u64 \<times> duration) option"
  ro_pauseTimer :: "(u64 \<times> duration) option"
  ro_timerGen :: u64
  ro_pauseGen :: u64
  ro_stopped :: bool

datatype rotation_error = ErrInvalidScreenIndex | ErrInvalidDirection | ErrNoScreens | ErrStopped

definition snap_layout :: "Snapshot option \<Rightarrow> Layout option" where
  "snap_layout s = Option.bind s sn_Layout"

definition snap_config :: "Snapshot option \<Rightarrow> Config option" where
  "snap_config s = Option.bind s sn_Config"

text \<open>The number of screens of a snapshot, 0 without a layout, and its rotation interval.\<close>

definition snap_total :: "Snapshot option \<Rightarrow> int" where
  "snap_total s = (case snap_layout s of None \<Rightarrow> 0 | Some l \<Rightarrow> TotalScreens l)"

definition snap_interval :: "Snapshot option \<Rightarrow> int" where
  "snap_interval s =
     (case snap_config s of None \<Rightarrow> 30 | Some cfg \<Rightarrow> GetIntervalSeconds (dc_Rotation (cf_Display cfg)))"

definition stopRotationTimerLocked :: "RotationCoordinator \<Rightarrow> RotationCoordinator" where
  "stopRotationTimerLocked c = c\<lparr>ro_timerGen := ro_timerGen c + 1, ro_rotateTimer := None\<rparr>"

definition stopPauseTimerLocked :: "RotationCoordinator \<Rightarrow> RotationCoordinator" where
  "stopPauseTimerLocked c = c\<lparr>ro_pauseGen := ro_pauseGen c + 1, ro_pauseTimer := None\<rparr>"

definition armRotationTimerLocked :: "RotationCoordinator \<Rightarrow> RotationCoordinator" where
  "armRotationTimerLocked c0 =
     (let c = stopRotationTimerLocked c0 in
      if ro_stopped c \<or> ro_paused c \<or> snap_layout (ro_snapshot c) = None \<or> snap_total (ro_snapshot c) \<le> 1 then c
      else let intervalSec = snap_interval (ro_snapshot c) in
        if intervalSec \<le> 0 then c
        else let gen = ro_timerGen c + 1 in
          c\<lparr>ro_timerGen := gen, ro_rotateTimer := Some (gen, seconds intervalSec)\<rparr>)"

definition NewRotationCoordinator :: "message list option \<Rightarrow> Snapshot option \<Rightarrow> RotationCoordinator" where
  "NewRotationCoordinator broadcaster initialSnapshot =
     (let c = \<lparr>ro_broadcaster = broadcaster, ro_snapshot = initialSnapshot, ro_currentScreen = 0,
               ro_paused = False, ro_rotateTimer = None, ro_pauseTimer = None, ro_timerGen = 0,
               ro_pauseGen = 0, ro_stopped = False\<rparr>
      in if snap_layout initialSnapshot \<noteq> None then armRotationTimerLocked c else c)"

record ScreenLayoutSnapshot =
  sl_CurrentScreen :: int
  sl_IntervalSeconds :: int
  sl_Screens :: "Screen list"

definition ScreenLayout :: "RotationCoordinator \<Rightarrow> ScreenLayoutSnapshot" where
  "ScreenLayout c =
     \<lparr>sl_CurrentScreen = ro_currentScreen c, sl_IntervalSeconds = snap_interval (ro_snapshot c),
      sl_Screens = (case snap_layout (ro_snapshot c) of None \<Rightarrow> [] | Some l \<Rightarrow> Screens l)\<rparr>"

definition CurrentScreen :: "RotationCoordinator \<Rightarrow> int" where
  "CurrentScreen c = ro_currentScreen c"

text \<open>Indexing the screens with a negative number would panic: \<^const>\<open>None\<close>.\<close>

definition buildRotateDataLocked :: "RotationCoordinator \<Rightarrow> ScreenRotateData option" where
  "buildRotateDataLocked c =
     (let data = \<lparr>sr_CurrentScreen = ro_currentScreen c, sr_TotalScreens = 1,
                  sr_IntervalSeconds = snap_interval (ro_snapshot c), sr_Widgets = Some []\<rparr> in
      case snap_layout (ro_snapshot c) of
        None \<Rightarrow> Some data
      | Some l \<Rightarrow>
          let data' = data\<lparr>sr_TotalScreens := TotalScreens l\<rparr> in
          if ro_currentScreen c < int (length (Screens l)) then
            (if ro_currentScreen c < 0 then None
             else Some (data'\<lparr>sr_Widgets := Some (map (\<lambda>pw. \<lparr>sw_WidgetID = pw_WidgetID pw,
                     sw_Origin = pw_Origin pw, sw_Dimensions = pw_Dimensions pw\<rparr>)
                   (sc_Widgets (Screens l ! nat (ro_currentScreen c))))\<rparr>))
          else Some data')"

definition publishRotateLocked :: "ScreenRotateData \<Rightarrow> RotationCoordinator \<Rightarrow> RotationCoordinator" where
  "publishRotateLocked data c =
     (case ro_broadcaster c of
        None \<Rightarrow> c
      | Some ms \<Rightarrow> c\<lparr>ro_broadcaster := Some (ms @ [(EventScreenRotate, j_rotate data)])\<rparr>)"

definition rotation_ScreenRotateData :: "RotationCoordinator \<Rightarrow> ScreenRotateData option" where
  "rotation_ScreenRotateData c = buildRotateDataLocked c"

definition validateActiveScreensLocked :: "RotationCoordinator \<Rightarrow> rotation_error + int" where
  "validateActiveScreensLocked c =
     (if ro_stopped c then Inl ErrStopped
      else if snap_layout (ro_snapshot c) = None \<or> snap_total (ro_snapshot c) \<le> 0 then Inl ErrNoScreens
      else Inr (snap_total (ro_snapshot c)))"

definition commitScreenChangeLocked :: "RotationCoordinator \<Rightarrow> ScreenRotateData option \<times> RotationCoordinator" where
  "commitScreenChangeLocked c0 =
     (let c = armRotationTimerLocked c0; data = buildRotateDataLocked c
      in (data, case data of None \<Rightarrow> c | Some d \<Rightarrow> publishRotateLocked d c))"

definition SelectScreen ::
    "int \<Rightarrow> RotationCoordinator \<Rightarrow> (rotation_error + ScreenRotateData option) \<times> RotationCoordinator" where
  "SelectScreen index c =
     (case validateActiveScreensLocked c of
        Inl err \<Rightarrow> (Inl err, c)
      | Inr n \<Rightarrow>
          if index < 0 \<or> index \<ge> n then (Inl ErrInvalidScreenIndex, c)
          else apfst Inr (commitScreenChangeLocked (c\<lparr>ro_currentScreen := index\<rparr>)))"

definition AdvanceScreen ::
    "string \<Rightarrow> RotationCoordinator \<Rightarrow> (rotation_error + ScreenRotateData option) \<times> RotationCoordinator" where
  "AdvanceScreen direction c =
     (case validateActiveScreensLocked c of
        Inl err \<Rightarrow> (Inl err, c)
      | Inr n \<Rightarrow>
          if n = 1 then apfst Inr (commitScreenChangeLocked (c\<lparr>ro_currentScreen := 0\<rparr>))
          else if direction = [] \<or> direction = ''next''
          then apfst Inr (commitScreenChangeLocked (c\<lparr>ro_currentScreen := (ro_currentScreen c + 1) mod n\<rparr>))
          else if direction = ''prev''
          then apfst Inr (commitScreenChangeLocked (c\<lparr>ro_currentScreen := (ro_currentScreen c - 1 + n) mod n\<rparr>))
          else (Inl ErrInvalidDirection, c))"

definition PauseRotation :: "duration \<Rightarrow> RotationCoordinator \<Rightarrow> (rotation_error + int) \<times> RotationCoordinator" where
  "PauseRotation duration0 c0 =
     (if ro_stopped c0 then (Inl ErrStopped, c0)
      else let c = stopPauseTimerLocked (stopRotationTimerLocked (c0\<lparr>ro_paused := True\<rparr>));
               d = (if duration0 < 0
                    then seconds (case snap_config (ro_snapshot c) of None \<Rightarrow> 120
                           | Some cfg \<Rightarrow> GetPauseDurationSeconds (dc_Rotation (cf_Display cfg)))
                    else duration0);
               c' = (if d > 0 then let gen = ro_pauseGen c + 1 in
                       c\<lparr>ro_pauseGen := gen, ro_pauseTimer := Some (gen, d)\<rparr> else c)
           in (Inr (ro_currentScreen c'), c'))"

definition ResumeRotation :: "RotationCoordinator \<Rightarrow> (rotation_error + int) \<times> RotationCoordinator" where
  "ResumeRotation c =
     (if ro_stopped c then (Inl ErrStopped, c)
      else let c' = armRotationTimerLocked (stopPauseTimerLocked (c\<lparr>ro_paused := False\<rparr>))
           in (Inr (ro_currentScreen c'), c'))"

definition rotation_UpdateConfig ::
    "Snapshot option \<Rightarrow> RotationCoordinator \<Rightarrow> ScreenRotateData option \<times> RotationCoordinator" where
  "rotation_UpdateConfig snap c0 =
     (let c = c0\<lparr>ro_snapshot := snap\<rparr> in
      if snap_layout snap = None \<or> snap_total snap \<le> 0
      then (Some \<lparr>sr_CurrentScreen = 0, sr_TotalScreens = 0, sr_IntervalSeconds = 0, sr_Widgets = None\<rparr>,
            stopRotationTimerLocked (c\<lparr>ro_currentScreen := 0\<rparr>))
      else commitScreenChangeLocked (if ro_currentScreen c \<ge> snap_total snap then c\<lparr>ro_currentScreen := 0\<rparr> else c))"

definition rotation_Stop :: "RotationCoordinator \<Rightarrow> RotationCoordinator" where
  "rotation_Stop c = stopPauseTimerLocked (stopRotationTimerLocked (c\<lparr>ro_stopped := True\<rparr>))"

definition onRotateTimeout :: "u64 \<Rightarrow> RotationCoordinator \<Rightarrow> RotationCoordinator" where
  "onRotateTimeout gen c =
     (if \<not> ro_stopped c \<and> \<not> ro_paused c \<and> ro_timerGen c = gen \<and> snap_layout (ro_snapshot c) \<noteq> None
         \<and> snap_total (ro_snapshot c) > 1
      then snd (commitScreenChangeLocked
        (c\<lparr>ro_currentScreen := (ro_currentScreen c + 1) mod snap_total (ro_snapshot c)\<rparr>))
      else c)"

definition onPauseTimeout :: "u64 \<Rightarrow> RotationCoordinator \<Rightarrow> RotationCoordinator" where
  "onPauseTimeout gen c =
     (if \<not> ro_stopped c \<and> ro_paused c \<and> ro_pauseGen c = gen
      then armRotationTimerLocked (c\<lparr>ro_paused := False\<rparr>) else c)"

text \<open>Anything that can happen to a coordinator: a call, or a callback of some timer.\<close>

datatype rotation_op =
    OpSelect int | OpAdvance string | OpPause duration | OpResume | OpUpdate "Snapshot option" | OpStop
  | OpRotateTimeout u64 | OpPauseTimeout u64

fun rotation_step :: "RotationCoordinator \<Rightarrow> rotation_op \<Rightarrow> RotationCoordinator" where
  "rotation_step c (OpSelect i) = snd (SelectScreen i c)"
| "rotation_step c (OpAdvance d) = snd (AdvanceScreen d c)"
| "rotation_step c (OpPause d) = snd (PauseRotation d c)"
| "rotation_step c OpResume = snd (ResumeRotation c)"
| "rotation_step c (OpUpdate s) = snd (rotation_UpdateConfig s c)"
| "rotation_step c OpStop = rotation_Stop c"
| "rotation_step c (OpRotateTimeout g) = onRotateTimeout g c"
| "rotation_step c (OpPauseTimeout g) = onPauseTimeout g c"

definition rotation_run :: "RotationCoordinator \<Rightarrow> rotation_op list \<Rightarrow> RotationCoordinator" where
  "rotation_run = foldl rotation_step"

lemma rotation_run_simps [simp]:
  "rotation_run c [] = c"
  "rotation_run c (e # es) = rotation_run (rotation_step c e) es"
  "rotation_run c (es @ fs) = rotation_run (rotation_run c es) fs"
  by (simp_all add: rotation_run_def)

end
