(* ===== verification/Rotation_Props.thy ===== *)
theory Rotation_Props
  imports Rotation
begin

text \<open>
  Properties of the rotation coordinator over all sequences of calls and timer callbacks: the screen shown
  always exists and a rotation timer is pending exactly when rotation is due, a timer that was stopped or
  replaced never turns the screen, every screen has its turn, and a pause with a duration ends.
\<close>

subsection \<open>What an operation changes\<close>

lemma stop_timer_fields [frame]:
  "ro_snapshot (stopRotationTimerLocked c) = ro_snapshot c"
  "ro_currentScreen (stopRotationTimerLocked c) = ro_currentScreen c"
  "ro_paused (stopRotationTimerLocked c) = ro_paused c"
  "ro_stopped (stopRotationTimerLocked c) = ro_stopped c"
  "ro_rotateTimer (stopRotationTimerLocked c) = None"
  "ro_timerGen (stopRotationTimerLocked c) = ro_timerGen c + 1"
  "ro_pauseTimer (stopRotationTimerLocked c) = ro_pauseTimer c"
  "ro_pauseGen (stopRotationTimerLocked c) = ro_pauseGen c"
  "ro_snapshot (stopPauseTimerLocked c) = ro_snapshot c"
  "ro_currentScreen (stopPauseTimerLocked c) = ro_currentScreen c"
  "ro_paused (stopPauseTimerLocked c) = ro_paused c"
  "ro_stopped (stopPauseTimerLocked c) = ro_stopped c"
  "ro_rotateTimer (stopPauseTimerLocked c) = ro_rotateTimer c"
  "ro_timerGen (stopPauseTimerLocked c) = ro_timerGen c"
  "ro_pauseTimer (stopPauseTimerLocked c) = None"
  "ro_pauseGen (stopPauseTimerLocked c) = ro_pauseGen c + 1"
  by (simp_all add: stopRotationTimerLocked_def stopPauseTimerLocked_def)

text \<open>When a rotation timer should be pending.\<close>

definition rotates :: "RotationCoordinator \<Rightarrow> bool" where
  "rotates c \<longleftrightarrow> \<not> ro_stopped c \<and> \<not> ro_paused c \<and> snap_total (ro_snapshot c) > 1
     \<and> snap_interval (ro_snapshot c) > 0"

lemma snap_total_layout: "snap_total s > 0 \<Longrightarrow> snap_layout s \<noteq> None"
  by (auto simp: snap_total_def split: option.splits)

lemma no_layout_total: "snap_layout s = None \<Longrightarrow> snap_total s = 0"
  by (simp add: snap_total_def)

lemma arm_fields [frame]:
  "ro_snapshot (armRotationTimerLocked c) = ro_snapshot c"
  "ro_currentScreen (armRotationTimerLocked c) = ro_currentScreen c"
  "ro_paused (armRotationTimerLocked c) = ro_paused c"
  "ro_stopped (armRotationTimerLocked c) = ro_stopped c"
  "ro_pauseTimer (armRotationTimerLocked c) = ro_pauseTimer c"
  "ro_pauseGen (armRotationTimerLocked c) = ro_pauseGen c"
  by (simp_all add: armRotationTimerLocked_def Let_def frame)

lemma arm_timer [frame]:
  "ro_rotateTimer (armRotationTimerLocked c) =
     (if rotates c then Some (ro_timerGen c + 2, seconds (snap_interval (ro_snapshot c))) else None)"
  "ro_timerGen (armRotationTimerLocked c) = ro_timerGen c + (if rotates c then 2 else 1)"
  by (auto simp: armRotationTimerLocked_def Let_def frame rotates_def no_layout_total)

lemma publish_fields [frame]:
  "ro_snapshot (publishRotateLocked d c) = ro_snapshot c"
  "ro_currentScreen (publishRotateLocked d c) = ro_currentScreen c"
  "ro_paused (publishRotateLocked d c) = ro_paused c"
  "ro_stopped (publishRotateLocked d c) = ro_stopped c"
  "ro_rotateTimer (publishRotateLocked d c) = ro_rotateTimer c"
  "ro_timerGen (publishRotateLocked d c) = ro_timerGen c"
  "ro_pauseTimer (publishRotateLocked d c) = ro_pauseTimer c"
  "ro_pauseGen (publishRotateLocked d c) = ro_pauseGen c"
  by (simp_all add: publishRotateLocked_def split: option.split)

lemma commit_fields [frame]:
  "ro_snapshot (snd (commitScreenChangeLocked c)) = ro_snapshot c"
  "ro_currentScreen (snd (commitScreenChangeLocked c)) = ro_currentScreen c"
  "ro_paused (snd (commitScreenChangeLocked c)) = ro_paused c"
  "ro_stopped (snd (commitScreenChangeLocked c)) = ro_stopped c"
  "ro_rotateTimer (snd (commitScreenChangeLocked c)) = ro_rotateTimer (armRotationTimerLocked c)"
  "ro_timerGen (snd (commitScreenChangeLocked c)) = ro_timerGen (armRotationTimerLocked c)"
  "ro_pauseTimer (snd (commitScreenChangeLocked c)) = ro_pauseTimer c"
  "ro_pauseGen (snd (commitScreenChangeLocked c)) = ro_pauseGen c"
  by (simp_all add: commitScreenChangeLocked_def Let_def frame split: option.split)

lemmas rotation_op_defs =
  SelectScreen_def AdvanceScreen_def PauseRotation_def ResumeRotation_def rotation_UpdateConfig_def
  rotation_Stop_def onRotateTimeout_def onPauseTimeout_def validateActiveScreensLocked_def

subsection \<open>The invariant\<close>

definition rotation_inv :: "RotationCoordinator \<Rightarrow> bool" where
  "rotation_inv c \<longleftrightarrow>
     0 \<le> ro_currentScreen c \<and> (ro_currentScreen c = 0 \<or> ro_currentScreen c < snap_total (ro_snapshot c))
     \<and> ro_rotateTimer c =
         (if rotates c then Some (ro_timerGen c, seconds (snap_interval (ro_snapshot c))) else None)"

lemma rotates_update [simp]:
  "rotates (c\<lparr>ro_currentScreen := i\<rparr>) = rotates c"
  "rotates (armRotationTimerLocked c) = rotates c"
  "rotates (snd (commitScreenChangeLocked c)) = rotates c"
  "rotates (stopRotationTimerLocked c) = rotates c"
  "rotates (stopPauseTimerLocked c) = rotates c"
  by (simp_all add: rotates_def frame)

lemma arm_inv [inv_rules]:
  "0 \<le> ro_currentScreen c \<Longrightarrow> ro_currentScreen c = 0 \<or> ro_currentScreen c < snap_total (ro_snapshot c)
   \<Longrightarrow> rotation_inv (armRotationTimerLocked c)"
  by (simp add: rotation_inv_def frame)

lemma commit_inv [inv_rules]:
  "0 \<le> ro_currentScreen c \<Longrightarrow> ro_currentScreen c = 0 \<or> ro_currentScreen c < snap_total (ro_snapshot c)
   \<Longrightarrow> rotation_inv (snd (commitScreenChangeLocked c))"
  by (simp add: rotation_inv_def frame)

lemma new_inv: "rotation_inv (NewRotationCoordinator b s)"
proof (cases "snap_layout s = None")
  case True
  then show ?thesis
    by (simp add: NewRotationCoordinator_def rotation_inv_def rotates_def no_layout_total)
next
  case False
  then show ?thesis
    unfolding NewRotationCoordinator_def by (simp add: arm_inv Let_def)
qed

lemma step_inv [inv_rules]:
  assumes inv: "rotation_inv c"
  shows "rotation_inv (rotation_step c e)"
proof -
  from inv have range: "0 \<le> ro_currentScreen c"
    "ro_currentScreen c = 0 \<or> ro_currentScreen c < snap_total (ro_snapshot c)"
    by (simp_all add: rotation_inv_def)
  show ?thesis
  proof (cases e)
    case (OpSelect i)
    then show ?thesis using inv
      by (auto simp: SelectScreen_def validateActiveScreensLocked_def intro!: commit_inv)
  next
    case (OpAdvance d)
    then show ?thesis using inv
      by (auto simp: AdvanceScreen_def validateActiveScreensLocked_def intro!: commit_inv)
  next
    case (OpPause d)
    then show ?thesis using inv range
      by (auto simp: PauseRotation_def Let_def rotation_inv_def rotates_def frame)
  next
    case OpResume
    then show ?thesis using inv range
      by (auto simp: ResumeRotation_def Let_def frame intro!: arm_inv)
  next
    case (OpUpdate s)
    have "rotation_inv (stopRotationTimerLocked (c\<lparr>ro_snapshot := s, ro_currentScreen := 0\<rparr>))"
      if "snap_layout s = None \<or> snap_total s \<le> 0"
      using that no_layout_total [of s] by (auto simp: rotation_inv_def rotates_def frame)
    with OpUpdate range show ?thesis
      by (auto simp: rotation_UpdateConfig_def Let_def intro!: commit_inv)
  next
    case OpStop
    then show ?thesis using range by (simp add: rotation_Stop_def rotation_inv_def rotates_def frame)
  next
    case (OpRotateTimeout g)
    then show ?thesis using inv by (auto simp: onRotateTimeout_def intro!: commit_inv)
  next
    case (OpPauseTimeout g)
    then show ?thesis using inv range by (auto simp: onPauseTimeout_def intro!: arm_inv)
  qed
qed

lemma run_inv: "rotation_inv c \<Longrightarrow> rotation_inv (rotation_run c es)"
  by (induction es arbitrary: c) (simp_all add: step_inv)

text \<open>C14: After any sequence of calls and timer callbacks, in any order, the screen shown is one of the
  active layout (screen 0 when there is none), and a rotation timer is pending exactly when rotation is
  neither stopped nor paused, there are at least two screens and the interval is positive; the pending
  timer is the newest one and runs for the configured interval.\<close>

theorem rotation_invariant:
  assumes "c = rotation_run (NewRotationCoordinator b s) es"
  shows "0 \<le> CurrentScreen c \<and> (CurrentScreen c = 0 \<or> CurrentScreen c < snap_total (ro_snapshot c))
    \<and> ro_rotateTimer c =
      (if \<not> ro_stopped c \<and> \<not> ro_paused c \<and> snap_total (ro_snapshot c) > 1 \<and> snap_interval (ro_snapshot c) > 0
       then Some (ro_timerGen c, seconds (snap_interval (ro_snapshot c))) else None)"
  using run_inv [OF new_inv, of b s es] assms by (simp add: rotation_inv_def rotates_def CurrentScreen_def)

definition two_screens :: "Snapshot option" where
  "two_screens = Some \<lparr>sn_Config = None, sn_Layout = Some \<lparr>TotalScreens = 2,
       Screens = replicate 2 \<lparr>sc_Index = 0, sc_Bitmask = 0, sc_Widgets = []\<rparr>\<rparr>, sn_Packages = Map.empty, sn_LoadedAt = 0, sn_HasOverride = False\<rparr>"

definition sample_rotation :: RotationCoordinator where
  "sample_rotation = rotation_run (NewRotationCoordinator None two_screens) [OpAdvance ''next'', OpPause 0, OpResume]"

theorem rotation_invariant_witness:
  "0 \<le> CurrentScreen sample_rotation
    \<and> (CurrentScreen sample_rotation = 0 \<or> CurrentScreen sample_rotation < snap_total (ro_snapshot sample_rotation))
    \<and> ro_rotateTimer sample_rotation =
      (if \<not> ro_stopped sample_rotation \<and> \<not> ro_paused sample_rotation \<and> snap_total (ro_snapshot sample_rotation) > 1
          \<and> snap_interval (ro_snapshot sample_rotation) > 0
       then Some (ro_timerGen sample_rotation, seconds (snap_interval (ro_snapshot sample_rotation))) else None)"
  by (rule rotation_invariant [OF sample_rotation_def])

subsection \<open>Stopped timers\<close>

lemma step_gen:
  "ro_timerGen (rotation_step c e) = ro_timerGen c \<and> ro_rotateTimer (rotation_step c e) = ro_rotateTimer c
   \<or> ro_timerGen (rotation_step c e) = ro_timerGen c + 1 \<or> ro_timerGen (rotation_step c e) = ro_timerGen c + 2"
  by (cases e) (simp_all add: rotation_op_defs Let_def frame)

lemma step_gen_le: "\<exists>k \<le> 2. ro_timerGen (rotation_step c e) = ro_timerGen c + of_nat k"
proof -
  have "ro_timerGen (rotation_step c e) = ro_timerGen c + of_nat 0
      \<or> ro_timerGen (rotation_step c e) = ro_timerGen c + of_nat 1
      \<or> ro_timerGen (rotation_step c e) = ro_timerGen c + of_nat 2"
    using step_gen [of c e] by auto
  then show ?thesis by (meson one_le_numeral order_refl zero_le)
qed

lemma run_gen_le: "\<exists>k \<le> 2 * length es. ro_timerGen (rotation_run c es) = ro_timerGen c + of_nat k"
proof (induction es arbitrary: c)
  case Nil
  then show ?case by simp
next
  case (Cons e es)
  obtain k where k: "k \<le> 2" "ro_timerGen (rotation_step c e) = ro_timerGen c + of_nat k"
    using step_gen_le by blast
  obtain n where n: "n \<le> 2 * length es"
    "ro_timerGen (rotation_run (rotation_step c e) es) = ro_timerGen (rotation_step c e) + of_nat n"
    using Cons.IH by blast
  from k n have "ro_timerGen (rotation_run c (e # es)) = ro_timerGen c + of_nat (k + n)" by (simp add: algebra_simps)
  moreover from k n have "k + n \<le> 2 * length (e # es)" by simp
  ultimately show ?case by blast
qed

lemma word_add_nat_neq: "0 < k \<Longrightarrow> k < 2 ^ 64 \<Longrightarrow> (g :: u64) + of_nat k \<noteq> g"
  by (auto simp: word_of_nat_eq_0_iff dest: nat_dvd_not_less)

text \<open>C15: Once a call or callback has stopped or replaced the rotation timer, a callback of that timer that
  was already under way does nothing, however many other operations (fewer than \<open>2 ^ 62\<close>) come first: a screen
  the user has just selected is never turned away by the timer it replaced.\<close>

theorem stale_timer_ignored:
  assumes c: "c = rotation_run (NewRotationCoordinator b s) before"
    and armed: "ro_rotateTimer c = Some (g, d)"
    and retired: "ro_rotateTimer (rotation_step c e) \<noteq> ro_rotateTimer c"
    and few: "length es < 2 ^ 62"
  shows "onRotateTimeout g (rotation_run c (e # es)) = rotation_run c (e # es)"
proof -
  from run_inv [OF new_inv, of b s before] c armed have g: "g = ro_timerGen c"
    by (auto simp: rotation_inv_def split: if_splits)
  from step_gen [of c e] retired have "ro_timerGen (rotation_step c e) = g + of_nat 1
      \<or> ro_timerGen (rotation_step c e) = g + of_nat 2"
    unfolding g by auto
  then obtain k :: nat where k: "0 < k" "k \<le> 2" "ro_timerGen (rotation_step c e) = g + of_nat k"
    by fastforce
  obtain n where n: "n \<le> 2 * length es"
    "ro_timerGen (rotation_run (rotation_step c e) es) = ro_timerGen (rotation_step c e) + of_nat n"
    using run_gen_le by blast
  from k n have "ro_timerGen (rotation_run c (e # es)) = g + of_nat (k + n)" by (simp add: algebra_simps)
  moreover from k n few have "0 < k + n" "k + n < 2 ^ 64" by simp_all
  ultimately have "ro_timerGen (rotation_run c (e # es)) \<noteq> g" by (metis word_add_nat_neq)
  then show ?thesis by (simp add: onRotateTimeout_def)
qed

theorem stale_timer_ignored_witness:
  "onRotateTimeout 2 (rotation_run (NewRotationCoordinator None two_screens) [OpSelect 0, OpAdvance []])
   = rotation_run (NewRotationCoordinator None two_screens) [OpSelect 0, OpAdvance []]"
proof (rule stale_timer_ignored [where before = "[]" and d = "seconds 30", OF rotation_run_simps(1) [symmetric]])
  show "ro_rotateTimer (NewRotationCoordinator None two_screens) = Some (2, seconds 30)" by code_simp
  show "ro_rotateTimer (rotation_step (NewRotationCoordinator None two_screens) (OpSelect 0))
      \<noteq> ro_rotateTimer (NewRotationCoordinator None two_screens)" by code_simp
qed simp

subsection \<open>Every screen has its turn\<close>

text \<open>The pending timer expires.\<close>

definition expire :: "RotationCoordinator \<Rightarrow> RotationCoordinator" where
  "expire c = (case ro_rotateTimer c of None \<Rightarrow> c | Some (g, d) \<Rightarrow> onRotateTimeout g c)"

lemma expire_rotates:
  assumes "rotation_inv c" "rotates c"
  shows "expire c = snd (commitScreenChangeLocked
    (c\<lparr>ro_currentScreen := (ro_currentScreen c + 1) mod snap_total (ro_snapshot c)\<rparr>))"
  using assms snap_total_layout [of "ro_snapshot c"]
  by (auto simp: expire_def onRotateTimeout_def rotation_inv_def) (auto simp: rotates_def)

lemma expire_inv [inv_rules]: "rotation_inv c \<Longrightarrow> rotation_inv (expire c)"
  using step_inv [of c "OpRotateTimeout g" for g] by (auto simp: expire_def split: option.split)

lemma expire_pow:
  assumes "rotation_inv c" "rotates c"
  shows "rotation_inv ((expire ^^ n) c) \<and> rotates ((expire ^^ n) c)
    \<and> ro_snapshot ((expire ^^ n) c) = ro_snapshot c
    \<and> ro_currentScreen ((expire ^^ n) c) = (ro_currentScreen c + int n) mod snap_total (ro_snapshot c)"
proof (induction n)
  case 0
  with assms show ?case by (auto simp: rotation_inv_def rotates_def)
next
  case (Suc n)
  let ?d = "(expire ^^ n) c"
  have "((ro_currentScreen c + int n) mod snap_total (ro_snapshot c) + 1) mod snap_total (ro_snapshot c)
      = (ro_currentScreen c + int (Suc n)) mod snap_total (ro_snapshot c)"
    by (simp add: mod_add_left_eq add.assoc add.commute [of 1])
  moreover have "rotation_inv (expire ?d)" using Suc by (simp add: expire_inv)
  moreover have "rotates (expire ?d)" "ro_snapshot (expire ?d) = ro_snapshot ?d"
    "ro_currentScreen (expire ?d) = (ro_currentScreen ?d + 1) mod snap_total (ro_snapshot ?d)"
    using Suc by (simp_all add: expire_rotates frame)
  ultimately show ?case using Suc by simp
qed

text \<open>C16: While rotation is on, each expiry of the pending timer shows the next screen, publishes it and
  leaves a new timer pending, so starting from any reachable state every screen of the layout is shown before
  any comes round again.\<close>

theorem every_screen_shown:
  assumes "c = rotation_run (NewRotationCoordinator b s) es" "rotates c"
    and "0 \<le> i" "i < snap_total (ro_snapshot c)"
  shows "\<exists>n < nat (snap_total (ro_snapshot c)).
     CurrentScreen ((expire ^^ n) c) = i \<and> ro_rotateTimer ((expire ^^ n) c) \<noteq> None
     \<and> (\<forall>m < n. CurrentScreen ((expire ^^ m) c) \<noteq> i)"
proof -
  let ?k = "snap_total (ro_snapshot c)" and ?x = "ro_currentScreen c"
  have inv: "rotation_inv c" using assms(1) run_inv [OF new_inv] by simp
  have pos: "0 < ?k" using assms by simp
  have shown: "ro_currentScreen ((expire ^^ m) c) = (?x + int m) mod ?k" for m
    using expire_pow [OF inv assms(2)] by blast
  define n where "n = nat ((i - ?x) mod ?k)"
  have n: "int n = (i - ?x) mod ?k" "n < nat ?k" using pos by (simp_all add: n_def nat_less_iff)
  have "(?x + int n) mod ?k = i" using assms n by (simp add: mod_add_right_eq)
  moreover have "(?x + int m) mod ?k \<noteq> i" if "m < n" for m
  proof
    assume "(?x + int m) mod ?k = i"
    then have "(i - ?x) mod ?k = int m mod ?k" by (metis add_diff_cancel_left' mod_diff_left_eq)
    moreover have "int m < ?k" using that n pos by linarith
    ultimately show False using that n by simp
  qed
  moreover have "ro_rotateTimer ((expire ^^ n) c) \<noteq> None"
    using expire_pow [OF inv assms(2), of n] by (simp add: rotation_inv_def)
  ultimately show ?thesis using n(2) unfolding CurrentScreen_def shown by blast
qed

theorem every_screen_shown_witness:
  "\<exists>n < nat (snap_total (ro_snapshot sample_rotation)).
     CurrentScreen ((expire ^^ n) sample_rotation) = 0 \<and> ro_rotateTimer ((expire ^^ n) sample_rotation) \<noteq> None
     \<and> (\<forall>m < n. CurrentScreen ((expire ^^ m) sample_rotation) \<noteq> 0)"
proof (rule every_screen_shown [OF sample_rotation_def])
  show "rotates sample_rotation" "0 < snap_total (ro_snapshot sample_rotation)" by code_simp+
qed simp

subsection \<open>Pauses end\<close>

text \<open>What may happen during a pause without ending it: navigation, reloads, and callbacks of other timers.\<close>

fun leaves_pause :: "u64 \<Rightarrow> rotation_op \<Rightarrow> bool" where
  "leaves_pause g (OpPause d) = False"
| "leaves_pause g OpResume = False"
| "leaves_pause g OpStop = False"
| "leaves_pause g (OpPauseTimeout h) = (h \<noteq> g)"
| "leaves_pause g _ = True"

definition paused_until :: "u64 \<Rightarrow> duration \<Rightarrow> RotationCoordinator \<Rightarrow> bool" where
  "paused_until g d c \<longleftrightarrow> ro_paused c \<and> \<not> ro_stopped c \<and> ro_pauseTimer c = Some (g, d) \<and> ro_pauseGen c = g"

lemma step_paused: "paused_until g d c \<Longrightarrow> leaves_pause g e \<Longrightarrow> paused_until g d (rotation_step c e)"
  by (cases e) (simp_all add: paused_until_def rotation_op_defs Let_def frame split: sum.split)

lemma run_paused: "paused_until g d c \<Longrightarrow> list_all (leaves_pause g) es \<Longrightarrow> paused_until g d (rotation_run c es)"
  by (induction es arbitrary: c) (simp_all add: step_paused)

lemma pause_pauses:
  "ro_pauseTimer (snd (PauseRotation d c)) = Some (g, d') \<Longrightarrow> \<not> ro_stopped c
   \<Longrightarrow> paused_until g d' (snd (PauseRotation d c))"
  by (auto simp: PauseRotation_def Let_def paused_until_def frame split: if_splits)

text \<open>A pause with a duration keeps the screen from turning by itself, whatever navigation, reloads
  and late callbacks happen meanwhile, and its own timer ends it: rotation is then on again, with a timer
  pending if there are screens to rotate.\<close>

lemma pause_ends:
  assumes "\<not> ro_stopped c" "ro_pauseTimer (snd (PauseRotation d c)) = Some (g, d')"
    and "list_all (leaves_pause g) es" and q: "q = rotation_run (snd (PauseRotation d c)) es"
  shows "ro_paused q \<and> onRotateTimeout h q = q \<and> ro_pauseTimer q = Some (g, d')
    \<and> \<not> ro_paused (onPauseTimeout g q)
    \<and> (snap_total (ro_snapshot q) > 1 \<and> snap_interval (ro_snapshot q) > 0
       \<longrightarrow> ro_rotateTimer (onPauseTimeout g q) \<noteq> None)"
proof -
  have "paused_until g d' q" using run_paused [OF pause_pauses] assms by blast
  then show ?thesis
    by (auto simp: paused_until_def onRotateTimeout_def onPauseTimeout_def frame rotates_def)
qed

end
