(* ===== verification/Outlet.thy ===== *)
theory Outlet
  imports Event_State
begin

text \<open>
  The part the audio, voice and video coordinators share: a call changes the state under the coordinator's
  lock (its \<^emph>\<open>commit\<close>), takes a snapshot, releases the lock, and then publishes the snapshot to the sink that
  hydrates new clients and to the event hub. Both are optional. An outlet lists what each of them was given,
  oldest first; a value \<^verbatim>\<open>json.Marshal\<close> refuses is not given to the hub.
\<close>

record 'd outlet =
  ou_sink :: "'d list option"
  ou_hub :: "'d list option"

definition emit :: "('d \<Rightarrow> bool) \<Rightarrow> 'd \<Rightarrow> 'd outlet \<Rightarrow> 'd outlet" where
  "emit marshals d out =
     out\<lparr>ou_sink := map_option (\<lambda>xs. xs @ [d]) (ou_sink out),
         ou_hub := map_option (\<lambda>ms. if marshals d then ms @ [d] else ms) (ou_hub out)\<rparr>"

definition outlet_init :: "'d \<Rightarrow> bool \<Rightarrow> bool \<Rightarrow> 'd outlet" where
  "outlet_init d sink hub =
     \<lparr>ou_sink = (if sink then Some [d] else None), ou_hub = (if hub then Some [] else None)\<rparr>"

text \<open>Sink and hub agree with a value in what \<open>view\<close> shows of it: so did the last value the sink was given, and the
  last one the hub was given unless that was never given anything.\<close>

definition agrees_on :: "('d \<Rightarrow> 'v) \<Rightarrow> 'd \<Rightarrow> 'd outlet \<Rightarrow> bool" where
  "agrees_on view d out \<longleftrightarrow>
     (case ou_sink out of None \<Rightarrow> True | Some xs \<Rightarrow> xs \<noteq> [] \<and> view (last xs) = view d)
     \<and> (case ou_hub out of None \<Rightarrow> True | Some ms \<Rightarrow> ms = [] \<or> view (last ms) = view d)"

definition agrees :: "'d \<Rightarrow> 'd outlet \<Rightarrow> bool" where
  "agrees d out \<longleftrightarrow> agrees_on (\<lambda>x. x) d out"

lemma agrees_on_init [simp]: "agrees_on view d (outlet_init d sink hub)"
  by (simp add: agrees_on_def outlet_init_def)

lemma agrees_init [simp]: "agrees d (outlet_init d sink hub)"
  by (simp add: agrees_def)

lemma agrees_on_emit: "marshals d \<Longrightarrow> view d = view d' \<Longrightarrow> agrees_on view d' (emit marshals d out)"
  by (simp add: agrees_on_def emit_def split: option.split)

lemma agrees_emit: "marshals d \<Longrightarrow> agrees d (emit marshals d out)"
  by (simp add: agrees_def agrees_on_emit)

lemma agrees_on_cong: "view d = view d' \<Longrightarrow> agrees_on view d out = agrees_on view d' out"
  by (simp add: agrees_on_def split: option.split)

text \<open>A coordinator: \<open>commit\<close> is the part of a call under the lock and yields the snapshot to publish, if
  there is one; \<open>publish\<close> is the rest. The snapshot shows the state reached, as far as \<open>view\<close> goes.\<close>

locale published_state =
  fixes state_of :: "'c \<Rightarrow> 'd"
    and view :: "'d \<Rightarrow> 'v"
    and outlet_of :: "'c \<Rightarrow> 'd outlet"
    and commit :: "'o \<Rightarrow> 'c \<Rightarrow> 'd option \<times> 'c"
    and publish :: "'d \<Rightarrow> 'c \<Rightarrow> 'c"
    and marshals :: "'d \<Rightarrow> bool"
    and valid :: "'c \<Rightarrow> bool"
    and admissible :: "'o \<Rightarrow> bool"
  assumes commit_outlet: "outlet_of (snd (commit e c)) = outlet_of c"
    and commit_none: "admissible e \<Longrightarrow> fst (commit e c) = None \<Longrightarrow> view (state_of (snd (commit e c))) = view (state_of c)"
    and commit_some: "admissible e \<Longrightarrow> fst (commit e c) = Some d \<Longrightarrow> view (state_of (snd (commit e c))) = view d"
    and commit_marshals: "valid c \<Longrightarrow> admissible e \<Longrightarrow> fst (commit e c) = Some d \<Longrightarrow> marshals d"
    and commit_valid: "valid c \<Longrightarrow> admissible e \<Longrightarrow> valid (snd (commit e c))"
    and publish_state: "state_of (publish d c) = state_of c"
    and publish_outlet: "outlet_of (publish d c) = emit marshals d (outlet_of c)"
    and publish_valid: "valid c \<Longrightarrow> valid (publish d c)"
begin

text \<open>A call that runs to its end before the next one starts.\<close>

definition call :: "'c \<Rightarrow> 'o \<Rightarrow> 'c" where
  "call c e = (case commit e c of (None, c') \<Rightarrow> c' | (Some d, c') \<Rightarrow> publish d c')"

lemma call_valid: "valid c \<Longrightarrow> admissible e \<Longrightarrow> valid (call c e)"
  using commit_valid [of c e] publish_valid by (auto simp: call_def split: prod.split option.split)

lemma call_agrees:
  assumes "valid c" "agrees_on view (state_of c) (outlet_of c)" "admissible e"
  shows "agrees_on view (state_of (call c e)) (outlet_of (call c e))"
proof (cases "fst (commit e c)")
  case None
  then have "call c e = snd (commit e c)" by (cases "commit e c") (simp add: call_def)
  with commit_none [OF assms(3) None] assms show ?thesis
    by (simp add: commit_outlet agrees_on_cong [of view "state_of (snd (commit e c))" "state_of c"])
next
  case (Some d)
  then have "call c e = publish d (snd (commit e c))" by (cases "commit e c") (simp add: call_def)
  then show ?thesis
    using commit_marshals [OF assms(1,3) Some] commit_some [OF assms(3) Some]
    by (simp add: publish_state publish_outlet agrees_on_emit)
qed

lemma calls_agree:
  "valid c \<Longrightarrow> agrees_on view (state_of c) (outlet_of c) \<Longrightarrow> list_all admissible es
   \<Longrightarrow> agrees_on view (state_of (foldl call c es)) (outlet_of (foldl call c es)) \<and> valid (foldl call c es)"
  by (induction es arbitrary: c) (simp_all add: call_agrees call_valid)

text \<open>Two calls whose publications come in the other order leave sink and hub with the older state.\<close>

lemma overtaken:
  assumes "valid c" "admissible e" "admissible f"
    and "fst (commit e c) = Some d" "fst (commit f (snd (commit e c))) = Some d'"
    and "q = publish d (publish d' (snd (commit f (snd (commit e c)))))"
  shows "view (state_of q) = view d' \<and> agrees d (outlet_of q)"
  using assms(6) commit_marshals [OF assms(1,2,4)] commit_some [OF assms(3,5)]
  by (simp add: publish_state publish_outlet agrees_emit)

end

end
