(* ===== verification/Audio.thy ===== *)
theory Audio
  imports Outlet
begin

text \<open>\<^verbatim>\<open>internal/audio/coordinator.go\<close>: the master volume and mute state.\<close>

definition DefaultVolume :: int where "DefaultVolume = 75"
definition DefaultMuted :: bool where "DefaultMuted = False"

datatype audio_error = ErrInvalidVolume

record AudioCoordinator =
  au_volume :: int
  au_muted :: bool
  au_out :: "AudioStateData outlet"

definition audio_state :: "AudioCoordinator \<Rightarrow> AudioStateData" where
  "audio_state c = \<lparr>as_Volume = au_volume c, as_Muted = au_muted c\<rparr>"

definition NewAudioCoordinator :: "bool \<Rightarrow> bool \<Rightarrow> AudioCoordinator" where
  "NewAudioCoordinator hub sink =
     \<lparr>au_volume = DefaultVolume, au_muted = DefaultMuted,
      au_out = outlet_init \<lparr>as_Volume = DefaultVolume, as_Muted = DefaultMuted\<rparr> sink hub\<rparr>"

definition audio_GetState :: "AudioCoordinator \<Rightarrow> int \<times> bool" where
  "audio_GetState c = (au_volume c, au_muted c)"

definition audio_publishState :: "AudioStateData \<Rightarrow> AudioCoordinator \<Rightarrow> AudioCoordinator" where
  "audio_publishState d c = c\<lparr>au_out := emit (\<lambda>_. True) d (au_out c)\<rparr>"

text \<open>The part of a call under the lock, with the state to publish.\<close>

datatype audio_op = AudioVolume int | AudioMute "bool option"

fun audio_commit :: "audio_op \<Rightarrow> AudioCoordinator \<Rightarrow> AudioStateData option \<times> AudioCoordinator" where
  "audio_commit (AudioVolume vol) c =
     (if vol < 0 \<or> vol > 100 then (None, c)
      else let c' = c\<lparr>au_volume := vol\<rparr> in (Some (audio_state c'), c'))"
| "audio_commit (AudioMute m) c =
     (let c' = c\<lparr>au_muted := (case m of None \<Rightarrow> \<not> au_muted c | Some b \<Rightarrow> b)\<rparr> in (Some (audio_state c'), c'))"

definition SetVolume :: "int \<Rightarrow> AudioCoordinator \<Rightarrow> (audio_error + int \<times> bool) \<times> AudioCoordinator" where
  "SetVolume vol c =
     (case audio_commit (AudioVolume vol) c of
        (None, c') \<Rightarrow> (Inl ErrInvalidVolume, c')
      | (Some d, c') \<Rightarrow> (Inr (as_Volume d, as_Muted d), audio_publishState d c'))"

definition SetMute :: "bool option \<Rightarrow> AudioCoordinator \<Rightarrow> (audio_error + int \<times> bool) \<times> AudioCoordinator" where
  "SetMute m c =
     (case audio_commit (AudioMute m) c of
        (None, c') \<Rightarrow> (Inl ErrInvalidVolume, c')
      | (Some d, c') \<Rightarrow> (Inr (as_Volume d, as_Muted d), audio_publishState d c'))"

fun audio_call :: "AudioCoordinator \<Rightarrow> audio_op \<Rightarrow> AudioCoordinator" where
  "audio_call c (AudioVolume vol) = snd (SetVolume vol c)"
| "audio_call c (AudioMute m) = snd (SetMute m c)"

interpretation audio: published_state audio_state "\<lambda>x. x" au_out audio_commit audio_publishState "\<lambda>_. True" "\<lambda>_. True" "\<lambda>_. True"
proof unfold_locales
  fix c :: AudioCoordinator and e d
  show "au_out (snd (audio_commit e c)) = au_out c" by (cases e) (simp_all add: Let_def)
  show "fst (audio_commit e c) = None \<Longrightarrow> audio_state (snd (audio_commit e c)) = audio_state c"
    by (cases e) (auto simp: Let_def split: if_splits)
  show "fst (audio_commit e c) = Some d \<Longrightarrow> audio_state (snd (audio_commit e c)) = d"
    by (cases e) (auto simp: Let_def split: if_splits)
qed (simp_all add: audio_publishState_def audio_state_def)

lemma audio_call_eq: "audio_call = audio.call"
proof (intro ext)
  fix c e
  show "audio_call c e = audio.call c e"
    by (cases e) (simp_all add: SetVolume_def SetMute_def audio.call_def Let_def split: option.split prod.split)
qed

lemma audio_call_volume: "0 \<le> au_volume c \<and> au_volume c \<le> 100 \<Longrightarrow>
    0 \<le> au_volume (audio_call c e) \<and> au_volume (audio_call c e) \<le> 100"
  by (cases e) (simp_all add: SetVolume_def SetMute_def audio_publishState_def Let_def)

lemma audio_calls_volume: "0 \<le> au_volume c \<and> au_volume c \<le> 100 \<Longrightarrow>
    0 \<le> au_volume (foldl audio_call c es) \<and> au_volume (foldl audio_call c es) \<le> 100"
  by (induction es arbitrary: c) (simp_all add: audio_call_volume)

text \<open>After any sequence of calls, each run to its end before the next, the volume is between 0 and 100 and
  sink and hub were last given the volume and mute state the coordinator holds; a call with a volume out of
  range is refused and changes nothing.\<close>

lemma audio_consistent:
  assumes "c = foldl audio_call (NewAudioCoordinator hub sink) es"
  shows "0 \<le> au_volume c \<and> au_volume c \<le> 100 \<and> agrees (audio_state c) (au_out c)
    \<and> (vol < 0 \<or> vol > 100 \<longrightarrow> SetVolume vol c = (Inl ErrInvalidVolume, c))"
  using audio.calls_agree [of "NewAudioCoordinator hub sink" es]
    audio_calls_volume [of "NewAudioCoordinator hub sink" es] assms
  by (simp add: list_all_iff agrees_def audio_call_eq NewAudioCoordinator_def DefaultVolume_def audio_state_def SetVolume_def)

text \<open>The state is published after the lock is released, so two concurrent calls can publish in the other
  order than they took effect: the clients and the hydration sink are then left with a volume the
  coordinator does not have.\<close>

lemma audio_publication_overtaken:
  assumes "0 \<le> v" "v \<le> 100" "0 \<le> w" "w \<le> 100" "v \<noteq> w"
    and "(Some d, c1) = audio_commit (AudioVolume v) c" "(Some d', c2) = audio_commit (AudioVolume w) c1"
    and "q = audio_publishState d (audio_publishState d' c2)"
  shows "au_volume q = w \<and> as_Volume d = v \<and> agrees d (au_out q)"
proof -
  have c1: "c1 = snd (audio_commit (AudioVolume v) c)" and d: "fst (audio_commit (AudioVolume v) c) = Some d"
    using assms(6) by (metis snd_conv, metis fst_conv)
  have "fst (audio_commit (AudioVolume w) (snd (audio_commit (AudioVolume v) c))) = Some d'"
    "q = audio_publishState d (audio_publishState d' (snd (audio_commit (AudioVolume w) (snd (audio_commit (AudioVolume v) c)))))"
    unfolding assms(8) c1 [symmetric] using assms(7) by (metis fst_conv, metis snd_conv)
  then have "audio_state q = d' \<and> agrees d (au_out q)" by (rule audio.overtaken [OF TrueI TrueI TrueI d])
  moreover have "as_Volume d = v" "as_Volume d' = w" using assms by (simp_all add: audio_state_def Let_def)
  ultimately show ?thesis by (auto simp: audio_state_def)
qed

end
