(* ===== verification/Voice_Coordinator.thy ===== *)
theory Voice_Coordinator
  imports Outlet
begin

text \<open>
  \<^verbatim>\<open>internal/voice/coordinator.go\<close>: the state of the voice pipeline and the watchdog that ends a
  \<^emph>\<open>speaking\<close> state. Timers are compared by identity in the source; here each gets the next number. The
  watchdog's callback runs in two parts: the check under the lock, and the reset, which takes the lock again.
\<close>

definition StateIdle :: string where "StateIdle = ''idle''"
definition StateListening :: string where "StateListening = ''listening''"
definition StateTranscribing :: string where "StateTranscribing = ''transcribing''"
definition StateThinking :: string where "StateThinking = ''thinking''"
definition StateSynthesizing :: string where "StateSynthesizing = ''synthesizing''"
definition StateSpeaking :: string where "StateSpeaking = ''speaking''"
definition StateError :: string where "StateError = ''error''"

definition ValidStates :: "string list" where
  "ValidStates = [StateIdle, StateListening, StateTranscribing, StateThinking, StateSynthesizing, StateSpeaking, StateError]"

definition IsValidState :: "string \<Rightarrow> bool" where
  "IsValidState s \<longleftrightarrow> s \<in> set ValidStates"

lemmas voice_states = StateIdle_def StateListening_def StateTranscribing_def StateThinking_def
  StateSynthesizing_def StateSpeaking_def StateError_def

definition defaultSpeakingWatchdogTimeout :: duration where
  "defaultSpeakingWatchdogTimeout = 30 * second"

datatype voice_error = ErrInvalidState

record VoiceCoordinator =
  vc_data :: VoiceStateData
  vc_speakingTimer :: "nat option"
  vc_nextTimer :: nat
  vc_speakingTimeout :: duration
  vc_running :: "(nat \<times> duration) list"
  vc_out :: "VoiceStateData outlet"

definition voice_data :: "string \<Rightarrow> string option \<Rightarrow> string option \<Rightarrow> string option \<Rightarrow> string option \<Rightarrow> VoiceStateData" where
  "voice_data state transcript reply ttsEngine status =
     \<lparr>vo_State = state, vo_Transcript = transcript, vo_Reply = reply, vo_TTSEngine = ttsEngine, vo_Status = status\<rparr>"

definition NewVoiceCoordinator :: "bool \<Rightarrow> bool \<Rightarrow> VoiceCoordinator" where
  "NewVoiceCoordinator hub sink =
     (let d = voice_data StateIdle None None None None in
      \<lparr>vc_data = d, vc_speakingTimer = None, vc_nextTimer = 0,
       vc_speakingTimeout = defaultSpeakingWatchdogTimeout, vc_running = [], vc_out = outlet_init d sink hub\<rparr>)"

definition voice_GetState :: "VoiceCoordinator \<Rightarrow> VoiceStateData" where
  "voice_GetState c = vc_data c"

text \<open>\<open>vc_running\<close> holds the timers that were started and not stopped, with their durations.\<close>

definition disarmSpeakingWatchdogLocked :: "VoiceCoordinator \<Rightarrow> VoiceCoordinator" where
  "disarmSpeakingWatchdogLocked c =
     (case vc_speakingTimer c of
        None \<Rightarrow> c
      | Some t \<Rightarrow> c\<lparr>vc_running := filter (\<lambda>(u, _). u \<noteq> t) (vc_running c), vc_speakingTimer := None\<rparr>)"

definition armSpeakingWatchdogLocked :: "VoiceCoordinator \<Rightarrow> VoiceCoordinator" where
  "armSpeakingWatchdogLocked c0 =
     (let c = (case vc_speakingTimer c0 of None \<Rightarrow> c0
               | Some t \<Rightarrow> c0\<lparr>vc_running := filter (\<lambda>(u, _). u \<noteq> t) (vc_running c0)\<rparr>);
          timeout = (if vc_speakingTimeout c \<le> 0 then defaultSpeakingWatchdogTimeout else vc_speakingTimeout c);
          timer = vc_nextTimer c
      in c\<lparr>vc_running := vc_running c @ [(timer, timeout)], vc_nextTimer := Suc timer, vc_speakingTimer := Some timer\<rparr>)"

definition voice_publishState :: "VoiceStateData \<Rightarrow> VoiceCoordinator \<Rightarrow> VoiceCoordinator" where
  "voice_publishState d c = c\<lparr>vc_out := emit (\<lambda>_. True) d (vc_out c)\<rparr>"

text \<open>The parts under the lock of \<^verbatim>\<open>updateState\<close>, \<^verbatim>\<open>SetStatus\<close> and \<^verbatim>\<open>Stop\<close>.\<close>

definition updateState_locked :: "VoiceStateData \<Rightarrow> VoiceCoordinator \<Rightarrow> VoiceCoordinator" where
  "updateState_locked d c =
     (let c' = c\<lparr>vc_data := d\<rparr> in
      if vo_State d = StateSpeaking then armSpeakingWatchdogLocked c' else disarmSpeakingWatchdogLocked c')"

definition updateState ::
    "string \<Rightarrow> string option \<Rightarrow> string option \<Rightarrow> string option \<Rightarrow> string option \<Rightarrow> VoiceCoordinator
     \<Rightarrow> VoiceStateData \<times> VoiceCoordinator" where
  "updateState state transcript reply ttsEngine status c =
     (let c' = updateState_locked (voice_data state transcript reply ttsEngine status) c
      in (vc_data c', voice_publishState (vc_data c') c'))"

definition SetFullState ::
    "string \<Rightarrow> string option \<Rightarrow> string option \<Rightarrow> string option \<Rightarrow> string option \<Rightarrow> VoiceCoordinator
     \<Rightarrow> (voice_error + VoiceStateData) \<times> VoiceCoordinator" where
  "SetFullState state transcript reply ttsEngine status c =
     (if \<not> IsValidState state then (Inl ErrInvalidState, c)
      else apfst Inr (updateState state transcript reply ttsEngine status c))"

definition SetState ::
    "string \<Rightarrow> string option \<Rightarrow> string option \<Rightarrow> string option \<Rightarrow> VoiceCoordinator
     \<Rightarrow> (voice_error + VoiceStateData) \<times> VoiceCoordinator" where
  "SetState state transcript reply ttsEngine c = SetFullState state transcript reply ttsEngine None c"

definition Transition ::
    "string \<Rightarrow> string option \<Rightarrow> string option \<Rightarrow> string option \<Rightarrow> string option \<Rightarrow> VoiceCoordinator
     \<Rightarrow> VoiceStateData \<times> VoiceCoordinator" where
  "Transition state transcript reply ttsEngine status c = updateState state transcript reply ttsEngine status c"

definition voice_SetStatus :: "string option \<Rightarrow> VoiceCoordinator \<Rightarrow> VoiceStateData \<times> VoiceCoordinator" where
  "voice_SetStatus status c =
     (let c' = c\<lparr>vc_data := (vc_data c)\<lparr>vo_Status := status\<rparr>\<rparr>
      in (vc_data c', voice_publishState (vc_data c') c'))"

definition voice_Reset :: "VoiceCoordinator \<Rightarrow> VoiceStateData \<times> VoiceCoordinator" where
  "voice_Reset c = updateState StateIdle None None None None c"

definition voice_Stop :: "VoiceCoordinator \<Rightarrow> VoiceCoordinator" where
  "voice_Stop c = disarmSpeakingWatchdogLocked c"

text \<open>The first part of the watchdog's callback: whether the second, \<^const>\<open>voice_Reset\<close>, follows.\<close>

definition watchdog_check :: "nat \<Rightarrow> VoiceCoordinator \<Rightarrow> bool" where
  "watchdog_check timer c \<longleftrightarrow> vc_speakingTimer c = Some timer \<and> vo_State (vc_data c) = StateSpeaking"

definition watchdog_callback :: "nat \<Rightarrow> VoiceCoordinator \<Rightarrow> VoiceCoordinator" where
  "watchdog_callback timer c = (if watchdog_check timer c then snd (voice_Reset c) else c)"

subsection \<open>Sequences of calls\<close>

datatype voice_op =
    VoiceSet VoiceStateData
  | VoiceTransition VoiceStateData
  | VoiceStatus "string option"
  | VoiceReset
  | VoiceStop
  | VoiceWatchdog nat

fun voice_commit :: "voice_op \<Rightarrow> VoiceCoordinator \<Rightarrow> VoiceStateData option \<times> VoiceCoordinator" where
  "voice_commit (VoiceSet d) c =
     (if \<not> IsValidState (vo_State d) then (None, c) else (Some d, updateState_locked d c))"
| "voice_commit (VoiceTransition d) c = (Some d, updateState_locked d c)"
| "voice_commit (VoiceStatus s) c =
     (let d = (vc_data c)\<lparr>vo_Status := s\<rparr> in (Some d, c\<lparr>vc_data := d\<rparr>))"
| "voice_commit VoiceReset c =
     (let d = voice_data StateIdle None None None None in (Some d, updateState_locked d c))"
| "voice_commit VoiceStop c = (None, disarmSpeakingWatchdogLocked c)"
| "voice_commit (VoiceWatchdog t) c =
     (if watchdog_check t c
      then let d = voice_data StateIdle None None None None in (Some d, updateState_locked d c) else (None, c))"

fun voice_call :: "VoiceCoordinator \<Rightarrow> voice_op \<Rightarrow> VoiceCoordinator" where
  "voice_call c (VoiceSet d) =
     snd (SetFullState (vo_State d) (vo_Transcript d) (vo_Reply d) (vo_TTSEngine d) (vo_Status d) c)"
| "voice_call c (VoiceTransition d) =
     snd (Transition (vo_State d) (vo_Transcript d) (vo_Reply d) (vo_TTSEngine d) (vo_Status d) c)"
| "voice_call c (VoiceStatus s) = snd (voice_SetStatus s c)"
| "voice_call c VoiceReset = snd (voice_Reset c)"
| "voice_call c VoiceStop = voice_Stop c"
| "voice_call c (VoiceWatchdog t) = watchdog_callback t c"

lemma voice_data_fields [simp]:
  "voice_data (vo_State d) (vo_Transcript d) (vo_Reply d) (vo_TTSEngine d) (vo_Status d) = d"
  by (simp add: voice_data_def)

lemma disarm_fields [frame]:
  "vc_data (disarmSpeakingWatchdogLocked c) = vc_data c"
  "vc_out (disarmSpeakingWatchdogLocked c) = vc_out c"
  "vc_speakingTimer (disarmSpeakingWatchdogLocked c) = None"
  "vc_nextTimer (disarmSpeakingWatchdogLocked c) = vc_nextTimer c"
  by (simp_all add: disarmSpeakingWatchdogLocked_def split: option.split)

lemma voice_arm_fields [frame]:
  "vc_data (armSpeakingWatchdogLocked c) = vc_data c"
  "vc_out (armSpeakingWatchdogLocked c) = vc_out c"
  "vc_speakingTimer (armSpeakingWatchdogLocked c) = Some (vc_nextTimer c)"
  "vc_nextTimer (armSpeakingWatchdogLocked c) = Suc (vc_nextTimer c)"
  by (simp_all add: armSpeakingWatchdogLocked_def Let_def split: option.split)

lemma updateState_locked_fields [frame]:
  "vc_data (updateState_locked d c) = d"
  "vc_out (updateState_locked d c) = vc_out c"
  by (simp_all add: updateState_locked_def Let_def frame)

interpretation voice: published_state vc_data "\<lambda>x. x" vc_out voice_commit voice_publishState "\<lambda>_. True" "\<lambda>_. True" "\<lambda>_. True"
proof unfold_locales
  fix c :: VoiceCoordinator and e d
  show "vc_out (snd (voice_commit e c)) = vc_out c" by (cases e) (simp_all add: Let_def frame)
  show "fst (voice_commit e c) = None \<Longrightarrow> vc_data (snd (voice_commit e c)) = vc_data c"
    by (cases e) (auto simp: Let_def frame split: if_splits)
  show "fst (voice_commit e c) = Some d \<Longrightarrow> vc_data (snd (voice_commit e c)) = d"
    by (cases e) (auto simp: Let_def frame split: if_splits)
qed (simp_all add: voice_publishState_def)

lemma voice_call_eq: "voice_call = voice.call"
proof (intro ext)
  fix c e
  show "voice_call c e = voice.call c e"
    by (cases e) (simp_all add: SetFullState_def Transition_def voice_SetStatus_def voice_Reset_def voice_Stop_def
        watchdog_callback_def updateState_def voice.call_def Let_def frame split: option.split prod.split)
qed

subsection \<open>The watchdog\<close>

text \<open>The timers running are exactly the armed one, which was the last created, and one is armed only while
  speaking.\<close>

definition watchdog_inv :: "VoiceCoordinator \<Rightarrow> bool" where
  "watchdog_inv c \<longleftrightarrow> vc_speakingTimeout c = defaultSpeakingWatchdogTimeout
     \<and> (case vc_speakingTimer c of
          None \<Rightarrow> vc_running c = []
        | Some t \<Rightarrow> vc_running c = [(t, defaultSpeakingWatchdogTimeout)] \<and> t < vc_nextTimer c
            \<and> vo_State (vc_data c) = StateSpeaking)"

lemma updateState_locked_inv [inv_rules]:
  assumes "watchdog_inv c" shows "watchdog_inv (updateState_locked d c)"
proof -
  have "defaultSpeakingWatchdogTimeout > 0" by (simp add: defaultSpeakingWatchdogTimeout_def second_def)
  with assms show ?thesis
    by (auto simp: watchdog_inv_def updateState_locked_def disarmSpeakingWatchdogLocked_def
        armSpeakingWatchdogLocked_def Let_def split: option.splits)
qed

lemma publish_watchdog_inv [simp]: "watchdog_inv (voice_publishState d c) = watchdog_inv c"
  by (simp add: watchdog_inv_def voice_publishState_def split: option.split)

lemma disarm_inv [inv_rules]: "watchdog_inv c \<Longrightarrow> watchdog_inv (disarmSpeakingWatchdogLocked c)"
  by (auto simp: watchdog_inv_def disarmSpeakingWatchdogLocked_def split: option.splits)

lemma voice_call_inv [inv_rules]:
  assumes "watchdog_inv c" shows "watchdog_inv (voice_call c e)"
proof (cases e)
  case (VoiceStatus s)
  have "watchdog_inv (c\<lparr>vc_data := (vc_data c)\<lparr>vo_Status := s\<rparr>\<rparr>)"
    using assms by (simp add: watchdog_inv_def split: option.splits)
  with VoiceStatus show ?thesis by (simp add: voice_SetStatus_def Let_def)
qed (use assms in \<open>simp_all add: SetFullState_def Transition_def voice_Reset_def voice_Stop_def
        watchdog_callback_def updateState_def Let_def inv_rules\<close>)

lemma voice_new_inv: "watchdog_inv (NewVoiceCoordinator hub sink)"
  by (simp add: watchdog_inv_def NewVoiceCoordinator_def Let_def)

lemma voice_calls_inv: "watchdog_inv c \<Longrightarrow> watchdog_inv (foldl voice_call c es)"
  by (induction es arbitrary: c) (simp_all add: voice_call_inv)

text \<open>Unless the coordinator is stopped, a speaking state has its watchdog.\<close>

lemma voice_call_armed:
  assumes "e \<noteq> VoiceStop" "vo_State (vc_data c) = StateSpeaking \<longrightarrow> vc_speakingTimer c \<noteq> None"
    "vo_State (vc_data (voice_call c e)) = StateSpeaking"
  shows "vc_speakingTimer (voice_call c e) \<noteq> None"
proof -
  have armed: "vc_speakingTimer (voice_publishState d (updateState_locked x c)) \<noteq> None"
    if "vo_State x = StateSpeaking" for d x
    using that by (simp add: voice_publishState_def updateState_locked_def Let_def frame)
  show ?thesis
  proof (cases e)
    case (VoiceStatus s)
    with assms show ?thesis by (simp add: voice_SetStatus_def voice_publishState_def)
  qed (use assms armed in \<open>simp_all add: SetFullState_def Transition_def voice_Reset_def
         watchdog_callback_def updateState_def voice_publishState_def voice_data_def Let_def frame split: if_splits\<close>)
qed

lemma voice_calls_armed:
  "vo_State (vc_data c) = StateSpeaking \<longrightarrow> vc_speakingTimer c \<noteq> None \<Longrightarrow> VoiceStop \<notin> set es
   \<Longrightarrow> vo_State (vc_data (foldl voice_call c es)) = StateSpeaking \<longrightarrow> vc_speakingTimer (foldl voice_call c es) \<noteq> None"
proof (induction es arbitrary: c)
  case Nil
  then show ?case by simp
next
  case (Cons e es)
  have "vo_State (vc_data (voice_call c e)) = StateSpeaking \<longrightarrow> vc_speakingTimer (voice_call c e) \<noteq> None"
    using Cons.prems voice_call_armed [of e c] by auto
  with Cons show ?case by simp
qed

text \<open>C19: After any sequence of calls and watchdog callbacks that does not stop the coordinator, sink and hub
  were last given the state it holds; if that is \<^emph>\<open>speaking\<close>, exactly one timer is running, and its expiry
  returns the pipeline to \<^emph>\<open>idle\<close>, so a pipeline that never reports the end of its speech cannot stay in
  that state. The callback of any other timer does nothing.\<close>

theorem voice_watchdog_frees:
  assumes "c = foldl voice_call (NewVoiceCoordinator hub sink) es" "VoiceStop \<notin> set es"
  shows "agrees (vc_data c) (vc_out c)
    \<and> (if vo_State (vc_data c) = StateSpeaking
       then \<exists>t d. vc_running c = [(t, d)] \<and> 0 < d \<and> vo_State (vc_data (voice_call c (VoiceWatchdog t))) = StateIdle
         \<and> (\<forall>u. u \<noteq> t \<longrightarrow> voice_call c (VoiceWatchdog u) = c)
       else vc_running c = [] \<and> (\<forall>u. voice_call c (VoiceWatchdog u) = c))"
proof -
  have agrees: "agrees (vc_data c) (vc_out c)"
    using voice.calls_agree [of "NewVoiceCoordinator hub sink" es] assms(1)
    by (simp add: voice_call_eq list_all_iff agrees_def) (simp add: NewVoiceCoordinator_def Let_def)
  have inv: "watchdog_inv c" using assms(1) voice_calls_inv [OF voice_new_inv] by simp
  have armed: "vo_State (vc_data c) = StateSpeaking \<longrightarrow> vc_speakingTimer c \<noteq> None"
    unfolding assms(1) using assms(2)
    by (intro voice_calls_armed) (simp_all add: NewVoiceCoordinator_def voice_data_def voice_states Let_def)
  have idle: "vo_State (vc_data (snd (voice_Reset c))) = StateIdle"
    by (simp add: voice_Reset_def updateState_def voice_publishState_def voice_data_def Let_def frame)
  show ?thesis
  proof (cases "vc_speakingTimer c")
    case None
    with inv armed have "vo_State (vc_data c) \<noteq> StateSpeaking" "vc_running c = []"
      by (simp_all add: watchdog_inv_def)
    then show ?thesis using agrees by (simp add: watchdog_callback_def watchdog_check_def)
  next
    case (Some t)
    with inv have "vo_State (vc_data c) = StateSpeaking" "vc_running c = [(t, 30 * second)]"
      by (simp_all add: watchdog_inv_def defaultSpeakingWatchdogTimeout_def)
    moreover have "(0 :: int) < 30 * second" by (simp add: second_def)
    ultimately show ?thesis
      using agrees idle Some by (simp add: watchdog_callback_def watchdog_check_def)
  qed
qed

definition speaking :: VoiceStateData where "speaking = voice_data StateSpeaking None (Some ''hello'') None None"
definition listening :: VoiceStateData where "listening = voice_data StateListening None None None None"

definition sample_voice :: VoiceCoordinator where
  "sample_voice = foldl voice_call (NewVoiceCoordinator True True) [VoiceSet listening, VoiceTransition speaking]"

theorem voice_watchdog_frees_witness:
  "agrees (vc_data sample_voice) (vc_out sample_voice)
    \<and> (if vo_State (vc_data sample_voice) = StateSpeaking
       then \<exists>t d. vc_running sample_voice = [(t, d)] \<and> 0 < d
         \<and> vo_State (vc_data (voice_call sample_voice (VoiceWatchdog t))) = StateIdle
         \<and> (\<forall>u. u \<noteq> t \<longrightarrow> voice_call sample_voice (VoiceWatchdog u) = sample_voice)
       else vc_running sample_voice = [] \<and> (\<forall>u. voice_call sample_voice (VoiceWatchdog u) = sample_voice))"
  by (rule voice_watchdog_frees [OF sample_voice_def]) simp

text \<open>The watchdog releases the lock between its check and its reset. A turn that begins in between is
  wiped: whatever state was set, the pipeline is idle afterwards, and clients are told so.\<close>

lemma voice_watchdog_race:
  assumes "watchdog_check t c" "IsValidState (vo_State d)" "c' = voice_call c (VoiceSet d)"
  shows "vc_data c' = d \<and> vo_State (vc_data (snd (voice_Reset c'))) = StateIdle
    \<and> agrees (voice_data StateIdle None None None None) (vc_out (snd (voice_Reset c')))"
  using assms
  by (simp add: voice_Reset_def SetFullState_def updateState_def Let_def frame voice_publishState_def
      agrees_emit) (simp add: voice_data_def)

end
