(* ===== verification/Video.thy ===== *)
theory Video
  imports Outlet
begin

text \<open>
  \<^verbatim>\<open>internal/video\<close>: the stack of at most two video streams, a primary and a picture-in-picture, with
  timers that dismiss temporary streams. Timers are kept under the identifier of their stream; each has its
  number and its duration. A timer's callback takes the lock, so it may run after the timer was stopped or
  replaced. Requests to a stream's controller are a parameter of the forwarding operation.
\<close>

definition ModeWidgets :: string where "ModeWidgets = ''widgets''"
definition ModeVideo :: string where "ModeVideo = ''video''"
definition PriorityPersistent :: string where "PriorityPersistent = ''persistent''"
definition PriorityTemporary :: string where "PriorityTemporary = ''temporary''"
definition TypeWebRTC :: string where "TypeWebRTC = ''webrtc''"
definition TypeHLS :: string where "TypeHLS = ''hls''"
definition TypeMJPEG :: string where "TypeMJPEG = ''mjpeg''"
definition PlayerStatePlaying :: string where "PlayerStatePlaying = ''playing''"
definition PlayerStatePaused :: string where "PlayerStatePaused = ''paused''"
definition PlayerStateBuffering :: string where "PlayerStateBuffering = ''buffering''"
definition PlayerStateIdle :: string where "PlayerStateIdle = ''idle''"
definition DefaultTemporaryTimeoutSeconds :: int where "DefaultTemporaryTimeoutSeconds = 45"

definition ForwardedActions :: "string list" where
  "ForwardedActions = [''toggle_playback'', ''play'', ''pause'', ''rewind'', ''fast_forward'', ''back'', ''home'',
     ''captions'', ''next'', ''previous'', ''seek'']"

lemmas video_consts = ModeWidgets_def ModeVideo_def PriorityPersistent_def PriorityTemporary_def
  TypeWebRTC_def TypeHLS_def TypeMJPEG_def PlayerStatePlaying_def PlayerStatePaused_def
  PlayerStateBuffering_def PlayerStateIdle_def DefaultTemporaryTimeoutSeconds_def

datatype video_error =
    ErrStreamNotFound | ErrNotControllable | ErrControllerUnreachable | ErrInvalidStream | ErrInvalidAction
  | ErrInvalidPlayerState | ErrRequest string

record VideoStream =
  vi_ID :: string
  vi_StreamURL :: string
  vi_Type :: string
  vi_Priority :: string
  vi_TimeoutSeconds :: int
  vi_Controllable :: bool
  vi_ControlURL :: string
  vi_PlayerState :: string
  vi_Muted :: bool
  vi_Title :: string
  vi_Series :: string
  vi_Season :: string
  vi_Episode :: string
  vi_Position :: f64
  vi_Duration :: f64
  vi_PositionUpdatedAt :: int

record VideoState =
  vt_Mode :: string
  vt_Primary :: "VideoStream option"
  vt_Pip :: "VideoStream option"

text \<open>Comparisons of a \<^verbatim>\<open>float64\<close> with zero, and whether \<^verbatim>\<open>json.Marshal\<close> accepts it.\<close>

definition f64_pos :: "f64 \<Rightarrow> bool" where
  "f64_pos x \<longleftrightarrow> f64_less f64_zero x"

definition f64_finite :: "f64 \<Rightarrow> bool" where
  "f64_finite x \<longleftrightarrow> unat x mod 2 ^ 63 < 2047 * 2 ^ 52"

definition stream_marshals :: "VideoStream \<Rightarrow> bool" where
  "stream_marshals s \<longleftrightarrow> f64_finite (vi_Position s) \<and> f64_finite (vi_Duration s)"

definition video_marshals :: "VideoState \<Rightarrow> bool" where
  "video_marshals v \<longleftrightarrow> pred_option stream_marshals (vt_Primary v) \<and> pred_option stream_marshals (vt_Pip v)"

record VideoCoordinator =
  vd_mode :: string
  vd_primary :: "VideoStream option"
  vd_pip :: "VideoStream option"
  vd_timers :: "string \<rightharpoonup> nat \<times> duration"
  vd_nextTimer :: nat
  vd_closed :: bool
  vd_out :: "VideoState outlet"

definition NewVideoCoordinator :: "bool \<Rightarrow> bool \<Rightarrow> VideoCoordinator" where
  "NewVideoCoordinator hub sink =
     \<lparr>vd_mode = ModeWidgets, vd_primary = None, vd_pip = None, vd_timers = Map.empty, vd_nextTimer = 0,
      vd_closed = False,
      vd_out = outlet_init \<lparr>vt_Mode = ModeWidgets, vt_Primary = None, vt_Pip = None\<rparr> sink hub\<rparr>"

definition snapshotLocked :: "VideoCoordinator \<Rightarrow> VideoState" where
  "snapshotLocked c = \<lparr>vt_Mode = vd_mode c, vt_Primary = vd_primary c, vt_Pip = vd_pip c\<rparr>"

definition video_GetState :: "VideoCoordinator \<Rightarrow> VideoState" where
  "video_GetState c = snapshotLocked c"

definition isValidPlayerState :: "string \<Rightarrow> bool" where
  "isValidPlayerState ps \<longleftrightarrow>
     ps = PlayerStatePlaying \<or> ps = PlayerStatePaused \<or> ps = PlayerStateBuffering \<or> ps = PlayerStateIdle"

definition streamID :: "VideoStream option \<Rightarrow> string" where
  "streamID s = (case s of None \<Rightarrow> [] | Some x \<Rightarrow> vi_ID x)"

definition video_publishState :: "VideoState \<Rightarrow> VideoCoordinator \<Rightarrow> VideoCoordinator" where
  "video_publishState s c = c\<lparr>vd_out := emit video_marshals s (vd_out c)\<rparr>"

definition stopTimerLocked :: "string \<Rightarrow> VideoCoordinator \<Rightarrow> VideoCoordinator" where
  "stopTimerLocked i c = (if i \<noteq> [] then c\<lparr>vd_timers := (vd_timers c)(i := None)\<rparr> else c)"

definition startTimerLocked :: "string \<Rightarrow> duration \<Rightarrow> VideoCoordinator \<Rightarrow> VideoCoordinator" where
  "startTimerLocked i d c =
     (if d > 0 then
        let c' = stopTimerLocked i c in
        c'\<lparr>vd_timers := (vd_timers c')(i \<mapsto> (vd_nextTimer c', d)), vd_nextTimer := Suc (vd_nextTimer c')\<rparr>
      else c)"

subsection \<open>Metadata\<close>

definition copyStr :: "bool \<Rightarrow> string \<Rightarrow> string \<Rightarrow> string" where
  "copyStr overwrite dst val = (if val \<noteq> [] \<and> (overwrite \<or> dst = []) then val else dst)"

definition copyMetadata :: "VideoStream \<Rightarrow> VideoStream option \<Rightarrow> bool \<Rightarrow> VideoStream" where
  "copyMetadata target src0 overwrite =
     (case src0 of None \<Rightarrow> target | Some src \<Rightarrow>
      if overwrite \<and> vi_Title src \<noteq> []
      then let t = target\<lparr>vi_Title := vi_Title src, vi_Series := vi_Series src, vi_Season := vi_Season src,
                         vi_Episode := vi_Episode src\<rparr>
           in (if f64_pos (vi_Duration src) then t\<lparr>vi_Duration := vi_Duration src\<rparr> else t)
      else if \<not> overwrite \<and> vi_Title target \<noteq> [] then target
      else let t1 = target\<lparr>vi_Title := copyStr overwrite (vi_Title target) (vi_Title src),
                          vi_Series := copyStr overwrite (vi_Series target) (vi_Series src),
                          vi_Season := copyStr overwrite (vi_Season target) (vi_Season src),
                          vi_Episode := copyStr overwrite (vi_Episode target) (vi_Episode src)\<rparr>;
               t2 = (if f64_pos (vi_Duration src) \<and> (overwrite \<or> f64_is_zero (vi_Duration t1))
                     then t1\<lparr>vi_Duration := vi_Duration src\<rparr> else t1)
           in (if \<not> overwrite \<and> f64_is_zero (vi_Position t2) \<and> f64_pos (vi_Position src)
               then t2\<lparr>vi_Position := vi_Position src, vi_PositionUpdatedAt := vi_PositionUpdatedAt src\<rparr> else t2))"

definition preserveMetadata :: "VideoStream \<Rightarrow> VideoStream option \<Rightarrow> VideoStream" where
  "preserveMetadata target existing = copyMetadata target existing False"

definition time_unix_milli :: "gotime \<Rightarrow> int" where
  "time_unix_milli t = t div 1000000"

definition stamp_position :: "gotime \<Rightarrow> VideoStream \<Rightarrow> VideoStream" where
  "stamp_position now s =
     (if vi_PositionUpdatedAt s = 0 \<and> f64_pos (vi_Position s)
      then s\<lparr>vi_PositionUpdatedAt := time_unix_milli now\<rparr> else s)"

subsection \<open>The stack\<close>

text \<open>The four parts of \<^verbatim>\<open>normalizeAndValidateStream\<close> after the check of the identifiers.\<close>

definition norm_type :: "VideoStream \<Rightarrow> video_error + VideoStream" where
  "norm_type s =
     (if vi_Type s = [] then Inr (s\<lparr>vi_Type := TypeWebRTC\<rparr>)
      else if vi_Type s \<noteq> TypeWebRTC \<and> vi_Type s \<noteq> TypeHLS \<and> vi_Type s \<noteq> TypeMJPEG then Inl ErrInvalidStream
      else Inr s)"

definition norm_priority :: "VideoStream \<Rightarrow> video_error + VideoStream" where
  "norm_priority s =
     (if vi_Priority s = [] then Inr (s\<lparr>vi_Priority := PriorityPersistent\<rparr>)
      else if vi_Priority s \<noteq> PriorityPersistent \<and> vi_Priority s \<noteq> PriorityTemporary then Inl ErrInvalidStream
      else Inr s)"

definition norm_timeout :: "VideoStream \<Rightarrow> VideoStream" where
  "norm_timeout s =
     (if vi_Priority s = PriorityTemporary \<and> vi_TimeoutSeconds s \<le> 0
      then s\<lparr>vi_TimeoutSeconds := DefaultTemporaryTimeoutSeconds\<rparr>
      else if vi_Priority s \<noteq> PriorityTemporary then s\<lparr>vi_TimeoutSeconds := 0\<rparr> else s)"

definition norm_player :: "VideoStream \<Rightarrow> video_error + VideoStream" where
  "norm_player s =
     (if vi_PlayerState s = [] then Inr (s\<lparr>vi_PlayerState := PlayerStatePlaying\<rparr>)
      else if \<not> isValidPlayerState (vi_PlayerState s) then Inl ErrInvalidPlayerState
      else Inr s)"

definition normalizeAndValidateStream :: "VideoStream \<Rightarrow> video_error + VideoStream" where
  "normalizeAndValidateStream s0 =
     (let s = s0\<lparr>vi_ID := TrimSpace (vi_ID s0), vi_StreamURL := TrimSpace (vi_StreamURL s0)\<rparr> in
      if vi_ID s = [] \<or> vi_StreamURL s = [] \<or> vi_ID s = ''all'' \<or> vi_ID s = ''*'' then Inl ErrInvalidStream
      else res_bind (norm_type s) (\<lambda>s. res_bind (norm_priority s) (\<lambda>s. norm_player (norm_timeout s))))"

definition start_if_temporary :: "VideoStream \<Rightarrow> VideoCoordinator \<Rightarrow> VideoCoordinator" where
  "start_if_temporary s c =
     (if vi_Priority s = PriorityTemporary then startTimerLocked (vi_ID s) (seconds (vi_TimeoutSeconds s)) c else c)"

text \<open>The slots are given by their selector and update functions.\<close>

definition retriggerSlotLocked ::
    "gotime \<Rightarrow> (VideoCoordinator \<Rightarrow> VideoStream option) \<Rightarrow> (VideoStream option \<Rightarrow> VideoCoordinator \<Rightarrow> VideoCoordinator)
     \<Rightarrow> VideoStream \<Rightarrow> bool \<Rightarrow> VideoCoordinator \<Rightarrow> VideoCoordinator" where
  "retriggerSlotLocked now get put stream muted c0 =
     (let c = stopTimerLocked (vi_ID stream) c0;
          s = stamp_position now (preserveMetadata (stream\<lparr>vi_Muted := muted\<rparr>) (get c))
      in start_if_temporary s (put (Some s) c))"

definition promotePipOrResetLocked :: "VideoCoordinator \<Rightarrow> VideoCoordinator" where
  "promotePipOrResetLocked c =
     (case vd_pip c of
        Some p \<Rightarrow> c\<lparr>vd_primary := Some (p\<lparr>vi_Muted := False\<rparr>), vd_pip := None\<rparr>
      | None \<Rightarrow> c\<lparr>vd_primary := None, vd_mode := ModeWidgets\<rparr>)"

definition assignPersistentStreamSlotLocked :: "VideoStream \<Rightarrow> VideoCoordinator \<Rightarrow> VideoCoordinator" where
  "assignPersistentStreamSlotLocked stream c =
     (let c' = (case vd_primary c of
          None \<Rightarrow> c
        | Some p \<Rightarrow>
            if vi_Priority p = PriorityTemporary
            then (stopTimerLocked (streamID (vd_pip c)) c)\<lparr>vd_pip := Some (p\<lparr>vi_Muted := True\<rparr>)\<rparr>
            else stopTimerLocked (vi_ID p) c)
      in c'\<lparr>vd_primary := Some (stream\<lparr>vi_Muted := False\<rparr>)\<rparr>)"

definition assignTemporaryStreamSlotLocked :: "VideoStream \<Rightarrow> VideoCoordinator \<Rightarrow> VideoCoordinator" where
  "assignTemporaryStreamSlotLocked stream c =
     (let timeout = seconds (vi_TimeoutSeconds stream) in
      if (case vd_primary c of None \<Rightarrow> False | Some p \<Rightarrow> vi_Priority p = PriorityPersistent)
      then startTimerLocked (vi_ID stream) timeout
        ((stopTimerLocked (streamID (vd_pip c)) c)\<lparr>vd_pip := Some (stream\<lparr>vi_Muted := True\<rparr>)\<rparr>)
      else startTimerLocked (vi_ID stream) timeout
        ((stopTimerLocked (streamID (vd_primary c)) c)\<lparr>vd_primary := Some (stream\<lparr>vi_Muted := False\<rparr>)\<rparr>))"

definition assignStreamSlotLocked :: "VideoStream \<Rightarrow> VideoCoordinator \<Rightarrow> VideoCoordinator" where
  "assignStreamSlotLocked stream c =
     (if vi_Priority stream = PriorityPersistent then assignPersistentStreamSlotLocked stream c
      else assignTemporaryStreamSlotLocked stream c)"

text \<open>The part of \<^verbatim>\<open>Trigger\<close> under the lock.\<close>

definition Trigger_locked :: "gotime \<Rightarrow> VideoStream \<Rightarrow> VideoCoordinator \<Rightarrow> VideoCoordinator" where
  "Trigger_locked now stream c =
     (if streamID (vd_primary c) = vi_ID stream
      then retriggerSlotLocked now vd_primary (\<lambda>s c. c\<lparr>vd_primary := s\<rparr>) stream False c
      else if streamID (vd_pip c) = vi_ID stream
      then retriggerSlotLocked now vd_pip (\<lambda>s c. c\<lparr>vd_pip := s\<rparr>) stream True c
      else (assignStreamSlotLocked (stamp_position now stream) c)\<lparr>vd_mode := ModeVideo\<rparr>)"

definition Dismiss_locked :: "string \<Rightarrow> VideoCoordinator \<Rightarrow> VideoCoordinator option" where
  "Dismiss_locked i c =
     (if i = ''all'' \<or> i = ''*'' then
        (if vd_primary c = None \<and> vd_pip c = None then None
         else Some (c\<lparr>vd_timers := Map.empty, vd_primary := None, vd_pip := None, vd_mode := ModeWidgets\<rparr>))
      else if streamID (vd_pip c) = i then Some ((stopTimerLocked i c)\<lparr>vd_pip := None\<rparr>)
      else if streamID (vd_primary c) = i then Some (promotePipOrResetLocked (stopTimerLocked i c))
      else None)"

text \<open>The new contents of the stream an update is for.\<close>

definition updated_stream :: "gotime \<Rightarrow> VideoStream \<Rightarrow> VideoStream \<Rightarrow> VideoStream" where
  "updated_stream now update target =
     (let t1 = (if vi_PlayerState update \<noteq> [] then
                  (let t = target\<lparr>vi_PlayerState := vi_PlayerState update\<rparr> in
                   if vi_PlayerState update = PlayerStateIdle then
                     (let t = t\<lparr>vi_Position := 0, vi_Duration := 0, vi_PositionUpdatedAt := 0\<rparr> in
                      if vi_Title update = [] then t\<lparr>vi_Title := [], vi_Series := [], vi_Season := [], vi_Episode := []\<rparr>
                      else t)
                   else t)
                else target);
          t2 = copyMetadata t1 (Some update) True
      in if f64_pos (vi_Position update)
         then t2\<lparr>vi_Position := vi_Position update,
                 vi_PositionUpdatedAt := (if vi_PositionUpdatedAt update = 0 then time_unix_milli now
                                          else vi_PositionUpdatedAt update)\<rparr>
         else if f64_is_zero (vi_Position update) \<and> vi_PositionUpdatedAt update > 0
         then t2\<lparr>vi_Position := 0, vi_PositionUpdatedAt := vi_PositionUpdatedAt update\<rparr>
         else t2)"

definition findStreamLocked :: "string \<Rightarrow> VideoCoordinator \<Rightarrow> VideoStream option" where
  "findStreamLocked i c =
     (if streamID (vd_primary c) = i then vd_primary c
      else if streamID (vd_pip c) = i then vd_pip c else None)"

definition UpdatePlayerState_locked :: "gotime \<Rightarrow> string \<Rightarrow> VideoStream \<Rightarrow> VideoCoordinator \<Rightarrow> VideoCoordinator option" where
  "UpdatePlayerState_locked now i update c =
     (case findStreamLocked i c of
        None \<Rightarrow> None
      | Some target \<Rightarrow>
          if streamID (vd_primary c) = i then Some (c\<lparr>vd_primary := Some (updated_stream now update target)\<rparr>)
          else Some (c\<lparr>vd_pip := Some (updated_stream now update target)\<rparr>))"

text \<open>The part of \<^verbatim>\<open>handleTimerExpired\<close> under the lock, with the snapshot to publish. When the
  picture-in-picture expires, the snapshot is an operand of the assignment that clears the slot, so it is taken
  before.\<close>

definition timerExpired_locked :: "string \<Rightarrow> VideoCoordinator \<Rightarrow> VideoState option \<times> VideoCoordinator" where
  "timerExpired_locked i c0 =
     (let c = c0\<lparr>vd_timers := (vd_timers c0)(i := None)\<rparr> in
      if streamID (vd_pip c) = i then (Some (snapshotLocked c), c\<lparr>vd_pip := None\<rparr>)
      else if streamID (vd_primary c) = i
      then (let c' = promotePipOrResetLocked c in (Some (snapshotLocked c'), c'))
      else (None, c))"

subsection \<open>Operations\<close>

definition Trigger :: "gotime \<Rightarrow> VideoStream \<Rightarrow> VideoCoordinator \<Rightarrow> (video_error + VideoState) \<times> VideoCoordinator" where
  "Trigger now stream0 c =
     (case normalizeAndValidateStream stream0 of
        Inl err \<Rightarrow> (Inl err, c)
      | Inr stream \<Rightarrow>
          if vd_closed c then (Inl ErrStreamNotFound, c)
          else let c' = Trigger_locked now stream c; snap = snapshotLocked c'
               in (Inr snap, video_publishState snap c'))"

definition Dismiss :: "string \<Rightarrow> VideoCoordinator \<Rightarrow> (video_error + VideoState) \<times> VideoCoordinator" where
  "Dismiss i0 c =
     (let i = TrimSpace i0 in
      if i = [] then (Inl ErrInvalidStream, c)
      else if vd_closed c then (Inl ErrStreamNotFound, c)
      else (case Dismiss_locked i c of
              None \<Rightarrow> (Inl ErrStreamNotFound, c)
            | Some c' \<Rightarrow> let snap = snapshotLocked c' in (Inr snap, video_publishState snap c')))"

definition UpdatePlayerState ::
    "gotime \<Rightarrow> string \<Rightarrow> VideoStream \<Rightarrow> VideoCoordinator \<Rightarrow> (video_error + VideoState) \<times> VideoCoordinator" where
  "UpdatePlayerState now i0 update c =
     (let i = TrimSpace i0 in
      if i = [] then (Inl ErrInvalidStream, c)
      else if vi_PlayerState update \<noteq> [] \<and> \<not> isValidPlayerState (vi_PlayerState update)
      then (Inl ErrInvalidPlayerState, c)
      else if vd_closed c then (Inl ErrStreamNotFound, c)
      else (case UpdatePlayerState_locked now i update c of
              None \<Rightarrow> (Inl ErrStreamNotFound, c)
            | Some c' \<Rightarrow> let snap = snapshotLocked c' in (Inr snap, video_publishState snap c')))"

text \<open>What comes of the request to a controller: it could not be built, got no answer, or got a status.\<close>

datatype post_result = RequestInvalid string | NoAnswer | Answered int

definition ForwardAction ::
    "(string \<Rightarrow> json \<Rightarrow> post_result) \<Rightarrow> string \<Rightarrow> string \<Rightarrow> json \<Rightarrow> VideoCoordinator \<Rightarrow> video_error + unit" where
  "ForwardAction post i0 action val c =
     (let i = TrimSpace i0 in
      if i = [] then Inl ErrInvalidStream
      else if action \<notin> set ForwardedActions then Inl ErrInvalidAction
      else (case findStreamLocked i c of
              None \<Rightarrow> Inl ErrStreamNotFound
            | Some target \<Rightarrow>
                let controlURL = TrimSpace (vi_ControlURL target) in
                if \<not> (vi_Controllable target \<and> controlURL \<noteq> []) then Inl ErrNotControllable
                else (case post controlURL (JObj [(''id'', JStr i), (''action'', JStr action), (''value'', val)]) of
                        RequestInvalid msg \<Rightarrow> Inl (ErrRequest msg)
                      | NoAnswer \<Rightarrow> Inl ErrControllerUnreachable
                      | Answered code \<Rightarrow> if code < 200 \<or> code > 299 then Inl ErrControllerUnreachable else Inr ())))"

definition handleTimerExpired :: "string \<Rightarrow> VideoCoordinator \<Rightarrow> VideoCoordinator" where
  "handleTimerExpired i c =
     (if vd_closed c then c
      else (case timerExpired_locked i c of (None, c') \<Rightarrow> c' | (Some snap, c') \<Rightarrow> video_publishState snap c'))"

definition video_Close :: "VideoCoordinator \<Rightarrow> VideoCoordinator" where
  "video_Close c = c\<lparr>vd_closed := True, vd_timers := Map.empty\<rparr>"

text \<open>Anything that can happen: a call, or a callback for some stream.\<close>

datatype video_op =
    VTrigger gotime VideoStream | VDismiss string | VUpdate gotime string VideoStream | VExpire string | VClose

fun video_call :: "VideoCoordinator \<Rightarrow> video_op \<Rightarrow> VideoCoordinator" where
  "video_call c (VTrigger now s) = snd (Trigger now s c)"
| "video_call c (VDismiss i) = snd (Dismiss i c)"
| "video_call c (VUpdate now i s) = snd (UpdatePlayerState now i s c)"
| "video_call c (VExpire i) = handleTimerExpired i c"
| "video_call c VClose = video_Close c"

end
