(* ===== verification/Video_Props.thy ===== *)
theory Video_Props
  imports Video
begin

text \<open>
  Properties of the video coordinator over all sequences of calls and callbacks, stale ones included: the
  invariant of the stack, what the expiry of a timer does, that clients see the stack as it is, and the
  effect of a callback that was under way when its stream was triggered again.
\<close>

subsection \<open>The invariant\<close>

definition stream_ok :: "VideoStream \<Rightarrow> bool" where
  "stream_ok s \<longleftrightarrow> vi_ID s \<noteq> [] \<and> vi_ID s \<noteq> ''all'' \<and> vi_ID s \<noteq> ''*'' \<and> vi_StreamURL s \<noteq> []
     \<and> vi_Type s \<in> {TypeWebRTC, TypeHLS, TypeMJPEG} \<and> isValidPlayerState (vi_PlayerState s)
     \<and> (vi_Priority s = PriorityTemporary \<and> vi_TimeoutSeconds s > 0
        \<or> vi_Priority s = PriorityPersistent \<and> vi_TimeoutSeconds s = 0)"

text \<open>The duration of the timer a stream has while it is shown: none for a persistent stream, and none when the
  number of seconds overflows to a duration that is not positive.\<close>

definition wants_timer :: "VideoStream \<Rightarrow> duration option" where
  "wants_timer s =
     (if vi_Priority s = PriorityTemporary \<and> seconds (vi_TimeoutSeconds s) > 0
      then Some (seconds (vi_TimeoutSeconds s)) else None)"

definition slot_timers :: "VideoStream option \<Rightarrow> VideoStream option \<Rightarrow> string \<Rightarrow> duration option" where
  "slot_timers p q i =
     (if i = [] then None
      else if streamID p = i then Option.bind p wants_timer
      else if streamID q = i then Option.bind q wants_timer else None)"

definition timer_view :: "VideoCoordinator \<Rightarrow> string \<Rightarrow> duration option" where
  "timer_view c i = map_option snd (vd_timers c i)"

definition slots_ok :: "VideoStream option \<Rightarrow> VideoStream option \<Rightarrow> bool" where
  "slots_ok p q \<longleftrightarrow>
     (case p of None \<Rightarrow> q = None | Some s \<Rightarrow> stream_ok s \<and> \<not> vi_Muted s)
     \<and> (case q of None \<Rightarrow> True | Some s \<Rightarrow> stream_ok s \<and> vi_Muted s \<and> streamID p \<noteq> vi_ID s)"

definition video_inv :: "VideoCoordinator \<Rightarrow> bool" where
  "video_inv c \<longleftrightarrow> slots_ok (vd_primary c) (vd_pip c)
     \<and> vd_mode c = (if vd_primary c = None then ModeWidgets else ModeVideo)
     \<and> timer_view c = (if vd_closed c then Map.empty else slot_timers (vd_primary c) (vd_pip c))"

lemma norm_type_ok:
  "norm_type s = Inr t \<Longrightarrow> vi_Type t \<in> {TypeWebRTC, TypeHLS, TypeMJPEG} \<and> vi_ID t = vi_ID s \<and> vi_StreamURL t = vi_StreamURL s"
  by (auto simp: norm_type_def split: if_splits)

lemma norm_priority_ok:
  "norm_priority s = Inr t \<Longrightarrow> vi_Priority t \<in> {PriorityPersistent, PriorityTemporary}
     \<and> vi_ID t = vi_ID s \<and> vi_StreamURL t = vi_StreamURL s \<and> vi_Type t = vi_Type s"
  by (auto simp: norm_priority_def split: if_splits)

lemma norm_timeout_ok:
  "vi_Priority s \<in> {PriorityPersistent, PriorityTemporary} \<Longrightarrow> t = norm_timeout s
   \<Longrightarrow> (vi_Priority t = PriorityTemporary \<and> vi_TimeoutSeconds t > 0
        \<or> vi_Priority t = PriorityPersistent \<and> vi_TimeoutSeconds t = 0)
     \<and> vi_ID t = vi_ID s \<and> vi_StreamURL t = vi_StreamURL s \<and> vi_Type t = vi_Type s"
  by (auto simp: norm_timeout_def DefaultTemporaryTimeoutSeconds_def)

lemma norm_player_ok:
  "norm_player s = Inr t \<Longrightarrow> isValidPlayerState (vi_PlayerState t) \<and> vi_ID t = vi_ID s \<and> vi_StreamURL t = vi_StreamURL s
     \<and> vi_Type t = vi_Type s \<and> vi_Priority t = vi_Priority s \<and> vi_TimeoutSeconds t = vi_TimeoutSeconds s"
  by (auto simp: norm_player_def isValidPlayerState_def split: if_splits)

lemma normalized_ok:
  assumes "normalizeAndValidateStream s0 = Inr s"
  shows "stream_ok s \<and> vi_ID s = TrimSpace (vi_ID s0)"
proof -
  from assms obtain t u where t: "norm_type (s0\<lparr>vi_ID := TrimSpace (vi_ID s0), vi_StreamURL := TrimSpace (vi_StreamURL s0)\<rparr>) = Inr t"
    and u: "norm_priority t = Inr u" and s: "norm_player (norm_timeout u) = Inr s"
    and ids: "TrimSpace (vi_ID s0) \<noteq> []" "TrimSpace (vi_StreamURL s0) \<noteq> []" "TrimSpace (vi_ID s0) \<noteq> ''all''"
      "TrimSpace (vi_ID s0) \<noteq> ''*''"
    by (auto simp: normalizeAndValidateStream_def Let_def split: if_splits)
  show ?thesis
    using norm_type_ok [OF t] norm_priority_ok [OF u] norm_player_ok [OF s] norm_timeout_ok [of u, OF _ refl] ids
    unfolding stream_ok_def by simp
qed

lemma stream_ok_id [simp]: "stream_ok s \<Longrightarrow> vi_ID s \<noteq> []" "stream_ok s \<Longrightarrow> [] \<noteq> vi_ID s"
  by (auto simp: stream_ok_def)

lemma stream_ok_muted [simp]: "stream_ok (s\<lparr>vi_Muted := m\<rparr>) = stream_ok s"
  by (simp add: stream_ok_def)

lemma wants_timer_muted [simp]: "wants_timer (s\<lparr>vi_Muted := m\<rparr>) = wants_timer s"
  by (simp add: wants_timer_def)

text \<open>Operations on metadata and positions leave alone what the stack depends on.\<close>

definition same_slot :: "VideoStream \<Rightarrow> VideoStream \<Rightarrow> bool" where
  "same_slot s t \<longleftrightarrow> vi_ID t = vi_ID s \<and> vi_StreamURL t = vi_StreamURL s \<and> vi_Type t = vi_Type s
     \<and> vi_Priority t = vi_Priority s \<and> vi_TimeoutSeconds t = vi_TimeoutSeconds s \<and> vi_Muted t = vi_Muted s"

lemma same_slot_refl [simp]: "same_slot s s"
  by (simp add: same_slot_def)

lemma same_slot_trans: "same_slot s t \<Longrightarrow> same_slot t u \<Longrightarrow> same_slot s u"
  by (simp add: same_slot_def)

lemma copyMetadata_slot [simp]: "same_slot t (copyMetadata t src b)"
  by (simp add: copyMetadata_def same_slot_def Let_def split: option.split)

lemma copyMetadata_player [simp]: "vi_PlayerState (copyMetadata t src b) = vi_PlayerState t"
  by (simp add: copyMetadata_def Let_def split: option.split)

lemma stamp_slot [simp]: "same_slot t (stamp_position now t)" "vi_PlayerState (stamp_position now t) = vi_PlayerState t"
  by (simp_all add: stamp_position_def same_slot_def)

lemma updated_slot: "same_slot t (updated_stream now update t)"
proof -
  have "same_slot t1 (if P then (copyMetadata t1 (Some update) True)\<lparr>vi_Position := x, vi_PositionUpdatedAt := y\<rparr>
      else if Q then (copyMetadata t1 (Some update) True)\<lparr>vi_Position := x', vi_PositionUpdatedAt := y'\<rparr>
      else copyMetadata t1 (Some update) True)" for t1 P Q x y x' y'
    using copyMetadata_slot [of t1 "Some update" True] by (auto simp: same_slot_def)
  then show ?thesis
    unfolding updated_stream_def Let_def by (rule same_slot_trans [rotated]) (simp add: same_slot_def)
qed

lemma updated_player:
  "vi_PlayerState (updated_stream now update t) =
     (if vi_PlayerState update = [] then vi_PlayerState t else vi_PlayerState update)"
  by (simp add: updated_stream_def Let_def)

lemma same_slot_ok:
  "same_slot s t \<Longrightarrow> isValidPlayerState (vi_PlayerState t) \<Longrightarrow> stream_ok s \<Longrightarrow> stream_ok t"
  by (auto simp: same_slot_def stream_ok_def)

lemma same_slot_wants: "same_slot s t \<Longrightarrow> wants_timer t = wants_timer s"
  by (simp add: same_slot_def wants_timer_def)

subsection \<open>Timers\<close>

lemma timer_view_simps [simp]:
  "timer_view (c\<lparr>vd_primary := p\<rparr>) = timer_view c"
  "timer_view (c\<lparr>vd_pip := p\<rparr>) = timer_view c"
  "timer_view (c\<lparr>vd_mode := m\<rparr>) = timer_view c"
  "timer_view (video_publishState s c) = timer_view c"
  by (simp_all add: timer_view_def fun_eq_iff video_publishState_def)

lemma timer_view_stop: "timer_view c [] = None \<Longrightarrow> timer_view (stopTimerLocked i c) = (timer_view c)(i := None)"
  by (auto simp: timer_view_def stopTimerLocked_def fun_eq_iff)

lemma timer_view_start:
  "timer_view (startTimerLocked i d c) = (if d > 0 then (timer_view c)(i \<mapsto> d) else timer_view c)"
  by (auto simp: timer_view_def startTimerLocked_def stopTimerLocked_def fun_eq_iff Let_def)

lemma start_wants:
  "vi_Priority s = PriorityTemporary \<Longrightarrow> timer_view c (vi_ID s) = None
   \<Longrightarrow> timer_view (startTimerLocked (vi_ID s) (seconds (vi_TimeoutSeconds s)) c) = (timer_view c)(vi_ID s := wants_timer s)"
  by (auto simp: timer_view_start wants_timer_def)

lemma timer_fields [simp]:
  "vd_primary (stopTimerLocked i c) = vd_primary c" "vd_pip (stopTimerLocked i c) = vd_pip c"
  "vd_mode (stopTimerLocked i c) = vd_mode c" "vd_closed (stopTimerLocked i c) = vd_closed c"
  "vd_out (stopTimerLocked i c) = vd_out c"
  "vd_primary (startTimerLocked i d c) = vd_primary c" "vd_pip (startTimerLocked i d c) = vd_pip c"
  "vd_mode (startTimerLocked i d c) = vd_mode c" "vd_closed (startTimerLocked i d c) = vd_closed c"
  "vd_out (startTimerLocked i d c) = vd_out c"
  by (simp_all add: stopTimerLocked_def startTimerLocked_def Let_def)

lemma start_if_temporary_fields [simp]:
  "vd_primary (start_if_temporary s c) = vd_primary c" "vd_pip (start_if_temporary s c) = vd_pip c"
  "vd_mode (start_if_temporary s c) = vd_mode c" "vd_closed (start_if_temporary s c) = vd_closed c"
  "vd_out (start_if_temporary s c) = vd_out c"
  by (simp_all add: start_if_temporary_def)

lemma timer_view_start_if:
  "timer_view c (vi_ID s) = None \<Longrightarrow> timer_view (start_if_temporary s c) = (timer_view c)(vi_ID s := wants_timer s)"
  by (auto simp: start_if_temporary_def start_wants wants_timer_def fun_eq_iff)

lemma slot_timers_Nil [simp]: "slot_timers p q [] = None"
  by (simp add: slot_timers_def)

lemma streamID_simps [simp]: "streamID None = []" "streamID (Some s) = vi_ID s"
  by (simp_all add: streamID_def)

lemma publish_inv [simp]: "video_inv (video_publishState s c) = video_inv c"
  unfolding video_inv_def timer_view_simps by (simp add: video_publishState_def)

subsection \<open>Operations keep the invariant\<close>

abbreviation unmute :: "VideoStream \<Rightarrow> VideoStream" where "unmute s \<equiv> s\<lparr>vi_Muted := False\<rparr>"
abbreviation mute :: "VideoStream \<Rightarrow> VideoStream" where "mute s \<equiv> s\<lparr>vi_Muted := True\<rparr>"

lemma persistent_wants_none: "vi_Priority s = PriorityPersistent \<Longrightarrow> wants_timer s = None"
  by (simp add: wants_timer_def video_consts)

lemma not_persistent: "stream_ok s \<Longrightarrow> vi_Priority s \<noteq> PriorityPersistent \<longleftrightarrow> vi_Priority s = PriorityTemporary"
  by (auto simp: stream_ok_def video_consts)

lemma slots_ok_simps [simp]:
  "slots_ok None q \<longleftrightarrow> q = None"
  "slots_ok (Some s) None \<longleftrightarrow> stream_ok s \<and> \<not> vi_Muted s"
  "slots_ok (Some s) (Some t) \<longleftrightarrow> stream_ok s \<and> \<not> vi_Muted s \<and> stream_ok t \<and> vi_Muted t \<and> vi_ID s \<noteq> vi_ID t"
  by (auto simp: slots_ok_def)

lemma drop_pip: "slots_ok p (Some t) \<Longrightarrow> (slot_timers p (Some t))(vi_ID t := None) = slot_timers p None"
  by (cases p) (auto simp: slot_timers_def fun_eq_iff)

lemma drop_primary:
  "slots_ok (Some s) q \<Longrightarrow> (slot_timers (Some s) q)(vi_ID s := None) = slot_timers (map_option unmute q) None"
  by (cases q) (auto simp: slot_timers_def fun_eq_iff)

lemma replace_primary:
  "slots_ok (Some s) q \<Longrightarrow> vi_ID t \<noteq> [] \<Longrightarrow> streamID q \<noteq> vi_ID t
   \<Longrightarrow> (slot_timers (Some s) q)(vi_ID s := None, vi_ID t := wants_timer t) = slot_timers (Some t) q"
  by (cases q) (auto simp: slot_timers_def fun_eq_iff)

lemma replace_primary_quiet:
  "slots_ok (Some s) q \<Longrightarrow> wants_timer t = None \<Longrightarrow> streamID q \<noteq> vi_ID t
   \<Longrightarrow> (slot_timers (Some s) q)(vi_ID s := None) = slot_timers (Some t) q"
  by (cases q) (auto simp: slot_timers_def fun_eq_iff)

lemma replace_pip:
  "slots_ok (Some s) q \<Longrightarrow> vi_ID t \<noteq> [] \<Longrightarrow> vi_ID s \<noteq> vi_ID t
   \<Longrightarrow> (slot_timers (Some s) q)(streamID q := None, vi_ID t := wants_timer t) = slot_timers (Some s) (Some t)"
  by (cases q) (auto simp: slot_timers_def fun_eq_iff)

lemma demote_primary:
  "slots_ok (Some s) q \<Longrightarrow> stream_ok t \<Longrightarrow> wants_timer t = None \<Longrightarrow> vi_ID s \<noteq> vi_ID t \<Longrightarrow> streamID q \<noteq> vi_ID t
   \<Longrightarrow> (slot_timers (Some s) q)(streamID q := None) = slot_timers (Some t) (Some (mute s))"
  by (cases q) (auto simp: slot_timers_def fun_eq_iff)

lemma inv_view: "video_inv c \<Longrightarrow> \<not> vd_closed c \<Longrightarrow> timer_view c = slot_timers (vd_primary c) (vd_pip c)"
  by (simp add: video_inv_def)

lemma promote_inv:
  assumes "video_inv c" "\<not> vd_closed c" "vd_primary c = Some s"
  shows "video_inv (promotePipOrResetLocked (stopTimerLocked (vi_ID s) c))"
  using assms drop_primary [of s "vd_pip c"] timer_view_stop [of c "vi_ID s"]
  by (cases "vd_pip c") (auto simp: promotePipOrResetLocked_def video_inv_def)

lemma drop_pip_inv:
  assumes "video_inv c" "\<not> vd_closed c" "vd_pip c = Some s"
  shows "video_inv ((stopTimerLocked (vi_ID s) c)\<lparr>vd_pip := None\<rparr>)"
  using assms drop_pip [of "vd_primary c" s] timer_view_stop [of c "vi_ID s"]
  by (cases "vd_primary c") (auto simp: video_inv_def)

lemma assign_persistent_inv:
  assumes inv: "video_inv c" "\<not> vd_closed c" and s: "stream_ok s" "vi_Priority s = PriorityPersistent"
    and new: "streamID (vd_primary c) \<noteq> vi_ID s" "streamID (vd_pip c) \<noteq> vi_ID s"
  shows "video_inv ((assignPersistentStreamSlotLocked s c)\<lparr>vd_mode := ModeVideo\<rparr>)"
proof (cases "vd_primary c")
  case None
  with inv s persistent_wants_none show ?thesis
    by (auto simp: assignPersistentStreamSlotLocked_def video_inv_def slot_timers_def fun_eq_iff)
next
  case (Some p)
  then have ok: "slots_ok (Some p) (vd_pip c)" using inv by (simp add: video_inv_def)
  then have p: "stream_ok p" by (cases "vd_pip c") simp_all
  note view = inv_view [OF inv] timer_view_stop [of c]
  show ?thesis
  proof (cases "vi_Priority p = PriorityTemporary")
    case True
    then show ?thesis
      using Some inv s new p ok view demote_primary [OF ok, of "unmute s"]
      by (simp add: assignPersistentStreamSlotLocked_def video_inv_def persistent_wants_none)
  next
    case False
    then show ?thesis
      using Some inv s new p ok view replace_primary_quiet [OF ok, of "unmute s"]
      by (cases "vd_pip c") (simp_all add: assignPersistentStreamSlotLocked_def video_inv_def persistent_wants_none)
  qed
qed

lemma assign_temporary_inv:
  assumes inv: "video_inv c" "\<not> vd_closed c" and s: "stream_ok s" "vi_Priority s = PriorityTemporary"
    and new: "streamID (vd_primary c) \<noteq> vi_ID s" "streamID (vd_pip c) \<noteq> vi_ID s"
  shows "video_inv ((assignTemporaryStreamSlotLocked s c)\<lparr>vd_mode := ModeVideo\<rparr>)"
proof -
  have id: "vi_ID s \<noteq> []" using s by (simp add: stream_ok_def)
  have free: "timer_view c (vi_ID s) = None" using inv new by (simp add: video_inv_def slot_timers_def)
  have view: "timer_view (startTimerLocked (vi_ID s) (seconds (vi_TimeoutSeconds s)) ((stopTimerLocked i c)\<lparr>vd_pip := q\<rparr>))
      = (timer_view c)(i := None, vi_ID s := wants_timer s)"
    "timer_view (startTimerLocked (vi_ID s) (seconds (vi_TimeoutSeconds s)) ((stopTimerLocked i c)\<lparr>vd_primary := q\<rparr>))
      = (timer_view c)(i := None, vi_ID s := wants_timer s)" for i q
    using inv s free by (simp_all add: start_wants timer_view_stop inv_view)
  show ?thesis
  proof (cases "vd_primary c")
    case None
    then show ?thesis using inv s id view
      by (auto simp: assignTemporaryStreamSlotLocked_def video_inv_def slot_timers_def fun_eq_iff)
  next
    case (Some p)
    then have ok: "slots_ok (Some p) (vd_pip c)" using inv by (simp add: video_inv_def)
    then have p: "stream_ok p" "\<not> vi_Muted p" by (cases "vd_pip c"; simp)+
    show ?thesis
    proof (cases "vi_Priority p = PriorityPersistent")
      case True
      then show ?thesis
        using Some inv s new p view replace_pip [OF ok, of "mute s"] id
        by (simp add: assignTemporaryStreamSlotLocked_def video_inv_def)
    next
      case False
      then show ?thesis
        using Some inv s new p view replace_primary [OF ok, of "unmute s"] id ok
        by (cases "vd_pip c") (simp_all add: assignTemporaryStreamSlotLocked_def video_inv_def)
    qed
  qed
qed

lemma stamp_fields [simp]:
  "vi_ID (stamp_position now s) = vi_ID s" "vi_Priority (stamp_position now s) = vi_Priority s"
  using stamp_slot(1) [where t = s and now = now] unfolding same_slot_def by simp_all

lemma stamp_ok [simp]: "stream_ok (stamp_position now s) = stream_ok s"
  by (simp add: stream_ok_def stamp_position_def)

lemma assign_inv:
  assumes "video_inv c" "\<not> vd_closed c" "stream_ok s"
    and "streamID (vd_primary c) \<noteq> vi_ID s" "streamID (vd_pip c) \<noteq> vi_ID s"
  shows "video_inv ((assignStreamSlotLocked s c)\<lparr>vd_mode := ModeVideo\<rparr>)"
  using assms assign_persistent_inv assign_temporary_inv not_persistent
  by (simp add: assignStreamSlotLocked_def)

text \<open>A stream triggered again, as it is put back into its slot.\<close>

definition retriggered :: "gotime \<Rightarrow> VideoStream \<Rightarrow> bool \<Rightarrow> VideoStream option \<Rightarrow> VideoStream" where
  "retriggered now s m prev = stamp_position now (preserveMetadata (s\<lparr>vi_Muted := m\<rparr>) prev)"

lemma retriggered_slot: "same_slot (s\<lparr>vi_Muted := m\<rparr>) (retriggered now s m prev)"
  unfolding retriggered_def preserveMetadata_def by (rule same_slot_trans [OF copyMetadata_slot stamp_slot(1)])

lemma retriggered_ok: "stream_ok s \<Longrightarrow> stream_ok (retriggered now s m prev)"
  by (rule same_slot_ok [OF retriggered_slot]) (simp_all add: retriggered_def preserveMetadata_def stream_ok_def)

lemma retriggered_fields:
  "vi_ID (retriggered now s m prev) = vi_ID s" "vi_Muted (retriggered now s m prev) = m"
  using retriggered_slot [where s = s and m = m and now = now and prev = prev] by (simp_all add: same_slot_def)

lemma retrigger_primary_inv:
  assumes inv: "video_inv c" "\<not> vd_closed c" and s: "stream_ok s" and p: "vd_primary c = Some p" "vi_ID p = vi_ID s"
  shows "video_inv (retriggerSlotLocked now vd_primary (\<lambda>s c. c\<lparr>vd_primary := s\<rparr>) s False c)"
proof -
  let ?t = "retriggered now s False (vd_primary c)"
  have ok: "slots_ok (Some p) (vd_pip c)" using inv p by (simp add: video_inv_def)
  have "timer_view c [] = None" using inv by (simp add: inv_view)
  then have "timer_view (start_if_temporary ?t ((stopTimerLocked (vi_ID s) c)\<lparr>vd_primary := Some ?t\<rparr>))
      = slot_timers (Some ?t) (vd_pip c)"
    using inv p s ok replace_primary [OF ok, of ?t]
    by (cases "vd_pip c") (auto simp: timer_view_start_if timer_view_stop retriggered_fields inv_view)
  then show ?thesis
    using inv p s ok retriggered_ok [OF s, where now = now and m = False and prev = "vd_primary c"]
    by (cases "vd_pip c") (simp_all add: retriggerSlotLocked_def Let_def retriggered_def [symmetric] video_inv_def
        retriggered_fields)
qed

lemma retrigger_pip_inv:
  assumes inv: "video_inv c" "\<not> vd_closed c" and s: "stream_ok s" and q: "vd_pip c = Some q" "vi_ID q = vi_ID s"
    and p: "streamID (vd_primary c) \<noteq> vi_ID s"
  shows "video_inv (retriggerSlotLocked now vd_pip (\<lambda>s c. c\<lparr>vd_pip := s\<rparr>) s True c)"
proof -
  let ?t = "retriggered now s True (vd_pip c)"
  obtain r where r: "vd_primary c = Some r" using inv q by (cases "vd_primary c") (simp_all add: video_inv_def)
  have ok: "slots_ok (Some r) (vd_pip c)" using inv r by (simp add: video_inv_def)
  have "timer_view c [] = None" using inv by (simp add: inv_view)
  then have "timer_view (start_if_temporary ?t ((stopTimerLocked (vi_ID s) c)\<lparr>vd_pip := Some ?t\<rparr>))
      = slot_timers (Some r) (Some ?t)"
    using inv p q s ok r replace_pip [OF ok, of ?t]
    by (auto simp: timer_view_start_if timer_view_stop retriggered_fields inv_view)
  then show ?thesis
    using inv p q s ok r retriggered_ok [OF s, where now = now and m = True and prev = "vd_pip c"]
    by (simp add: retriggerSlotLocked_def Let_def retriggered_def [symmetric] video_inv_def retriggered_fields)
qed

lemma streamID_eq_Some: "streamID p = i \<Longrightarrow> i \<noteq> [] \<Longrightarrow> \<exists>s. p = Some s \<and> vi_ID s = i"
  by (cases p) auto

lemma trigger_inv:
  assumes "video_inv c" "\<not> vd_closed c" "stream_ok s"
  shows "video_inv (Trigger_locked now s c)"
proof (cases "streamID (vd_primary c) = vi_ID s")
  case True
  then obtain p where "vd_primary c = Some p" "vi_ID p = vi_ID s"
    using streamID_eq_Some assms(3) stream_ok_id by blast
  with True assms show ?thesis unfolding Trigger_locked_def by (simp add: retrigger_primary_inv)
next
  case p: False
  show ?thesis
  proof (cases "streamID (vd_pip c) = vi_ID s")
    case True
    then obtain q where "vd_pip c = Some q" "vi_ID q = vi_ID s"
      using streamID_eq_Some assms(3) stream_ok_id by blast
    with True p assms show ?thesis unfolding Trigger_locked_def by (simp add: retrigger_pip_inv)
  next
    case False
    with p assms show ?thesis unfolding Trigger_locked_def by (simp add: assign_inv)
  qed
qed

lemma dismiss_inv:
  assumes "video_inv c" "\<not> vd_closed c" "i \<noteq> []" "Dismiss_locked i c = Some c'"
  shows "video_inv c'"
proof (cases "i = ''all'' \<or> i = ''*''")
  case True
  then show ?thesis using assms
    by (auto simp: Dismiss_locked_def video_inv_def timer_view_def slot_timers_def fun_eq_iff split: if_splits)
next
  case other: False
  show ?thesis
  proof (cases "streamID (vd_pip c) = i")
    case True
    then obtain q where "vd_pip c = Some q" "vi_ID q = i" using streamID_eq_Some assms(3) by blast
    with True other assms show ?thesis using drop_pip_inv [of c q] by (auto simp: Dismiss_locked_def)
  next
    case False
    then have "streamID (vd_primary c) = i" using other assms by (auto simp: Dismiss_locked_def split: if_splits)
    moreover then obtain p where "vd_primary c = Some p" "vi_ID p = i" using streamID_eq_Some assms(3) by blast
    ultimately show ?thesis using False other assms promote_inv [of c p] by (auto simp: Dismiss_locked_def)
  qed
qed

lemma update_inv:
  assumes inv: "video_inv c" and i: "i \<noteq> []" and res: "UpdatePlayerState_locked now i update c = Some c'"
    and valid: "vi_PlayerState update \<noteq> [] \<longrightarrow> isValidPlayerState (vi_PlayerState update)"
  shows "video_inv c'"
proof -
  have ok: "stream_ok (updated_stream now update t)" if "stream_ok t" for t
    using that valid same_slot_ok [OF updated_slot] by (simp add: updated_player stream_ok_def)
  have fields: "vi_ID (updated_stream now update t) = vi_ID t" "vi_Muted (updated_stream now update t) = vi_Muted t"
    "wants_timer (updated_stream now update t) = wants_timer t" for t
    using updated_slot [where t = t and now = now and update = update] same_slot_wants [OF updated_slot] by (simp_all add: same_slot_def)
  have slots: "slot_timers (Some (updated_stream now update p)) q = slot_timers (Some p) q"
    "slot_timers r (Some (updated_stream now update t)) = slot_timers r (Some t)" for p q r t
    by (auto simp: slot_timers_def fields fun_eq_iff)
  have primary: "video_inv (c\<lparr>vd_primary := Some (updated_stream now update p)\<rparr>)" if "vd_primary c = Some p" for p
    using that inv ok [of p] by (cases "vd_pip c") (simp_all add: video_inv_def fields slots)
  have pip: "video_inv (c\<lparr>vd_pip := Some (updated_stream now update q)\<rparr>)" if "vd_pip c = Some q" for q
    using that inv ok [of q] by (cases "vd_primary c") (simp_all add: video_inv_def fields slots)
  show ?thesis
  proof (cases "streamID (vd_primary c) = i")
    case True
    then obtain p where "vd_primary c = Some p" using streamID_eq_Some i by blast
    with True res primary show ?thesis by (auto simp: UpdatePlayerState_locked_def findStreamLocked_def)
  next
    case False
    with res pip show ?thesis
      by (auto simp: UpdatePlayerState_locked_def findStreamLocked_def split: option.splits if_splits)
  qed
qed

lemma expired_as_stop:
  "i \<noteq> [] \<Longrightarrow> c\<lparr>vd_timers := (vd_timers c)(i := None)\<rparr> = stopTimerLocked i c"
  by (simp add: stopTimerLocked_def)

lemma video_expire_inv:
  assumes "video_inv c" "\<not> vd_closed c"
  shows "video_inv (snd (timerExpired_locked i c))"
proof (cases "i = []")
  case True
  have "timer_view c [] = None" using inv_view [OF assms] by simp
  then have "(vd_timers c)([] := None) = vd_timers c" by (simp add: timer_view_def fun_upd_idem)
  with True assms show ?thesis
    by (cases "vd_primary c"; cases "vd_pip c") (auto simp: timerExpired_locked_def video_inv_def stream_ok_def timer_view_def)
next
  case False
  have keep: "video_inv (stopTimerLocked i c)" if "streamID (vd_primary c) \<noteq> i" "streamID (vd_pip c) \<noteq> i"
  proof -
    have "timer_view c i = None" using that inv_view [OF assms] by (simp add: slot_timers_def)
    then have "timer_view (stopTimerLocked i c) = timer_view c"
      using assms by (auto simp: timer_view_stop inv_view fun_eq_iff)
    with assms show ?thesis by (simp add: video_inv_def)
  qed
  show ?thesis
  proof (cases "streamID (vd_pip c) = i")
    case True
    then obtain q where "vd_pip c = Some q" "vi_ID q = i" using streamID_eq_Some False by blast
    then show ?thesis
      using assms drop_pip_inv [of c q] by (auto simp: timerExpired_locked_def Let_def expired_as_stop [OF False])
  next
    case pip: False
    show ?thesis
    proof (cases "streamID (vd_primary c) = i")
      case True
      then obtain p where "vd_primary c = Some p" "vi_ID p = i" using streamID_eq_Some False by blast
      then show ?thesis
        using assms pip promote_inv [of c p] by (auto simp: timerExpired_locked_def Let_def expired_as_stop [OF False])
    next
      case False
      with pip keep show ?thesis by (simp add: timerExpired_locked_def Let_def expired_as_stop [OF \<open>i \<noteq> []\<close>])
    qed
  qed
qed

lemma video_call_inv [inv_rules]:
  assumes inv: "video_inv c" shows "video_inv (video_call c e)"
proof (cases e)
  case (VTrigger now s)
  then show ?thesis using inv trigger_inv normalized_ok
    by (auto simp: Trigger_def Let_def split: sum.split)
next
  case (VDismiss i)
  then show ?thesis using inv dismiss_inv by (auto simp: Dismiss_def Let_def split: option.split)
next
  case (VUpdate now i s)
  then show ?thesis using inv update_inv by (auto simp: UpdatePlayerState_def Let_def split: option.split)
next
  case (VExpire i)
  then show ?thesis using inv video_expire_inv [OF inv, of i]
    by (cases "timerExpired_locked i c") (simp add: handleTimerExpired_def split: option.split)
next
  case VClose
  then show ?thesis using inv by (simp add: video_Close_def video_inv_def timer_view_def fun_eq_iff)
qed

lemma video_calls_inv: "video_inv c \<Longrightarrow> video_inv (foldl video_call c es)"
  by (induction es arbitrary: c) (simp_all add: video_call_inv)

lemma video_new_inv: "video_inv (NewVideoCoordinator hub sink)"
  by (simp add: video_inv_def NewVideoCoordinator_def timer_view_def slot_timers_def fun_eq_iff)

end
