(* ===== verification/Video_Publish.thy ===== *)
theory Video_Publish
  imports Video_Props
begin

text \<open>The video coordinator publishes the stack it holds: it is an instance of the interface of
  \<^verbatim>\<open>Outlet\<close>.\<close>

subsection \<open>Publication\<close>

definition snap_of :: "VideoCoordinator \<Rightarrow> VideoState option \<times> VideoCoordinator" where
  "snap_of c = (Some (snapshotLocked c), c)"

fun video_commit :: "video_op \<Rightarrow> VideoCoordinator \<Rightarrow> VideoState option \<times> VideoCoordinator" where
  "video_commit (VTrigger now s) c =
     (case normalizeAndValidateStream s of
        Inl _ \<Rightarrow> (None, c)
      | Inr stream \<Rightarrow> if vd_closed c then (None, c) else snap_of (Trigger_locked now stream c))"
| "video_commit (VDismiss i) c =
     (if TrimSpace i = [] \<or> vd_closed c then (None, c)
      else case Dismiss_locked (TrimSpace i) c of None \<Rightarrow> (None, c) | Some c' \<Rightarrow> snap_of c')"
| "video_commit (VUpdate now i s) c =
     (if TrimSpace i = [] \<or> (vi_PlayerState s \<noteq> [] \<and> \<not> isValidPlayerState (vi_PlayerState s)) \<or> vd_closed c then (None, c)
      else case UpdatePlayerState_locked now (TrimSpace i) s c of None \<Rightarrow> (None, c) | Some c' \<Rightarrow> snap_of c')"
| "video_commit (VExpire i) c =
     (if vd_closed c then (None, c)
      else timerExpired_locked i c)"
| "video_commit VClose c = (None, video_Close c)"

text \<open>Positions and durations are finite numbers; those that come out of a JSON document always are.\<close>

definition finite_slots :: "VideoCoordinator \<Rightarrow> bool" where
  "finite_slots c \<longleftrightarrow> video_marshals (snapshotLocked c)"

fun finite_op :: "video_op \<Rightarrow> bool" where
  "finite_op (VTrigger now s) = stream_marshals s"
| "finite_op (VUpdate now i s) = stream_marshals s"
| "finite_op _ = True"

lemma zero_finite [simp]: "f64_finite 0"
  by (simp add: f64_finite_def)

lemma marshals_muted [simp]: "stream_marshals (s\<lparr>vi_Muted := m\<rparr>) = stream_marshals s"
  by (simp add: stream_marshals_def)

lemma copyMetadata_marshals [simp]:
  "stream_marshals t \<Longrightarrow> pred_option stream_marshals src \<Longrightarrow> stream_marshals (copyMetadata t src b)"
  by (cases src) (auto simp: copyMetadata_def stream_marshals_def Let_def)

lemma stamp_marshals [simp]: "stream_marshals (stamp_position now s) = stream_marshals s"
  by (simp add: stamp_position_def stream_marshals_def)

lemma norm_marshals: "normalizeAndValidateStream s0 = Inr s \<Longrightarrow> stream_marshals s0 \<Longrightarrow> stream_marshals s"
  by (auto simp: normalizeAndValidateStream_def Let_def norm_type_def norm_priority_def norm_timeout_def norm_player_def
      stream_marshals_def split: if_splits)

lemma updated_marshals:
  assumes "stream_marshals update" "stream_marshals t"
  shows "stream_marshals (updated_stream now update t)"
proof -
  have "stream_marshals (if P then (copyMetadata t1 (Some update) True)\<lparr>vi_Position := vi_Position update, vi_PositionUpdatedAt := y\<rparr>
      else if Q then (copyMetadata t1 (Some update) True)\<lparr>vi_Position := 0, vi_PositionUpdatedAt := y'\<rparr>
      else copyMetadata t1 (Some update) True)" if "stream_marshals t1" for t1 P Q y y'
    using that assms copyMetadata_marshals [of t1 "Some update" True] by (auto simp: stream_marshals_def)
  with assms show ?thesis unfolding updated_stream_def Let_def by (simp add: stream_marshals_def)
qed

lemma finite_slots_def2:
  "finite_slots c \<longleftrightarrow> pred_option stream_marshals (vd_primary c) \<and> pred_option stream_marshals (vd_pip c)"
  by (simp add: finite_slots_def video_marshals_def snapshotLocked_def)

lemma trigger_finite: "finite_slots c \<Longrightarrow> stream_marshals s \<Longrightarrow> finite_slots (Trigger_locked now s c)"
  by (auto simp: finite_slots_def2 Trigger_locked_def retriggerSlotLocked_def Let_def preserveMetadata_def
      assignStreamSlotLocked_def assignPersistentStreamSlotLocked_def assignTemporaryStreamSlotLocked_def
      split: option.splits)

lemma promote_finite: "finite_slots c \<Longrightarrow> finite_slots (promotePipOrResetLocked c)"
  by (auto simp: finite_slots_def2 promotePipOrResetLocked_def split: option.splits)

lemma dismiss_finite: "finite_slots c \<Longrightarrow> Dismiss_locked i c = Some c' \<Longrightarrow> finite_slots c'"
  using promote_finite [of "stopTimerLocked i c"] by (auto simp: finite_slots_def2 Dismiss_locked_def split: if_splits)

lemma update_finite:
  "finite_slots c \<Longrightarrow> stream_marshals s \<Longrightarrow> UpdatePlayerState_locked now i s c = Some c' \<Longrightarrow> finite_slots c'"
  by (auto simp: finite_slots_def2 UpdatePlayerState_locked_def findStreamLocked_def updated_marshals
      split: option.splits if_splits)

lemma expire_finite: "finite_slots c \<Longrightarrow> finite_slots (snd (timerExpired_locked i c))"
  using promote_finite [of "c\<lparr>vd_timers := (vd_timers c)(i := None)\<rparr>"]
  by (simp add: finite_slots_def2 timerExpired_locked_def Let_def)

lemma commit_finite:
  assumes c: "finite_slots c" and e: "finite_op e" shows "finite_slots (snd (video_commit e c))"
proof (cases e)
  case (VTrigger now s)
  then show ?thesis using c e trigger_finite norm_marshals by (auto simp: snap_of_def split: sum.split)
next
  case (VDismiss i)
  then show ?thesis using c dismiss_finite by (auto simp: snap_of_def split: option.split)
next
  case (VUpdate now i s)
  then show ?thesis using c e update_finite by (auto simp: snap_of_def split: option.split)
next
  case (VExpire i)
  then show ?thesis using c expire_finite [OF c, of i] by (auto simp: snap_of_def split: prod.split)
next
  case VClose
  then show ?thesis using c by (simp add: video_Close_def finite_slots_def2)
qed

lemma locked_out [simp]:
  "vd_out (Trigger_locked now s c) = vd_out c"
  "Dismiss_locked i c = Some c' \<Longrightarrow> vd_out c' = vd_out c"
  "UpdatePlayerState_locked now i s c = Some c' \<Longrightarrow> vd_out c' = vd_out c"
  "vd_out (snd (timerExpired_locked i c)) = vd_out c"
  by (auto simp: Trigger_locked_def retriggerSlotLocked_def Let_def assignStreamSlotLocked_def
      assignPersistentStreamSlotLocked_def assignTemporaryStreamSlotLocked_def Dismiss_locked_def
      promotePipOrResetLocked_def UpdatePlayerState_locked_def timerExpired_locked_def
      split: option.splits if_splits)

text \<open>What the display shows in full size.\<close>

definition main_view :: "VideoState \<Rightarrow> string \<times> VideoStream option" where
  "main_view v = (vt_Mode v, vt_Primary v)"

lemma expiry_view:
  "timerExpired_locked i c = (None, c') \<Longrightarrow> snapshotLocked c' = snapshotLocked c"
  "timerExpired_locked i c = (Some d, c') \<Longrightarrow> main_view (snapshotLocked c') = main_view d"
  by (auto simp: timerExpired_locked_def Let_def snapshotLocked_def main_view_def split: if_splits)

lemma expiry_marshals:
  "finite_slots c \<Longrightarrow> timerExpired_locked i c = (Some d, c') \<Longrightarrow> video_marshals d"
  using promote_finite [of "c\<lparr>vd_timers := (vd_timers c)(i := None)\<rparr>"]
  by (auto simp: timerExpired_locked_def Let_def finite_slots_def snapshotLocked_def split: if_splits)

lemma close_snapshot [simp]: "snapshotLocked (video_Close c) = snapshotLocked c"
  by (simp add: snapshotLocked_def video_Close_def)

lemma publish_snapshot [simp]:
  "snapshotLocked (video_publishState d c) = snapshotLocked c" "vd_out (video_publishState d c) = emit video_marshals d (vd_out c)"
  "finite_slots (video_publishState d c) = finite_slots c"
  by (simp_all add: snapshotLocked_def video_publishState_def finite_slots_def2)

lemma call_none: "fst (video_commit e c) = None \<Longrightarrow> snapshotLocked (snd (video_commit e c)) = snapshotLocked c"
proof (cases e)
  case (VExpire i)
  then show "fst (video_commit e c) = None \<Longrightarrow> ?thesis"
    using expiry_view(1) [of i c] by (cases "timerExpired_locked i c") (auto split: if_splits)
qed (auto simp: snap_of_def split: sum.splits option.splits if_splits)

lemma call_some:
  "fst (video_commit e c) = Some d \<Longrightarrow> (\<And>i. e \<noteq> VExpire i) \<Longrightarrow> snapshotLocked (snd (video_commit e c)) = d"
  by (cases e) (auto simp: snap_of_def split: sum.splits option.splits if_splits)

lemma commit_out: "vd_out (snd (video_commit e c)) = vd_out c"
proof (cases e)
  case (VExpire i)
  then show ?thesis using locked_out(4) [of i c] by simp
qed (auto simp: snap_of_def video_Close_def split: sum.split option.split)

lemma commit_marshals:
  assumes "finite_slots c" "finite_op e" "fst (video_commit e c) = Some d"
  shows "video_marshals d"
proof (cases "\<exists>i. e = VExpire i")
  case True
  then obtain i where "e = VExpire i" by blast
  with assms expiry_marshals [of c i d "snd (timerExpired_locked i c)"] show ?thesis
    by (cases "timerExpired_locked i c") (auto split: if_splits)
next
  case False
  with assms call_some commit_finite show ?thesis by (metis finite_slots_def)
qed

text \<open>With respect to the main view the coordinator publishes what it holds; without expiries it does so
  in full.\<close>

interpretation video_main: published_state snapshotLocked main_view vd_out video_commit video_publishState
  video_marshals finite_slots finite_op
proof unfold_locales
  fix c :: VideoCoordinator and e d
  show "fst (video_commit e c) = None \<Longrightarrow> main_view (snapshotLocked (snd (video_commit e c))) = main_view (snapshotLocked c)"
    by (simp add: call_none)
  show "main_view (snapshotLocked (snd (video_commit e c))) = main_view d" if "fst (video_commit e c) = Some d"
  proof (cases "\<exists>i. e = VExpire i")
    case True
    with that show ?thesis using expiry_view(2) by (auto split: if_splits simp: prod_eq_iff)
  next
    case False
    with that show ?thesis using call_some by blast
  qed
qed (simp_all add: commit_out commit_marshals commit_finite)

fun unexpired_op :: "video_op \<Rightarrow> bool" where
  "unexpired_op (VExpire i) = False"
| "unexpired_op e = finite_op e"

lemma unexpired_finite: "unexpired_op e \<Longrightarrow> finite_op e \<and> (\<forall>i. e \<noteq> VExpire i)"
  by (cases e) simp_all

interpretation video_full: published_state snapshotLocked "\<lambda>x. x" vd_out video_commit video_publishState
  video_marshals finite_slots unexpired_op
  by unfold_locales (auto simp: commit_out call_none call_some commit_marshals commit_finite dest!: unexpired_finite)

lemma video_call_eq: "video_call = video_main.call" "video_call = video_full.call"
proof -
  have "video_call c e = (case video_commit e c of (None, c') \<Rightarrow> c' | (Some d, c') \<Rightarrow> video_publishState d c')" for c e
    by (cases e) (simp_all add: Trigger_def Dismiss_def UpdatePlayerState_def handleTimerExpired_def
        snap_of_def Let_def split: sum.split option.split prod.split)
  then show "video_call = video_main.call" "video_call = video_full.call"
    by (simp_all add: fun_eq_iff video_main.call_def video_full.call_def)
qed

subsection \<open>Properties\<close>

text \<open>C17: After any sequence of calls and timer callbacks, in any order, video mode is on exactly when there is
  a primary stream, there is a picture-in-picture only beside a primary, the two have different identifiers,
  the primary is audible and the other muted, both are well-formed, and until the coordinator is closed the
  timers running are exactly those of the temporary streams shown, each with its timeout.\<close>

theorem video_stack_invariant:
  assumes "c = foldl video_call (NewVideoCoordinator hub sink) es"
  shows "vd_mode c = (if vd_primary c = None then ModeWidgets else ModeVideo)
    \<and> (vd_primary c = None \<longrightarrow> vd_pip c = None)
    \<and> pred_option (\<lambda>s. stream_ok s \<and> \<not> vi_Muted s) (vd_primary c)
    \<and> pred_option (\<lambda>s. stream_ok s \<and> vi_Muted s \<and> vi_ID s \<noteq> streamID (vd_primary c)) (vd_pip c)
    \<and> (\<forall>i. map_option snd (vd_timers c i) =
         (if vd_closed c \<or> i = [] then None else Option.bind (findStreamLocked i c) wants_timer))"
proof -
  have inv: "video_inv c" using assms video_calls_inv [OF video_new_inv] by simp
  have "timer_view c i = (if vd_closed c \<or> i = [] then None else Option.bind (findStreamLocked i c) wants_timer)" for i
    using inv by (simp add: video_inv_def slot_timers_def findStreamLocked_def)
  then have "map_option snd (vd_timers c i) =
      (if vd_closed c \<or> i = [] then None else Option.bind (findStreamLocked i c) wants_timer)" for i
    unfolding timer_view_def .
  then show ?thesis using inv
    by (cases "vd_primary c"; cases "vd_pip c") (auto simp: video_inv_def)
qed

definition sample_stream :: "string \<Rightarrow> string \<Rightarrow> VideoStream" where
  "sample_stream ident prio =
     \<lparr>vi_ID = ident, vi_StreamURL = ''rtsp'', vi_Type = [], vi_Priority = prio, vi_TimeoutSeconds = 0,
      vi_Controllable = False, vi_ControlURL = [], vi_PlayerState = [], vi_Muted = False, vi_Title = [],
      vi_Series = [], vi_Season = [], vi_Episode = [], vi_Position = 0, vi_Duration = 0, vi_PositionUpdatedAt = 0\<rparr>"

definition tv :: VideoStream where
  "tv = (sample_stream ''tv'' PriorityPersistent)\<lparr>vi_Type := TypeWebRTC, vi_PlayerState := PlayerStatePlaying\<rparr>"

definition door :: VideoStream where
  "door = (sample_stream ''door'' PriorityTemporary)\<lparr>vi_Type := TypeWebRTC, vi_TimeoutSeconds := 45,
     vi_PlayerState := PlayerStatePlaying\<rparr>"

lemma sample_norm:
  "normalizeAndValidateStream (sample_stream ''tv'' []) = Inr tv"
  "normalizeAndValidateStream (sample_stream ''door'' PriorityTemporary) = Inr door"
  by code_simp+

definition sample_video_ops :: "video_op list" where
  "sample_video_ops = [VTrigger 0 (sample_stream ''tv'' []), VTrigger 0 (sample_stream ''door'' PriorityTemporary)]"

definition sample_video :: VideoCoordinator where
  "sample_video = foldl video_call (NewVideoCoordinator True True) sample_video_ops"

lemma sample_fields:
  "vi_ID tv = ''tv''" "vi_ID door = ''door''" "vi_Priority tv = PriorityPersistent" "vi_Priority door = PriorityTemporary"
  "vi_TimeoutSeconds door = 45" "stamp_position now tv = tv" "stamp_position now door = door"
  by (simp_all add: tv_def door_def sample_stream_def stamp_position_def f64_pos_def f64_less_def f64_key_def f64_mag_def f64_zero_def f64_is_zero_def f64_is_nan_def)

lemma priority_neq: "PriorityTemporary \<noteq> PriorityPersistent" "PriorityPersistent \<noteq> PriorityTemporary"
  by (simp_all add: video_consts)

lemma sample_video_slots:
  "vd_primary sample_video = Some (unmute tv)" "vd_pip sample_video = Some (mute door)" "\<not> vd_closed sample_video"
  by (simp_all add: sample_video_def sample_video_ops_def Trigger_def sample_norm Trigger_locked_def Let_def
      NewVideoCoordinator_def video_publishState_def sample_fields assignStreamSlotLocked_def
      assignPersistentStreamSlotLocked_def assignTemporaryStreamSlotLocked_def priority_neq)

theorem video_stack_invariant_witness:
  "vd_mode sample_video = (if vd_primary sample_video = None then ModeWidgets else ModeVideo)
    \<and> pred_option (\<lambda>s. stream_ok s \<and> \<not> vi_Muted s) (vd_primary sample_video)
    \<and> map_option snd (vd_timers sample_video ''door'') =
        (if vd_closed sample_video \<or> ''door'' = [] then None
         else Option.bind (findStreamLocked ''door'' sample_video) wants_timer)"
  using video_stack_invariant [OF sample_video_def] by blast

text \<open>C18: When calls and callbacks run to their end one after the other and positions are finite numbers, sink and
  hub were last given the mode and the primary stream the coordinator holds; if no timer has expired, they were
  given its whole state.\<close>

theorem video_clients_see_stack:
  assumes "c = foldl video_call (NewVideoCoordinator hub sink) es" "list_all finite_op es"
  shows "agrees_on main_view (video_GetState c) (vd_out c)
    \<and> (list_all unexpired_op es \<longrightarrow> agrees (video_GetState c) (vd_out c))"
proof -
  have start: "finite_slots (NewVideoCoordinator hub sink)"
    "agrees_on view (snapshotLocked (NewVideoCoordinator hub sink)) (vd_out (NewVideoCoordinator hub sink))"
    for view :: "VideoState \<Rightarrow> 'v"
    by (simp_all add: finite_slots_def2 NewVideoCoordinator_def snapshotLocked_def)
  have "agrees_on main_view (video_GetState c) (vd_out c)"
    using video_main.calls_agree [OF start assms(2)] assms(1) by (simp add: video_call_eq(1) video_GetState_def)
  moreover have "agrees (video_GetState c) (vd_out c)" if "list_all unexpired_op es"
    using video_full.calls_agree [OF start that] assms(1)
    by (simp add: video_call_eq(2) video_GetState_def agrees_def)
  ultimately show ?thesis by blast
qed

theorem video_clients_see_stack_witness:
  "agrees_on main_view (video_GetState sample_video) (vd_out sample_video)
    \<and> agrees (video_GetState sample_video) (vd_out sample_video)"
proof -
  have "list_all finite_op sample_video_ops" "list_all unexpired_op sample_video_ops"
    by (simp_all add: sample_video_ops_def sample_stream_def stream_marshals_def)
  then show ?thesis using video_clients_see_stack [OF sample_video_def] by simp
qed

text \<open>The snapshot published when a picture-in-picture expires is taken before the slot is cleared: the stream is
  gone from the coordinator, and the clients are told that it is still shown.\<close>

lemma video_expired_pip_still_published:
  assumes "\<not> vd_closed c" "vd_pip c = Some s" "video_marshals (snapshotLocked c)" "c' = handleTimerExpired (vi_ID s) c"
  shows "vd_pip c' = None \<and> vd_out c' = emit video_marshals (snapshotLocked c) (vd_out c)
    \<and> vt_Pip (snapshotLocked c) = Some s \<and> agrees (snapshotLocked c) (vd_out c')"
  using assms
  by (simp add: handleTimerExpired_def timerExpired_locked_def video_publishState_def snapshotLocked_def agrees_emit)

text \<open>The expiry of a stream's timer removes that stream and nothing else: the other stream stays, as the
  audible primary, and without another one the display returns to the widgets.\<close>

lemma video_expiry:
  assumes "c = foldl video_call (NewVideoCoordinator hub sink) es" "\<not> vd_closed c"
    and "findStreamLocked i c = Some s" "i \<noteq> []" and "c' = handleTimerExpired i c"
  shows "findStreamLocked i c' = None \<and> vd_pip c' = None
    \<and> (case (if streamID (vd_pip c) = i then vd_primary c else vd_pip c) of
         None \<Rightarrow> vd_primary c' = None \<and> vd_mode c' = ModeWidgets
       | Some other \<Rightarrow> vd_primary c' = Some (unmute other) \<and> vd_mode c' = ModeVideo)"
proof -
  have inv: "video_inv c" using assms(1) video_calls_inv [OF video_new_inv] by simp
  have fields: "vd_primary c' = vd_primary (snd (timerExpired_locked i c))"
    "vd_pip c' = vd_pip (snd (timerExpired_locked i c))" "vd_mode c' = vd_mode (snd (timerExpired_locked i c))"
    using assms(2,5) by (cases "timerExpired_locked i c"; simp add: handleTimerExpired_def video_publishState_def
        split: option.split)+
  have unmuted: "unmute p = p" if "vd_primary c = Some p" for p
    using inv that by (cases "vd_pip c") (simp_all add: video_inv_def)
  show ?thesis
  proof (cases "streamID (vd_pip c) = i")
    case True
    then obtain p where p: "vd_primary c = Some p" "vi_ID p \<noteq> i" "vd_mode c = ModeVideo"
      using inv assms(4) by (cases "vd_primary c"; cases "vd_pip c") (simp_all add: video_inv_def)
    with True assms(4) show ?thesis
      by (simp add: fields findStreamLocked_def timerExpired_locked_def Let_def unmuted)
  next
    case False
    then obtain p where p: "vd_primary c = Some p" "vi_ID p = i" "vd_mode c = ModeVideo"
      using inv assms(3,4) streamID_eq_Some [of "vd_primary c" i]
      by (auto simp: findStreamLocked_def video_inv_def split: if_splits)
    with False assms(4) show ?thesis
      by (cases "vd_pip c") (simp_all add: fields findStreamLocked_def timerExpired_locked_def Let_def
          promotePipOrResetLocked_def)
  qed
qed

lemma trigger_closed [simp]: "vd_closed (Trigger_locked now s c) = vd_closed c"
  by (simp add: Trigger_locked_def retriggerSlotLocked_def Let_def assignStreamSlotLocked_def
      assignPersistentStreamSlotLocked_def assignTemporaryStreamSlotLocked_def split: option.split)

lemma video_publish_fields [simp]:
  "vd_closed (video_publishState d c) = vd_closed c" "vd_timers (video_publishState d c) = vd_timers c"
  "findStreamLocked i (video_publishState d c) = findStreamLocked i c"
  by (simp_all add: video_publishState_def findStreamLocked_def)

lemma retriggered_found:
  assumes "findStreamLocked (vi_ID s) c = Some b" "vi_ID s \<noteq> []"
  shows "\<exists>t. findStreamLocked (vi_ID s) (Trigger_locked now s c) = Some t \<and> wants_timer t = wants_timer s"
proof -
  have wants: "wants_timer (retriggered now s m prev) = wants_timer s" for m prev
    using same_slot_wants [OF retriggered_slot, where s1 = s and m1 = m] by simp
  show ?thesis
  proof (cases "streamID (vd_primary c) = vi_ID s")
    case True
    then show ?thesis
      by (simp add: Trigger_locked_def retriggerSlotLocked_def Let_def findStreamLocked_def
          retriggered_def [symmetric] retriggered_fields wants)
  next
    case False
    then have "streamID (vd_pip c) = vi_ID s" using assms by (simp add: findStreamLocked_def split: if_splits)
    with False show ?thesis
      by (simp add: Trigger_locked_def retriggerSlotLocked_def Let_def findStreamLocked_def
          retriggered_def [symmetric] retriggered_fields wants)
  qed
qed

lemma expired_gone:
  assumes "video_inv c" "\<not> vd_closed c" "i \<noteq> []"
  shows "findStreamLocked i (handleTimerExpired i c) = None \<and> vd_timers (handleTimerExpired i c) i = None"
proof -
  let ?d = "snd (timerExpired_locked i c)"
  have "findStreamLocked i (handleTimerExpired i c) = findStreamLocked i ?d"
    "vd_timers (handleTimerExpired i c) = vd_timers ?d"
    using assms(2) by (cases "timerExpired_locked i c"; simp add: handleTimerExpired_def split: option.split)+
  moreover have "vd_timers ?d i = None"
    by (simp add: timerExpired_locked_def Let_def promotePipOrResetLocked_def split: option.split)
  moreover have "findStreamLocked i ?d = None"
    using assms unfolding findStreamLocked_def
    by (cases "vd_primary c"; cases "vd_pip c")
      (auto simp: timerExpired_locked_def promotePipOrResetLocked_def video_inv_def Let_def split: if_splits)
  ultimately show ?thesis by simp
qed

text \<open>A callback knows the identifier of its stream but not which of the stream's timers it belongs to. When
  a stream is triggered again while the callback of its first timer is already waiting for the lock, that
  callback dismisses the stream at once, although its new timer has just been started, and forgets the new
  timer without stopping it.\<close>

lemma video_stale_callback:
  assumes "c = foldl video_call (NewVideoCoordinator hub sink) es" "\<not> vd_closed c"
    and "normalizeAndValidateStream s0 = Inr s" "vi_Priority s = PriorityTemporary" "seconds (vi_TimeoutSeconds s) > 0"
    and "findStreamLocked (vi_ID s) c = Some before"
    and trig: "c' = snd (Trigger now s0 c)"
  shows "map_option snd (vd_timers c' (vi_ID s)) = Some (seconds (vi_TimeoutSeconds s))
    \<and> findStreamLocked (vi_ID s) c' \<noteq> None
    \<and> findStreamLocked (vi_ID s) (handleTimerExpired (vi_ID s) c') = None
    \<and> vd_timers (handleTimerExpired (vi_ID s) c') (vi_ID s) = None"
proof -
  have inv: "video_inv c" using assms(1) video_calls_inv [OF video_new_inv] by simp
  have s: "stream_ok s" "vi_ID s \<noteq> []" using normalized_ok [OF assms(3)] stream_ok_id(1) by blast+
  have c': "c' = video_publishState (snapshotLocked (Trigger_locked now s c)) (Trigger_locked now s c)"
    using trig assms(2,3) by (simp add: Trigger_def Let_def)
  have open': "\<not> vd_closed c'" and inv': "video_inv c'"
    using trigger_inv [OF inv assms(2) s(1)] assms(2) unfolding c' by simp_all
  obtain t where t: "findStreamLocked (vi_ID s) c' = Some t" "wants_timer t = wants_timer s"
    using retriggered_found [OF assms(6) s(2)] unfolding c' by auto
  have "timer_view c' (vi_ID s) = wants_timer s"
    using inv' open' s(2) t by (simp add: video_inv_def slot_timers_def findStreamLocked_def split: if_splits)
  then have "map_option snd (vd_timers c' (vi_ID s)) = Some (seconds (vi_TimeoutSeconds s))"
    using assms(4,5) by (simp add: timer_view_def wants_timer_def)
  with t expired_gone [OF inv' open' s(2)] show ?thesis by simp
qed

end
