(* ===== verification/Handlers.thy ===== *)
theory Handlers
  imports Rotation_Props Audio Voice_Coordinator Video_Publish
begin

text \<open>
  The HTTP handlers of \<^verbatim>\<open>internal/rotation/handler.go\<close> and of \<^verbatim>\<open>internal/server/audio.go\<close>,
  \<^verbatim>\<open>video.go\<close> and \<^verbatim>\<open>voice.go\<close> that change the coordinators' state. A request is its method and what
  decoding its body gave; a response is its status code and its JSON document, if it has one. Headers are left out. A handler
  built without its coordinator is the case \<^const>\<open>None\<close>.
\<close>

datatype 'a body = BodyEOF | BodyError string | BodyOk 'a

record 'a request =
  rq_Method :: string
  rq_Body :: "'a body"

record response =
  rs_Code :: int
  rs_Body :: "json option"

definition writeAPIError :: "int \<Rightarrow> string \<Rightarrow> response" where
  "writeAPIError code msg =
     \<lparr>rs_Code = code, rs_Body = Some (JObj [(''status'', JStr ''error''), (''error'', JStr msg)])\<rparr>"

definition writeJSON :: "int \<Rightarrow> json \<Rightarrow> response" where
  "writeJSON code payload = \<lparr>rs_Code = code, rs_Body = Some payload\<rparr>"

text \<open>The response when a method is not allowed or only asks for the options, \<^const>\<open>None\<close> when the handler goes on.\<close>

definition requireCORSAndMethod :: "string list \<Rightarrow> string \<Rightarrow> response option" where
  "requireCORSAndMethod allowed meth =
     (if meth = ''OPTIONS'' then Some \<lparr>rs_Code = 204, rs_Body = None\<rparr>
      else if meth \<in> set allowed then None
      else Some (writeAPIError 405 ''method not allowed''))"

subsection \<open>Screens\<close>

definition quoted :: "string \<Rightarrow> string" where "quoted s = [CHR 0x27] @ s @ [CHR 0x27]"

definition rotation_error_text :: "rotation_error \<Rightarrow> string" where
  "rotation_error_text e = (case e of
     ErrInvalidScreenIndex \<Rightarrow> ''invalid screen_index: must be between 0 and total_screens - 1''
   | ErrInvalidDirection \<Rightarrow> ''invalid direction: must be '' @ quoted ''next'' @ '' or '' @ quoted ''prev''
   | ErrNoScreens \<Rightarrow> ''no screens available in active layout''
   | ErrStopped \<Rightarrow> ''coordinator stopped'')"

definition checkPostAndController :: "string \<Rightarrow> bool \<Rightarrow> response option" where
  "checkPostAndController meth configured =
     (if meth = ''OPTIONS'' then Some \<lparr>rs_Code = 204, rs_Body = None\<rparr>
      else if meth \<noteq> ''POST'' then Some (writeAPIError 405 ''method not allowed'')
      else if \<not> configured then Some (writeAPIError 500 ''screen controller not configured'')
      else None)"

definition navigation_response :: "ScreenRotateData \<Rightarrow> response" where
  "navigation_response d = writeJSON 200 (JObj [(''status'', JStr ''ok''),
     (''current_screen'', JInt (sr_CurrentScreen d)), (''total_screens'', JInt (sr_TotalScreens d))])"

text \<open>A call that panics on an index out of range leaves no response: the server's recovery, the outer \<^const>\<open>None\<close>.\<close>

definition navigate ::
    "(rotation_error + ScreenRotateData option) \<times> RotationCoordinator \<Rightarrow> response option \<times> RotationCoordinator option" where
  "navigate r = (case r of
     (Inl err, c) \<Rightarrow> (Some (writeAPIError 400 (rotation_error_text err)), Some c)
   | (Inr d, c) \<Rightarrow> (map_option navigation_response d, Some c))"

definition PostScreenSelect ::
    "int request \<Rightarrow> RotationCoordinator option \<Rightarrow> response option \<times> RotationCoordinator option" where
  "PostScreenSelect r ctl =
     (case checkPostAndController (rq_Method r) (ctl \<noteq> None) of
        Some rsp \<Rightarrow> (Some rsp, ctl)
      | None \<Rightarrow>
          (case rq_Body r of
             BodyEOF \<Rightarrow> (Some (writeAPIError 400 (''invalid request body: EOF'')), ctl)
           | BodyError msg \<Rightarrow> (Some (writeAPIError 400 (''invalid request body: '' @ msg)), ctl)
           | BodyOk index \<Rightarrow> navigate (SelectScreen index (the ctl))))"

definition PostScreenAdvance ::
    "string request \<Rightarrow> RotationCoordinator option \<Rightarrow> response option \<times> RotationCoordinator option" where
  "PostScreenAdvance r ctl =
     (case checkPostAndController (rq_Method r) (ctl \<noteq> None) of
        Some rsp \<Rightarrow> (Some rsp, ctl)
      | None \<Rightarrow>
          (case rq_Body r of
             BodyError msg \<Rightarrow> (Some (writeAPIError 400 (''invalid request body: '' @ msg)), ctl)
           | BodyEOF \<Rightarrow> navigate (AdvanceScreen ''next'' (the ctl))
           | BodyOk d \<Rightarrow> navigate (AdvanceScreen (if d \<noteq> [] then d else ''next'') (the ctl))))"

record pause_request =
  pr_Paused :: "bool option"
  pr_DurationSeconds :: "int option"

definition PostScreenPause ::
    "pause_request request \<Rightarrow> RotationCoordinator option \<Rightarrow> response option \<times> RotationCoordinator option" where
  "PostScreenPause r ctl =
     (case checkPostAndController (rq_Method r) (ctl \<noteq> None) of
        Some rsp \<Rightarrow> (Some rsp, ctl)
      | None \<Rightarrow>
          (case rq_Body r of
             BodyOk req \<Rightarrow>
               (case pr_Paused req of
                  None \<Rightarrow> (Some (writeAPIError 400 ''invalid payload: paused must be a boolean''), ctl)
                | Some paused \<Rightarrow>
                    let dur = pr_DurationSeconds req in
                    if (case dur of None \<Rightarrow> False | Some d \<Rightarrow> d < 0)
                    then (Some (writeAPIError 400 ''duration_seconds must be >= 0''), ctl)
                    else let (res, c) = (if paused
                           then PauseRotation (case dur of None \<Rightarrow> -1 | Some d \<Rightarrow> seconds d) (the ctl)
                           else ResumeRotation (the ctl))
                         in (case res of
                               Inl err \<Rightarrow> (Some (writeAPIError 400 (rotation_error_text err)), Some c)
                             | Inr cur \<Rightarrow> (Some (writeJSON 200 (JObj [(''status'', JStr ''ok''),
                                  (''paused'', JBool paused), (''current_screen'', JInt cur)])), Some c)))
           | _ \<Rightarrow> (Some (writeAPIError 400 ''invalid payload: paused must be a boolean''), ctl)))"

definition j_ints :: "int \<Rightarrow> int \<Rightarrow> json" where "j_ints a b = JArr [JInt a, JInt b]"

definition placement_json :: "PlacedWidget \<Rightarrow> json" where
  "placement_json pw = JObj [(''widget_id'', JStr (pw_WidgetID pw)), (''type'', JStr (pw_Type pw)),
     (''origin'', j_ints (fst (pw_Origin pw)) (snd (pw_Origin pw))),
     (''dimensions'', j_ints (Cols (pw_Dimensions pw)) (Rows (pw_Dimensions pw)))]"

definition GetScreens :: "string \<Rightarrow> RotationCoordinator option \<Rightarrow> response" where
  "GetScreens meth ctl =
     (if meth = ''OPTIONS'' then \<lparr>rs_Code = 204, rs_Body = None\<rparr>
      else if meth \<noteq> ''GET'' \<and> meth \<noteq> ''HEAD'' then writeAPIError 405 ''method not allowed''
      else case ctl of
        None \<Rightarrow> writeAPIError 500 ''screen controller not configured''
      | Some c \<Rightarrow>
          let snap = ScreenLayout c in
          writeJSON 200 (JObj [(''current_screen'', JInt (sl_CurrentScreen snap)),
            (''interval_seconds'', JInt (sl_IntervalSeconds snap)),
            (''screens'', JArr (map (\<lambda>(i, sc). JObj [(''index'', JInt (int i)),
                (''widgets'', JArr (map placement_json (sc_Widgets sc)))])
              (zip [0 ..< length (sl_Screens snap)] (sl_Screens snap))))]))"

subsection \<open>Audio\<close>

definition audio_response :: "int \<times> bool \<Rightarrow> response" where
  "audio_response vm = writeJSON 200 (JObj [(''status'', JStr ''ok''), (''volume'', JInt (fst vm)), (''muted'', JBool (snd vm))])"

definition not_configured :: "string \<Rightarrow> response" where
  "not_configured what = writeAPIError 500 (what @ '' coordinator not configured'')"

definition invalid_volume :: string where
  "invalid_volume = ''invalid volume: must be an integer between 0 and 100''"

definition GetAudio :: "string \<Rightarrow> AudioCoordinator option \<Rightarrow> response" where
  "GetAudio meth ctl =
     (case requireCORSAndMethod [''GET'', ''HEAD''] meth of
        Some rsp \<Rightarrow> rsp
      | None \<Rightarrow> (case ctl of
            None \<Rightarrow> not_configured ''audio''
          | Some c \<Rightarrow> if meth = ''HEAD'' then \<lparr>rs_Code = 200, rs_Body = None\<rparr> else audio_response (audio_GetState c)))"

definition PostAudioVolume :: "int option request \<Rightarrow> AudioCoordinator option \<Rightarrow> response \<times> AudioCoordinator option" where
  "PostAudioVolume r ctl =
     (case requireCORSAndMethod [''POST''] (rq_Method r) of
        Some rsp \<Rightarrow> (rsp, ctl)
      | None \<Rightarrow> (case ctl of
            None \<Rightarrow> (not_configured ''audio'', ctl)
          | Some c \<Rightarrow> (case rq_Body r of
                BodyOk (Some vol) \<Rightarrow>
                  if vol < 0 \<or> vol > 100 then (writeAPIError 400 invalid_volume, ctl)
                  else (case SetVolume vol c of
                          (Inl err, c') \<Rightarrow> (writeAPIError 400 invalid_volume, Some c')
                        | (Inr vm, c') \<Rightarrow> (audio_response vm, Some c'))
              | _ \<Rightarrow> (writeAPIError 400 invalid_volume, ctl))))"

text \<open>The body's \<^verbatim>\<open>muted\<close> member is kept undecoded; an absent one toggles.\<close>

definition PostAudioMute :: "json option request \<Rightarrow> AudioCoordinator option \<Rightarrow> response \<times> AudioCoordinator option" where
  "PostAudioMute r ctl =
     (case requireCORSAndMethod [''POST''] (rq_Method r) of
        Some rsp \<Rightarrow> (rsp, ctl)
      | None \<Rightarrow> (case ctl of
            None \<Rightarrow> (not_configured ''audio'', ctl)
          | Some c \<Rightarrow>
              let run = (\<lambda>target. case SetMute target c of
                    (Inl err, c') \<Rightarrow> (writeAPIError 500 invalid_volume, Some c')
                  | (Inr vm, c') \<Rightarrow> (audio_response vm, Some c')) in
              (case rq_Body r of
                 BodyError _ \<Rightarrow> (writeAPIError 400 ''invalid payload: muted must be a boolean'', ctl)
               | BodyEOF \<Rightarrow> run None
               | BodyOk None \<Rightarrow> run None
               | BodyOk (Some (JBool b)) \<Rightarrow> run (Some b)
               | BodyOk (Some _) \<Rightarrow> (writeAPIError 400 ''invalid payload: muted must be a boolean'', ctl))))"

subsection \<open>Voice\<close>

definition invalid_state :: string where
  "invalid_state = ''invalid voice state: must be one of '' @ quoted ''idle'' @ '', '' @ quoted ''listening'' @ '', ''
     @ quoted ''transcribing'' @ '', '' @ quoted ''thinking'' @ '', '' @ quoted ''synthesizing'' @ '', ''
     @ quoted ''speaking'' @ '', '' @ quoted ''error''"

definition PostVoiceState :: "VoiceStateData request \<Rightarrow> VoiceCoordinator option \<Rightarrow> response \<times> VoiceCoordinator option" where
  "PostVoiceState r ctl =
     (case requireCORSAndMethod [''POST''] (rq_Method r) of
        Some rsp \<Rightarrow> (rsp, ctl)
      | None \<Rightarrow> (case ctl of
            None \<Rightarrow> (not_configured ''voice'', ctl)
          | Some c \<Rightarrow> (case rq_Body r of
                BodyEOF \<Rightarrow> (writeAPIError 400 ''invalid voice state request payload: EOF'', ctl)
              | BodyError msg \<Rightarrow> (writeAPIError 400 (''invalid voice state request payload: '' @ msg), ctl)
              | BodyOk req \<Rightarrow>
                  if \<not> IsValidState (vo_State req) then (writeAPIError 400 invalid_state, ctl)
                  else (case SetState (vo_State req) (vo_Transcript req) (vo_Reply req) (vo_TTSEngine req) c of
                          (Inl _, c') \<Rightarrow> (writeAPIError 400 invalid_state, Some c')
                        | (Inr _, c') \<Rightarrow> (writeJSON 200 (JObj [(''status'', JStr ''ok'')]), Some c')))))"

subsection \<open>Video\<close>

text \<open>The text of a \<^verbatim>\<open>float64\<close> in JSON is a parameter \<open>jnum\<close>.\<close>

definition omit_str :: "string \<Rightarrow> string \<Rightarrow> (string \<times> json) list" where
  "omit_str k s = (if s = [] then [] else [(k, JStr s)])"

definition omit_bool :: "string \<Rightarrow> bool \<Rightarrow> (string \<times> json) list" where
  "omit_bool k b = (if b then [(k, JBool b)] else [])"

definition omit_int :: "string \<Rightarrow> int \<Rightarrow> (string \<times> json) list" where
  "omit_int k i = (if i = 0 then [] else [(k, JInt i)])"

definition omit_num :: "(f64 \<Rightarrow> json) \<Rightarrow> string \<Rightarrow> f64 \<Rightarrow> (string \<times> json) list" where
  "omit_num jnum k x = (if f64_is_zero x then [] else [(k, jnum x)])"

definition j_stream :: "(f64 \<Rightarrow> json) \<Rightarrow> VideoStream \<Rightarrow> json" where
  "j_stream jnum s = JObj ([(''id'', JStr (vi_ID s)), (''stream_url'', JStr (vi_StreamURL s)), (''type'', JStr (vi_Type s))]
     @ omit_str ''priority'' (vi_Priority s) @ omit_int ''timeout_seconds'' (vi_TimeoutSeconds s)
     @ omit_bool ''controllable'' (vi_Controllable s) @ omit_str ''control_url'' (vi_ControlURL s)
     @ omit_str ''player_state'' (vi_PlayerState s) @ omit_bool ''muted'' (vi_Muted s) @ omit_str ''title'' (vi_Title s)
     @ omit_str ''series'' (vi_Series s) @ omit_str ''season'' (vi_Season s) @ omit_str ''episode'' (vi_Episode s)
     @ omit_num jnum ''position'' (vi_Position s) @ omit_num jnum ''duration'' (vi_Duration s)
     @ omit_int ''position_updated_at'' (vi_PositionUpdatedAt s))"

definition toAPIVideoStateResponse :: "(f64 \<Rightarrow> json) \<Rightarrow> VideoState \<Rightarrow> json" where
  "toAPIVideoStateResponse jnum st =
     (let mode = (if vt_Mode st = ModeVideo then ModeVideo else ModeWidgets) in
      JObj ([(''status'', JStr ''ok''), (''mode'', JStr mode)]
        @ (case vt_Primary st of None \<Rightarrow> [] | Some s \<Rightarrow> [(''primary'', j_stream jnum s)])
        @ (case vt_Pip st of None \<Rightarrow> [] | Some s \<Rightarrow> [(''pip'', j_stream jnum s)])))"

definition video_error_text :: "video_error \<Rightarrow> string" where
  "video_error_text e = (case e of
     ErrStreamNotFound \<Rightarrow> ''stream not active''
   | ErrNotControllable \<Rightarrow> ''stream is not controllable''
   | ErrControllerUnreachable \<Rightarrow> ''stream controller unreachable''
   | ErrInvalidStream \<Rightarrow> ''invalid stream: id and stream_url are required''
   | ErrInvalidAction \<Rightarrow> ''invalid action: must be toggle_playback, play, pause, rewind, fast_forward, back, home, captions, next, previous, or seek''
   | ErrInvalidPlayerState \<Rightarrow> ''invalid player_state: must be playing, paused, buffering, or idle''
   | ErrRequest msg \<Rightarrow> msg)"

definition writeStreamMutationResult :: "video_error + json \<Rightarrow> response" where
  "writeStreamMutationResult r = (case r of
     Inl err \<Rightarrow> if err = ErrStreamNotFound then writeAPIError 404 ''stream not active''
                else writeAPIError 400 (video_error_text err)
   | Inr payload \<Rightarrow> writeJSON 200 payload)"

definition GetVideoState :: "(f64 \<Rightarrow> json) \<Rightarrow> string \<Rightarrow> VideoCoordinator option \<Rightarrow> response" where
  "GetVideoState jnum meth ctl =
     (case requireCORSAndMethod [''GET'', ''HEAD''] meth of
        Some rsp \<Rightarrow> rsp
      | None \<Rightarrow> (case ctl of
            None \<Rightarrow> not_configured ''video''
          | Some c \<Rightarrow> if meth = ''HEAD'' then \<lparr>rs_Code = 200, rs_Body = None\<rparr>
                      else writeJSON 200 (toAPIVideoStateResponse jnum (video_GetState c))))"

text \<open>The stream decoded over the defaults the handler prepares.\<close>

definition trigger_defaults :: "VideoStream \<Rightarrow> VideoStream" where
  "trigger_defaults s0 =
     (let s = (if vi_Type s0 = [] then s0\<lparr>vi_Type := TypeWebRTC\<rparr> else s0);
          s = (if vi_Priority s = [] then s\<lparr>vi_Priority := PriorityPersistent\<rparr> else s)
      in if vi_PlayerState s = [] then s\<lparr>vi_PlayerState := PlayerStatePlaying\<rparr> else s)"

definition PostVideoTrigger ::
    "(f64 \<Rightarrow> json) \<Rightarrow> gotime \<Rightarrow> VideoStream request \<Rightarrow> VideoCoordinator option \<Rightarrow> response \<times> VideoCoordinator option" where
  "PostVideoTrigger jnum now r ctl =
     (case requireCORSAndMethod [''POST''] (rq_Method r) of
        Some rsp \<Rightarrow> (rsp, ctl)
      | None \<Rightarrow> (case ctl of
            None \<Rightarrow> (not_configured ''video'', ctl)
          | Some c \<Rightarrow> (case rq_Body r of
                BodyOk stream \<Rightarrow>
                  let reqID = TrimSpace (vi_ID stream) in
                  if reqID = [] \<or> TrimSpace (vi_StreamURL stream) = [] \<or> reqID = ''all'' \<or> reqID = ''*''
                  then (writeAPIError 400 (if reqID = ''all'' \<or> reqID = ''*''
                          then ''invalid video trigger request: '' @ quoted ''all'' @ '' and '' @ quoted ''*'' @ '' are reserved sentinels''
                          else ''invalid video trigger request: id and stream_url are required''), ctl)
                  else (case Trigger now (trigger_defaults stream) c of
                          (Inl err, c') \<Rightarrow> (writeAPIError 400 (video_error_text err), Some c')
                        | (Inr st, c') \<Rightarrow> (writeJSON 200 (toAPIVideoStateResponse jnum st), Some c'))
              | _ \<Rightarrow> (writeAPIError 400 ''invalid video trigger request: malformed JSON'', ctl))))"

definition decodeRequiredVideoPost ::
    "string \<Rightarrow> string \<Rightarrow> ('a \<Rightarrow> bool) \<Rightarrow> 'a request \<Rightarrow> VideoCoordinator option \<Rightarrow> response + 'a \<times> VideoCoordinator" where
  "decodeRequiredVideoPost malformedMsg missingMsg missing r ctl =
     (case requireCORSAndMethod [''POST''] (rq_Method r) of
        Some rsp \<Rightarrow> Inl rsp
      | None \<Rightarrow> (case ctl of
            None \<Rightarrow> Inl (not_configured ''video'')
          | Some c \<Rightarrow> (case rq_Body r of
                BodyOk req \<Rightarrow> if missing req then Inl (writeAPIError 400 missingMsg) else Inr (req, c)
              | _ \<Rightarrow> Inl (writeAPIError 400 malformedMsg))))"

definition PostVideoDismiss ::
    "(f64 \<Rightarrow> json) \<Rightarrow> string request \<Rightarrow> VideoCoordinator option \<Rightarrow> response \<times> VideoCoordinator option" where
  "PostVideoDismiss jnum r ctl =
     (case decodeRequiredVideoPost ''invalid video dismiss request: malformed JSON''
             ''invalid video dismiss request: id is required'' (\<lambda>i. TrimSpace i = []) r ctl of
        Inl rsp \<Rightarrow> (rsp, ctl)
      | Inr (i, c) \<Rightarrow>
          let (res, c') = Dismiss i c
          in (writeStreamMutationResult (map_sum id (toAPIVideoStateResponse jnum) res), Some c'))"

definition PostVideoAction ::
    "(string \<Rightarrow> json \<Rightarrow> post_result) \<Rightarrow> (string \<times> string \<times> json) request \<Rightarrow> VideoCoordinator option \<Rightarrow> response" where
  "PostVideoAction post r ctl =
     (case decodeRequiredVideoPost ''invalid video action request: malformed JSON''
             ''invalid video action request: id and action are required''
             (\<lambda>(i, action, _). TrimSpace i = [] \<or> action = []) r ctl of
        Inl rsp \<Rightarrow> rsp
      | Inr ((i, action, val), c) \<Rightarrow>
          (case ForwardAction post i action val c of
             Inl ErrStreamNotFound \<Rightarrow> writeAPIError 404 ''stream not active''
           | Inl ErrNotControllable \<Rightarrow> writeAPIError 422 ''stream is not controllable''
           | Inl ErrControllerUnreachable \<Rightarrow> writeAPIError 502 ''stream controller unreachable''
           | Inl err \<Rightarrow> writeAPIError 400 (video_error_text err)
           | Inr _ \<Rightarrow> writeJSON 200 (JObj [(''status'', JStr ''ok'')])))"

definition PostVideoState ::
    "gotime \<Rightarrow> VideoStream request \<Rightarrow> VideoCoordinator option \<Rightarrow> response \<times> VideoCoordinator option" where
  "PostVideoState now r ctl =
     (case decodeRequiredVideoPost ''invalid video player state request: malformed JSON''
             ''invalid video player state request: id and player_state are required''
             (\<lambda>u. TrimSpace (vi_ID u) = [] \<or> vi_PlayerState u = []) r ctl of
        Inl rsp \<Rightarrow> (rsp, ctl)
      | Inr (u, c) \<Rightarrow>
          let (res, c') = UpdatePlayerState now (vi_ID u) u c
          in (writeStreamMutationResult (map_sum id (\<lambda>_. JObj [(''status'', JStr ''ok''), (''id'', JStr (vi_ID u)),
                (''player_state'', JStr (vi_PlayerState u))]) res), Some c'))"

end
