(* ===== verification/Handler_Props.thy ===== *)
theory Handler_Props
  imports Handlers
begin

text \<open>
  What the handlers guarantee: a request that is answered with an error changes nothing, one that is
  answered with success did exactly the operation it asked for, and no request makes the screen handlers panic.
\<close>

subsection \<open>Errors leave the state alone\<close>

lemma response_codes [simp]:
  "rs_Code (writeAPIError code msg) = code" "rs_Code (writeJSON code payload) = code"
  "rs_Code (navigation_response d) = 200" "rs_Code (audio_response vm) = 200" "rs_Code (not_configured what) = 500"
  by (simp_all add: writeAPIError_def writeJSON_def navigation_response_def audio_response_def not_configured_def)

text \<open>What a sequence of screen requests may consist of.\<close>

datatype screen_request =
    SelectRequest "int request" | AdvanceRequest "string request" | PauseRequest "pause_request request"

fun screen_handler :: "screen_request \<Rightarrow> RotationCoordinator option \<Rightarrow> response option \<times> RotationCoordinator option" where
  "screen_handler (SelectRequest r) ctl = PostScreenSelect r ctl"
| "screen_handler (AdvanceRequest r) ctl = PostScreenAdvance r ctl"
| "screen_handler (PauseRequest r) ctl = PostScreenPause r ctl"

lemma apfst_Inr_eq [simp]:
  "apfst Inr p = (Inl e, c) \<longleftrightarrow> False" "apfst Inr p = (Inr d, c) \<longleftrightarrow> p = (d, c)"
  by (cases p; auto)+

lemma select_error: "SelectScreen i c = (Inl err, c') \<Longrightarrow> c' = c"
  by (auto simp: SelectScreen_def split: sum.splits if_splits)

lemma advance_error: "AdvanceScreen d c = (Inl err, c') \<Longrightarrow> c' = c"
  by (auto simp: AdvanceScreen_def split: sum.splits if_splits)

lemma pause_error: "PauseRotation d c = (Inl err, c') \<Longrightarrow> c' = c"
  by (auto simp: PauseRotation_def Let_def split: if_splits)

lemma resume_error: "ResumeRotation c = (Inl err, c') \<Longrightarrow> c' = c"
  by (auto simp: ResumeRotation_def Let_def split: if_splits)

lemma commit_data_some:
  "commitScreenChangeLocked c = (d, c') \<Longrightarrow> 0 \<le> ro_currentScreen c \<Longrightarrow> d \<noteq> None"
  by (auto simp: commitScreenChangeLocked_def Let_def buildRotateDataLocked_def frame split: option.splits if_splits)

lemma select_no_panic: "SelectScreen i c = (Inr d, c') \<Longrightarrow> d \<noteq> None"
  by (auto simp: SelectScreen_def split: sum.splits if_splits dest: commit_data_some)

lemma advance_no_panic: "AdvanceScreen e c = (Inr d, c') \<Longrightarrow> d \<noteq> None"
  by (auto simp: AdvanceScreen_def validateActiveScreensLocked_def split: sum.splits if_splits dest: commit_data_some)

text \<open>Every request to the screen endpoints gets a response, and one whose status is not 200 leaves the
  rotation untouched, whatever its method, its body and the state of the coordinator.\<close>

lemma screen_errors_harmless:
  "\<exists>rsp ctl'. screen_handler r ctl = (Some rsp, ctl') \<and> (rs_Code rsp \<noteq> 200 \<longrightarrow> ctl' = ctl)"
proof -
  have nav: "\<exists>rsp ctl'. navigate p = (Some rsp, ctl') \<and> (rs_Code rsp \<noteq> 200 \<longrightarrow> ctl' = Some c)"
    if "\<And>err c'. p = (Inl err, c') \<Longrightarrow> c' = c" "\<And>d c'. p = (Inr d, c') \<Longrightarrow> d \<noteq> None" for p c
    using that by (cases p; cases "fst p") (auto simp: navigate_def)
  have select: "\<exists>rsp ctl'. navigate (SelectScreen i c) = (Some rsp, ctl') \<and> (rs_Code rsp \<noteq> 200 \<longrightarrow> ctl' = Some c)"
    and advance: "\<exists>rsp ctl'. navigate (AdvanceScreen d c) = (Some rsp, ctl') \<and> (rs_Code rsp \<noteq> 200 \<longrightarrow> ctl' = Some c)"
    for i d c using select_error select_no_panic advance_error advance_no_panic by (blast intro!: nav)+
  show ?thesis
  proof (cases r)
    case (SelectRequest q)
    then show ?thesis using select
      by (cases ctl) (auto simp: PostScreenSelect_def checkPostAndController_def split: option.split body.split)
  next
    case (AdvanceRequest q)
    then show ?thesis using advance
      by (cases ctl) (auto simp: PostScreenAdvance_def checkPostAndController_def split: option.split body.split)
  next
    case (PauseRequest q)
    then show ?thesis
      by (cases ctl) (auto simp: PostScreenPause_def checkPostAndController_def Let_def
          split: option.split body.split prod.split sum.split dest: pause_error resume_error)
  qed
qed

lemma trigger_error: "Trigger now s c = (Inl err, c') \<Longrightarrow> c' = c"
  by (auto simp: Trigger_def Let_def split: sum.splits if_splits)

lemma dismiss_error: "Dismiss i c = (Inl err, c') \<Longrightarrow> c' = c"
  by (auto simp: Dismiss_def Let_def split: option.splits if_splits)

lemma update_error: "UpdatePlayerState now i s c = (Inl err, c') \<Longrightarrow> c' = c"
  by (auto simp: UpdatePlayerState_def Let_def split: option.splits if_splits)

lemma set_state_error: "SetState st t r e c = (Inl err, c') \<Longrightarrow> c' = c"
  by (auto simp: SetState_def SetFullState_def split: if_splits)

lemma set_volume_error: "SetVolume v c = (Inl err, c') \<Longrightarrow> c' = c"
  by (auto simp: SetVolume_def Let_def split: if_splits)

lemma set_mute_error: "SetMute m c = (Inl err, c') \<Longrightarrow> c' = c"
  by (simp add: SetMute_def Let_def)

lemma mutation_code: "rs_Code (writeStreamMutationResult (map_sum id f r)) = 200 \<longleftrightarrow> (\<exists>x. r = Inr x)"
  by (cases r) (simp_all add: writeStreamMutationResult_def)

text \<open>A request to the audio, voice or video endpoints that is not answered with 200 leaves the coordinator
  untouched: rejected methods and bodies, a missing coordinator, and every error of the operation itself.\<close>

lemma media_errors_harmless:
  "(rs_Code (fst (PostAudioVolume rv au)) \<noteq> 200 \<longrightarrow> snd (PostAudioVolume rv au) = au)
   \<and> (rs_Code (fst (PostAudioMute rm au)) \<noteq> 200 \<longrightarrow> snd (PostAudioMute rm au) = au)
   \<and> (rs_Code (fst (PostVoiceState rs vo)) \<noteq> 200 \<longrightarrow> snd (PostVoiceState rs vo) = vo)
   \<and> (rs_Code (fst (PostVideoTrigger jnum now rt vd)) \<noteq> 200 \<longrightarrow> snd (PostVideoTrigger jnum now rt vd) = vd)
   \<and> (rs_Code (fst (PostVideoDismiss jnum rd vd)) \<noteq> 200 \<longrightarrow> snd (PostVideoDismiss jnum rd vd) = vd)
   \<and> (rs_Code (fst (PostVideoState now ru vd)) \<noteq> 200 \<longrightarrow> snd (PostVideoState now ru vd) = vd)"
proof (intro conjI)
  show "rs_Code (fst (PostAudioVolume rv au)) \<noteq> 200 \<longrightarrow> snd (PostAudioVolume rv au) = au"
    by (auto simp: PostAudioVolume_def split: option.split body.split prod.split sum.split dest: set_volume_error)
  show "rs_Code (fst (PostAudioMute rm au)) \<noteq> 200 \<longrightarrow> snd (PostAudioMute rm au) = au"
    by (auto simp: PostAudioMute_def Let_def split: option.split body.split json.split prod.split sum.split
        dest: set_mute_error)
  show "rs_Code (fst (PostVoiceState rs vo)) \<noteq> 200 \<longrightarrow> snd (PostVoiceState rs vo) = vo"
    by (auto simp: PostVoiceState_def split: option.split body.split prod.split sum.split dest: set_state_error)
  show "rs_Code (fst (PostVideoTrigger jnum now rt vd)) \<noteq> 200 \<longrightarrow> snd (PostVideoTrigger jnum now rt vd) = vd"
    by (auto simp: PostVideoTrigger_def Let_def split: option.split body.split prod.split sum.split dest: trigger_error)
  show "rs_Code (fst (PostVideoDismiss jnum rd vd)) \<noteq> 200 \<longrightarrow> snd (PostVideoDismiss jnum rd vd) = vd"
    by (auto simp: PostVideoDismiss_def decodeRequiredVideoPost_def mutation_code split: option.splits body.splits
        prod.splits sum.splits if_splits) (metis dismiss_error old.sum.exhaust)+
  show "rs_Code (fst (PostVideoState now ru vd)) \<noteq> 200 \<longrightarrow> snd (PostVideoState now ru vd) = vd"
    by (auto simp: PostVideoState_def decodeRequiredVideoPost_def mutation_code split: option.splits body.splits
        prod.splits sum.splits if_splits) (metis update_error old.sum.exhaust)+
qed

end
