(* ===== verification/Chatlog.thy ===== *)
theory Chatlog
  imports Layout_Model Event_Model Clock
begin

text \<open>
  \<^verbatim>\<open>internal/chatlog/store.go\<close>: the transcript behind the chat-log widget, a list of messages per
  conversation key, bounded in age and number. The map is a list of pairs with distinct keys; its order is the
  order an iteration happens to visit the keys in. Every operation reads the clock, its argument \<open>now\<close>, once.
\<close>

definition DefaultTTL :: duration where "DefaultTTL = 20 * 60 * second"
definition DefaultMaxPerKey :: int where "DefaultMaxPerKey = 50"

definition RoleHuman :: string where "RoleHuman = ''human''"
definition RoleAgent :: string where "RoleAgent = ''agent''"
definition nodePrefix :: string where "nodePrefix = ''node:''"
definition widgetPrefix :: string where "widgetPrefix = ''widget:''"

definition NodeKey :: "string \<Rightarrow> string" where
  "NodeKey nodeID0 = (let nodeID = TrimSpace nodeID0 in nodePrefix @ (if nodeID = [] then ''default'' else nodeID))"

definition WidgetKey :: "string \<Rightarrow> string" where
  "WidgetKey widgetID = widgetPrefix @ widgetID"

definition IsNodeKey :: "string \<Rightarrow> bool" where
  "IsNodeKey key = HasPrefix key nodePrefix"

record Message =
  ms_Role :: string
  ms_Author :: string
  ms_Text :: string
  ms_At :: gotime

record Store =
  cs_ttl :: duration
  cs_max :: int
  cs_data :: "(string \<times> Message list) list"

datatype store_option = WithTTL duration | WithMaxPerKey int

fun apply_option :: "Store \<Rightarrow> store_option \<Rightarrow> Store" where
  "apply_option s (WithTTL ttl) = (if ttl > 0 then s\<lparr>cs_ttl := ttl\<rparr> else s)"
| "apply_option s (WithMaxPerKey n) = (if n > 0 then s\<lparr>cs_max := n\<rparr> else s)"

definition NewStore :: "store_option list \<Rightarrow> Store" where
  "NewStore opts = foldl apply_option \<lparr>cs_ttl = DefaultTTL, cs_max = DefaultMaxPerKey, cs_data = []\<rparr> opts"

definition before :: "Message \<Rightarrow> Message \<Rightarrow> bool" where
  "before a b \<longleftrightarrow> ms_At a < ms_At b"

definition pruned :: "duration \<Rightarrow> int \<Rightarrow> gotime \<Rightarrow> Message list \<Rightarrow> Message list" where
  "pruned ttl mx now msgs0 =
     (let msgs1 = sort_by before msgs0;
          cutoff = now - ttl;
          msgs2 = dropWhile (\<lambda>m. \<not> ms_At m > cutoff) msgs1
      in if int (length msgs2) > mx then drop (length msgs2 - nat mx) msgs2 else msgs2)"

text \<open>Reading, writing and deleting a key of the map.\<close>

definition get :: "string \<Rightarrow> Store \<Rightarrow> Message list" where
  "get key s = (case map_of (cs_data s) key of None \<Rightarrow> [] | Some ms \<Rightarrow> ms)"

fun put :: "string \<Rightarrow> 'a \<Rightarrow> (string \<times> 'a) list \<Rightarrow> (string \<times> 'a) list" where
  "put k v [] = [(k, v)]"
| "put k v ((k', v') # xs) = (if k' = k then (k, v) # xs else (k', v') # put k v xs)"

definition del :: "string \<Rightarrow> (string \<times> 'a) list \<Rightarrow> (string \<times> 'a) list" where
  "del k xs = filter (\<lambda>(k', _). k' \<noteq> k) xs"

definition sortAndPruneLocked :: "gotime \<Rightarrow> string \<Rightarrow> Store \<Rightarrow> Store" where
  "sortAndPruneLocked now key s =
     (let msgs = pruned (cs_ttl s) (cs_max s) now (get key s) in
      if msgs = [] then s\<lparr>cs_data := del key (cs_data s)\<rparr>
      else s\<lparr>cs_data := put key msgs (cs_data s)\<rparr>)"

definition stamp_msg :: "gotime \<Rightarrow> Message \<Rightarrow> Message" where
  "stamp_msg now m = (if time_is_zero (ms_At m) then m\<lparr>ms_At := now\<rparr> else m)"

definition Add :: "gotime \<Rightarrow> string \<Rightarrow> Message \<Rightarrow> Store \<Rightarrow> Store" where
  "Add now key m s =
     sortAndPruneLocked now key (s\<lparr>cs_data := put key (get key s @ [stamp_msg now m]) (cs_data s)\<rparr>)"

definition Replace :: "gotime \<Rightarrow> string \<Rightarrow> Message list \<Rightarrow> Store \<Rightarrow> Store" where
  "Replace now key msgs s =
     sortAndPruneLocked now key (s\<lparr>cs_data := put key (map (stamp_msg now) msgs) (cs_data s)\<rparr>)"

text \<open>The loop of \<^verbatim>\<open>Messages\<close> over the sorted keys.\<close>

fun collect :: "gotime \<Rightarrow> (string \<Rightarrow> bool) \<Rightarrow> string list \<Rightarrow> Message list \<Rightarrow> Store \<Rightarrow> Message list \<times> Store" where
  "collect now match [] out s = (out, s)"
| "collect now match (key # keys) out s =
     (let s' = sortAndPruneLocked now key s in
      collect now match keys (if match key then out @ get key s' else out) s')"

definition Messages :: "gotime \<Rightarrow> (string \<Rightarrow> bool) \<Rightarrow> Store \<Rightarrow> Message list \<times> Store" where
  "Messages now match s =
     (let keys = sort_by string_less (map fst (cs_data s));
          (out, s') = collect now match keys [] s
      in (sort_by before out, s'))"

fun recent :: "gotime \<Rightarrow> (string \<Rightarrow> bool) \<Rightarrow> string list \<Rightarrow> (string \<times> gotime) option \<Rightarrow> Store
    \<Rightarrow> (string \<times> gotime) option \<times> Store" where
  "recent now match [] best s = (best, s)"
| "recent now match (key # keys) best s =
     (let s' = sortAndPruneLocked now key s; msgs = get key s' in
      if msgs = [] \<or> \<not> match key then recent now match keys best s'
      else recent now match keys
        (case best of
           None \<Rightarrow> Some (key, ms_At (last msgs))
         | Some (_, bestT) \<Rightarrow> if ms_At (last msgs) > bestT then Some (key, ms_At (last msgs)) else best) s')"

definition MostRecentKey :: "gotime \<Rightarrow> (string \<Rightarrow> bool) \<Rightarrow> Store \<Rightarrow> string option \<times> Store" where
  "MostRecentKey now match s =
     (let (best, s') = recent now match (map fst (cs_data s)) None s in (map_option fst best, s'))"

definition entry_json :: "Message \<Rightarrow> json" where
  "entry_json m = JObj ((if ms_Author m \<noteq> [] then [(''author'', JStr (ms_Author m))] else [])
     @ [(''role'', JStr (ms_Role m)), (''text'', JStr (ms_Text m)), (''ts'', JStr (rfc3339 (ms_At m)))])"

definition View :: "gotime \<Rightarrow> string \<Rightarrow> string \<Rightarrow> Store \<Rightarrow> json \<times> Store" where
  "View now widgetID nodeID0 s =
     (let own = WidgetKey widgetID;
          nodeID = TrimSpace nodeID0;
          (nodeKey, s1) = (if nodeID \<noteq> [] then (NodeKey nodeID, s)
             else (case MostRecentKey now IsNodeKey s of (Some k, s1) \<Rightarrow> (k, s1) | (None, s1) \<Rightarrow> ([], s1)));
          (msgs, s2) = Messages now (\<lambda>key. key = own \<or> nodeKey \<noteq> [] \<and> key = nodeKey) s1
      in (JObj ([(''messages'', JArr (map entry_json msgs))]
            @ (if msgs \<noteq> [] then [(''updated_at'', JStr (rfc3339 (ms_At (last msgs))))] else [])), s2))"

text \<open>\<^verbatim>\<open>ParsePush\<close>, with the result of \<^verbatim>\<open>time.Parse\<close> at RFC 3339 as \<open>parse\<close>. Its error names the message
  and what is wrong with it.\<close>

datatype push_error = NotArray | NotObject nat | BadText nat | BadRole nat | BadTime nat

definition member :: "string \<Rightarrow> (string \<times> json) list \<Rightarrow> json option" where
  "member k ms = map_of ms k"

definition parse_message :: "(string \<Rightarrow> gotime option) \<Rightarrow> nat \<Rightarrow> json \<Rightarrow> push_error + Message" where
  "parse_message parse i j = (case j of
     JObj obj \<Rightarrow>
       (case member ''text'' obj of
          Some (JStr text) \<Rightarrow>
            (case member ''role'' obj of
               Some (JStr role) \<Rightarrow>
                 if role \<noteq> RoleHuman \<and> role \<noteq> RoleAgent then Inl (BadRole i)
                 else let m = \<lparr>ms_Role = role,
                              ms_Author = (case member ''author'' obj of Some (JStr a) \<Rightarrow> a | _ \<Rightarrow> []),
                              ms_Text = text, ms_At = zero_time\<rparr>
                      in (case member ''ts'' obj of
                            Some (JStr ts) \<Rightarrow> if ts = [] then Inr m
                              else (case parse ts of None \<Rightarrow> Inl (BadTime i) | Some at \<Rightarrow> Inr (m\<lparr>ms_At := at\<rparr>))
                          | _ \<Rightarrow> Inr m)
             | _ \<Rightarrow> Inl (BadRole i))
        | _ \<Rightarrow> Inl (BadText i))
   | _ \<Rightarrow> Inl (NotObject i))"

fun parse_messages :: "(string \<Rightarrow> gotime option) \<Rightarrow> nat \<Rightarrow> json list \<Rightarrow> push_error + Message list" where
  "parse_messages parse i [] = Inr []"
| "parse_messages parse i (j # js) =
     res_bind (parse_message parse i j) (\<lambda>m. res_bind (parse_messages parse (Suc i) js) (\<lambda>ms. Inr (m # ms)))"

definition ParsePush :: "(string \<Rightarrow> gotime option) \<Rightarrow> (string \<times> json) list \<Rightarrow> push_error + Message list" where
  "ParsePush parse data = (case member ''messages'' data of
     None \<Rightarrow> Inr []
   | Some JNull \<Rightarrow> Inr []
   | Some (JArr raw) \<Rightarrow> parse_messages parse 0 raw
   | Some _ \<Rightarrow> Inl NotArray)"

end
