(* ===== verification/Chatlog_Props.thy ===== *)
theory Chatlog_Props
  imports Chatlog
begin

text \<open>
  Properties of the transcript: what a display is shown is exactly the live messages, newest kept, oldest first,
  and pruning while reading or writing never changes what is shown later.
\<close>

subsection \<open>Pruning one conversation\<close>

interpretation by_time: weak_order before
  by unfold_locales (auto simp: before_def)

abbreviation in_order :: "Message list \<Rightarrow> bool" where
  "in_order \<equiv> sorted_wrt (\<lambda>a b. ms_At a \<le> ms_At b)"

lemma in_order_iff: "in_order xs \<longleftrightarrow> sorted_wrt (\<lambda>a b. \<not> before b a) xs"
  by (simp add: before_def not_less)

lemma in_order_sort [simp]: "in_order (sort_by before xs)"
  unfolding in_order_iff by (rule by_time.sorted_sort_by)

lemma sort_in_order: "in_order xs \<Longrightarrow> sort_by before xs = xs"
  unfolding in_order_iff by (rule by_time.sort_by_sorted_id)

definition lastn :: "nat \<Rightarrow> 'a list \<Rightarrow> 'a list" where
  "lastn n xs = drop (length xs - n) xs"

definition live :: "gotime \<Rightarrow> Message list \<Rightarrow> Message list" where
  "live cutoff xs = filter (\<lambda>m. cutoff < ms_At m) xs"

lemma drop_expired: "in_order xs \<Longrightarrow> dropWhile (\<lambda>m. \<not> cutoff < ms_At m) xs = live cutoff xs"
proof (induction xs)
  case Nil
  then show ?case by (simp add: live_def)
next
  case (Cons x xs)
  show ?case
  proof (cases "cutoff < ms_At x")
    case True
    then have "\<forall>m \<in> set xs. cutoff < ms_At m" using Cons.prems by auto
    with True show ?thesis by (simp add: live_def filter_id_conv [THEN iffD2])
  next
    case False
    with Cons show ?thesis by (simp add: live_def)
  qed
qed

lemma in_order_live [simp]: "in_order xs \<Longrightarrow> in_order (live c xs)"
  by (simp add: live_def sorted_wrt_filter)

lemma in_order_lastn [simp]: "in_order xs \<Longrightarrow> in_order (lastn n xs)"
  by (simp add: lastn_def sorted_wrt_drop)

lemma pruned_eq:
  "0 \<le> mx \<Longrightarrow> pruned ttl mx now xs = lastn (nat mx) (live (now - ttl) (sort_by before xs))"
  by (auto simp: pruned_def Let_def drop_expired lastn_def)

lemma live_split: "in_order xs \<Longrightarrow> \<exists>old. xs = old @ live c xs \<and> (\<forall>m \<in> set old. \<not> c < ms_At m)"
  using takeWhile_dropWhile_id [of "\<lambda>m. \<not> c < ms_At m" xs] drop_expired [of xs c]
  by (metis set_takeWhileD)

lemma live_lastn: "in_order xs \<Longrightarrow> live c (lastn n xs) = lastn n (live c xs)"
proof -
  assume "in_order xs"
  then obtain old where xs: "xs = old @ live c xs" and old: "\<forall>m \<in> set old. \<not> c < ms_At m"
    using live_split by blast
  define new where "new = live c xs"
  have new: "live c (drop k new) = drop k new" for k
  proof -
    have "\<forall>m \<in> set (drop k new). c < ms_At m" by (auto simp: new_def live_def dest: in_set_dropD)
    then show ?thesis by (simp add: live_def filter_id_conv [THEN iffD2])
  qed
  have gone: "live c (drop k old) = []" for k
    using old by (auto simp: live_def filter_empty_conv dest: in_set_dropD)
  have "lastn n xs = drop (length old + length new - n) old @ drop (length new - n) new"
    by (subst xs) (simp add: lastn_def new_def)
  then have "live c (lastn n xs) = live c (drop (length old + length new - n) old) @ live c (drop (length new - n) new)"
    by (simp add: live_def)
  then show ?thesis using new gone by (simp add: lastn_def new_def)
qed

lemma lastn_lastn [simp]: "lastn n (lastn n xs) = lastn n xs"
  by (simp add: lastn_def)

lemma live_live: "c \<le> c' \<Longrightarrow> live c' (live c xs) = live c' xs"
  by (auto simp: live_def intro!: filter_cong)

lemma pruned_pruned:
  assumes "0 \<le> mx" "now \<le> later"
  shows "pruned ttl mx later (pruned ttl mx now xs) = pruned ttl mx later xs"
  using assms by (simp add: pruned_eq sort_in_order live_lastn live_live)

subsection \<open>The map of conversations\<close>

lemma map_of_put [simp]: "map_of (put k v xs) = (map_of xs)(k \<mapsto> v)"
  by (induction xs) (auto simp: fun_eq_iff)

lemma map_of_del [simp]: "map_of (del k xs) = (map_of xs)(k := None)"
  by (induction xs) (auto simp: del_def fun_eq_iff)

lemma keys_put: "map fst (put k v xs) = (if k \<in> set (map fst xs) then map fst xs else map fst xs @ [k])"
  by (induction xs) (auto simp del: set_map)

lemma keys_del: "map fst (del k xs) = filter (\<lambda>k'. k' \<noteq> k) (map fst xs)"
  by (induction xs) (auto simp: del_def)

definition store_ok :: "Store \<Rightarrow> bool" where
  "store_ok s \<longleftrightarrow> distinct (map fst (cs_data s)) \<and> 0 < cs_max s \<and> 0 < cs_ttl s"

abbreviation shown :: "gotime \<Rightarrow> Store \<Rightarrow> string \<Rightarrow> Message list" where
  "shown now s key \<equiv> pruned (cs_ttl s) (cs_max s) now (get key s)"

lemma prune_fields [simp]:
  "cs_ttl (sortAndPruneLocked now key s) = cs_ttl s" "cs_max (sortAndPruneLocked now key s) = cs_max s"
  by (simp_all add: sortAndPruneLocked_def Let_def)

lemma get_prune: "get k (sortAndPruneLocked now key s) = (if k = key then shown now s key else get k s)"
  by (simp add: sortAndPruneLocked_def Let_def get_def)

lemma get_absent: "k \<notin> fst ` set (cs_data s) \<Longrightarrow> get k s = []"
  by (simp add: get_def map_of_eq_None_iff [THEN iffD2])

lemma pruned_Nil [simp]: "pruned ttl mx now [] = []"
  by (simp add: pruned_def sort_by_def)

lemma prune_keys:
  "distinct (map fst (cs_data s)) \<Longrightarrow> map fst (cs_data (sortAndPruneLocked now key s))
     = filter (\<lambda>k. k = key \<longrightarrow> shown now s k \<noteq> []) (map fst (cs_data s))"
proof (cases "key \<in> fst ` set (cs_data s)")
  case True
  then show ?thesis
    by (auto simp: sortAndPruneLocked_def Let_def keys_put keys_del filter_id_conv intro!: filter_cong)
next
  case False
  then have "shown now s key = []" by (simp add: get_absent)
  with False show ?thesis
    by (auto simp: sortAndPruneLocked_def Let_def keys_del filter_id_conv intro!: filter_cong)
qed

lemma put_ok: "distinct (map fst xs) \<Longrightarrow> distinct (map fst (put k v xs))"
  by (auto simp: keys_put)

lemma prune_ok [simp]: "store_ok s \<Longrightarrow> store_ok (sortAndPruneLocked now key s)"
  by (simp add: store_ok_def prune_keys)

lemma add_ok [simp]: "store_ok s \<Longrightarrow> store_ok (Add now key m s)" "store_ok s \<Longrightarrow> store_ok (Replace now key ms s)"
  unfolding Add_def Replace_def by (rule prune_ok, simp add: store_ok_def put_ok)+

lemma new_ok [simp]: "store_ok (NewStore opts)"
proof -
  have "store_ok (foldl apply_option s opts)" if "store_ok s" for s
    using that
  proof (induction opts arbitrary: s)
    case (Cons a opts)
    have "store_ok (apply_option s a)" using Cons.prems by (cases a) (simp_all add: store_ok_def)
    then show ?case using Cons.IH by simp
  qed simp
  then show ?thesis by (simp add: NewStore_def store_ok_def DefaultTTL_def DefaultMaxPerKey_def second_def)
qed

subsection \<open>What is shown\<close>

lemma string_less_irrefl: "\<not> string_less a a"
  by (induction a) auto

lemma string_less_trans: "string_less a b \<Longrightarrow> string_less b c \<Longrightarrow> string_less a c"
proof (induction a b arbitrary: c rule: string_less.induct)
  case (1 a)
  then show ?case by simp
next
  case (2 b bs)
  then show ?case by (cases c) auto
next
  case (3 a as b bs)
  then show ?case by (cases c) auto
qed

lemma string_less_linear: "string_less a b \<or> a = b \<or> string_less b a"
proof (induction a b rule: string_less.induct)
  case (1 a)
  then show ?case by (cases a) auto
next
  case (3 a as b bs)
  have "(of_char a :: nat) < of_char b \<or> a = b \<or> (of_char b :: nat) < of_char a"
    by (metis linorder_neqE_nat of_char_eq_iff)
  with 3 show ?case by auto
qed auto

interpretation by_name: weak_order string_less
proof
  fix x y z
  show "string_less x y \<Longrightarrow> \<not> string_less y x" using string_less_irrefl string_less_trans by blast
  show "\<not> string_less y x \<Longrightarrow> \<not> string_less z y \<Longrightarrow> \<not> string_less z x"
    using string_less_linear string_less_trans by blast
qed

lemma collect_eq:
  assumes "distinct keys"
  shows "fst (collect now match keys out s) = out @ concat (map (shown now s) (filter match keys))"
  using assms
proof (induction keys arbitrary: out s)
  case (Cons k ks)
  have "shown now (sortAndPruneLocked now k s) x = shown now s x" if "x \<in> set ks" for x
    using that Cons.prems by (auto simp: get_prune)
  then have list: "map (shown now (sortAndPruneLocked now k s)) (filter match ks) = map (shown now s) (filter match ks)"
    by simp
  have step: "fst (collect now match (k # ks) out s)
      = (if match k then out @ shown now s k else out)
        @ concat (map (shown now (sortAndPruneLocked now k s)) (filter match ks))"
    using Cons by (simp add: Let_def get_prune [of k now k s] del: prune_fields)
  show ?case unfolding step list by simp
qed simp

lemma collect_store:
  assumes "distinct keys" "store_ok s" "s' = snd (collect now match keys out s)"
  shows "store_ok s' \<and> cs_ttl s' = cs_ttl s \<and> cs_max s' = cs_max s
    \<and> (\<forall>k. get k s' = (if k \<in> set keys then shown now s k else get k s))
    \<and> map fst (cs_data s') = filter (\<lambda>k. k \<in> set keys \<longrightarrow> shown now s k \<noteq> []) (map fst (cs_data s))"
  using assms
proof (induction keys arbitrary: out s)
  case Nil
  then show ?case by simp
next
  case (Cons k ks)
  let ?t = "sortAndPruneLocked now k s"
  have same: "shown now ?t x = shown now s x" if "x \<noteq> k" for x using that by (simp add: get_prune)
  have dist: "distinct (map fst (cs_data s))" using Cons.prems by (simp add: store_ok_def)
  have IH: "store_ok s' \<and> cs_ttl s' = cs_ttl ?t \<and> cs_max s' = cs_max ?t
    \<and> (\<forall>k. get k s' = (if k \<in> set ks then shown now ?t k else get k ?t))
    \<and> map fst (cs_data s') = filter (\<lambda>k. k \<in> set ks \<longrightarrow> shown now ?t k \<noteq> []) (map fst (cs_data ?t))"
    using Cons.prems by (intro Cons.IH) (simp_all add: Let_def)
  have "filter (\<lambda>x. x \<in> set ks \<longrightarrow> shown now ?t x \<noteq> []) (map fst (cs_data ?t))
      = filter (\<lambda>x. x \<in> set (k # ks) \<longrightarrow> shown now s x \<noteq> []) (map fst (cs_data s))"
    unfolding prune_keys [OF dist] filter_filter
    using Cons.prems(1) by (intro filter_cong refl) (auto simp: get_prune)
  with IH Cons.prems(1) show ?case by (auto simp: get_prune)
qed

lemma Messages_eq:
  "store_ok s \<Longrightarrow> fst (Messages now match s) =
     sort_by before (concat (map (shown now s) (filter match (sort_by string_less (map fst (cs_data s))))))"
  by (simp add: Messages_def Let_def store_ok_def collect_eq split: prod.split)
    (metis (no_types, lifting) append_Nil collect_eq distinct_sort_by fst_conv)

lemma Messages_store:
  assumes "store_ok s" "s' = snd (Messages now match s)"
  shows "store_ok s' \<and> cs_ttl s' = cs_ttl s \<and> cs_max s' = cs_max s
    \<and> (\<forall>k. get k s' = shown now s k)
    \<and> map fst (cs_data s') = filter (\<lambda>k. shown now s k \<noteq> []) (map fst (cs_data s))"
proof -
  let ?keys = "sort_by string_less (map fst (cs_data s))"
  have keys: "distinct ?keys" using assms by (simp add: store_ok_def)
  have "s' = snd (collect now match ?keys [] s)" using assms(2) by (simp add: Messages_def Let_def split: prod.split)
  from collect_store [OF keys assms(1) this] show ?thesis
    by (auto simp: get_absent intro!: filter_cong)
qed

subsection \<open>Properties\<close>

text \<open>The operations that change the store; reading prunes it.\<close>

datatype chat_op = ChatAdd gotime string Message | ChatReplace gotime string "Message list" | ChatRead gotime "string \<Rightarrow> bool"

fun chat_step :: "Store \<Rightarrow> chat_op \<Rightarrow> Store" where
  "chat_step s (ChatAdd now key m) = Add now key m s"
| "chat_step s (ChatReplace now key ms) = Replace now key ms s"
| "chat_step s (ChatRead now match) = snd (Messages now match s)"

lemma chat_steps_ok: "store_ok s \<Longrightarrow> store_ok (foldl chat_step s es)"
proof (induction es arbitrary: s)
  case (Cons e es)
  have "store_ok (chat_step s e)"
    using Cons.prems Messages_store [OF Cons.prems refl, THEN conjunct1] by (cases e) simp_all
  then show ?case using Cons.IH by simp
qed simp

lemma concat_skip:
  "(\<And>x. \<not> P x \<Longrightarrow> f x = []) \<Longrightarrow> concat (map f (filter Q (filter P xs))) = concat (map f (filter Q xs))"
  by (induction xs) auto

text \<open>C20: Pruning is not observable: what a display is shown at some time is the same whether or not the store
  was read, and thereby pruned, at any time before.\<close>

theorem chatlog_pruning_unobservable:
  assumes s: "s = foldl chat_step (NewStore opts) es" and later: "now \<le> later"
  shows "fst (Messages later match (snd (Messages now match' s))) = fst (Messages later match s)"
proof -
  have ok: "store_ok s" using s chat_steps_ok by simp
  define t where "t = snd (Messages now match' s)"
  have t: "store_ok t" "cs_ttl t = cs_ttl s" "cs_max t = cs_max s" "\<And>k. get k t = shown now s k"
    "map fst (cs_data t) = filter (\<lambda>k. shown now s k \<noteq> []) (map fst (cs_data s))"
    using Messages_store [OF ok t_def] by auto
  have same: "shown later t k = shown later s k" for k
    using ok later by (simp add: t pruned_pruned store_ok_def)
  have empty: "shown later s k = []" if "shown now s k = []" for k
    using same [of k] that by (simp add: t)
  let ?keys = "sort_by string_less (map fst (cs_data s))"
  have keys: "sort_by string_less (map fst (cs_data t)) = filter (\<lambda>k. shown now s k \<noteq> []) ?keys"
    unfolding t(5) by (rule by_name.filter_sort_by [symmetric])
  have view: "shown later t = shown later s" using same by (rule ext)
  have "concat (map (shown later t) (filter match (sort_by string_less (map fst (cs_data t)))))
      = concat (map (shown later s) (filter match ?keys))"
    unfolding keys view by (rule concat_skip) (use empty in blast)
  then show ?thesis unfolding t_def [symmetric] Messages_eq [OF ok] Messages_eq [OF t(1)] by (rule arg_cong)
qed

definition sample_msg :: "gotime \<Rightarrow> Message" where
  "sample_msg t = \<lparr>ms_Role = RoleHuman, ms_Author = [], ms_Text = ''hi'', ms_At = t\<rparr>"

definition sample_store :: Store where
  "sample_store = foldl chat_step (NewStore [WithTTL 10]) [ChatAdd 5 ''node:a'' (sample_msg 5), ChatAdd 9 ''node:a'' (sample_msg 8)]"

theorem chatlog_pruning_unobservable_witness:
  "fst (Messages 16 (\<lambda>_. True) (snd (Messages 15 (\<lambda>_. True) sample_store))) = fst (Messages 16 (\<lambda>_. True) sample_store)"
  by (rule chatlog_pruning_unobservable [OF sample_store_def]) simp

lemma set_lastn: "set (lastn n xs) \<subseteq> set xs"
  by (auto simp: lastn_def dest: in_set_dropD)

lemma length_filter_conj_le: "length (filter (\<lambda>x. Q x \<and> P x) xs) \<le> length (filter P xs)"
  by (induction xs) auto

text \<open>A message that is not among the newest has as many that are not older after it.\<close>

lemma not_lastn:
  assumes "in_order xs" "m \<in> set xs" "m \<notin> set (lastn n xs)"
  shows "n \<le> length (filter (\<lambda>x. ms_At m \<le> ms_At x) xs)"
proof -
  let ?k = "length xs - n"
  have xs: "xs = take ?k xs @ drop ?k xs" by simp
  have m: "m \<in> set (take ?k xs)" using assms(2,3) xs by (metis Un_iff lastn_def set_append)
  then have k: "0 < ?k" by (cases ?k) simp_all
  have "\<forall>x \<in> set (drop ?k xs). ms_At m \<le> ms_At x"
    using assms(1) m xs by (metis sorted_wrt_append)
  then have "filter (\<lambda>x. ms_At m \<le> ms_At x) (drop ?k xs) = drop ?k xs" by (rule filter_True)
  then have "n \<le> length (filter (\<lambda>x. ms_At m \<le> ms_At x) (drop ?k xs))" using k by simp
  also have "\<dots> \<le> length (filter (\<lambda>x. ms_At m \<le> ms_At x) xs)" by (metis append_take_drop_id filter_append le_add2 length_append)
  finally show ?thesis .
qed

text \<open>A display is shown messages of the conversations it matches only, oldest first, none that has expired,
  and every message that has not expired unless its conversation holds the maximal number of messages that
  are not older.\<close>

lemma chatlog_shows_live:
  assumes s: "s = foldl chat_step (NewStore opts) es" and out: "out = fst (Messages now match s)"
  shows "in_order out
    \<and> set out \<subseteq> {m. \<exists>k. match k \<and> m \<in> set (get k s) \<and> now - cs_ttl s < ms_At m}
    \<and> (\<forall>k m. match k \<and> m \<in> set (get k s) \<and> now - cs_ttl s < ms_At m
         \<longrightarrow> m \<in> set out \<or> cs_max s \<le> int (length (filter (\<lambda>x. ms_At m \<le> ms_At x) (get k s))))"
proof -
  have ok: "store_ok s" using s chat_steps_ok by simp
  have mx: "0 \<le> cs_max s" using ok by (simp add: store_ok_def)
  have set_out: "set out = (\<Union>k \<in> {k. match k \<and> k \<in> fst ` set (cs_data s)}. set (shown now s k))"
    unfolding out by (auto simp: Messages_eq [OF ok])
  have shown: "shown now s k = lastn (nat (cs_max s)) (live (now - cs_ttl s) (sort_by before (get k s)))" for k
    by (rule pruned_eq [OF mx])
  have "in_order out" unfolding out by (simp add: Messages_eq [OF ok])
  moreover have "set out \<subseteq> {m. \<exists>k. match k \<and> m \<in> set (get k s) \<and> now - cs_ttl s < ms_At m}"
    unfolding set_out shown using set_lastn by (fastforce simp: live_def)
  moreover have "m \<in> set out \<or> cs_max s \<le> int (length (filter (\<lambda>x. ms_At m \<le> ms_At x) (get k s)))"
    if "match k" "m \<in> set (get k s)" "now - cs_ttl s < ms_At m" for k m
  proof (cases "m \<in> set (shown now s k)")
    case True
    have "k \<in> fst ` set (cs_data s)" using that(2) get_absent [of k s] by force
    with True that(1) show ?thesis by (auto simp: set_out)
  next
    case False
    let ?all = "sort_by before (get k s)" and ?l = "live (now - cs_ttl s) (sort_by before (get k s))"
    have "m \<in> set ?l" using that by (simp add: live_def)
    then have "nat (cs_max s) \<le> length (filter (\<lambda>x. ms_At m \<le> ms_At x) ?l)"
      using False by (intro not_lastn) (simp_all add: shown)
    also have "\<dots> \<le> length (filter (\<lambda>x. ms_At m \<le> ms_At x) ?all)"
      by (simp add: live_def filter_filter) (rule length_filter_conj_le)
    also have "\<dots> = length (filter (\<lambda>x. ms_At m \<le> ms_At x) (get k s))"
      by (metis mset_filter mset_sort_by size_mset)
    finally show ?thesis by linarith
  qed
  ultimately show ?thesis by blast
qed

end
