(* ===== verification/Provider_Cache.thy ===== *)
theory Provider_Cache
  imports Event_Model Clock
begin

text \<open>
  \<^verbatim>\<open>internal/provider/cache.go\<close>: the last known data of every widget and its operational state. An
  entry that does not exist yet is created with empty fields. The data of a fresh entry is nil, \<^const>\<open>JNull\<close>.
\<close>

definition StateHealthy :: string where "StateHealthy = ''healthy''"
definition StateDegraded :: string where "StateDegraded = ''degraded''"
definition StateFailed :: string where "StateFailed = ''error''"

lemmas provider_states = StateHealthy_def StateDegraded_def StateFailed_def

record WidgetPayload =
  wp_WidgetID :: string
  wp_Timestamp :: string
  wp_State :: string
  wp_Data :: json

record cacheEntry =
  ce_widgetID :: string
  ce_data :: json
  ce_state :: string
  ce_timestamp :: string
  ce_lastSuccess :: gotime
  ce_lastAttempt :: gotime
  ce_consecutiveFailures :: int
  ce_lastError :: "string option"
  ce_hasLKG :: bool

type_synonym SWRCache = "string \<rightharpoonup> cacheEntry"

definition toPayload :: "cacheEntry \<Rightarrow> WidgetPayload" where
  "toPayload e = \<lparr>wp_WidgetID = ce_widgetID e, wp_Timestamp = ce_timestamp e, wp_State = ce_state e, wp_Data = ce_data e\<rparr>"

definition NewSWRCache :: SWRCache where "NewSWRCache = Map.empty"

definition cache_Get :: "string \<Rightarrow> SWRCache \<Rightarrow> WidgetPayload option" where
  "cache_Get widgetID c = map_option toPayload (c widgetID)"

definition fresh_entry :: "string \<Rightarrow> cacheEntry" where
  "fresh_entry widgetID = \<lparr>ce_widgetID = widgetID, ce_data = JNull, ce_state = [], ce_timestamp = [],
     ce_lastSuccess = zero_time, ce_lastAttempt = zero_time, ce_consecutiveFailures = 0, ce_lastError = None,
     ce_hasLKG = False\<rparr>"

definition entry :: "string \<Rightarrow> SWRCache \<Rightarrow> cacheEntry" where
  "entry widgetID c = (case c widgetID of None \<Rightarrow> fresh_entry widgetID | Some e \<Rightarrow> e)"

definition RecordSuccess :: "string \<Rightarrow> json \<Rightarrow> gotime \<Rightarrow> SWRCache \<Rightarrow> (WidgetPayload \<times> bool) \<times> SWRCache" where
  "RecordSuccess widgetID data now c =
     (let e0 = entry widgetID c;
          e = e0\<lparr>ce_data := data, ce_state := StateHealthy, ce_timestamp := rfc3339 now, ce_lastSuccess := now,
                 ce_lastAttempt := now, ce_consecutiveFailures := 0, ce_lastError := None, ce_hasLKG := True\<rparr>
      in ((toPayload e, ce_state e0 \<noteq> StateHealthy), c(widgetID \<mapsto> e)))"

definition RecordFailure :: "string \<Rightarrow> string \<Rightarrow> gotime \<Rightarrow> SWRCache \<Rightarrow> (WidgetPayload \<times> bool) \<times> SWRCache" where
  "RecordFailure widgetID err now c =
     (let e0 = entry widgetID c;
          e1 = e0\<lparr>ce_lastAttempt := now, ce_consecutiveFailures := ce_consecutiveFailures e0 + 1, ce_lastError := Some err\<rparr>
      in if ce_hasLKG e1
         then let e = e1\<lparr>ce_state := StateDegraded\<rparr>
              in ((toPayload e, ce_state e0 \<noteq> StateDegraded), c(widgetID \<mapsto> e))
         else let e = e1\<lparr>ce_state := StateFailed, ce_data := (if ce_data e1 = JNull then JObj [] else ce_data e1),
                         ce_timestamp := rfc3339 now\<rparr>
              in ((toPayload e, ce_state e0 \<noteq> StateFailed), c(widgetID \<mapsto> e)))"

definition RecordPush :: "string \<Rightarrow> json \<Rightarrow> gotime \<Rightarrow> SWRCache \<Rightarrow> (WidgetPayload \<times> bool) \<times> SWRCache" where
  "RecordPush widgetID data now c = RecordSuccess widgetID data now c"

definition Purge :: "string \<Rightarrow> SWRCache \<Rightarrow> SWRCache" where
  "Purge widgetID c = c(widgetID := None)"

definition GetStatusMap :: "SWRCache \<Rightarrow> string \<rightharpoonup> string" where
  "GetStatusMap c = (\<lambda>i. map_option ce_state (c i))"

definition GetConsecutiveFailures :: "string \<Rightarrow> SWRCache \<Rightarrow> int" where
  "GetConsecutiveFailures widgetID c = (case c widgetID of Some e \<Rightarrow> ce_consecutiveFailures e | None \<Rightarrow> 0)"

subsection \<open>The cache as a summary of the fetches\<close>

datatype fetch = Fetched string json gotime | Failed string string gotime | Purged string

fun cache_step :: "SWRCache \<Rightarrow> fetch \<Rightarrow> SWRCache" where
  "cache_step c (Fetched i d now) = snd (RecordSuccess i d now c)"
| "cache_step c (Failed i err now) = snd (RecordFailure i err now c)"
| "cache_step c (Purged i) = Purge i c"

text \<open>What the fetches of one widget, oldest first, add up to: the last success since the last purge, and the
  failures after it.\<close>

record summary =
  su_good :: "(json \<times> gotime) option"
  su_failures :: "gotime list"

fun summarize :: "string \<Rightarrow> summary \<Rightarrow> fetch \<Rightarrow> summary" where
  "summarize i h (Fetched j d now) = (if j = i then \<lparr>su_good = Some (d, now), su_failures = []\<rparr> else h)"
| "summarize i h (Failed j err now) = (if j = i then h\<lparr>su_failures := su_failures h @ [now]\<rparr> else h)"
| "summarize i h (Purged j) = (if j = i then \<lparr>su_good = None, su_failures = []\<rparr> else h)"

definition summary_of :: "string \<Rightarrow> fetch list \<Rightarrow> summary" where
  "summary_of i fs = foldl (summarize i) \<lparr>su_good = None, su_failures = []\<rparr> fs"

definition summary_payload :: "string \<Rightarrow> summary \<Rightarrow> WidgetPayload option" where
  "summary_payload i h =
     (case (su_good h, su_failures h) of
        (None, []) \<Rightarrow> None
      | (None, fs) \<Rightarrow> Some \<lparr>wp_WidgetID = i, wp_Timestamp = rfc3339 (last fs), wp_State = StateFailed, wp_Data = JObj []\<rparr>
      | (Some (d, t), []) \<Rightarrow> Some \<lparr>wp_WidgetID = i, wp_Timestamp = rfc3339 t, wp_State = StateHealthy, wp_Data = d\<rparr>
      | (Some (d, t), fs) \<Rightarrow> Some \<lparr>wp_WidgetID = i, wp_Timestamp = rfc3339 t, wp_State = StateDegraded, wp_Data = d\<rparr>)"

definition cache_rel :: "string \<Rightarrow> summary \<Rightarrow> SWRCache \<Rightarrow> bool" where
  "cache_rel i h c \<longleftrightarrow> cache_Get i c = summary_payload i h
     \<and> GetConsecutiveFailures i c = int (length (su_failures h))
     \<and> (case c i of None \<Rightarrow> True | Some e \<Rightarrow> ce_widgetID e = i \<and> ce_hasLKG e = (su_good h \<noteq> None))"

lemma cache_rel_step: "cache_rel i h c \<Longrightarrow> cache_rel i (summarize i h f) (cache_step c f)"
proof (cases f)
  case (Fetched j d now)
  then show "cache_rel i h c \<Longrightarrow> ?thesis"
    by (auto simp: cache_rel_def RecordSuccess_def Let_def cache_Get_def GetConsecutiveFailures_def summary_payload_def
        toPayload_def entry_def fresh_entry_def split: option.splits)
next
  case (Failed j err now)
  then show "cache_rel i h c \<Longrightarrow> ?thesis"
    by (auto simp: cache_rel_def RecordFailure_def Let_def cache_Get_def GetConsecutiveFailures_def summary_payload_def
        toPayload_def entry_def fresh_entry_def split: option.splits list.splits if_splits)
next
  case (Purged j)
  then show "cache_rel i h c \<Longrightarrow> ?thesis"
    by (auto simp: cache_rel_def Purge_def cache_Get_def GetConsecutiveFailures_def summary_payload_def)
qed

lemma cache_rel_run: "cache_rel i h c \<Longrightarrow> cache_rel i (foldl (summarize i) h fs) (foldl cache_step c fs)"
  by (induction fs arbitrary: h c) (simp_all add: cache_rel_step)

text \<open>C21: What the cache serves for a widget is determined by the fetches of that widget alone: the data and the
  time of the last success, marked healthy if nothing failed since and degraded otherwise; an error with empty
  data if nothing has succeeded yet; nothing if there was no attempt since it was purged. The failure counter
  is the number of failures since the last success.\<close>

theorem cache_serves_last_good:
  "cache_Get i (foldl cache_step NewSWRCache fs) = summary_payload i (summary_of i fs)
   \<and> GetConsecutiveFailures i (foldl cache_step NewSWRCache fs) = int (length (su_failures (summary_of i fs)))"
proof -
  have "cache_rel i \<lparr>su_good = None, su_failures = []\<rparr> NewSWRCache"
    by (simp add: cache_rel_def NewSWRCache_def cache_Get_def GetConsecutiveFailures_def summary_payload_def)
  from cache_rel_run [OF this, of fs] show ?thesis by (simp add: cache_rel_def summary_of_def)
qed

end
