(* ===== verification/Provider_Coordinator.thy ===== *)
theory Provider_Coordinator
  imports Provider_Cache Config_Diff Chatlog
begin

text \<open>
  \<^verbatim>\<open>internal/provider/coordinator.go\<close>: the workers that fetch data for the widgets. Workers are shared by reference between the
  coordinator and their own goroutines, so they live in a store, in which a worker is known by its index. A goroutine's effect on
  the coordinator is one of the operations below: a fetch that returned, or a payload that was pushed. A stopped worker has its
  context cancelled in the same step. What providers do, the readings of the clock, the schema library and the marshaller are an
  environment; log lines are left out.
\<close>

datatype provider = TasksProvider string | HomeAssistantProvider | PhotosProvider string | OtherProvider

record InitOptions =
  io_ID :: string
  io_Type :: string
  io_Dimensions :: "int list"
  io_Endpoint :: string
  io_Method :: string
  io_Token :: string
  io_Timezone :: string
  io_Secrets :: "string \<rightharpoonup> string"
  io_ResponseSchema :: "any_map option"

record worker =
  wk_widgetID :: string
  wk_widgetType :: string
  wk_provider :: provider
  wk_interval :: duration
  wk_refresh :: bool
  wk_stopped :: bool

text \<open>What the state sink was last told.\<close>

record state_sink =
  sk_widgets :: "string \<rightharpoonup> WidgetPayload"
  sk_providers :: "string \<rightharpoonup> string"

record HeaderWeatherPoller =
  hp_weatherCfg :: "HeaderWeatherConfig option"
  hp_timezone :: string
  hp_running :: bool

record ProviderCoordinator =
  pc_store :: "worker list"
  pc_workers :: "string \<rightharpoonup> nat"
  pc_cache :: SWRCache
  pc_snapshot :: "Snapshot option"
  pc_stopped :: bool
  pc_sink :: "state_sink option"
  pc_hub :: "WidgetPayload list option"
  pc_chatLog :: "Store option"
  pc_header :: HeaderWeatherPoller
  pc_readings :: nat

record provider_env =
  pe_Create :: "string \<Rightarrow> string + provider"
  pe_Init :: "provider \<Rightarrow> any_map \<Rightarrow> InitOptions \<Rightarrow> string + provider"
  pe_now :: "nat \<Rightarrow> gotime"
  pe_schema :: "any_map \<Rightarrow> (string \<times> json) list \<Rightarrow> bool"
  pe_parse :: "string \<Rightarrow> gotime option"
  pe_marshals :: "WidgetPayload \<Rightarrow> bool"

definition reading :: "provider_env \<Rightarrow> ProviderCoordinator \<Rightarrow> gotime \<times> ProviderCoordinator" where
  "reading env c = (pe_now env (pc_readings c), c\<lparr>pc_readings := pc_readings c + 1\<rparr>)"

subsection \<open>The header poller\<close>

definition hp_stopLocked :: "HeaderWeatherPoller \<Rightarrow> HeaderWeatherPoller" where
  "hp_stopLocked p = (if \<not> hp_running p then p else p\<lparr>hp_running := False\<rparr>)"

definition hp_Start :: "HeaderWeatherConfig option \<Rightarrow> string \<Rightarrow> HeaderWeatherPoller \<Rightarrow> HeaderWeatherPoller" where
  "hp_Start weatherCfg timezone p0 =
     (let p = (if hp_running p0 then hp_stopLocked p0 else p0) in
      case weatherCfg of
        None \<Rightarrow> p
      | Some _ \<Rightarrow> p\<lparr>hp_weatherCfg := weatherCfg, hp_timezone := (if timezone = [] then ''UTC'' else timezone), hp_running := True\<rparr>)"

definition hp_Stop :: "HeaderWeatherPoller \<Rightarrow> HeaderWeatherPoller" where
  "hp_Stop p = hp_stopLocked p"

definition hp_UpdateConfig :: "HeaderWeatherConfig option \<Rightarrow> string \<Rightarrow> HeaderWeatherPoller \<Rightarrow> HeaderWeatherPoller" where
  "hp_UpdateConfig weatherCfg timezone p = hp_Start weatherCfg timezone p"

subsection \<open>Publishing\<close>

definition syncStateSink :: "WidgetPayload \<Rightarrow> ProviderCoordinator \<Rightarrow> ProviderCoordinator" where
  "syncStateSink p c = c\<lparr>pc_sink := map_option (\<lambda>s. s\<lparr>sk_widgets := (sk_widgets s)(wp_WidgetID p \<mapsto> p),
     sk_providers := GetStatusMap (pc_cache c)\<rparr>) (pc_sink c)\<rparr>"

definition broadcastUpdate :: "provider_env \<Rightarrow> WidgetPayload \<Rightarrow> ProviderCoordinator \<Rightarrow> ProviderCoordinator" where
  "broadcastUpdate env p c =
     c\<lparr>pc_hub := map_option (\<lambda>ps. if pe_marshals env p then ps @ [p] else ps) (pc_hub c)\<rparr>"

definition syncAndBroadcast :: "provider_env \<Rightarrow> WidgetPayload \<Rightarrow> ProviderCoordinator \<Rightarrow> ProviderCoordinator" where
  "syncAndBroadcast env p c = broadcastUpdate env p (syncStateSink p c)"

definition set_cache :: "SWRCache \<Rightarrow> ProviderCoordinator \<Rightarrow> ProviderCoordinator" where
  "set_cache k c = c\<lparr>pc_cache := k\<rparr>"

definition recordColdBootError :: "provider_env \<Rightarrow> string \<Rightarrow> string \<Rightarrow> ProviderCoordinator \<Rightarrow> ProviderCoordinator" where
  "recordColdBootError env widgetID err c =
     (let (now, c1) = reading env c;
          ((payload, _), k) = RecordFailure widgetID err now (pc_cache c1)
      in syncAndBroadcast env payload (set_cache k c1))"

subsection \<open>Starting and stopping workers\<close>

definition resolveProviderName :: "WidgetConfig \<Rightarrow> Snapshot option \<Rightarrow> string" where
  "resolveProviderName w snap =
     (case snap of
        None \<Rightarrow> wc_Type w
      | Some s \<Rightarrow> (case sn_Packages s (wc_Type w) of
          None \<Rightarrow> wc_Type w
        | Some pkg \<Rightarrow> if wm_Provider (pk_Manifest pkg) \<noteq> [] then wm_Provider (pk_Manifest pkg) else wc_Type w))"

definition resolveInterval :: "WidgetConfig \<Rightarrow> Package option \<Rightarrow> duration" where
  "resolveInterval w pkg =
     (if derefOr (wc_RefreshIntervalSeconds w) 0 > 0 then seconds (the (wc_RefreshIntervalSeconds w))
      else case pkg of
        None \<Rightarrow> 60 * second
      | Some p \<Rightarrow> if mr_IntervalSeconds (wm_Refresh (pk_Manifest p)) > 0
          then seconds (mr_IntervalSeconds (wm_Refresh (pk_Manifest p))) else 60 * second)"

definition buildProviderConfig :: "WidgetConfig \<Rightarrow> any_map" where
  "buildProviderConfig w = derefOr (wc_Config w) []"

definition snapshot_timezone :: "Snapshot option \<Rightarrow> string option" where
  "snapshot_timezone s = (case s of None \<Rightarrow> None | Some s' \<Rightarrow> map_option cf_Timezone (sn_Config s'))"

definition buildInitOptions :: "WidgetConfig \<Rightarrow> Package option \<Rightarrow> Snapshot option \<Rightarrow> ProviderCoordinator \<Rightarrow> InitOptions" where
  "buildInitOptions w pkg snap c =
     (let meth = (if wc_Method w = [] \<and> wc_Endpoint w \<noteq> [] then ''POST'' else wc_Method w);
          secrets0 = wc_Secrets w;
          sec = derefOr (secrets0 ''token'') [];
          (token, secrets) =
            (if wc_Token w = [] \<and> sec \<noteq> [] then (sec, secrets0)
             else if wc_Token w \<noteq> [] \<and> sec = [] then (wc_Token w, secrets0(''token'' \<mapsto> wc_Token w))
             else (wc_Token w, secrets0));
          tz = (case snapshot_timezone snap of
                  Some z \<Rightarrow> z
                | None \<Rightarrow> derefOr (snapshot_timezone (pc_snapshot c)) [])
      in \<lparr>io_ID = wc_ID w, io_Type = wc_Type w, io_Dimensions = derefOr (wc_Dimensions w) [], io_Endpoint = wc_Endpoint w,
          io_Method = meth, io_Token = token, io_Timezone = tz, io_Secrets = secrets,
          io_ResponseSchema = (case pkg of None \<Rightarrow> None | Some p \<Rightarrow> wm_ResponseSchema (pk_Manifest p))\<rparr>)"

text \<open>Widgets with nothing to fetch.\<close>

definition static_widget :: "WidgetConfig \<Rightarrow> string \<Rightarrow> bool" where
  "static_widget w providerName \<longleftrightarrow> wc_Type w = ''spacer'' \<or> providerName = ''spacer'' \<or> providerName = ''chat-log''
     \<or> providerName = ''live-view'' \<or> wc_Type w = ''live-view''"

definition startSingleWorkerLocked ::
    "provider_env \<Rightarrow> WidgetConfig \<Rightarrow> Snapshot \<Rightarrow> ProviderCoordinator \<Rightarrow> ProviderCoordinator" where
  "startSingleWorkerLocked env w snap c =
     (let providerName = resolveProviderName w (Some snap);
          pkg = sn_Packages snap (wc_Type w) in
      if static_widget w providerName then
        let (now, c1) = reading env c;
            ((payload, _), k) = RecordSuccess (wc_ID w) (JObj []) now (pc_cache c1)
        in syncAndBroadcast env payload (set_cache k c1)
      else case pe_Create env providerName of
        Inl err \<Rightarrow> recordColdBootError env (wc_ID w) err c
      | Inr p \<Rightarrow> (case pe_Init env p (buildProviderConfig w) (buildInitOptions w pkg (Some snap) c) of
          Inl err \<Rightarrow> recordColdBootError env (wc_ID w) err c
        | Inr p' \<Rightarrow>
            let wrk = \<lparr>wk_widgetID = wc_ID w, wk_widgetType = wc_Type w, wk_provider = p',
                       wk_interval = resolveInterval w pkg, wk_refresh = False, wk_stopped = False\<rparr>
            in c\<lparr>pc_store := pc_store c @ [wrk], pc_workers := (pc_workers c)(wc_ID w \<mapsto> length (pc_store c))\<rparr>))"

definition startWorkersLocked :: "provider_env \<Rightarrow> Config \<Rightarrow> Snapshot \<Rightarrow> ProviderCoordinator \<Rightarrow> ProviderCoordinator" where
  "startWorkersLocked env cfg snap c =
     foldl (\<lambda>c w. startSingleWorkerLocked env w snap c) c (dc_Widgets (cf_Display cfg))"

definition mark_stopped :: "nat \<Rightarrow> worker list \<Rightarrow> worker list" where
  "mark_stopped i ws = (if i < length ws then ws[i := (ws ! i)\<lparr>wk_stopped := True\<rparr>] else ws)"

definition stopWorkerLocked :: "string \<Rightarrow> ProviderCoordinator \<Rightarrow> ProviderCoordinator" where
  "stopWorkerLocked widgetID c =
     (case pc_workers c widgetID of
        None \<Rightarrow> c
      | Some i \<Rightarrow> c\<lparr>pc_workers := (pc_workers c)(widgetID := None), pc_store := mark_stopped i (pc_store c)\<rparr>)"

subsection \<open>Results of workers\<close>

datatype fetch_result = FetchOk json | FetchError string bool

text \<open>
  The end of \<^verbatim>\<open>fetchAndRecord\<close>, when the fetch of a worker has returned. The second argument of an error says whether it is
  a cancellation. The part up to the cache and the part that publishes are separate, since no lock spans them; the first gives the payload
  and whether it is to be broadcast.
\<close>

definition fetch_record :: "provider_env \<Rightarrow> nat \<Rightarrow> fetch_result \<Rightarrow> ProviderCoordinator
    \<Rightarrow> (WidgetPayload \<times> bool) option \<times> ProviderCoordinator" where
  "fetch_record env i res c =
     (let w = pc_store c ! i in
      if wk_stopped w then (None, c)
      else case res of
        FetchOk data \<Rightarrow>
          let (now, c1) = reading env c;
              ((payload, _), k) = RecordSuccess (wk_widgetID w) data now (pc_cache c1)
          in (Some (payload, True), set_cache k c1)
      | FetchError err canceled \<Rightarrow>
          if canceled then (None, c)
          else let (now, c1) = reading env c;
                   ((payload, transitioned), k) = RecordFailure (wk_widgetID w) err now (pc_cache c1)
               in (Some (payload, transitioned), set_cache k c1))"

definition fetch_publish :: "provider_env \<Rightarrow> (WidgetPayload \<times> bool) option \<Rightarrow> ProviderCoordinator \<Rightarrow> ProviderCoordinator" where
  "fetch_publish env r c =
     (case r of
        None \<Rightarrow> c
      | Some (payload, send) \<Rightarrow> if send then broadcastUpdate env payload (syncStateSink payload c) else syncStateSink payload c)"

definition fetchAndRecord :: "provider_env \<Rightarrow> nat \<Rightarrow> fetch_result \<Rightarrow> ProviderCoordinator \<Rightarrow> ProviderCoordinator" where
  "fetchAndRecord env i res c = (let (r, c') = fetch_record env i res c in fetch_publish env r c')"

definition isWorkerActiveLocked :: "nat \<Rightarrow> string \<Rightarrow> ProviderCoordinator \<Rightarrow> bool" where
  "isWorkerActiveLocked i widgetID c \<longleftrightarrow> \<not> wk_stopped (pc_store c ! i) \<and> pc_workers c widgetID = Some i"

definition recordWorkerPush ::
    "provider_env \<Rightarrow> nat \<Rightarrow> WidgetPayload \<Rightarrow> ProviderCoordinator \<Rightarrow> WidgetPayload option \<times> ProviderCoordinator" where
  "recordWorkerPush env i payload c =
     (if wk_stopped (pc_store c ! i) then (None, c)
      else if \<not> isWorkerActiveLocked i (wp_WidgetID payload) c then (None, c)
      else let (now, c1) = reading env c;
               ((p, _), k) = RecordPush (wp_WidgetID payload) (wp_Data payload) now (pc_cache c1)
           in (Some p, syncStateSink p (set_cache k c1)))"

text \<open>A push of a worker on its way through the two channels: it is stamped with the worker's widget, recorded and broadcast.\<close>

definition listenEventSink :: "provider_env \<Rightarrow> nat \<Rightarrow> WidgetPayload \<Rightarrow> ProviderCoordinator \<Rightarrow> ProviderCoordinator" where
  "listenEventSink env i payload c =
     (case recordWorkerPush env i (payload\<lparr>wp_WidgetID := wk_widgetID (pc_store c ! i)\<rparr>) c of
        (None, c') \<Rightarrow> c'
      | (Some p, c') \<Rightarrow> broadcastUpdate env p c')"

subsection \<open>Construction, reconfiguration and shutdown\<close>

definition NewProviderCoordinator ::
    "provider_env \<Rightarrow> bool \<Rightarrow> bool \<Rightarrow> Store option \<Rightarrow> Snapshot option \<Rightarrow> ProviderCoordinator" where
  "NewProviderCoordinator env sink hub chat initialSnapshot =
     (let c = \<lparr>pc_store = [], pc_workers = Map.empty, pc_cache = NewSWRCache, pc_snapshot = initialSnapshot, pc_stopped = False,
              pc_sink = (if sink then Some \<lparr>sk_widgets = Map.empty, sk_providers = Map.empty\<rparr> else None),
              pc_hub = (if hub then Some [] else None), pc_chatLog = chat,
              pc_header = \<lparr>hp_weatherCfg = None, hp_timezone = [], hp_running = False\<rparr>, pc_readings = 0\<rparr> in
      case initialSnapshot of
        None \<Rightarrow> c
      | Some snap \<Rightarrow> (case sn_Config snap of
          None \<Rightarrow> c
        | Some cfg \<Rightarrow>
            startWorkersLocked env cfg snap
              (case hc_Weather (dc_Header (cf_Display cfg)) of
                 None \<Rightarrow> c
               | Some wcfg \<Rightarrow> c\<lparr>pc_header := hp_Start (Some wcfg) (cf_Timezone cfg) (pc_header c)\<rparr>)))"

datatype update_error = CoordinatorStopped | NilSnapshot

definition remove_widget :: "WidgetConfig \<Rightarrow> ProviderCoordinator \<Rightarrow> ProviderCoordinator" where
  "remove_widget w c = (let c1 = stopWorkerLocked (wc_ID w) c in set_cache (Purge (wc_ID w) (pc_cache c1)) c1)"

definition modify_widget :: "provider_env \<Rightarrow> Snapshot \<Rightarrow> InstanceDiff \<Rightarrow> ProviderCoordinator \<Rightarrow> ProviderCoordinator" where
  "modify_widget env snap m c =
     (let c1 = stopWorkerLocked (id_ID m) c;
          c2 = (if id_DomainChange m then
                  let (now, c') = reading env (set_cache (Purge (id_ID m) (pc_cache c1)) c1)
                  in syncAndBroadcast env \<lparr>wp_WidgetID = id_ID m, wp_Timestamp = rfc3339 now, wp_State = StateDegraded, wp_Data = JObj []\<rparr> c'
                else c1)
      in startSingleWorkerLocked env (id_NewInstance m) snap c2)"

definition restart_widget :: "provider_env \<Rightarrow> Snapshot \<Rightarrow> WidgetConfig \<Rightarrow> ProviderCoordinator \<Rightarrow> ProviderCoordinator" where
  "restart_widget env snap u c = startSingleWorkerLocked env u snap (remove_widget u c)"

definition pc_UpdateConfig ::
    "provider_env \<Rightarrow> Snapshot option \<Rightarrow> ProviderCoordinator \<Rightarrow> update_error option \<times> ProviderCoordinator" where
  "pc_UpdateConfig env snapshot c =
     (if pc_stopped c then (Some CoordinatorStopped, c)
      else case snapshot of
        None \<Rightarrow> (Some NilSnapshot, c)
      | Some snap \<Rightarrow> (case sn_Config snap of
          None \<Rightarrow> (Some NilSnapshot, c)
        | Some cfg \<Rightarrow>
            let oldCfg = (case pc_snapshot c of None \<Rightarrow> None | Some s \<Rightarrow> sn_Config s);
                diff = (case oldCfg of
                    Some old \<Rightarrow> DiffConfigs (Some old) (Some cfg)
                  | None \<Rightarrow> empty_diff\<lparr>cd_Added := dc_Widgets (cf_Display cfg)\<rparr>);
                c0 = c\<lparr>pc_snapshot := Some snap\<rparr>;
                c1 = foldl (\<lambda>c w. remove_widget w c) c0 (cd_Removed diff);
                c2 = (if cd_Removed diff \<noteq> []
                      then c1\<lparr>pc_sink := map_option (\<lambda>s. s\<lparr>sk_providers := GetStatusMap (pc_cache c1)\<rparr>) (pc_sink c1)\<rparr> else c1);
                c3 = foldl (\<lambda>c m. modify_widget env snap m c) c2 (cd_Modified diff);
                c4 = (if cd_TimezoneChanged diff then foldl (\<lambda>c u. restart_widget env snap u c) c3 (cd_Unchanged diff) else c3);
                c5 = foldl (\<lambda>c w. startSingleWorkerLocked env w snap c) c4 (cd_Added diff);
                wcfg = hc_Weather (dc_Header (cf_Display cfg))
            in (None, c5\<lparr>pc_header := (if wcfg \<noteq> None then hp_UpdateConfig wcfg (cf_Timezone cfg) (pc_header c5) else hp_Stop (pc_header c5))\<rparr>)))"

text \<open>Both \<^verbatim>\<open>Stop\<close> and \<^verbatim>\<open>Shutdown\<close>; waiting for the workers changes nothing more. A worker is only ever registered under its own
  widget.\<close>

definition Shutdown :: "ProviderCoordinator \<Rightarrow> ProviderCoordinator" where
  "Shutdown c =
     (if pc_stopped c then c
      else c\<lparr>pc_stopped := True, pc_header := hp_Stop (pc_header c), pc_workers := Map.empty,
             pc_store := map (\<lambda>(i, w). if pc_workers c (wk_widgetID w) = Some i then w\<lparr>wk_stopped := True\<rparr> else w) (enumerate 0 (pc_store c))\<rparr>)"

subsection \<open>Reading and refreshing\<close>

definition pc_GetWidgetState :: "string \<Rightarrow> ProviderCoordinator \<Rightarrow> (json \<times> string \<times> string) option" where
  "pc_GetWidgetState widgetID c = map_option (\<lambda>p. (wp_Data p, wp_State p, wp_Timestamp p)) (cache_Get widgetID (pc_cache c))"

definition pc_GetWidgetTimestamp :: "string \<Rightarrow> ProviderCoordinator \<Rightarrow> string option" where
  "pc_GetWidgetTimestamp widgetID c =
     (case cache_Get widgetID (pc_cache c) of
        None \<Rightarrow> None
      | Some p \<Rightarrow> if wp_Timestamp p \<noteq> [] then Some (wp_Timestamp p) else None)"

definition RefreshWidget :: "string \<Rightarrow> ProviderCoordinator \<Rightarrow> bool \<times> ProviderCoordinator" where
  "RefreshWidget widgetID c =
     (case pc_workers c widgetID of
        None \<Rightarrow> (False, c)
      | Some i \<Rightarrow> (True, c\<lparr>pc_store := (pc_store c)[i := (pc_store c ! i)\<lparr>wk_refresh := True\<rparr>]\<rparr>))"

text \<open>The order in which a map is ranged over is unspecified; it is an argument, as is what the provider answers.\<close>

fun list_match :: "string \<Rightarrow> worker \<Rightarrow> bool" where
  "list_match listID w = (case wk_provider w of TasksProvider l \<Rightarrow> wk_widgetID w = listID \<or> l = listID | _ \<Rightarrow> False)"

datatype call_error = ErrListNotFound | ErrCallWidgetNotFound string | CallFailed string | NoWorker string

definition CompleteListItem ::
    "nat list \<Rightarrow> string option \<Rightarrow> string \<Rightarrow> string \<Rightarrow> ProviderCoordinator \<Rightarrow> call_error option \<times> ProviderCoordinator" where
  "CompleteListItem order answer listID itemID c =
     (case find (\<lambda>i. list_match listID (pc_store c ! i)) order of
        None \<Rightarrow> (Some ErrListNotFound, c)
      | Some i \<Rightarrow> (case answer of
          Some err \<Rightarrow> (Some (CallFailed err), c)
        | None \<Rightarrow> let wid = wk_widgetID (pc_store c ! i);
                      (found, c') = RefreshWidget wid c in
                  (if found then None else Some (NoWorker wid), c')))"

definition action_worker :: "nat list \<Rightarrow> string \<Rightarrow> ProviderCoordinator \<Rightarrow> nat option" where
  "action_worker order widgetID c =
     (case pc_workers c widgetID of
        Some i \<Rightarrow> if wk_provider (pc_store c ! i) = HomeAssistantProvider then Some i
                  else find (\<lambda>j. wk_provider (pc_store c ! j) = HomeAssistantProvider \<and> wk_widgetID (pc_store c ! j) = widgetID) order
      | None \<Rightarrow> find (\<lambda>j. wk_provider (pc_store c ! j) = HomeAssistantProvider \<and> wk_widgetID (pc_store c ! j) = widgetID) order)"

definition CallWidgetActionWithResponse ::
    "nat list \<Rightarrow> string + json \<Rightarrow> string \<Rightarrow> ProviderCoordinator \<Rightarrow> (call_error + json) \<times> ProviderCoordinator" where
  "CallWidgetActionWithResponse order answer widgetID c =
     (case action_worker order widgetID c of
        None \<Rightarrow> (Inl (ErrCallWidgetNotFound widgetID), c)
      | Some i \<Rightarrow> (case answer of
          Inl err \<Rightarrow> (Inl (CallFailed err), c)
        | Inr res \<Rightarrow> (Inr res, snd (RefreshWidget (wk_widgetID (pc_store c ! i)) c))))"

subsection \<open>Pushed data\<close>

datatype push_failure =
    ErrWidgetNotFound string
  | PushStopped
  | ErrListWidgetPushForbidden string
  | ErrNonHTTPWidgetPushForbidden string string
  | ErrSchemaValidation "push_error option"
  | ErrPhotoPushNotSupported string
  | PhotosRejected string

definition PushUpdate :: "provider_env \<Rightarrow> string \<Rightarrow> json \<Rightarrow> ProviderCoordinator \<Rightarrow> WidgetPayload \<times> ProviderCoordinator" where
  "PushUpdate env widgetID data c =
     (let (now, c1) = reading env c;
          ((payload, _), k) = RecordPush widgetID data now (pc_cache c1)
      in (payload, syncAndBroadcast env payload (set_cache k c1)))"

definition snapshot_widgets :: "Snapshot option \<Rightarrow> WidgetConfig list" where
  "snapshot_widgets s = (case s of None \<Rightarrow> [] | Some s' \<Rightarrow> (case sn_Config s' of None \<Rightarrow> [] | Some cfg \<Rightarrow> dc_Widgets (cf_Display cfg)))"

definition validateResponseSchema :: "provider_env \<Rightarrow> any_map option \<Rightarrow> (string \<times> json) list \<Rightarrow> bool" where
  "validateResponseSchema env schemaMap data \<longleftrightarrow> derefOr schemaMap [] = [] \<or> pe_schema env (derefOr schemaMap []) data"

definition package_of :: "Snapshot option \<Rightarrow> string \<Rightarrow> Package option" where
  "package_of s t = (case s of None \<Rightarrow> None | Some s' \<Rightarrow> sn_Packages s' t)"

text \<open>The checks of a push, in order.\<close>

definition push_allowed :: "provider_env \<Rightarrow> string \<Rightarrow> (string \<times> json) list \<Rightarrow> ProviderCoordinator
    \<Rightarrow> push_failure + WidgetConfig" where
  "push_allowed env widgetID data c =
     (if pc_stopped c then Inl PushStopped
      else case find (\<lambda>w. wc_ID w = widgetID) (snapshot_widgets (pc_snapshot c)) of
        None \<Rightarrow> Inl (ErrWidgetNotFound widgetID)
      | Some w \<Rightarrow>
          let providerName = resolveProviderName w (pc_snapshot c) in
          if wc_Type w = ''tasks'' \<or> providerName = ''tasks'' then Inl (ErrListWidgetPushForbidden widgetID)
          else if providerName \<noteq> ''http'' \<and> providerName \<noteq> ''chat-log''
          then Inl (ErrNonHTTPWidgetPushForbidden widgetID providerName)
          else case package_of (pc_snapshot c) (wc_Type w) of
            Some pkg \<Rightarrow> if validateResponseSchema env (wm_ResponseSchema (pk_Manifest pkg)) data then Inr w else Inl (ErrSchemaValidation None)
          | None \<Rightarrow> Inr w)"

text \<open>A transcript pushed to a chat-log widget becomes the widget's own conversation in the message store.\<close>

definition push_chat :: "provider_env \<Rightarrow> string \<Rightarrow> string \<Rightarrow> (string \<times> json) list \<Rightarrow> ProviderCoordinator
    \<Rightarrow> push_error + ProviderCoordinator" where
  "push_chat env providerName widgetID data c =
     (case (providerName = ''chat-log'', pc_chatLog c) of
        (True, Some log) \<Rightarrow> res_bind (ParsePush (pe_parse env) data) (\<lambda>msgs.
          let (now, c1) = reading env c
          in Inr (c1\<lparr>pc_chatLog := Some (Replace now (WidgetKey widgetID) msgs log)\<rparr>))
      | _ \<Rightarrow> Inr c)"

definition recordPushLocked :: "provider_env \<Rightarrow> string \<Rightarrow> (string \<times> json) list \<Rightarrow> ProviderCoordinator
    \<Rightarrow> (push_failure + WidgetPayload) \<times> ProviderCoordinator" where
  "recordPushLocked env widgetID data c =
     (case push_allowed env widgetID data c of
        Inl e \<Rightarrow> (Inl e, c)
      | Inr w \<Rightarrow> (case push_chat env (resolveProviderName w (pc_snapshot c)) widgetID data c of
          Inl e \<Rightarrow> (Inl (ErrSchemaValidation (Some e)), c)
        | Inr c1 \<Rightarrow>
            let (now, c2) = reading env c1;
                ((p, _), k) = RecordPush widgetID (JObj data) now (pc_cache c2)
            in (Inr p, syncStateSink p (set_cache k c2))))"

definition PushWidgetData :: "provider_env \<Rightarrow> string \<Rightarrow> (string \<times> json) list \<Rightarrow> ProviderCoordinator
    \<Rightarrow> (push_failure + WidgetPayload) \<times> ProviderCoordinator" where
  "PushWidgetData env widgetID data c =
     (if TrimSpace widgetID = [] then (Inl (ErrWidgetNotFound []), c)
      else case recordPushLocked env widgetID data c of
        (Inl e, c') \<Rightarrow> (Inl e, c')
      | (Inr p, c') \<Rightarrow> (Inr p, broadcastUpdate env p c'))"

text \<open>A push of photos, with the answer of \<^verbatim>\<open>IngestPushedPhotos\<close> as an argument.\<close>

definition recordPhotoPushLocked :: "provider_env \<Rightarrow> string \<Rightarrow> string + json \<Rightarrow> ProviderCoordinator
    \<Rightarrow> (push_failure + WidgetPayload) \<times> ProviderCoordinator" where
  "recordPhotoPushLocked env widgetID ingest c =
     (if pc_stopped c then (Inl PushStopped, c)
      else if find (\<lambda>w. wc_ID w = widgetID) (snapshot_widgets (pc_snapshot c)) = None then (Inl (ErrWidgetNotFound widgetID), c)
      else case pc_workers c widgetID of
        None \<Rightarrow> (Inl (ErrWidgetNotFound widgetID), c)
      | Some i \<Rightarrow> (case wk_provider (pc_store c ! i) of
          PhotosProvider _ \<Rightarrow> (case ingest of
              Inl e \<Rightarrow> (Inl (PhotosRejected e), c)
            | Inr snap \<Rightarrow>
                let (now, c1) = reading env c;
                    ((p, _), k) = RecordPush widgetID snap now (pc_cache c1)
                in (Inr p, syncStateSink p (set_cache k c1)))
        | _ \<Rightarrow> (Inl (ErrPhotoPushNotSupported widgetID), c)))"

definition PushWidgetPhotos :: "provider_env \<Rightarrow> string \<Rightarrow> string + json \<Rightarrow> ProviderCoordinator
    \<Rightarrow> (push_failure + WidgetPayload) \<times> ProviderCoordinator" where
  "PushWidgetPhotos env widgetID ingest c =
     (if TrimSpace widgetID = [] then (Inl (ErrWidgetNotFound []), c)
      else case recordPhotoPushLocked env widgetID ingest c of
        (Inl e, c') \<Rightarrow> (Inl e, c')
      | (Inr p, c') \<Rightarrow> (Inr p, broadcastUpdate env p c'))"

end
