(* ===== verification/Provider_Coordinator_Props.thy ===== *)
theory Provider_Coordinator_Props
  imports Provider_Coordinator
begin

text \<open>
  The workers are those of the configured widgets, and clients are shown what the cache holds.
\<close>

section \<open>Invariants\<close>

text \<open>Each registered worker runs and serves the widget it is registered for, and no other worker runs. The set bounds the widgets
  that may have a worker or cached data.\<close>

definition workers_inv :: "ProviderCoordinator \<Rightarrow> bool" where
  "workers_inv c \<longleftrightarrow>
     (\<forall>i n. pc_workers c i = Some n \<longrightarrow> n < length (pc_store c) \<and> wk_widgetID (pc_store c ! n) = i \<and> \<not> wk_stopped (pc_store c ! n))
     \<and> (\<forall>n < length (pc_store c). \<not> wk_stopped (pc_store c ! n) \<longrightarrow> pc_workers c (wk_widgetID (pc_store c ! n)) = Some n)"

definition within :: "string set \<Rightarrow> ProviderCoordinator \<Rightarrow> bool" where
  "within S c \<longleftrightarrow> dom (pc_workers c) \<subseteq> S \<and> dom (pc_cache c) \<subseteq> S"

definition last_sent :: "string \<Rightarrow> WidgetPayload list \<Rightarrow> WidgetPayload option" where
  "last_sent i ps = find (\<lambda>p. wp_WidgetID p = i) (rev ps)"

definition same_view :: "WidgetPayload \<Rightarrow> WidgetPayload \<Rightarrow> bool" where
  "same_view p q \<longleftrightarrow> wp_State p = wp_State q \<and> wp_Data p = wp_Data q"

text \<open>The sink holds the cached payload, and the last one broadcast has its state and data.\<close>

definition shown_inv :: "ProviderCoordinator \<Rightarrow> bool" where
  "shown_inv c \<longleftrightarrow> (\<forall>i e. pc_cache c i = Some e \<longrightarrow> ce_widgetID e = i \<and> (ce_hasLKG e \<or> ce_data e \<noteq> JNull)
     \<and> (case pc_sink c of None \<Rightarrow> True | Some s \<Rightarrow> sk_widgets s i = Some (toPayload e))
     \<and> (case pc_hub c of None \<Rightarrow> True | Some ps \<Rightarrow> (\<exists>p. last_sent i ps = Some p \<and> same_view p (toPayload e))))"

definition pc_inv :: "string set \<Rightarrow> ProviderCoordinator \<Rightarrow> bool" where
  "pc_inv S c \<longleftrightarrow> workers_inv c \<and> within S c \<and> shown_inv c"

lemma pc_inv_mono: "pc_inv S c \<Longrightarrow> S \<subseteq> T \<Longrightarrow> pc_inv T c"
  by (auto simp: pc_inv_def within_def)

lemma last_sent_snoc [simp]: "last_sent i (ps @ [p]) = (if wp_WidgetID p = i then Some p else last_sent i ps)"
  by (simp add: last_sent_def)

lemma toPayload_id [simp]: "wp_WidgetID (toPayload e) = ce_widgetID e"
  by (simp add: toPayload_def)

lemma same_view_refl [simp]: "same_view p p"
  by (simp add: same_view_def)

section \<open>Recording and publishing\<close>

text \<open>What the coordinator relies on of an operation that records the outcome of a fetch or a push: it changes the entry of its
  widget and returns the new entry's payload.\<close>

locale cache_recording =
  fixes rec :: "string \<Rightarrow> 'r \<Rightarrow> gotime \<Rightarrow> SWRCache \<Rightarrow> (WidgetPayload \<times> bool) \<times> SWRCache"
  assumes rec_entry: "(\<And>j e. k j = Some e \<Longrightarrow> ce_widgetID e = j) \<Longrightarrow>
    \<exists>e. snd (rec i r now k) = k(i \<mapsto> e) \<and> fst (fst (rec i r now k)) = toPayload e \<and> ce_widgetID e = i
      \<and> (ce_hasLKG e \<or> ce_data e \<noteq> JNull)"
begin

definition record_and_send :: "provider_env \<Rightarrow> string \<Rightarrow> 'r \<Rightarrow> ProviderCoordinator \<Rightarrow> ProviderCoordinator" where
  "record_and_send env i r c = (let (now, c1) = reading env c; ((p, _), k) = rec i r now (pc_cache c1)
     in syncAndBroadcast env p (set_cache k c1))"

lemma record_and_send_inv:
  assumes "pc_inv S c" "i \<in> S" "\<forall>p. pe_marshals env p"
  shows "pc_inv S (record_and_send env i r c)"
proof -
  have "\<And>j e. pc_cache c j = Some e \<Longrightarrow> ce_widgetID e = j" using assms(1) by (simp add: pc_inv_def shown_inv_def)
  then obtain e where e: "snd (rec i r (pe_now env (pc_readings c)) (pc_cache c)) = (pc_cache c)(i \<mapsto> e)"
    "fst (fst (rec i r (pe_now env (pc_readings c)) (pc_cache c))) = toPayload e" "ce_widgetID e = i"
    "ce_hasLKG e \<or> ce_data e \<noteq> JNull"
    using rec_entry [of "pc_cache c" i r] by blast
  have "record_and_send env i r c = syncAndBroadcast env (toPayload e)
      (set_cache ((pc_cache c)(i \<mapsto> e)) (c\<lparr>pc_readings := pc_readings c + 1\<rparr>))"
    by (simp add: record_and_send_def reading_def case_prod_unfold e)
  then show ?thesis using assms e(3,4)
    by (auto simp: pc_inv_def workers_inv_def within_def shown_inv_def syncAndBroadcast_def syncStateSink_def broadcastUpdate_def
        set_cache_def split: option.splits)
qed

end

lemma RecordSuccess_entry:
  assumes "\<And>j e. k j = Some e \<Longrightarrow> ce_widgetID e = j"
  shows "\<exists>e. snd (RecordSuccess i d now k) = k(i \<mapsto> e) \<and> fst (fst (RecordSuccess i d now k)) = toPayload e \<and> ce_widgetID e = i
    \<and> (ce_hasLKG e \<or> ce_data e \<noteq> JNull)"
proof -
  have "ce_widgetID (entry i k) = i" using assms by (simp add: entry_def fresh_entry_def split: option.split)
  then show ?thesis by (simp add: RecordSuccess_def Let_def) (intro exI conjI, rule refl, simp_all)
qed

interpretation success: cache_recording RecordSuccess
  by unfold_locales (rule RecordSuccess_entry)

interpretation push: cache_recording RecordPush
  by unfold_locales (simp add: RecordPush_def RecordSuccess_entry)

text \<open>The entry after a failure.\<close>

definition failed_entry :: "string \<Rightarrow> gotime \<Rightarrow> cacheEntry \<Rightarrow> cacheEntry" where
  "failed_entry err now e = e\<lparr>ce_lastAttempt := now, ce_consecutiveFailures := ce_consecutiveFailures e + 1, ce_lastError := Some err,
     ce_state := (if ce_hasLKG e then StateDegraded else StateFailed),
     ce_data := (if ce_hasLKG e \<or> ce_data e \<noteq> JNull then ce_data e else JObj []),
     ce_timestamp := (if ce_hasLKG e then ce_timestamp e else rfc3339 now)\<rparr>"

lemma RecordFailure_eq:
  "RecordFailure i err now k = ((toPayload (failed_entry err now (entry i k)),
     ce_state (entry i k) \<noteq> ce_state (failed_entry err now (entry i k))), k(i \<mapsto> failed_entry err now (entry i k)))"
  by (simp add: RecordFailure_def failed_entry_def Let_def)

lemma failed_entry_fields [simp]:
  "ce_widgetID (failed_entry err now e) = ce_widgetID e" "ce_hasLKG (failed_entry err now e) = ce_hasLKG e"
  "ce_hasLKG e \<or> ce_data (failed_entry err now e) \<noteq> JNull"
  by (simp_all add: failed_entry_def)

interpretation failure: cache_recording RecordFailure
proof unfold_locales
  fix k :: SWRCache and i err now
  assume "\<And>j e. k j = Some e \<Longrightarrow> ce_widgetID e = j"
  then have "ce_widgetID (entry i k) = i" by (simp add: entry_def fresh_entry_def split: option.split)
  then show "\<exists>e. snd (RecordFailure i err now k) = k(i \<mapsto> e) \<and> fst (fst (RecordFailure i err now k)) = toPayload e \<and> ce_widgetID e = i
      \<and> (ce_hasLKG e \<or> ce_data e \<noteq> JNull)"
    unfolding RecordFailure_eq by (intro exI [of _ "failed_entry err now (entry i k)"]) simp
qed

text \<open>A failure that is no transition leaves the state and data of its widget as they were.\<close>

lemma failed_entry_quiet:
  assumes "ce_state e = ce_state (failed_entry err now e)" "ce_hasLKG e \<or> ce_data e \<noteq> JNull"
  shows "same_view p (toPayload (failed_entry err now e)) = same_view p (toPayload e)"
  using assms by (auto simp: failed_entry_def same_view_def toPayload_def split: if_splits)

section \<open>Single operations\<close>

text \<open>Workers are only ever added and stopped, and each keeps its widget.\<close>

definition later :: "ProviderCoordinator \<Rightarrow> ProviderCoordinator \<Rightarrow> bool" where
  "later c c' \<longleftrightarrow> length (pc_store c) \<le> length (pc_store c') \<and> (\<forall>n < length (pc_store c).
     wk_widgetID (pc_store c' ! n) = wk_widgetID (pc_store c ! n) \<and> (wk_stopped (pc_store c ! n) \<longrightarrow> wk_stopped (pc_store c' ! n)))"

lemma later_refl [simp]: "later c c"
  by (simp add: later_def)

lemma later_trans [trans]: "later a b \<Longrightarrow> later b c \<Longrightarrow> later a c"
  by (auto simp: later_def)

lemma later_same_store: "pc_store c' = pc_store c \<Longrightarrow> later c c'"
  by (simp add: later_def)

text \<open>What an operation on other widgets leaves alone.\<close>

definition untouched :: "string \<Rightarrow> ProviderCoordinator \<Rightarrow> ProviderCoordinator \<Rightarrow> bool" where
  "untouched i c c' \<longleftrightarrow> pc_workers c' i = pc_workers c i \<and> pc_cache c' i = pc_cache c i"

lemma untouched_refl [simp]: "untouched i c c"
  by (simp add: untouched_def)

lemma untouched_trans: "untouched i a b \<Longrightarrow> untouched i b c \<Longrightarrow> untouched i a c"
  by (simp add: untouched_def)

lemma provider_publish_fields [simp]:
  "pc_store (syncStateSink p c) = pc_store c" "pc_workers (syncStateSink p c) = pc_workers c" "pc_cache (syncStateSink p c) = pc_cache c"
  "pc_stopped (syncStateSink p c) = pc_stopped c" "pc_snapshot (syncStateSink p c) = pc_snapshot c"
  "pc_store (broadcastUpdate env p c) = pc_store c" "pc_workers (broadcastUpdate env p c) = pc_workers c"
  "pc_cache (broadcastUpdate env p c) = pc_cache c" "pc_stopped (broadcastUpdate env p c) = pc_stopped c"
  "pc_snapshot (broadcastUpdate env p c) = pc_snapshot c"
  "pc_store (set_cache k c) = pc_store c" "pc_workers (set_cache k c) = pc_workers c" "pc_cache (set_cache k c) = k"
  "pc_stopped (set_cache k c) = pc_stopped c" "pc_snapshot (set_cache k c) = pc_snapshot c"
  by (simp_all add: syncStateSink_def broadcastUpdate_def set_cache_def)

context cache_recording
begin

lemma record_and_send_fields [simp]:
  "pc_store (record_and_send env i r c) = pc_store c" "pc_workers (record_and_send env i r c) = pc_workers c"
  "pc_stopped (record_and_send env i r c) = pc_stopped c" "pc_snapshot (record_and_send env i r c) = pc_snapshot c"
  by (simp_all add: record_and_send_def reading_def syncAndBroadcast_def case_prod_unfold Let_def)

lemma record_and_send_untouched:
  assumes "pc_inv S c" "j \<noteq> i"
  shows "untouched j c (record_and_send env i r c)"
proof -
  have "\<And>j e. pc_cache c j = Some e \<Longrightarrow> ce_widgetID e = j" using assms(1) by (simp add: pc_inv_def shown_inv_def)
  then obtain e where "snd (rec i r (pe_now env (pc_readings c)) (pc_cache c)) = (pc_cache c)(i \<mapsto> e)"
    using rec_entry [of "pc_cache c" i r] by blast
  then show ?thesis using assms(2)
    by (simp add: untouched_def record_and_send_def reading_def syncAndBroadcast_def case_prod_unfold Let_def)
qed

end

lemma stop_fields [simp]:
  "pc_cache (stopWorkerLocked i c) = pc_cache c" "pc_sink (stopWorkerLocked i c) = pc_sink c" "pc_hub (stopWorkerLocked i c) = pc_hub c"
  "pc_workers (stopWorkerLocked i c) = (pc_workers c)(i := None)"
  "pc_stopped (stopWorkerLocked i c) = pc_stopped c" "pc_snapshot (stopWorkerLocked i c) = pc_snapshot c"
  by (auto simp: stopWorkerLocked_def fun_eq_iff split: option.split)

lemma mark_stopped_nth:
  "length (mark_stopped n ws) = length ws"
  "m < length ws \<Longrightarrow> mark_stopped n ws ! m = (if m = n then (ws ! m)\<lparr>wk_stopped := True\<rparr> else ws ! m)"
  by (simp_all add: mark_stopped_def nth_list_update)

lemma stop_later: "later c (stopWorkerLocked i c)"
  by (auto simp: later_def stopWorkerLocked_def mark_stopped_nth split: option.split)

lemma stop_stops: "pc_workers c i = Some n \<Longrightarrow> n < length (pc_store c) \<Longrightarrow> wk_stopped (pc_store (stopWorkerLocked i c) ! n)"
  by (simp add: stopWorkerLocked_def mark_stopped_nth)

lemma stop_inv:
  assumes "pc_inv S c"
  shows "pc_inv S (stopWorkerLocked i c)"
proof (cases "pc_workers c i")
  case (Some n)
  have w: "workers_inv c" using assms by (simp add: pc_inv_def)
  then have n: "n < length (pc_store c)" "wk_widgetID (pc_store c ! n) = i" using Some by (simp_all add: workers_inv_def)
  have "workers_inv (stopWorkerLocked i c)" unfolding workers_inv_def
  proof (intro conjI allI impI)
    fix j m assume "pc_workers (stopWorkerLocked i c) j = Some m"
    then have jm: "j \<noteq> i" "pc_workers c j = Some m" by (auto split: if_splits)
    then have "m < length (pc_store c)" "wk_widgetID (pc_store c ! m) = j" "\<not> wk_stopped (pc_store c ! m)"
      using w by (simp_all add: workers_inv_def)
    moreover have "m \<noteq> n" using n jm(1) calculation(2) by auto
    ultimately show "m < length (pc_store (stopWorkerLocked i c))" "wk_widgetID (pc_store (stopWorkerLocked i c) ! m) = j"
      "\<not> wk_stopped (pc_store (stopWorkerLocked i c) ! m)"
      by (simp_all add: stopWorkerLocked_def Some mark_stopped_nth)
  next
    fix m assume "m < length (pc_store (stopWorkerLocked i c))" "\<not> wk_stopped (pc_store (stopWorkerLocked i c) ! m)"
    then have m: "m < length (pc_store c)" "m \<noteq> n" "\<not> wk_stopped (pc_store c ! m)"
      by (auto simp: stopWorkerLocked_def Some mark_stopped_nth split: if_splits)
    then have "pc_workers c (wk_widgetID (pc_store c ! m)) = Some m" using w by (simp add: workers_inv_def)
    moreover from this have "wk_widgetID (pc_store c ! m) \<noteq> i" using Some m(2) by auto
    ultimately show "pc_workers (stopWorkerLocked i c) (wk_widgetID (pc_store (stopWorkerLocked i c) ! m)) = Some m"
      using m by (simp add: stopWorkerLocked_def Some mark_stopped_nth)
  qed
  then show ?thesis using assms by (auto simp: pc_inv_def within_def shown_inv_def)
qed (use assms in \<open>simp add: stopWorkerLocked_def\<close>)

lemma recordColdBootError_eq: "recordColdBootError env i err c = failure.record_and_send env i err c"
  by (simp add: recordColdBootError_def failure.record_and_send_def)

definition add_worker :: "worker \<Rightarrow> ProviderCoordinator \<Rightarrow> ProviderCoordinator" where
  "add_worker w c = c\<lparr>pc_store := pc_store c @ [w], pc_workers := (pc_workers c)(wk_widgetID w \<mapsto> length (pc_store c))\<rparr>"

lemma start_cases:
  obtains "startSingleWorkerLocked env w snap c = success.record_and_send env (wc_ID w) (JObj []) c"
  | err where "startSingleWorkerLocked env w snap c = failure.record_and_send env (wc_ID w) err c"
  | wrk where "startSingleWorkerLocked env w snap c = add_worker wrk c" "wk_widgetID wrk = wc_ID w" "\<not> wk_stopped wrk"
proof (cases "static_widget w (resolveProviderName w (Some snap))")
  case True
  then show thesis by (intro that(1)) (simp add: startSingleWorkerLocked_def Let_def success.record_and_send_def)
next
  case static: False
  note start = startSingleWorkerLocked_def Let_def recordColdBootError_eq
  show thesis
  proof (cases "pe_Create env (resolveProviderName w (Some snap))")
    case (Inl err)
    then show thesis by (intro that(2)) (simp add: start static)
  next
    case create: (Inr p)
    show thesis
    proof (cases "pe_Init env p (buildProviderConfig w) (buildInitOptions w (sn_Packages snap (wc_Type w)) (Some snap) c)")
      case (Inl err)
      then show thesis by (intro that(2)) (simp add: start static create)
    next
      case (Inr p')
      show thesis
        by (rule that(3) [of "\<lparr>wk_widgetID = wc_ID w, wk_widgetType = wc_Type w, wk_provider = p',
          wk_interval = resolveInterval w (sn_Packages snap (wc_Type w)), wk_refresh = False, wk_stopped = False\<rparr>"])
          (simp_all add: start static create Inr add_worker_def)
    qed
  qed
qed

lemma add_worker_inv:
  assumes "pc_inv S c" "pc_workers c (wk_widgetID w) = None" "\<not> wk_stopped w"
  shows "pc_inv (insert (wk_widgetID w) S) (add_worker w c)"
proof -
  have w: "workers_inv c" using assms(1) by (simp add: pc_inv_def)
  have "pc_workers c (wk_widgetID (pc_store c ! n)) = Some n" if "n < length (pc_store c)" "\<not> wk_stopped (pc_store c ! n)" for n
    using w that by (simp add: workers_inv_def)
  then have "wk_stopped (pc_store c ! n)" if "n < length (pc_store c)" "wk_widgetID (pc_store c ! n) = wk_widgetID w" for n
    using that assms(2) by fastforce
  then have "workers_inv (add_worker w c)"
    using w assms(2,3) by (auto simp: workers_inv_def add_worker_def nth_append less_Suc_eq split: if_splits)
  then show ?thesis using assms(1) by (auto simp: pc_inv_def within_def shown_inv_def add_worker_def)
qed

lemma start_inv:
  assumes "pc_inv S c" "pc_workers c (wc_ID w) = None" "\<forall>p. pe_marshals env p"
  shows "pc_inv (insert (wc_ID w) S) (startSingleWorkerLocked env w snap c)"
proof (rule start_cases [of env w snap c])
  have S: "pc_inv (insert (wc_ID w) S) c" using assms(1) by (rule pc_inv_mono) blast
  show ?thesis if "startSingleWorkerLocked env w snap c = success.record_and_send env (wc_ID w) (JObj []) c"
    unfolding that using S assms(3) by (intro success.record_and_send_inv) simp_all
  show ?thesis if "startSingleWorkerLocked env w snap c = failure.record_and_send env (wc_ID w) err c" for err
    unfolding that using S assms(3) by (intro failure.record_and_send_inv) simp_all
  show ?thesis if "startSingleWorkerLocked env w snap c = add_worker wrk c" "wk_widgetID wrk = wc_ID w" "\<not> wk_stopped wrk" for wrk
    using add_worker_inv [OF assms(1), of wrk] assms(2) that by simp
qed

lemma start_effect:
  assumes "pc_inv S c"
  shows "later c (startSingleWorkerLocked env w snap c)" "i \<noteq> wc_ID w \<Longrightarrow> untouched i c (startSingleWorkerLocked env w snap c)"
    "pc_workers (startSingleWorkerLocked env w snap c) (wc_ID w) \<in> {pc_workers c (wc_ID w), Some (length (pc_store c))}"
    "pc_stopped (startSingleWorkerLocked env w snap c) = pc_stopped c" "pc_snapshot (startSingleWorkerLocked env w snap c) = pc_snapshot c"
  by (rule start_cases [of env w snap c];
    simp add: later_same_store success.record_and_send_untouched [OF assms] failure.record_and_send_untouched [OF assms];
    auto simp: later_def untouched_def add_worker_def nth_append)+

lemma remove_inv: "pc_inv S c \<Longrightarrow> pc_inv (S - {wc_ID w}) (remove_widget w c)"
  using stop_inv [of S c "wc_ID w"]
  by (auto simp: remove_widget_def Let_def pc_inv_def workers_inv_def within_def shown_inv_def set_cache_def Purge_def split: if_splits)

lemma remove_effect:
  "later c (remove_widget w c)" "i \<noteq> wc_ID w \<Longrightarrow> untouched i c (remove_widget w c)"
  "pc_workers (remove_widget w c) (wc_ID w) = None" "pc_cache (remove_widget w c) (wc_ID w) = None"
  "pc_stopped (remove_widget w c) = pc_stopped c" "pc_snapshot (remove_widget w c) = pc_snapshot c"
  using stop_later [of c "wc_ID w"] by (simp_all add: remove_widget_def Let_def untouched_def Purge_def later_def)

section \<open>Reconfiguration\<close>

text \<open>What an operation on the widgets of a set may do.\<close>

definition effect_on :: "string set \<Rightarrow> ProviderCoordinator \<Rightarrow> ProviderCoordinator \<Rightarrow> bool" where
  "effect_on I c c' \<longleftrightarrow> later c c' \<and> (\<forall>i. i \<notin> I \<longrightarrow> untouched i c c') \<and> pc_stopped c' = pc_stopped c \<and> pc_snapshot c' = pc_snapshot c
     \<and> (\<forall>i n. pc_workers c' i = Some n \<longrightarrow> pc_workers c i = Some n \<or> length (pc_store c) \<le> n)"

lemma effect_refl [simp]: "effect_on I c c"
  by (simp add: effect_on_def)

lemma effect_trans:
  assumes "effect_on I a b" "effect_on J b c"
  shows "effect_on (I \<union> J) a c"
proof -
  have len: "length (pc_store a) \<le> length (pc_store b)" and l: "later a c"
    using assms later_trans [of a b c] by (simp_all add: effect_on_def later_def)
  have "untouched i a c" if "i \<notin> I \<union> J" for i using assms that untouched_trans [of i a b c] by (simp add: effect_on_def)
  moreover have "pc_workers a i = Some n \<or> length (pc_store a) \<le> n" if "pc_workers c i = Some n" for i n
  proof -
    from that assms(2) have "pc_workers b i = Some n \<or> length (pc_store b) \<le> n" by (simp add: effect_on_def)
    then show ?thesis using assms(1) len by (auto simp: effect_on_def)
  qed
  ultimately show ?thesis using assms l by (simp add: effect_on_def)
qed

lemma effect_mono: "effect_on I a b \<Longrightarrow> I \<subseteq> J \<Longrightarrow> effect_on J a b"
  unfolding effect_on_def by blast

lemma effect_same: "effect_on I a b \<Longrightarrow> effect_on I b c \<Longrightarrow> effect_on I a c"
  using effect_trans [of I a b I c] by simp

definition retired :: "string \<Rightarrow> ProviderCoordinator \<Rightarrow> ProviderCoordinator \<Rightarrow> bool" where
  "retired i c c' \<longleftrightarrow> (\<forall>n. pc_workers c i = Some n \<longrightarrow> wk_stopped (pc_store c' ! n))"

lemma retired_later: "pc_inv S c \<Longrightarrow> retired i c c' \<Longrightarrow> later c c' \<Longrightarrow> later c' c'' \<Longrightarrow> retired i c c''"
  by (auto simp: retired_def later_def pc_inv_def workers_inv_def) (meson less_le_trans)

lemma start_effect_on:
  assumes "pc_inv S c"
  shows "effect_on {wc_ID w} c (startSingleWorkerLocked env w snap c)"
proof -
  have "pc_workers c i = Some n \<or> length (pc_store c) \<le> n" if "pc_workers (startSingleWorkerLocked env w snap c) i = Some n" for i n
    using start_effect(2) [OF assms, of i w env snap] start_effect(3) [OF assms, of env w snap] that
    by (cases "i = wc_ID w") (auto simp: untouched_def)
  then show ?thesis using start_effect(1,2,4,5) [OF assms] by (simp add: effect_on_def)
qed

lemma stop_effect_on: "effect_on {i} c (stopWorkerLocked i c)"
  using stop_later [of c i] by (simp add: effect_on_def untouched_def)

lemma stop_retires: "pc_inv S c \<Longrightarrow> retired i c (stopWorkerLocked i c)"
  by (auto simp: retired_def pc_inv_def workers_inv_def intro: stop_stops)

lemma remove_effect_on: "effect_on {wc_ID w} c (remove_widget w c)"
  using stop_later [of c "wc_ID w"] by (auto simp: effect_on_def untouched_def remove_widget_def Let_def Purge_def later_def)

lemma remove_retires: "pc_inv S c \<Longrightarrow> retired (wc_ID w) c (remove_widget w c)"
  using stop_retires [of S c "wc_ID w"] by (simp add: retired_def remove_widget_def Let_def)

lemma restart_widget_ok:
  assumes "pc_inv S c" "\<forall>p. pe_marshals env p"
  shows "pc_inv (insert (wc_ID w) S) (restart_widget env snap w c)" "effect_on {wc_ID w} c (restart_widget env snap w c)"
    "retired (wc_ID w) c (restart_widget env snap w c)"
proof -
  note r = remove_inv [OF assms(1), of w]
  show "pc_inv (insert (wc_ID w) S) (restart_widget env snap w c)"
    using start_inv [OF r _ assms(2), of w snap] remove_effect(3) [of w c] by (simp add: restart_widget_def)
  show "effect_on {wc_ID w} c (restart_widget env snap w c)"
    unfolding restart_widget_def using remove_effect_on start_effect_on [OF r] by (rule effect_same)
  show "retired (wc_ID w) c (restart_widget env snap w c)" unfolding restart_widget_def
    by (rule retired_later [OF assms(1) remove_retires [OF assms(1)] remove_effect(1) start_effect(1) [OF r]])
qed

lemma notify_inv:
  assumes "pc_inv S c" "pc_cache c (wp_WidgetID p) = None" "\<forall>p. pe_marshals env p"
  shows "pc_inv S (syncAndBroadcast env p c)"
proof -
  have "shown_inv (syncAndBroadcast env p c)" unfolding shown_inv_def
  proof (intro allI impI)
    fix i e assume "pc_cache (syncAndBroadcast env p c) i = Some e"
    then have e: "pc_cache c i = Some e" by (simp add: syncAndBroadcast_def)
    moreover have "i \<noteq> wp_WidgetID p" using assms(2) e by auto
    ultimately show "ce_widgetID e = i \<and> (ce_hasLKG e \<or> ce_data e \<noteq> JNull)
     \<and> (case pc_sink (syncAndBroadcast env p c) of None \<Rightarrow> True | Some s \<Rightarrow> sk_widgets s i = Some (toPayload e))
     \<and> (case pc_hub (syncAndBroadcast env p c) of None \<Rightarrow> True
        | Some ps \<Rightarrow> (\<exists>p. last_sent i ps = Some p \<and> same_view p (toPayload e)))"
      using assms(1,3)
      by (auto simp: pc_inv_def shown_inv_def syncAndBroadcast_def syncStateSink_def broadcastUpdate_def split: option.splits)
  qed
  then show ?thesis using assms(1) by (auto simp: pc_inv_def workers_inv_def within_def syncAndBroadcast_def)
qed

lemma reading_fields [simp]:
  "pc_store (snd (reading env c)) = pc_store c" "pc_workers (snd (reading env c)) = pc_workers c" "pc_cache (snd (reading env c)) = pc_cache c"
  "pc_stopped (snd (reading env c)) = pc_stopped c" "pc_snapshot (snd (reading env c)) = pc_snapshot c" "pc_inv S (snd (reading env c)) = pc_inv S c"
  by (simp_all add: reading_def pc_inv_def workers_inv_def within_def shown_inv_def)

lemma modify_widget_ok:
  assumes "pc_inv S c" "\<forall>p. pe_marshals env p" "id_ID m = wc_ID (id_NewInstance m)"
  shows "pc_inv (insert (id_ID m) S) (modify_widget env snap m c)" "effect_on {id_ID m} c (modify_widget env snap m c)"
    "retired (id_ID m) c (modify_widget env snap m c)"
proof -
  define c1 where "c1 = stopWorkerLocked (id_ID m) c"
  define c2 where "c2 = (if id_DomainChange m then
      syncAndBroadcast env \<lparr>wp_WidgetID = id_ID m, wp_Timestamp = rfc3339 (fst (reading env (set_cache (Purge (id_ID m) (pc_cache c1)) c1))),
        wp_State = StateDegraded, wp_Data = JObj []\<rparr> (snd (reading env (set_cache (Purge (id_ID m) (pc_cache c1)) c1))) else c1)"
  have m: "modify_widget env snap m c = startSingleWorkerLocked env (id_NewInstance m) snap c2"
    by (simp add: modify_widget_def c1_def c2_def Let_def case_prod_unfold)
  have i1: "pc_inv S c1" unfolding c1_def by (rule stop_inv [OF assms(1)])
  have "pc_inv S (set_cache (Purge (id_ID m) (pc_cache c1)) c1)"
    using i1 by (auto simp: pc_inv_def workers_inv_def within_def shown_inv_def set_cache_def Purge_def split: if_splits)
  then have i2: "pc_inv S c2" using i1 assms(2) by (simp add: c2_def notify_inv Purge_def)
  have none: "pc_workers c2 (id_ID m) = None" by (simp add: c2_def c1_def syncAndBroadcast_def)
  have e2: "effect_on {id_ID m} c c2" using stop_effect_on [of "id_ID m" c]
    by (auto simp: c2_def c1_def effect_on_def untouched_def later_def Purge_def syncAndBroadcast_def)
  have r2: "retired (id_ID m) c c2" using stop_retires [OF assms(1)] by (simp add: retired_def c2_def c1_def syncAndBroadcast_def)
  show "pc_inv (insert (id_ID m) S) (modify_widget env snap m c)"
    using start_inv [OF i2 _ assms(2), of "id_NewInstance m" snap] none by (simp add: m assms(3))
  show "effect_on {id_ID m} c (modify_widget env snap m c)"
    unfolding m using e2 start_effect_on [OF i2] by (metis assms(3) effect_same)
  show "retired (id_ID m) c (modify_widget env snap m c)"
    unfolding m using retired_later [OF assms(1) r2 _ start_effect(1) [OF i2]] e2 by (simp add: effect_on_def)
qed

lemma retired_unregistered:
  assumes "pc_inv S c" "pc_inv T c'" "later c c'" "\<And>n. pc_workers c i = Some n \<Longrightarrow> pc_workers c' i \<noteq> Some n"
  shows "retired i c c'"
  unfolding retired_def
proof (intro allI impI)
  fix n assume n: "pc_workers c i = Some n"
  then have "n < length (pc_store c)" "wk_widgetID (pc_store c ! n) = i" using assms(1) by (simp_all add: pc_inv_def workers_inv_def)
  then have "n < length (pc_store c')" "wk_widgetID (pc_store c' ! n) = i" using assms(3) by (simp_all add: later_def)
  then show "wk_stopped (pc_store c' ! n)" using assms(2) assms(4) [OF n] by (auto simp: pc_inv_def workers_inv_def)
qed

lemma retired_step:
  assumes "pc_inv S c" "pc_inv T c1" "later c c1" "later c1 c2" "retired i c1 c2"
  shows "retired i c c2"
  unfolding retired_def
proof (intro allI impI)
  fix n assume n: "pc_workers c i = Some n"
  show "wk_stopped (pc_store c2 ! n)"
  proof (cases "pc_workers c1 i = Some n")
    case False
    then have "retired i c c1" using n by (intro retired_unregistered [OF assms(1-3)]) auto
    from retired_later [OF assms(1) this assms(3,4)] n show ?thesis by (simp add: retired_def)
  qed (use assms(5) in \<open>simp add: retired_def\<close>)
qed

text \<open>A loop of operations, each on a widget of its own, that retire the workers of these widgets.\<close>

lemma fold_renew:
  assumes "pc_inv S c" "\<And>c x. x \<in> set xs \<Longrightarrow> pc_inv S c \<Longrightarrow> pc_inv S (f x c) \<and> effect_on {key x} c (f x c) \<and> retired (key x) c (f x c)"
  shows "pc_inv S (foldl (\<lambda>c x. f x c) c xs) \<and> effect_on (key ` set xs) c (foldl (\<lambda>c x. f x c) c xs)
    \<and> (\<forall>x \<in> set xs. retired (key x) c (foldl (\<lambda>c x. f x c) c xs))"
  using assms
proof (induction xs arbitrary: c)
  case (Cons x xs)
  have x: "pc_inv S (f x c)" "effect_on {key x} c (f x c)" "retired (key x) c (f x c)" using Cons.prems by simp_all
  have ih: "pc_inv S (foldl (\<lambda>c x. f x c) (f x c) xs)" "effect_on (key ` set xs) (f x c) (foldl (\<lambda>c x. f x c) (f x c) xs)"
    "\<forall>y \<in> set xs. retired (key y) (f x c) (foldl (\<lambda>c x. f x c) (f x c) xs)"
    using Cons.IH [OF x(1)] Cons.prems(2) by simp_all
  have l: "later c (f x c)" "later (f x c) (foldl (\<lambda>c x. f x c) (f x c) xs)" using x(2) ih(2) by (simp_all add: effect_on_def)
  show ?case
    using effect_trans [OF x(2) ih(2)] ih retired_later [OF Cons.prems(1) x(3) l] retired_step [OF Cons.prems(1) x(1) l]
    by simp
qed simp

lemma fold_remove_inv: "pc_inv S c \<Longrightarrow> pc_inv (S - wc_ID ` set ws) (foldl (\<lambda>c w. remove_widget w c) c ws)"
proof (induction ws arbitrary: S c)
  case (Cons w ws)
  from Cons.IH [OF remove_inv [OF Cons.prems, of w]] show ?case by (simp flip: Diff_insert2)
qed simp

lemma fold_start:
  assumes "pc_inv S c" "distinct (map wc_ID ws)" "\<forall>w \<in> set ws. pc_workers c (wc_ID w) = None" "\<forall>p. pe_marshals env p"
  shows "pc_inv (S \<union> wc_ID ` set ws) (foldl (\<lambda>c w. startSingleWorkerLocked env w snap c) c ws)
    \<and> effect_on (wc_ID ` set ws) c (foldl (\<lambda>c w. startSingleWorkerLocked env w snap c) c ws)"
  using assms
proof (induction ws arbitrary: S c)
  case (Cons w ws)
  let ?c = "startSingleWorkerLocked env w snap c"
  have i: "pc_inv (insert (wc_ID w) S) ?c" using Cons.prems by (intro start_inv) simp_all
  have "pc_workers ?c (wc_ID v) = None" if "v \<in> set ws" for v
  proof -
    have "wc_ID v \<noteq> wc_ID w" using Cons.prems(2) that by (metis distinct.simps(2) image_eqI list.simps(9) set_map)
    then have "untouched (wc_ID v) c ?c" by (rule start_effect(2) [OF Cons.prems(1)])
    then show ?thesis using Cons.prems(3) that by (simp add: untouched_def)
  qed
  then have ih: "pc_inv (insert (wc_ID w) S \<union> wc_ID ` set ws) (foldl (\<lambda>c w. startSingleWorkerLocked env w snap c) ?c ws)"
    "effect_on (wc_ID ` set ws) ?c (foldl (\<lambda>c w. startSingleWorkerLocked env w snap c) ?c ws)"
    using Cons.IH [OF i] Cons.prems by simp_all
  show ?case using ih(1) effect_trans [OF start_effect_on [OF Cons.prems(1)] ih(2)] by simp
qed simp

definition widget_ids :: "Snapshot option \<Rightarrow> string set" where
  "widget_ids s = wc_ID ` set (snapshot_widgets s)"

definition apply_diff :: "provider_env \<Rightarrow> Snapshot \<Rightarrow> ConfigDiff \<Rightarrow> ProviderCoordinator \<Rightarrow> ProviderCoordinator" where
  "apply_diff env snap diff c0 =
     (let c1 = foldl (\<lambda>c w. remove_widget w c) c0 (cd_Removed diff);
          c2 = (if cd_Removed diff \<noteq> []
                then c1\<lparr>pc_sink := map_option (\<lambda>s. s\<lparr>sk_providers := GetStatusMap (pc_cache c1)\<rparr>) (pc_sink c1)\<rparr> else c1);
          c3 = foldl (\<lambda>c m. modify_widget env snap m c) c2 (cd_Modified diff);
          c4 = (if cd_TimezoneChanged diff then foldl (\<lambda>c u. restart_widget env snap u c) c3 (cd_Unchanged diff) else c3)
      in foldl (\<lambda>c w. startSingleWorkerLocked env w snap c) c4 (cd_Added diff))"

text \<open>The widgets a diff gives a new worker.\<close>

definition renewed :: "ConfigDiff \<Rightarrow> string set" where
  "renewed diff = wc_ID ` set (cd_Removed diff) \<union> id_ID ` set (cd_Modified diff)
     \<union> (if cd_TimezoneChanged diff then wc_ID ` set (cd_Unchanged diff) else {})"

lemma providers_status_inv:
  "pc_inv S (c\<lparr>pc_sink := map_option (\<lambda>s. s\<lparr>sk_providers := x\<rparr>) (pc_sink c)\<rparr>) = pc_inv S c"
  by (cases "pc_sink c") (simp_all add: pc_inv_def workers_inv_def within_def shown_inv_def)

lemma apply_diff_ok:
  assumes inv: "pc_inv S c" and ms: "\<forall>p. pe_marshals env p"
    and mods: "\<forall>m \<in> set (cd_Modified diff). id_ID m = wc_ID (id_NewInstance m) \<and> id_ID m \<in> S - wc_ID ` set (cd_Removed diff)"
    and unch: "wc_ID ` set (cd_Unchanged diff) \<subseteq> S - wc_ID ` set (cd_Removed diff)"
    and added: "distinct (map wc_ID (cd_Added diff))" "wc_ID ` set (cd_Added diff) \<inter> S = {}"
  shows "pc_inv (S - wc_ID ` set (cd_Removed diff) \<union> wc_ID ` set (cd_Added diff)) (apply_diff env snap diff c)
    \<and> effect_on (renewed diff \<union> wc_ID ` set (cd_Added diff)) c (apply_diff env snap diff c)
    \<and> (\<forall>i \<in> renewed diff. retired i c (apply_diff env snap diff c))"
proof -
  let ?R = "wc_ID ` set (cd_Removed diff)" and ?A = "wc_ID ` set (cd_Added diff)"
  define c1 where "c1 = foldl (\<lambda>c w. remove_widget w c) c (cd_Removed diff)"
  define c2 where "c2 = (if cd_Removed diff \<noteq> []
    then c1\<lparr>pc_sink := map_option (\<lambda>s. s\<lparr>sk_providers := GetStatusMap (pc_cache c1)\<rparr>) (pc_sink c1)\<rparr> else c1)"
  define c3 where "c3 = foldl (\<lambda>c m. modify_widget env snap m c) c2 (cd_Modified diff)"
  define c4 where "c4 = (if cd_TimezoneChanged diff then foldl (\<lambda>c u. restart_widget env snap u c) c3 (cd_Unchanged diff) else c3)"
  define c5 where "c5 = foldl (\<lambda>c w. startSingleWorkerLocked env w snap c) c4 (cd_Added diff)"
  have c5: "apply_diff env snap diff c = c5" by (simp add: apply_diff_def c1_def c2_def c3_def c4_def c5_def Let_def)
  have "pc_inv S (remove_widget w c)" if "pc_inv S c" for w c using remove_inv [OF that] by (rule pc_inv_mono) blast
  from fold_renew [OF inv, where f = remove_widget and key = wc_ID] this remove_effect_on remove_retires
  have s1: "effect_on ?R c c1" "\<forall>i \<in> ?R. retired i c c1" unfolding c1_def by blast+
  have i1: "pc_inv (S - ?R) c1" unfolding c1_def by (rule fold_remove_inv [OF inv])
  have i2: "pc_inv (S - ?R) c2" using i1 unfolding c2_def by (cases "cd_Removed diff = []") (simp_all add: providers_status_inv)
  have s2: "effect_on ?R c c2" "\<forall>i \<in> ?R. retired i c c2" using s1 by (simp_all add: c2_def effect_on_def retired_def later_def untouched_def)
  have mod: "pc_inv (S - ?R) (modify_widget env snap m c) \<and> effect_on {id_ID m} c (modify_widget env snap m c)
      \<and> retired (id_ID m) c (modify_widget env snap m c)" if "m \<in> set (cd_Modified diff)" "pc_inv (S - ?R) c" for m c
  proof -
    have "id_ID m \<in> S - ?R" using mods that(1) by (metis (no_types, lifting))
    then have "insert (id_ID m) (S - ?R) = S - ?R" by (rule insert_absorb)
    then show ?thesis using modify_widget_ok [OF that(2) ms, of m snap] mods that(1) by simp
  qed
  have s3: "pc_inv (S - ?R) c3" "effect_on (id_ID ` set (cd_Modified diff)) c2 c3" "\<forall>m \<in> set (cd_Modified diff). retired (id_ID m) c2 c3"
    using fold_renew [where f = "modify_widget env snap" and key = id_ID and xs = "cd_Modified diff", OF i2 mod] by (simp_all add: c3_def)
  have res: "pc_inv (S - ?R) (restart_widget env snap u c) \<and> effect_on {wc_ID u} c (restart_widget env snap u c)
      \<and> retired (wc_ID u) c (restart_widget env snap u c)" if "u \<in> set (cd_Unchanged diff)" "pc_inv (S - ?R) c" for u c
  proof -
    have "insert (wc_ID u) (S - ?R) = S - ?R" using unch that(1) by (intro insert_absorb) blast
    then show ?thesis using restart_widget_ok [OF that(2) ms, of u snap] by simp
  qed
  let ?U = "if cd_TimezoneChanged diff then wc_ID ` set (cd_Unchanged diff) else {}"
  have s4: "pc_inv (S - ?R) c4" "effect_on ?U c3 c4" "\<forall>i \<in> ?U. retired i c3 c4"
    using fold_renew [where f = "restart_widget env snap" and key = wc_ID and xs = "cd_Unchanged diff", OF s3(1) res] s3(1)
    by (cases "cd_TimezoneChanged diff"; simp add: c4_def)+
  have "pc_workers c4 (wc_ID w) = None" if "w \<in> set (cd_Added diff)" for w
  proof -
    have "wc_ID w \<notin> S - ?R" using added(2) that by blast
    then show ?thesis using s4(1) by (auto simp: pc_inv_def within_def)
  qed
  then have s5: "pc_inv (S - ?R \<union> ?A) c5" "effect_on ?A c4 c5"
    using fold_start [OF s4(1) added(1) _ ms] unfolding c5_def by blast+
  have "effect_on (?R \<union> id_ID ` set (cd_Modified diff) \<union> ?U \<union> ?A) c c5"
    by (rule effect_trans [OF effect_trans [OF effect_trans [OF s2(1) s3(2)] s4(2)] s5(2)])
  moreover have "retired i c c5" if "i \<in> renewed diff" for i
  proof -
    have l: "later c c2" "later c2 c3" "later c3 c4" "later c4 c5" using s2 s3 s4 s5 by (simp_all add: effect_on_def)
    note l' = later_trans [OF l(1,2)] later_trans [OF l(2) later_trans [OF l(3,4)]] later_trans [OF l(3,4)]
    consider "i \<in> ?R" | "i \<in> id_ID ` set (cd_Modified diff)" | "i \<in> ?U" using \<open>i \<in> renewed diff\<close> unfolding renewed_def by blast
    then show ?thesis
    proof cases
      case 1
      then show ?thesis using retired_later [OF inv _ l(1) l'(2)] s2(2) by blast
    next
      case 2
      then have "retired i c2 c3" using s3(3) by blast
      then show ?thesis by (rule retired_later [OF inv retired_step [OF inv i2 l(1,2)] l'(1,3)])
    next
      case 3
      then have "retired i c3 c4" using s4(3) by blast
      then show ?thesis by (rule retired_later [OF inv retired_step [OF inv s3(1) l'(1) l(3)] later_trans [OF l'(1) l(3)] l(4)])
    qed
  qed
  ultimately show ?thesis using s5(1) unfolding c5 renewed_def by blast
qed

text \<open>What a diff of two configurations, or of none and one, amounts to.\<close>

definition snapshot_config :: "Snapshot option \<Rightarrow> Config option" where
  "snapshot_config s = (case s of None \<Rightarrow> None | Some s' \<Rightarrow> sn_Config s')"

definition reload_diff :: "Config option \<Rightarrow> Config \<Rightarrow> ConfigDiff" where
  "reload_diff old cfg = (case old of Some a \<Rightarrow> DiffConfigs (Some a) (Some cfg) | None \<Rightarrow> empty_diff\<lparr>cd_Added := dc_Widgets (cf_Display cfg)\<rparr>)"

definition set_header :: "Config \<Rightarrow> ProviderCoordinator \<Rightarrow> ProviderCoordinator" where
  "set_header cfg c = (let wcfg = hc_Weather (dc_Header (cf_Display cfg)) in
     c\<lparr>pc_header := (if wcfg \<noteq> None then hp_UpdateConfig wcfg (cf_Timezone cfg) (pc_header c) else hp_Stop (pc_header c))\<rparr>)"

lemma update_eq:
  assumes "\<not> pc_stopped c" "sn_Config snap = Some cfg"
  shows "pc_UpdateConfig env (Some snap) c
    = (None, set_header cfg (apply_diff env snap (reload_diff (snapshot_config (pc_snapshot c)) cfg) (c\<lparr>pc_snapshot := Some snap\<rparr>)))"
  by (simp add: pc_UpdateConfig_def apply_diff_def reload_diff_def set_header_def snapshot_config_def assms Let_def)

lemma set_header_fields [simp]:
  "pc_store (set_header cfg c) = pc_store c" "pc_workers (set_header cfg c) = pc_workers c" "pc_cache (set_header cfg c) = pc_cache c"
  "pc_stopped (set_header cfg c) = pc_stopped c" "pc_snapshot (set_header cfg c) = pc_snapshot c"
  "pc_inv S (set_header cfg c) = pc_inv S c"
  by (simp_all add: set_header_def Let_def pc_inv_def workers_inv_def within_def shown_inv_def)

lemma snapshot_inv [simp]: "pc_inv S (c\<lparr>pc_snapshot := s\<rparr>) = pc_inv S c"
  by (simp add: pc_inv_def workers_inv_def within_def shown_inv_def)

lemma widget_ids_config: "widget_ids s = (case snapshot_config s of None \<Rightarrow> {} | Some cfg \<Rightarrow> wc_ID ` set (dc_Widgets (cf_Display cfg)))"
  by (simp add: widget_ids_def snapshot_widgets_def snapshot_config_def split: option.split)

lemma reload_diff_ids:
  fixes old :: "Config option" and cfg :: Config
  defines "S \<equiv> (case old of None \<Rightarrow> {} | Some a \<Rightarrow> wc_ID ` set (dc_Widgets (cf_Display a)))"
    and "T \<equiv> wc_ID ` set (dc_Widgets (cf_Display cfg))" and "d \<equiv> reload_diff old cfg"
  shows "wc_ID ` set (cd_Removed d) = S - T" "wc_ID ` set (cd_Added d) = T - S"
    "\<forall>m \<in> set (cd_Modified d). id_ID m = wc_ID (id_NewInstance m) \<and> id_ID m \<in> S \<inter> T" "wc_ID ` set (cd_Unchanged d) \<subseteq> S \<inter> T"
proof -
  have *: "wc_ID ` set (cd_Removed d) = S - T \<and> wc_ID ` set (cd_Added d) = T - S
    \<and> (\<forall>m \<in> set (cd_Modified d). id_ID m = wc_ID (id_NewInstance m) \<and> id_ID m \<in> S \<inter> T) \<and> wc_ID ` set (cd_Unchanged d) \<subseteq> S \<inter> T"
  proof (cases old)
    case None
    then show ?thesis by (simp add: d_def reload_diff_def S_def T_def empty_diff_def)
  next
    case (Some a)
    let ?m = "fst (widgetMap (Some a))"
    have none: "?m i = None \<longleftrightarrow> i \<notin> S" "fst (widgetMap (Some cfg)) i = None \<longleftrightarrow> i \<notin> T" for i
      by (simp_all add: widgetMap_None_iff S_def T_def Some)
    have old: "kept ?m w \<or> changed ?m w \<Longrightarrow> wc_ID w \<in> S" for w
      using none(1) [of "wc_ID w"] by (auto simp: kept_def changed_def split: option.splits)
    have chg: "id_ID (change_of ?m w) = wc_ID w" "id_NewInstance (change_of ?m w) = w" for w
      by (simp_all add: change_of_def mk_diff_def Let_def)
    have d: "d = DiffConfigs (Some a) (Some cfg)" by (simp add: d_def reload_diff_def Some)
    have SS: "S = wc_ID ` set (dc_Widgets (cf_Display a))" by (simp add: S_def Some)
    have "wc_ID ` {w \<in> set (dc_Widgets (cf_Display a)). wc_ID w \<notin> T} = S - T" unfolding SS by blast
    moreover have "wc_ID ` {w \<in> set (dc_Widgets (cf_Display cfg)). wc_ID w \<notin> S} = T - S" unfolding T_def by blast
    moreover have "wc_ID w \<in> T" if "w \<in> set (dc_Widgets (cf_Display cfg))" for w using that by (simp add: T_def)
    ultimately show ?thesis using old by (auto simp: d DiffConfigs_eq none chg)
  qed
  show "wc_ID ` set (cd_Removed d) = S - T" "wc_ID ` set (cd_Added d) = T - S"
    "\<forall>m \<in> set (cd_Modified d). id_ID m = wc_ID (id_NewInstance m) \<and> id_ID m \<in> S \<inter> T" "wc_ID ` set (cd_Unchanged d) \<subseteq> S \<inter> T"
    using * by blast+
qed

lemma reload_added_distinct: "distinct (map wc_ID (dc_Widgets (cf_Display cfg))) \<Longrightarrow> distinct (map wc_ID (cd_Added (reload_diff old cfg)))"
  by (cases old) (simp_all add: reload_diff_def DiffConfigs_eq distinct_map_filter)

lemma update_ok:
  assumes inv: "pc_inv (widget_ids (pc_snapshot c)) c" and ms: "\<forall>p. pe_marshals env p"
    and snap: "sn_Config snap = Some cfg" "distinct (map wc_ID (dc_Widgets (cf_Display cfg)))" and "\<not> pc_stopped c"
    and upd: "pc_UpdateConfig env (Some snap) c = (e, c')"
  defines "d \<equiv> reload_diff (snapshot_config (pc_snapshot c)) cfg"
  shows "e = None" "pc_inv (widget_ids (Some snap)) c'" "later c c'" "pc_snapshot c' = Some snap" "\<not> pc_stopped c'"
    "i \<notin> renewed d \<union> wc_ID ` set (cd_Added d) \<Longrightarrow> untouched i c c'" "i \<in> renewed d \<Longrightarrow> retired i c c'"
proof -
  let ?S = "widget_ids (pc_snapshot c)" and ?T = "widget_ids (Some snap)" and ?c = "c\<lparr>pc_snapshot := Some snap\<rparr>"
  note ids = reload_diff_ids [of "snapshot_config (pc_snapshot c)" cfg, folded d_def widget_ids_config]
  have T: "?T = wc_ID ` set (dc_Widgets (cf_Display cfg))" by (simp add: widget_ids_config snapshot_config_def snap(1))
  note ids' = ids [folded T]
  have set_eq: "?S - wc_ID ` set (cd_Removed d) \<union> wc_ID ` set (cd_Added d) = ?T" unfolding ids'(1,2) by blast
  have r: "e = None" "c' = set_header cfg (apply_diff env snap d ?c)" using upd update_eq [OF assms(5) snap(1), of env] by (simp_all add: d_def)
  have *: "pc_inv ?T (apply_diff env snap d ?c) \<and> effect_on (renewed d \<union> wc_ID ` set (cd_Added d)) ?c (apply_diff env snap d ?c)
      \<and> (\<forall>i \<in> renewed d. retired i ?c (apply_diff env snap d ?c))"
    unfolding set_eq [symmetric]
  proof (rule apply_diff_ok)
    show "pc_inv ?S ?c" "\<forall>p. pe_marshals env p" using inv ms by simp_all
    show "\<forall>m \<in> set (cd_Modified d). id_ID m = wc_ID (id_NewInstance m) \<and> id_ID m \<in> ?S - wc_ID ` set (cd_Removed d)"
      "wc_ID ` set (cd_Unchanged d) \<subseteq> ?S - wc_ID ` set (cd_Removed d)" "wc_ID ` set (cd_Added d) \<inter> ?S = {}"
      using ids'(3,4) unfolding ids'(1,2) by blast+
    show "distinct (map wc_ID (cd_Added d))" unfolding d_def by (rule reload_added_distinct [OF snap(2)])
  qed
  show "e = None" by (rule r(1))
  show "pc_inv ?T c'" using * by (simp add: r(2))
  show "later c c'" "pc_snapshot c' = Some snap" "\<not> pc_stopped c'" using * assms(5) by (simp_all add: r(2) effect_on_def later_def)
  show "untouched i c c'" if "i \<notin> renewed d \<union> wc_ID ` set (cd_Added d)" using * that by (simp add: r(2) effect_on_def untouched_def)
  show "retired i c c'" if "i \<in> renewed d" using * that by (simp add: r(2) retired_def)
qed

section \<open>Every operation\<close>

lemma fetch_cases:
  obtains "fetchAndRecord env n res c = c"
  | d where "\<not> wk_stopped (pc_store c ! n)" "fetchAndRecord env n res c = success.record_and_send env (wk_widgetID (pc_store c ! n)) d c"
  | err where "\<not> wk_stopped (pc_store c ! n)" "fetchAndRecord env n res c = failure.record_and_send env (wk_widgetID (pc_store c ! n)) err c"
  | err e where "\<not> wk_stopped (pc_store c ! n)" "e = failed_entry err (pe_now env (pc_readings c)) (entry (wk_widgetID (pc_store c ! n)) (pc_cache c))"
      "ce_state (entry (wk_widgetID (pc_store c ! n)) (pc_cache c)) = ce_state e"
      "fetchAndRecord env n res c = syncStateSink (toPayload e) (set_cache ((pc_cache c)(wk_widgetID (pc_store c ! n) \<mapsto> e)) (snd (reading env c)))"
proof (cases "wk_stopped (pc_store c ! n)")
  case True
  then show thesis by (intro that(1)) (simp add: fetchAndRecord_def fetch_record_def fetch_publish_def)
next
  case run: False
  show thesis
  proof (cases res)
    case (FetchOk d)
    then show thesis using run by (intro that(2)) (simp_all add: fetchAndRecord_def fetch_record_def fetch_publish_def success.record_and_send_def
        syncAndBroadcast_def case_prod_unfold Let_def)
  next
    case (FetchError err canceled)
    let ?e = "failed_entry err (pe_now env (pc_readings c)) (entry (wk_widgetID (pc_store c ! n)) (pc_cache c))"
    note defs = FetchError run fetchAndRecord_def fetch_record_def fetch_publish_def failure.record_and_send_def syncAndBroadcast_def
      case_prod_unfold Let_def RecordFailure_eq reading_def
    consider "canceled" | "\<not> canceled" "ce_state (entry (wk_widgetID (pc_store c ! n)) (pc_cache c)) \<noteq> ce_state ?e"
      | "\<not> canceled" "ce_state (entry (wk_widgetID (pc_store c ! n)) (pc_cache c)) = ce_state ?e" by blast
    then show thesis
    proof cases
      case 1
      then show thesis by (intro that(1)) (simp add: defs)
    next
      case 2
      then show thesis using run by (intro that(3)) (simp_all add: defs)
    next
      case 3
      then show thesis using run by (intro that(4) [OF _ refl]) (simp_all add: defs)
    qed
  qed
qed

lemma quiet_failure_inv:
  assumes "pc_inv S c" "i \<in> S" "e = failed_entry err now (entry i (pc_cache c))" "ce_state (entry i (pc_cache c)) = ce_state e"
  shows "pc_inv S (syncStateSink (toPayload e) (set_cache ((pc_cache c)(i \<mapsto> e)) (snd (reading env c))))"
proof -
  obtain e0 where e0: "pc_cache c i = Some e0"
    using assms(3,4) by (cases "pc_cache c i") (simp_all add: entry_def fresh_entry_def failed_entry_def provider_states)
  then have ent: "entry i (pc_cache c) = e0" by (simp add: entry_def)
  have shown: "ce_widgetID e0 = i" "ce_hasLKG e0 \<or> ce_data e0 \<noteq> JNull" using assms(1) e0 by (simp_all add: pc_inv_def shown_inv_def)
  then have e: "ce_widgetID e = i" "ce_hasLKG e \<or> ce_data e \<noteq> JNull" using assms(3) by (simp_all add: ent)
  have view: "same_view p (toPayload e) = same_view p (toPayload e0)" for p
    using failed_entry_quiet [of e0 err now p] assms(3,4) shown(2) by (simp add: ent)
  show ?thesis using assms(1,2) e0 e view
    by (auto simp: pc_inv_def workers_inv_def within_def shown_inv_def syncStateSink_def set_cache_def reading_def split: option.splits)
qed

lemma running_in:
  "pc_inv S c \<Longrightarrow> n < length (pc_store c) \<Longrightarrow> \<not> wk_stopped (pc_store c ! n) \<Longrightarrow> wk_widgetID (pc_store c ! n) \<in> S"
  by (auto simp: pc_inv_def workers_inv_def within_def dom_def)

definition keeps :: "ProviderCoordinator \<Rightarrow> ProviderCoordinator \<Rightarrow> bool" where
  "keeps c c' \<longleftrightarrow> later c c' \<and> pc_workers c' = pc_workers c \<and> pc_stopped c' = pc_stopped c \<and> pc_snapshot c' = pc_snapshot c"

lemma fetch_ok:
  assumes "pc_inv S c" "n < length (pc_store c)" "\<forall>p. pe_marshals env p"
  shows "pc_inv S (fetchAndRecord env n res c)" "keeps c (fetchAndRecord env n res c)"
proof -
  note i = running_in [OF assms(1,2)]
  show "pc_inv S (fetchAndRecord env n res c)"
    by (rule fetch_cases [of env n res c])
      (use assms(1,3) i success.record_and_send_inv failure.record_and_send_inv quiet_failure_inv in metis)+
  show "keeps c (fetchAndRecord env n res c)"
    by (rule fetch_cases [of env n res c]) (simp_all add: keeps_def later_same_store)
qed

lemma fetch_stopped: "wk_stopped (pc_store c ! n) \<Longrightarrow> fetchAndRecord env n res c = c"
  by (simp add: fetchAndRecord_def fetch_record_def fetch_publish_def)

lemma listen_eq:
  "listenEventSink env n payload c =
     (if \<not> wk_stopped (pc_store c ! n) \<and> pc_workers c (wk_widgetID (pc_store c ! n)) = Some n
      then push.record_and_send env (wk_widgetID (pc_store c ! n)) (wp_Data payload) c else c)"
  by (simp add: listenEventSink_def recordWorkerPush_def isWorkerActiveLocked_def push.record_and_send_def syncAndBroadcast_def
      case_prod_unfold Let_def)

lemma listen_ok:
  assumes "pc_inv S c" "n < length (pc_store c)" "\<forall>p. pe_marshals env p"
  shows "pc_inv S (listenEventSink env n payload c)" "keeps c (listenEventSink env n payload c)"
  using running_in [OF assms(1,2)] assms push.record_and_send_inv [OF assms(1)]
  by (auto simp: listen_eq keeps_def later_same_store)

lemma PushUpdate_eq: "snd (PushUpdate env i d c) = push.record_and_send env i d c"
  by (simp add: PushUpdate_def push.record_and_send_def case_prod_unfold Let_def)

lemma find_widget: "find (\<lambda>w. wc_ID w = i) (snapshot_widgets s) = Some w \<Longrightarrow> i \<in> widget_ids s"
  unfolding widget_ids_def by (metis (mono_tags, lifting) find_Some_iff image_eqI nth_mem)

text \<open>A coordinator after the chat log of a push was stored: only that log and the clock differ.\<close>

definition same_but_chat :: "ProviderCoordinator \<Rightarrow> ProviderCoordinator \<Rightarrow> bool" where
  "same_but_chat c c' \<longleftrightarrow> (\<exists>log n. c' = c\<lparr>pc_chatLog := log, pc_readings := n\<rparr>)"

lemma push_chat_same:
  assumes "push_chat env name i d c = Inr c'"
  shows "same_but_chat c c'"
proof -
  have "same_but_chat c c" unfolding same_but_chat_def by (intro exI [of _ "pc_chatLog c"] exI [of _ "pc_readings c"]) simp
  moreover have "same_but_chat c (c\<lparr>pc_readings := n, pc_chatLog := log\<rparr>)" for n log
    unfolding same_but_chat_def by (intro exI [of _ log] exI [of _ n]) simp
  ultimately show ?thesis using assms
    by (auto simp: push_chat_def reading_def Let_def split: bool.splits option.splits)
qed

lemma same_but_chat_fields:
  assumes "same_but_chat c c'"
  shows "pc_inv S c' = pc_inv S c" "pc_store c' = pc_store c" "pc_workers c' = pc_workers c" "pc_stopped c' = pc_stopped c"
    "pc_snapshot c' = pc_snapshot c"
proof -
  obtain log n where c': "c' = c\<lparr>pc_chatLog := log, pc_readings := n\<rparr>" using assms by (auto simp: same_but_chat_def)
  show "pc_inv S c' = pc_inv S c" "pc_store c' = pc_store c" "pc_workers c' = pc_workers c" "pc_stopped c' = pc_stopped c"
    "pc_snapshot c' = pc_snapshot c"
    by (simp_all add: c' pc_inv_def workers_inv_def within_def shown_inv_def)
qed

lemma push_data_cases:
  obtains e where "PushWidgetData env i d c = (Inl e, c)"
  | c1 where "i \<in> widget_ids (pc_snapshot c)" "same_but_chat c c1" "snd (PushWidgetData env i d c) = push.record_and_send env i (JObj d) c1"
proof (cases "TrimSpace i = []")
  case True
  then show thesis by (intro that(1)) (simp add: PushWidgetData_def)
next
  case blank: False
  note defs = PushWidgetData_def recordPushLocked_def blank
  show thesis
  proof (cases "push_allowed env i d c")
    case (Inl e)
    then show thesis by (intro that(1)) (simp add: defs)
  next
    case allowed: (Inr w)
    show thesis
    proof (cases "push_chat env (resolveProviderName w (pc_snapshot c)) i d c")
      case (Inl e)
      then show thesis by (intro that(1)) (simp add: defs allowed)
    next
      case (Inr c1)
      have "find (\<lambda>w. wc_ID w = i) (snapshot_widgets (pc_snapshot c)) \<noteq> None"
        using allowed by (auto simp: push_allowed_def split: if_splits option.splits)
      then have "i \<in> widget_ids (pc_snapshot c)" using find_widget by blast
      then show thesis using push_chat_same [OF Inr]
        by (rule that(2)) (simp add: defs allowed Inr push.record_and_send_def syncAndBroadcast_def case_prod_unfold Let_def)
    qed
  qed
qed

lemma push_photos_cases:
  obtains e where "PushWidgetPhotos env i r c = (Inl e, c)"
  | d where "i \<in> widget_ids (pc_snapshot c)" "snd (PushWidgetPhotos env i r c) = push.record_and_send env i d c"
proof (cases "\<exists>e. PushWidgetPhotos env i r c = (Inl e, c)")
  case False
  then obtain w n s d where "find (\<lambda>w. wc_ID w = i) (snapshot_widgets (pc_snapshot c)) = Some w"
    and run: "\<not> pc_stopped c" "TrimSpace i \<noteq> []" "pc_workers c i = Some n" "wk_provider (pc_store c ! n) = PhotosProvider s" "r = Inr d"
    by (auto simp: PushWidgetPhotos_def recordPhotoPushLocked_def split: if_splits option.splits provider.splits sum.splits)
  moreover from this have "snd (PushWidgetPhotos env i r c) = push.record_and_send env i d c"
    by (simp add: PushWidgetPhotos_def recordPhotoPushLocked_def push.record_and_send_def syncAndBroadcast_def case_prod_unfold Let_def)
  ultimately show thesis using find_widget that(2) by blast
qed (use that(1) in blast)

lemma push_data_ok:
  assumes "pc_inv (widget_ids (pc_snapshot c)) c" "\<forall>p. pe_marshals env p"
  shows "pc_inv (widget_ids (pc_snapshot c)) (snd (PushWidgetData env i d c))" "keeps c (snd (PushWidgetData env i d c))"
proof -
  show "pc_inv (widget_ids (pc_snapshot c)) (snd (PushWidgetData env i d c))"
  proof (rule push_data_cases [of env i d c])
    fix c1 assume "i \<in> widget_ids (pc_snapshot c)" "same_but_chat c c1" "snd (PushWidgetData env i d c) = push.record_and_send env i (JObj d) c1"
    then show ?thesis using push.record_and_send_inv [of _ c1 i env "JObj d"] assms same_but_chat_fields(1) by metis
  qed (use assms in simp)
  show "keeps c (snd (PushWidgetData env i d c))"
    by (rule push_data_cases [of env i d c]) (simp_all add: keeps_def later_same_store same_but_chat_fields)
qed

lemma push_photos_ok:
  assumes "pc_inv (widget_ids (pc_snapshot c)) c" "\<forall>p. pe_marshals env p"
  shows "pc_inv (widget_ids (pc_snapshot c)) (snd (PushWidgetPhotos env i r c))" "keeps c (snd (PushWidgetPhotos env i r c))"
proof -
  show "pc_inv (widget_ids (pc_snapshot c)) (snd (PushWidgetPhotos env i r c))"
    by (rule push_photos_cases [of env i r c]) (use assms push.record_and_send_inv [OF assms(1)] in simp_all)
  show "keeps c (snd (PushWidgetPhotos env i r c))"
    by (rule push_photos_cases [of env i r c]) (simp_all add: keeps_def later_same_store)
qed

lemma push_update_ok:
  assumes "pc_inv S c" "i \<in> S" "\<forall>p. pe_marshals env p"
  shows "pc_inv S (snd (PushUpdate env i d c))" "keeps c (snd (PushUpdate env i d c))"
  using push.record_and_send_inv [OF assms] by (simp_all add: PushUpdate_eq keeps_def later_same_store)

lemma refresh_ok:
  assumes "pc_inv S c"
  shows "pc_inv S (snd (RefreshWidget i c)) \<and> keeps c (snd (RefreshWidget i c))"
proof (cases "pc_workers c i")
  case (Some n)
  have st: "pc_store (snd (RefreshWidget i c)) ! m = (if m = n then (pc_store c ! n)\<lparr>wk_refresh := True\<rparr> else pc_store c ! m)"
    if "m < length (pc_store c)" for m using that by (simp add: RefreshWidget_def Some nth_list_update)
  have fs: "pc_workers (snd (RefreshWidget i c)) = pc_workers c" "length (pc_store (snd (RefreshWidget i c))) = length (pc_store c)"
    "pc_cache (snd (RefreshWidget i c)) = pc_cache c" "pc_sink (snd (RefreshWidget i c)) = pc_sink c" "pc_hub (snd (RefreshWidget i c)) = pc_hub c"
    "pc_stopped (snd (RefreshWidget i c)) = pc_stopped c" "pc_snapshot (snd (RefreshWidget i c)) = pc_snapshot c"
    by (simp_all add: RefreshWidget_def Some)
  have "keeps c (snd (RefreshWidget i c))" using st fs by (simp add: keeps_def later_def)
  moreover have "workers_inv c" using assms by (simp add: pc_inv_def)
  then have "workers_inv (snd (RefreshWidget i c))" unfolding workers_inv_def fs(1,2) using st by simp
  ultimately show ?thesis using assms by (simp add: pc_inv_def within_def shown_inv_def fs)
qed (use assms in \<open>simp_all add: RefreshWidget_def keeps_def\<close>)

lemma complete_ok: "pc_inv S c \<Longrightarrow> pc_inv S (snd (CompleteListItem order ans l i c)) \<and> keeps c (snd (CompleteListItem order ans l i c))"
  using refresh_ok [of S c] by (auto simp: CompleteListItem_def Let_def keeps_def case_prod_unfold split: option.split)

lemma action_ok:
  "pc_inv S c \<Longrightarrow> pc_inv S (snd (CallWidgetActionWithResponse order ans i c)) \<and> keeps c (snd (CallWidgetActionWithResponse order ans i c))"
  using refresh_ok [of S c] by (auto simp: CallWidgetActionWithResponse_def keeps_def split: option.split sum.split)

lemma shutdown_ok:
  assumes "pc_inv S c"
  shows "pc_inv S (Shutdown c) \<and> later c (Shutdown c) \<and> (pc_workers c = Map.empty \<or> \<not> pc_stopped c \<longrightarrow> pc_workers (Shutdown c) = Map.empty)
    \<and> pc_snapshot (Shutdown c) = pc_snapshot c"
proof (cases "pc_stopped c")
  case False
  have st: "pc_store (Shutdown c) ! n = (if pc_workers c (wk_widgetID (pc_store c ! n)) = Some n then (pc_store c ! n)\<lparr>wk_stopped := True\<rparr> else pc_store c ! n)"
    "length (pc_store (Shutdown c)) = length (pc_store c)" if "n < length (pc_store c)" for n
    using that False by (simp_all add: Shutdown_def nth_enumerate_eq)
  have fs: "pc_workers (Shutdown c) = Map.empty" "length (pc_store (Shutdown c)) = length (pc_store c)" "pc_cache (Shutdown c) = pc_cache c"
    "pc_sink (Shutdown c) = pc_sink c" "pc_hub (Shutdown c) = pc_hub c" "pc_snapshot (Shutdown c) = pc_snapshot c"
    using False by (simp_all add: Shutdown_def)
  have "wk_stopped (pc_store (Shutdown c) ! n)" if "n < length (pc_store c)" for n
  proof (cases "wk_stopped (pc_store c ! n)")
    case False
    then have "pc_workers c (wk_widgetID (pc_store c ! n)) = Some n" using assms that by (simp add: pc_inv_def workers_inv_def)
    then show ?thesis using st that by simp
  qed (use st that in simp)
  then have "workers_inv (Shutdown c)" using fs by (simp add: workers_inv_def)
  then have "pc_inv S (Shutdown c)" using assms by (simp add: pc_inv_def within_def shown_inv_def fs)
  moreover have "later c (Shutdown c)" using st fs by (simp add: later_def)
  ultimately show ?thesis by (simp add: fs)
qed (use assms in \<open>simp add: Shutdown_def\<close>)

section \<open>Reachable coordinators\<close>

definition good_snapshot :: "Snapshot option \<Rightarrow> bool" where
  "good_snapshot s \<longleftrightarrow> distinct (map wc_ID (snapshot_widgets s))"

text \<open>What may happen next. The environment may differ from step to step.\<close>

inductive provider_step :: "ProviderCoordinator \<Rightarrow> ProviderCoordinator \<Rightarrow> bool" where
  fetched: "n < length (pc_store c) \<Longrightarrow> \<forall>p. pe_marshals env p \<Longrightarrow> provider_step c (fetchAndRecord env n res c)"
| pushed: "n < length (pc_store c) \<Longrightarrow> \<forall>p. pe_marshals env p \<Longrightarrow> provider_step c (listenEventSink env n payload c)"
| reconfigured: "good_snapshot snap \<Longrightarrow> \<forall>p. pe_marshals env p \<Longrightarrow> provider_step c (snd (pc_UpdateConfig env snap c))"
| shut_down: "provider_step c (Shutdown c)"
| refreshed: "provider_step c (snd (RefreshWidget i c))"
| completed: "provider_step c (snd (CompleteListItem order answer listID itemID c))"
| acted: "provider_step c (snd (CallWidgetActionWithResponse order reply i c))"
| updated: "i \<in> widget_ids (pc_snapshot c) \<Longrightarrow> \<forall>p. pe_marshals env p \<Longrightarrow> provider_step c (snd (PushUpdate env i d c))"
| data_pushed: "\<forall>p. pe_marshals env p \<Longrightarrow> provider_step c (snd (PushWidgetData env i data c))"
| photos_pushed: "\<forall>p. pe_marshals env p \<Longrightarrow> provider_step c (snd (PushWidgetPhotos env i ingest c))"

inductive provider_reach :: "ProviderCoordinator \<Rightarrow> bool" where
  created: "good_snapshot snap \<Longrightarrow> \<forall>p. pe_marshals env p \<Longrightarrow> provider_reach (NewProviderCoordinator env sink hub chat snap)"
| stepped: "provider_reach c \<Longrightarrow> provider_step c c' \<Longrightarrow> provider_reach c'"

definition provider_ok :: "ProviderCoordinator \<Rightarrow> bool" where
  "provider_ok c \<longleftrightarrow> pc_inv (widget_ids (pc_snapshot c)) c \<and> good_snapshot (pc_snapshot c) \<and> (pc_stopped c \<longrightarrow> pc_workers c = Map.empty)"

lemma provider_ok_keeps: "provider_ok c \<Longrightarrow> pc_inv (widget_ids (pc_snapshot c)) c' \<Longrightarrow> keeps c c' \<Longrightarrow> provider_ok c' \<and> later c c'"
  by (simp add: provider_ok_def keeps_def)

lemma update_noop:
  assumes "pc_stopped c \<or> snapshot_config s = None"
  shows "snd (pc_UpdateConfig env s c) = c"
  using assms by (auto simp: pc_UpdateConfig_def snapshot_config_def split: option.splits)

lemma update_provider_ok:
  assumes "provider_ok c" "good_snapshot s" "\<forall>p. pe_marshals env p"
  shows "provider_ok (snd (pc_UpdateConfig env s c)) \<and> later c (snd (pc_UpdateConfig env s c))"
proof (cases "pc_stopped c \<or> snapshot_config s = None")
  case False
  then obtain snap cfg where s: "s = Some snap" "sn_Config snap = Some cfg" by (auto simp: snapshot_config_def split: option.splits)
  obtain e c' where u: "pc_UpdateConfig env (Some snap) c = (e, c')" by fastforce
  have "distinct (map wc_ID (dc_Widgets (cf_Display cfg)))" using assms(2) by (simp add: good_snapshot_def s snapshot_widgets_def)
  from update_ok [OF _ assms(3) s(2) this _ u] assms False show ?thesis by (simp add: provider_ok_def s u)
qed (use assms update_noop [of c s env] in simp)

lemma step_ok:
  assumes "provider_step c c'" "provider_ok c"
  shows "provider_ok c' \<and> later c c'"
proof -
  have inv: "pc_inv (widget_ids (pc_snapshot c)) c" using assms(2) by (simp add: provider_ok_def)
  note keep = provider_ok_keeps [OF assms(2)]
  show ?thesis using assms(1)
  proof cases
    case (fetched n env res)
    then show ?thesis using fetch_ok [OF inv] keep by simp
  next
    case (pushed n env payload)
    then show ?thesis using listen_ok [OF inv] keep by simp
  next
    case (reconfigured snap env)
    then show ?thesis using update_provider_ok [OF assms(2)] by simp
  next
    case shut_down
    then show ?thesis using shutdown_ok [OF inv] assms(2) by (auto simp: provider_ok_def)
  next
    case (refreshed i)
    then show ?thesis using refresh_ok [OF inv] keep by simp
  next
    case (completed order answer listID itemID)
    then show ?thesis using complete_ok [OF inv] keep by simp
  next
    case (acted order reply i)
    then show ?thesis using action_ok [OF inv] keep by simp
  next
    case (updated i env d)
    then show ?thesis using push_update_ok [OF inv] keep by simp
  next
    case (data_pushed env i data)
    then show ?thesis using push_data_ok [OF inv] keep by simp
  next
    case (photos_pushed env i ingest)
    then show ?thesis using push_photos_ok [OF inv] keep by simp
  qed
qed

lemma created_ok:
  assumes "good_snapshot snap" "\<forall>p. pe_marshals env p"
  shows "provider_ok (NewProviderCoordinator env sink hub chat snap)"
proof (cases "snapshot_config snap")
  case None
  let ?c = "NewProviderCoordinator env sink hub chat snap"
  have "pc_store ?c = [] \<and> pc_workers ?c = Map.empty \<and> pc_cache ?c = Map.empty \<and> pc_snapshot ?c = snap"
    using None by (cases snap) (simp_all add: NewProviderCoordinator_def snapshot_config_def Let_def NewSWRCache_def)
  then show ?thesis using assms(1) by (simp add: provider_ok_def pc_inv_def workers_inv_def within_def shown_inv_def)
next
  case (Some cfg)
  then obtain s where s: "snap = Some s" "sn_Config s = Some cfg" by (auto simp: snapshot_config_def split: option.splits)
  obtain c0 where c0: "NewProviderCoordinator env sink hub chat snap = startWorkersLocked env cfg s c0"
    "pc_store c0 = []" "pc_workers c0 = Map.empty" "pc_cache c0 = Map.empty" "pc_snapshot c0 = snap" "\<not> pc_stopped c0"
    by (simp add: NewProviderCoordinator_def s NewSWRCache_def Let_def split: option.splits)
  have ids: "widget_ids snap = wc_ID ` set (dc_Widgets (cf_Display cfg))" by (simp add: widget_ids_config Some)
  have "pc_inv {} c0" by (simp add: pc_inv_def workers_inv_def within_def shown_inv_def c0)
  from fold_start [OF this _ _ assms(2), of "dc_Widgets (cf_Display cfg)" s] assms(1) c0
  show ?thesis by (simp add: startWorkersLocked_def provider_ok_def ids [unfolded s(1)] effect_on_def good_snapshot_def s snapshot_widgets_def)
qed

lemma provider_reach_ok: "provider_reach c \<Longrightarrow> provider_ok c"
  by (induction rule: provider_reach.induct) (simp_all add: created_ok step_ok)

end
