(* ===== verification/Provider_Reload.thy ===== *)
theory Provider_Reload
  imports Provider_Coordinator_Props
begin

text \<open>
  What the provider coordinator promises: who is fetched for, what a reload keeps and drops, and what a push does.
\<close>


subsection \<open>Reloading\<close>

text \<open>A widget both configurations have, from the same source and in the same time zone.\<close>

definition carried_over :: "Config option \<Rightarrow> Config \<Rightarrow> string \<Rightarrow> bool" where
  "carried_over old cfg i \<longleftrightarrow> (\<exists>a v w. old = Some a \<and> v \<in> set (dc_Widgets (cf_Display a)) \<and> w \<in> set (dc_Widgets (cf_Display cfg))
     \<and> wc_ID v = i \<and> wc_ID w = i \<and> same_source v w \<and> cf_Timezone a = cf_Timezone cfg)"

lemma image_filter_iff: "i \<in> f ` {w \<in> A. P w} \<longleftrightarrow> (\<exists>w \<in> A. f w = i \<and> P w)"
  by blast

lemma bex_unique: "w \<in> A \<Longrightarrow> f w = i \<Longrightarrow> (\<And>u. u \<in> A \<Longrightarrow> f u = i \<Longrightarrow> u = w) \<Longrightarrow> (\<exists>u \<in> A. f u = i \<and> P u) \<longleftrightarrow> P w"
  by blast

lemma renewed_iff:
  assumes "distinct (map wc_ID (dc_Widgets (cf_Display a)))" "distinct (map wc_ID (dc_Widgets (cf_Display cfg)))"
    "i \<in> wc_ID ` set (dc_Widgets (cf_Display a))"
  shows "i \<in> renewed (reload_diff (Some a) cfg) \<longleftrightarrow> \<not> carried_over (Some a) cfg i"
proof -
  let ?m = "fst (widgetMap (Some a))" and ?old = "dc_Widgets (cf_Display a)" and ?new = "dc_Widgets (cf_Display cfg)"
  note m = widgetMap_distinct [OF assms(1)]
  obtain v where v: "v \<in> set ?old" "wc_ID v = i" using assms(3) by blast
  then have mi: "?m i = Some v" using m by blast
  have uniq: "u = v" if "u \<in> set ?old" "wc_ID u = i" for u using m [of i u] mi that by simp
  have chg: "id_ID (change_of ?m w) = wc_ID w" for w by (simp add: change_of_def mk_diff_def Let_def)
  have k: "kept ?m w \<longleftrightarrow> same_source v w" "changed ?m w \<longleftrightarrow> \<not> same_source v w" if "wc_ID w = i" for w
    using mi that by (simp_all add: kept_def changed_def)
  have "i \<in> wc_ID ` {w \<in> set ?old. wc_ID w \<notin> wc_ID ` set ?new} \<longleftrightarrow> i \<notin> wc_ID ` set ?new"
  proof
    assume "i \<notin> wc_ID ` set ?new"
    then have "v \<in> {w \<in> set ?old. wc_ID w \<notin> wc_ID ` set ?new}" using v by simp
    then show "i \<in> wc_ID ` {w \<in> set ?old. wc_ID w \<notin> wc_ID ` set ?new}" by (rule image_eqI [where f = wc_ID and x = v, rotated]) (simp add: v)
  qed auto
  moreover have "i \<in> id_ID ` change_of ?m ` {w \<in> set ?new. changed ?m w} \<longleftrightarrow> (\<exists>w \<in> set ?new. wc_ID w = i \<and> \<not> same_source v w)"
  proof -
    have "i \<in> id_ID ` change_of ?m ` {w \<in> set ?new. changed ?m w} \<longleftrightarrow> (\<exists>w \<in> set ?new. wc_ID w = i \<and> changed ?m w)"
      unfolding image_image chg by (rule image_filter_iff)
    then show ?thesis by (simp add: k(2) cong: conj_cong)
  qed
  moreover have "i \<in> wc_ID ` {w \<in> set ?new. kept ?m w} \<longleftrightarrow> (\<exists>w \<in> set ?new. wc_ID w = i \<and> same_source v w)"
  proof -
    have "i \<in> wc_ID ` {w \<in> set ?new. kept ?m w} \<longleftrightarrow> (\<exists>w \<in> set ?new. wc_ID w = i \<and> kept ?m w)"
      by (rule image_filter_iff)
    then show ?thesis by (simp add: k(1) cong: conj_cong)
  qed
  ultimately have "i \<in> renewed (reload_diff (Some a) cfg) \<longleftrightarrow> i \<notin> wc_ID ` set ?new
      \<or> (\<exists>w \<in> set ?new. wc_ID w = i \<and> (\<not> same_source v w \<or> cf_Timezone a \<noteq> cf_Timezone cfg \<and> same_source v w))"
    by (auto simp: renewed_def reload_diff_def DiffConfigs_eq widgetMap_None_iff)
  also have "\<dots> \<longleftrightarrow> \<not> carried_over (Some a) cfg i"
  proof (cases "i \<in> wc_ID ` set ?new")
    case True
    then obtain w where w: "w \<in> set ?new" "wc_ID w = i" by fast
    have uniq_new: "u = w" if "u \<in> set ?new" "wc_ID u = i" for u
      using assms(2) w that by (simp add: distinct_map inj_on_def)
    have "carried_over (Some a) cfg i \<longleftrightarrow> same_source v w \<and> cf_Timezone a = cf_Timezone cfg"
    proof
      assume "carried_over (Some a) cfg i"
      then obtain v' w' where "v' \<in> set ?old" "w' \<in> set ?new" "wc_ID v' = i" "wc_ID w' = i" "same_source v' w'" "cf_Timezone a = cf_Timezone cfg"
        unfolding carried_over_def by (elim exE conjE) simp
      moreover from this have "v' = v" "w' = w" by (simp_all add: uniq uniq_new)
      ultimately show "same_source v w \<and> cf_Timezone a = cf_Timezone cfg" by simp
    qed (use v w in \<open>simp only: carried_over_def, intro exI [of _ a] exI [of _ v] exI [of _ w], simp\<close>)
    moreover have "(\<exists>u \<in> set ?new. wc_ID u = i \<and> P u) \<longleftrightarrow> P w" for P
      using w uniq_new by (rule bex_unique)
    ultimately show ?thesis using True by simp
  next
    case False
    then have "wc_ID u \<noteq> i" if "u \<in> set ?new" for u using that by auto
    then show ?thesis using False by (auto simp: carried_over_def)
  qed
  finally show ?thesis .
qed

lemma reload_facts:
  assumes "provider_reach c" "good_snapshot (Some snap)" "\<forall>p. pe_marshals env p" "sn_Config snap = Some cfg"
    and "pc_UpdateConfig env (Some snap) c = (None, c')"
  shows "pc_inv (widget_ids (Some snap)) c'" "later c c'"
    "carried_over (snapshot_config (pc_snapshot c)) cfg i \<Longrightarrow> untouched i c c'"
    "\<not> carried_over (snapshot_config (pc_snapshot c)) cfg i \<Longrightarrow> retired i c c'"
proof -
  let ?old = "snapshot_config (pc_snapshot c)" and ?d = "reload_diff (snapshot_config (pc_snapshot c)) cfg"
  have ok: "provider_ok c" by (rule provider_reach_ok [OF assms(1)])
  then have inv: "pc_inv (widget_ids (pc_snapshot c)) c" by (simp add: provider_ok_def)
  have dn: "distinct (map wc_ID (dc_Widgets (cf_Display cfg)))" using assms(2,4) by (simp add: good_snapshot_def snapshot_widgets_def)
  have run: "\<not> pc_stopped c" using assms(5) by (auto simp: pc_UpdateConfig_def)
  note u = update_ok [OF inv assms(3,4) dn run assms(5)]
  show "pc_inv (widget_ids (Some snap)) c'" "later c c'" using u(2,3) .
  have do: "distinct (map wc_ID (dc_Widgets (cf_Display a)))" if "?old = Some a" for a
    using ok that by (auto simp: provider_ok_def good_snapshot_def snapshot_widgets_def snapshot_config_def split: option.splits)
  show "untouched i c c'" if co: "carried_over ?old cfg i"
  proof -
    obtain a v w where "?old = Some a" "v \<in> set (dc_Widgets (cf_Display a))" "w \<in> set (dc_Widgets (cf_Display cfg))" "wc_ID v = i" "wc_ID w = i"
      using co unfolding carried_over_def by (elim exE conjE)
    then have a: "?old = Some a" "i \<in> wc_ID ` set (dc_Widgets (cf_Display a))" "i \<in> wc_ID ` set (dc_Widgets (cf_Display cfg))"
      by (simp_all add: rev_image_eqI)
    have "i \<notin> renewed ?d" using renewed_iff [OF do [OF a(1)] dn a(2)] co a(1) by simp
    moreover have "i \<notin> wc_ID ` set (cd_Added ?d)" using reload_diff_ids(2) [of ?old cfg] a by simp
    ultimately show ?thesis using u(6) [of i] by blast
  qed
  show "retired i c c'" if nc: "\<not> carried_over ?old cfg i"
  proof (cases "pc_workers c i")
    case (Some n)
    then have "i \<in> widget_ids (pc_snapshot c)" using inv by (auto simp: pc_inv_def within_def)
    then obtain a where a: "?old = Some a" "i \<in> wc_ID ` set (dc_Widgets (cf_Display a))"
      by (auto simp: widget_ids_config split: option.splits)
    have "i \<in> renewed ?d" using renewed_iff [OF do [OF a(1)] dn a(2)] nc a(1) by simp
    then show ?thesis by (rule u(7))
  qed (simp add: retired_def)
qed



subsection \<open>Pushes\<close>

text \<open>When a push is let in, and what its transcript must satisfy.\<close>

definition push_accepted :: "provider_env \<Rightarrow> string \<Rightarrow> (string \<times> json) list \<Rightarrow> ProviderCoordinator \<Rightarrow> bool" where
  "push_accepted env i data c \<longleftrightarrow> TrimSpace i \<noteq> [] \<and> \<not> pc_stopped c
     \<and> (\<exists>w. find (\<lambda>w. wc_ID w = i) (snapshot_widgets (pc_snapshot c)) = Some w \<and> wc_Type w \<noteq> ''tasks''
        \<and> resolveProviderName w (pc_snapshot c) \<in> {''http'', ''chat-log''}
        \<and> (\<forall>pkg. package_of (pc_snapshot c) (wc_Type w) = Some pkg \<longrightarrow> validateResponseSchema env (wm_ResponseSchema (pk_Manifest pkg)) data)
        \<and> (resolveProviderName w (pc_snapshot c) = ''chat-log'' \<and> pc_chatLog c \<noteq> None \<longrightarrow> \<not> isl (ParsePush (pe_parse env) data)))"

lemma push_allowed_Inr:
  "push_allowed env i data c = Inr w \<longleftrightarrow> \<not> pc_stopped c
     \<and> find (\<lambda>w. wc_ID w = i) (snapshot_widgets (pc_snapshot c)) = Some w \<and> wc_Type w \<noteq> ''tasks''
     \<and> resolveProviderName w (pc_snapshot c) \<in> {''http'', ''chat-log''}
     \<and> (\<forall>pkg. package_of (pc_snapshot c) (wc_Type w) = Some pkg \<longrightarrow> validateResponseSchema env (wm_ResponseSchema (pk_Manifest pkg)) data)"
  by (auto simp: push_allowed_def Let_def split: option.splits)

lemma push_chat_isl:
  "isl (push_chat env name i data c) \<longleftrightarrow> name = ''chat-log'' \<and> pc_chatLog c \<noteq> None \<and> isl (ParsePush (pe_parse env) data)"
  by (cases "ParsePush (pe_parse env) data"; cases "pc_chatLog c"; cases "name = ''chat-log''")
    (simp_all add: push_chat_def reading_def)

lemma push_accepted_iff: "isl (fst (PushWidgetData env i data c)) \<longleftrightarrow> \<not> push_accepted env i data c"
proof (cases "TrimSpace i = []")
  case False
  show ?thesis
  proof (cases "push_allowed env i data c")
    case (Inl e)
    then have "\<not> push_accepted env i data c"
      unfolding push_accepted_def using push_allowed_Inr [of env i data c] by (metis (no_types, lifting) Inl_Inr_False)
    then show ?thesis using Inl False by (simp add: PushWidgetData_def recordPushLocked_def)
  next
    case (Inr w)
    then have w: "push_accepted env i data c \<longleftrightarrow> \<not> isl (push_chat env (resolveProviderName w (pc_snapshot c)) i data c)"
      using False unfolding push_accepted_def push_chat_isl by (cases "pc_chatLog c") (simp_all add: push_allowed_Inr)
    show ?thesis unfolding w using False Inr
      by (cases "push_chat env (resolveProviderName w (pc_snapshot c)) i data c")
        (simp_all add: PushWidgetData_def recordPushLocked_def case_prod_unfold Let_def)
  qed
qed (simp add: PushWidgetData_def push_accepted_def)

text \<open>C25: A push takes effect completely or not at all. It is let in exactly when the coordinator runs, the widget is configured,
  is not a task list and is fed by pushes, and the data satisfies the package's schema and, for a chat log, is a transcript.
  Otherwise nothing changes. When it is let in, the data is cached as healthy, shown to clients that connect and broadcast.\<close>

theorem push_outcome:
  assumes "provider_reach c" "PushWidgetData env i data c = (res, c')"
  shows "(case res of
      Inl e \<Rightarrow> \<not> push_accepted env i data c \<and> c' = c
    | Inr p \<Rightarrow> push_accepted env i data c \<and> cache_Get i (pc_cache c') = Some p
        \<and> wp_WidgetID p = i \<and> wp_State p = StateHealthy \<and> wp_Data p = JObj data
        \<and> (case pc_sink c' of None \<Rightarrow> pc_sink c = None | Some s \<Rightarrow> sk_widgets s i = Some p)
        \<and> (case pc_hub c of None \<Rightarrow> pc_hub c' = None | Some ps \<Rightarrow> pc_hub c' = Some (if pe_marshals env p then ps @ [p] else ps))
        \<and> (\<forall>j. j \<noteq> i \<longrightarrow> cache_Get j (pc_cache c') = cache_Get j (pc_cache c)))"
proof (cases res)
  case (Inl e)
  then have "isl (fst (PushWidgetData env i data c))" using assms(2) by simp
  then have "\<not> push_accepted env i data c" using push_accepted_iff by blast
  moreover have "c' = c" using assms(2) Inl
    by (auto simp: PushWidgetData_def recordPushLocked_def case_prod_unfold Let_def split: if_splits sum.splits)
  ultimately show ?thesis using Inl by simp
next
  case (Inr p)
  then have "\<not> isl (fst (PushWidgetData env i data c))" using assms(2) by simp
  then have acc: "push_accepted env i data c" using push_accepted_iff by blast
  obtain w c1 where run: "TrimSpace i \<noteq> []" "push_allowed env i data c = Inr w" "push_chat env (resolveProviderName w (pc_snapshot c)) i data c = Inr c1"
    using assms(2) Inr by (auto simp: PushWidgetData_def recordPushLocked_def case_prod_unfold Let_def split: if_splits sum.splits)
  have c1: "pc_cache c1 = pc_cache c" "pc_sink c1 = pc_sink c" "pc_hub c1 = pc_hub c"
    using push_chat_same [OF run(3)] by (auto simp: same_but_chat_def)
  have "ce_widgetID e = i" if "pc_cache c i = Some e" for e
    using provider_reach_ok [OF assms(1)] that by (simp add: provider_ok_def pc_inv_def shown_inv_def)
  then have "ce_widgetID (entry i (pc_cache c)) = i" by (simp add: entry_def fresh_entry_def split: option.split)
  then show ?thesis using acc assms(2) run Inr c1
    by (auto simp: PushWidgetData_def recordPushLocked_def reading_def RecordPush_def RecordSuccess_def cache_Get_def toPayload_def Let_def
        syncStateSink_def broadcastUpdate_def set_cache_def split: option.split)
qed

subsection \<open>An example\<close>

definition sample_env :: provider_env where
  "sample_env = \<lparr>pe_Create = (\<lambda>_. Inr OtherProvider), pe_Init = (\<lambda>p _ _. Inr p), pe_now = (\<lambda>_. 0), pe_schema = (\<lambda>_ _. True),
     pe_parse = (\<lambda>_. None), pe_marshals = (\<lambda>_. True)\<rparr>"

definition sample_snap :: "string \<Rightarrow> Snapshot" where
  "sample_snap endpoint = \<lparr>sn_Config = Some (sample_config [sample_wc ''y'' endpoint]), sn_Layout = None, sn_Packages = Map.empty,
     sn_LoadedAt = 0, sn_HasOverride = False\<rparr>"

definition sample_pc :: ProviderCoordinator where
  "sample_pc = fetchAndRecord sample_env 0 (FetchOk (JStr ''d'')) (NewProviderCoordinator sample_env True True None (Some (sample_snap ''u'')))"

lemma sample_marshals: "\<forall>p. pe_marshals sample_env p"
  by (simp add: sample_env_def)

lemma sample_good: "good_snapshot (Some (sample_snap e))"
  by (simp add: good_snapshot_def snapshot_widgets_def sample_snap_def sample_config_def)

lemma sample_store: "length (pc_store (NewProviderCoordinator sample_env True True None (Some (sample_snap ''u'')))) = 1"
  by code_simp

lemma sample_pc_reach: "provider_reach sample_pc"
  unfolding sample_pc_def
  by (intro stepped [OF created fetched]) (simp_all add: sample_good sample_marshals sample_store)

lemma sample_pc_worker: "pc_workers sample_pc ''y'' = Some 0"
  by code_simp

lemma sample_pc_data: "map_option wp_Data (cache_Get ''y'' (pc_cache sample_pc)) = Some (JStr ''d'')"
  by code_simp

lemma sample_sinks: "pc_sink sample_pc \<noteq> None" "pc_hub sample_pc \<noteq> None" "\<not> pc_stopped sample_pc"
  by code_simp+


lemma sample_snap_config: "sn_Config (sample_snap e) = Some (sample_config [sample_wc ''y'' e])"
  by (simp add: sample_snap_def)

lemma sample_not_carried: "\<not> carried_over (snapshot_config (pc_snapshot sample_pc)) (sample_config [sample_wc ''y'' ''v'']) ''y''"
proof
  assume "carried_over (snapshot_config (pc_snapshot sample_pc)) (sample_config [sample_wc ''y'' ''v'']) ''y''"
  then obtain v where v: "v \<in> set (snapshot_widgets (pc_snapshot sample_pc))" "same_source v (sample_wc ''y'' ''v'')"
    by (auto simp: carried_over_def sample_config_def snapshot_config_def snapshot_widgets_def split: option.splits)
  have "map wc_Endpoint (snapshot_widgets (pc_snapshot sample_pc)) = [''u'']" by code_simp
  then have "wc_Endpoint v \<in> {''u''}" using v(1) by (metis empty_set list.simps(15) list.set_map image_eqI)
  then show False using v(2) by (simp add: same_source_def sample_wc_def)
qed

lemma sample_update: "fst (pc_UpdateConfig sample_env (Some (sample_snap e)) sample_pc) = None"
  using sample_sinks(3) by (simp add: update_eq [OF _ sample_snap_config])



lemma sample_push: "fst (PushWidgetData sample_env ''y'' [(''k'', JNull)] sample_pc) \<noteq> Inl e"
proof -
  have "\<not> isl (fst (PushWidgetData sample_env ''y'' [(''k'', JNull)] sample_pc))" by code_simp
  then show ?thesis by auto
qed

theorem push_outcome_witness:
  "\<exists>p c'. PushWidgetData sample_env ''y'' [(''k'', JNull)] sample_pc = (Inr p, c') \<and> cache_Get ''y'' (pc_cache c') = Some p
     \<and> wp_Data p = JObj [(''k'', JNull)]"
proof -
  obtain r c' where run: "PushWidgetData sample_env ''y'' [(''k'', JNull)] sample_pc = (r, c')" by fastforce
  then obtain p where "r = Inr p" using sample_push by (cases r) auto
  then show ?thesis using push_outcome [OF sample_pc_reach run] run by simp
qed

subsection \<open>Overtaking\<close>

text \<open>
  The operations above run to their end. No lock spans the part of a fetch that records and the part that publishes: a push that comes between
  them is overwritten in the sink by the older data of the fetch, while the cache keeps the push.
\<close>

lemma fetch_overtakes_push:
  assumes "\<not> wk_stopped (pc_store c ! n)" "wk_widgetID (pc_store c ! n) = i" "pc_sink c = Some s"
    and "fetch_record env n (FetchOk d) c = (r, c1)" "c2 = snd (PushUpdate env i d' c1)" "c3 = fetch_publish env r c2"
    and "\<And>j e. pc_cache c j = Some e \<Longrightarrow> ce_widgetID e = j"
  shows "map_option wp_Data (cache_Get i (pc_cache c3)) = Some d' \<and> (\<exists>s'. pc_sink c3 = Some s' \<and> map_option wp_Data (sk_widgets s' i) = Some d)"
proof -
  have "ce_widgetID (entry i (pc_cache c)) = i" using assms(7) by (simp add: entry_def fresh_entry_def split: option.split)
  then show ?thesis using assms(1-4)
    by (auto simp: assms(5,6) fetch_record_def fetch_publish_def reading_def RecordSuccess_def RecordPush_def PushUpdate_def cache_Get_def
        toPayload_def syncStateSink_def syncAndBroadcast_def broadcastUpdate_def set_cache_def entry_def Let_def split: option.splits)
qed

end
