(* ===== verification/Push_Handler.thy ===== *)
theory Push_Handler
  imports Provider_Reload Handlers
begin

text \<open>
  \<^verbatim>\<open>internal/provider/handler.go\<close>: the request that pushes data to a widget. A body is the bytes that could be read, or the error of
  reading them; the decoder of JSON and the texts of schema errors are parameters. The request that pushes photos is not modelled.
\<close>

definition MaxHTTPResponseBodySize :: nat where "MaxHTTPResponseBodySize = 2 ^ 20"

record push_request =
  pq_Method :: string
  pq_Body :: "string + string"

text \<open>Keys of a Go map are written in order.\<close>

definition writeErrorJSON :: "int \<Rightarrow> string \<Rightarrow> response" where
  "writeErrorJSON status msg = \<lparr>rs_Code = status, rs_Body = Some (JObj [(''error'', JStr msg), (''status'', JStr ''error'')])\<rparr>"

definition handlePreflightAndMethod :: "string \<Rightarrow> ProviderCoordinator option \<Rightarrow> response option" where
  "handlePreflightAndMethod meth pusher =
     (if meth = ''OPTIONS'' then Some \<lparr>rs_Code = 204, rs_Body = None\<rparr>
      else if meth \<noteq> ''POST'' then Some (writeErrorJSON 405 ''method not allowed'')
      else if pusher = None then Some (writeErrorJSON 500 ''pusher not configured'')
      else None)"

definition writeSuccessJSON :: "string \<Rightarrow> string \<Rightarrow> response" where
  "writeSuccessJSON widgetID updatedAt = \<lparr>rs_Code = 200, rs_Body = Some (JObj [(''status'', JStr ''ok''), (''updated_at'', JStr updatedAt),
     (''widget_id'', JStr widgetID)])\<rparr>"

text \<open>The status of a failed push; \<open>detail\<close> gives the text of an error.\<close>

definition push_failure_response :: "(push_failure \<Rightarrow> string) \<Rightarrow> string \<Rightarrow> push_failure \<Rightarrow> response" where
  "push_failure_response detail widgetID err =
     (case err of
        ErrWidgetNotFound _ \<Rightarrow> writeErrorJSON 404 (''widget '' @ quoted widgetID @ '' not found in active configuration'')
      | ErrListWidgetPushForbidden _ \<Rightarrow> writeErrorJSON 409 (''cannot push state to list-backed widget '' @ quoted widgetID
          @ ''; task lists are read-only and ingested from configured upstream providers'')
      | ErrNonHTTPWidgetPushForbidden _ _ \<Rightarrow> writeErrorJSON 409 (''cannot push state to widget '' @ quoted widgetID
          @ ''; push webhook is strictly limited to widgets using the http provider'')
      | ErrSchemaValidation _ \<Rightarrow> writeErrorJSON 400 (detail err)
      | _ \<Rightarrow> writeErrorJSON 500 (''push ingestion error: '' @ detail err))"

definition PostWidgetPush :: "provider_env \<Rightarrow> (string \<Rightarrow> string + json) \<Rightarrow> (push_failure \<Rightarrow> string) \<Rightarrow> push_request \<Rightarrow> string
    \<Rightarrow> ProviderCoordinator option \<Rightarrow> response \<times> ProviderCoordinator option" where
  "PostWidgetPush env unmarshal detail r widgetID pusher =
     (case handlePreflightAndMethod (pq_Method r) pusher of
        Some rsp \<Rightarrow> (rsp, pusher)
      | None \<Rightarrow> (case pq_Body r of
          Inl err \<Rightarrow> (writeErrorJSON 400 (''failed to read request body: '' @ err), pusher)
        | Inr bytes \<Rightarrow> (case unmarshal (take MaxHTTPResponseBodySize bytes) of
            Inl err \<Rightarrow> (writeErrorJSON 400 (''invalid JSON payload: '' @ err), pusher)
          | Inr rawDoc \<Rightarrow> (case rawDoc of
              JObj obj \<Rightarrow> (case PushWidgetData env widgetID obj (the pusher) of
                  (Inl err, c) \<Rightarrow> (push_failure_response detail widgetID err, Some c)
                | (Inr payload, c) \<Rightarrow> (writeSuccessJSON widgetID (wp_Timestamp payload), Some c))
            | _ \<Rightarrow> (writeErrorJSON 400 ''payload must be a JSON object'', pusher)))))"

text \<open>A push request succeeds exactly when it is a POST of an object that the coordinator accepts, and otherwise changes nothing.\<close>

lemma push_request_outcome:
  assumes "PostWidgetPush env unmarshal detail r i (Some c) = (rsp, pusher)"
  shows "rs_Code rsp = 200 \<longleftrightarrow> pq_Method r = ''POST'' \<and> (\<exists>bytes obj. pq_Body r = Inr bytes
      \<and> unmarshal (take MaxHTTPResponseBodySize bytes) = Inr (JObj obj) \<and> push_accepted env i obj c)"
    "rs_Code rsp \<noteq> 200 \<Longrightarrow> pusher = Some c"
proof -
  have code: "rs_Code (push_failure_response detail i err) \<noteq> 200" for err
    by (simp add: push_failure_response_def writeErrorJSON_def split: push_failure.split)
  have same: "c' = c" if "PushWidgetData env i obj c = (Inl e, c')" for obj e c'
    using that by (auto simp: PushWidgetData_def recordPushLocked_def case_prod_unfold Let_def split: if_splits sum.splits)
  have ok: "push_accepted env i obj c \<longleftrightarrow> \<not> isl (fst (PushWidgetData env i obj c))" for obj
    using push_accepted_iff by blast
  show "rs_Code rsp = 200 \<longleftrightarrow> pq_Method r = ''POST'' \<and> (\<exists>bytes obj. pq_Body r = Inr bytes
      \<and> unmarshal (take MaxHTTPResponseBodySize bytes) = Inr (JObj obj) \<and> push_accepted env i obj c)"
    using assms code unfolding ok
    by (auto simp: PostWidgetPush_def handlePreflightAndMethod_def writeErrorJSON_def writeSuccessJSON_def
        split: if_splits sum.splits json.splits prod.splits)
  show "rs_Code rsp \<noteq> 200 \<Longrightarrow> pusher = Some c"
    using assms same by (auto simp: PostWidgetPush_def writeSuccessJSON_def split: option.splits sum.splits json.splits prod.splits)
qed

end
