(* ===== verification/Voice_Stream.thy ===== *)
theory Voice_Stream
  imports Event_Model "HOL-Library.Word"
begin

text \<open>
  \<^verbatim>\<open>internal/voice/hub.go\<close> and \<^verbatim>\<open>hub_turn.go\<close>: the streams of a voice turn. Synthesised speech arrives in pieces of any size and leaves in
  numbered chunks of a fixed size; the reply of the assistant arrives as an event stream; a WAV file is read up to its
  samples. A reader is the list of bytes or lines it has left.
\<close>

type_synonym byte = "8 word"

subsection \<open>Base64\<close>

definition b64_alphabet :: string where
  "b64_alphabet = ''ABCDEFGHIJKLMNOPQRSTUVWXYZabcdefghijklmnopqrstuvwxyz0123456789+/''"

definition b64_char :: "nat \<Rightarrow> char" where
  "b64_char n = b64_alphabet ! n"

text \<open>The standard encoding: three bytes give four characters, and a last group is padded.\<close>

fun base64 :: "byte list \<Rightarrow> string" where
  "base64 (a # b # c # bs) =
     [b64_char (unat a div 4), b64_char (unat a mod 4 * 16 + unat b div 16), b64_char (unat b mod 16 * 4 + unat c div 64),
      b64_char (unat c mod 64)] @ base64 bs"
| "base64 [a, b] = [b64_char (unat a div 4), b64_char (unat a mod 4 * 16 + unat b div 16), b64_char (unat b mod 16 * 4), CHR ''='']"
| "base64 [a] = [b64_char (unat a div 4), b64_char (unat a mod 4 * 16), CHR ''='', CHR ''='']"
| "base64 [] = []"

subsection \<open>Events of a turn\<close>

datatype stream_error = ErrUnsupportedAudioFormat string string | ErrMixedPCMFormat int int int int | SinkFailed string | ReadFailed string
  | RequestFailed string | HTTPError string int | UnsupportedAudio string

text \<open>An error event carries the text of an error: of a client as it is, or of one of the errors above.\<close>

datatype err_text = ErrText string | ErrStream stream_error

datatype turn_event =
    StateEvent string
  | TranscriptEvent string string
  | StatusEvent string
  | ReplyEvent string string
  | AudioChunk nat int int bool string
  | ErrorEvent string err_text
  | ThinkingEvent int
  | DoneEvent int

text \<open>The client's end of the stream: what was written so far, and which writes fail with what error.\<close>

record sink =
  sk_log :: "turn_event list"
  sk_fails :: "turn_event list \<Rightarrow> turn_event \<Rightarrow> string option"

definition send :: "turn_event \<Rightarrow> sink \<Rightarrow> string option \<times> sink" where
  "send e s = (case sk_fails s (sk_log s) e of Some err \<Rightarrow> (Some err, s) | None \<Rightarrow> (None, s\<lparr>sk_log := sk_log s @ [e]\<rparr>))"

subsection \<open>Audio chunks\<close>

record TTSAudioChunk =
  tc_Data :: "byte list"
  tc_Format :: string
  tc_SampleRate :: int
  tc_Channels :: int

definition pcmChunkFloor :: nat where "pcmChunkFloor = 4800"

record pcmChunkStreamer =
  pcm_ignoreSinkErr :: bool
  pcm_pcmBuf :: "byte list"
  pcm_chunkIdx :: nat
  pcm_latched :: bool
  pcm_rate :: int
  pcm_channels :: int
  pcm_anySent :: bool

definition new_streamer :: "bool \<Rightarrow> pcmChunkStreamer" where
  "new_streamer ignore = \<lparr>pcm_ignoreSinkErr = ignore, pcm_pcmBuf = [], pcm_chunkIdx = 0, pcm_latched = False, pcm_rate = 0,
     pcm_channels = 0, pcm_anySent = False\<rparr>"

definition pcm_emit :: "byte list \<Rightarrow> bool \<Rightarrow> pcmChunkStreamer \<times> sink \<Rightarrow> stream_error option \<times> pcmChunkStreamer \<times> sink" where
  "pcm_emit data isFinal st =
     (case st of (s, k) \<Rightarrow>
      let rate = (if pcm_rate s \<le> 0 then 24000 else pcm_rate s);
          channels = (if pcm_channels s \<le> 0 then 1 else pcm_channels s);
          payload = AudioChunk (pcm_chunkIdx s) rate channels isFinal (base64 data);
          s' = s\<lparr>pcm_chunkIdx := pcm_chunkIdx s + 1\<rparr>
      in case send payload k of
        (Some err, k') \<Rightarrow> (if pcm_ignoreSinkErr s then None else Some (SinkFailed err), s', k')
      | (None, k') \<Rightarrow> (None, s', k'))"

definition latchOrVerifyFormat :: "TTSAudioChunk \<Rightarrow> pcmChunkStreamer \<Rightarrow> stream_error + pcmChunkStreamer" where
  "latchOrVerifyFormat tc s =
     (if tc_SampleRate tc \<le> 0 \<and> tc_Channels tc \<le> 0 then Inr s
      else if \<not> pcm_latched s then
        Inr (s\<lparr>pcm_latched := True, pcm_rate := (if tc_SampleRate tc > 0 then tc_SampleRate tc else 24000),
               pcm_channels := (if tc_Channels tc > 0 then tc_Channels tc else 1)\<rparr>)
      else if tc_SampleRate tc > 0 \<and> tc_SampleRate tc \<noteq> pcm_rate s \<or> tc_Channels tc > 0 \<and> tc_Channels tc \<noteq> pcm_channels s
      then Inl (ErrMixedPCMFormat (pcm_rate s) (pcm_channels s) (tc_SampleRate tc) (tc_Channels tc))
      else Inr s)"

text \<open>The loop of \<^verbatim>\<open>push\<close>: full pieces leave the buffer.\<close>

function pcm_drain :: "pcmChunkStreamer \<times> sink \<Rightarrow> stream_error option \<times> pcmChunkStreamer \<times> sink" where
  "pcm_drain (s, k) =
     (if length (pcm_pcmBuf s) < pcmChunkFloor then (None, s, k)
      else case pcm_emit (take pcmChunkFloor (pcm_pcmBuf s)) False
          (s\<lparr>pcm_pcmBuf := drop pcmChunkFloor (pcm_pcmBuf s), pcm_anySent := True\<rparr>, k) of
        (Some err, st) \<Rightarrow> (Some err, st)
      | (None, st) \<Rightarrow> pcm_drain st)"
  by pat_completeness auto
termination
proof (relation "measure (\<lambda>(s, k). length (pcm_pcmBuf s))")
  fix s k r st
  assume a: "\<not> length (pcm_pcmBuf s) < pcmChunkFloor"
    "(r, st) = pcm_emit (take pcmChunkFloor (pcm_pcmBuf s)) False
       (s\<lparr>pcm_pcmBuf := drop pcmChunkFloor (pcm_pcmBuf s), pcm_anySent := True\<rparr>, k)"
  have "pcm_pcmBuf (fst st) = drop pcmChunkFloor (pcm_pcmBuf s)"
    using a(2) by (auto simp: pcm_emit_def Let_def split: prod.splits option.splits)
  then show "(st, s, k) \<in> measure (\<lambda>(s, k). length (pcm_pcmBuf s))"
    using a(1) by (cases st) (simp add: pcmChunkFloor_def)
qed auto

definition pcm_push :: "TTSAudioChunk \<Rightarrow> string \<Rightarrow> pcmChunkStreamer \<times> sink \<Rightarrow> stream_error option \<times> pcmChunkStreamer \<times> sink" where
  "pcm_push tc sentenceContext st =
     (case st of (s, k) \<Rightarrow>
      if tc_Data tc = [] then (None, s, k)
      else if tc_Format tc \<noteq> ''pcm'' then (Some (ErrUnsupportedAudioFormat (tc_Format tc) sentenceContext), s, k)
      else case latchOrVerifyFormat tc s of
        Inl err \<Rightarrow> (Some err, s, k)
      | Inr s' \<Rightarrow> pcm_drain (s'\<lparr>pcm_pcmBuf := pcm_pcmBuf s' @ tc_Data tc\<rparr>, k))"

definition pcm_finish :: "pcmChunkStreamer \<times> sink \<Rightarrow> stream_error option \<times> pcmChunkStreamer \<times> sink" where
  "pcm_finish st =
     (case st of (s, k) \<Rightarrow>
      case (if pcm_pcmBuf s \<noteq> [] then pcm_emit (pcm_pcmBuf s) False (s\<lparr>pcm_anySent := True, pcm_pcmBuf := []\<rparr>, k) else (None, s, k)) of
        (Some err, st') \<Rightarrow> (Some err, st')
      | (None, s', k') \<Rightarrow> if pcm_anySent s' then pcm_emit [] True (s', k') else (None, s', k'))"

subsection \<open>Reading audio\<close>

text \<open>
  A reader is what its calls return: reads without an error, then one that comes with an error, where None is the end of the
  stream. No read gives more than the buffer holds.
\<close>

definition deliver ::
  "string \<Rightarrow> int \<Rightarrow> int \<Rightarrow> (TTSAudioChunk \<Rightarrow> 's \<Rightarrow> stream_error option \<times> 's) \<Rightarrow> byte list \<Rightarrow> 's \<Rightarrow> stream_error option \<times> 's" where
  "deliver fmt rate channels onChunk d st =
     (if d = [] then (None, st)
      else onChunk \<lparr>tc_Data = d, tc_Format = fmt, tc_SampleRate = rate, tc_Channels = channels\<rparr> st)"

fun streamPCM ::
  "byte list list \<Rightarrow> byte list \<times> string option \<Rightarrow> string \<Rightarrow> int \<Rightarrow> int \<Rightarrow> (TTSAudioChunk \<Rightarrow> 's \<Rightarrow> stream_error option \<times> 's)
   \<Rightarrow> 's \<Rightarrow> stream_error option \<times> 's" where
  "streamPCM (d # ds) fin fmt rate channels onChunk st =
     (case deliver fmt rate channels onChunk d st of
        (Some err, st') \<Rightarrow> (Some err, st')
      | (None, st') \<Rightarrow> streamPCM ds fin fmt rate channels onChunk st')"
| "streamPCM [] (d, e) fmt rate channels onChunk st =
     (case deliver fmt rate channels onChunk d st of
        (Some err, st') \<Rightarrow> (Some err, st')
      | (None, st') \<Rightarrow> (map_option ReadFailed e, st'))"

end
