(* ===== verification/Voice_Wav.thy ===== *)
theory Voice_Wav
  imports Voice_Stream Config_Defaults
begin

text \<open>
  \<^verbatim>\<open>internal/voice/hub.go\<close> and \<^verbatim>\<open>hub_turn.go\<close>: the audio files of a voice turn. The header of a WAV file is walked chunk by
  chunk up to its samples, and the reply of a speech synthesiser becomes a stream of samples. The walk reads exact numbers of bytes,
  so how the transport cuts them does not matter to it: it works on the bytes the reader will give. Uint32 sizes are natural
  numbers below \<open>2 ^ 32\<close>; the 64-bit sums made from them do not overflow.
\<close>

section \<open>Readers\<close>

text \<open>The reads that return no error, and the last one, whose error None is the end of the stream.\<close>

type_synonym reader = "byte list list \<times> byte list \<times> string option"

fun rd_bytes :: "reader \<Rightarrow> byte list" where
  "rd_bytes (ds, d, e) = concat ds @ d"

fun rd_drop :: "nat \<Rightarrow> reader \<Rightarrow> reader" where
  "rd_drop n ([], d, e) = ([], drop n d, e)"
| "rd_drop n (x # ds, d, e) = (if n < length x then (drop n x # ds, d, e) else rd_drop (n - length x) (ds, d, e))"

text \<open>A limited reader gives the end of the stream after its limit, whatever the inner reader has left.\<close>

fun LimitReader :: "reader \<Rightarrow> nat \<Rightarrow> reader" where
  "LimitReader ([], d, e) n = (if n = 0 then ([], [], None) else if length d \<le> n then ([], d, e) else ([], take n d, None))"
| "LimitReader (x # ds, d, e) n =
     (if n = 0 then ([], [], None)
      else if length x \<le> n then (case LimitReader (ds, d, e) (n - length x) of (ds', fin) \<Rightarrow> (x # ds', fin))
      else ([], take n x, None))"

definition MultiReader :: "byte list \<Rightarrow> reader \<Rightarrow> reader" where
  "MultiReader d r = (case r of (ds, fin) \<Rightarrow> (d # ds, fin))"

section \<open>The header of a WAV file\<close>

definition ascii :: "string \<Rightarrow> byte list" where
  "ascii s = map (\<lambda>c. of_nat (of_char c)) s"

definition le16 :: "byte list \<Rightarrow> nat" where
  "le16 bs = unat (bs ! 0) + 256 * unat (bs ! 1)"

definition le32 :: "byte list \<Rightarrow> nat" where
  "le32 bs = le16 (take 2 bs) + 65536 * le16 (drop 2 bs)"

definition ReadFull :: "nat \<Rightarrow> byte list \<Rightarrow> (byte list \<times> byte list) option" where
  "ReadFull n r = (if length r < n then None else Some (take n r, drop n r))"

record wavInfo =
  wi_isRIFF :: bool
  wi_haveFmt :: bool
  wi_streamable :: bool
  wi_sampleRate :: int
  wi_channels :: int
  wi_dataSize :: nat

definition no_wav :: wavInfo where
  "no_wav = \<lparr>wi_isRIFF = False, wi_haveFmt = False, wi_streamable = False, wi_sampleRate = 0, wi_channels = 0, wi_dataSize = 0\<rparr>"

definition maxWAVHeaderSkip :: nat where "maxWAVHeaderSkip = 2 ^ 20"

definition slice :: "nat \<Rightarrow> nat \<Rightarrow> 'a list \<Rightarrow> 'a list" where
  "slice i j xs = take (j - i) (drop i xs)"

text \<open>None is the result \<^verbatim>\<open>ok = false\<close>, after which nothing more is read.\<close>

definition parseWAVFmtChunk :: "byte list \<Rightarrow> nat \<Rightarrow> wavInfo \<Rightarrow> (bool \<times> nat \<times> wavInfo \<times> byte list) option" where
  "parseWAVFmtChunk r sz info =
     (if sz < 16 \<or> sz > 4096 then None
      else case ReadFull sz r of
        None \<Rightarrow> None
      | Some (body, r1) \<Rightarrow>
          (case (if sz mod 2 = 1 then map_option snd (ReadFull 1 r1) else Some r1) of
            None \<Rightarrow> None
          | Some r2 \<Rightarrow>
              let tag0 = le16 (slice 0 2 body);
                  tag = (if tag0 = 0xFFFE \<and> sz \<ge> 26 then le16 (slice 24 26 body) else tag0);
                  ch = int (le16 (slice 2 4 body));
                  rate = int (le32 (slice 4 8 body));
                  bits = le16 (slice 14 16 body)
              in Some (tag = 1, bits,
                   info\<lparr>wi_channels := (if ch \<le> 0 then 1 else ch), wi_sampleRate := (if rate \<le> 0 then 24000 else rate),
                        wi_haveFmt := True\<rparr>, r2)))"

lemma ReadFull_length: "ReadFull n r = Some (a, b) \<Longrightarrow> length b + n = length r"
  by (auto simp: ReadFull_def split: if_splits)

lemma parseWAVFmtChunk_length: "parseWAVFmtChunk r sz info = Some (p, b, i, r') \<Longrightarrow> length r' \<le> length r"
  by (auto simp: parseWAVFmtChunk_def Let_def dest!: ReadFull_length split: if_splits option.splits)

text \<open>The loop over chunks: the information and the bytes after the header of the data chunk.\<close>

function walk_chunks :: "bool \<Rightarrow> nat \<Rightarrow> wavInfo \<Rightarrow> byte list \<Rightarrow> wavInfo \<times> byte list" where
  "walk_chunks isPCM bits info r =
     (case ReadFull 8 r of
        None \<Rightarrow> (info, [])
      | Some (ch, r1) \<Rightarrow>
          let ident = slice 0 4 ch; sz = le32 (slice 4 8 ch) in
          if ident = ascii ''data'' then
            (info\<lparr>wi_dataSize := sz, wi_streamable := (wi_haveFmt info \<and> isPCM \<and> bits = 16)\<rparr>, r1)
          else if ident = ascii ''fmt '' then
            (case parseWAVFmtChunk r1 sz info of
               None \<Rightarrow> (info, r1)
             | Some (isPCM', bits', info', r2) \<Rightarrow> walk_chunks isPCM' bits' info' r2)
          else
            let skip = sz + sz mod 2 in
            if skip > maxWAVHeaderSkip then (info, r1)
            else case ReadFull skip r1 of
              None \<Rightarrow> (info, [])
            | Some (_, r2) \<Rightarrow> walk_chunks isPCM bits info r2)"
  by pat_completeness auto
termination
  by (relation "measure (\<lambda>(p, b, i, r). length r)")
    (auto dest!: ReadFull_length parseWAVFmtChunk_length )

definition parseWAVHeader :: "byte list \<Rightarrow> wavInfo \<times> byte list" where
  "parseWAVHeader r =
     (case ReadFull 12 r of
        None \<Rightarrow> (no_wav, [])
      | Some (riff, r1) \<Rightarrow>
          if slice 0 4 riff \<noteq> ascii ''RIFF'' \<or> slice 8 12 riff \<noteq> ascii ''WAVE'' then (no_wav, r1)
          else walk_chunks False 0 (no_wav\<lparr>wi_isRIFF := True\<rparr>) r1)"

datatype audio_error = ErrInvalidAudio

text \<open>The recording of a turn: Inl for a reader that fails, None for no reader.\<close>

definition readAndValidateWAVAudio :: "(string + byte list) option \<Rightarrow> audio_error + byte list" where
  "readAndValidateWAVAudio audio =
     (case audio of
        None \<Rightarrow> Inl ErrInvalidAudio
      | Some (Inl _) \<Rightarrow> Inl ErrInvalidAudio
      | Some (Inr wavData) \<Rightarrow>
          if length wavData < 44 \<or> take 4 wavData \<noteq> ascii ''RIFF'' then Inl ErrInvalidAudio else Inr wavData)"

section \<open>The reply of the synthesiser\<close>

definition Contains :: "string \<Rightarrow> string \<Rightarrow> bool" where
  "Contains s t \<longleftrightarrow> list_ex (\<lambda>i. HasPrefix (drop i s) t) [0..<Suc (length s)]"

definition is_digit :: "char \<Rightarrow> bool" where
  "is_digit c \<longleftrightarrow> 48 \<le> (of_char c :: nat) \<and> (of_char c :: nat) \<le> 57"

text \<open>\<^verbatim>\<open>strconv.Atoi\<close>: an optional sign, then decimal digits only, in the range of int64.\<close>

definition Atoi :: "string \<Rightarrow> int option" where
  "Atoi s =
     (let neg = (take 1 s = ''-''); ds = (if take 1 s = ''-'' \<or> take 1 s = ''+'' then drop 1 s else s);
          v = (if neg then - int (read_nat ds) else int (read_nat ds))
      in if ds = [] \<or> \<not> list_all is_digit ds \<or> v < - (2 ^ 63) \<or> v \<ge> 2 ^ 63 then None else Some v)"

text \<open>
  A reply: its status, content type, the parameters of the content type as the media type parser reads them (all empty when it
  fails), the headers (empty when absent) and the body.
\<close>

record tts_response =
  tr_StatusCode :: int
  tr_ContentType :: string
  tr_params :: "string \<Rightarrow> string"
  tr_Header :: "string \<Rightarrow> string"
  tr_Body :: reader

definition pick :: "tts_response \<Rightarrow> string \<Rightarrow> string \<Rightarrow> int" where
  "pick resp param header =
     (case filter (\<lambda>v. v > 0) (List.map_filter (\<lambda>s. Atoi (TrimSpace s)) [tr_params resp param, tr_Header resp header]) of
        [] \<Rightarrow> 0 | v # _ \<Rightarrow> v)"

definition ttsRateFromResponse :: "tts_response \<Rightarrow> int \<times> int" where
  "ttsRateFromResponse resp =
     (let r = pick resp ''rate'' ''X-Sample-Rate''; c = pick resp ''channels'' ''X-Channels''
      in (if r > 0 then r else 24000, if c > 0 then c else 1))"

record DefaultTTSClient =
  tts_url :: string
  tts_model :: string
  tts_voice :: string

text \<open>\<open>post\<close> is the HTTP exchange for a text: an error, or the reply.\<close>

definition Synthesize ::
  "(string \<Rightarrow> string + tts_response) \<Rightarrow> DefaultTTSClient \<Rightarrow> string \<Rightarrow> (TTSAudioChunk \<Rightarrow> 's \<Rightarrow> stream_error option \<times> 's)
   \<Rightarrow> 's \<Rightarrow> stream_error option \<times> 's" where
  "Synthesize post t txt onChunk st =
     (if tts_url t = [] \<or> TrimSpace txt = [] then (None, st)
      else case post txt of
        Inl err \<Rightarrow> (Some (RequestFailed err), st)
      | Inr resp \<Rightarrow>
          if \<not> (200 \<le> tr_StatusCode resp \<and> tr_StatusCode resp < 300) then (Some (HTTPError ''tts'' (tr_StatusCode resp)), st)
          else
            let ct = ToLower (tr_ContentType resp); bytes = rd_bytes (tr_Body resp) in
            case parseWAVHeader bytes of (info, rest) \<Rightarrow>
              let consumed = length bytes - length rest; unread = rd_drop consumed (tr_Body resp) in
              if wi_streamable info then
                (case (if wi_dataSize info > 0 \<and> wi_dataSize info \<noteq> 0xFFFFFFFF then LimitReader unread (wi_dataSize info) else unread) of
                   (reads, fin) \<Rightarrow> streamPCM reads fin ''pcm'' (wi_sampleRate info) (wi_channels info) onChunk st)
              else if wi_isRIFF info then (Some (UnsupportedAudio ''WAV payload is not 16-bit PCM''), st)
              else if Contains ct ''pcm'' \<or> Contains ct ''raw'' then
                (case ttsRateFromResponse resp of (rate, channels) \<Rightarrow>
                 case MultiReader (take consumed bytes) unread of (reads, fin) \<Rightarrow> streamPCM reads fin ''pcm'' rate channels onChunk st)
              else (Some (UnsupportedAudio (''TTS response content type '' @ ct)), st))"

end
