(* ===== verification/Voice_Turn.thy ===== *)
theory Voice_Turn
  imports Voice_Wav Voice_Coordinator Chatlog
begin

text \<open>
  \<^verbatim>\<open>internal/voice/hub.go\<close>, \<^verbatim>\<open>hub_turn.go\<close> and \<^verbatim>\<open>fastpath.go\<close>: one voice turn from the recording to the spoken reply. The
  recogniser, the brain, the fast path and the synthesiser's server are parameters: a brain is what it calls back, in order, and what
  it returns. The ticks of the thinking heartbeat, a second thread, stand in that order where they happen. A tick that has passed
  its last check when the heartbeat is stopped and is sent afterwards is not modelled, and neither are panics of a client.
  Wall-clock measurements are left out: a metric is recorded with its labels only.
\<close>

section \<open>Clients\<close>

record AskRequest =
  aq_Prompt :: string
  aq_SessionID :: string
  aq_NodeID :: string
  aq_Speaker :: string
  aq_SpeakerScore :: f64

datatype brain_step = Status string | Sentence string | Tick int

text \<open>Whether the brain streams sentences, and what it does with a request: its callbacks and an error or a reply.\<close>

record BrainClient =
  br_streaming :: bool
  br_ask :: "AskRequest \<Rightarrow> brain_step list \<times> (string + string)"

record FastPathResult =
  fr_Handled :: bool
  fr_Outcome :: string
  fr_Reply :: string

record EdgeTimings =
  et_WakeEvalSec :: f64
  et_UtteranceSpeechSec :: f64
  et_UtteranceSilenceSec :: f64

text \<open>
  The surroundings of one turn: the clients (None for a nil client), what the wait for the speaker match brings, whether an
  error of a stage counts as a timeout, the session identifier made up for a request without one, the clock at the two chat
  messages and the duration reported at the end.
\<close>

record turn_env =
  te_stt :: "(byte list \<Rightarrow> string + string) option"
  te_match :: "(byte list \<Rightarrow> string \<times> f64) option"
  te_brain :: "BrainClient option"
  te_fast :: "(AskRequest \<Rightarrow> string list \<times> FastPathResult) option"
  te_tts :: "((string \<Rightarrow> string + tts_response) \<times> DefaultTTSClient) option"
  te_timeout :: "string \<Rightarrow> err_text \<Rightarrow> bool"
  te_session :: string
  te_heard :: gotime
  te_answered :: gotime
  te_duration :: int

section \<open>The hub\<close>

datatype metric = StageDuration string string string | StageError string string string | TurnCount string string

record VoiceHub =
  hb_inFlight :: bool
  hb_cfg :: "VoiceHubConfig option"
  hb_coord :: "VoiceCoordinator option"
  hb_chatLog :: "Store option"
  hb_changes :: nat
  hb_metrics :: "metric list"

datatype turn_error =
    ErrHubDisabled
  | ErrInteractionBusy
  | TurnInvalidAudio
  | ErrSTTFailed "string option"
  | ErrBrainFailed "err_text option"
  | ErrBrainTimeout err_text
  | TurnTTS stream_error
  | TurnSink string

definition hub_transition :: "string \<Rightarrow> string option \<Rightarrow> string option \<Rightarrow> string option \<Rightarrow> VoiceHub \<Rightarrow> VoiceHub" where
  "hub_transition state transcript reply engine h =
     h\<lparr>hb_coord := map_option (\<lambda>c. snd (Transition state transcript reply engine None c)) (hb_coord h)\<rparr>"

definition record_metric :: "metric \<Rightarrow> VoiceHub \<Rightarrow> VoiceHub" where
  "record_metric m h = h\<lparr>hb_metrics := hb_metrics h @ [m]\<rparr>"

definition hub_send :: "turn_event \<Rightarrow> VoiceHub \<times> sink \<Rightarrow> string option \<times> VoiceHub \<times> sink" where
  "hub_send e st = (case st of (h, k) \<Rightarrow> case send e k of (err, k') \<Rightarrow> (err, h, k'))"

text \<open>\<open>hb_changes\<close> counts the calls of \<^verbatim>\<open>onChat\<close>.\<close>

definition recordChat :: "gotime \<Rightarrow> string \<Rightarrow> string \<Rightarrow> string \<Rightarrow> string \<Rightarrow> VoiceHub \<Rightarrow> VoiceHub" where
  "recordChat now nodeID role author txt h =
     (case hb_chatLog h of
        None \<Rightarrow> h
      | Some store \<Rightarrow>
          if TrimSpace txt = [] then h
          else h\<lparr>hb_chatLog := Some (Add now (NodeKey nodeID) \<lparr>ms_Role = role, ms_Author = author, ms_Text = txt, ms_At = zero_time\<rparr> store),
                 hb_changes := hb_changes h + 1\<rparr>)"

definition recordEdgeTimings :: "string \<Rightarrow> EdgeTimings \<Rightarrow> VoiceHub \<Rightarrow> VoiceHub" where
  "recordEdgeTimings nodeID tm h =
     fold (\<lambda>(x, stage) h. if f64_less f64_zero x then record_metric (StageDuration nodeID stage ''success'') h else h)
       [(et_WakeEvalSec tm, ''wake_eval''), (et_UtteranceSpeechSec tm, ''utterance_speech''),
        (et_UtteranceSilenceSec tm, ''utterance_silence'')] h"

subsection \<open>Hearing\<close>

definition notifyTranscribing :: "VoiceHub \<times> sink \<Rightarrow> string option \<times> VoiceHub \<times> sink" where
  "notifyTranscribing st = hub_send (StateEvent StateTranscribing) (apfst (hub_transition StateTranscribing None None None) st)"

definition notifyThinking :: "turn_env \<Rightarrow> string \<Rightarrow> string \<Rightarrow> string \<Rightarrow> VoiceHub \<times> sink \<Rightarrow> string option \<times> VoiceHub \<times> sink" where
  "notifyThinking env transcript speaker nodeID st =
     hub_send (TranscriptEvent transcript speaker)
       (apfst (recordChat (te_heard env) nodeID RoleHuman speaker transcript \<circ> hub_transition StateThinking (Some transcript) None None) st)"

definition transcribeWithSpeaker ::
  "turn_env \<Rightarrow> byte list \<Rightarrow> string \<Rightarrow> VoiceHub \<times> sink \<Rightarrow> (turn_error + string \<times> string \<times> f64) \<times> VoiceHub \<times> sink" where
  "transcribeWithSpeaker env wavData nodeID st =
     (case te_stt env of
        None \<Rightarrow> (Inl (ErrSTTFailed None),
          apfst (record_metric (StageError nodeID ''stt'' ''stt_error'') \<circ> record_metric (StageDuration nodeID ''stt'' ''error'')) st)
      | Some stt \<Rightarrow>
          (case stt wavData of
             Inl err \<Rightarrow>
               (case hub_send (ErrorEvent ''stt_error'' (ErrText err))
                  (apfst (hub_transition StateError None None None \<circ> record_metric (StageError nodeID ''stt'' ''stt_error'')
                     \<circ> record_metric (StageDuration nodeID ''stt'' ''error'')) st) of
                  (Some sinkErr, st') \<Rightarrow> (Inl (TurnSink sinkErr), st')
                | (None, st') \<Rightarrow> (Inl (ErrSTTFailed (Some err)), st'))
           | Inr transcript \<Rightarrow>
               let match = (case te_match env of None \<Rightarrow> ([], f64_zero) | Some identify \<Rightarrow> identify wavData)
               in (Inr (transcript, match), apfst (record_metric (StageDuration nodeID ''stt'' ''success'')) st)))"

subsection \<open>Speaking\<close>

definition is_rejected :: "stream_error \<Rightarrow> bool" where
  "is_rejected e = (case e of ErrUnsupportedAudioFormat _ _ \<Rightarrow> True | ErrMixedPCMFormat _ _ _ _ \<Rightarrow> True | UnsupportedAudio _ \<Rightarrow> True | _ \<Rightarrow> False)"

definition is_unsupported :: "stream_error \<Rightarrow> bool" where
  "is_unsupported e = (case e of ErrUnsupportedAudioFormat _ _ \<Rightarrow> True | UnsupportedAudio _ \<Rightarrow> True | _ \<Rightarrow> False)"

text \<open>A streamer's operation on the sink of a turn.\<close>

definition with_hub ::
  "(pcmChunkStreamer \<times> sink \<Rightarrow> stream_error option \<times> pcmChunkStreamer \<times> sink) \<Rightarrow> pcmChunkStreamer \<times> VoiceHub \<times> sink
   \<Rightarrow> stream_error option \<times> pcmChunkStreamer \<times> VoiceHub \<times> sink" where
  "with_hub f st = (case st of (s, h, k) \<Rightarrow> case f (s, k) of (e, s', k') \<Rightarrow> (e, s', h, k'))"

text \<open>The error ends the turn only when audio was already sent.\<close>

definition recordTTSSynthesisError ::
  "turn_env \<Rightarrow> stream_error \<Rightarrow> string \<Rightarrow> bool \<Rightarrow> VoiceHub \<times> sink \<Rightarrow> turn_error option \<times> VoiceHub \<times> sink" where
  "recordTTSSynthesisError env ttsErr nodeID midStream st =
     (let errType = (if te_timeout env ''tts'' (ErrStream ttsErr) then ''tts_timeout'' else ''tts_error'');
          st1 = apfst (record_metric (StageError nodeID ''tts'' errType) \<circ> record_metric (StageDuration nodeID ''tts'' ''error'')) st;
          st2 = (if midStream then apfst (hub_transition StateError None None None) st1 else st1)
      in case hub_send (ErrorEvent errType (ErrStream ttsErr)) st2 of
           (Some sinkErr, st3) \<Rightarrow> (Some (TurnSink sinkErr), st3)
         | (None, st3) \<Rightarrow> (if midStream then Some (TurnTTS ttsErr) else None, st3))"

definition reply_chunk ::
  "string \<Rightarrow> string \<Rightarrow> string \<Rightarrow> TTSAudioChunk \<Rightarrow> pcmChunkStreamer \<times> VoiceHub \<times> sink
   \<Rightarrow> stream_error option \<times> pcmChunkStreamer \<times> VoiceHub \<times> sink" where
  "reply_chunk transcript reply engine tc st =
     (case st of (s, h, k) \<Rightarrow>
      if tc_Data tc = [] then (None, st)
      else with_hub (pcm_push tc [])
        (s, if pcm_anySent s then h else hub_transition StateSpeaking (Some transcript) (Some reply) (Some engine) h, k))"

text \<open>The flag says that synthesis failed without ending the turn: the status \<^verbatim>\<open>error\<close> with no error.\<close>

definition synthesizeAndEmitReply ::
  "turn_env \<Rightarrow> string \<Rightarrow> string \<Rightarrow> string \<Rightarrow> string \<Rightarrow> VoiceHub \<times> sink \<Rightarrow> turn_error option \<times> bool \<times> VoiceHub \<times> sink" where
  "synthesizeAndEmitReply env reply nodeID engine transcript st =
     (case te_tts env of
        None \<Rightarrow> (None, False, st)
      | Some (post, t) \<Rightarrow>
          if TrimSpace reply = [] then (None, False, st)
          else case Synthesize post t reply (reply_chunk transcript reply engine) (new_streamer False, st) of (ttsErr, s, st1) \<Rightarrow>
            if ttsErr \<noteq> None \<and> is_rejected (the ttsErr) then
              (case hub_send (ErrorEvent ''tts_error'' (ErrStream (the ttsErr)))
                 (apfst (hub_transition StateError None None None \<circ> record_metric (StageError nodeID ''tts'' ''tts_error'')
                    \<circ> record_metric (StageDuration nodeID ''tts'' ''error'')) st1) of
                 (Some sinkErr, st2) \<Rightarrow> (Some (TurnSink sinkErr), True, st2)
               | (None, st2) \<Rightarrow> (Some (TurnTTS (the ttsErr)), True, st2))
            else
              (case with_hub pcm_finish (s, st1) of
                 (Some err, s', st2) \<Rightarrow> (Some (TurnTTS err), True, st2)
               | (None, s', st2) \<Rightarrow>
                   (case ttsErr of
                      Some err \<Rightarrow>
                        (case recordTTSSynthesisError env err nodeID (pcm_anySent s') st2 of (e, st3) \<Rightarrow> (e, True, st3))
                    | None \<Rightarrow> (None, False, apfst (record_metric (StageDuration nodeID ''tts'' ''success'')) st2))))"

text \<open>\<^verbatim>\<open>makeNonStreamingReplyEmitter\<close>\<close>

definition emitNonStreamingReply ::
  "turn_env \<Rightarrow> string \<Rightarrow> string \<Rightarrow> string \<Rightarrow> string \<Rightarrow> VoiceHub \<times> sink \<Rightarrow> turn_error option \<times> bool \<times> VoiceHub \<times> sink" where
  "emitNonStreamingReply env transcript engine nodeID reply st =
     (case hub_send (ReplyEvent reply engine) (apfst (hub_transition StateSpeaking (Some transcript) (Some reply) (Some engine)) st) of
        (Some err, st1) \<Rightarrow> (Some (TurnSink err), False, st1)
      | (None, st1) \<Rightarrow>
          if Option.is_none (te_tts env) then (None, False, st1) else synthesizeAndEmitReply env reply nodeID engine transcript st1)"
subsection \<open>Thinking\<close>

definition forward_status :: "string \<Rightarrow> VoiceHub \<times> sink \<Rightarrow> VoiceHub \<times> sink" where
  "forward_status status st =
     snd (hub_send (StatusEvent status)
       (apfst (\<lambda>h. h\<lparr>hb_coord := map_option (\<lambda>c. snd (voice_SetStatus (Some status) c)) (hb_coord h)\<rparr>) st))"

text \<open>A heartbeat ends when it is stopped or its event cannot be sent.\<close>

definition heartbeat :: "int \<Rightarrow> bool \<times> VoiceHub \<times> sink \<Rightarrow> bool \<times> VoiceHub \<times> sink" where
  "heartbeat elapsed st =
     (case st of (running, st1) \<Rightarrow>
      if \<not> running then st
      else case hub_send (ThinkingEvent (if elapsed \<le> 0 then 1 else elapsed)) st1 of (err, st2) \<Rightarrow> (err = None, st2))"

definition recordBrainStageError ::
  "turn_env \<Rightarrow> string \<Rightarrow> err_text \<Rightarrow> VoiceHub \<times> sink \<Rightarrow> turn_error \<times> VoiceHub \<times> sink" where
  "recordBrainStageError env nodeID err st =
     (let timedOut = te_timeout env ''brain'' err;
          errType = (if timedOut then ''brain_timeout'' else ''brain_error'');
          retErr = (if timedOut then ErrBrainTimeout err else ErrBrainFailed (Some err))
      in case hub_send (ErrorEvent errType err)
           (apfst (hub_transition StateError None None None \<circ> record_metric (StageError nodeID ''brain'' errType)
              \<circ> record_metric (StageDuration nodeID ''brain'' ''error'')) st) of
           (Some sinkErr, st') \<Rightarrow> (TurnSink sinkErr, st')
         | (None, st') \<Rightarrow> (retErr, st'))"

text \<open>Audio of a wrong format ends the reply; any other failure drops the sentence.\<close>

definition synthesizeStreamedSentence ::
  "turn_env \<Rightarrow> string \<Rightarrow> pcmChunkStreamer \<times> sink \<Rightarrow> stream_error option \<times> pcmChunkStreamer \<times> sink" where
  "synthesizeStreamedSentence env txt st =
     (case te_tts env of
        None \<Rightarrow> (None, st)
      | Some (post, t) \<Rightarrow>
          (case Synthesize post t txt
             (\<lambda>tc (pushErr, st). if tc_Data tc = [] then (None, pushErr, st)
                else case pcm_push tc txt st of (Some e, st') \<Rightarrow> (Some e, Some e, st') | (None, st') \<Rightarrow> (None, pushErr, st'))
             (None, st) of
             (ttsErr, Some pushErr, st') \<Rightarrow> (Some pushErr, st')
           | (Some ttsErr, None, st') \<Rightarrow> (if is_unsupported ttsErr then Some ttsErr else None, st')
           | (None, None, st') \<Rightarrow> (None, st')))"

record streamAudioCollector =
  col_streamer :: pcmChunkStreamer
  col_caption :: string
  col_streamedAny :: bool
  col_streamErr :: "stream_error option"
  col_thinking :: bool

definition onAudio ::
  "turn_env \<Rightarrow> string \<Rightarrow> string \<Rightarrow> string \<Rightarrow> streamAudioCollector \<times> VoiceHub \<times> sink \<Rightarrow> streamAudioCollector \<times> VoiceHub \<times> sink" where
  "onAudio env transcript engine txt st =
     (case st of (c0, h, k) \<Rightarrow>
      let c = c0\<lparr>col_thinking := False\<rparr> in
      if col_streamErr c \<noteq> None \<or> TrimSpace txt = [] then (c, h, k)
      else
        let caption = col_caption c @ (if col_caption c \<noteq> [] \<and> txt \<noteq> [] then '' '' else []) @ txt;
            h' = hub_transition StateSpeaking (Some transcript) (Some caption) (Some engine) h
        in case synthesizeStreamedSentence env txt (col_streamer c, k) of (err, s', k') \<Rightarrow>
             (c\<lparr>col_streamer := s', col_caption := caption, col_streamedAny := True, col_streamErr := err\<rparr>, h', k'))"

fun stream_step ::
  "turn_env \<Rightarrow> string \<Rightarrow> string \<Rightarrow> brain_step \<Rightarrow> streamAudioCollector \<times> VoiceHub \<times> sink \<Rightarrow> streamAudioCollector \<times> VoiceHub \<times> sink" where
  "stream_step env transcript engine (Status s) st = apsnd (forward_status s) st"
| "stream_step env transcript engine (Sentence t) st = onAudio env transcript engine t st"
| "stream_step env transcript engine (Tick n) (c, st) =
     (case heartbeat n (col_thinking c, st) of (running, st') \<Rightarrow> (c\<lparr>col_thinking := running\<rparr>, st'))"

fun unary_step :: "brain_step \<Rightarrow> bool \<times> VoiceHub \<times> sink \<Rightarrow> bool \<times> VoiceHub \<times> sink" where
  "unary_step (Status s) st = apsnd (forward_status s) st"
| "unary_step (Sentence t) st = st"
| "unary_step (Tick n) st = heartbeat n st"

subsection \<open>Asking the brain\<close>

definition no_sentences :: "brain_step list \<Rightarrow> brain_step list" where
  "no_sentences steps = filter (\<lambda>s. case s of Sentence _ \<Rightarrow> False | _ \<Rightarrow> True) steps"

text \<open>
  \<^verbatim>\<open>fastPathBrain.AskStreaming\<close>: the callbacks, the outcome, the outcome of the fast path, and whether the brain was asked. A
  brain that does not stream calls back no sentences.
\<close>

definition fast_AskStreaming ::
  "(AskRequest \<Rightarrow> string list \<times> FastPathResult) \<Rightarrow> BrainClient option \<Rightarrow> AskRequest
   \<Rightarrow> brain_step list \<times> (string + string) \<times> string \<times> bool" where
  "fast_AskStreaming try inner req =
     (case try req of (sentences, res) \<Rightarrow>
      if fr_Handled res then (map Sentence sentences, Inr (fr_Reply res), fr_Outcome res, False)
      else case inner of
        None \<Rightarrow> (map Sentence sentences, Inl ''agent brain deliberation failed'', fr_Outcome res, True)
      | Some b \<Rightarrow>
          (case br_ask b req of (steps, result) \<Rightarrow>
             (map Sentence sentences @ (if br_streaming b then steps else no_sentences steps), result, fr_Outcome res, True)))"

definition finalizeStreamerPlayback ::
  "string \<Rightarrow> pcmChunkStreamer \<Rightarrow> VoiceHub \<times> sink \<Rightarrow> stream_error option \<times> VoiceHub \<times> sink" where
  "finalizeStreamerPlayback nodeID s st =
     (case with_hub pcm_finish (s, st) of
        (Some err, s', st') \<Rightarrow> (Some err, st')
      | (None, s', st') \<Rightarrow> (None, apfst (record_metric (StageDuration nodeID ''tts'' ''success'')) st'))"

definition emitStreamedReply ::
  "turn_env \<Rightarrow> string \<Rightarrow> string \<Rightarrow> string \<Rightarrow> string \<Rightarrow> pcmChunkStreamer \<Rightarrow> VoiceHub \<times> sink
   \<Rightarrow> turn_error option \<times> bool \<times> VoiceHub \<times> sink" where
  "emitStreamedReply env reply transcript nodeID engine s st0 =
     (let st = apfst (hub_transition StateSpeaking (Some transcript) (Some reply) (Some engine)) st0 in
      case (if pcm_anySent s \<or> pcm_pcmBuf s \<noteq> [] then
              (case finalizeStreamerPlayback nodeID s st of (e, st1) \<Rightarrow> (map_option TurnTTS e, False, st1))
            else if Option.is_none (te_tts env) then (None, False, st)
            else synthesizeAndEmitReply env reply nodeID engine transcript st) of
        (Some err, failed, st1) \<Rightarrow> (Some err, True, st1)
      | (None, failed, st1) \<Rightarrow>
          (case hub_send (ReplyEvent reply engine) st1 of
             (Some err, st2) \<Rightarrow> (Some (TurnSink err), True, st2)
           | (None, st2) \<Rightarrow> (None, failed, st2)))"

definition new_collector :: streamAudioCollector where
  "new_collector = \<lparr>col_streamer = new_streamer True, col_caption = [], col_streamedAny = False, col_streamErr = None,
     col_thinking = True\<rparr>"

definition answered :: "turn_env \<Rightarrow> string \<Rightarrow> bool \<Rightarrow> string \<Rightarrow> VoiceHub \<Rightarrow> VoiceHub" where
  "answered env nodeID recordBrain reply h =
     recordChat (te_answered env) nodeID RoleAgent [] reply
       (if recordBrain then record_metric (StageDuration nodeID ''brain'' ''success'') h else h)"

definition deliberateStreaming ::
  "turn_env \<Rightarrow> brain_step list \<times> (string + string) \<times> bool \<Rightarrow> string \<Rightarrow> string \<Rightarrow> string \<Rightarrow> VoiceHub \<times> sink
   \<Rightarrow> turn_error option \<times> bool \<times> VoiceHub \<times> sink" where
  "deliberateStreaming env asked transcript nodeID engine st =
     (case asked of (steps, result, recordBrain) \<Rightarrow>
      case fold (stream_step env transcript engine) steps (new_collector, st) of (col, st1) \<Rightarrow>
      case (case col_streamErr col of Some e \<Rightarrow> Inl (ErrStream e) | None \<Rightarrow> map_sum ErrText id result) of
        Inl err \<Rightarrow> (case recordBrainStageError env nodeID err st1 of (e, st2) \<Rightarrow> (Some e, True, st2))
      | Inr reply \<Rightarrow>
          let st2 = apfst (answered env nodeID recordBrain reply) st1 in
          if col_streamedAny col then emitStreamedReply env reply transcript nodeID engine (col_streamer col) st2
          else emitNonStreamingReply env transcript engine nodeID reply st2)"

definition deliberateUnary ::
  "turn_env \<Rightarrow> brain_step list \<times> (string + string) \<Rightarrow> string \<Rightarrow> string \<Rightarrow> string \<Rightarrow> VoiceHub \<times> sink
   \<Rightarrow> turn_error option \<times> bool \<times> VoiceHub \<times> sink" where
  "deliberateUnary env asked transcript nodeID engine st =
     (case asked of (steps, result) \<Rightarrow>
      case fold unary_step steps (True, st) of (running, st1) \<Rightarrow>
      case result of
        Inl err \<Rightarrow> (case recordBrainStageError env nodeID (ErrText err) st1 of (e, st2) \<Rightarrow> (Some e, True, st2))
      | Inr reply \<Rightarrow> emitNonStreamingReply env transcript engine nodeID reply (apfst (answered env nodeID True reply) st1))"

text \<open>The brain of a turn is the fast path around the brain when there is one, and then it streams.\<close>

definition deliberateTurn ::
  "turn_env \<Rightarrow> BrainClient \<Rightarrow> AskRequest \<Rightarrow> string \<Rightarrow> string \<Rightarrow> string \<Rightarrow> VoiceHub \<times> sink \<Rightarrow> turn_error option \<times> bool \<times> VoiceHub \<times> sink" where
  "deliberateTurn env b req transcript nodeID engine st =
     (case te_fast env of
        Some try \<Rightarrow>
          (case fast_AskStreaming try (Some b) req of (steps, result, outcome, recordBrain) \<Rightarrow>
             deliberateStreaming env (steps, result, recordBrain) transcript nodeID engine
               (apfst (record_metric (StageDuration nodeID ''fast_path'' outcome)) st))
      | None \<Rightarrow>
          if br_streaming b then
            (case br_ask b req of (steps, result) \<Rightarrow> deliberateStreaming env (steps, result, True) transcript nodeID engine st)
          else deliberateUnary env (br_ask b req) transcript nodeID engine st)"

subsection \<open>The turn\<close>

text \<open>The turn between its begin and its end: the error it returns and whether its status is \<^verbatim>\<open>error\<close>.\<close>

definition run_turn ::
  "turn_env \<Rightarrow> byte list \<Rightarrow> string \<Rightarrow> string \<Rightarrow> VoiceHub \<times> sink \<Rightarrow> turn_error option \<times> bool \<times> VoiceHub \<times> sink" where
  "run_turn env wavData nodeID sessionID st =
     (case notifyTranscribing st of
        (Some err, st1) \<Rightarrow> (Some (TurnSink err), True, st1)
      | (None, st1) \<Rightarrow>
     (case transcribeWithSpeaker env wavData nodeID st1 of
        (Inl err, st2) \<Rightarrow> (Some err, True, st2)
      | (Inr (transcript, speaker, score), st2) \<Rightarrow>
     (case notifyThinking env transcript speaker nodeID st2 of
        (Some err, st3) \<Rightarrow> (Some (TurnSink err), True, st3)
      | (None, st3) \<Rightarrow>
     (case te_brain env of
        None \<Rightarrow> (Some (ErrBrainFailed None), True,
          apfst (record_metric (StageError nodeID ''brain'' ''brain_error'') \<circ> record_metric (StageDuration nodeID ''brain'' ''error'')) st3)
      | Some b \<Rightarrow>
          let req = \<lparr>aq_Prompt = transcript, aq_SessionID = sessionID, aq_NodeID = nodeID, aq_Speaker = speaker, aq_SpeakerScore = score\<rparr>
          in case deliberateTurn env b req transcript nodeID (GetTTSModel (hb_cfg (fst st3))) st3 of
               (Some err, failed, st4) \<Rightarrow> (Some err, True, st4)
             | (None, failed, st4) \<Rightarrow>
                 (case hub_send (DoneEvent (te_duration env)) st4 of
                    (Some err, st5) \<Rightarrow> (Some (TurnSink err), True, st5)
                  | (None, st5) \<Rightarrow> (None, failed, st5))))))"

definition handleTurnPanicOrError :: "turn_error option \<Rightarrow> VoiceHub \<Rightarrow> VoiceHub" where
  "handleTurnPanicOrError retErr h = (if retErr = None then h else hub_transition StateError None None None h)"

definition Interact ::
  "turn_env \<Rightarrow> (string + byte list) option \<Rightarrow> string \<Rightarrow> string \<Rightarrow> EdgeTimings \<Rightarrow> VoiceHub \<times> sink \<Rightarrow> turn_error option \<times> VoiceHub \<times> sink" where
  "Interact env audio nodeID sessionID0 timings st =
     (case st of (h, k) \<Rightarrow>
      if \<not> voicehub_IsEnabled (hb_cfg h) then (Some ErrHubDisabled, h, k)
      else if hb_inFlight h then (Some ErrInteractionBusy, h, k)
      else
        let h1 = h\<lparr>hb_inFlight := True\<rparr>; sessionID = (if sessionID0 = [] then te_session env else sessionID0) in
        case readAndValidateWAVAudio audio of
          Inl _ \<Rightarrow> (Some TurnInvalidAudio, h1\<lparr>hb_inFlight := False\<rparr>, k)
        | Inr wavData \<Rightarrow>
            (case run_turn env wavData nodeID sessionID (recordEdgeTimings nodeID timings h1, k) of (retErr, failed, h2, k2) \<Rightarrow>
             let h3 = record_metric (TurnCount nodeID (if failed then ''error'' else ''success'')) h2
             in (retErr, (handleTurnPanicOrError retErr h3)\<lparr>hb_inFlight := False\<rparr>, k2)))"

end
