(* ===== verification/Voice_Stream_Props.thy ===== *)
theory Voice_Stream_Props
  imports Voice_Stream
begin

text \<open>
  The audio that leaves a streamer is the audio that entered it.
\<close>

section \<open>Base64\<close>

definition b64_index :: "char \<Rightarrow> nat" where
  "b64_index c = length (takeWhile (\<lambda>d. d \<noteq> c) b64_alphabet)"

fun unbase64 :: "string \<Rightarrow> byte list" where
  "unbase64 (w # x # y # z # cs) =
     (if z = CHR ''='' then
        if y = CHR ''='' then [of_nat (b64_index w * 4 + b64_index x div 16)]
        else [of_nat (b64_index w * 4 + b64_index x div 16), of_nat (b64_index x mod 16 * 16 + b64_index y div 4)]
      else [of_nat (b64_index w * 4 + b64_index x div 16), of_nat (b64_index x mod 16 * 16 + b64_index y div 4),
            of_nat (b64_index y mod 4 * 64 + b64_index z)] @ unbase64 cs)"
| "unbase64 _ = []"

lemma b64_index_char: "n < 64 \<Longrightarrow> b64_index (b64_char n) = n"
proof -
  have "\<forall>n \<in> set [0..<64]. b64_index (b64_char n) = n" by code_simp
  then show "n < 64 \<Longrightarrow> b64_index (b64_char n) = n" by simp
qed

lemma b64_char_pad: "n < 64 \<Longrightarrow> b64_char n \<noteq> CHR ''=''"
proof -
  have "\<forall>n \<in> set [0..<64]. b64_char n \<noteq> CHR ''=''" by code_simp
  then show "n < 64 \<Longrightarrow> b64_char n \<noteq> CHR ''=''" by simp
qed

lemma byte_bound: "unat (a :: byte) < 256"
  using unsigned_less [of a] by simp

lemma group_split: "r < (m :: nat) \<Longrightarrow> (q * m + r) div m = q" "r < (m :: nat) \<Longrightarrow> (q * m + r) mod m = r"
  by simp_all

lemma byte_groups:
  fixes a b c :: nat
  assumes "a < 256" "b < 256" "c < 256"
  shows "a div 4 < 64" "a mod 4 * 16 + b div 16 < 64" "b mod 16 * 4 + c div 64 < 64" "c mod 64 < 64" "a mod 4 * 16 < 64" "b mod 16 * 4 < 64"
    "a div 4 * 4 + (a mod 4 * 16 + b div 16) div 16 = a" "(a mod 4 * 16 + b div 16) mod 16 * 16 + (b mod 16 * 4 + c div 64) div 4 = b"
    "(b mod 16 * 4 + c div 64) mod 4 * 64 + c mod 64 = c" "a div 4 * 4 + a mod 4 * 16 div 16 = a"
    "(a mod 4 * 16 + b div 16) mod 16 * 16 + b mod 16 * 4 div 4 = b"
proof -
  have d: "b div 16 < 16" "c div 64 < 4" "a mod 4 < 4" "b mod 16 < 16" "a div 4 < 64" using assms by (simp_all add: less_mult_imp_div_less)
  show "a div 4 < 64" "c mod 64 < 64" using d by simp_all
  show "a mod 4 * 16 + b div 16 < 64" "b mod 16 * 4 + c div 64 < 64" "a mod 4 * 16 < 64" "b mod 16 * 4 < 64" using d by linarith+
  show "a div 4 * 4 + (a mod 4 * 16 + b div 16) div 16 = a" "(a mod 4 * 16 + b div 16) mod 16 * 16 + (b mod 16 * 4 + c div 64) div 4 = b"
    "(b mod 16 * 4 + c div 64) mod 4 * 64 + c mod 64 = c" "a div 4 * 4 + a mod 4 * 16 div 16 = a"
    "(a mod 4 * 16 + b div 16) mod 16 * 16 + b mod 16 * 4 div 4 = b"
    using d by (simp_all only: group_split div_mult_mod_eq nonzero_mult_div_cancel_right)
qed

lemma unbase64_base64 [simp]: "unbase64 (base64 bs) = bs"
proof (induction bs rule: base64.induct)
  case (1 a b c bs)
  note g = byte_groups [OF byte_bound [of a] byte_bound [of b] byte_bound [of c]]
  show ?case using 1 g by (simp add: b64_index_char b64_char_pad)
next
  case (2 a b)
  note g = byte_groups [OF byte_bound [of a] byte_bound [of b] byte_bound [of 0]]
  show ?case using g by (simp add: b64_index_char b64_char_pad)
next
  case (3 a)
  note g = byte_groups [OF byte_bound [of a] byte_bound [of 0] byte_bound [of 0]]
  show ?case using g by (simp add: b64_index_char b64_char_pad)
qed simp

section \<open>Slicing\<close>

definition slice_at :: "nat \<Rightarrow> byte list \<Rightarrow> byte list" where
  "slice_at i D = take pcmChunkFloor (drop (i * pcmChunkFloor) D)"

definition full_slices :: "byte list \<Rightarrow> nat" where
  "full_slices D = length D div pcmChunkFloor"

definition remainder :: "byte list \<Rightarrow> byte list" where
  "remainder D = drop (full_slices D * pcmChunkFloor) D"

lemma floor_pos: "0 < pcmChunkFloor"
  by (simp add: pcmChunkFloor_def)

lemma full_slices_drop:
  assumes "pcmChunkFloor \<le> length D"
  shows "full_slices D = Suc (full_slices (drop pcmChunkFloor D))" "remainder (drop pcmChunkFloor D) = remainder D"
proof -
  show f: "full_slices D = Suc (full_slices (drop pcmChunkFloor D))"
    using assms floor_pos by (simp add: full_slices_def le_div_geq)
  show "remainder (drop pcmChunkFloor D) = remainder D" unfolding remainder_def f by (simp add: add.commute)
qed

lemma slice_at_drop: "slice_at i (drop (q * pcmChunkFloor) D) = slice_at (q + i) D"
  by (simp add: slice_at_def add_mult_distrib add.commute)

lemma slice_at_append: "i < full_slices D \<Longrightarrow> slice_at i (D @ E) = slice_at i D"
proof -
  assume "i < full_slices D"
  then have "Suc i * pcmChunkFloor \<le> length D"
    by (metis Suc_leI div_times_less_eq_dividend full_slices_def le_trans mult_le_mono1)
  then show ?thesis by (simp add: slice_at_def)
qed

lemma full_slices_append:
  shows "full_slices (D @ E) = full_slices D + full_slices (remainder D @ E)"
    "remainder D @ E = drop (full_slices D * pcmChunkFloor) (D @ E)" "remainder (remainder D @ E) = remainder (D @ E)"
proof -
  have le: "full_slices D * pcmChunkFloor \<le> length D" by (simp add: full_slices_def)
  then show r: "remainder D @ E = drop (full_slices D * pcmChunkFloor) (D @ E)" by (simp add: remainder_def)
  have "length (D @ E) = full_slices D * pcmChunkFloor + length (remainder D @ E)" using le by (simp add: remainder_def)
  then show f: "full_slices (D @ E) = full_slices D + full_slices (remainder D @ E)"
    unfolding full_slices_def [of "D @ E"] full_slices_def [of "remainder D @ E"] using floor_pos by (simp only: div_mult_self3)
  have "drop x (remainder D @ E) = drop (x + full_slices D * pcmChunkFloor) (D @ E)" for x unfolding r by (simp only: drop_drop)
  then show "remainder (remainder D @ E) = remainder (D @ E)"
    unfolding remainder_def [of "remainder D @ E"] remainder_def [of "D @ E"] f by (simp only: add_mult_distrib add.commute)
qed

lemma concat_slices: "concat (map (\<lambda>i. slice_at i D) [0..<full_slices D]) @ remainder D = D"
proof (induction "length D" arbitrary: D rule: less_induct)
  case less
  show ?case
  proof (cases "pcmChunkFloor \<le> length D")
    case True
    let ?D = "drop pcmChunkFloor D"
    have "map (\<lambda>i. slice_at i D) [0..<full_slices D] = slice_at 0 D # map (\<lambda>i. slice_at i ?D) [0..<full_slices ?D]"
      unfolding full_slices_drop(1) [OF True] using slice_at_drop [of _ 1 D] by (simp add: upt_conv_Cons map_Suc_upt [symmetric] del: upt_Suc)
    moreover have "slice_at 0 D = take pcmChunkFloor D" by (simp add: slice_at_def)
    ultimately show ?thesis using less [of ?D] True floor_pos full_slices_drop(2) [OF True] by simp
  qed (simp add: full_slices_def remainder_def)
qed

section \<open>The streamer\<close>

definition reliable :: "sink \<Rightarrow> bool" where
  "reliable k \<longleftrightarrow> (\<forall>l e. sk_fails k l e = None)"

definition out_rate :: "pcmChunkStreamer \<Rightarrow> int" where
  "out_rate s = (if pcm_rate s \<le> 0 then 24000 else pcm_rate s)"

definition out_channels :: "pcmChunkStreamer \<Rightarrow> int" where
  "out_channels s = (if pcm_channels s \<le> 0 then 1 else pcm_channels s)"

declare pcm_drain.simps [simp del]

lemma emit_reliable:
  "reliable k \<Longrightarrow> pcm_emit data fin (s, k) = (None, s\<lparr>pcm_chunkIdx := pcm_chunkIdx s + 1\<rparr>,
     k\<lparr>sk_log := sk_log k @ [AudioChunk (pcm_chunkIdx s) (out_rate s) (out_channels s) fin (base64 data)]\<rparr>)"
  by (simp add: pcm_emit_def send_def reliable_def out_rate_def out_channels_def Let_def)

lemma reliable_log [simp]: "reliable (k\<lparr>sk_log := l\<rparr>) = reliable k"
  by (simp add: reliable_def)

definition numbered :: "nat \<Rightarrow> int \<Rightarrow> int \<Rightarrow> byte list \<Rightarrow> turn_event list" where
  "numbered n r c D = map (\<lambda>i. AudioChunk (n + i) r c False (base64 (slice_at i D))) [0..<full_slices D]"

lemma numbered_drop:
  assumes "pcmChunkFloor \<le> length D"
  shows "numbered n r c D = AudioChunk n r c False (base64 (take pcmChunkFloor D)) # numbered (Suc n) r c (drop pcmChunkFloor D)"
proof -
  have "slice_at i (drop pcmChunkFloor D) = slice_at (Suc i) D" for i using slice_at_drop [of i 1 D] by simp
  moreover have "slice_at 0 D = take pcmChunkFloor D" by (simp add: slice_at_def)
  ultimately show ?thesis unfolding numbered_def full_slices_drop(1) [OF assms]
    by (simp add: upt_conv_Cons map_Suc_upt [symmetric] del: upt_Suc)
qed

lemma drain_reliable:
  "reliable k \<Longrightarrow> pcm_drain (s, k) = (None,
     s\<lparr>pcm_pcmBuf := remainder (pcm_pcmBuf s), pcm_chunkIdx := pcm_chunkIdx s + full_slices (pcm_pcmBuf s),
       pcm_anySent := (pcm_anySent s \<or> 0 < full_slices (pcm_pcmBuf s))\<rparr>,
     k\<lparr>sk_log := sk_log k @ numbered (pcm_chunkIdx s) (out_rate s) (out_channels s) (pcm_pcmBuf s)\<rparr>)"
proof (induction "length (pcm_pcmBuf s)" arbitrary: s k rule: less_induct)
  case less
  show ?case
  proof (cases "length (pcm_pcmBuf s) < pcmChunkFloor")
    case True
    then show ?thesis by (simp add: pcm_drain.simps full_slices_def remainder_def numbered_def)
  next
    case False
    then have le: "pcmChunkFloor \<le> length (pcm_pcmBuf s)" by simp
    define s' where "s' = s\<lparr>pcm_pcmBuf := drop pcmChunkFloor (pcm_pcmBuf s), pcm_anySent := True, pcm_chunkIdx := pcm_chunkIdx s + 1\<rparr>"
    define k' where "k' = k\<lparr>sk_log := sk_log k @ [AudioChunk (pcm_chunkIdx s) (out_rate s) (out_channels s) False (base64 (take pcmChunkFloor (pcm_pcmBuf s)))]\<rparr>"
    have step: "pcm_drain (s, k) = pcm_drain (s', k')"
      using False less.prems by (subst pcm_drain.simps)
        (simp add: emit_reliable s'_def k'_def out_rate_def out_channels_def)
    have "length (pcm_pcmBuf s') < length (pcm_pcmBuf s)" using le floor_pos by (simp add: s'_def)
    from less.hyps [OF this, of k'] less.prems show ?thesis unfolding step numbered_drop [OF le] full_slices_drop(1) [OF le]
      by (simp add: s'_def k'_def out_rate_def out_channels_def full_slices_drop(2) [OF le])
  qed
qed

text \<open>The streamer after audio \<open>D\<close> of one format.\<close>

definition streamed :: "int \<Rightarrow> int \<Rightarrow> turn_event list \<Rightarrow> byte list \<Rightarrow> pcmChunkStreamer \<times> sink \<Rightarrow> bool" where
  "streamed r c log D st \<longleftrightarrow> (case st of (s, k) \<Rightarrow> reliable k \<and> pcm_pcmBuf s = remainder D \<and> pcm_chunkIdx s = full_slices D
     \<and> pcm_anySent s = (0 < full_slices D) \<and> sk_log k = log @ numbered 0 r c D
     \<and> (if D = [] then \<not> pcm_latched s else pcm_latched s \<and> pcm_rate s = r \<and> pcm_channels s = c))"

definition pcm_chunk :: "int \<Rightarrow> int \<Rightarrow> TTSAudioChunk \<Rightarrow> bool" where
  "pcm_chunk r c tc \<longleftrightarrow> tc_Format tc = ''pcm'' \<and> tc_SampleRate tc = r \<and> tc_Channels tc = c"

lemma numbered_append: "numbered 0 r c D @ numbered (full_slices D) r c (remainder D @ E) = numbered 0 r c (D @ E)"
proof -
  have "map (\<lambda>i. AudioChunk i r c False (base64 (slice_at i (D @ E)))) [0..<full_slices D] = numbered 0 r c D"
    by (simp add: numbered_def slice_at_append)
  moreover have "map (\<lambda>i. AudioChunk i r c False (base64 (slice_at i (D @ E)))) [full_slices D..<full_slices D + full_slices (remainder D @ E)]
      = numbered (full_slices D) r c (remainder D @ E)"
  proof -
    have "slice_at i (remainder D @ E) = slice_at (full_slices D + i) (D @ E)" for i
      using slice_at_drop [of i "full_slices D" "D @ E"] full_slices_append(2) [of D E] by simp
    moreover have "[full_slices D..<full_slices D + m] = map (\<lambda>i. full_slices D + i) [0..<m]" for m
      using map_add_upt [of "full_slices D" m] by (simp add: add.commute)
    ultimately show ?thesis by (simp add: numbered_def comp_def)
  qed
  ultimately show ?thesis
    unfolding numbered_def [of 0 r c "D @ E"] full_slices_append(1) [of D E] upt_add_eq_append [OF le0] by simp
qed

lemma push_streamed:
  assumes "streamed r c log D st" "pcm_chunk r c tc" "0 < r" "0 < c"
  shows "\<exists>st'. pcm_push tc ctx st = (None, st') \<and> streamed r c log (D @ tc_Data tc) st'"
proof (cases "tc_Data tc = []")
  case False
  obtain s k where st: "st = (s, k)" by (cases st)
  define s1 where "s1 = (if pcm_latched s then s else s\<lparr>pcm_latched := True, pcm_rate := r, pcm_channels := c\<rparr>)"
  have latch: "latchOrVerifyFormat tc s = Inr s1"
    using assms by (auto simp: latchOrVerifyFormat_def streamed_def st pcm_chunk_def s1_def split: if_splits)
  let ?s = "s1\<lparr>pcm_pcmBuf := pcm_pcmBuf s1 @ tc_Data tc\<rparr>"
  have fields: "pcm_pcmBuf s1 = remainder D" "pcm_chunkIdx s1 = full_slices D" "pcm_anySent s1 = (0 < full_slices D)"
    "pcm_latched s1" "pcm_rate s1 = r" "pcm_channels s1 = c" "reliable k" "sk_log k = log @ numbered 0 r c D"
    using assms(1) by (auto simp: s1_def streamed_def st split: if_splits)
  have "pcm_push tc ctx st = pcm_drain (?s, k)" using assms(2) False latch by (simp add: pcm_push_def st pcm_chunk_def)
  moreover have "out_rate ?s = r" "out_channels ?s = c" using fields assms(3,4) by (simp_all add: out_rate_def out_channels_def)
  moreover have "full_slices (D @ tc_Data tc) = full_slices D + full_slices (remainder D @ tc_Data tc)" by (rule full_slices_append)
  ultimately show ?thesis using fields False
    by (simp add: drain_reliable streamed_def numbered_append full_slices_append(3))
qed (use assms in \<open>auto simp: pcm_push_def split: prod.split\<close>)


section \<open>The whole stream\<close>

definition pieces :: "byte list \<Rightarrow> byte list list" where
  "pieces D = map (\<lambda>i. slice_at i D) [0..<full_slices D] @ (if remainder D = [] then [] else [remainder D])"

definition closing :: "nat \<Rightarrow> int \<Rightarrow> int \<Rightarrow> byte list \<Rightarrow> turn_event list" where
  "closing n r c D = (if D = [] then [] else [AudioChunk n r c True (base64 [])])"

lemma remainder_only: "full_slices D = 0 \<Longrightarrow> remainder D = D"
  by (simp add: remainder_def)

lemma pieces_nil: "pieces D = [] \<longleftrightarrow> D = []"
  using remainder_only [of D] by (auto simp: pieces_def full_slices_def remainder_def)

lemma numbered_pieces:
  "numbered 0 r c D @ (if remainder D = [] then [] else [AudioChunk (full_slices D) r c False (base64 (remainder D))])
   = map (\<lambda>(i, p). AudioChunk i r c False (base64 p)) (enumerate 0 (pieces D))"
  by (simp add: pieces_def numbered_def enumerate_append_eq enumerate_eq_zip zip_map2 zip_same_conv_map)

lemma length_pieces: "length (pieces D) = full_slices D + (if remainder D = [] then 0 else 1)"
  by (simp add: pieces_def)

lemma finish_streamed:
  assumes "streamed r c log D st" "0 < r" "0 < c"
  shows "\<exists>s k. pcm_finish st = (None, s, k) \<and> sk_log k = log @
     map (\<lambda>(i, p). AudioChunk i r c False (base64 p)) (enumerate 0 (pieces D)) @ closing (length (pieces D)) r c D"
proof -
  obtain s k where st: "st = (s, k)" by (cases st)
  have f: "reliable k" "pcm_pcmBuf s = remainder D" "pcm_chunkIdx s = full_slices D" "pcm_anySent s = (0 < full_slices D)"
    "sk_log k = log @ numbered 0 r c D" using assms(1) by (simp_all add: streamed_def st)
  have out: "D \<noteq> [] \<Longrightarrow> pcm_rate s = r \<and> pcm_channels s = c" using assms by (auto simp: streamed_def st)
  note out_defs = out_rate_def out_channels_def
  show ?thesis
  proof (cases "D = []")
    case True
    then show ?thesis using f by (simp add: pcm_finish_def st closing_def pieces_def remainder_def full_slices_def numbered_def)
  next
    case False
    show ?thesis
    proof (cases "remainder D = []")
      case True
      with False have "0 < full_slices D" using remainder_only [of D] by auto
      then show ?thesis using f out False True assms(2,3)
        by (simp add: pcm_finish_def st emit_reliable closing_def numbered_pieces [symmetric] length_pieces out_defs)
    next
      case rem: False
      then show ?thesis using f out False assms(2,3)
        by (simp add: pcm_finish_def st emit_reliable closing_def numbered_pieces [symmetric] length_pieces out_defs)
    qed
  qed
qed


lemma streamPCM_streamed:
  assumes "streamed r c log D st" "0 < r" "0 < c"
  shows "\<exists>st'. streamPCM reads (d, e) ''pcm'' r c (\<lambda>tc. pcm_push tc ctx) st = (map_option ReadFailed e, st')
     \<and> streamed r c log (D @ concat reads @ d) st'"
  using assms
proof (induction reads arbitrary: D st)
  have deliver: "\<exists>st'. deliver ''pcm'' r c (\<lambda>tc. pcm_push tc ctx) x s = (None, st') \<and> streamed r c log (E @ x) st'"
    if "streamed r c log E s" for E s x
    using push_streamed [OF that, of "\<lparr>tc_Data = x, tc_Format = ''pcm'', tc_SampleRate = r, tc_Channels = c\<rparr>" ctx] that assms(2,3)
    by (cases s) (auto simp: deliver_def pcm_chunk_def)
  {
    case Nil
    then show ?case using deliver [of D st d] by auto
  next
    case (Cons x reads)
    obtain st' where d: "deliver ''pcm'' r c (\<lambda>tc. pcm_push tc ctx) x st = (None, st')" "streamed r c log (D @ x) st'"
      using deliver [OF Cons.prems(1)] by blast
    show ?case using Cons.IH [OF d(2) assms(2,3)] d(1) by simp
  }
qed

lemma new_streamer_streamed: "reliable k \<Longrightarrow> streamed r c (sk_log k) [] (new_streamer ign, k)"
  by (simp add: streamed_def new_streamer_def numbered_def full_slices_def remainder_def)

fun chunk_index :: "turn_event \<Rightarrow> nat" where
  "chunk_index (AudioChunk i r c f d) = i"
| "chunk_index e = 0"

fun chunk_format :: "turn_event \<Rightarrow> (int \<times> int) option" where
  "chunk_format (AudioChunk i r c f d) = Some (r, c)"
| "chunk_format e = None"

fun chunk_is_final :: "turn_event \<Rightarrow> bool" where
  "chunk_is_final (AudioChunk i r c f d) = f"
| "chunk_is_final e = False"

fun chunk_audio :: "turn_event \<Rightarrow> byte list" where
  "chunk_audio (AudioChunk i r c f d) = unbase64 d"
| "chunk_audio e = []"

text \<open>What a stream writes for audio \<open>D\<close>: a player that decodes and joins the chunks has \<open>D\<close>.\<close>

definition plays :: "int \<Rightarrow> int \<Rightarrow> byte list \<Rightarrow> turn_event list \<Rightarrow> bool" where
  "plays r c D log \<longleftrightarrow> concat (map chunk_audio log) = D \<and> map chunk_index log = [0..<length log]
     \<and> list_all (\<lambda>e. chunk_format e = Some (r, c)) log
     \<and> (if D = [] then log = [] else map chunk_is_final log = replicate (length log - 1) False @ [True])
     \<and> list_all (\<lambda>i. length (chunk_audio (log ! i)) = pcmChunkFloor) [0..<length log - 2]"

lemma map_enumerate: "map (\<lambda>(i, p). f i p) (enumerate n xs) = map2 f [n..<n + length xs] xs"
  by (simp add: enumerate_eq_zip)

lemma written_plays:
  "plays r c D (map (\<lambda>(i, p). AudioChunk i r c False (base64 p)) (enumerate 0 (pieces D)) @ closing (length (pieces D)) r c D)"
  (is "plays r c D (?body @ ?end)")
proof -
  let ?g = "\<lambda>(i, p). AudioChunk i r c False (base64 p)"
  have len: "length ?body = length (pieces D)" by simp
  have audio: "map chunk_audio ?body = pieces D" by (rule nth_equalityI) (simp_all add: nth_enumerate_eq)
  have idx: "map chunk_index ?body = [0..<length (pieces D)]" by (rule nth_equalityI) (simp_all add: nth_enumerate_eq)
  have fin: "map chunk_is_final ?body = replicate (length (pieces D)) False" by (rule nth_equalityI) (simp_all add: nth_enumerate_eq)
  have fmt: "list_all (\<lambda>e. chunk_format e = Some (r, c)) ?body" by (simp add: list_all_iff split: prod.split)
  have whole: "concat (pieces D) = D" using concat_slices [of D] by (cases "remainder D = []") (simp_all add: pieces_def)
  have nth: "length (chunk_audio ((?body @ ?end) ! i)) = pcmChunkFloor" if "i < length (?body @ ?end) - 2" for i
  proof -
    have "length ?end \<le> 1" by (simp add: closing_def)
    with that len have l: "i < length (pieces D)" "i < length (pieces D) - 1" by auto
    then have f: "i < full_slices D" by (simp add: length_pieces split: if_splits)
    have "chunk_audio ((?body @ ?end) ! i) = pieces D ! i" using l(1) len arg_cong [OF audio, of "\<lambda>l. l ! i"] by (simp add: nth_append)
    also have "\<dots> = slice_at i D" using f by (simp add: pieces_def nth_append)
    moreover have "Suc i * pcmChunkFloor \<le> length D"
      using f by (metis Suc_leI div_times_less_eq_dividend full_slices_def le_trans mult_le_mono1)
    ultimately show ?thesis by (simp add: slice_at_def)
  qed
  show ?thesis
  proof (cases "D = []")
    case True
    then show ?thesis using pieces_nil [of D] by (simp add: plays_def closing_def)
  next
    case False
    then show ?thesis using audio idx fin fmt whole nth len by (simp add: plays_def closing_def list_all_iff)
  qed
qed

text \<open>
  Synthesised audio is neither lost nor changed nor reordered. However the reader cuts the audio into reads, the chunks
  written for it are numbered from 0 without a gap, all carry the stream's rate and channels, decode and join to exactly the bytes
  read, are full except for the last piece, and end with one final marker if there was any audio; a read error is passed on and
  what was read before it is still written.
\<close>

lemma stream_plays:
  assumes "0 < r" "0 < c" "reliable k"
  shows "\<exists>st s' k' log. streamPCM reads (d, e) ''pcm'' r c (\<lambda>tc. pcm_push tc ctx) (new_streamer ign, k) = (map_option ReadFailed e, st)
    \<and> pcm_finish st = (None, s', k') \<and> sk_log k' = sk_log k @ log \<and> plays r c (concat reads @ d) log"
proof -
  obtain st where st: "streamPCM reads (d, e) ''pcm'' r c (\<lambda>tc. pcm_push tc ctx) (new_streamer ign, k) = (map_option ReadFailed e, st)"
    "streamed r c (sk_log k) (concat reads @ d) st"
    using streamPCM_streamed [OF new_streamer_streamed [OF assms(3)] assms(1,2), where reads = reads and d = d and e = e]
    by (simp only: append_Nil) blast
  from finish_streamed [OF this(2) assms(1,2)] st(1) written_plays show ?thesis by blast
qed

definition quiet_sink :: sink where "quiet_sink = \<lparr>sk_log = [], sk_fails = (\<lambda>_ _. None)\<rparr>"

end
