(* ===== verification/Voice_Wav_Props.thy ===== *)
theory Voice_Wav_Props
  imports Voice_Wav Voice_Stream_Props
begin

text \<open>
  A WAV reply plays exactly its samples, whatever chunks surround them and however the transport cuts the bytes.
\<close>

section \<open>Readers\<close>

lemma rd_bytes_drop [simp]: "rd_bytes (rd_drop n r) = drop n (rd_bytes r)"
  by (induction n r rule: rd_drop.induct) simp_all

lemma rd_bytes_limit [simp]: "rd_bytes (LimitReader r n) = take n (rd_bytes r)"
  by (induction r n rule: LimitReader.induct) (auto split: prod.splits)

lemma rd_bytes_multi [simp]: "rd_bytes (MultiReader d r) = d @ rd_bytes r"
  by (cases r) (auto simp: MultiReader_def)

fun rd_err :: "reader \<Rightarrow> string option" where
  "rd_err (ds, d, e) = e"

lemma rd_err_drop [simp]: "rd_err (rd_drop n r) = rd_err r"
  by (induction n r rule: rd_drop.induct) simp_all

lemma rd_err_limit: "rd_err (LimitReader r n) = None \<or> rd_err (LimitReader r n) = rd_err r \<and> length (rd_bytes r) \<le> n"
  by (induction r n rule: LimitReader.induct) (auto split: prod.splits)

section \<open>Writing a WAV file\<close>

definition le16_bytes :: "nat \<Rightarrow> byte list" where
  "le16_bytes n = [of_nat n, of_nat (n div 256)]"

definition le32_bytes :: "nat \<Rightarrow> byte list" where
  "le32_bytes n = le16_bytes n @ le16_bytes (n div 65536)"

lemma le_lengths [simp]: "length (le16_bytes n) = 2" "length (le32_bytes n) = 4" "length (ascii s) = length s"
  by (simp_all add: le16_bytes_def le32_bytes_def ascii_def)

lemma unat_byte: "unat (of_nat n :: byte) = n mod 256"
  by (simp add: unat_of_nat take_bit_eq_mod)

lemma le16_le16_bytes: "le16 (le16_bytes n) = n mod 65536"
proof -
  have "n mod 256 + 256 * (n div 256 mod 256) = n mod (256 * 256)" by (simp only: mod_mult2_eq add.commute)
  then show ?thesis by (simp add: le16_def le16_bytes_def unat_byte)
qed

lemma le32_le32_bytes: "n < 2 ^ 32 \<Longrightarrow> le32 (le32_bytes n) = n"
proof -
  assume n: "n < 2 ^ 32"
  have "take 2 (le32_bytes n) = le16_bytes n" "drop 2 (le32_bytes n) = le16_bytes (n div 65536)"
    by (simp_all add: le32_bytes_def)
  moreover have "n div 65536 < 65536" using n by (simp add: less_mult_imp_div_less)
  ultimately show ?thesis by (simp add: le32_def le16_le16_bytes)
qed

definition chunk :: "byte list \<Rightarrow> byte list \<Rightarrow> byte list" where
  "chunk ident body = ident @ le32_bytes (length body) @ body @ (if length body mod 2 = 1 then [0] else [])"

definition other_chunk :: "byte list \<times> byte list \<Rightarrow> bool" where
  "other_chunk p \<longleftrightarrow> (case p of (ident, body) \<Rightarrow> length ident = 4 \<and> ident \<noteq> ascii ''data'' \<and> ident \<noteq> ascii ''fmt ''
     \<and> length body + length body mod 2 \<le> maxWAVHeaderSkip)"

definition pcm_fmt :: "nat \<Rightarrow> nat \<Rightarrow> byte list \<Rightarrow> byte list" where
  "pcm_fmt rate channels extra = le16_bytes 1 @ le16_bytes channels @ le32_bytes rate @ le32_bytes (rate * channels * 2)
     @ le16_bytes (channels * 2) @ le16_bytes 16 @ extra"

definition wav_file ::
  "nat \<Rightarrow> nat \<Rightarrow> (byte list \<times> byte list) list \<Rightarrow> byte list \<Rightarrow> (byte list \<times> byte list) list \<Rightarrow> byte list \<Rightarrow> byte list \<Rightarrow> byte list" where
  "wav_file rate channels pre extra mid samples trailer =
     ascii ''RIFF'' @ le32_bytes (length samples) @ ascii ''WAVE'' @ concat (map (\<lambda>(i, b). chunk i b) pre)
     @ chunk (ascii ''fmt '') (pcm_fmt rate channels extra) @ concat (map (\<lambda>(i, b). chunk i b) mid)
     @ ascii ''data'' @ le32_bytes (length samples) @ samples @ trailer"

section \<open>Walking it\<close>

declare walk_chunks.simps [simp del]

lemma ReadFull_append: "length a = n \<Longrightarrow> ReadFull n (a @ r) = Some (a, r)"
  by (auto simp: ReadFull_def)

lemma chunk_header:
  assumes "length ident = 4" "n < 2 ^ 32"
  shows "ReadFull 8 (ident @ le32_bytes n @ r) = Some (ident @ le32_bytes n, r)"
    "slice 0 4 (ident @ le32_bytes n) = ident" "le32 (slice 4 8 (ident @ le32_bytes n)) = n"
  using assms ReadFull_append [of "ident @ le32_bytes n" 8 r] by (simp_all add: slice_def le32_le32_bytes)

lemma walk_other:
  assumes "other_chunk (ident, body)"
  shows "walk_chunks p b info (chunk ident body @ r) = walk_chunks p b info r"
proof -
  let ?pad = "if length body mod 2 = 1 then [0 :: byte] else []"
  have o: "length ident = 4" "ident \<noteq> ascii ''data''" "ident \<noteq> ascii ''fmt ''" "length body + length body mod 2 \<le> maxWAVHeaderSkip"
    using assms by (simp_all add: other_chunk_def)
  then have n: "length body < 2 ^ 32" by (simp add: maxWAVHeaderSkip_def)
  note h = chunk_header [OF o(1) n]
  have "length (body @ ?pad) = length body + length body mod 2" by (auto simp: odd_iff_mod_2_eq_one)
  then have "ReadFull (length body + length body mod 2) (body @ ?pad @ r) = Some (body @ ?pad, r)"
    using ReadFull_append [of "body @ ?pad"] by simp
  then show ?thesis
    unfolding chunk_def append_assoc by (subst walk_chunks.simps) (use o h in \<open>simp add: Let_def\<close>)
qed

lemma walk_others:
  "list_all other_chunk ps \<Longrightarrow> walk_chunks p b info (concat (map (\<lambda>(i, b). chunk i b) ps) @ r) = walk_chunks p b info r"
  by (induction ps) (auto simp: walk_other)

lemma parse_fmt:
  assumes "0 < c" "c < 2 ^ 16" "0 < rate" "rate < 2 ^ 32" "length extra \<le> 4080"
  shows "parseWAVFmtChunk (pcm_fmt rate c extra @ (if length (pcm_fmt rate c extra) mod 2 = 1 then [0] else []) @ r)
      (length (pcm_fmt rate c extra)) info
    = Some (True, 16, info\<lparr>wi_channels := int c, wi_sampleRate := int rate, wi_haveFmt := True\<rparr>, r)"
proof -
  let ?b = "pcm_fmt rate c extra"
  have s: "slice 0 2 ?b = le16_bytes 1" "slice 2 4 ?b = le16_bytes c" "slice 4 8 ?b = le32_bytes rate" "slice 14 16 ?b = le16_bytes 16"
    "length ?b = 16 + length extra"
    by (simp_all add: pcm_fmt_def slice_def)
  have v: "le16 (le16_bytes 1) = 1" "le16 (le16_bytes c) = c" "le32 (le32_bytes rate) = rate" "le16 (le16_bytes 16) = 16"
    using assms by (simp_all add: le16_le16_bytes le32_le32_bytes)
  have r: "ReadFull (length ?b) (?b @ x) = Some (?b, x)" "ReadFull 1 (0 # r) = Some ([0], r)" for x
    by (simp_all add: ReadFull_def)
  show ?thesis using assms s v r by (simp add: parseWAVFmtChunk_def Let_def)
qed

lemma walk_fmt:
  assumes "0 < c" "c < 2 ^ 16" "0 < rate" "rate < 2 ^ 32" "length extra \<le> 4080"
  shows "walk_chunks p b info (chunk (ascii ''fmt '') (pcm_fmt rate c extra) @ r)
    = walk_chunks True 16 (info\<lparr>wi_channels := int c, wi_sampleRate := int rate, wi_haveFmt := True\<rparr>) r"
proof -
  have n: "length (pcm_fmt rate c extra) < 2 ^ 32" using assms(5) by (simp add: pcm_fmt_def)
  have i: "length (ascii ''fmt '') = 4" "ascii ''fmt '' \<noteq> ascii ''data''" by (simp_all add: ascii_def)
  show ?thesis
    unfolding chunk_def append_assoc
    by (subst walk_chunks.simps) (use i chunk_header [OF i(1) n] parse_fmt [OF assms] in \<open>simp add: Let_def\<close>)
qed

lemma walk_data:
  assumes "n < 2 ^ 32" "wi_haveFmt info"
  shows "walk_chunks True 16 info (ascii ''data'' @ le32_bytes n @ r) = (info\<lparr>wi_dataSize := n, wi_streamable := True\<rparr>, r)"
  by (subst walk_chunks.simps) (use assms chunk_header [of "ascii ''data''" n] in \<open>simp add: Let_def\<close>)

lemma parse_wav_file:
  assumes "list_all other_chunk pre" "list_all other_chunk mid" "0 < c" "c < 2 ^ 16" "0 < rate" "rate < 2 ^ 32"
    "length extra \<le> 4080" "length samples < 2 ^ 32"
  shows "parseWAVHeader (wav_file rate c pre extra mid samples trailer) =
    (\<lparr>wi_isRIFF = True, wi_haveFmt = True, wi_streamable = True, wi_sampleRate = int rate, wi_channels = int c,
      wi_dataSize = length samples\<rparr>, samples @ trailer)"
proof -
  let ?h = "ascii ''RIFF'' @ le32_bytes (length samples) @ ascii ''WAVE''"
  have "length ?h = 12" by simp
  then have r: "ReadFull 12 (?h @ x) = Some (?h, x)" for x by (rule ReadFull_append)
  have h: "slice 0 4 ?h = ascii ''RIFF''" "slice 8 12 ?h = ascii ''WAVE''" by (simp_all add: slice_def)
  show ?thesis using assms r h unfolding wav_file_def parseWAVHeader_def
    by (simp add: walk_others walk_fmt walk_data no_wav_def)
qed

section \<open>Playing it\<close>

lemma stream_reader:
  assumes "0 < r" "0 < c" "reliable k" "rd_bytes rd = D"
  shows "\<exists>st s' k' log. (case rd of (reads, fin) \<Rightarrow> streamPCM reads fin ''pcm'' r c (\<lambda>tc. pcm_push tc ctx) (new_streamer ign, k))
      = (map_option ReadFailed (rd_err rd), st)
    \<and> pcm_finish st = (None, s', k') \<and> sk_log k' = sk_log k @ log \<and> plays r c D log"
proof -
  obtain reads d e where rd: "rd = (reads, d, e)" by (cases rd)
  with assms(4) have "concat reads @ d = D" by simp
  with stream_plays [OF assms(1-3), of reads d e ctx ign] rd show ?thesis by simp
qed

text \<open>
  C0: a WAV reply of 16-bit samples plays exactly its samples at its own rate and channel count, whatever chunks stand before,
  between and after the format and the data, however long the format chunk is, and however the transport cuts the bytes: the
  chunks written decode and join to the samples, and nothing that follows them is played. The turn sees the transport's error only
  when the transport failed at the end of the samples.
\<close>

theorem wav_reply_exact:
  assumes whole: "rd_bytes (tr_Body resp) = wav_file rate c pre extra mid samples trailer"
    and chunks: "list_all other_chunk pre" "list_all other_chunk mid" "length extra \<le> 4080"
    and fmt: "0 < c" "c < 2 ^ 16" "0 < rate" "rate < 2 ^ 32" "0 < length samples" "length samples < 2 ^ 32 - 1"
    and reply: "post txt = Inr resp" "200 \<le> tr_StatusCode resp" "tr_StatusCode resp < 300" "tts_url t \<noteq> []" "TrimSpace txt \<noteq> []"
    and sink: "reliable k"
  shows "\<exists>e st s' k' log. Synthesize post t txt (\<lambda>tc. pcm_push tc ctx) (new_streamer ign, k) = (map_option ReadFailed e, st)
    \<and> (e = None \<or> e = rd_err (tr_Body resp) \<and> trailer = [])
    \<and> pcm_finish st = (None, s', k') \<and> sk_log k' = sk_log k @ log \<and> plays (int rate) (int c) samples log"
proof -
  define bytes where "bytes = rd_bytes (tr_Body resp)"
  define unread where "unread = rd_drop (length bytes - length (samples @ trailer)) (tr_Body resp)"
  have len: "length samples < 2 ^ 32" "length samples \<noteq> 0xFFFFFFFF" using fmt(6) by simp_all
  note info = parse_wav_file [OF chunks(1,2) fmt(1-4) chunks(3) len(1), of trailer, folded whole]
  have syn: "Synthesize post t txt (\<lambda>tc. pcm_push tc ctx) (new_streamer ign, k)
      = (case LimitReader unread (length samples) of (reads, fin) \<Rightarrow>
           streamPCM reads fin ''pcm'' (int rate) (int c) (\<lambda>tc. pcm_push tc ctx) (new_streamer ign, k))"
    using reply fmt(5) len(2) info by (simp add: Synthesize_def Let_def unread_def bytes_def)
  have "\<exists>h. bytes = h @ samples @ trailer"
    unfolding bytes_def whole wav_file_def by (metis append_assoc)
  then have rest: "rd_bytes unread = samples @ trailer" unfolding unread_def rd_bytes_drop bytes_def [symmetric] by auto
  then have D: "rd_bytes (LimitReader unread (length samples)) = samples" by simp
  have e: "rd_err (LimitReader unread (length samples)) = None
      \<or> rd_err (LimitReader unread (length samples)) = rd_err (tr_Body resp) \<and> trailer = []"
    using rd_err_limit [of unread "length samples"] unfolding rest by (simp add: unread_def)
  have "0 < int rate" "0 < int c" using fmt by simp_all
  from stream_reader [OF this sink D, of ctx ign] e show ?thesis unfolding syn by blast
qed

definition sample_reply :: tts_response where
  "sample_reply = \<lparr>tr_StatusCode = 200, tr_ContentType = ''audio/wav'', tr_params = (\<lambda>_. []), tr_Header = (\<lambda>_. []),
     tr_Body = ([take 20 (wav_file 22050 1 [] [7] [(ascii ''LIST'', [1, 2, 3])] [10, 20, 30, 40] [9, 9])],
       drop 20 (wav_file 22050 1 [] [7] [(ascii ''LIST'', [1, 2, 3])] [10, 20, 30, 40] [9, 9]), None)\<rparr>"

lemma wav_reply_exact_witness:
  "\<exists>st s' k' log. Synthesize (\<lambda>_. Inr sample_reply) \<lparr>tts_url = ''u'', tts_model = [], tts_voice = []\<rparr> ''hi''
      (\<lambda>tc. pcm_push tc ''hi'') (new_streamer True, quiet_sink) = (None, st)
    \<and> pcm_finish st = (None, s', k') \<and> sk_log k' = log \<and> plays 22050 1 [10, 20, 30, 40] log"
proof -
  have sink: "reliable quiet_sink" by (simp add: reliable_def quiet_sink_def)
  have chunks: "list_all other_chunk ([] :: (byte list \<times> byte list) list)" "list_all other_chunk [(ascii ''LIST'', [1, 2, 3])]"
    by (simp_all add: other_chunk_def ascii_def maxWAVHeaderSkip_def)
  have "rd_bytes (tr_Body sample_reply) = wav_file 22050 1 [] [7] [(ascii ''LIST'', [1, 2, 3])] [10, 20, 30, 40] [9, 9]"
    by (simp add: sample_reply_def)
  moreover have "TrimSpace ''hi'' \<noteq> []" by code_simp
  moreover have "rd_err (tr_Body sample_reply) = None" by (simp add: sample_reply_def)
  ultimately show ?thesis
    using wav_reply_exact [of sample_reply 22050 1 "[]" "[7]" "[(ascii ''LIST'', [1, 2, 3])]" "[10, 20, 30, 40]" "[9, 9]"
        "\<lambda>_. Inr sample_reply" "''hi''" "\<lparr>tts_url = ''u'', tts_model = [], tts_voice = []\<rparr>" quiet_sink "''hi''" True] sink chunks
    by (simp add: sample_reply_def quiet_sink_def)
qed

end
