(* ===== verification/Voice_Turn_Props.thy ===== *)
theory Voice_Turn_Props
  imports Voice_Turn Voice_Wav_Props "HOL-Library.Sublist"
begin

text \<open>
  What a turn does to the hub, the voice state and the client's stream, whatever the recogniser, the brain, the synthesiser and the
  connection do.
\<close>

section \<open>What every step keeps\<close>

definition sink_ext :: "sink \<Rightarrow> sink \<Rightarrow> bool" where
  "sink_ext k k' \<longleftrightarrow> sk_fails k' = sk_fails k \<and> prefix (sk_log k) (sk_log k')"

definition turn_ext :: "VoiceHub \<times> sink \<Rightarrow> VoiceHub \<times> sink \<Rightarrow> bool" where
  "turn_ext st st' \<longleftrightarrow> hb_cfg (fst st') = hb_cfg (fst st) \<and> hb_inFlight (fst st') = hb_inFlight (fst st) \<and> sink_ext (snd st) (snd st')
     \<and> (\<exists>ops. VoiceStop \<notin> set ops \<and> hb_coord (fst st') = map_option (\<lambda>c. foldl voice_call c ops) (hb_coord (fst st)))"

named_theorems ext_intros "steps that extend the stream and call the coordinator"

lemma sink_ext_refl [simp]: "sink_ext k k"
  by (simp add: sink_ext_def)

lemma sink_ext_trans: "sink_ext a b \<Longrightarrow> sink_ext b c \<Longrightarrow> sink_ext a c"
  by (auto simp: sink_ext_def)

lemma turn_ext_intro:
  assumes "hb_cfg (fst b) = hb_cfg (fst a)" "hb_inFlight (fst b) = hb_inFlight (fst a)" "sink_ext (snd a) (snd b)"
    "hb_coord (fst b) = map_option (\<lambda>c. foldl voice_call c ops) (hb_coord (fst a))" "VoiceStop \<notin> set ops"
  shows "turn_ext a b"
  using assms unfolding turn_ext_def by blast

lemma turn_ext_refl [simp]: "turn_ext st st"
  by (rule turn_ext_intro [where ops = "[]"]) (simp_all add: option.map_ident)

lemma turn_ext_trans: "turn_ext a b \<Longrightarrow> turn_ext b c \<Longrightarrow> turn_ext a c"
proof -
  assume a: "turn_ext a b" and b: "turn_ext b c"
  from a obtain xs where xs: "hb_coord (fst b) = map_option (\<lambda>c. foldl voice_call c xs) (hb_coord (fst a))" "VoiceStop \<notin> set xs"
    by (auto simp: turn_ext_def)
  from b obtain ys where ys: "hb_coord (fst c) = map_option (\<lambda>c. foldl voice_call c ys) (hb_coord (fst b))" "VoiceStop \<notin> set ys"
    by (auto simp: turn_ext_def)
  show ?thesis
  proof (rule turn_ext_intro [where ops = "xs @ ys"])
    show "hb_coord (fst c) = map_option (\<lambda>c. foldl voice_call c (xs @ ys)) (hb_coord (fst a))"
      unfolding ys(1) xs(1) by (simp add: option.map_comp comp_def)
    show "sink_ext (snd a) (snd c)" using a b sink_ext_trans unfolding turn_ext_def by blast
  qed (use a b xs(2) ys(2) in \<open>simp_all add: turn_ext_def\<close>)
qed

lemma sink_ext_send: "send e k = (r, k') \<Longrightarrow> sink_ext k k'"
  by (auto simp: send_def sink_ext_def split: option.splits)

lemma turn_ext_sink: "sink_ext k k' \<Longrightarrow> turn_ext (h, k) (h, k')"
  by (rule turn_ext_intro [where ops = "[]"]) (simp_all add: option.map_ident)

lemma turn_ext_send [ext_intros]: "hub_send e st = (r, st') \<Longrightarrow> turn_ext st st'"
  by (auto simp: hub_send_def intro: turn_ext_sink sink_ext_send split: prod.splits)

lemma turn_ext_hub:
  assumes "hb_cfg (f h) = hb_cfg h" "hb_inFlight (f h) = hb_inFlight h" "hb_coord (f h) = map_option (\<lambda>c. foldl voice_call c ops) (hb_coord h)"
    "VoiceStop \<notin> set ops"
  shows "turn_ext (h, k) (f h, k)"
  using assms by (intro turn_ext_intro [where ops = ops]) simp_all

lemma turn_ext_same:
  assumes "\<And>h. hb_cfg (f h) = hb_cfg h" "\<And>h. hb_inFlight (f h) = hb_inFlight h" "\<And>h. hb_coord (f h) = hb_coord h"
  shows "turn_ext st (apfst f st)"
  using assms turn_ext_hub [of f "fst st" "[]" "snd st"] by (cases st) (simp add: option.map_ident)

lemma turn_ext_metric [ext_intros]: "turn_ext st (apfst (record_metric m) st)"
  by (rule turn_ext_same) (simp_all add: record_metric_def)

lemma turn_ext_chat [ext_intros]: "turn_ext st (apfst (recordChat now n r a t) st)"
  by (rule turn_ext_same) (auto simp: recordChat_def split: option.splits)

lemma turn_ext_transition [ext_intros]: "turn_ext st (apfst (hub_transition s t r e) st)"
  using turn_ext_hub [of "hub_transition s t r e" "fst st" "[VoiceTransition (voice_data s t r e None)]" "snd st"]
  by (cases st) (simp add: hub_transition_def voice_data_def)

lemma turn_ext_comp: "turn_ext st (apfst f st) \<Longrightarrow> turn_ext (apfst f st) (apfst g (apfst f st)) \<Longrightarrow> turn_ext st (apfst (g \<circ> f) st)"
  by (cases st) (simp, erule (1) turn_ext_trans)

lemma turn_ext_status [ext_intros]: "turn_ext st (forward_status s st)"
proof -
  let ?f = "\<lambda>h. h\<lparr>hb_coord := map_option (\<lambda>c. snd (voice_SetStatus (Some s) c)) (hb_coord h)\<rparr>"
  have "turn_ext st (apfst ?f st)"
    using turn_ext_hub [of ?f "fst st" "[VoiceStatus (Some s)]" "snd st"] by (cases st) simp
  moreover have "turn_ext (apfst ?f st) (forward_status s st)"
    unfolding forward_status_def by (rule turn_ext_send) (rule prod.collapse [symmetric])
  ultimately show ?thesis by (rule turn_ext_trans)
qed

section \<open>Streams of audio\<close>

declare pcm_drain.simps [simp del]

lemma streamPCM_inv:
  assumes step: "\<And>tc st e st'. P st \<Longrightarrow> f tc st = (e, st') \<Longrightarrow> P st'" and "P st" "streamPCM reads fin fmt r c f st = (e, st')"
  shows "P st'"
  using assms(2,3)
proof (induction reads arbitrary: st)
  have deliver: "P s \<Longrightarrow> deliver fmt r c f d s = (x, s') \<Longrightarrow> P s'" for d s x s'
    using step by (auto simp: deliver_def split: if_splits)
  {
    case Nil
    then show ?case by (cases fin) (auto split: prod.splits option.splits dest: deliver)
  next
    case (Cons d reads)
    then show ?case by (auto split: prod.splits option.splits dest: deliver)
  }
qed

lemma Synthesize_inv:
  assumes "\<And>tc st e st'. P st \<Longrightarrow> f tc st = (e, st') \<Longrightarrow> P st'" "P st" "Synthesize post t txt f st = (e, st')"
  shows "P st'"
proof -
  have stream: "streamPCM reads fin fmt r c f st = (e, st') \<Longrightarrow> P st'" for reads fin fmt r c
    by (rule streamPCM_inv [of P f, OF assms(1) assms(2)])
  show ?thesis
  proof (cases "st' = st")
    case False
    with assms(3) obtain reads fin fmt r c where "streamPCM reads fin fmt r c f st = (e, st')"
      by (auto simp: Synthesize_def Let_def split: if_splits sum.splits prod.splits)
    then show ?thesis by (rule stream)
  qed (simp add: assms(2))
qed

lemma sink_ext_emit: "pcm_emit d fin (s, k) = (e, s', k') \<Longrightarrow> sink_ext k k'"
  by (auto simp: pcm_emit_def Let_def split: prod.splits option.splits dest!: sink_ext_send)

lemma sink_ext_drain: "pcm_drain (s, k) = (e, s', k') \<Longrightarrow> sink_ext k k'"
proof (induction "(s, k)" arbitrary: s k rule: pcm_drain.induct)
  case (1 s k)
  let ?s = "s\<lparr>pcm_pcmBuf := drop pcmChunkFloor (pcm_pcmBuf s), pcm_anySent := True\<rparr>"
  obtain x s1 k1 where em: "pcm_emit (take pcmChunkFloor (pcm_pcmBuf s)) False (?s, k) = (x, s1, k1)" by (metis prod_cases3)
  then have k1: "sink_ext k k1" by (rule sink_ext_emit)
  show ?case
  proof (cases "length (pcm_pcmBuf s) < pcmChunkFloor \<or> x \<noteq> None")
    case True
    then show ?thesis using "1.prems" em k1 by (auto simp: pcm_drain.simps [of s] split: if_splits)
  next
    case False
    then have "pcm_drain (s1, k1) = (e, s', k')" using "1.prems" em by (simp add: pcm_drain.simps [of s])
    with "1.hyps" [OF _ em [symmetric]] False k1 show ?thesis by (auto intro: sink_ext_trans)
  qed
qed

lemma sink_ext_push: "pcm_push tc ctx (s, k) = (e, s', k') \<Longrightarrow> sink_ext k k'"
  by (auto simp: pcm_push_def split: if_splits sum.splits dest: sink_ext_drain)

lemma sink_ext_finish: "pcm_finish (s, k) = (e, s', k') \<Longrightarrow> sink_ext k k'"
  by (auto simp: pcm_finish_def split: if_splits option.splits prod.splits dest!: sink_ext_emit intro: sink_ext_trans)

lemma turn_ext_with_hub:
  assumes "\<And>s k e s' k'. f (s, k) = (e, s', k') \<Longrightarrow> sink_ext k k'" "with_hub f (s, st) = (e, s', st')"
  shows "turn_ext st st' \<and> fst st' = fst st"
  using assms(2) by (cases st) (auto simp: with_hub_def intro!: turn_ext_sink dest: assms(1) split: prod.splits)

lemma turn_ext_push: "with_hub (pcm_push tc ctx) (s, st) = (e, s', st') \<Longrightarrow> turn_ext st st' \<and> fst st' = fst st"
  by (rule turn_ext_with_hub) (rule sink_ext_push)

lemma turn_ext_finish: "with_hub pcm_finish (s, st) = (e, s', st') \<Longrightarrow> turn_ext st st' \<and> fst st' = fst st"
  by (rule turn_ext_with_hub) (rule sink_ext_finish)

section \<open>The state shown\<close>

text \<open>What the coordinator, if there is one, shows.\<close>

definition showing :: "VoiceStateData \<Rightarrow> VoiceHub \<Rightarrow> bool" where
  "showing d h \<longleftrightarrow> (case hb_coord h of None \<Rightarrow> True | Some c \<Rightarrow> vc_data c = d)"

definition said :: "string \<Rightarrow> string \<Rightarrow> string \<Rightarrow> VoiceStateData" where
  "said transcript reply engine = voice_data StateSpeaking (Some transcript) (Some reply) (Some engine) None"

lemma showing_transition [simp]: "showing (voice_data s t r e None) (hub_transition s t r e h)"
  by (simp add: showing_def hub_transition_def Transition_def updateState_def voice_publishState_def Let_def frame split: option.split)

lemma showing_said [simp]: "showing (said t r e) (hub_transition StateSpeaking (Some t) (Some r) (Some e) h)"
  by (simp add: said_def)

lemma showing_metric [simp]: "showing d (record_metric m h) = showing d h"
  by (simp add: showing_def record_metric_def)

lemma showing_send: "hub_send e st = (r, st') \<Longrightarrow> fst st' = fst st"
  by (auto simp: hub_send_def split: prod.splits)

lemma send_log: "hub_send e st = (None, st') \<Longrightarrow> sk_log (snd st') = sk_log (snd st) @ [e]"
  by (auto simp: hub_send_def send_def split: prod.splits option.splits)

section \<open>Speaking a reply\<close>

lemma reply_chunk_ext:
  assumes "reply_chunk t r e tc (s, st) = (x, s', st')"
  shows "turn_ext st st' \<and> (showing (said t r e) (fst st) \<longrightarrow> showing (said t r e) (fst st'))"
proof (cases "tc_Data tc = []")
  case False
  obtain h k where st: "st = (h, k)" by (cases st)
  let ?h = "if pcm_anySent s then h else hub_transition StateSpeaking (Some t) (Some r) (Some e) h"
  have "with_hub (pcm_push tc []) (s, ?h, k) = (x, s', st')" using assms False by (simp add: reply_chunk_def st)
  from turn_ext_push [OF this] have p: "turn_ext (?h, k) st' \<and> fst st' = ?h" by (simp only: fst_conv)
  moreover have "turn_ext st (?h, k)" using turn_ext_transition [of "(h, k)"] by (simp add: st)
  ultimately show ?thesis by (auto simp: st intro: turn_ext_trans)
qed (use assms in \<open>auto simp: reply_chunk_def split: prod.splits\<close>)

lemma synthesize_reply_ext:
  assumes "Synthesize post t txt (reply_chunk tr r e) (s, st) = (x, s', st')"
  shows "turn_ext st st' \<and> (showing (said tr r e) (fst st) \<longrightarrow> showing (said tr r e) (fst st'))"
proof -
  let ?P = "\<lambda>(s :: pcmChunkStreamer, y). turn_ext st y \<and> (showing (said tr r e) (fst st) \<longrightarrow> showing (said tr r e) (fst y))"
  have "?P (s', st')"
  proof (rule Synthesize_inv [OF _ _ assms, of ?P])
    fix tc x z and y y' :: "pcmChunkStreamer \<times> VoiceHub \<times> sink"
    assume "?P y" "reply_chunk tr r e tc y = (x, y')"
    then show "?P y'" using reply_chunk_ext [of tr r e tc "fst y" "snd y" x "fst y'" "snd y'"]
      by (auto simp: case_prod_beta intro: turn_ext_trans)
  qed simp
  then show ?thesis by simp
qed

text \<open>Several changes of the hub before an event is sent.\<close>

lemma turn_ext_metrics2: "turn_ext st (apfst (record_metric m \<circ> record_metric n) st)"
  by (rule turn_ext_comp) (rule turn_ext_metric)+

lemma turn_ext_error: "turn_ext st (apfst (hub_transition s t r e \<circ> record_metric m \<circ> record_metric n) st)"
proof -
  have "turn_ext st (apfst (hub_transition s t r e \<circ> (record_metric m \<circ> record_metric n)) st)"
    by (rule turn_ext_comp) (rule turn_ext_metrics2, rule turn_ext_transition)
  then show ?thesis by (simp only: comp_assoc)
qed

lemma recordTTS_ext:
  assumes "recordTTSSynthesisError env err n mid st = (x, st')"
  shows "turn_ext st st' \<and> (x = None \<longrightarrow> (\<forall>d. showing d (fst st) \<longrightarrow> showing d (fst st')))"
proof -
  define kind where "kind = (if te_timeout env ''tts'' (ErrStream err) then ''tts_timeout'' else ''tts_error'')"
  define st1 where "st1 = apfst (record_metric (StageError n ''tts'' kind) \<circ> record_metric (StageDuration n ''tts'' ''error'')) st"
  define st2 where "st2 = (if mid then apfst (hub_transition StateError None None None) st1 else st1)"
  obtain y st3 where s: "hub_send (ErrorEvent kind (ErrStream err)) st2 = (y, st3)" by (cases "hub_send (ErrorEvent kind (ErrStream err)) st2")
  have st': "st' = st3" "x = None \<Longrightarrow> \<not> mid"
    using assms s by (auto simp: recordTTSSynthesisError_def Let_def kind_def st1_def st2_def split: option.splits if_splits)
  have "turn_ext st st1" unfolding st1_def by (rule turn_ext_metrics2)
  moreover have "turn_ext st1 st2" using turn_ext_transition by (simp add: st2_def)
  moreover have "turn_ext st2 st3" using s by (rule turn_ext_send)
  moreover have "showing d (fst st) = showing d (fst st1)" for d by (simp add: st1_def fst_apfst)
  ultimately show ?thesis using st' showing_send [OF s] by (auto simp: st2_def intro: turn_ext_trans)
qed
lemma synthesizeAndEmitReply_ext:
  assumes "synthesizeAndEmitReply env r n e tr st = (x, failed, st')"
  shows "turn_ext st st' \<and> (x = None \<longrightarrow> showing (said tr r e) (fst st) \<longrightarrow> showing (said tr r e) (fst st'))"
proof (cases "Option.is_none (te_tts env) \<or> TrimSpace r = []")
  case True
  then show ?thesis using assms by (auto simp: synthesizeAndEmitReply_def Option.is_none_def split: option.splits)
next
  case False
  then obtain post t where tts: "te_tts env = Some (post, t)" by (auto simp: Option.is_none_def)
  obtain ttsErr s st1 where syn: "Synthesize post t r (reply_chunk tr r e) (new_streamer False, st) = (ttsErr, s, st1)" by (metis prod_cases3)
  note s1 = synthesize_reply_ext [OF syn]
  obtain fe s2 st2 where fin: "with_hub pcm_finish (s, st1) = (fe, s2, st2)" by (metis prod_cases3)
  note s2 = turn_ext_finish [OF fin]
  let ?rejected = "ttsErr \<noteq> None \<and> is_rejected (the ttsErr)"
  let ?st = "apfst (hub_transition StateError None None None \<circ> record_metric (StageError n ''tts'' ''tts_error'')
      \<circ> record_metric (StageDuration n ''tts'' ''error'')) st1"
  consider (rejected) "?rejected" | (finish) "\<not> ?rejected" "fe \<noteq> None" | (late) err where "\<not> ?rejected" "fe = None" "ttsErr = Some err"
    | (fine) "ttsErr = None" "fe = None" by blast
  then show ?thesis
  proof cases
    case rejected
    obtain y st3 where send: "hub_send (ErrorEvent ''tts_error'' (ErrStream (the ttsErr))) ?st = (y, st3)"
      by (cases "hub_send (ErrorEvent ''tts_error'' (ErrStream (the ttsErr))) ?st")
    have "st' = st3" "x \<noteq> None" using assms tts False syn rejected send by (auto simp: synthesizeAndEmitReply_def split: option.splits)
    moreover have "turn_ext st1 ?st" by (rule turn_ext_error)
    moreover have "turn_ext ?st st3" using send by (rule turn_ext_send)
    ultimately show ?thesis using s1 by (auto intro: turn_ext_trans)
  next
    case finish
    then have "st' = st2" "x \<noteq> None" using assms tts False syn fin by (auto simp: synthesizeAndEmitReply_def split: option.splits)
    then show ?thesis using s1 s2 by (auto intro: turn_ext_trans)
  next
    case (late err)
    then have "recordTTSSynthesisError env err n (pcm_anySent s2) st2 = (x, st')"
      using assms tts False syn fin by (auto simp: synthesizeAndEmitReply_def split: option.splits prod.splits)
    from recordTTS_ext [OF this] show ?thesis using s1 s2 by (auto intro: turn_ext_trans)
  next
    case fine
    then have "st' = apfst (record_metric (StageDuration n ''tts'' ''success'')) st2"
      using assms tts False syn fin by (auto simp: synthesizeAndEmitReply_def split: option.splits)
    moreover have "turn_ext st2 (apfst (record_metric (StageDuration n ''tts'' ''success'')) st2)" by (rule turn_ext_metric)
    ultimately show ?thesis using s1 s2 by (auto simp: fst_apfst intro: turn_ext_trans)
  qed
qed

text \<open>A reply was sent and is shown.\<close>

definition sent :: "turn_event \<Rightarrow> VoiceHub \<times> sink \<Rightarrow> VoiceHub \<times> sink \<Rightarrow> bool" where
  "sent e st st' \<longleftrightarrow> e \<in> set (drop (length (sk_log (snd st))) (sk_log (snd st')))"

lemma sent_send: "turn_ext st st1 \<Longrightarrow> hub_send e st1 = (None, st2) \<Longrightarrow> turn_ext st2 st3 \<Longrightarrow> sent e st st3"
  by (auto simp: sent_def turn_ext_def sink_ext_def prefix_def dest!: send_log)

lemma emitNonStreamingReply_ext:
  assumes "emitNonStreamingReply env tr e n r st = (x, failed, st')"
  shows "turn_ext st st' \<and> (x = None \<longrightarrow> sent (ReplyEvent r e) st st' \<and> showing (said tr r e) (fst st'))"
proof -
  let ?st = "apfst (hub_transition StateSpeaking (Some tr) (Some r) (Some e)) st"
  obtain y st1 where send: "hub_send (ReplyEvent r e) ?st = (y, st1)" by (cases "hub_send (ReplyEvent r e) ?st")
  have ext: "turn_ext st ?st" "turn_ext ?st st1" using send by (auto intro: turn_ext_transition turn_ext_send)
  have shown: "showing (said tr r e) (fst st1)" using showing_send [OF send] by (simp add: fst_apfst)
  show ?thesis
  proof (cases "y = None \<and> \<not> Option.is_none (te_tts env)")
    case True
    then have "synthesizeAndEmitReply env r n e tr st1 = (x, failed, st')" using assms send by (simp add: emitNonStreamingReply_def)
    from synthesizeAndEmitReply_ext [OF this] show ?thesis using True ext shown send sent_send [OF ext(1)] by (auto intro: turn_ext_trans)
  next
    case False
    then have "st' = st1" "x = None \<Longrightarrow> y = None" using assms send by (auto simp: emitNonStreamingReply_def split: option.splits)
    then show ?thesis using ext shown send sent_send [OF ext(1)] by (auto intro: turn_ext_trans)
  qed
qed

lemma emitStreamedReply_ext:
  assumes "emitStreamedReply env r tr n e s st = (x, failed, st')"
  shows "turn_ext st st' \<and> (x = None \<longrightarrow> sent (ReplyEvent r e) st st' \<and> showing (said tr r e) (fst st'))"
proof -
  let ?st = "apfst (hub_transition StateSpeaking (Some tr) (Some r) (Some e)) st"
  obtain y f st1 where spoken: "(if pcm_anySent s \<or> pcm_pcmBuf s \<noteq> [] then
              (case finalizeStreamerPlayback n s ?st of (e, st1) \<Rightarrow> (map_option TurnTTS e, False, st1))
            else if Option.is_none (te_tts env) then (None, False, ?st)
            else synthesizeAndEmitReply env r n e tr ?st) = (y, f, st1)" by (metis prod_cases3)
  have shown: "showing (said tr r e) (fst ?st)" by (simp add: fst_apfst)
  have fin: "turn_ext ?st st2 \<and> showing (said tr r e) (fst st2)" if "finalizeStreamerPlayback n s ?st = (z, st2)" for z st2
  proof -
    obtain fe s2 st3 where fin: "with_hub pcm_finish (s, ?st) = (fe, s2, st3)" by (metis prod_cases3)
    have "turn_ext st3 (apfst (record_metric (StageDuration n ''tts'' ''success'')) st3)" by (rule turn_ext_metric)
    with turn_ext_finish [OF fin] that fin shown show ?thesis
      by (auto simp: finalizeStreamerPlayback_def fst_apfst intro: turn_ext_trans split: option.splits)
  qed
  have ext1: "turn_ext ?st st1" "y = None \<Longrightarrow> showing (said tr r e) (fst st1)"
    using spoken fin synthesizeAndEmitReply_ext shown by (auto split: if_splits prod.splits)
  have ext0: "turn_ext st st1" using turn_ext_transition ext1(1) by (rule turn_ext_trans)
  show ?thesis
  proof (cases y)
    case None
    obtain z st2 where send: "hub_send (ReplyEvent r e) st1 = (z, st2)" by (cases "hub_send (ReplyEvent r e) st1")
    have "st' = st2" "x = None \<Longrightarrow> z = None" using assms spoken None send
      by (auto simp: emitStreamedReply_def Let_def split: option.splits)
    then show ?thesis using ext0 ext1(2) None send sent_send [OF ext0] turn_ext_send [OF send] showing_send [OF send]
      by (auto intro: turn_ext_trans)
  next
    case (Some err)
    then have "st' = st1" "x \<noteq> None" using assms spoken by (auto simp: emitStreamedReply_def Let_def)
    then show ?thesis using ext0 by auto
  qed
qed
section \<open>Asking the brain\<close>

lemma recordBrain_ext: "recordBrainStageError env n err st = (x, st') \<Longrightarrow> turn_ext st st'"
proof -
  assume a: "recordBrainStageError env n err st = (x, st')"
  let ?kind = "if te_timeout env ''brain'' err then ''brain_timeout'' else ''brain_error''"
  let ?st = "apfst (hub_transition StateError None None None \<circ> record_metric (StageError n ''brain'' ?kind)
      \<circ> record_metric (StageDuration n ''brain'' ''error'')) st"
  obtain y st1 where send: "hub_send (ErrorEvent ?kind err) ?st = (y, st1)" by (cases "hub_send (ErrorEvent ?kind err) ?st")
  then have "st' = st1" using a by (auto simp: recordBrainStageError_def Let_def split: option.splits)
  then show ?thesis using turn_ext_trans [OF turn_ext_error turn_ext_send [OF send]] by simp
qed

lemma heartbeat_ext: "heartbeat n (b, st) = (b', st') \<Longrightarrow> turn_ext st st'"
  by (auto simp: heartbeat_def split: if_splits prod.splits dest: turn_ext_send)

lemma sentence_ext: "synthesizeStreamedSentence env txt (s, k) = (e, s', k') \<Longrightarrow> sink_ext k k'"
proof (cases "te_tts env")
  case (Some p)
  obtain post t where p: "p = (post, t)" by (cases p)
  let ?f = "\<lambda>tc (pushErr, st). if tc_Data tc = [] then (None, pushErr, st)
      else case pcm_push tc txt st of (Some e, st') \<Rightarrow> (Some e, Some e, st') | (None, st') \<Rightarrow> (None, pushErr, st')"
  let ?P = "\<lambda>(pe :: stream_error option, s :: pcmChunkStreamer, y). sink_ext k y"
  obtain x pe s1 k1 where syn: "Synthesize post t txt ?f (None, s, k) = (x, pe, s1, k1)"
    by (cases "Synthesize post t txt ?f (None, s, k)" rule: prod_cases4)
  have "?P (pe, s1, k1)"
  proof (rule Synthesize_inv [OF _ _ syn, of ?P])
    fix tc e y y'
    assume "?P y" "?f tc y = (e, y')"
    then show "?P y'" by (auto split: prod.splits if_splits option.splits dest!: sink_ext_push intro: sink_ext_trans)
  qed simp
  moreover assume "synthesizeStreamedSentence env txt (s, k) = (e, s', k')"
  ultimately show ?thesis using Some p syn by (auto simp: synthesizeStreamedSentence_def split: option.splits)
qed (simp add: synthesizeStreamedSentence_def)

lemma onAudio_ext:
  assumes "onAudio env tr e txt (c, st) = (c', st')"
  shows "turn_ext st st'"
proof -
  obtain h k where st: "st = (h, k)" by (cases st)
  obtain x s k1 where syn: "synthesizeStreamedSentence env txt (col_streamer c, k) = (x, s, k1)" by (metis prod_cases3)
  let ?cap = "col_caption c @ (if col_caption c \<noteq> [] \<and> txt \<noteq> [] then '' '' else []) @ txt"
  have "turn_ext st (hub_transition StateSpeaking (Some tr) (Some ?cap) (Some e) h, k)"
    using turn_ext_transition [of "(h, k)"] by (simp add: st)
  from turn_ext_trans [OF this turn_ext_sink [OF sentence_ext [OF syn]]]
  have "turn_ext st (hub_transition StateSpeaking (Some tr) (Some ?cap) (Some e) h, k1)" .
  then show ?thesis using assms syn by (auto simp: onAudio_def st Let_def split: if_splits)
qed

lemma stream_step_ext: "stream_step env tr e b (c, st) = (c', st') \<Longrightarrow> turn_ext st st'"
  by (cases b) (auto simp: turn_ext_status dest: onAudio_ext heartbeat_ext split: prod.splits)

lemma unary_step_ext: "unary_step b (c, st) = (c', st') \<Longrightarrow> turn_ext st st'"
  by (cases b) (auto simp: turn_ext_status dest: heartbeat_ext)

lemma fold_ext:
  assumes "\<And>x c st c' st'. f x (c, st) = (c', st') \<Longrightarrow> turn_ext st st'"
  shows "fold f xs (c, st) = (c', st') \<Longrightarrow> turn_ext st st'"
proof (induction xs arbitrary: c st)
  case (Cons x xs)
  obtain c1 st1 where s: "f x (c, st) = (c1, st1)" by (cases "f x (c, st)")
  with Cons.prems have "fold f xs (c1, st1) = (c', st')" by simp
  from turn_ext_trans [OF assms [OF s] Cons.IH [OF this]] show ?case .
qed simp

lemma turn_ext_answered: "turn_ext st (apfst (answered env n b r) st)"
  by (rule turn_ext_same) (auto simp: answered_def recordChat_def record_metric_def split: option.splits)

text \<open>What a deliberation that succeeds has done.\<close>

definition replied :: "string \<Rightarrow> string \<Rightarrow> VoiceHub \<times> sink \<Rightarrow> VoiceHub \<times> sink \<Rightarrow> bool" where
  "replied tr e st st' \<longleftrightarrow> (\<exists>r. sent (ReplyEvent r e) st st' \<and> showing (said tr r e) (fst st'))"

lemma sent_ext: "turn_ext st st1 \<Longrightarrow> sent e st1 st2 \<Longrightarrow> turn_ext st1 st2 \<Longrightarrow> sent e st st2"
  by (auto simp: sent_def turn_ext_def sink_ext_def prefix_def)

lemma replied_ext: "turn_ext st st1 \<Longrightarrow> turn_ext st1 st2 \<Longrightarrow> replied tr e st1 st2 \<Longrightarrow> replied tr e st st2"
  unfolding replied_def using sent_ext by blast

lemma deliberateStreaming_ext:
  assumes "deliberateStreaming env asked tr n e st = (x, failed, st')"
  shows "turn_ext st st' \<and> (x = None \<longrightarrow> replied tr e st st')"
proof -
  obtain steps result b where asked: "asked = (steps, result, b)" by (metis prod_cases3)
  obtain col st1 where f: "fold (stream_step env tr e) steps (new_collector, st) = (col, st1)"
    by (cases "fold (stream_step env tr e) steps (new_collector, st)")
  have ext: "turn_ext st st1" by (rule fold_ext [OF _ f]) (rule stream_step_ext)
  show ?thesis
  proof (cases "case col_streamErr col of Some e \<Rightarrow> Inl (ErrStream e) | None \<Rightarrow> map_sum ErrText id result")
    case (Inl err)
    obtain y st2 where "recordBrainStageError env n err st1 = (y, st2)" by (cases "recordBrainStageError env n err st1")
    then show ?thesis using assms asked f Inl ext by (auto simp: deliberateStreaming_def dest: recordBrain_ext intro: turn_ext_trans)
  next
    case (Inr r)
    let ?st = "apfst (answered env n b r) st1"
    have "(if col_streamedAny col then emitStreamedReply env r tr n e (col_streamer col) ?st
       else emitNonStreamingReply env tr e n r ?st) = (x, failed, st')"
      using assms asked f Inr by (simp add: deliberateStreaming_def Let_def)
    then have fin: "turn_ext ?st st'" "x = None \<Longrightarrow> replied tr e ?st st'"
      using emitStreamedReply_ext emitNonStreamingReply_ext unfolding replied_def by (metis (full_types))+
    have "turn_ext st ?st" using ext turn_ext_answered by (rule turn_ext_trans)
    then show ?thesis using fin by (auto intro: turn_ext_trans replied_ext)
  qed
qed

lemma deliberateUnary_ext:
  assumes "deliberateUnary env asked tr n e st = (x, failed, st')"
  shows "turn_ext st st' \<and> (x = None \<longrightarrow> replied tr e st st')"
proof -
  obtain steps result where asked: "asked = (steps, result)" by (cases asked)
  obtain b st1 where f: "fold unary_step steps (True, st) = (b, st1)" by (cases "fold unary_step steps (True, st)")
  have ext: "turn_ext st st1" by (rule fold_ext [OF _ f]) (rule unary_step_ext)
  show ?thesis
  proof (cases result)
    case (Inl err)
    obtain y st2 where "recordBrainStageError env n (ErrText err) st1 = (y, st2)" by (cases "recordBrainStageError env n (ErrText err) st1")
    then show ?thesis using assms asked f Inl ext by (auto simp: deliberateUnary_def dest: recordBrain_ext intro: turn_ext_trans)
  next
    case (Inr r)
    let ?st = "apfst (answered env n True r) st1"
    have "emitNonStreamingReply env tr e n r ?st = (x, failed, st')" using assms asked f Inr by (simp add: deliberateUnary_def)
    from emitNonStreamingReply_ext [OF this] have fin: "turn_ext ?st st'" "x = None \<Longrightarrow> replied tr e ?st st'" unfolding replied_def by auto
    have "turn_ext st ?st" using ext turn_ext_answered by (rule turn_ext_trans)
    then show ?thesis using fin by (auto intro: turn_ext_trans replied_ext)
  qed
qed

lemma deliberateTurn_ext:
  assumes "deliberateTurn env b req tr n e st = (x, failed, st')"
  shows "turn_ext st st' \<and> (x = None \<longrightarrow> replied tr e st st')"
proof (cases "te_fast env")
  case None
  then show ?thesis using assms deliberateStreaming_ext deliberateUnary_ext
    by (auto simp: deliberateTurn_def split: if_splits prod.splits)
next
  case (Some fp)
  obtain steps result outcome rec where f: "fast_AskStreaming fp (Some b) req = (steps, result, outcome, rec)"
    by (cases "fast_AskStreaming fp (Some b) req" rule: prod_cases4)
  let ?st = "apfst (record_metric (StageDuration n ''fast_path'' outcome)) st"
  have "deliberateStreaming env (steps, result, rec) tr n e ?st = (x, failed, st')" using assms Some f by (simp add: deliberateTurn_def)
  from deliberateStreaming_ext [OF this] turn_ext_metric [of st "StageDuration n ''fast_path'' outcome"] show ?thesis
    by (auto intro: turn_ext_trans replied_ext)
qed
section \<open>The turn\<close>

definition rejected :: "turn_error \<Rightarrow> bool" where
  "rejected e \<longleftrightarrow> e \<in> {ErrHubDisabled, ErrInteractionBusy, TurnInvalidAudio}"

lemma transcribe_ext:
  assumes "transcribeWithSpeaker env wav n st = (x, st')"
  shows "turn_ext st st' \<and> (\<forall>e. x = Inl e \<longrightarrow> \<not> rejected e) \<and> (\<forall>t m. x = Inr (t, m) \<longrightarrow> sk_log (snd st') = sk_log (snd st))"
proof -
  let ?st = "apfst (hub_transition StateError None None None \<circ> record_metric (StageError n ''stt'' ''stt_error'')
      \<circ> record_metric (StageDuration n ''stt'' ''error'')) st"
  have send: "turn_ext st st1" if "hub_send e ?st = (y, st1)" for e y st1
    using turn_ext_error turn_ext_send [OF that] by (rule turn_ext_trans)
  have "turn_ext st (apfst (record_metric (StageError n ''stt'' ''stt_error'') \<circ> record_metric (StageDuration n ''stt'' ''error'')) st)"
    "turn_ext st (apfst (record_metric (StageDuration n ''stt'' ''success'')) st)"
    by (rule turn_ext_metrics2, rule turn_ext_metric)
  then show ?thesis using assms send
    by (auto simp: transcribeWithSpeaker_def rejected_def Let_def split: option.splits sum.splits prod.splits)
qed

text \<open>The stream of a turn that succeeds.\<close>

definition complete :: "string \<Rightarrow> int \<Rightarrow> VoiceHub \<times> sink \<Rightarrow> VoiceHub \<times> sink \<Rightarrow> bool" where
  "complete engine ms st st' \<longleftrightarrow> (\<exists>transcript speaker reply log.
     sk_log (snd st') = sk_log (snd st) @ [StateEvent StateTranscribing, TranscriptEvent transcript speaker] @ log @ [DoneEvent ms]
     \<and> ReplyEvent reply engine \<in> set log \<and> showing (said transcript reply engine) (fst st'))"

named_theorems not_rejected "errors of a turn that has begun"

lemma recordTTS_not_rejected [not_rejected]: "recordTTSSynthesisError env err n mid st = (Some x, st') \<Longrightarrow> \<not> rejected x"
  by (auto simp: recordTTSSynthesisError_def rejected_def Let_def split: option.splits if_splits prod.splits)

lemma synthesize_not_rejected [not_rejected]: "synthesizeAndEmitReply env r n e tr st = (Some x, failed, st') \<Longrightarrow> \<not> rejected x"
proof -
  have "\<not> rejected (TurnSink y)" "\<not> rejected (TurnTTS z)" for y z by (simp_all add: rejected_def)
  then show "synthesizeAndEmitReply env r n e tr st = (Some x, failed, st') \<Longrightarrow> \<not> rejected x"
    unfolding synthesizeAndEmitReply_def by (auto split: option.splits if_splits prod.splits dest: not_rejected)
qed

lemma recordBrain_not_rejected [not_rejected]: "recordBrainStageError env n err st = (x, st') \<Longrightarrow> \<not> rejected x"
  by (auto simp: recordBrainStageError_def rejected_def Let_def split: option.splits if_splits prod.splits)

lemma emitNonStreaming_not_rejected [not_rejected]: "emitNonStreamingReply env tr e n r st = (Some x, failed, st') \<Longrightarrow> \<not> rejected x"
  unfolding emitNonStreamingReply_def
  by (cases "hub_send (ReplyEvent r e) (apfst (hub_transition StateSpeaking (Some tr) (Some r) (Some e)) st)")
    (auto simp: rejected_def split: option.splits if_splits dest: not_rejected)

lemma emitStreamed_not_rejected [not_rejected]:
  assumes "emitStreamedReply env r tr n e s st = (Some x, failed, st')"
  shows "\<not> rejected x"
proof -
  have "\<not> rejected (TurnSink y)" "\<not> rejected (TurnTTS z)" for y z by (simp_all add: rejected_def)
  then show ?thesis using assms unfolding emitStreamedReply_def Let_def
    by (auto split: option.splits if_splits prod.splits dest: not_rejected)
qed

lemma streaming_not_rejected [not_rejected]: "deliberateStreaming env asked tr n e st = (Some x, failed, st') \<Longrightarrow> \<not> rejected x"
  unfolding deliberateStreaming_def Let_def by (auto split: option.splits if_splits prod.splits sum.splits dest: not_rejected)

lemma unary_not_rejected [not_rejected]: "deliberateUnary env asked tr n e st = (Some x, failed, st') \<Longrightarrow> \<not> rejected x"
  unfolding deliberateUnary_def by (auto split: option.splits if_splits prod.splits sum.splits dest: not_rejected)

lemma deliberate_not_rejected: "deliberateTurn env b req tr n e st = (Some x, failed, st') \<Longrightarrow> \<not> rejected x"
  unfolding deliberateTurn_def by (auto split: option.splits if_splits prod.splits dest: not_rejected)

lemma run_turn_ext:
  assumes "run_turn env wav n sess st = (x, failed, st')"
  shows "turn_ext st st' \<and> (case x of None \<Rightarrow> complete (GetTTSModel (hb_cfg (fst st))) (te_duration env) st st' | Some e \<Rightarrow> \<not> rejected e \<and> failed)
    \<and> (\<forall>st1. notifyTranscribing st = (None, st1) \<longrightarrow> turn_ext st1 st')"
proof -
  note run = assms [unfolded run_turn_def]
  obtain e1 st1 where s1: "notifyTranscribing st = (e1, st1)" by (cases "notifyTranscribing st")
  have x1: "turn_ext st st1"
    using s1 unfolding notifyTranscribing_def by (intro turn_ext_trans [OF turn_ext_transition turn_ext_send])
  obtain r2 st2 where s2: "transcribeWithSpeaker env wav n st1 = (r2, st2)" by (cases "transcribeWithSpeaker env wav n st1")
  note x2 = transcribe_ext [OF s2]
  note x12 = turn_ext_trans [OF x1 conjunct1 [OF x2]]
  show ?thesis
  proof (cases "e1 = None \<and> (\<exists>y. r2 = Inr y)")
    case False
    then show ?thesis using run s1 s2 x1 x12 x2 by (auto simp: rejected_def split: option.splits sum.splits)
  next
    case True
    then obtain tr sp sc where ok: "e1 = None" "r2 = Inr (tr, sp, sc)" by (metis prod_cases3)
    obtain e3 st3 where s3: "notifyThinking env tr sp n st2 = (e3, st3)" by (cases "notifyThinking env tr sp n st2")
    have "turn_ext st2 (apfst (recordChat (te_heard env) n RoleHuman sp tr \<circ> hub_transition StateThinking (Some tr) None None) st2)"
      by (rule turn_ext_comp) (rule turn_ext_transition, rule turn_ext_chat)
    then have x3: "turn_ext st2 st3" using s3 turn_ext_trans turn_ext_send unfolding notifyThinking_def by blast
    note x13 = turn_ext_trans [OF x12 x3] and y13 = turn_ext_trans [OF conjunct1 [OF x2] x3]
    let ?e = "GetTTSModel (hb_cfg (fst st))"
    have engine: "hb_cfg (fst st3) = hb_cfg (fst st)" using x13 by (simp add: turn_ext_def)
    show ?thesis
    proof (cases "e3 = None \<and> te_brain env \<noteq> None")
      case False
      then show ?thesis using run s1 s2 ok s3 x13 turn_ext_trans [OF x13 turn_ext_metrics2] y13 turn_ext_trans [OF y13 turn_ext_metrics2]
        by (auto simp: rejected_def split: option.splits)
    next
      case True
      then obtain b where b: "te_brain env = Some b" "e3 = None" by auto
      let ?req = "\<lparr>aq_Prompt = tr, aq_SessionID = sess, aq_NodeID = n, aq_Speaker = sp, aq_SpeakerScore = sc\<rparr>"
      obtain e4 f st4 where s4: "deliberateTurn env b ?req tr n ?e st3 = (e4, f, st4)" by (metis prod_cases3)
      note x4 = deliberateTurn_ext [OF s4]
      note x14 = turn_ext_trans [OF x13 conjunct1 [OF x4]] and y14 = turn_ext_trans [OF y13 conjunct1 [OF x4]]
      obtain e5 st5 where s5: "hub_send (DoneEvent (te_duration env)) st4 = (e5, st5)" by (cases "hub_send (DoneEvent (te_duration env)) st4")
      note x15 = turn_ext_trans [OF x14 turn_ext_send [OF s5]] and y15 = turn_ext_trans [OF y14 turn_ext_send [OF s5]]
      show ?thesis
      proof (cases "e4 = None \<and> e5 = None")
        case False
        then show ?thesis using run s1 s2 ok s3 b s4 s5 x14 x15 y14 y15 engine deliberate_not_rejected [of env b ?req tr n ?e st3]
          by (auto simp: rejected_def Let_def split: option.splits)
      next
        case True
        then have st': "st' = st5" "x = None" using run s1 s2 ok s3 b s4 s5 engine by (auto simp: Let_def)
        from x4 True obtain r where r: "sent (ReplyEvent r ?e) st3 st4" "showing (said tr r ?e) (fst st4)" by (auto simp: replied_def)
        have l: "sk_log (snd st3) = sk_log (snd st) @ [StateEvent StateTranscribing, TranscriptEvent tr sp]"
          "sk_log (snd st5) = sk_log (snd st4) @ [DoneEvent (te_duration env)]"
          using s1 s2 s3 s5 ok b True x2 by (auto simp: notifyTranscribing_def notifyThinking_def dest!: send_log)
        from x4 obtain log where log: "sk_log (snd st4) = sk_log (snd st3) @ log" by (auto simp: turn_ext_def sink_ext_def prefix_def)
        with r have "ReplyEvent r ?e \<in> set log" by (simp add: sent_def)
        then have "complete ?e (te_duration env) st st5"
          unfolding complete_def using l log r(2) showing_send [OF s5] by (intro exI [of _ tr] exI [of _ sp] exI [of _ r] exI [of _ log]) simp
        then show ?thesis using x15 y15 s1 st' by auto
      qed
    qed
  qed
qed
lemma edge_timings: "hb_cfg (recordEdgeTimings n tm h) = hb_cfg h" "hb_inFlight (recordEdgeTimings n tm h) = hb_inFlight h"
  "hb_coord (recordEdgeTimings n tm h) = hb_coord h"
  by (simp_all add: recordEdgeTimings_def record_metric_def)

lemma showing_cong: "hb_coord h = hb_coord h' \<Longrightarrow> showing d h = showing d h'"
  by (simp add: showing_def)

lemma coord_metric: "hb_coord (record_metric m h) = hb_coord h" "hb_cfg (record_metric m h) = hb_cfg h" "hb_inFlight (record_metric m h) = hb_inFlight h"
  by (simp_all add: record_metric_def)

text \<open>A turn that got as far as its begin, up to its error handler.\<close>

lemma Interact_accepted:
  assumes "voicehub_IsEnabled (hb_cfg h)" "\<not> hb_inFlight h" "readAndValidateWAVAudio audio = Inr wav"
    "Interact env audio n s tm (h, k) = (err, h', k')"
  obtains failed h2 where
    "run_turn env wav n (if s = [] then te_session env else s) (recordEdgeTimings n tm (h\<lparr>hb_inFlight := True\<rparr>), k) = (err, failed, h2, k')"
    "h' = (handleTurnPanicOrError err (record_metric (TurnCount n (if failed then ''error'' else ''success'')) h2))\<lparr>hb_inFlight := False\<rparr>"
  using assms by (auto simp: Interact_def Let_def split: prod.splits)

lemma interact_ext:
  assumes "Interact env audio n s tm (h, k) = (err, h', k')"
  shows "turn_ext (h, k) (h', k')"
proof (cases "voicehub_IsEnabled (hb_cfg h) \<and> \<not> hb_inFlight h \<and> (\<exists>wav. readAndValidateWAVAudio audio = Inr wav)")
  case False
  then have "h' = h \<and> k' = k" using assms by (auto simp: Interact_def Let_def split: sum.splits if_splits)
  then show ?thesis by simp
next
  case True
  let ?h = "recordEdgeTimings n tm (h\<lparr>hb_inFlight := True\<rparr>)"
  from True assms obtain wav failed h2 where
    run: "run_turn env wav n (if s = [] then te_session env else s) (?h, k) = (err, failed, h2, k')" and
    h': "h' = (handleTurnPanicOrError err (record_metric (TurnCount n (if failed then ''error'' else ''success'')) h2))\<lparr>hb_inFlight := False\<rparr>"
    by (blast elim: Interact_accepted)
  let ?h3 = "record_metric (TurnCount n (if failed then ''error'' else ''success'')) h2"
  have "turn_ext (?h, k) (h2, k')" using run_turn_ext [OF run] by simp
  moreover have "turn_ext (h2, k') (handleTurnPanicOrError err ?h3, k')"
    using turn_ext_trans [OF turn_ext_metric [of "(h2, k')"] turn_ext_transition] turn_ext_metric [of "(h2, k')"]
    by (auto simp: handleTurnPanicOrError_def)
  ultimately have ext: "turn_ext (?h, k) (handleTurnPanicOrError err ?h3, k')" by (rule turn_ext_trans)
  then show ?thesis unfolding turn_ext_def h' using True by (simp add: edge_timings)
qed

text \<open>A speaking state ends by itself.\<close>

lemma speaking_ends:
  assumes "c = foldl voice_call (NewVoiceCoordinator hub snk) es" "VoiceStop \<notin> set es" "vo_State (vc_data c) = StateSpeaking"
  shows "\<exists>t d. vc_running c = [(t, d)] \<and> vo_State (vc_data (voice_call c (VoiceWatchdog t))) = StateIdle"
proof -
  have "watchdog_inv c" unfolding assms(1) by (rule voice_calls_inv [OF voice_new_inv])
  moreover have "vc_speakingTimer c \<noteq> None"
    using voice_calls_armed [of "NewVoiceCoordinator hub snk" es] assms
    by (simp add: NewVoiceCoordinator_def voice_data_def voice_states Let_def)
  moreover have "vo_State (vc_data (snd (voice_Reset c))) = StateIdle"
    by (simp add: voice_Reset_def updateState_def voice_publishState_def voice_data_def Let_def frame)
  ultimately show ?thesis using assms(3) by (auto simp: watchdog_inv_def watchdog_callback_def watchdog_check_def)
qed

definition sample_recording :: "byte list" where
  "sample_recording = [0x52, 0x49, 0x46, 0x46] @ replicate 40 0"

definition sample_env :: turn_env where
  "sample_env = \<lparr>te_stt = Some (\<lambda>_. Inr ''what time is it''), te_match = None,
     te_brain = Some \<lparr>br_streaming = True, br_ask = (\<lambda>_. ([Tick 5, Status ''clock'', Sentence ''Noon.''], Inr ''Noon.''))\<rparr>,
     te_fast = None, te_tts = None,
     te_timeout = (\<lambda>_ _. False), te_session = ''turn-1'', te_heard = 0, te_answered = 1, te_duration = 1200\<rparr>"

definition sample_hub :: VoiceHub where
  "sample_hub = \<lparr>hb_inFlight = False,
     hb_cfg = Some \<lparr>vh_Enabled = True, vh_STTURL = [], vh_BrainURL = [], vh_BrainTimeoutSeconds = None, vh_TTSURL = [], vh_TTSVoice = [],
       vh_TTSModel = [], vh_TTSTimeoutSeconds = None, vh_SpeakerID = None, vh_FastPath = None\<rparr>,
     hb_coord = Some (NewVoiceCoordinator True True), hb_chatLog = None, hb_changes = 0, hb_metrics = []\<rparr>"

definition no_timings :: EdgeTimings where "no_timings = \<lparr>et_WakeEvalSec = 0, et_UtteranceSpeechSec = 0, et_UtteranceSilenceSec = 0\<rparr>"

lemma no_timings_recorded: "recordEdgeTimings n no_timings h = h"
  by (simp add: recordEdgeTimings_def no_timings_def f64_less_def f64_zero_def f64_key_def f64_mag_def)

lemma sample_run_ok: "fst (run_turn sample_env sample_recording ''kitchen'' ''turn-1'' (sample_hub\<lparr>hb_inFlight := True\<rparr>, quiet_sink)) = None"
  by code_simp

lemma sample_turn_ok: "fst (Interact sample_env (Some (Inr sample_recording)) ''kitchen'' [] no_timings (sample_hub, quiet_sink)) = None"
proof -
  have "readAndValidateWAVAudio (Some (Inr sample_recording)) = Inr sample_recording" by code_simp
  moreover have "voicehub_IsEnabled (hb_cfg sample_hub)" "\<not> hb_inFlight sample_hub" "te_session sample_env = ''turn-1''"
    by (simp_all add: voicehub_IsEnabled_def sample_hub_def sample_env_def)
  ultimately show ?thesis using sample_run_ok by (auto simp: Interact_def no_timings_recorded Let_def split: prod.split)
qed


section \<open>Failures are reported\<close>

definition told :: "VoiceHub \<times> sink \<Rightarrow> bool" where
  "told st \<longleftrightarrow> sk_log (snd st) \<noteq> [] \<and> (\<exists>kind m. last (sk_log (snd st)) = ErrorEvent kind m)"

lemma reliable_ext: "turn_ext st st' \<Longrightarrow> reliable (snd st) \<Longrightarrow> reliable (snd st')"
  by (simp add: turn_ext_def sink_ext_def reliable_def)

lemma hub_send_reliable:
  "reliable (snd st) \<Longrightarrow> hub_send e st = (None, fst st, (snd st)\<lparr>sk_log := sk_log (snd st) @ [e]\<rparr>)"
  by (cases st) (simp add: hub_send_def send_def reliable_def)

lemma told_error [simp]: "told (h, k\<lparr>sk_log := l @ [ErrorEvent kind m]\<rparr>)"
  by (simp add: told_def)

lemma finish_reliable: "reliable (snd st) \<Longrightarrow> with_hub pcm_finish (s, st) = (e, s', st') \<Longrightarrow> e = None"
  by (cases st) (auto simp: with_hub_def pcm_finish_def emit_reliable split: if_splits prod.splits option.splits)

lemma recordTTS_told:
  assumes "recordTTSSynthesisError env err n mid st = (Some x, st')" "reliable (snd st)"
  shows "told st'"
  using assms by (auto simp: recordTTSSynthesisError_def Let_def hub_send_reliable split: if_splits)

lemma recordBrain_told: "recordBrainStageError env n err st = (x, st') \<Longrightarrow> reliable (snd st) \<Longrightarrow> told st'"
  by (auto simp: recordBrainStageError_def Let_def hub_send_reliable)

lemma synthesize_told:
  assumes "synthesizeAndEmitReply env r n e tr st = (Some x, failed, st')" "reliable (snd st)"
  shows "told st'"
proof -
  from assms(1) obtain post t where tts: "te_tts env = Some (post, t)" "TrimSpace r \<noteq> []"
    by (auto simp: synthesizeAndEmitReply_def split: option.splits if_splits)
  obtain ttsErr s st1 where syn: "Synthesize post t r (reply_chunk tr r e) (new_streamer False, st) = (ttsErr, s, st1)" by (metis prod_cases3)
  have rel1: "reliable (snd st1)" using reliable_ext [OF conjunct1 [OF synthesize_reply_ext [OF syn]] assms(2)] .
  obtain fe s2 st2 where fin: "with_hub pcm_finish (s, st1) = (fe, s2, st2)" by (metis prod_cases3)
  have rel2: "reliable (snd st2)" using reliable_ext [OF conjunct1 [OF turn_ext_finish [OF fin]] rel1] .
  have "fe = None" using rel1 fin by (rule finish_reliable)
  then show ?thesis using assms(1) tts syn fin rel1 rel2 recordTTS_told
    by (auto simp: synthesizeAndEmitReply_def hub_send_reliable split: if_splits option.splits prod.splits)
qed

lemma emitNonStreaming_told:
  "emitNonStreamingReply env tr e n r st = (Some x, failed, st') \<Longrightarrow> reliable (snd st) \<Longrightarrow> told st'"
  using synthesize_told [of env r n e tr] by (auto simp: emitNonStreamingReply_def hub_send_reliable split: if_splits)

lemma emitStreamed_told:
  assumes "emitStreamedReply env r tr n e s st = (Some x, failed, st')" "reliable (snd st)"
  shows "told st'"
proof -
  let ?st = "apfst (hub_transition StateSpeaking (Some tr) (Some r) (Some e)) st"
  have rel: "reliable (snd ?st)" using assms(2) by simp
  have fin: "z = None \<and> reliable (snd st2)" if "finalizeStreamerPlayback n s ?st = (z, st2)" for z st2
  proof -
    obtain fe s2 st3 where f: "with_hub pcm_finish (s, ?st) = (fe, s2, st3)" by (metis prod_cases3)
    have "fe = None" "reliable (snd st3)" using finish_reliable [OF rel f] reliable_ext [OF conjunct1 [OF turn_ext_finish [OF f]] rel] by auto
    with that f show ?thesis by (auto simp: finalizeStreamerPlayback_def)
  qed
  have syn: "told st2" if "synthesizeAndEmitReply env r n e tr ?st = (Some y, f, st2)" for y f st2
    using synthesize_told [OF that rel] .
  have rel': "reliable (snd st2)" if "synthesizeAndEmitReply env r n e tr ?st = (None, f, st2)" for f st2
    using reliable_ext [OF conjunct1 [OF synthesizeAndEmitReply_ext [OF that]] rel] .
  show ?thesis using assms(1) rel fin syn rel'
    by (auto simp: emitStreamedReply_def Let_def hub_send_reliable split: if_splits option.splits prod.splits)
qed

lemma deliberate_told:
  assumes "deliberateTurn env b req tr n e st = (Some x, failed, st')" "reliable (snd st)"
  shows "told st'"
proof -
  have streaming: "told st2" if d: "deliberateStreaming env asked tr n e st1 = (Some x, failed, st2)" and rel: "reliable (snd st1)"
    for asked st1 st2
  proof -
    obtain steps result b where asked: "asked = (steps, result, b)" by (metis prod_cases3)
    obtain col y where f: "fold (stream_step env tr e) steps (new_collector, st1) = (col, y)"
      by (cases "fold (stream_step env tr e) steps (new_collector, st1)")
    have "turn_ext st1 y" by (rule fold_ext [OF _ f]) (rule stream_step_ext)
    then have rel': "reliable (snd y)" using rel by (rule reliable_ext)
    show ?thesis using d asked f rel' recordBrain_told emitStreamed_told emitNonStreaming_told
      by (auto simp: deliberateStreaming_def Let_def split: if_splits sum.splits prod.splits)
  qed
  have unary: "told st2" if d: "deliberateUnary env asked tr n e st1 = (Some x, failed, st2)" and rel: "reliable (snd st1)"
    for asked st1 st2
  proof -
    obtain steps result where asked: "asked = (steps, result)" by (cases asked)
    obtain b y where f: "fold unary_step steps (True, st1) = (b, y)" by (cases "fold unary_step steps (True, st1)")
    have "turn_ext st1 y" by (rule fold_ext [OF _ f]) (rule unary_step_ext)
    then have rel': "reliable (snd y)" using rel by (rule reliable_ext)
    show ?thesis using d asked f rel' recordBrain_told emitNonStreaming_told
      by (auto simp: deliberateUnary_def split: sum.splits prod.splits)
  qed
  show ?thesis using assms streaming unary by (auto simp: deliberateTurn_def split: option.splits if_splits prod.splits)
qed

lemma run_turn_told:
  assumes "run_turn env wav n sess st = (Some x, failed, st')" "reliable (snd st)" "te_stt env \<noteq> None" "te_brain env \<noteq> None"
  shows "told st'"
proof -
  note run = assms(1) [unfolded run_turn_def]
  obtain e1 st1 where s1: "notifyTranscribing st = (e1, st1)" by (cases "notifyTranscribing st")
  have r1: "e1 = None" "reliable (snd st1)" using s1 assms(2) by (auto simp: notifyTranscribing_def hub_send_reliable)
  obtain r2 st2 where s2: "transcribeWithSpeaker env wav n st1 = (r2, st2)" by (cases "transcribeWithSpeaker env wav n st1")
  have r2: "reliable (snd st2)" using reliable_ext [OF conjunct1 [OF transcribe_ext [OF s2]] r1(2)] .
  show ?thesis
  proof (cases r2)
    case (Inl e)
    then have "told st2" using s2 r1 assms(3) by (auto simp: transcribeWithSpeaker_def hub_send_reliable Let_def split: sum.splits)
    then show ?thesis using run s1 s2 r1 Inl by simp
  next
    case (Inr y)
    then obtain tr sp sc where y: "r2 = Inr (tr, sp, sc)" by (metis prod_cases3)
    obtain e3 st3 where s3: "notifyThinking env tr sp n st2 = (e3, st3)" by (cases "notifyThinking env tr sp n st2")
    have r3: "e3 = None" "reliable (snd st3)" using s3 r2 by (auto simp: notifyThinking_def hub_send_reliable)
    from assms(4) obtain b where b: "te_brain env = Some b" by auto
    let ?req = "\<lparr>aq_Prompt = tr, aq_SessionID = sess, aq_NodeID = n, aq_Speaker = sp, aq_SpeakerScore = sc\<rparr>"
    obtain e4 f st4 where s4: "deliberateTurn env b ?req tr n (GetTTSModel (hb_cfg (fst st3))) st3 = (e4, f, st4)" by (metis prod_cases3)
    have r4: "reliable (snd st4)" using reliable_ext [OF conjunct1 [OF deliberateTurn_ext [OF s4]] r3(2)] .
    then have "e4 = Some x" "st' = st4"
      using run s1 s2 r1 y s3 r3(1) b s4 by (auto simp: hub_send_reliable Let_def split: option.splits)
    with s4 r3(2) deliberate_told show ?thesis by blast
  qed
qed

lemma first_event:
  assumes "run_turn env wav n sess (h, k) = (x, failed, h', k')" "reliable k"
  shows "length (sk_log k) < length (sk_log k')"
proof -
  obtain e1 st1 where s1: "notifyTranscribing (h, k) = (e1, st1)" by (cases "notifyTranscribing (h, k)")
  have e1: "e1 = None" "sk_log (snd st1) = sk_log k @ [StateEvent StateTranscribing]"
    using s1 assms(2) by (auto simp: notifyTranscribing_def hub_send_reliable)
  have "turn_ext st1 (h', k')" using run_turn_ext [OF assms(1)] s1 e1(1) by simp
  then show ?thesis using e1(2) by (auto simp: turn_ext_def sink_ext_def prefix_def)
qed

text \<open>
  C0: with a working connection, a turn that fails after it began tells the client so: the last event of its stream is an error
  event, and the turn is counted as an error. The recogniser and the brain are configured; without one of them the turn fails
  with no such event.
\<close>

theorem interact_tells_client:
  assumes "Interact env audio n s tm (h, k) = (Some e, h', k')" "e \<notin> {ErrHubDisabled, ErrInteractionBusy, TurnInvalidAudio}"
    "reliable k" "te_stt env \<noteq> None" "te_brain env \<noteq> None"
  shows "\<exists>log kind m ms. sk_log k' = sk_log k @ log @ [ErrorEvent kind m] \<and> hb_metrics h' = ms @ [TurnCount n ''error'']"
proof (cases "voicehub_IsEnabled (hb_cfg h) \<and> \<not> hb_inFlight h \<and> (\<exists>wav. readAndValidateWAVAudio audio = Inr wav)")
  case False
  then show ?thesis using assms(1,2) by (auto simp: Interact_def Let_def split: sum.splits if_splits)
next
  case True
  let ?h = "recordEdgeTimings n tm (h\<lparr>hb_inFlight := True\<rparr>)"
  from True assms(1) obtain wav failed h2 where
    run: "run_turn env wav n (if s = [] then te_session env else s) (?h, k) = (Some e, failed, h2, k')" and
    h': "h' = (handleTurnPanicOrError (Some e) (record_metric (TurnCount n (if failed then ''error'' else ''success'')) h2))\<lparr>hb_inFlight := False\<rparr>"
    by (blast elim: Interact_accepted)
  have failed: "failed" using run_turn_ext [OF run] by simp
  have "told (h2, k')" using run_turn_told [OF run] assms(3-5) by simp
  then obtain kind m where told: "sk_log k' \<noteq> []" "last (sk_log k') = ErrorEvent kind m" by (auto simp: told_def)
  have "sk_log k' \<noteq> sk_log k" using first_event [OF run assms(3)] by auto
  moreover from run_turn_ext [OF run] obtain log where log: "sk_log k' = sk_log k @ log" by (auto simp: turn_ext_def sink_ext_def prefix_def)
  ultimately have "log \<noteq> []" by auto
  with told log have "log = butlast log @ [ErrorEvent kind m]" by (metis append_butlast_last_id last_appendR)
  then have "sk_log k' = sk_log k @ butlast log @ [ErrorEvent kind m]" using log by metis
  moreover have "hb_metrics h' = hb_metrics h2 @ [TurnCount n ''error'']"
    using failed by (simp add: h' handleTurnPanicOrError_def hub_transition_def record_metric_def)
  ultimately show ?thesis by blast
qed

definition failing_env :: turn_env where
  "failing_env = sample_env\<lparr>te_brain := Some \<lparr>br_streaming = False, br_ask = (\<lambda>_. ([Tick 5], Inl ''connection refused''))\<rparr>\<rparr>"

lemma failing_run: "fst (run_turn failing_env sample_recording ''kitchen'' ''turn-1'' (sample_hub\<lparr>hb_inFlight := True\<rparr>, quiet_sink))
    = Some (ErrBrainFailed (Some (ErrText ''connection refused'')))"
  by code_simp

lemma failing_turn: "fst (Interact failing_env (Some (Inr sample_recording)) ''kitchen'' [] no_timings (sample_hub, quiet_sink))
    = Some (ErrBrainFailed (Some (ErrText ''connection refused'')))"
proof -
  have "readAndValidateWAVAudio (Some (Inr sample_recording)) = Inr sample_recording" by code_simp
  moreover have "voicehub_IsEnabled (hb_cfg sample_hub)" "\<not> hb_inFlight sample_hub" "te_session failing_env = ''turn-1''"
    by (simp_all add: voicehub_IsEnabled_def sample_hub_def failing_env_def sample_env_def)
  ultimately show ?thesis using failing_run by (auto simp: Interact_def no_timings_recorded Let_def split: prod.split)
qed

lemma interact_tells_client_witness:
  "\<exists>h' k' log kind m ms. Interact failing_env (Some (Inr sample_recording)) ''kitchen'' [] no_timings (sample_hub, quiet_sink)
      = (Some (ErrBrainFailed (Some (ErrText ''connection refused''))), h', k')
    \<and> sk_log k' = log @ [ErrorEvent kind m] \<and> hb_metrics h' = ms @ [TurnCount ''kitchen'' ''error'']"
proof -
  obtain h' k' where i: "Interact failing_env (Some (Inr sample_recording)) ''kitchen'' [] no_timings (sample_hub, quiet_sink)
      = (Some (ErrBrainFailed (Some (ErrText ''connection refused''))), h', k')"
    using failing_turn by (metis prod.exhaust_sel)
  have "reliable quiet_sink" "te_stt failing_env \<noteq> None" "te_brain failing_env \<noteq> None" "sk_log quiet_sink = []"
    by (simp_all add: reliable_def quiet_sink_def failing_env_def sample_env_def)
  then show ?thesis using interact_tells_client [OF i] i by auto
qed

end
