(* ===== verification/Render_Engine.thy ===== *)
theory Render_Engine
  imports Config_Env
begin

text \<open>
  \<^verbatim>\<open>internal/render/context.go\<close> and \<^verbatim>\<open>engine.go\<close>: what a widget's template is given, and the cache of compiled templates. The
  template language is a parameter: a compiled template is what the parser makes of a file, and its execution gives bytes or an
  error. A mapping of the settings whose keys are not all strings has another type in Go, which the sanitizer would leave as it is;
  resolving the environment has converted those, so values here are those whose mappings have string keys.
\<close>

section \<open>Settings without secrets\<close>

definition exactSensitiveKeys :: "string list" where
  "exactSensitiveKeys = [''token'', ''secret'', ''password'', ''api_key'', ''apikey'', ''auth'', ''auth_token'', ''access_token'']"

definition HasSuffix :: "string \<Rightarrow> string \<Rightarrow> bool" where
  "HasSuffix s p \<longleftrightarrow> length p \<le> length s \<and> drop (length s - length p) s = p"

definition isSensitiveKey :: "string \<Rightarrow> bool" where
  "isSensitiveKey key =
     (let lower = ToLower (TrimSpace key) in HasSuffix lower ''_env'' \<or> lower = ''_env'' \<or> lower \<in> set exactSensitiveKeys)"

fun sanitizeValue :: "any \<Rightarrow> any" where
  "sanitizeValue (AMap m) = AMap (map (\<lambda>(k, v). (k, sanitizeValue v)) (filter (\<lambda>(k, v). \<not> isSensitiveKey k) m))"
| "sanitizeValue (AList vs) = AList (map sanitizeValue vs)"
| "sanitizeValue v = v"

definition SanitizeConfig :: "any_map option \<Rightarrow> any_map" where
  "SanitizeConfig cfg =
     (case cfg of None \<Rightarrow> [] | Some m \<Rightarrow> map (\<lambda>(k, v). (k, sanitizeValue v)) (filter (\<lambda>(k, v). \<not> isSensitiveKey k) m))"

section \<open>The context of a widget\<close>

record ('data) Context =
  cx_ID :: string
  cx_Type :: string
  cx_Dimensions :: Dimension
  cx_Data :: 'data
  cx_State :: string
  cx_Timestamp :: string
  cx_Config :: any_map
  cx_Origin :: "int \<times> int"
  cx_Theme :: string
  cx_Online :: bool
  cx_Assets :: string

text \<open>
  The provider of state: a value of data may be nil (None), and the timestamps of widgets are an optional capability. The empty map
  stands for no data.
\<close>

record 'data state_provider =
  sp_CurrentSnapshot :: "Snapshot option"
  sp_GetWidgetState :: "string \<Rightarrow> ('data option \<times> string \<times> string) option"
  sp_GetWidgetTimestamp :: "(string \<Rightarrow> string option) option"
  sp_ConfigStatus :: ConfigStatus
  sp_empty :: 'data

record ('data, 'tmpl) Engine =
  en_cache :: "string \<rightharpoonup> 'tmpl"
  en_resolver :: "(string \<Rightarrow> string + Package) option"
  en_provider :: "'data state_provider option"
  en_nodeData :: "(string \<Rightarrow> string \<Rightarrow> 'data option) option"

datatype render_error =
    WidgetNotFoundError string
  | NoProvider
  | NoSnapshot
  | PackageError string string
  | PackageMissing string
  | ViewUnreadable string string
  | TemplateSyntax string string
  | ExecFailed string string

definition fallbackWidgetDimension :: "WidgetConfig \<Rightarrow> Package option \<Rightarrow> Dimension" where
  "fallbackWidgetDimension w pkg =
     (case (if length (derefOr (wc_Dimensions w) []) = 2 then DimensionFromSlice (derefOr (wc_Dimensions w) [])
            else Inl (DimensionSliceLength (length (derefOr (wc_Dimensions w) [])))) of
        Inr d \<Rightarrow> d
      | Inl _ \<Rightarrow>
          (case pkg of
             Some p \<Rightarrow> if IsValid (wm_DefaultDimensions (pk_Manifest p)) then wm_DefaultDimensions (pk_Manifest p) else NewDimension 1 1
           | None \<Rightarrow> NewDimension 1 1))"

text \<open>The nested loops stop at the first placement of the widget.\<close>

definition resolveWidgetPlacement :: "string \<Rightarrow> WidgetConfig \<Rightarrow> Package option \<Rightarrow> Snapshot \<Rightarrow> (int \<times> int) \<times> Dimension" where
  "resolveWidgetPlacement widgetID w pkg snap =
     (case (case sn_Layout snap of
              None \<Rightarrow> None
            | Some l \<Rightarrow> find (\<lambda>pw. pw_WidgetID pw = widgetID) (concat (map sc_Widgets (Screens l)))) of
        Some pw \<Rightarrow> (pw_Origin pw, pw_Dimensions pw)
      | None \<Rightarrow> ((0, 0), fallbackWidgetDimension w pkg))"

definition resolveWidgetRuntimeState :: "'data state_provider \<Rightarrow> string \<Rightarrow> 'data \<times> string \<times> string \<times> bool" where
  "resolveWidgetRuntimeState sp widgetID =
     (let (wData, wState, ts0) =
            (case sp_GetWidgetState sp widgetID of
               None \<Rightarrow> (sp_empty sp, ''healthy'', [])
             | Some (d, s, ts) \<Rightarrow> (case d of None \<Rightarrow> sp_empty sp | Some x \<Rightarrow> x, if s \<noteq> [] then s else ''healthy'', ts));
          timestamp =
            (if ts0 \<noteq> [] then ts0
             else case sp_GetWidgetTimestamp sp of
               None \<Rightarrow> []
             | Some f \<Rightarrow> (case f widgetID of None \<Rightarrow> [] | Some ts \<Rightarrow> ts))
      in (wData, wState, timestamp, sp_ConfigStatus sp \<noteq> ConfigStatusError))"

definition buildContext :: "'data state_provider \<Rightarrow> string \<Rightarrow> WidgetConfig \<Rightarrow> Package option \<Rightarrow> Snapshot \<Rightarrow> 'data Context" where
  "buildContext sp widgetID w pkg snap =
     (let (origin, dim) = resolveWidgetPlacement widgetID w pkg snap;
          (wData, wState, timestamp, online) = resolveWidgetRuntimeState sp widgetID
      in \<lparr>cx_ID = widgetID, cx_Type = wc_Type w, cx_Dimensions = dim, cx_Data = wData, cx_State = wState, cx_Timestamp = timestamp,
          cx_Config = SanitizeConfig (wc_Config w), cx_Origin = origin, cx_Theme = ''dark'', cx_Online = online,
          cx_Assets = ''widget-types/'' @ wc_Type w @ ''/assets''\<rparr>)"

definition copy_into :: "any_map \<Rightarrow> any_map \<Rightarrow> any_map" where
  "copy_into dst src = foldl (\<lambda>m (k, v). any_put k v m) dst src"

definition resolveWidget ::
  "('data, 'tmpl) Engine \<Rightarrow> string \<Rightarrow> string \<Rightarrow> any_map \<Rightarrow> render_error + Package \<times> 'data Context" where
  "resolveWidget e widgetID nodeID overrides =
     (if widgetID = [] then Inl (WidgetNotFoundError [])
      else case en_provider e of
        None \<Rightarrow> Inl NoProvider
      | Some sp \<Rightarrow>
     (case sp_CurrentSnapshot sp of
        None \<Rightarrow> Inl NoSnapshot
      | Some snap \<Rightarrow>
     (case sn_Config snap of
        None \<Rightarrow> Inl NoSnapshot
      | Some cfg \<Rightarrow>
     (case find (\<lambda>w. wc_ID w = widgetID) (dc_Widgets (cf_Display cfg)) of
        None \<Rightarrow> Inl (WidgetNotFoundError widgetID)
      | Some w \<Rightarrow>
          res_bind
            (case sn_Packages snap (wc_Type w) of
               Some pkg \<Rightarrow> Inr pkg
             | None \<Rightarrow>
                 (case en_resolver e of
                    None \<Rightarrow> Inl (PackageMissing (wc_Type w))
                  | Some load \<Rightarrow> (case load (wc_Type w) of Inl err \<Rightarrow> Inl (PackageError (wc_Type w) err) | Inr pkg \<Rightarrow> Inr pkg)))
            (\<lambda>pkg.
               let cx0 = buildContext sp widgetID w (Some pkg) snap;
                   cx1 = (if overrides \<noteq> [] then cx0\<lparr>cx_Config := copy_into (copy_into [] (cx_Config cx0)) overrides\<rparr> else cx0);
                   cx2 = (case en_nodeData e of
                            None \<Rightarrow> cx1
                          | Some f \<Rightarrow> (case f widgetID nodeID of None \<Rightarrow> cx1 | Some d \<Rightarrow> cx1\<lparr>cx_Data := d\<rparr>))
               in Inr (pkg, cx2))))))"

definition WidgetContext :: "('data, 'tmpl) Engine \<Rightarrow> string \<Rightarrow> string \<Rightarrow> any_map \<Rightarrow> render_error + 'data Context" where
  "WidgetContext e widgetID nodeID overrides = map_sum id snd (resolveWidget e widgetID nodeID overrides)"

section \<open>Compiled templates\<close>

definition Invalidate :: "string \<Rightarrow> ('data, 'tmpl) Engine \<Rightarrow> ('data, 'tmpl) Engine" where
  "Invalidate widgetType e = e\<lparr>en_cache := (en_cache e)(widgetType := None)\<rparr>"

text \<open>\<open>read\<close> reads a file and \<open>parse\<close> compiles it, each with its error.\<close>

definition getOrCompileTemplate ::
  "(string \<Rightarrow> string + string) \<Rightarrow> (string \<Rightarrow> string + 'tmpl) \<Rightarrow> Package \<Rightarrow> ('data, 'tmpl) Engine
   \<Rightarrow> (render_error + 'tmpl) \<times> ('data, 'tmpl) Engine" where
  "getOrCompileTemplate read parse pkg e =
     (case en_cache e (pk_Type pkg) of
        Some t \<Rightarrow> (Inr t, e)
      | None \<Rightarrow>
          (case read (pk_ViewPath pkg) of
             Inl err \<Rightarrow> (Inl (ViewUnreadable (pk_ViewPath pkg) err), e)
           | Inr content \<Rightarrow>
               (case parse content of
                  Inl err \<Rightarrow> (Inl (TemplateSyntax (pk_ViewPath pkg) err), e)
                | Inr t \<Rightarrow> (Inr t, e\<lparr>en_cache := (en_cache e)(pk_Type pkg \<mapsto> t)\<rparr>))))"

definition RenderWidgetWithOverrides ::
  "(string \<Rightarrow> string + string) \<Rightarrow> (string \<Rightarrow> string + 'tmpl) \<Rightarrow> ('tmpl \<Rightarrow> 'data Context \<Rightarrow> string + string) \<Rightarrow> string \<Rightarrow> string
   \<Rightarrow> any_map \<Rightarrow> ('data, 'tmpl) Engine \<Rightarrow> (render_error + string) \<times> ('data, 'tmpl) Engine" where
  "RenderWidgetWithOverrides read parse exec widgetID nodeID overrides e =
     (case resolveWidget e widgetID nodeID overrides of
        Inl err \<Rightarrow> (Inl err, e)
      | Inr (pkg, cx) \<Rightarrow>
          (case getOrCompileTemplate read parse pkg e of
             (Inl err, e') \<Rightarrow> (Inl err, e')
           | (Inr t, e') \<Rightarrow> (map_sum (ExecFailed widgetID) id (exec t cx), e')))"

end
