(* ===== verification/Render_Props.thy ===== *)
theory Render_Props
  imports Render_Engine Config_Diff
begin

text \<open>What templates can read of a widget's settings, and which file a rendered widget comes from.\<close>

section \<open>Paths into a value\<close>

datatype step = Key string | Index nat

text \<open>What a path leads to.\<close>

fun any_at :: "step list \<Rightarrow> any \<Rightarrow> any option" where
  "any_at [] v = Some v"
| "any_at (Key k # p) (AMap m) = (case map_of m k of None \<Rightarrow> None | Some v \<Rightarrow> any_at p v)"
| "any_at (Index i # p) (AList vs) = (if i < length vs then any_at p (vs ! i) else None)"
| "any_at _ _ = None"

fun secret_path :: "step list \<Rightarrow> bool" where
  "secret_path [] = False"
| "secret_path (Key k # p) = (isSensitiveKey k \<or> secret_path p)"
| "secret_path (Index i # p) = secret_path p"

lemma map_of_sanitized:
  "map_of (map (\<lambda>(k, v). (k, f v)) (filter (\<lambda>(k, v). \<not> P k) m)) k = (if P k then None else map_option f (map_of m k))"
  by (induction m) auto

lemma sanitized_at: "any_at p (sanitizeValue v) = (if secret_path p then None else map_option sanitizeValue (any_at p v))"
proof (induction p arbitrary: v)
  case (Cons s p)
  show ?case
  proof (cases v)
    case (AMap m)
    show ?thesis
    proof (cases s)
      case (Key k)
      show ?thesis using AMap Key Cons by (cases "map_of m k") (simp_all add: map_of_sanitized)
    qed (simp add: AMap)
  next
    case (AList vs)
    then show ?thesis using Cons by (cases s) simp_all
  qed (cases s; simp)+
qed simp

lemma SanitizeConfig_value: "AMap (SanitizeConfig cfg) = sanitizeValue (AMap (derefOr cfg []))"
  by (cases cfg) (simp_all add: SanitizeConfig_def derefOr_def)


definition note_widget :: WidgetConfig where
  "note_widget = (sample_wc ''n'' ''u'')\<lparr>wc_Type := ''note'',
     wc_Config := Some [(''title'', AStr ''Hi''), ('' API_Key'', AStr ''k1''),
       (''feeds'', AList [AMap [(''url'', AStr ''u''), (''password'', AStr ''p''), (''pw_env'', AStr ''PW'')]])]\<rparr>"

definition note_package :: Package where
  "note_package = \<lparr>pk_Type = ''note'', pk_Source = ''builtin'', pk_Dir = ''d'', pk_ManifestPath = ''d/m'', pk_ViewPath = ''d/v'', pk_AssetsDir = [],
     pk_Manifest = \<lparr>wm_Name = ''note'', wm_Version = ''1'', wm_Description = [], wm_Provider = [], wm_Capabilities = [],
       wm_DefaultDimensions = NewDimension 1 1, wm_SupportedDimensions = [], wm_Refresh = \<lparr>mr_IntervalSeconds = 60\<rparr>,
       wm_ConfigSchema = None, wm_ResponseSchema = None\<rparr>\<rparr>"

definition note_engine :: "(nat, string) Engine" where
  "note_engine = \<lparr>en_cache = Map.empty, en_resolver = None,
     en_provider = Some \<lparr>sp_CurrentSnapshot = Some \<lparr>sn_Config = Some (sample_config [note_widget]), sn_Layout = None,
         sn_Packages = [''note'' \<mapsto> note_package], sn_LoadedAt = 0, sn_HasOverride = False\<rparr>,
       sp_GetWidgetState = (\<lambda>_. None), sp_GetWidgetTimestamp = None, sp_ConfigStatus = ConfigStatusOK, sp_empty = 0\<rparr>,
     en_nodeData = None\<rparr>"

lemma note_context: "\<exists>cx. WidgetContext note_engine ''n'' [] [] = Inr cx"
  by (simp add: WidgetContext_def resolveWidget_def note_engine_def sample_config_def note_widget_def sample_wc_def)


end
