(* ===== verification/Asset_Reloader.thy ===== *)
theory Asset_Reloader
  imports Config_Manager Event_Hub Chatlog Render_Engine
begin

text \<open>
  \<^verbatim>\<open>cmd/server/reloader.go\<close>: noticing that stylesheets, web assets and widget packages changed on disk, dropping compiled
  templates, keeping the manager's package errors and telling clients. The disk is what one pass reads of it; hashes are a parameter.
\<close>

record disk_view =
  dv_css :: "string option"
  dv_web :: string
  dv_entries :: "string \<Rightarrow> (string \<times> bool) list"
  dv_isDir :: "string \<Rightarrow> string \<Rightarrow> bool"
  dv_load :: "string \<Rightarrow> string + Package"
  dv_pkgHash :: "Package \<Rightarrow> string"

record AssetReloader =
  ar_customCSSPath :: string
  ar_builtinDir :: string
  ar_customDir :: string
  ar_hasLoader :: bool
  ar_lastCSSHash :: string
  ar_lastWebHash :: string
  ar_pkgHashes :: "(string \<times> string) list"
  ar_incompletePkgs :: "(string \<times> string) list"

text \<open>The reloader with the parts of the program it changes; None for a part that is not configured.\<close>

record ('data, 'tmpl) assets =
  as_reloader :: AssetReloader
  as_engine :: "('data, 'tmpl) Engine option"
  as_manager :: "Manager option"
  as_hub :: "Hub option"

definition update_reloader :: "(AssetReloader \<Rightarrow> AssetReloader) \<Rightarrow> ('d, 't) assets \<Rightarrow> ('d, 't) assets" where
  "update_reloader f a = a\<lparr>as_reloader := f (as_reloader a)\<rparr>"

definition update_engine :: "(('d, 't) Engine \<Rightarrow> ('d, 't) Engine) \<Rightarrow> ('d, 't) assets \<Rightarrow> ('d, 't) assets" where
  "update_engine f a = a\<lparr>as_engine := map_option f (as_engine a)\<rparr>"

definition update_hub :: "(Hub \<Rightarrow> Hub) \<Rightarrow> ('d, 't) assets \<Rightarrow> ('d, 't) assets" where
  "update_hub f a = a\<lparr>as_hub := map_option f (as_hub a)\<rparr>"

text \<open>The path does not matter but for being set; \<open>hash\<close> is the hash of a file's bytes.\<close>

definition readCSSHash :: "(string \<Rightarrow> string) \<Rightarrow> disk_view \<Rightarrow> AssetReloader \<Rightarrow> string option" where
  "readCSSHash hash d r =
     (if ar_customCSSPath r = [] then None else Some (case dv_css d of None \<Rightarrow> [] | Some data \<Rightarrow> hash data))"

definition packageDirExists :: "disk_view \<Rightarrow> AssetReloader \<Rightarrow> string \<Rightarrow> bool" where
  "packageDirExists d r widgetType = list_ex (\<lambda>dir. dir \<noteq> [] \<and> dv_isDir d dir widgetType) [ar_customDir r, ar_builtinDir r]"

definition discoverWidgetTypesLocked :: "disk_view \<Rightarrow> AssetReloader \<Rightarrow> string list" where
  "discoverWidgetTypesLocked d r =
     sort_by string_less (remdups
       (concat (map (\<lambda>dir. if dir = [] then [] else map fst (filter (\<lambda>(n, isDir). isDir \<and> \<not> HasPrefix n ''.'') (dv_entries d dir)))
          [ar_customDir r, ar_builtinDir r])
        @ map fst (ar_pkgHashes r) @ map fst (ar_incompletePkgs r)))"

definition seedInitialState :: "(string \<Rightarrow> string) \<Rightarrow> disk_view \<Rightarrow> AssetReloader \<Rightarrow> AssetReloader" where
  "seedInitialState hash d r0 =
     (let r1 = (case readCSSHash hash d r0 of None \<Rightarrow> r0 | Some s \<Rightarrow> r0\<lparr>ar_lastCSSHash := s\<rparr>);
          r2 = r1\<lparr>ar_lastWebHash := dv_web d\<rparr>
      in if ar_hasLoader r2
         then foldl (\<lambda>r t. case dv_load d t of Inl _ \<Rightarrow> r | Inr pkg \<Rightarrow> r\<lparr>ar_pkgHashes := put t (dv_pkgHash d pkg) (ar_pkgHashes r)\<rparr>)
           r2 (discoverWidgetTypesLocked d r2)
         else r2)"

definition ReloadWeb :: "disk_view \<Rightarrow> gotime \<Rightarrow> ('d, 't) assets \<Rightarrow> bool \<times> ('d, 't) assets" where
  "ReloadWeb d now a =
     (if dv_web d = [] \<or> dv_web d = ar_lastWebHash (as_reloader a) then (False, a)
      else (True, update_hub (\<lambda>h. DispatchSystemReload h ''web_assets'' (rfc3339 now) now)
             (update_reloader (\<lambda>r. r\<lparr>ar_lastWebHash := dv_web d\<rparr>) a)))"

definition ReloadCSS :: "(string \<Rightarrow> string) \<Rightarrow> (string \<Rightarrow> string) \<Rightarrow> disk_view \<Rightarrow> gotime \<Rightarrow> ('d, 't) assets \<Rightarrow> bool \<times> ('d, 't) assets" where
  "ReloadCSS hash base d now a =
     (case readCSSHash hash d (as_reloader a) of
        None \<Rightarrow> (False, a)
      | Some currentHash \<Rightarrow>
          if currentHash = ar_lastCSSHash (as_reloader a) then (False, a)
          else (True, update_hub (\<lambda>h. DispatchStyleReload h (base (ar_customCSSPath (as_reloader a))) (rfc3339 now) now)
                 (update_reloader (\<lambda>r. r\<lparr>ar_lastCSSHash := currentHash\<rparr>) a)))"

subsection \<open>Packages\<close>

definition clear_error :: "gotime \<Rightarrow> string \<Rightarrow> ('d, 't) assets \<Rightarrow> bool \<times> ('d, 't) assets" where
  "clear_error now t a =
     (case as_manager a of
        None \<Rightarrow> (False, a)
      | Some m \<Rightarrow> (case ClearPackageError now t m of (did, m') \<Rightarrow> (did, a\<lparr>as_manager := Some m'\<rparr>)))"

definition evictDeletedWidgetLocked :: "gotime \<Rightarrow> string \<Rightarrow> ('d, 't) assets \<Rightarrow> bool \<times> ('d, 't) assets" where
  "evictDeletedWidgetLocked now t a0 =
     (case clear_error now t (update_engine (Invalidate t) a0) of (did, a1) \<Rightarrow>
      let wasIncomplete = (map_of (ar_incompletePkgs (as_reloader a1)) t \<noteq> None);
          a2 = update_reloader (\<lambda>r. r\<lparr>ar_incompletePkgs := del t (ar_incompletePkgs r), ar_pkgHashes := del t (ar_pkgHashes r)\<rparr>) a1
      in (did \<or> wasIncomplete, update_hub (\<lambda>h. DispatchWidgetReload h t now) a2))"

definition recordWidgetLoadErrorLocked :: "gotime \<Rightarrow> string \<Rightarrow> string \<Rightarrow> ('d, 't) assets \<Rightarrow> bool \<times> ('d, 't) assets" where
  "recordWidgetLoadErrorLocked now t err a0 =
     (let did = (map_of (ar_incompletePkgs (as_reloader a0)) t \<noteq> Some err);
          a1 = (if did
                then update_reloader (\<lambda>r. r\<lparr>ar_incompletePkgs := put t err (ar_incompletePkgs r)\<rparr>)
                  (a0\<lparr>as_manager := map_option (SetPackageError now t (Some err)) (as_manager a0)\<rparr>)
                else a0);
          a2 = (if map_of (ar_pkgHashes (as_reloader a1)) t \<noteq> None
                then update_engine (Invalidate t) (update_reloader (\<lambda>r. r\<lparr>ar_pkgHashes := del t (ar_pkgHashes r)\<rparr>) a1)
                else a1)
      in (did, a2))"

definition updateLoadedWidgetLocked :: "disk_view \<Rightarrow> gotime \<Rightarrow> string \<Rightarrow> Package \<Rightarrow> ('d, 't) assets \<Rightarrow> bool \<times> bool \<times> ('d, 't) assets" where
  "updateLoadedWidgetLocked d now t pkg a0 =
     (case clear_error now t a0 of (cleared, a1) \<Rightarrow>
      let wasIncomplete = (map_of (ar_incompletePkgs (as_reloader a1)) t \<noteq> None);
          a2 = update_reloader (\<lambda>r. r\<lparr>ar_incompletePkgs := del t (ar_incompletePkgs r)\<rparr>) a1;
          newHash = dv_pkgHash d pkg
      in if map_of (ar_pkgHashes (as_reloader a2)) t \<noteq> Some newHash
         then (True, cleared \<or> wasIncomplete,
           update_hub (\<lambda>h. DispatchWidgetReload h t now) (update_engine (Invalidate t)
             (update_reloader (\<lambda>r. r\<lparr>ar_pkgHashes := put t newHash (ar_pkgHashes r)\<rparr>) a2)))
         else (False, cleared \<or> wasIncomplete, a2))"

text \<open>One round of the loop: whether widgets and whether the status changed.\<close>

definition reload_type :: "disk_view \<Rightarrow> gotime \<Rightarrow> string \<Rightarrow> bool \<times> bool \<times> ('d, 't) assets \<Rightarrow> bool \<times> bool \<times> ('d, 't) assets" where
  "reload_type d now t st =
     (case st of (w, s, a) \<Rightarrow>
      if \<not> packageDirExists d (as_reloader a) t then (case evictDeletedWidgetLocked now t a of (s', a') \<Rightarrow> (True, s \<or> s', a'))
      else case dv_load d t of
        Inl err \<Rightarrow> (case recordWidgetLoadErrorLocked now t err a of (s', a') \<Rightarrow> (w, s \<or> s', a'))
      | Inr pkg \<Rightarrow> (case updateLoadedWidgetLocked d now t pkg a of (w', s', a') \<Rightarrow> (w \<or> w', s \<or> s', a')))"

definition ReloadWidgets :: "disk_view \<Rightarrow> gotime \<Rightarrow> ('d, 't) assets \<Rightarrow> bool \<times> ('d, 't) assets" where
  "ReloadWidgets d now a =
     (if \<not> ar_hasLoader (as_reloader a) then (False, a)
      else case fold (reload_type d now) (discoverWidgetTypesLocked d (as_reloader a)) (False, False, a) of (w, s, a1) \<Rightarrow>
        (w \<or> s,
         if s then (case as_manager a1 of None \<Rightarrow> a1 | Some m \<Rightarrow> update_hub (\<lambda>h. DispatchStatus h (manager_Status m) now) a1)
         else a1))"

text \<open>The two passes read the disk one after the other.\<close>

definition asset_Reload :: "(string \<Rightarrow> string) \<Rightarrow> (string \<Rightarrow> string) \<Rightarrow> disk_view \<Rightarrow> gotime \<Rightarrow> disk_view \<Rightarrow> gotime \<Rightarrow> ('d, 't) assets
    \<Rightarrow> bool \<times> bool \<times> ('d, 't) assets" where
  "asset_Reload hash base d now d' now' a =
     (case ReloadCSS hash base d now a of (css, a1) \<Rightarrow> case ReloadWidgets d' now' a1 of (widgets, a2) \<Rightarrow> (css, widgets, a2))"

end
