(* ===== verification/Asset_Reloader_Props.thy ===== *)
theory Asset_Reloader_Props
  imports Asset_Reloader Chatlog_Props
begin

text \<open>After a pass, the reloader, the manager's package errors and the compiled templates agree with the packages on disk.\<close>

section \<open>Views\<close>

definition hash_of :: "('d, 't) assets \<Rightarrow> string \<Rightarrow> string option" where
  "hash_of a t = map_of (ar_pkgHashes (as_reloader a)) t"

definition broken :: "('d, 't) assets \<Rightarrow> string \<Rightarrow> string option" where
  "broken a t = map_of (ar_incompletePkgs (as_reloader a)) t"

definition error_of :: "('d, 't) assets \<Rightarrow> string \<Rightarrow> string option" where
  "error_of a t = (case as_manager a of None \<Rightarrow> None | Some m \<Rightarrow> map_of (mg_packageErrors m) t)"

definition cached :: "('d, 't) assets \<Rightarrow> string \<Rightarrow> 't option" where
  "cached a t = (case as_engine a of None \<Rightarrow> None | Some e \<Rightarrow> en_cache e t)"

lemmas views = hash_of_def broken_def error_of_def cached_def

text \<open>What the disk has of a package: the hash of one that loads, the error of one that does not.\<close>

definition good :: "disk_view \<Rightarrow> AssetReloader \<Rightarrow> string \<Rightarrow> string option" where
  "good d r t = (if packageDirExists d r t then (case dv_load d t of Inr pkg \<Rightarrow> Some (dv_pkgHash d pkg) | Inl _ \<Rightarrow> None) else None)"

definition bad :: "disk_view \<Rightarrow> AssetReloader \<Rightarrow> string \<Rightarrow> string option" where
  "bad d r t = (if packageDirExists d r t then (case dv_load d t of Inl e \<Rightarrow> Some e | Inr _ \<Rightarrow> None) else None)"

section \<open>One package\<close>

text \<open>A round touches its own package only.\<close>

definition same_settings :: "AssetReloader \<Rightarrow> AssetReloader \<Rightarrow> bool" where
  "same_settings r r' \<longleftrightarrow> ar_customDir r' = ar_customDir r \<and> ar_builtinDir r' = ar_builtinDir r \<and> ar_hasLoader r' = ar_hasLoader r"

lemma same_settings_exists: "same_settings r r' \<Longrightarrow> packageDirExists d r' t = packageDirExists d r t"
  by (simp add: same_settings_def packageDirExists_def)

lemma same_settings_disk: "same_settings r r' \<Longrightarrow> good d r' = good d r \<and> bad d r' = bad d r"
  by (auto simp: good_def bad_def same_settings_exists fun_eq_iff)

definition untouched :: "string \<Rightarrow> ('d, 't) assets \<Rightarrow> ('d, 't) assets \<Rightarrow> bool" where
  "untouched u a a' \<longleftrightarrow> hash_of a' u = hash_of a u \<and> broken a' u = broken a u \<and> error_of a' u = error_of a u \<and> cached a' u = cached a u"

definition settled :: "disk_view \<Rightarrow> string \<Rightarrow> ('d, 't) assets \<Rightarrow> ('d, 't) assets \<Rightarrow> bool" where
  "settled d t a a' \<longleftrightarrow> hash_of a' t = good d (as_reloader a) t \<and> broken a' t = bad d (as_reloader a) t
     \<and> error_of a' t = (if bad d (as_reloader a) t \<noteq> None \<and> broken a t = bad d (as_reloader a) t then error_of a t else bad d (as_reloader a) t)
     \<and> cached a' t = (if packageDirExists d (as_reloader a) t \<and> hash_of a t = good d (as_reloader a) t then cached a t else None)"

text \<open>Whether a round reports a change of its package.\<close>

definition notable :: "disk_view \<Rightarrow> string \<Rightarrow> ('d, 't) assets \<Rightarrow> bool" where
  "notable d t a \<longleftrightarrow> \<not> packageDirExists d (as_reloader a) t \<or> good d (as_reloader a) t \<notin> {None, hash_of a t}
     \<or> broken a t \<noteq> bad d (as_reloader a) t \<or> good d (as_reloader a) t \<noteq> None \<and> error_of a t \<noteq> None"

lemma error_fields: "mg_packageErrors (updateStatusLocked now m) = mg_packageErrors m"
  by (simp add: updateStatusLocked_def Let_def)

lemma map_of_put_error: "map_of (put_error k e es) = (map_of es)(k \<mapsto> e)"
  by (induction es) auto

lemma map_of_remove: "map_of (filter (\<lambda>(k, _). k \<noteq> t) es) = (map_of es)(t := None)"
  by (induction es) auto

text \<open>The views after each kind of change.\<close>

lemma hub_views [simp]:
  "hash_of (update_hub f a) = hash_of a" "broken (update_hub f a) = broken a" "error_of (update_hub f a) = error_of a"
  "cached (update_hub f a) = cached a" "as_reloader (update_hub f a) = as_reloader a" "as_manager (update_hub f a) = as_manager a"
  by (auto simp: views update_hub_def fun_eq_iff)

lemma engine_views [simp]:
  "hash_of (update_engine f a) = hash_of a" "broken (update_engine f a) = broken a" "error_of (update_engine f a) = error_of a"
  "as_reloader (update_engine f a) = as_reloader a" "as_manager (update_engine f a) = as_manager a" "as_hub (update_engine f a) = as_hub a"
  "cached (update_engine (Invalidate t) a) = (cached a)(t := None)"
  by (auto simp: views update_engine_def Invalidate_def fun_eq_iff split: option.split)

lemma reloader_views [simp]:
  "error_of (update_reloader f a) = error_of a" "cached (update_reloader f a) = cached a" "as_reloader (update_reloader f a) = f (as_reloader a)"
  "as_manager (update_reloader f a) = as_manager a" "as_hub (update_reloader f a) = as_hub a"
  "hash_of (update_reloader f a) t = map_of (ar_pkgHashes (f (as_reloader a))) t"
  "broken (update_reloader f a) t = map_of (ar_incompletePkgs (f (as_reloader a))) t"
  by (auto simp: views update_reloader_def fun_eq_iff)

lemma raw_views: "map_of (ar_pkgHashes (as_reloader a)) t = hash_of a t" "map_of (ar_incompletePkgs (as_reloader a)) t = broken a t"
  by (simp_all add: views)

lemma clear_error_effect:
  assumes "as_manager a = Some m"
  shows "\<exists>m'. clear_error now t a = (error_of a t \<noteq> None, a\<lparr>as_manager := Some m'\<rparr>) \<and> map_of (mg_packageErrors m') = (error_of a)(t := None)"
proof -
  have "error_of a = map_of (mg_packageErrors m)" using assms by (simp add: error_of_def fun_eq_iff)
  then show ?thesis using assms
    by (intro exI [of _ "updateStatusLocked now (m\<lparr>mg_packageErrors := filter (\<lambda>(k, _). k \<noteq> t) (mg_packageErrors m)\<rparr>)"])
      (auto simp: clear_error_def ClearPackageError_def error_fields map_of_remove)
qed

lemma manager_views [simp]:
  "hash_of (a\<lparr>as_manager := x\<rparr>) = hash_of a" "broken (a\<lparr>as_manager := x\<rparr>) = broken a" "cached (a\<lparr>as_manager := x\<rparr>) = cached a"
  "error_of (a\<lparr>as_manager := Some m'\<rparr>) = map_of (mg_packageErrors m')"
  by (auto simp: views fun_eq_iff)

lemma evict_effect:
  assumes "as_manager a = Some m" "evictDeletedWidgetLocked now t a = (s', a')"
  shows "same_settings (as_reloader a) (as_reloader a') \<and> (\<exists>m'. as_manager a' = Some m') \<and> hash_of a' = (hash_of a)(t := None)
    \<and> broken a' = (broken a)(t := None) \<and> error_of a' = (error_of a)(t := None) \<and> cached a' = (cached a)(t := None)"
proof -
  obtain m' where c: "clear_error now t (update_engine (Invalidate t) a) = (error_of a t \<noteq> None, (update_engine (Invalidate t) a)\<lparr>as_manager := Some m'\<rparr>)"
    "map_of (mg_packageErrors m') = (error_of a)(t := None)"
    using clear_error_effect [of "update_engine (Invalidate t) a" m now t] assms(1) by auto
  show ?thesis using assms(2) c by (auto simp: evictDeletedWidgetLocked_def Let_def same_settings_def raw_views fun_eq_iff)
qed

lemma load_error_effect:
  assumes "as_manager a = Some m" "recordWidgetLoadErrorLocked now t err a = (s', a')"
  shows "same_settings (as_reloader a) (as_reloader a') \<and> (\<exists>m'. as_manager a' = Some m') \<and> hash_of a' = (hash_of a)(t := None)
    \<and> broken a' = (broken a)(t \<mapsto> err) \<and> error_of a' = (if broken a t = Some err then error_of a else (error_of a)(t \<mapsto> err))
    \<and> as_hub a' = as_hub a
    \<and> cached a' = (if hash_of a t = None then cached a else (cached a)(t := None)) \<and> s' = (broken a t \<noteq> Some err)"
proof -
  define a1 where "a1 = (if broken a t \<noteq> Some err
     then update_reloader (\<lambda>r. r\<lparr>ar_incompletePkgs := put t err (ar_incompletePkgs r)\<rparr>)
       (a\<lparr>as_manager := map_option (SetPackageError now t (Some err)) (as_manager a)\<rparr>) else a)"
  have e: "error_of a = map_of (mg_packageErrors m)" using assms(1) by (simp add: error_of_def fun_eq_iff)
  have a1: "same_settings (as_reloader a) (as_reloader a1)" "\<exists>m'. as_manager a1 = Some m'" "hash_of a1 = hash_of a"
    "broken a1 = (broken a)(t \<mapsto> err)"
    "error_of a1 = (if broken a t = Some err then error_of a else (error_of a)(t \<mapsto> err))" "cached a1 = cached a" "as_hub a1 = as_hub a"
    using assms(1) e by (auto simp: a1_def same_settings_def raw_views fun_eq_iff SetPackageError_def error_fields map_of_put_error)
  have "a' = (if hash_of a1 t \<noteq> None then update_engine (Invalidate t) (update_reloader (\<lambda>r. r\<lparr>ar_pkgHashes := del t (ar_pkgHashes r)\<rparr>) a1) else a1)"
    "s' = (broken a t \<noteq> Some err)"
    using assms(2) by (auto simp: recordWidgetLoadErrorLocked_def Let_def raw_views a1_def split: if_splits)
  then show ?thesis using a1 by (auto simp: same_settings_def raw_views fun_eq_iff)
qed

lemma loaded_effect:
  assumes "as_manager a = Some m" "updateLoadedWidgetLocked d now t pkg a = (w', s', a')"
  shows "same_settings (as_reloader a) (as_reloader a') \<and> (\<exists>m'. as_manager a' = Some m')
    \<and> hash_of a' = (hash_of a)(t \<mapsto> dv_pkgHash d pkg) \<and> broken a' = (broken a)(t := None) \<and> error_of a' = (error_of a)(t := None)
    \<and> cached a' = (if hash_of a t = Some (dv_pkgHash d pkg) then cached a else (cached a)(t := None))
    \<and> w' = (hash_of a t \<noteq> Some (dv_pkgHash d pkg)) \<and> s' = (error_of a t \<noteq> None \<or> broken a t \<noteq> None)
    \<and> (\<not> w' \<longrightarrow> as_hub a' = as_hub a)"
proof -
  obtain m' where c: "clear_error now t a = (error_of a t \<noteq> None, a\<lparr>as_manager := Some m'\<rparr>)"
    "map_of (mg_packageErrors m') = (error_of a)(t := None)"
    using clear_error_effect [of a m now t] assms(1) by auto
  define a2 where "a2 = update_reloader (\<lambda>r. r\<lparr>ar_incompletePkgs := del t (ar_incompletePkgs r)\<rparr>) (a\<lparr>as_manager := Some m'\<rparr>)"
  have a2: "same_settings (as_reloader a) (as_reloader a2)" "as_manager a2 = Some m'" "hash_of a2 = hash_of a"
    "broken a2 = (broken a)(t := None)" "error_of a2 = (error_of a)(t := None)" "cached a2 = cached a" "as_hub a2 = as_hub a"
    using c(2) by (auto simp: a2_def same_settings_def raw_views fun_eq_iff)
  have "(w', s', a') = (if hash_of a2 t \<noteq> Some (dv_pkgHash d pkg)
      then (True, error_of a t \<noteq> None \<or> broken a t \<noteq> None,
        update_hub (\<lambda>h. DispatchWidgetReload h t now) (update_engine (Invalidate t)
          (update_reloader (\<lambda>r. r\<lparr>ar_pkgHashes := put t (dv_pkgHash d pkg) (ar_pkgHashes r)\<rparr>) a2)))
      else (False, error_of a t \<noteq> None \<or> broken a t \<noteq> None, a2))"
    using assms(2) c(1) by (auto simp: updateLoadedWidgetLocked_def Let_def raw_views a2_def split: if_splits)
  then show ?thesis using a2 by (auto simp: same_settings_def raw_views fun_eq_iff split: if_splits)
qed

lemma reload_type_effect:
  assumes "reload_type d now t (w, s, a) = (w', s', a')" "as_manager a = Some m"
  shows "same_settings (as_reloader a) (as_reloader a') \<and> (\<exists>m'. as_manager a' = Some m') \<and> settled d t a a'
    \<and> (\<forall>u. u \<noteq> t \<longrightarrow> untouched u a a') \<and> (w' \<or> s') = (w \<or> s \<or> notable d t a)
    \<and> (\<not> notable d t a \<longrightarrow> as_hub a' = as_hub a)"
proof (cases "packageDirExists d (as_reloader a) t")
  case False
  then obtain s1 where "evictDeletedWidgetLocked now t a = (s1, a')" "w'" using assms(1) by (auto simp: reload_type_def split: prod.splits)
  from evict_effect [OF assms(2) this(1)] this(2) False show ?thesis
    by (simp add: settled_def untouched_def notable_def good_def bad_def)
next
  case True
  show ?thesis
  proof (cases "dv_load d t")
    case (Inl err)
    then obtain s1 where "recordWidgetLoadErrorLocked now t err a = (s1, a')" "w' = w" "s' = (s \<or> s1)"
      using True assms(1) by (auto simp: reload_type_def split: prod.splits)
    from load_error_effect [OF assms(2) this(1)] this(2,3) True Inl show ?thesis
      by (simp add: settled_def untouched_def notable_def good_def bad_def)
  next
    case (Inr pkg)
    then obtain w1 s1 where "updateLoadedWidgetLocked d now t pkg a = (w1, s1, a')" "w' = (w \<or> w1)" "s' = (s \<or> s1)"
      using True assms(1) by (auto simp: reload_type_def split: prod.splits)
    from loaded_effect [OF assms(2) this(1)] this(2,3) True Inr show ?thesis
      by (auto simp: settled_def untouched_def notable_def good_def bad_def)
  qed
qed

section \<open>A pass over all packages\<close>

lemma settled_mono:
  assumes "settled d t a1 a2" "same_settings (as_reloader a) (as_reloader a1)" "untouched t a a1"
  shows "settled d t a a2"
  using assms same_settings_disk [of "as_reloader a" "as_reloader a1" d] same_settings_exists [of "as_reloader a" "as_reloader a1" d t]
  by (simp add: settled_def untouched_def)

lemma settled_keep: "settled d t a a1 \<Longrightarrow> untouched t a1 a2 \<Longrightarrow> settled d t a a2"
  by (simp add: settled_def untouched_def)

lemma asset_untouched_trans: "untouched t a a1 \<Longrightarrow> untouched t a1 a2 \<Longrightarrow> untouched t a a2"
  by (simp add: untouched_def)

lemma same_settings_trans: "same_settings r r1 \<Longrightarrow> same_settings r1 r2 \<Longrightarrow> same_settings r r2"
  by (simp add: same_settings_def)

lemma notable_mono:
  assumes "same_settings (as_reloader a) (as_reloader a1)" "untouched t a a1"
  shows "notable d t a1 = notable d t a"
  using assms same_settings_disk [of "as_reloader a" "as_reloader a1" d] same_settings_exists [of "as_reloader a" "as_reloader a1" d t]
  by (simp add: notable_def untouched_def)

lemma reload_fold:
  assumes "fold (reload_type d now) ts (w, s, a) = (w', s', a')" "distinct ts" "as_manager a = Some m"
  shows "same_settings (as_reloader a) (as_reloader a') \<and> (\<exists>m'. as_manager a' = Some m') \<and> (\<forall>t\<in>set ts. settled d t a a')
    \<and> (\<forall>u. u \<notin> set ts \<longrightarrow> untouched u a a') \<and> (w' \<or> s') = (w \<or> s \<or> (\<exists>t\<in>set ts. notable d t a))
    \<and> ((\<forall>t\<in>set ts. \<not> notable d t a) \<longrightarrow> as_hub a' = as_hub a)"
  using assms
proof (induction ts arbitrary: w s a m)
  case Nil
  then show ?case by (simp add: same_settings_def untouched_def)
next
  case (Cons t ts)
  obtain w1 s1 a1 where r: "reload_type d now t (w, s, a) = (w1, s1, a1)" by (cases "reload_type d now t (w, s, a)" rule: prod_cases3)
  note one = reload_type_effect [OF r Cons.prems(3)]
  obtain m1 where m1: "as_manager a1 = Some m1" using one by blast
  have "fold (reload_type d now) ts (w1, s1, a1) = (w', s', a')" "distinct ts" using Cons.prems r by simp_all
  note rest = Cons.IH [OF this m1]
  have later: "untouched u a a1" if "u \<in> set ts" for u using one Cons.prems(2) that by auto
  have "untouched t a1 a'" using rest Cons.prems(2) by simp
  with one have st: "settled d t a a'" using settled_keep by blast
  have su: "\<forall>u\<in>set ts. settled d u a a'" using settled_mono [of d _ a1 a' a] rest one later by blast
  have un: "\<forall>u. u \<notin> set (t # ts) \<longrightarrow> untouched u a a'" using asset_untouched_trans [of _ a a1 a'] one rest by simp
  have no: "(\<exists>u\<in>set ts. notable d u a1) = (\<exists>u\<in>set ts. notable d u a)" using notable_mono one later by blast
  have se: "same_settings (as_reloader a) (as_reloader a')" using one rest same_settings_trans by blast
  have re: "(w' \<or> s') = (w \<or> s \<or> (\<exists>t\<in>set (t # ts). notable d t a))" using one rest no by (simp only: set_simps) blast
  have hu: "as_hub a' = as_hub a" if "\<forall>t\<in>set (t # ts). \<not> notable d t a" using one rest no that by simp
  from rest have "\<exists>m'. as_manager a' = Some m'" by blast
  with st su un se re hu show ?case by (intro conjI impI) simp_all
qed

lemma discover_distinct: "distinct (discoverWidgetTypesLocked d r)"
  by (simp add: discoverWidgetTypesLocked_def)

lemma status_views:
  "settled d t a (case as_manager a1 of None \<Rightarrow> a1 | Some m \<Rightarrow> update_hub (f m) a1) = settled d t a a1"
  "untouched t a (case as_manager a1 of None \<Rightarrow> a1 | Some m \<Rightarrow> update_hub (f m) a1) = untouched t a a1"
  by (simp_all add: settled_def untouched_def split: option.split)


text \<open>A package that was already broken when a configuration reload cleared the status.\<close>

definition clock_disk :: disk_view where
  "clock_disk = \<lparr>dv_css = None, dv_web = [], dv_entries = (\<lambda>_. [(''clock'', True)]), dv_isDir = (\<lambda>_ t. t = ''clock''),
     dv_load = (\<lambda>_. Inl ''no view''), dv_pkgHash = pk_Dir\<rparr>"

definition clock_assets :: "(nat, string) assets" where
  "clock_assets = \<lparr>as_reloader = \<lparr>ar_customCSSPath = [], ar_builtinDir = ''w'', ar_customDir = [], ar_hasLoader = True, ar_lastCSSHash = [],
       ar_lastWebHash = [], ar_pkgHashes = [], ar_incompletePkgs = [(''clock'', ''no view'')]\<rparr>,
     as_engine = None, as_manager = Some (zero_manager []), as_hub = None\<rparr>"

lemma clock_discovered: "discoverWidgetTypesLocked clock_disk (as_reloader clock_assets) = [''clock'']"
  by (simp add: discoverWidgetTypesLocked_def clock_disk_def clock_assets_def HasPrefix_def sort_by_def)


end
