(* ===== verification/Layout_Editor.thy ===== *)
theory Layout_Editor
  imports Config_Manager Event_Hub Handlers
begin

text \<open>
  \<^verbatim>\<open>internal/server/layout_editor.go\<close>: reading and editing the layout on the display. A handler works on the manager, the hub and the
  disk; the library, the clock, the faults of the disk, the hub's coordinators and the texts of the manager's errors are an environment.
\<close>

record LayoutEditorWidget =
  le_WidgetID :: string
  le_Type :: string
  le_Screen :: int
  le_Origin :: "int list"
  le_Dimensions :: "int list"
  le_Pinned :: bool
  le_SupportedDimensions :: "int list list"

record LayoutEditorResponse =
  lr_AllowLayoutEdit :: bool
  lr_HasOverride :: bool
  lr_Grid :: "int list"
  lr_TotalScreens :: int
  lr_Widgets :: "LayoutEditorWidget list"

record LayoutEditorWidgetPlacement =
  lp_WidgetID :: string
  lp_Screen :: int
  lp_Origin :: "int list"
  lp_Dimensions :: "int list"
  lp_Pinned :: bool

section \<open>The response\<close>

definition dimensionsToSlices :: "Dimension list \<Rightarrow> int list list" where
  "dimensionsToSlices dims = map (\<lambda>d. [Cols d, Rows d]) dims"

definition resolveSupportedDimensions :: "loader \<Rightarrow> string \<Rightarrow> Dimension \<Rightarrow> (string \<Rightarrow> Package option) \<Rightarrow> int list list" where
  "resolveSupportedDimensions loader wType dim pkgs =
     (let supported = (\<lambda>pkg. case pkg of None \<Rightarrow> [] | Some p \<Rightarrow> wm_SupportedDimensions (pk_Manifest p)) in
      if supported (pkgs wType) \<noteq> [] then dimensionsToSlices (supported (pkgs wType))
      else if supported (LoadPackage loader wType) \<noteq> [] then dimensionsToSlices (supported (LoadPackage loader wType))
      else [[Cols dim, Rows dim]])"

text \<open>The state of the loop: the identifiers seen so far and the widgets collected.\<close>

definition collect_widget ::
    "loader \<Rightarrow> (string \<Rightarrow> Package option) \<Rightarrow> Screen \<Rightarrow> PlacedWidget \<Rightarrow> string set \<times> LayoutEditorWidget list \<Rightarrow> string set \<times> LayoutEditorWidget list" where
  "collect_widget loader pkgs screen pw st =
     (case st of (seen, out) \<Rightarrow>
      if pw_Type pw = ''spacer'' \<or> HasPrefix (pw_WidgetID pw) ''auto-spacer-'' then st
      else if pw_WidgetID pw \<in> seen then st
      else (insert (pw_WidgetID pw) seen,
        out @ [\<lparr>le_WidgetID = pw_WidgetID pw, le_Type = pw_Type pw, le_Screen = int (sc_Index screen),
          le_Origin = [fst (pw_Origin pw), snd (pw_Origin pw)], le_Dimensions = [Cols (pw_Dimensions pw), Rows (pw_Dimensions pw)],
          le_Pinned = pw_Pinned pw, le_SupportedDimensions = resolveSupportedDimensions loader (pw_Type pw) (pw_Dimensions pw) pkgs\<rparr>]))"

definition collectScreenWidgets ::
    "loader \<Rightarrow> (string \<Rightarrow> Package option) \<Rightarrow> Screen \<Rightarrow> string set \<times> LayoutEditorWidget list \<Rightarrow> string set \<times> LayoutEditorWidget list" where
  "collectScreenWidgets loader pkgs screen st = fold (collect_widget loader pkgs screen) (sc_Widgets screen) st"

definition buildResponse :: "loader \<Rightarrow> Snapshot \<Rightarrow> Config \<Rightarrow> LayoutEditorResponse" where
  "buildResponse loader snap cfg =
     (let g = dc_Grid (cf_Display cfg);
          grid = (if gc_Columns g = 0 \<or> gc_Rows g = 0 then [6, 2] else [gc_Columns g, gc_Rows g]);
          resp = \<lparr>lr_AllowLayoutEdit = IsLayoutEditAllowed (cf_Display cfg), lr_HasOverride = sn_HasOverride snap, lr_Grid = grid,
            lr_TotalScreens = (case sn_Layout snap of None \<Rightarrow> 0 | Some l \<Rightarrow> int (length (Screens l))), lr_Widgets = []\<rparr>
      in case sn_Layout snap of
           None \<Rightarrow> resp
         | Some l \<Rightarrow> resp\<lparr>lr_Widgets := snd (fold (collectScreenWidgets loader (sn_Packages snap)) (Screens l) ({}, []))\<rparr>)"

definition j_int_list :: "int list \<Rightarrow> json" where "j_int_list xs = JArr (map JInt xs)"

definition editor_json :: "LayoutEditorResponse \<Rightarrow> json" where
  "editor_json r = JObj [(''allow_layout_edit'', JBool (lr_AllowLayoutEdit r)), (''has_override'', JBool (lr_HasOverride r)),
     (''grid'', j_int_list (lr_Grid r)), (''total_screens'', JInt (lr_TotalScreens r)),
     (''widgets'', JArr (map (\<lambda>w. JObj [(''widget_id'', JStr (le_WidgetID w)), (''type'', JStr (le_Type w)), (''screen'', JInt (le_Screen w)),
        (''origin'', j_int_list (le_Origin w)), (''dimensions'', j_int_list (le_Dimensions w)), (''pinned'', JBool (le_Pinned w)),
        (''supported_dimensions'', JArr (map j_int_list (le_SupportedDimensions w)))]) (lr_Widgets r)))]"

section \<open>Requests\<close>

datatype placement_error = EmptyWidgetID | BadOrigin string | BadDimensions string

definition parse_placement :: "LayoutEditorWidgetPlacement \<Rightarrow> WidgetOverride list \<Rightarrow> placement_error + WidgetOverride list" where
  "parse_placement pw overrides =
     (if lp_WidgetID pw = [] then Inl EmptyWidgetID
      else if length (lp_Origin pw) \<noteq> 2 then Inl (BadOrigin (lp_WidgetID pw))
      else if length (lp_Dimensions pw) \<noteq> 2 then Inl (BadDimensions (lp_WidgetID pw))
      else Inr (overrides @ [\<lparr>wo_ID = lp_WidgetID pw, wo_Screen = lp_Screen pw, wo_Origin = (lp_Origin pw ! 0, lp_Origin pw ! 1),
        wo_Dimensions = [lp_Dimensions pw ! 0, lp_Dimensions pw ! 1], wo_Pinned = lp_Pinned pw\<rparr>]))"

definition parseWidgetPlacements :: "LayoutEditorWidgetPlacement list \<Rightarrow> placement_error + WidgetOverride list" where
  "parseWidgetPlacements widgets = each parse_placement widgets []"

record editor_env =
  ee_deployment :: deployment
  ee_loader :: loader
  ee_times :: times
  ee_faults :: save_faults
  ee_removeFails :: bool
  ee_rotation :: "(Snapshot \<Rightarrow> Hub \<Rightarrow> Hub) option"
  ee_providers :: "(Snapshot \<Rightarrow> Hub \<Rightarrow> Hub) option"
  ee_now :: gotime
  ee_errorText :: "manager_error \<Rightarrow> string"
  ee_placementText :: "placement_error \<Rightarrow> string"

record editor =
  ed_mgr :: "Manager option"
  ed_hub :: "Hub option"
  ed_disk :: disk

text \<open>The checks the handlers begin with: the response that ends the request, or the manager and what it shows.\<close>

definition editor_snapshot :: "editor \<Rightarrow> response + Manager \<times> Snapshot \<times> Config" where
  "editor_snapshot ed =
     (case ed_mgr ed of
        None \<Rightarrow> Inl (writeAPIError 500 ''config manager not configured'')
      | Some m \<Rightarrow> (case mg_current m of
          None \<Rightarrow> Inl (writeAPIError 500 ''current configuration not available'')
        | Some snap \<Rightarrow> (case sn_Config snap of
            None \<Rightarrow> Inl (writeAPIError 500 ''current configuration not available'')
          | Some cfg \<Rightarrow> Inr (m, snap, cfg))))"

definition GetLayoutEditor :: "editor_env \<Rightarrow> string \<Rightarrow> editor \<Rightarrow> response" where
  "GetLayoutEditor env meth ed =
     (case requireCORSAndMethod [''GET'', ''HEAD''] meth of
        Some rsp \<Rightarrow> rsp
      | None \<Rightarrow> (case editor_snapshot ed of
          Inl rsp \<Rightarrow> rsp
        | Inr (m, snap, cfg) \<Rightarrow>
            if meth = ''HEAD'' then \<lparr>rs_Code = 200, rs_Body = None\<rparr>
            else writeJSON 200 (editor_json (buildResponse (ee_loader env) snap cfg))))"

text \<open>What follows a change of the manager: clients are told and the new layout is the response.\<close>

definition editor_done :: "editor_env \<Rightarrow> Snapshot \<Rightarrow> ConfigDiff \<Rightarrow> editor \<Rightarrow> response \<times> editor" where
  "editor_done env newSnap diff ed =
     (writeJSON 200 (editor_json (buildResponse (ee_loader env) newSnap (the (sn_Config newSnap)))),
      ed\<lparr>ed_hub := map_option (\<lambda>h. DispatchConfigReload h (ee_rotation env) (ee_providers env) (Some newSnap) (Some diff) (ee_now env)) (ed_hub ed)\<rparr>)"

definition PutLayoutEditor :: "editor_env \<Rightarrow> LayoutEditorWidgetPlacement list request \<Rightarrow> editor \<Rightarrow> response \<times> editor" where
  "PutLayoutEditor env r ed =
     (case requireCORSAndMethod [''PUT''] (rq_Method r) of
        Some rsp \<Rightarrow> (rsp, ed)
      | None \<Rightarrow> (case editor_snapshot ed of
          Inl rsp \<Rightarrow> (rsp, ed)
        | Inr (m, snap, cfg) \<Rightarrow>
            if \<not> IsLayoutEditAllowed (cf_Display cfg) then (writeAPIError 403 ''layout editing is disabled by configuration'', ed)
            else (case rq_Body r of
              BodyEOF \<Rightarrow> (writeAPIError 400 ''invalid request payload: EOF'', ed)
            | BodyError msg \<Rightarrow> (writeAPIError 400 (''invalid request payload: '' @ msg), ed)
            | BodyOk widgets \<Rightarrow> (case parseWidgetPlacements widgets of
                Inl err \<Rightarrow> (writeAPIError 400 (ee_placementText env err), ed)
              | Inr overrides \<Rightarrow>
                  (case ApplyLayoutOverride (ee_deployment env) (ee_times env) (ee_faults env)
                          (Some \<lparr>lf_Version = 1, lf_Widgets = overrides\<rparr>) m (ed_disk ed) of
                     (Inl err, m', d') \<Rightarrow>
                       (writeAPIError (if err = ErrLayoutEditDisabled then 403 else 400) (ee_errorText env err),
                        ed\<lparr>ed_mgr := Some m', ed_disk := d'\<rparr>)
                   | (Inr (newSnap, diff), m', d') \<Rightarrow> editor_done env newSnap diff (ed\<lparr>ed_mgr := Some m', ed_disk := d'\<rparr>))))))"

definition DeleteLayoutEditor :: "editor_env \<Rightarrow> string \<Rightarrow> editor \<Rightarrow> response \<times> editor" where
  "DeleteLayoutEditor env meth ed =
     (case requireCORSAndMethod [''DELETE''] meth of
        Some rsp \<Rightarrow> (rsp, ed)
      | None \<Rightarrow> (case editor_snapshot ed of
          Inl rsp \<Rightarrow> (rsp, ed)
        | Inr (m, snap, cfg) \<Rightarrow>
            if \<not> IsLayoutEditAllowed (cf_Display cfg) then (writeAPIError 403 ''layout editing is disabled by configuration'', ed)
            else (case ResetLayoutOverride (ee_deployment env) (ee_times env) (ee_removeFails env) m (ed_disk ed) of
              (Inl err, m', d') \<Rightarrow>
                (writeAPIError (if err = ErrLayoutEditDisabled then 403 else 500) (ee_errorText env err),
                 ed\<lparr>ed_mgr := Some m', ed_disk := d'\<rparr>)
            | (Inr (newSnap, diff), m', d') \<Rightarrow> editor_done env newSnap diff (ed\<lparr>ed_mgr := Some m', ed_disk := d'\<rparr>))))"

end
