(* ===== verification/Layout_Editor_Props.thy ===== *)
theory Layout_Editor_Props
  imports Layout_Editor Config_Manager_Props
begin

text \<open>An edit of the layout either changes nothing on display or shows, and answers with, every configured widget once.\<close>

section \<open>What a response lists\<close>

definition real_widget :: "string \<Rightarrow> string \<Rightarrow> bool" where
  "real_widget i ty \<longleftrightarrow> ty \<noteq> ''spacer'' \<and> \<not> HasPrefix i ''auto-spacer-''"

text \<open>A listed widget and the placement it stands for.\<close>

definition stands_for :: "LayoutEditorWidget \<Rightarrow> Screen \<Rightarrow> PlacedWidget \<Rightarrow> bool" where
  "stands_for w sc pw \<longleftrightarrow> le_WidgetID w = pw_WidgetID pw \<and> le_Type w = pw_Type pw \<and> le_Screen w = int (sc_Index sc)
     \<and> le_Origin w = [fst (pw_Origin pw), snd (pw_Origin pw)] \<and> le_Dimensions w = Slice (pw_Dimensions pw) \<and> le_Pinned w = pw_Pinned pw"

definition real_of :: "Screen \<Rightarrow> PlacedWidget set" where
  "real_of sc = {pw \<in> set (sc_Widgets sc). real_widget (pw_WidgetID pw) (pw_Type pw)}"

definition listing :: "(Screen \<times> PlacedWidget) set \<Rightarrow> string set \<times> LayoutEditorWidget list \<Rightarrow> bool" where
  "listing S st \<longleftrightarrow> fst st = le_WidgetID ` set (snd st) \<and> fst st = (\<lambda>(sc, pw). pw_WidgetID pw) ` S
     \<and> distinct (map le_WidgetID (snd st)) \<and> (\<forall>w \<in> set (snd st). \<exists>(sc, pw) \<in> S. stands_for w sc pw)"

lemma collect_listing:
  assumes "listing S st"
  shows "listing (S \<union> {x. x = (sc, pw) \<and> real_widget (pw_WidgetID pw) (pw_Type pw)}) (collect_widget loader pkgs sc pw st)"
proof (cases "real_widget (pw_WidgetID pw) (pw_Type pw)")
  case False
  then show ?thesis using assms by (cases st) (auto simp: collect_widget_def real_widget_def)
next
  case True
  obtain seen out where st: "st = (seen, out)" by (cases st)
  show ?thesis
  proof (cases "pw_WidgetID pw \<in> seen")
    case seen: True
    then have "collect_widget loader pkgs sc pw st = st" by (auto simp: collect_widget_def st)
    then show ?thesis using assms seen unfolding listing_def st by fastforce
  next
    case False
    then obtain w where w: "collect_widget loader pkgs sc pw st = (insert (pw_WidgetID pw) seen, out @ [w])" "stands_for w sc pw"
      using True by (auto simp: collect_widget_def st real_widget_def stands_for_def Slice_def)
    show ?thesis using assms False w True unfolding listing_def st by (fastforce simp: stands_for_def)
  qed
qed

lemma collect_screen_listing:
  assumes "listing S st"
  shows "listing (S \<union> {sc} \<times> {pw \<in> set ws. real_widget (pw_WidgetID pw) (pw_Type pw)}) (fold (collect_widget loader pkgs sc) ws st)"
  using assms
proof (induction ws arbitrary: S st)
  case (Cons pw ws)
  from Cons.IH [OF collect_listing [OF Cons.prems, of sc pw loader pkgs]] show ?case
    by (simp add: Un_assoc) (erule back_subst [of "\<lambda>p. listing p _"], auto)
qed simp

lemma collect_all_listing:
  assumes "listing S st"
  shows "listing (S \<union> {(sc, pw). sc \<in> set scs \<and> pw \<in> real_of sc}) (fold (collectScreenWidgets loader pkgs) scs st)"
  using assms
proof (induction scs arbitrary: S st)
  case (Cons sc scs)
  have "listing (S \<union> {sc} \<times> real_of sc) (collectScreenWidgets loader pkgs sc st)"
    using collect_screen_listing [OF Cons.prems] by (simp add: collectScreenWidgets_def real_of_def)
  from Cons.IH [OF this] show ?case
    by (simp add: Un_assoc) (erule back_subst [of "\<lambda>p. listing p _"], auto)
qed simp

section \<open>Edits\<close>

text \<open>What an editor shows of a good snapshot.\<close>

definition lists_layout :: "LayoutEditorResponse \<Rightarrow> Config \<Rightarrow> Layout \<Rightarrow> bool" where
  "lists_layout resp cfg L \<longleftrightarrow> distinct (map le_WidgetID (lr_Widgets resp))
     \<and> le_WidgetID ` set (lr_Widgets resp) = wc_ID ` {w \<in> set (dc_Widgets (cf_Display cfg)). real_widget (wc_ID w) (wc_Type w)}
     \<and> (\<forall>w \<in> set (lr_Widgets resp). \<exists>sc \<in> set (Screens L). \<exists>pw \<in> set (sc_Widgets sc). stands_for w sc pw)
     \<and> lr_TotalScreens resp = int (length (Screens L)) \<and> lr_Grid resp = [gc_Columns (dc_Grid (cf_Display cfg)), gc_Rows (dc_Grid (cf_Display cfg))]"

lemma real_ids:
  assumes "pkey ` shown L = ckey ` ws"
  shows "pw_WidgetID ` {pw \<in> shown L. real_widget (pw_WidgetID pw) (pw_Type pw)} = wc_ID ` {w \<in> ws. real_widget (wc_ID w) (wc_Type w)}"
proof -
  let ?P = "\<lambda>(i, ty, ds :: int list). real_widget i ty"
  have "pw_WidgetID ` {pw \<in> shown L. real_widget (pw_WidgetID pw) (pw_Type pw)} = fst ` {k \<in> pkey ` shown L. ?P k}"
    by (force simp: pkey_def)
  also have "\<dots> = fst ` {k \<in> ckey ` ws. ?P k}" unfolding assms ..
  also have "\<dots> = wc_ID ` {w \<in> ws. real_widget (wc_ID w) (wc_Type w)}" by (force simp: ckey_def)
  finally show ?thesis .
qed

lemma response_lists:
  assumes "snapshot_good snap" "sn_Config snap = Some cfg"
  obtains L where "sn_Layout snap = Some L" "lists_layout (buildResponse loader snap cfg) cfg L"
proof -
  from assms obtain L gc gr where L: "sn_Layout snap = Some L"
    and g: "dc_Grid (cf_Display cfg) = \<lparr>gc_Columns = gc, gc_Rows = gr\<rparr>" "(gc, gr) \<in> {(6, 2), (3, 6)}"
    and keys: "pkey ` shown L = ckey ` set (dc_Widgets (cf_Display cfg))" by (auto simp: snapshot_good_def)
  let ?st = "fold (collectScreenWidgets loader (sn_Packages snap)) (Screens L) ({}, [])"
  let ?S = "{(sc, pw). sc \<in> set (Screens L) \<and> pw \<in> real_of sc}"
  have "listing {} ({}, [])" by (simp add: listing_def)
  from collect_all_listing [OF this, of "Screens L" loader "sn_Packages snap"] have l: "listing ?S ?st" by simp
  have "(\<lambda>(sc, pw). pw_WidgetID pw) ` ?S = pw_WidgetID ` {pw \<in> shown L. real_widget (pw_WidgetID pw) (pw_Type pw)}"
    by (force simp: real_of_def shown_def)
  with l have ids: "le_WidgetID ` set (snd ?st) = wc_ID ` {w \<in> set (dc_Widgets (cf_Display cfg)). real_widget (wc_ID w) (wc_Type w)}"
    unfolding listing_def real_ids [OF keys] by metis
  have at: "\<exists>sc \<in> set (Screens L). \<exists>pw \<in> set (sc_Widgets sc). stands_for w sc pw" if "w \<in> set (snd ?st)" for w
    using l that unfolding listing_def by (force simp: real_of_def)
  have "distinct (map le_WidgetID (snd ?st))" using l by (simp add: listing_def)
  with ids at g have "lists_layout (buildResponse loader snap cfg) cfg L"
    by (auto simp: lists_layout_def buildResponse_def Let_def L)
  with L show ?thesis by (rule that)
qed

text \<open>How an edit ends, by what the manager answered.\<close>

definition edit_end ::
    "editor_env \<Rightarrow> editor \<Rightarrow> (manager_error + Snapshot \<times> ConfigDiff) \<times> Manager \<times> disk \<Rightarrow> response \<times> editor \<Rightarrow> bool" where
  "edit_end env ed answer out \<longleftrightarrow>
     (case answer of
        (Inl err, m', d') \<Rightarrow> rs_Code (fst out) \<noteq> 200 \<and> snd out = ed\<lparr>ed_mgr := Some m', ed_disk := d'\<rparr>
      | (Inr (snap, diff), m', d') \<Rightarrow> out = editor_done env snap diff (ed\<lparr>ed_mgr := Some m', ed_disk := d'\<rparr>))"

lemma options_code: "requireCORSAndMethod ms meth = Some rsp \<Longrightarrow> rs_Code rsp \<noteq> 200"
  by (auto simp: requireCORSAndMethod_def writeAPIError_def split: if_splits)

lemma snapshot_code: "editor_snapshot ed = Inl rsp \<Longrightarrow> rs_Code rsp \<noteq> 200"
  by (auto simp: editor_snapshot_def writeAPIError_def split: option.splits)

lemma snapshot_mgr: "editor_snapshot ed = Inr (m', snap, cfg) \<Longrightarrow> ed_mgr ed = Some m'"
  by (auto simp: editor_snapshot_def split: option.splits)

lemma error_code [simp]: "rs_Code (writeAPIError c msg) = c"
  by (simp add: writeAPIError_def)

lemma put_end:
  assumes "ed_mgr ed = Some m"
  shows "(rs_Code (fst (PutLayoutEditor env r ed)) \<noteq> 200 \<and> snd (PutLayoutEditor env r ed) = ed)
    \<or> (\<exists>ov. edit_end env ed (ApplyLayoutOverride (ee_deployment env) (ee_times env) (ee_faults env) ov m (ed_disk ed)) (PutLayoutEditor env r ed))"
proof (cases "requireCORSAndMethod [''PUT''] (rq_Method r)")
  case (Some rsp)
  then show ?thesis using options_code by (simp add: PutLayoutEditor_def)
next
  case ok: None
  show ?thesis
  proof (cases "editor_snapshot ed")
    case (Inl rsp)
    then show ?thesis using ok snapshot_code by (simp add: PutLayoutEditor_def)
  next
    case (Inr t)
    obtain m' snap cfg where t: "t = (m', snap, cfg)" by (cases t)
    then have "m' = m" using snapshot_mgr [of ed m' snap cfg] Inr assms by simp
    note start = this ok Inr t
    show ?thesis
    proof (cases "\<exists>widgets overrides. IsLayoutEditAllowed (cf_Display cfg) \<and> rq_Body r = BodyOk widgets \<and> parseWidgetPlacements widgets = Inr overrides")
      case True
      then obtain widgets overrides where "IsLayoutEditAllowed (cf_Display cfg)" "rq_Body r = BodyOk widgets"
        "parseWidgetPlacements widgets = Inr overrides" by blast
      then have "edit_end env ed (ApplyLayoutOverride (ee_deployment env) (ee_times env) (ee_faults env)
          (Some \<lparr>lf_Version = 1, lf_Widgets = overrides\<rparr>) m (ed_disk ed)) (PutLayoutEditor env r ed)"
        using start by (auto simp: PutLayoutEditor_def edit_end_def split: sum.split prod.split)
      then show ?thesis by blast
    next
      case False
      then show ?thesis using start by (auto simp: PutLayoutEditor_def split: body.split sum.split)
    qed
  qed
qed

lemma delete_end:
  assumes "ed_mgr ed = Some m"
  shows "(rs_Code (fst (DeleteLayoutEditor env meth ed)) \<noteq> 200 \<and> snd (DeleteLayoutEditor env meth ed) = ed)
    \<or> edit_end env ed (ResetLayoutOverride (ee_deployment env) (ee_times env) (ee_removeFails env) m (ed_disk ed)) (DeleteLayoutEditor env meth ed)"
proof (cases "requireCORSAndMethod [''DELETE''] meth")
  case (Some rsp)
  then show ?thesis using options_code by (simp add: DeleteLayoutEditor_def)
next
  case ok: None
  show ?thesis
  proof (cases "editor_snapshot ed")
    case (Inl rsp)
    then show ?thesis using ok snapshot_code by (simp add: DeleteLayoutEditor_def)
  next
    case (Inr t)
    obtain m' snap cfg where t: "t = (m', snap, cfg)" by (cases t)
    then have "m' = m" using snapshot_mgr [of ed m' snap cfg] Inr assms by simp
    then show ?thesis using ok Inr
      by (auto simp: DeleteLayoutEditor_def t edit_end_def split: sum.split prod.split)
  qed
qed

text \<open>What the manager promises of either edit.\<close>

definition edit_answer :: "Manager \<Rightarrow> disk \<Rightarrow> (manager_error + Snapshot \<times> ConfigDiff) \<times> Manager \<times> disk \<Rightarrow> bool" where
  "edit_answer m d answer \<longleftrightarrow>
     (case answer of
        (Inl err, m', d') \<Rightarrow> m' = m
      | (Inr (snap, diff), m', d') \<Rightarrow> manager_reach (m', d') \<and> mg_current m' = Some snap \<and> diff = DiffConfigs (Current m) (sn_Config snap))"

lemma apply_answer: "manager_reach (m, d) \<Longrightarrow> edit_answer m d (ApplyLayoutOverride su t f ov m d)"
  using applied [of m d su t f ov]
  by (auto simp: edit_answer_def ApplyLayoutOverride_def Let_def updateStatusLocked_def split: option.split sum.split prod.split)

lemma reset_answer: "manager_reach (m, d) \<Longrightarrow> edit_answer m d (ResetLayoutOverride su t fails m d)"
  using reset [of m d su t fails]
  by (auto simp: edit_answer_def ResetLayoutOverride_def Let_def updateStatusLocked_def split: sum.split prod.split)

text \<open>
  C0: A request that edits the layout, or resets it, either fails and leaves the configuration on display and the clients' stream as
  they were, or takes effect everywhere: the manager holds the new snapshot, clients are told of it with the difference from the
  configuration before, and the response, which is also what a later read of the layout gives, lists each configured widget other
  than spacers exactly once, at the place it has on the screen it names.
\<close>

theorem layout_edit:
  assumes "manager_reach (m, d)" "out \<in> {PutLayoutEditor env r \<lparr>ed_mgr = Some m, ed_hub = h, ed_disk = d\<rparr>,
      DeleteLayoutEditor env meth \<lparr>ed_mgr = Some m, ed_hub = h, ed_disk = d\<rparr>}"
  shows "if rs_Code (fst out) = 200
    then \<exists>m' snap cfg L resp. ed_mgr (snd out) = Some m' \<and> manager_reach (m', ed_disk (snd out))
      \<and> mg_current m' = Some snap \<and> sn_Config snap = Some cfg \<and> sn_Layout snap = Some L
      \<and> fst out = writeJSON 200 (editor_json resp) \<and> GetLayoutEditor env ''GET'' (snd out) = fst out \<and> lists_layout resp cfg L
      \<and> ed_hub (snd out) = map_option (\<lambda>h. DispatchConfigReload h (ee_rotation env) (ee_providers env) (Some snap)
          (Some (DiffConfigs (Current m) (Some cfg))) (ee_now env)) h
    else ed_mgr (snd out) = Some m \<and> ed_hub (snd out) = h"
proof -
  let ?ed = "\<lparr>ed_mgr = Some m, ed_hub = h, ed_disk = d\<rparr>"
  have "rs_Code (fst out) \<noteq> 200 \<and> snd out = ?ed \<or> (\<exists>answer. edit_answer m d answer \<and> edit_end env ?ed answer out)"
  proof (cases "out = PutLayoutEditor env r ?ed")
    case True
    have "ed_mgr ?ed = Some m" "ed_disk ?ed = d" by simp_all
    with put_end [of ?ed m env r] True show ?thesis using apply_answer [OF assms(1)] by metis
  next
    case False
    then have out: "out = DeleteLayoutEditor env meth ?ed" using assms(2) by blast
    have "ed_mgr ?ed = Some m" "ed_disk ?ed = d" by simp_all
    with delete_end [of ?ed m env meth] out show ?thesis using reset_answer [OF assms(1)] by metis
  qed
  then show ?thesis
  proof (elim disjE exE)
    assume "rs_Code (fst out) \<noteq> 200 \<and> snd out = ?ed" then show ?thesis by simp
  next
    fix answer assume a: "edit_answer m d answer \<and> edit_end env ?ed answer out"
    obtain res m' d' where answer: "answer = (res, m', d')" by (cases answer)
    show ?thesis
    proof (cases res)
      case (Inl err) then show ?thesis using a by (simp add: answer edit_answer_def edit_end_def)
    next
      case (Inr p)
      obtain snap diff where p: "p = (snap, diff)" by (cases p)
      have m': "manager_reach (m', d')" "mg_current m' = Some snap" "diff = DiffConfigs (Current m) (sn_Config snap)"
        and out: "out = editor_done env snap diff (?ed\<lparr>ed_mgr := Some m', ed_disk := d'\<rparr>)"
        using a by (simp_all add: answer Inr p edit_answer_def edit_end_def)
      have good: "snapshot_good snap" using manager_reach_ok [OF m'(1)] m'(2) by (simp add: manager_ok_def)
      then obtain cfg where cfg: "sn_Config snap = Some cfg" by (auto simp: snapshot_good_def)
      from response_lists [OF good cfg, of "ee_loader env"] obtain L where
        "sn_Layout snap = Some L" "lists_layout (buildResponse (ee_loader env) snap cfg) cfg L" .
      then show ?thesis using m' cfg
        by (auto simp: out editor_done_def writeJSON_def GetLayoutEditor_def editor_snapshot_def requireCORSAndMethod_def)
    qed
  qed
qed

definition editor_sample :: editor_env where
  "editor_sample = \<lparr>ee_deployment = stable_deployment, ee_loader = None, ee_times = zero_times, ee_faults = no_faults, ee_removeFails = False,
     ee_rotation = None, ee_providers = None, ee_now = 0, ee_errorText = (\<lambda>_. ''e''), ee_placementText = (\<lambda>_. ''p'')\<rparr>"

definition clear_request :: "LayoutEditorWidgetPlacement list request" where
  "clear_request = \<lparr>rq_Method = ''PUT'', rq_Body = BodyOk []\<rparr>"

lemma clear_run:
  "case NewManager stable_deployment zero_times Map.empty ''x'' [WithOverridePath ''o''] of
     Inl _ \<Rightarrow> False
   | Inr m \<Rightarrow> rs_Code (fst (PutLayoutEditor editor_sample clear_request \<lparr>ed_mgr = Some m, ed_hub = None, ed_disk = Map.empty\<rparr>)) = 200"
  by code_simp

theorem layout_edit_witness:
  "\<exists>m m' snap cfg L resp. NewManager stable_deployment zero_times Map.empty ''x'' [WithOverridePath ''o''] = Inr m
    \<and> ed_mgr (snd (PutLayoutEditor editor_sample clear_request \<lparr>ed_mgr = Some m, ed_hub = None, ed_disk = Map.empty\<rparr>)) = Some m'
    \<and> mg_current m' = Some snap \<and> sn_Config snap = Some cfg \<and> sn_Layout snap = Some L \<and> lists_layout resp cfg L"
proof -
  obtain m where m: "NewManager stable_deployment zero_times Map.empty ''x'' [WithOverridePath ''o''] = Inr m"
    and code: "rs_Code (fst (PutLayoutEditor editor_sample clear_request \<lparr>ed_mgr = Some m, ed_hub = None, ed_disk = Map.empty\<rparr>)) = 200"
    using clear_run by (auto split: sum.splits)
  from layout_edit [of m Map.empty _ editor_sample clear_request None "''DELETE''", OF started [OF m] insertI1] code m show ?thesis
    by simp blast
qed

end
