(* ===== verification/Cast_Wire.thy ===== *)
theory Cast_Wire
  imports Prelude "HOL-Library.Word"
begin

unbundle bit_operations_syntax

text \<open>
  \<^verbatim>\<open>client/cast-watcher/wire.go\<close>: the frames a casting device and the watcher exchange. Go's 64-bit integers are words; \<^verbatim>\<open>int\<close> and
  \<^verbatim>\<open>uint64\<close> convert into each other without a change of bits. Lengths and offsets are natural numbers: a frame has at most 64 KB.
\<close>

section \<open>Variable-length integers\<close>

text \<open>\<^verbatim>\<open>binary.PutUvarint\<close>; ten bytes are enough for any value.\<close>

function PutUvarint :: "64 word \<Rightarrow> 8 word list" where
  "PutUvarint x = (if x \<ge> 0x80 then (ucast x OR 0x80) # PutUvarint (drop_bit 7 x) else [ucast x])"
  by pat_completeness auto

lemma drop_bit_shrinks: "0x80 \<le> (x :: 64 word) \<Longrightarrow> unat (drop_bit 7 x) < unat x"
  by (simp add: drop_bit_eq_div unat_div word_le_nat_alt)

termination PutUvarint
  by (relation "measure unat") (simp_all add: drop_bit_shrinks)

declare PutUvarint.simps [simp del]

text \<open>\<^verbatim>\<open>binary.Uvarint\<close>: the value and the number of bytes read; no bytes for a value that is cut off, a negative number for one that
  does not fit.\<close>

fun uvarint_loop :: "nat \<Rightarrow> 64 word \<Rightarrow> nat \<Rightarrow> 8 word list \<Rightarrow> 64 word \<times> int" where
  "uvarint_loop i x s [] = (0, 0)"
| "uvarint_loop i x s (b # bs) =
     (if i = 10 then (0, - (int i + 1))
      else if b < 0x80 then (if i = 9 \<and> b > 1 then (0, - (int i + 1)) else (x OR push_bit s (ucast b), int i + 1))
      else uvarint_loop (i + 1) (x OR push_bit s (ucast (b AND 0x7F))) (s + 7) bs)"

definition Uvarint :: "8 word list \<Rightarrow> 64 word \<times> int" where
  "Uvarint buf = uvarint_loop 0 0 0 buf"

section \<open>Messages\<close>

definition MaxPayloadSize :: nat where "MaxPayloadSize = 64 * 1024"
definition PayloadTypeString :: "64 word" where "PayloadTypeString = 0"

datatype cast_error =
    ErrPayloadTooLarge | ErrCorruptFrame | UnsupportedWireType nat | ErrTruncatedFrame | CastEOF | CastUnexpectedEOF | CastReadError string

record CastMessage =
  cm_ProtocolVersion :: "64 word"
  cm_SourceID :: string
  cm_DestinationID :: string
  cm_Namespace :: string
  cm_PayloadType :: "64 word"
  cm_PayloadUTF8 :: string
  cm_PayloadBinary :: "8 word list"

definition zero_message :: CastMessage where
  "zero_message = \<lparr>cm_ProtocolVersion = 0, cm_SourceID = [], cm_DestinationID = [], cm_Namespace = [], cm_PayloadType = 0,
     cm_PayloadUTF8 = [], cm_PayloadBinary = []\<rparr>"

text \<open>The bytes of a string.\<close>

definition to_bytes :: "string \<Rightarrow> 8 word list" where
  "to_bytes = map (\<lambda>c. of_nat (of_char c))"

definition from_bytes :: "8 word list \<Rightarrow> string" where
  "from_bytes = map (\<lambda>b. char_of (unat b))"

subsection \<open>Encoding\<close>

definition appendVarintField :: "8 word list \<Rightarrow> nat \<Rightarrow> 64 word \<Rightarrow> 8 word list" where
  "appendVarintField dst fieldNum val = dst @ PutUvarint (push_bit 3 (of_nat fieldNum)) @ PutUvarint val"

definition appendLengthDelimited :: "8 word list \<Rightarrow> nat \<Rightarrow> 8 word list \<Rightarrow> 8 word list" where
  "appendLengthDelimited dst fieldNum data =
     dst @ PutUvarint (push_bit 3 (of_nat fieldNum) OR 2) @ PutUvarint (of_nat (length data)) @ data"

text \<open>The four bytes of a length, most significant first.\<close>

definition PutUint32 :: "32 word \<Rightarrow> 8 word list" where
  "PutUint32 n = [ucast (drop_bit 24 n), ucast (drop_bit 16 n), ucast (drop_bit 8 n), ucast n]"

definition encode_body :: "CastMessage \<Rightarrow> 8 word list" where
  "encode_body msg =
     (let b1 = appendVarintField [] 1 (cm_ProtocolVersion msg);
          b2 = (if cm_SourceID msg \<noteq> [] then appendLengthDelimited b1 2 (to_bytes (cm_SourceID msg)) else b1);
          b3 = (if cm_DestinationID msg \<noteq> [] then appendLengthDelimited b2 3 (to_bytes (cm_DestinationID msg)) else b2);
          b4 = (if cm_Namespace msg \<noteq> [] then appendLengthDelimited b3 4 (to_bytes (cm_Namespace msg)) else b3);
          b5 = appendVarintField b4 5 (cm_PayloadType msg);
          b6 = (if cm_PayloadUTF8 msg \<noteq> [] \<or> cm_PayloadType msg = PayloadTypeString
                then appendLengthDelimited b5 6 (to_bytes (cm_PayloadUTF8 msg)) else b5)
      in if cm_PayloadBinary msg \<noteq> [] then appendLengthDelimited b6 7 (cm_PayloadBinary msg) else b6)"

definition EncodeCastMessage :: "CastMessage \<Rightarrow> cast_error + 8 word list" where
  "EncodeCastMessage msg =
     (let body = encode_body msg in
      if length body > MaxPayloadSize then Inl ErrPayloadTooLarge
      else Inr (PutUint32 (of_nat (length body)) @ body))"

subsection \<open>Decoding\<close>

definition set_varint :: "nat \<Rightarrow> 64 word \<Rightarrow> CastMessage \<Rightarrow> CastMessage" where
  "set_varint fieldNum val msg =
     (if fieldNum = 1 then msg\<lparr>cm_ProtocolVersion := val\<rparr> else if fieldNum = 5 then msg\<lparr>cm_PayloadType := val\<rparr> else msg)"

definition set_bytes :: "nat \<Rightarrow> 8 word list \<Rightarrow> CastMessage \<Rightarrow> CastMessage" where
  "set_bytes fieldNum data msg =
     (if fieldNum = 2 then msg\<lparr>cm_SourceID := from_bytes data\<rparr>
      else if fieldNum = 3 then msg\<lparr>cm_DestinationID := from_bytes data\<rparr>
      else if fieldNum = 4 then msg\<lparr>cm_Namespace := from_bytes data\<rparr>
      else if fieldNum = 6 then msg\<lparr>cm_PayloadUTF8 := from_bytes data\<rparr>
      else if fieldNum = 7 then msg\<lparr>cm_PayloadBinary := data\<rparr>
      else msg)"

definition decodeCastField :: "8 word list \<Rightarrow> nat \<Rightarrow> nat \<Rightarrow> nat \<Rightarrow> CastMessage \<Rightarrow> cast_error + nat \<times> CastMessage" where
  "decodeCastField payloadBuf offset fieldNum wireType msg =
     (if wireType = 0 then
        (case Uvarint (drop offset payloadBuf) of (val, vn) \<Rightarrow>
         if vn \<le> 0 then Inl ErrCorruptFrame else Inr (offset + nat vn, set_varint fieldNum val msg))
      else if wireType = 1 then
        (if offset + 8 > length payloadBuf then Inl ErrTruncatedFrame else Inr (offset + 8, msg))
      else if wireType = 2 then
        (case Uvarint (drop offset payloadBuf) of (fieldLen, ln) \<Rightarrow>
         if ln \<le> 0 then Inl ErrCorruptFrame
         else let start = offset + nat ln in
           if fieldLen > of_nat (length payloadBuf - start) then Inl ErrTruncatedFrame
           else let data = take (unat fieldLen) (drop start payloadBuf)
                in Inr (start + unat fieldLen, set_bytes fieldNum data msg))
      else if wireType = 5 then
        (if offset + 4 > length payloadBuf then Inl ErrTruncatedFrame else Inr (offset + 4, msg))
      else Inl (UnsupportedWireType wireType))"

lemma decodeCastField_advances: "decodeCastField buf offset f w msg = Inr (offset', msg') \<Longrightarrow> offset \<le> offset'"
  by (auto simp: decodeCastField_def Let_def split: if_splits prod.splits)

text \<open>The loop over the fields; each round moves the offset.\<close>

function decode_fields :: "8 word list \<Rightarrow> nat \<Rightarrow> CastMessage \<Rightarrow> cast_error + CastMessage" where
  "decode_fields payloadBuf offset msg =
     (if offset < length payloadBuf then
        (case Uvarint (drop offset payloadBuf) of (tag, n) \<Rightarrow>
         if n \<le> 0 then Inl ErrCorruptFrame
         else case decodeCastField payloadBuf (offset + nat n) (unat (drop_bit 3 tag)) (unat (tag AND 7)) msg of
           Inl err \<Rightarrow> Inl err
         | Inr (offset', msg') \<Rightarrow> decode_fields payloadBuf offset' msg')
      else Inr msg)"
  by pat_completeness auto

termination decode_fields
  by (relation "measure (\<lambda>(buf, offset, msg). length buf - offset)") (auto dest!: decodeCastField_advances)

declare decode_fields.simps [simp del]

text \<open>A reader: the bytes it will give, and the error it then returns, None for the end of the stream. \<^verbatim>\<open>io.ReadFull\<close> reads a number of
  bytes or fails, having read what there was.\<close>

type_synonym cast_reader = "8 word list \<times> string option"

definition ReadFull :: "nat \<Rightarrow> cast_reader \<Rightarrow> (cast_error + 8 word list) \<times> cast_reader" where
  "ReadFull n r =
     (case r of (bs, e) \<Rightarrow>
      if n \<le> length bs then (Inr (take n bs), (drop n bs, e))
      else (Inl (case e of Some m \<Rightarrow> CastReadError m | None \<Rightarrow> if bs = [] then CastEOF else CastUnexpectedEOF), ([], e)))"

definition Uint32 :: "8 word list \<Rightarrow> 32 word" where
  "Uint32 b = push_bit 24 (ucast (b ! 0)) OR push_bit 16 (ucast (b ! 1)) OR push_bit 8 (ucast (b ! 2)) OR ucast (b ! 3)"

definition DecodeCastMessage :: "cast_reader \<Rightarrow> (cast_error + CastMessage) \<times> cast_reader" where
  "DecodeCastMessage r =
     (case ReadFull 4 r of
        (Inl err, r1) \<Rightarrow> (Inl err, r1)
      | (Inr lenBuf, r1) \<Rightarrow>
          let payloadLen = unat (Uint32 lenBuf) in
          if payloadLen > MaxPayloadSize then (Inl ErrPayloadTooLarge, r1)
          else case ReadFull payloadLen r1 of
            (Inl err, r2) \<Rightarrow> (Inl err, r2)
          | (Inr payloadBuf, r2) \<Rightarrow> (decode_fields payloadBuf 0 zero_message, r2))"

end
