(* ===== verification/Cast_Wire_Props.thy ===== *)
theory Cast_Wire_Props
  imports Cast_Wire "HOL-Library.Sublist"
begin

unbundle bit_operations_syntax

text \<open>A reader of frames gets back the messages that were written.\<close>

section \<open>Variable-length integers\<close>

lemma low_high: "take_bit n v OR push_bit n (drop_bit n v) = (v :: 64 word)"
proof (rule bit_eqI)
  fix k show "bit (take_bit n v OR push_bit n (drop_bit n v)) k = bit v k" by (cases "k < n") (auto simp: bit_simps dest: bit_imp_le_length)
qed

lemma bit_7F: "bit (0x7F :: 8 word) j = (j < 7)"
proof -
  have "bit (mask 7 :: 8 word) j = (j < 7)" by (simp only: bit_mask_iff) auto
  then show ?thesis by (simp add: mask_eq_exp_minus_1)
qed

lemma bit_80: "bit (0x80 :: 8 word) j = (j = 7)"
proof -
  have "bit (2 ^ 7 :: 8 word) j = (j = 7)" by (simp only: bit_exp_iff) auto
  then show ?thesis by simp
qed

lemma group_bits:
  assumes "\<And>j. bit p j = (j < 7)" "\<And>j. bit q j = (j = 7)"
  shows "take_bit n v OR push_bit n (ucast ((ucast (drop_bit n v) OR q :: 8 word) AND p)) = take_bit (n + 7) (v :: 64 word)"
proof (rule bit_eqI)
  fix k show "bit (take_bit n v OR push_bit n (ucast ((ucast (drop_bit n v) OR q) AND p))) k = bit (take_bit (n + 7) v) k"
    using assms by (cases "k < n") (auto simp: bit_simps dest: bit_imp_le_length)
qed

lemma next_group: "take_bit n v OR push_bit n (ucast ((ucast (drop_bit n v) OR 0x80 :: 8 word) AND 0x7F)) = take_bit (n + 7) (v :: 64 word)"
  by (rule group_bits [OF bit_7F bit_80])

lemma small_byte:
  assumes "(x :: 64 word) < 0x80"
  shows "(ucast x :: 8 word) < 0x80" "ucast (ucast x :: 8 word) = x" "unat (ucast x :: 8 word) = unat x"
proof -
  show u: "unat (ucast x :: 8 word) = unat x" using assms by (simp add: word_less_nat_alt unsigned_ucast_eq take_bit_eq_mod)
  then show "(ucast x :: 8 word) < 0x80" using assms by (simp add: word_less_nat_alt)
  show "ucast (ucast x :: 8 word) = x" using u by (simp add: word_unat_eq_iff unsigned_ucast_eq take_bit_eq_mod unat_mod)
qed

lemma marked_byte: "\<not> (y OR 0x80 :: 8 word) < 0x80"
proof
  assume "y OR 0x80 < 0x80"
  then have "take_bit 7 (unat (y OR 0x80)) = unat (y OR 0x80)" by (simp add: take_bit_nat_eq_self_iff word_less_nat_alt)
  then have "\<not> bit (unat (y OR 0x80)) 7" by (metis bit_take_bit_iff less_irrefl)
  moreover have "bit (y OR 0x80) 7" by (simp only: bit_or_iff bit_80 simp_thms)
  ultimately show False by (simp add: bit_unsigned_iff)
qed

lemma top_bit: "drop_bit 63 (v :: 64 word) \<le> 1"
proof -
  have "unat v < 2 ^ 64" using unsigned_less [of v] by simp
  then show ?thesis by (simp add: drop_bit_eq_div word_le_nat_alt unat_div)
qed

lemma uvarint_loop_put:
  "i \<le> 9 \<Longrightarrow> uvarint_loop i (take_bit (7 * i) v) (7 * i) (PutUvarint (drop_bit (7 * i) v) @ rest)
    = (v, int (i + length (PutUvarint (drop_bit (7 * i) v))))"
proof (induction "9 - i" arbitrary: i)
  case 0
  then have i: "i = 9" by simp
  have "drop_bit 63 v < 0x80" using top_bit [of v] by (rule order.strict_trans1) simp
  note small = small_byte [OF this] this
  have "\<not> 1 < (ucast (drop_bit 63 v) :: 8 word)" using top_bit [of v] by (simp add: word_less_nat_alt small word_le_nat_alt)
  moreover have "PutUvarint (drop_bit 63 v) = [ucast (drop_bit 63 v)]" using small(4) by (subst PutUvarint.simps) simp
  ultimately show ?case using small low_high [of 63 v] by (simp add: i)
next
  case (Suc d)
  show ?case
  proof (cases "drop_bit (7 * i) v < 0x80")
    case True
    note small = small_byte [OF True] True
    have "PutUvarint (drop_bit (7 * i) v) = [ucast (drop_bit (7 * i) v)]" using True by (subst PutUvarint.simps) simp
    with Suc(2,3) show ?thesis using small low_high [of "7 * i" v] by simp
  next
    case False
    have i: "d = 9 - Suc i" "Suc i \<le> 9" "i \<noteq> 10" using Suc(2) by simp_all
    have put: "PutUvarint (drop_bit (7 * i) v) = (ucast (drop_bit (7 * i) v) OR 0x80) # PutUvarint (drop_bit (7 * Suc i) v)"
      using False by (subst PutUvarint.simps) (simp add: add.commute not_less)
    show ?thesis using Suc(1) [OF i(1,2)] i(3) next_group [of "7 * i" v] by (simp add: put marked_byte add.commute)
  qed
qed

lemma Uvarint_put [simp]: "Uvarint (PutUvarint v @ rest) = (v, int (length (PutUvarint v)))"
  using uvarint_loop_put [of 0 v rest] by (simp add: Uvarint_def)

lemma PutUvarint_nonempty [simp]: "PutUvarint v \<noteq> []"
  by (subst PutUvarint.simps) simp

section \<open>Fields\<close>

lemma from_to_bytes [simp]: "from_bytes (to_bytes s) = s"
  by (simp add: from_bytes_def to_bytes_def o_def unat_of_nat)

lemma varint_tag:
  assumes "f \<in> {1..7}"
  shows "unat (drop_bit 3 (push_bit 3 (of_nat f) :: 64 word)) = f" "unat (push_bit 3 (of_nat f) AND 7 :: 64 word) = 0"
    "unat (drop_bit 3 (push_bit 3 (of_nat f) OR 2 :: 64 word)) = f" "unat ((push_bit 3 (of_nat f) OR 2) AND 7 :: 64 word) = 2"
proof -
  have "f = 1 \<or> f = 2 \<or> f = 3 \<or> f = 4 \<or> f = 5 \<or> f = 6 \<or> f = 7" using assms by auto
  then show "unat (drop_bit 3 (push_bit 3 (of_nat f) :: 64 word)) = f" "unat (push_bit 3 (of_nat f) AND 7 :: 64 word) = 0"
    "unat (drop_bit 3 (push_bit 3 (of_nat f) OR 2 :: 64 word)) = f" "unat ((push_bit 3 (of_nat f) OR 2) AND 7 :: 64 word) = 2"
    by (elim disjE; simp)+
qed

text \<open>Decoding at the end of a prefix reads the field there and goes on behind it.\<close>

lemma decode_varint_field:
  assumes "f \<in> {1..7}"
  shows "decode_fields (appendVarintField pre f v @ post) (length pre) msg
    = decode_fields (appendVarintField pre f v @ post) (length (appendVarintField pre f v)) (set_varint f v msg)"
  using assms
  by (subst decode_fields.simps) (simp add: appendVarintField_def decodeCastField_def varint_tag add.assoc)

lemma decode_bytes_field:
  assumes "f \<in> {1..7}" "length (appendLengthDelimited pre f data @ post) \<le> MaxPayloadSize"
  shows "decode_fields (appendLengthDelimited pre f data @ post) (length pre) msg
    = decode_fields (appendLengthDelimited pre f data @ post) (length (appendLengthDelimited pre f data)) (set_bytes f data msg)"
proof -
  have "length data + length post < 2 ^ 64" using assms(2) by (simp add: appendLengthDelimited_def MaxPayloadSize_def)
  then have "unat (of_nat (length data) :: 64 word) = length data"
    "\<not> of_nat (length data + length post) < (of_nat (length data) :: 64 word)"
    by (simp_all add: unat_of_nat word_less_nat_alt del: of_nat_add)
  then show ?thesis using assms(1)
    by (subst decode_fields.simps) (simp add: appendLengthDelimited_def decodeCastField_def varint_tag add.assoc Let_def del: of_nat_add)
qed

definition opt_field :: "bool \<Rightarrow> 8 word list \<Rightarrow> nat \<Rightarrow> 8 word list \<Rightarrow> 8 word list" where
  "opt_field c pre f data = (if c then appendLengthDelimited pre f data else pre)"

definition opt_set :: "bool \<Rightarrow> nat \<Rightarrow> 8 word list \<Rightarrow> CastMessage \<Rightarrow> CastMessage" where
  "opt_set c f data msg = (if c then set_bytes f data msg else msg)"

lemma prefix_fields: "prefix pre (opt_field c pre f data)" "prefix pre (appendVarintField pre f v)"
  by (auto simp: opt_field_def appendLengthDelimited_def appendVarintField_def)

lemma varint_step:
  assumes "prefix (appendVarintField pre f v) body" "f \<in> {1..7}"
  shows "decode_fields body (length pre) msg = decode_fields body (length (appendVarintField pre f v)) (set_varint f v msg)"
  using assms(1) decode_varint_field [OF assms(2)] by (auto simp: prefix_def)

lemma opt_step:
  assumes "prefix (opt_field c pre f data) body" "f \<in> {1..7}" "length body \<le> MaxPayloadSize"
  shows "decode_fields body (length pre) msg = decode_fields body (length (opt_field c pre f data)) (opt_set c f data msg)"
  using assms decode_bytes_field [OF assms(2)] by (auto simp: prefix_def opt_field_def opt_set_def)

text \<open>Leaving an empty field out is the same as setting it.\<close>

lemma opt_sets:
  "cm_SourceID m = [] \<Longrightarrow> opt_set (s \<noteq> []) 2 (to_bytes s) m = m\<lparr>cm_SourceID := s\<rparr>"
  "cm_DestinationID m = [] \<Longrightarrow> opt_set (s \<noteq> []) 3 (to_bytes s) m = m\<lparr>cm_DestinationID := s\<rparr>"
  "cm_Namespace m = [] \<Longrightarrow> opt_set (s \<noteq> []) 4 (to_bytes s) m = m\<lparr>cm_Namespace := s\<rparr>"
  "cm_PayloadUTF8 m = [] \<Longrightarrow> opt_set (s = [] \<longrightarrow> p) 6 (to_bytes s) m = m\<lparr>cm_PayloadUTF8 := s\<rparr>"
  "cm_PayloadBinary m = [] \<Longrightarrow> opt_set (d \<noteq> []) 7 d m = m\<lparr>cm_PayloadBinary := d\<rparr>"
  by (cases m; simp add: opt_set_def set_bytes_def)+

lemma decode_encode_body:
  assumes "length (encode_body msg) \<le> MaxPayloadSize"
  shows "decode_fields (encode_body msg) 0 zero_message = Inr msg"
proof -
  let ?body = "encode_body msg"
  define b1 where "b1 = appendVarintField [] 1 (cm_ProtocolVersion msg)"
  define b2 where "b2 = opt_field (cm_SourceID msg \<noteq> []) b1 2 (to_bytes (cm_SourceID msg))"
  define b3 where "b3 = opt_field (cm_DestinationID msg \<noteq> []) b2 3 (to_bytes (cm_DestinationID msg))"
  define b4 where "b4 = opt_field (cm_Namespace msg \<noteq> []) b3 4 (to_bytes (cm_Namespace msg))"
  define b5 where "b5 = appendVarintField b4 5 (cm_PayloadType msg)"
  define b6 where "b6 = opt_field (cm_PayloadUTF8 msg \<noteq> [] \<or> cm_PayloadType msg = PayloadTypeString) b5 6 (to_bytes (cm_PayloadUTF8 msg))"
  define b7 where "b7 = opt_field (cm_PayloadBinary msg \<noteq> []) b6 7 (cm_PayloadBinary msg)"
  note bs = b1_def b2_def b3_def b4_def b5_def b6_def b7_def
  have body: "?body = b7" by (simp add: encode_body_def bs opt_field_def Let_def)
  then have b7: "prefix b7 ?body" by simp
  have b6: "prefix b6 ?body" using b7 prefix_fields(1) prefix_order.trans unfolding b7_def by blast
  have b5: "prefix b5 ?body" using b6 prefix_fields(1) prefix_order.trans unfolding b6_def by blast
  have b4: "prefix b4 ?body" using b5 prefix_fields(2) prefix_order.trans unfolding b5_def by blast
  have b3: "prefix b3 ?body" using b4 prefix_fields(1) prefix_order.trans unfolding b4_def by blast
  have b2: "prefix b2 ?body" using b3 prefix_fields(1) prefix_order.trans unfolding b3_def by blast
  have b1: "prefix b1 ?body" using b2 prefix_fields(1) prefix_order.trans unfolding b2_def by blast
  note step = opt_step [OF _ _ assms]
  let ?m2 = "set_varint 1 (cm_ProtocolVersion msg) zero_message\<lparr>cm_SourceID := cm_SourceID msg\<rparr>"
  let ?m4 = "?m2\<lparr>cm_DestinationID := cm_DestinationID msg, cm_Namespace := cm_Namespace msg\<rparr>"
  let ?m6 = "?m4\<lparr>cm_PayloadType := cm_PayloadType msg, cm_PayloadUTF8 := cm_PayloadUTF8 msg\<rparr>"
  let ?D = "\<lambda>b. decode_fields ?body (length b)"
  have "?D ([] :: 8 word list) zero_message = ?D b1 (set_varint 1 (cm_ProtocolVersion msg) zero_message)"
    unfolding b1_def by (rule varint_step [OF b1 [unfolded b1_def]]) simp
  also have "\<dots> = ?D b2 ?m2"
    unfolding b2_def by (subst step [OF b2 [unfolded b2_def]]) (simp_all add: opt_sets zero_message_def set_varint_def)
  also have "\<dots> = ?D b3 (?m2\<lparr>cm_DestinationID := cm_DestinationID msg\<rparr>)"
    unfolding b3_def by (subst step [OF b3 [unfolded b3_def]]) (simp_all add: opt_sets zero_message_def set_varint_def)
  also have "\<dots> = ?D b4 ?m4"
    unfolding b4_def by (subst step [OF b4 [unfolded b4_def]]) (simp_all add: opt_sets zero_message_def set_varint_def)
  also have "\<dots> = ?D b5 (?m4\<lparr>cm_PayloadType := cm_PayloadType msg\<rparr>)"
    unfolding b5_def by (subst varint_step [OF b5 [unfolded b5_def]]) (simp_all add: set_varint_def)
  also have "\<dots> = ?D b6 ?m6"
    unfolding b6_def by (subst step [OF b6 [unfolded b6_def]]) (simp_all add: opt_sets zero_message_def set_varint_def)
  also have "\<dots> = ?D b7 (?m6\<lparr>cm_PayloadBinary := cm_PayloadBinary msg\<rparr>)"
    unfolding b7_def by (subst step [OF b7 [unfolded b7_def]]) (simp_all add: opt_sets zero_message_def set_varint_def)
  also have "\<dots> = ?D b7 msg" by (rule arg_cong [where f = "?D b7"]) (simp add: zero_message_def set_varint_def)
  also have "\<dots> = Inr msg" by (subst decode_fields.simps) (simp add: body)
  finally show ?thesis by simp
qed

section \<open>Frames\<close>

lemma Uint32_put: "Uint32 (PutUint32 n) = n"
proof (rule bit_eqI)
  fix k
  show "bit (Uint32 (PutUint32 n)) k = bit n k"
    by (cases "k < 8"; cases "k < 16"; cases "k < 24") (auto simp: Uint32_def PutUint32_def bit_simps dest: bit_imp_le_length)
qed

text \<open>
  C0: A message that can be written at all, because its frame is at most 64 KB, is read back unchanged, and the reader is left exactly
  behind its frame: whatever follows on the connection is the next message. This holds for every value of the integers, negative
  ones included, and for every combination of empty fields.
\<close>

theorem cast_roundtrip:
  assumes "EncodeCastMessage msg = Inr frame"
  shows "DecodeCastMessage (frame @ rest, e) = (Inr msg, (rest, e))"
proof -
  from assms have len: "length (encode_body msg) \<le> MaxPayloadSize"
    and frame: "frame = PutUint32 (of_nat (length (encode_body msg))) @ encode_body msg"
    by (auto simp: EncodeCastMessage_def Let_def split: if_splits)
  have "unat (of_nat (length (encode_body msg)) :: 32 word) = length (encode_body msg)"
    using len by (simp add: unat_of_nat MaxPayloadSize_def)
  moreover have "length (PutUint32 n) = 4" for n by (simp add: PutUint32_def)
  ultimately show ?thesis using len decode_encode_body [OF len]
    by (simp add: DecodeCastMessage_def ReadFull_def frame Uint32_put Let_def)
qed

definition ping :: CastMessage where
  "ping = \<lparr>cm_ProtocolVersion = - 1, cm_SourceID = ''a'', cm_DestinationID = [], cm_Namespace = ''hb'', cm_PayloadType = 0,
     cm_PayloadUTF8 = [], cm_PayloadBinary = [255]\<rparr>"

theorem cast_roundtrip_witness:
  "\<exists>frame. EncodeCastMessage ping = Inr frame \<and> DecodeCastMessage (frame @ [7, 7], None) = (Inr ping, ([7, 7], None))"
proof -
  have "length (encode_body ping) \<le> MaxPayloadSize"
    by (simp add: encode_body_def ping_def appendVarintField_def appendLengthDelimited_def to_bytes_def PayloadTypeString_def
        PutUvarint.simps MaxPayloadSize_def Let_def)
  then have "\<exists>frame. EncodeCastMessage ping = Inr frame" by (simp add: EncodeCastMessage_def Let_def)
  then show ?thesis using cast_roundtrip by blast
qed

end
