(* ===== verification/Photos.thy ===== *)
theory Photos
  imports Any_Value
begin

text \<open>
  \<^verbatim>\<open>internal/provider/photos.go\<close> and \<^verbatim>\<open>photos_cache.go\<close>: the photographs of shared albums and the deck from which windows of them are
  dealt. What a page of an album holds, the pages and locations that follow it and what the disk has cached are arguments, as is the
  pattern of photo addresses. A timestamp's day in the display's zone is the parameter \<open>day\<close>. Randomness is an argument of its own:
  how a list of days is shuffled, and which of a slot's photos is drawn. Logging is left out.
\<close>

definition PhotoSourceShareURL :: string where "PhotoSourceShareURL = ''share_url''"
definition PhotoSourceEmberBridge :: string where "PhotoSourceEmberBridge = ''ember_bridge''"
definition defaultPhotoPreloadCount :: nat where "defaultPhotoPreloadCount = 500"
definition fDcn4bBatchSize :: nat where "fDcn4bBatchSize = 300"

record PhotoItem =
  ph_ID :: string
  ph_URL :: string
  ph_Timestamp :: string
  ph_AspectRatio :: f64
  ph_AlbumName :: string
  ph_Location :: string
  ph_DominantColor :: string
  ph_LocationChecked :: bool

record AlbumSource =
  as_Name :: string
  as_Source :: string
  as_ResolvedURL :: string

record PhotoSnapshot =
  ps_AlbumName :: string
  ps_AlbumURL :: string
  ps_TotalPhotos :: nat
  ps_Photos :: "PhotoItem list"

text \<open>The zero time is None.\<close>

record albumState =
  al_cfg :: AlbumSource
  al_scrapedTitle :: string
  al_photos :: "PhotoItem list"
  al_lastPage1Sync :: "gotime option"
  al_lastFullSync :: "gotime option"
  al_paginated :: bool
  al_hydrated :: bool

record PhotosProvider =
  pp_albums :: "albumState list"
  pp_wasWarmBoot :: bool
  pp_cachedSnapshot :: "PhotoSnapshot option"
  pp_deck :: "PhotoItem list"
  pp_deckCursor :: int
  pp_page1Interval :: duration
  pp_fullSyncInterval :: duration

section \<open>Albums\<close>

definition sourceLocked :: "PhotosProvider \<Rightarrow> string" where
  "sourceLocked p =
     (if pp_albums p = [] then []
      else if list_ex (\<lambda>a. as_Source (al_cfg a) = PhotoSourceShareURL) (pp_albums p) then PhotoSourceShareURL
      else if list_all (\<lambda>a. as_Source (al_cfg a) = PhotoSourceEmberBridge) (pp_albums p) then PhotoSourceEmberBridge
      else [])"

definition isAllEmberBridgeLocked :: "PhotosProvider \<Rightarrow> bool" where
  "isAllEmberBridgeLocked p \<longleftrightarrow> pp_albums p \<noteq> [] \<and> list_all (\<lambda>a. as_Source (al_cfg a) = PhotoSourceEmberBridge) (pp_albums p)"

definition resolveAlbumDisplayName :: "albumState \<Rightarrow> string" where
  "resolveAlbumDisplayName a =
     (if as_Name (al_cfg a) \<noteq> ''Shared Album'' \<and> as_Name (al_cfg a) \<noteq> [] then as_Name (al_cfg a)
      else if al_scrapedTitle a \<noteq> [] then al_scrapedTitle a
      else ''Shared Album'')"

fun Join :: "string list \<Rightarrow> string \<Rightarrow> string" where
  "Join [] sep = []"
| "Join [x] sep = x"
| "Join (x # y # xs) sep = x @ sep @ Join (y # xs) sep"

definition add_name :: "string list \<Rightarrow> albumState \<Rightarrow> string list" where
  "add_name names a = (let name = TrimSpace (as_Name (al_cfg a)) in if name \<noteq> [] \<and> name \<notin> set names then names @ [name] else names)"

definition resolveSnapshotAlbumName :: "albumState list \<Rightarrow> string" where
  "resolveSnapshotAlbumName albums =
     (if albums = [] then ''Shared Album''
      else if length albums = 1 \<and> as_Name (al_cfg (hd albums)) = ''Shared Album'' then
        (let title = TrimSpace (al_scrapedTitle (hd albums)) in if title \<noteq> [] then title else ''Shared Album'')
      else let names = foldl add_name [] albums in if names = [] then ''Shared Album'' else Join names '', '')"

definition resolveSnapshotAlbumURL :: "albumState list \<Rightarrow> string" where
  "resolveSnapshotAlbumURL albums =
     (case find (\<lambda>a. as_Source (al_cfg a) = PhotoSourceEmberBridge \<and> as_ResolvedURL (al_cfg a) \<noteq> []) albums of
        Some a \<Rightarrow> as_ResolvedURL (al_cfg a)
      | None \<Rightarrow> (case albums of a # _ \<Rightarrow> as_ResolvedURL (al_cfg a) | [] \<Rightarrow> []))"

section \<open>One photo per key\<close>

definition cleanGooglePhotoURL :: "string \<Rightarrow> string" where
  "cleanGooglePhotoURL raw = takeWhile (\<lambda>c. c \<noteq> CHR ''='') (TrimSpace raw)"

definition photoDedupeKey :: "PhotoItem \<Rightarrow> string" where
  "photoDedupeKey item = (let clean = cleanGooglePhotoURL (ph_URL item) in if clean \<noteq> [] then clean else ph_ID item)"

text \<open>The loop that three functions share: a photo is kept unless one with its key was kept before.\<close>

fun keep_first :: "string set \<Rightarrow> PhotoItem list \<Rightarrow> PhotoItem list" where
  "keep_first seen [] = []"
| "keep_first seen (it # items) =
     (let key = photoDedupeKey it in
      if key \<noteq> [] then (if key \<in> seen then keep_first seen items else it # keep_first (insert key seen) items)
      else it # keep_first seen items)"

definition deduplicatePhotoSlice :: "PhotoItem list \<Rightarrow> PhotoItem list" where
  "deduplicatePhotoSlice photos = keep_first {} photos"

definition syncAlbumDelta :: "PhotoItem list \<Rightarrow> PhotoItem list \<Rightarrow> string \<Rightarrow> PhotoItem list" where
  "syncAlbumDelta existing page1Photos displayName =
     keep_first {} (map (\<lambda>it. it\<lparr>ph_AlbumName := displayName\<rparr>) page1Photos @ existing)"

definition collectAllUniquePhotosLocked :: "PhotosProvider \<Rightarrow> PhotoItem list" where
  "collectAllUniquePhotosLocked p =
     keep_first {} (concat (map (\<lambda>a. map (\<lambda>it. if ph_AlbumName it = [] then it\<lparr>ph_AlbumName := resolveAlbumDisplayName a\<rparr> else it) (al_photos a))
       (pp_albums p)))"

definition buildSnapshotLocked :: "PhotosProvider \<Rightarrow> PhotoItem list \<Rightarrow> PhotoSnapshot" where
  "buildSnapshotLocked p window0 =
     (let allUnique = collectAllUniquePhotosLocked p;
          total = length allUnique;
          window = (if window0 = [] \<and> total > 0 then allUnique else window0)
      in \<lparr>ps_AlbumName = resolveSnapshotAlbumName (pp_albums p), ps_AlbumURL = resolveSnapshotAlbumURL (pp_albums p),
          ps_TotalPhotos = total, ps_Photos = window\<rparr>)"

section \<open>The deck\<close>

definition photoItemKey :: "PhotoItem \<Rightarrow> string" where
  "photoItemKey item = (if ph_URL item \<noteq> [] then ph_URL item else ph_ID item)"

definition photoDayKey :: "(string \<Rightarrow> string option) \<Rightarrow> PhotoItem \<Rightarrow> string" where
  "photoDayKey day item =
     (let ts = TrimSpace (ph_Timestamp item) in
      case (if ts \<noteq> [] then day ts else None) of
        Some d \<Rightarrow> d
      | None \<Rightarrow> ''undated:'' @ photoItemKey item)"

definition album_key :: "PhotoItem \<Rightarrow> string" where
  "album_key item = TrimSpace (ph_AlbumName item)"

definition slot_key :: "string \<Rightarrow> string \<Rightarrow> string" where
  "slot_key dKey aKey = dKey @ [CHR 0x00] @ aKey"

definition photoSlotKey :: "(string \<Rightarrow> string option) \<Rightarrow> PhotoItem \<Rightarrow> string" where
  "photoSlotKey day item = slot_key (photoDayKey day item) (album_key item)"

record dayAlbumBuckets =
  bk_dayOrder :: "string list"
  bk_albumOrder :: "string list"
  bk_byDayAlbum :: "string \<Rightarrow> string \<Rightarrow> PhotoItem list"
  bk_scrapedByKey :: "string \<Rightarrow> PhotoItem option"

definition bucket_photo :: "(string \<Rightarrow> string option) \<Rightarrow> dayAlbumBuckets \<Rightarrow> PhotoItem \<Rightarrow> dayAlbumBuckets" where
  "bucket_photo day res item =
     (let dKey = photoDayKey day item; aKey = album_key item in
      \<lparr>bk_dayOrder = (if dKey \<in> set (bk_dayOrder res) then bk_dayOrder res else bk_dayOrder res @ [dKey]),
       bk_albumOrder = (if aKey \<in> set (bk_albumOrder res) then bk_albumOrder res else bk_albumOrder res @ [aKey]),
       bk_byDayAlbum = (bk_byDayAlbum res)(dKey := (bk_byDayAlbum res dKey)(aKey := bk_byDayAlbum res dKey aKey @ [item])),
       bk_scrapedByKey = (bk_scrapedByKey res)(photoItemKey item \<mapsto> item)\<rparr>)"

definition groupPhotosByDayAndAlbum :: "(string \<Rightarrow> string option) \<Rightarrow> PhotoItem list \<Rightarrow> dayAlbumBuckets" where
  "groupPhotosByDayAndAlbum day scraped =
     foldl (bucket_photo day) \<lparr>bk_dayOrder = [], bk_albumOrder = [], bk_byDayAlbum = (\<lambda>_ _. []), bk_scrapedByKey = Map.empty\<rparr> scraped"

definition existing_photo :: "(string \<Rightarrow> string option) \<Rightarrow> dayAlbumBuckets \<Rightarrow> string list \<times> (string \<Rightarrow> PhotoItem option) \<Rightarrow> PhotoItem
    \<Rightarrow> string list \<times> (string \<Rightarrow> PhotoItem option)" where
  "existing_photo day buckets st item =
     (case bk_scrapedByKey buckets (photoItemKey item) of
        None \<Rightarrow> st
      | Some updated \<Rightarrow>
          let (days, chosen) = st; dKey = photoDayKey day updated; slot = slot_key dKey (album_key updated)
          in (if dKey \<in> set days then days else days @ [dKey],
              if chosen slot = None then chosen(slot \<mapsto> updated) else chosen))"

definition extractExistingDeckState ::
    "(string \<Rightarrow> string option) \<Rightarrow> dayAlbumBuckets \<Rightarrow> PhotoItem list \<Rightarrow> string list \<times> (string \<Rightarrow> PhotoItem option)" where
  "extractExistingDeckState day buckets deck = foldl (existing_photo day buckets) ([], Map.empty) deck"

record draws =
  dr_Shuffle :: "string list \<Rightarrow> string list"
  dr_Intn :: "string \<Rightarrow> nat \<Rightarrow> nat"

definition choose_photo :: "draws \<Rightarrow> dayAlbumBuckets \<Rightarrow> (string \<Rightarrow> PhotoItem option) \<Rightarrow> string \<Rightarrow> string \<Rightarrow> PhotoItem list" where
  "choose_photo r buckets chosenBySlot dKey aKey =
     (let candidates = bk_byDayAlbum buckets dKey aKey; slot = slot_key dKey aKey in
      if candidates = [] then []
      else case chosenBySlot slot of
        Some chosen \<Rightarrow> [chosen]
      | None \<Rightarrow> [candidates ! dr_Intn r slot (length candidates)])"

definition reconcilePhotoDeck :: "(string \<Rightarrow> string option) \<Rightarrow> draws \<Rightarrow> PhotoItem list \<Rightarrow> PhotosProvider \<Rightarrow> PhotosProvider" where
  "reconcilePhotoDeck day r scraped p =
     (let buckets = groupPhotosByDayAndAlbum day scraped;
          (existingDays, chosenBySlot) = extractExistingDeckState day buckets (pp_deck p);
          newDays0 = filter (\<lambda>d. d \<notin> set existingDays) (bk_dayOrder buckets);
          newDays = (if length newDays0 > 1 then dr_Shuffle r newDays0 else newDays0);
          newDeck = concat (map (\<lambda>d. concat (map (choose_photo r buckets chosenBySlot d) (bk_albumOrder buckets))) (existingDays @ newDays));
          newDeckKeys = photoItemKey ` set newDeck;
          gone = length (filter (\<lambda>it. photoItemKey it \<notin> newDeckKeys) (take (nat (min (pp_deckCursor p) (int (length (pp_deck p))))) (pp_deck p)));
          newCursor = pp_deckCursor p - int gone
      in p\<lparr>pp_deckCursor := max 0 (min newCursor (int (length newDeck))), pp_deck := newDeck\<rparr>)"

definition swap_ends :: "PhotoItem list \<Rightarrow> PhotoItem list" where
  "swap_ends xs = xs[0 := xs ! (length xs - 1), length xs - 1 := xs ! 0]"

text \<open>The two draws are those of the two times the deck may be built.\<close>

definition selectAlbumWindowLocked :: "(string \<Rightarrow> string option) \<Rightarrow> draws \<Rightarrow> draws \<Rightarrow> PhotoItem list \<Rightarrow> PhotosProvider
    \<Rightarrow> PhotoItem list \<times> PhotosProvider" where
  "selectAlbumWindowLocked day r1 r2 scraped p0 =
     (if length scraped \<le> 1 then (scraped, p0\<lparr>pp_deck := [], pp_deckCursor := 0\<rparr>)
      else
        let p1 = reconcilePhotoDeck day r1 scraped p0;
            p2 = (if pp_deckCursor p1 < 0 \<or> pp_deckCursor p1 \<ge> int (length (pp_deck p1)) then p1\<lparr>pp_deckCursor := 0\<rparr> else p1);
            deck = pp_deck p2; cursor = nat (pp_deckCursor p2);
            limit = min (length deck) defaultPhotoPreloadCount
        in if limit \<ge> length deck then (deck, p2\<lparr>pp_deckCursor := 0\<rparr>)
           else if cursor + limit < length deck
           then (take limit (drop cursor deck), p2\<lparr>pp_deckCursor := int (cursor + limit)\<rparr>)
           else
             let tail = drop cursor deck;
                 p3 = reconcilePhotoDeck day r2 scraped (p2\<lparr>pp_deck := []\<rparr>)
             in if cursor + limit = length deck
                then (tail,
                  p3\<lparr>pp_deck := (if length (pp_deck p3) > 1 \<and> photoItemKey (hd (pp_deck p3)) = photoItemKey (last tail)
                                   then swap_ends (pp_deck p3) else pp_deck p3),
                     pp_deckCursor := 0\<rparr>)
                else
                  let tailSlots = photoSlotKey day ` set tail;
                      prefix = filter (\<lambda>it. photoSlotKey day it \<notin> tailSlots) (pp_deck p3);
                      deck' = tail @ prefix
                  in (take limit deck', p3\<lparr>pp_deck := deck', pp_deckCursor := int limit\<rparr>))"

definition dealWindowLocked :: "(string \<Rightarrow> string option) \<Rightarrow> draws \<Rightarrow> draws \<Rightarrow> PhotosProvider \<Rightarrow> PhotoItem list \<times> PhotosProvider" where
  "dealWindowLocked day r1 r2 p = selectAlbumWindowLocked day r1 r2 (collectAllUniquePhotosLocked p) p"

definition peekWindowLocked :: "PhotosProvider \<Rightarrow> PhotoItem list" where
  "peekWindowLocked p =
     (if pp_deck p = [] then take defaultPhotoPreloadCount (collectAllUniquePhotosLocked p)
      else let deck = pp_deck p;
               limit = min (length deck) defaultPhotoPreloadCount;
               start = (if pp_deckCursor p \<ge> int (length deck) then 0 else nat (pp_deckCursor p))
           in if start + limit \<le> length deck then take limit (drop start deck)
              else let tail = drop start deck in tail @ take (limit - length tail) deck)"

section \<open>Synchronizing albums\<close>

text \<open>\<^verbatim>\<open>paginateSnAcKc\<close>: at most fifty pages behind a token. \<open>cancelled\<close> tells when the context is done, \<open>fetch\<close> what a page gives.\<close>

fun paginate_loop :: "nat \<Rightarrow> nat \<Rightarrow> (nat \<Rightarrow> bool) \<Rightarrow> (nat \<Rightarrow> string \<Rightarrow> string + PhotoItem list \<times> string) \<Rightarrow> string \<Rightarrow> string set \<Rightarrow> PhotoItem list
    \<Rightarrow> PhotoItem list \<times> bool" where
  "paginate_loop 0 page cancelled fetch token seenTokens allPaged = (allPaged, True)"
| "paginate_loop (Suc left) page cancelled fetch token seenTokens allPaged =
     (if cancelled page then (allPaged, False)
      else case fetch page token of
        Inl _ \<Rightarrow> (allPaged, False)
      | Inr (photos, next0) \<Rightarrow>
          let allPaged' = allPaged @ photos; nextToken = TrimSpace next0 in
          if nextToken = [] \<or> nextToken = token \<or> nextToken \<in> seenTokens then (allPaged', True)
          else paginate_loop left (Suc page) cancelled fetch nextToken (insert nextToken seenTokens) allPaged')"

definition paginateSnAcKc :: "(nat \<Rightarrow> bool) \<Rightarrow> (nat \<Rightarrow> string \<Rightarrow> string + PhotoItem list \<times> string) \<Rightarrow> string \<Rightarrow> PhotoItem list \<times> bool" where
  "paginateSnAcKc cancelled fetch initialToken =
     (if initialToken = [] then ([], True) else paginate_loop 50 0 cancelled fetch initialToken {initialToken} [])"

definition syncAlbumFull :: "PhotoItem list \<times> bool \<Rightarrow> string \<Rightarrow> PhotoItem list \<Rightarrow> PhotoItem list \<times> bool" where
  "syncAlbumFull pages displayName page1Photos =
     (deduplicatePhotoSlice (map (\<lambda>it. it\<lparr>ph_AlbumName := displayName\<rparr>) (page1Photos @ fst pages)), snd pages)"

definition carry_photo :: "(string \<Rightarrow> PhotoItem option) \<Rightarrow> PhotoItem \<Rightarrow> PhotoItem" where
  "carry_photo byKey it =
     (case byKey (photoDedupeKey it) of
        None \<Rightarrow> it
      | Some prev \<Rightarrow> it\<lparr>ph_Location := (if ph_Location it = [] then ph_Location prev else ph_Location it),
          ph_LocationChecked := ph_LocationChecked it \<or> ph_LocationChecked prev,
          ph_DominantColor := (if ph_DominantColor it = [] then ph_DominantColor prev else ph_DominantColor it)\<rparr>)"

definition carryCachedPhotoMetadata :: "PhotoItem list \<Rightarrow> PhotoItem list \<Rightarrow> PhotoItem list" where
  "carryCachedPhotoMetadata photos existing =
     (let byKey = foldl (\<lambda>m ex. m(photoDedupeKey ex \<mapsto> ex)) Map.empty existing in map (carry_photo byKey) photos)"

definition hasUncheckedPhotoLocations :: "PhotoItem list \<Rightarrow> bool" where
  "hasUncheckedPhotoLocations photos \<longleftrightarrow> list_ex (\<lambda>it. \<not> ph_LocationChecked it \<and> ph_ID it \<noteq> [] \<and> \<not> HasPrefix (ph_ID it) ''photo_'') photos"

text \<open>A batch's answer: the locations found and the photos looked at.\<close>

definition locate_photo :: "(string \<Rightarrow> string option) \<Rightarrow> string list \<Rightarrow> PhotoItem \<Rightarrow> PhotoItem" where
  "locate_photo locs checked it =
     (if ph_ID it \<in> set checked \<or> checked \<noteq> []
      then it\<lparr>ph_LocationChecked := True, ph_Location := (case locs (ph_ID it) of Some l \<Rightarrow> l | None \<Rightarrow> [])\<rparr>
      else it)"

function enrich_batches :: "(string list \<Rightarrow> string + (string \<Rightarrow> string option) \<times> string list) \<Rightarrow> nat list \<Rightarrow> PhotoItem list \<Rightarrow> PhotoItem list" where
  "enrich_batches locate pendingIdx photos =
     (if pendingIdx = [] then photos
      else let batchIdx = take fDcn4bBatchSize pendingIdx in
        case locate (map (\<lambda>i. ph_ID (photos ! i)) batchIdx) of
          Inl _ \<Rightarrow> photos
        | Inr (locs, checked) \<Rightarrow>
            enrich_batches locate (drop fDcn4bBatchSize pendingIdx)
              (foldl (\<lambda>ps i. ps[i := locate_photo locs checked (ps ! i)]) photos batchIdx))"
  by pat_completeness auto

termination enrich_batches
  by (relation "measure (\<lambda>(_, pending, _). length pending)") (auto simp: fDcn4bBatchSize_def)

declare enrich_batches.simps [simp del]

definition enrichPhotoLocations ::
    "(string list \<Rightarrow> string + (string \<Rightarrow> string option) \<times> string list) \<Rightarrow> string \<Rightarrow> PhotoItem list \<Rightarrow> PhotoItem list" where
  "enrichPhotoLocations locate authKey photos =
     (if authKey = [] then photos
      else enrich_batches locate
        (filter (\<lambda>i. let it = photos ! i in \<not> ph_LocationChecked it \<and> ph_Location it = [] \<and> ph_ID it \<noteq> [] \<and> \<not> HasPrefix (ph_ID it) ''photo_'')
          [0..<length photos]) photos)"

text \<open>What the first page of an album gives, and what can be asked after it.\<close>

record page1 =
  p1_photos :: "PhotoItem list"
  p1_title :: string
  p1_token :: string
  p1_authKey :: string
  p1_cancelled :: "nat \<Rightarrow> bool"
  p1_fetch :: "nat \<Rightarrow> string \<Rightarrow> string + PhotoItem list \<times> string"
  p1_locate :: "string list \<Rightarrow> string + (string \<Rightarrow> string option) \<times> string list"

definition syncAlbum :: "string + page1 \<Rightarrow> gotime \<Rightarrow> bool \<Rightarrow> albumState \<Rightarrow> string option \<times> albumState" where
  "syncAlbum scrape now full a =
     (case scrape of
        Inl err \<Rightarrow> (if al_hydrated a then None else Some (''photo-carousel scrape failed: '' @ err), a)
      | Inr pg \<Rightarrow>
          let finalTitle = (if p1_title pg \<noteq> [] then p1_title pg else al_scrapedTitle a);
              name = as_Name (al_cfg a);
              displayName = (if name = [] \<or> name = ''Shared Album'' then (if finalTitle \<noteq> [] then finalTitle else ''Shared Album'') else name);
              isFullSync = (full \<or> \<not> al_hydrated a \<or> al_lastFullSync a = None);
              (new0, paginatedOK) = (if isFullSync
                then syncAlbumFull (paginateSnAcKc (p1_cancelled pg) (p1_fetch pg) (p1_token pg)) displayName (p1_photos pg)
                else (syncAlbumDelta (al_photos a) (p1_photos pg) displayName, False));
              newPhotos = enrichPhotoLocations (p1_locate pg) (p1_authKey pg) (carryCachedPhotoMetadata new0 (al_photos a))
          in (None, a\<lparr>al_scrapedTitle := finalTitle, al_photos := newPhotos, al_lastPage1Sync := Some now,
                al_lastFullSync := (if isFullSync \<and> paginatedOK then Some now else al_lastFullSync a),
                al_paginated := (if isFullSync then paginatedOK else al_paginated a), al_hydrated := True\<rparr>))"

text \<open>The albums in turn, the \<open>k\<close>-th with its page and its reading of the clock; the first error ends the synchronization.\<close>

fun sync_albums :: "bool \<Rightarrow> (nat \<Rightarrow> (string + page1) \<times> gotime) \<Rightarrow> nat \<Rightarrow> albumState list \<Rightarrow> string option \<times> albumState list" where
  "sync_albums full scrapes k [] = (None, [])"
| "sync_albums full scrapes k (a # as) =
     (if as_Source (al_cfg a) \<noteq> PhotoSourceShareURL
      then (case sync_albums full scrapes (Suc k) as of (err, as') \<Rightarrow> (err, a # as'))
      else case syncAlbum (fst (scrapes k)) (snd (scrapes k)) full a of
        (Some err, a') \<Rightarrow> (Some err, a' # as)
      | (None, a') \<Rightarrow> (case sync_albums full scrapes (Suc k) as of (err, as') \<Rightarrow> (err, a' # as')))"

definition photos_Sync :: "(string \<Rightarrow> string option) \<Rightarrow> draws \<Rightarrow> bool \<Rightarrow> (nat \<Rightarrow> (string + page1) \<times> gotime) \<Rightarrow> PhotosProvider
    \<Rightarrow> string option \<times> PhotosProvider" where
  "photos_Sync day r full scrapes p =
     (if pp_albums p = [] then (Some ''photo-carousel: provider not initialized'', p)
      else case sync_albums full scrapes 0 (pp_albums p) of (err, albums) \<Rightarrow>
        let p1 = p\<lparr>pp_albums := albums\<rparr> in
        case err of
          Some e \<Rightarrow> (Some e, p1)
        | None \<Rightarrow> (None, reconcilePhotoDeck day r (collectAllUniquePhotosLocked p1) p1))"

definition photos_Fetch :: "(string \<Rightarrow> string option) \<Rightarrow> draws \<Rightarrow> draws \<Rightarrow> draws \<Rightarrow> (nat \<Rightarrow> (string + page1) \<times> gotime) \<Rightarrow> PhotosProvider
    \<Rightarrow> (string + PhotoSnapshot) \<times> PhotosProvider" where
  "photos_Fetch day r0 r1 r2 scrapes p =
     (if pp_albums p = [] then (Inl ''photo-carousel: provider not initialized'', p)
      else if isAllEmberBridgeLocked p then
        (case pp_cachedSnapshot p of None \<Rightarrow> (Inl ''photo-carousel: provider not initialized'', p) | Some snap \<Rightarrow> (Inr snap, p))
      else
        let needsHydrate = list_ex (\<lambda>a. as_Source (al_cfg a) = PhotoSourceShareURL \<and> \<not> al_hydrated a) (pp_albums p);
            (err, p1) = (if needsHydrate then photos_Sync day r0 True scrapes p else (None, p))
        in case err of
             Some e \<Rightarrow> (Inl e, p1)
           | None \<Rightarrow>
               let (window, p2) = dealWindowLocked day r1 r2 p1;
                   snap = buildSnapshotLocked p2 window
               in (Inr snap, p2\<lparr>pp_cachedSnapshot := Some snap\<rparr>))"

definition hasShareURLAlbumsLocked :: "PhotosProvider \<Rightarrow> bool" where
  "hasShareURLAlbumsLocked p \<longleftrightarrow> list_ex (\<lambda>a. as_Source (al_cfg a) = PhotoSourceShareURL) (pp_albums p)"

definition overdue :: "gotime \<Rightarrow> duration \<Rightarrow> gotime option \<Rightarrow> bool" where
  "overdue now interval t = (case t of None \<Rightarrow> True | Some u \<Rightarrow> time_sub now u \<ge> interval)"

definition checkWarmBootStaleLocked :: "gotime \<Rightarrow> PhotosProvider \<Rightarrow> bool \<times> bool" where
  "checkWarmBootStaleLocked now p =
     (let shared = filter (\<lambda>a. as_Source (al_cfg a) = PhotoSourceShareURL) (pp_albums p);
          needsFull = list_ex (\<lambda>a. overdue now (pp_fullSyncInterval p) (al_lastFullSync a) \<or> \<not> al_paginated a \<or> hasUncheckedPhotoLocations (al_photos a)) shared
      in (needsFull \<or> list_ex (\<lambda>a. overdue now (pp_page1Interval p) (al_lastPage1Sync a)) shared, needsFull))"

definition checkPeriodicFullLocked :: "gotime \<Rightarrow> PhotosProvider \<Rightarrow> bool" where
  "checkPeriodicFullLocked now p \<longleftrightarrow>
     list_ex (\<lambda>a. as_Source (al_cfg a) = PhotoSourceShareURL \<and> (overdue now (pp_fullSyncInterval p) (al_lastFullSync a) \<or> \<not> al_paginated a)) (pp_albums p)"

definition emitCurrentSnapshot :: "PhotosProvider \<Rightarrow> PhotoSnapshot" where
  "emitCurrentSnapshot p = buildSnapshotLocked p (peekWindowLocked p)"

section \<open>Pushed photos\<close>

datatype ingest_error = IngestNotSupported | IngestInvalidPayload | IngestBadURL string

definition f64_133 :: f64 where "f64_133 = 0x3FF547AE147AE148"

text \<open>The accepted photos; \<open>matches\<close> is the pattern of addresses.\<close>

fun ingest_urls :: "(string \<Rightarrow> bool) \<Rightarrow> nat \<Rightarrow> string set \<Rightarrow> string list \<Rightarrow> ingest_error + PhotoItem list" where
  "ingest_urls matches idx seen [] = Inr []"
| "ingest_urls matches idx seen (raw # raws) =
     (let cleanURL = cleanGooglePhotoURL raw in
      if \<not> matches cleanURL then Inl (IngestBadURL cleanURL)
      else if cleanURL \<in> seen then ingest_urls matches (Suc idx) seen raws
      else map_sum id ((#) \<lparr>ph_ID = ''photo_'' @ show_int (int idx + 1), ph_URL = cleanURL, ph_Timestamp = [], ph_AspectRatio = f64_133,
             ph_AlbumName = [], ph_Location = [], ph_DominantColor = [], ph_LocationChecked = False\<rparr>)
           (ingest_urls matches (Suc idx) (insert cleanURL seen) raws))"

fun update_first :: "('a \<Rightarrow> bool) \<Rightarrow> ('a \<Rightarrow> 'a) \<Rightarrow> 'a list \<Rightarrow> 'a list" where
  "update_first P f [] = []"
| "update_first P f (x # xs) = (if P x then f x # xs else x # update_first P f xs)"

definition IngestPushedPhotos :: "(string \<Rightarrow> bool) \<Rightarrow> (string \<Rightarrow> string option) \<Rightarrow> draws \<Rightarrow> draws \<Rightarrow> string list \<Rightarrow> string \<Rightarrow> PhotosProvider
    \<Rightarrow> (ingest_error + PhotoSnapshot) \<times> PhotosProvider" where
  "IngestPushedPhotos matches day r1 r2 rawURLs albumName p =
     (let ember = (\<lambda>a. as_Source (al_cfg a) = PhotoSourceEmberBridge) in
      if \<not> list_ex ember (pp_albums p) then (Inl IngestNotSupported, p)
      else if rawURLs = [] then (Inl IngestInvalidPayload, p)
      else case ingest_urls matches 0 {} rawURLs of
        Inl err \<Rightarrow> (Inl err, p)
      | Inr items \<Rightarrow>
          let trimmedAlbum = TrimSpace albumName;
              p1 = p\<lparr>pp_albums := update_first ember (\<lambda>a. a\<lparr>al_photos := items,
                al_scrapedTitle := (if trimmedAlbum \<noteq> [] then trimmedAlbum else al_scrapedTitle a), al_hydrated := True\<rparr>) (pp_albums p)\<rparr>;
              (window, p2) = dealWindowLocked day r1 r2 p1;
              snap0 = buildSnapshotLocked p2 window;
              snap = (if length (pp_albums p2) = 1 then
                  (if trimmedAlbum \<noteq> [] then snap0\<lparr>ps_AlbumName := trimmedAlbum\<rparr>
                   else case pp_cachedSnapshot p2 of
                     Some c \<Rightarrow> if ps_AlbumName c \<noteq> [] then snap0\<lparr>ps_AlbumName := ps_AlbumName c\<rparr> else snap0
                   | None \<Rightarrow> snap0)
                else snap0)
          in (Inr snap, p2\<lparr>pp_cachedSnapshot := Some snap\<rparr>))"

section \<open>Start and end\<close>

text \<open>The album states \<^verbatim>\<open>Init\<close> makes of the resolved sources; \<open>disk\<close> is the cache file of an album, if one can be read.\<close>

record albumDiskCache =
  dc_ScrapedTitle :: string
  dc_LastPage1Sync :: "gotime option"
  dc_LastFullSync :: "gotime option"
  dc_Paginated :: bool
  dc_CachedPhotos :: "PhotoItem list"

definition init_album :: "(AlbumSource \<Rightarrow> albumDiskCache option) \<Rightarrow> AlbumSource \<Rightarrow> albumState" where
  "init_album disk src =
     (let cold = \<lparr>al_cfg = src, al_scrapedTitle = [], al_photos = [], al_lastPage1Sync = None, al_lastFullSync = None, al_paginated = False,
            al_hydrated = False\<rparr> in
      if as_Source src = PhotoSourceShareURL then
        (case disk src of
           Some c \<Rightarrow> if dc_CachedPhotos c \<noteq> [] then cold\<lparr>al_scrapedTitle := dc_ScrapedTitle c, al_photos := dc_CachedPhotos c,
               al_lastPage1Sync := dc_LastPage1Sync c, al_lastFullSync := dc_LastFullSync c, al_paginated := dc_Paginated c, al_hydrated := True\<rparr>
             else cold
         | None \<Rightarrow> cold)
      else if as_Source src = PhotoSourceEmberBridge then cold\<lparr>al_hydrated := True\<rparr>
      else cold)"

text \<open>\<open>sources\<close> is what the configuration resolves to, or the error it has.\<close>

definition photos_Init :: "(string \<Rightarrow> string option) \<Rightarrow> draws \<Rightarrow> (AlbumSource \<Rightarrow> albumDiskCache option) \<Rightarrow> string + AlbumSource list \<Rightarrow> PhotosProvider
    \<Rightarrow> string option \<times> PhotosProvider" where
  "photos_Init day r disk sources p0 =
     (let p = p0\<lparr>pp_cachedSnapshot := None, pp_deck := [], pp_deckCursor := 0, pp_albums := [], pp_wasWarmBoot := False\<rparr> in
      case sources of
        Inl err \<Rightarrow> (Some err, p)
      | Inr resolved \<Rightarrow>
          let albums = map (init_album disk) resolved;
              shared = filter (\<lambda>a. as_Source (al_cfg a) = PhotoSourceShareURL) albums;
              p1 = p\<lparr>pp_albums := albums, pp_wasWarmBoot := (shared \<noteq> [] \<and> list_all al_hydrated shared)\<rparr>;
              combined = collectAllUniquePhotosLocked p1;
              p2 = (if combined \<noteq> [] then reconcilePhotoDeck day r combined p1 else p1)
          in (None, if isAllEmberBridgeLocked p2
               then p2\<lparr>pp_cachedSnapshot := Some \<lparr>ps_AlbumName = resolveSnapshotAlbumName albums,
                 ps_AlbumURL = (case resolved of a # _ \<Rightarrow> as_ResolvedURL a | [] \<Rightarrow> []), ps_TotalPhotos = 0, ps_Photos = []\<rparr>\<rparr>
               else p2))"

definition photos_Shutdown :: "PhotosProvider \<Rightarrow> PhotosProvider" where
  "photos_Shutdown p = p\<lparr>pp_cachedSnapshot := None, pp_deck := [], pp_deckCursor := 0, pp_albums := [], pp_wasWarmBoot := False\<rparr>"

end
