(* ===== verification/Photos_Props.thy ===== *)
theory Photos_Props
  imports Photos "HOL-Library.Multiset"
begin

text \<open>Every window shows photos of different days or albums, and the deck holds one photo of each.\<close>

section \<open>Slots\<close>

definition slot :: "(string \<Rightarrow> string option) \<Rightarrow> PhotoItem \<Rightarrow> string \<times> string" where
  "slot day it = (photoDayKey day it, album_key it)"

definition one_per_slot :: "(string \<Rightarrow> string option) \<Rightarrow> PhotoItem list \<Rightarrow> PhotoItem list \<Rightarrow> bool" where
  "one_per_slot day scraped deck \<longleftrightarrow> set deck \<subseteq> set scraped \<and> distinct (map (slot day) deck) \<and> slot day ` set deck = slot day ` set scraped"

definition good_draws :: "draws \<Rightarrow> bool" where
  "good_draws r \<longleftrightarrow> (\<forall>xs. mset (dr_Shuffle r xs) = mset xs) \<and> (\<forall>s n. 0 < n \<longrightarrow> dr_Intn r s n < n)"

text \<open>The names of days have no zero byte, which separates the parts of a slot's key.\<close>

definition plain_days :: "(string \<Rightarrow> string option) \<Rightarrow> PhotoItem list \<Rightarrow> bool" where
  "plain_days day scraped \<longleftrightarrow> (\<forall>it \<in> set scraped. CHR 0x00 \<notin> set (photoDayKey day it))"

lemma slot_key_day: "CHR 0x00 \<notin> set d \<Longrightarrow> takeWhile (\<lambda>c. c \<noteq> CHR 0x00) (slot_key d a) = d"
  by (auto simp: slot_key_def intro: takeWhile_append2 [THEN trans])

lemma slot_key_inj:
  assumes "CHR 0x00 \<notin> set d" "CHR 0x00 \<notin> set d'" "slot_key d a = slot_key d' a'"
  shows "d = d' \<and> a = a'"
proof -
  have "d = d'" using slot_key_day [OF assms(1), of a] slot_key_day [OF assms(2), of a'] assms(3) by metis
  then show ?thesis using assms(3) by (simp add: slot_key_def)
qed

section \<open>Buckets\<close>

definition buckets_of :: "(string \<Rightarrow> string option) \<Rightarrow> PhotoItem list \<Rightarrow> dayAlbumBuckets \<Rightarrow> bool" where
  "buckets_of day xs b \<longleftrightarrow> distinct (bk_dayOrder b) \<and> set (bk_dayOrder b) = photoDayKey day ` set xs
     \<and> distinct (bk_albumOrder b) \<and> set (bk_albumOrder b) = album_key ` set xs
     \<and> (\<forall>d a. bk_byDayAlbum b d a = filter (\<lambda>it. slot day it = (d, a)) xs)
     \<and> (\<forall>k it. bk_scrapedByKey b k = Some it \<longrightarrow> it \<in> set xs)"

lemma group_buckets: "buckets_of day scraped (groupPhotosByDayAndAlbum day scraped)"
proof (induction scraped rule: rev_induct)
  case Nil
  then show ?case by (simp add: buckets_of_def groupPhotosByDayAndAlbum_def)
next
  case (snoc it xs)
  then show ?case
    by (auto simp: buckets_of_def groupPhotosByDayAndAlbum_def bucket_photo_def Let_def slot_def split: if_splits)
qed

definition existing_of :: "(string \<Rightarrow> string option) \<Rightarrow> PhotoItem list \<Rightarrow> string list \<times> (string \<Rightarrow> PhotoItem option) \<Rightarrow> bool" where
  "existing_of day xs st \<longleftrightarrow> distinct (fst st) \<and> set (fst st) \<subseteq> photoDayKey day ` set xs
     \<and> (\<forall>s it. snd st s = Some it \<longrightarrow> it \<in> set xs \<and> photoSlotKey day it = s)"

lemma existing_step:
  assumes "existing_of day xs st" "\<And>k it. bk_scrapedByKey b k = Some it \<Longrightarrow> it \<in> set xs"
  shows "existing_of day xs (existing_photo day b st it)"
proof (cases "bk_scrapedByKey b (photoItemKey it)")
  case (Some u)
  then have "u \<in> set xs" using assms(2) by blast
  with assms(1) Some show ?thesis
    by (cases st) (auto simp: existing_of_def existing_photo_def Let_def photoSlotKey_def split: if_splits)
qed (simp add: existing_photo_def assms(1))

lemma extract_existing:
  assumes "buckets_of day xs b"
  shows "existing_of day xs (extractExistingDeckState day b deck)"
  unfolding extractExistingDeckState_def
proof (induction deck rule: rev_induct)
  case Nil
  then show ?case by (simp add: existing_of_def)
next
  case (snoc it deck)
  then show ?case using existing_step [of day xs _ b it] assms by (auto simp: buckets_of_def)
qed

section \<open>Building the deck\<close>

lemma concat_product: "concat (map (\<lambda>d. concat (map (g d) as)) ds) = concat (map (\<lambda>(d, a). g d a) (List.product ds as))"
  by (induction ds) (simp_all add: o_def)

lemma map_concat_choices:
  assumes "\<And>p. p \<in> set ps \<Longrightarrow> g p = [] \<or> (\<exists>it. g p = [it] \<and> key it = p)"
  shows "map key (concat (map g ps)) = filter (\<lambda>p. g p \<noteq> []) ps"
  using assms
proof (induction ps)
  case (Cons p ps)
  then show ?case by (cases "g p = []") (use Cons in force)+
qed simp

lemma choose_photo_slot:
  assumes "buckets_of day xs b" "existing_of day xs (days, chosen)" "plain_days day xs" "good_draws r" "CHR 0x00 \<notin> set d"
  shows "(choose_photo r b chosen d a = [] \<longleftrightarrow> (d, a) \<notin> slot day ` set xs)
    \<and> (\<forall>it \<in> set (choose_photo r b chosen d a). it \<in> set xs \<and> choose_photo r b chosen d a = [it] \<and> slot day it = (d, a))"
proof (cases "bk_byDayAlbum b d a = []")
  case True
  then show ?thesis using assms(1) by (auto simp: buckets_of_def choose_photo_def filter_empty_conv)
next
  case False
  let ?cs = "bk_byDayAlbum b d a"
  have cs: "?cs = filter (\<lambda>it. slot day it = (d, a)) xs" using assms(1) by (simp add: buckets_of_def)
  have mem: "(d, a) \<in> slot day ` set xs" using False unfolding cs by (simp add: filter_empty_conv) (metis imageI)
  show ?thesis
  proof (cases "chosen (slot_key d a)")
    case None
    have "dr_Intn r (slot_key d a) (length ?cs) < length ?cs" using assms(4) False by (simp add: good_draws_def)
    then have "?cs ! dr_Intn r (slot_key d a) (length ?cs) \<in> set ?cs" by simp
    then have "?cs ! dr_Intn r (slot_key d a) (length ?cs) \<in> {it \<in> set xs. slot day it = (d, a)}" by (simp only: cs set_filter)
    then show ?thesis using False None mem by (simp add: choose_photo_def Let_def)
  next
    case (Some it)
    then have it: "it \<in> set xs" "photoSlotKey day it = slot_key d a" using assms(2) by (auto simp: existing_of_def)
    then have "slot day it = (d, a)"
      using slot_key_inj [of "photoDayKey day it" d "album_key it" a] assms(3,5) by (simp add: photoSlotKey_def slot_def plain_days_def)
    then show ?thesis using False Some it mem by (simp add: choose_photo_def Let_def)
  qed
qed

lemma reconcile_deck:
  assumes "plain_days day scraped" "good_draws r"
  shows "one_per_slot day scraped (pp_deck (reconcilePhotoDeck day r scraped p))"
proof -
  define b where "b = groupPhotosByDayAndAlbum day scraped"
  obtain days chosen where ex: "extractExistingDeckState day b (pp_deck p) = (days, chosen)"
    by (cases "extractExistingDeckState day b (pp_deck p)")
  have b: "buckets_of day scraped b" unfolding b_def by (rule group_buckets)
  have e: "existing_of day scraped (days, chosen)" using extract_existing [OF b, of "pp_deck p"] ex by simp
  define new0 where "new0 = filter (\<lambda>d. d \<notin> set days) (bk_dayOrder b)"
  define new where "new = (if length new0 > 1 then dr_Shuffle r new0 else new0)"
  have "mset new = mset new0" using assms(2) by (simp add: new_def good_draws_def)
  then have new: "set new = set new0" "distinct new = distinct new0" by (auto dest: mset_eq_setD mset_eq_imp_distinct_iff)
  have all: "distinct (days @ new)" "set (days @ new) = photoDayKey day ` set scraped"
    using b e new by (auto simp: new0_def buckets_of_def existing_of_def)
  let ?ps = "List.product (days @ new) (bk_albumOrder b)"
  let ?g = "\<lambda>(d, a). choose_photo r b chosen d a"
  let ?deck = "concat (map ?g ?ps)"
  have deck: "pp_deck (reconcilePhotoDeck day r scraped p) = ?deck"
    unfolding concat_product [symmetric] reconcilePhotoDeck_def Let_def b_def [symmetric] ex prod.case new_def new0_def by simp
  have plain: "CHR 0x00 \<notin> set d" if "(d, a) \<in> set ?ps" for d a
  proof -
    have "d \<in> set (days @ new)" using that by auto
    then show ?thesis unfolding all(2) using assms(1) by (auto simp: plain_days_def)
  qed
  have ch: "(choose_photo r b chosen d a = [] \<longleftrightarrow> (d, a) \<notin> slot day ` set scraped)
      \<and> (\<forall>it \<in> set (choose_photo r b chosen d a). it \<in> set scraped \<and> choose_photo r b chosen d a = [it] \<and> slot day it = (d, a))"
    if "(d, a) \<in> set ?ps" for d a using choose_photo_slot [OF b e assms(1,2) plain [OF that], of a] .
  have one: "?g q = [] \<or> (\<exists>it. ?g q = [it] \<and> slot day it = q)" if "q \<in> set ?ps" for q
  proof -
    obtain d a where q: "q = (d, a)" by (cases q)
    show ?thesis
    proof (cases "choose_photo r b chosen d a")
      case (Cons it its)
      then have "choose_photo r b chosen d a = [it] \<and> slot day it = (d, a)" using ch [of d a] that unfolding q by (metis list.set_intros(1))
      then show ?thesis by (simp add: q)
    qed (simp add: q)
  qed
  have keys: "map (slot day) ?deck = filter (\<lambda>q. ?g q \<noteq> []) ?ps" by (rule map_concat_choices [OF one])
  have "distinct (map (slot day) ?deck)"
    unfolding keys using all(1) b by (simp add: distinct_product buckets_of_def)
  moreover have "slot day ` set ?deck = slot day ` set scraped"
  proof -
    have "slot day ` set ?deck = {q \<in> set ?ps. ?g q \<noteq> []}" using arg_cong [OF keys, of set] by simp
    also have "\<dots> = {q \<in> set ?ps. q \<in> slot day ` set scraped}" using ch by auto
    also have "\<dots> = slot day ` set scraped" using all(2) b by (auto simp: buckets_of_def slot_def)
    finally show ?thesis .
  qed
  moreover have "set ?deck \<subseteq> set scraped"
  proof
    fix it assume "it \<in> set ?deck"
    then obtain d a where "(d, a) \<in> set ?ps" "it \<in> set (choose_photo r b chosen d a)" by auto
    then show "it \<in> set scraped" using ch by blast
  qed
  ultimately show ?thesis by (simp add: deck one_per_slot_def)
qed

lemma one_per_slot_length: "one_per_slot day scraped deck \<Longrightarrow> length deck = card (slot day ` set scraped)"
  unfolding one_per_slot_def by (metis distinct_card length_map list.set_map)

section \<open>Windows\<close>

lemma swap_ends_mset: "mset (swap_ends xs) = mset xs"
proof (cases xs)
  case (Cons x ys)
  then show ?thesis using mset_swap [of "length xs - 1" xs 0] unfolding swap_ends_def by simp
qed (simp add: swap_ends_def)

lemma one_per_slot_perm: "mset xs = mset ys \<Longrightarrow> one_per_slot day scraped xs = one_per_slot day scraped ys"
  unfolding one_per_slot_def by (metis mset_eq_imp_distinct_iff mset_eq_setD mset_map)

lemma slot_eq_iff:
  assumes "plain_days day scraped" "x \<in> set scraped" "y \<in> set scraped"
  shows "photoSlotKey day x = photoSlotKey day y \<longleftrightarrow> slot day x = slot day y"
proof
  assume "photoSlotKey day x = photoSlotKey day y"
  then show "slot day x = slot day y" using assms slot_key_inj [of "photoDayKey day x" "photoDayKey day y" "album_key x" "album_key y"]
    by (simp add: plain_days_def photoSlotKey_def slot_def)
qed (simp add: photoSlotKey_def slot_def)

text \<open>A tail of one deck and what another has for the other slots.\<close>

lemma one_per_slot_splice:
  assumes "one_per_slot day scraped deck" "one_per_slot day scraped deck2" "plain_days day scraped" "set tail \<subseteq> set deck" "distinct (map (slot day) tail)"
  shows "one_per_slot day scraped (tail @ filter (\<lambda>it. photoSlotKey day it \<notin> photoSlotKey day ` set tail) deck2)"
proof -
  have sub: "set tail \<subseteq> set scraped" "set deck2 \<subseteq> set scraped" using assms(1,2,4) by (auto simp: one_per_slot_def)
  have key: "photoSlotKey day it \<in> photoSlotKey day ` set tail \<longleftrightarrow> slot day it \<in> slot day ` set tail" if "it \<in> set deck2" for it
    using slot_eq_iff [OF assms(3)] sub that by (auto simp: image_iff) blast+
  then have f: "filter (\<lambda>it. photoSlotKey day it \<notin> photoSlotKey day ` set tail) deck2 = filter (\<lambda>it. slot day it \<notin> slot day ` set tail) deck2"
    by (intro filter_cong) auto
  have d2: "slot day ` set deck2 = slot day ` set scraped" "distinct (map (slot day) deck2)" using assms(2) by (simp_all add: one_per_slot_def)
  let ?rest = "filter (\<lambda>it. slot day it \<notin> slot day ` set tail) deck2"
  have "slot day ` set (tail @ ?rest) = slot day ` set tail \<union> slot day ` set deck2"
    by (simp only: set_append set_filter image_Un) blast
  also have "\<dots> = slot day ` set scraped" using d2(1) sub(1) by blast
  finally have "slot day ` set (tail @ ?rest) = slot day ` set scraped" .
  moreover have "distinct (map (slot day) (tail @ ?rest))" using assms(5) d2(2) by (auto simp: distinct_map_filter)
  ultimately show ?thesis unfolding f one_per_slot_def using sub by auto
qed

text \<open>
  C0: Dealing a window of photos, from any deck. The window holds one photo of each of as many days and albums as there are, up to the
  500 a display preloads: its photos are among those of the albums and no two of the same day and album, however days are shuffled and
  photos drawn. Afterwards the deck holds exactly one photo for each day of each album, and the place to go on from is within it.
\<close>

theorem photo_window:
  assumes "selectAlbumWindowLocked day r1 r2 scraped p = (window, p')" "1 < length scraped"
    and "plain_days day scraped" "good_draws r1" "good_draws r2"
  shows "set window \<subseteq> set scraped \<and> distinct (map (slot day) window)
    \<and> length window = min (card (slot day ` set scraped)) defaultPhotoPreloadCount
    \<and> one_per_slot day scraped (pp_deck p') \<and> 0 \<le> pp_deckCursor p' \<and> pp_deckCursor p' \<le> int (length (pp_deck p'))"
proof -
  define p1 where "p1 = reconcilePhotoDeck day r1 scraped p"
  define p2 where "p2 = (if pp_deckCursor p1 < 0 \<or> pp_deckCursor p1 \<ge> int (length (pp_deck p1)) then p1\<lparr>pp_deckCursor := 0\<rparr> else p1)"
  define deck where "deck = pp_deck p2"
  define cursor where "cursor = nat (pp_deckCursor p2)"
  define limit where "limit = min (length deck) defaultPhotoPreloadCount"
  define p3 where "p3 = reconcilePhotoDeck day r2 scraped (p2\<lparr>pp_deck := []\<rparr>)"
  define tail where "tail = drop cursor deck"
  have one: "one_per_slot day scraped deck" using reconcile_deck [OF assms(3,4), of p] by (simp add: deck_def p2_def p1_def)
  have one3: "one_per_slot day scraped (pp_deck p3)" unfolding p3_def by (rule reconcile_deck [OF assms(3,5)])
  have n: "length deck = card (slot day ` set scraped)" by (rule one_per_slot_length [OF one])
  have sub: "set deck \<subseteq> set scraped" "distinct (map (slot day) deck)" using one by (simp_all add: one_per_slot_def)
  have tail: "set tail \<subseteq> set deck" "distinct (map (slot day) tail)" "length tail = length deck - cursor"
    using sub by (simp_all add: tail_def set_drop_subset drop_map [symmetric] distinct_drop)
  note run = assms(1) [unfolded selectAlbumWindowLocked_def Let_def, folded p1_def, folded p2_def, folded deck_def cursor_def,
      folded limit_def p3_def tail_def]
  consider "limit \<ge> length deck" | "limit < length deck" "cursor + limit < length deck"
    | "limit < length deck" "cursor + limit = length deck" | "limit < length deck" "cursor + limit > length deck" by linarith
  then show ?thesis
  proof cases
    case 1
    then have "window = deck" "p' = p2\<lparr>pp_deckCursor := 0\<rparr>" using run assms(2) by simp_all
    then show ?thesis using one sub 1 n by (simp add: deck_def limit_def)
  next
    case 2
    then have w: "window = take limit (drop cursor deck)" "p' = p2\<lparr>pp_deckCursor := int (cursor + limit)\<rparr>"
      using run assms(2) by (simp_all add: tail_def)
    have "set window \<subseteq> set deck" unfolding w by (meson set_drop_subset set_take_subset subset_trans)
    moreover have "distinct (map (slot day) window)" using sub(2) unfolding w by (simp add: take_map [symmetric] drop_map [symmetric] distinct_drop)
    ultimately show ?thesis using one sub 2 n by (auto simp: w deck_def [symmetric] limit_def)
  next
    case 3
    define d3 where "d3 = (if length (pp_deck p3) > 1 \<and> photoItemKey (hd (pp_deck p3)) = photoItemKey (last tail)
      then swap_ends (pp_deck p3) else pp_deck p3)"
    have w: "window = tail" "p' = p3\<lparr>pp_deck := d3, pp_deckCursor := 0\<rparr>" using run assms(2) 3 by (auto simp: d3_def)
    have "one_per_slot day scraped d3" using one3 one_per_slot_perm [OF swap_ends_mset] by (simp add: d3_def)
    then show ?thesis using tail sub 3 n by (auto simp: w limit_def)
  next
    case 4
    define d4 where "d4 = tail @ filter (\<lambda>it. photoSlotKey day it \<notin> photoSlotKey day ` set tail) (pp_deck p3)"
    have w: "window = take limit d4" "p' = p3\<lparr>pp_deck := d4, pp_deckCursor := int limit\<rparr>" using run assms(2) 4 by (simp_all add: d4_def)
    have one4: "one_per_slot day scraped d4" unfolding d4_def by (rule one_per_slot_splice [OF one one3 assms(3) tail(1,2)])
    have n4: "length d4 = length deck" using one_per_slot_length [OF one4] n by simp
    have "set window \<subseteq> set d4" unfolding w by (rule set_take_subset)
    moreover have "distinct (map (slot day) window)" using one4 unfolding w by (simp add: take_map [symmetric] one_per_slot_def)
    ultimately show ?thesis using one4 n n4 4 by (auto simp: w one_per_slot_def limit_def)
  qed
qed

definition first_draws :: draws where
  "first_draws = \<lparr>dr_Shuffle = id, dr_Intn = (\<lambda>_ _. 0)\<rparr>"

definition snapshot_of :: "string \<Rightarrow> string \<Rightarrow> PhotoItem" where
  "snapshot_of i ts = \<lparr>ph_ID = i, ph_URL = [], ph_Timestamp = ts, ph_AspectRatio = 0, ph_AlbumName = ''A'', ph_Location = [], ph_DominantColor = [],
     ph_LocationChecked = False\<rparr>"

definition no_photos :: PhotosProvider where
  "no_photos = \<lparr>pp_albums = [], pp_wasWarmBoot = False, pp_cachedSnapshot = None, pp_deck = [], pp_deckCursor = 0, pp_page1Interval = 0,
     pp_fullSyncInterval = 0\<rparr>"

definition three_photos :: "PhotoItem list" where
  "three_photos = [snapshot_of ''1'' ''mon'', snapshot_of ''2'' ''mon'', snapshot_of ''3'' ''tue'']"

theorem photo_window_witness:
  "length (fst (selectAlbumWindowLocked Some first_draws first_draws three_photos no_photos)) = 2"
proof -
  obtain window p' where run: "selectAlbumWindowLocked Some first_draws first_draws three_photos no_photos = (window, p')"
    by (cases "selectAlbumWindowLocked Some first_draws first_draws three_photos no_photos")
  have "plain_days Some three_photos" by code_simp
  moreover have "good_draws first_draws" by (simp add: good_draws_def first_draws_def)
  moreover have "1 < length three_photos" by (simp add: three_photos_def)
  moreover have "slot Some ` set three_photos = set [(''mon'', ''A''), (''tue'', ''A'')]" by code_simp
  then have "card (slot Some ` set three_photos) = 2" by simp
  ultimately show ?thesis using photo_window [OF run] run by (simp add: defaultPhotoPreloadCount_def)
qed

section \<open>Synchronizing\<close>

abbreviation keys :: "PhotoItem list \<Rightarrow> string list" where
  "keys ps \<equiv> map photoDedupeKey ps"

lemma keep_first_keys: "set (keys (keep_first seen ps)) \<union> (seen - {[]}) \<supseteq> set (keys ps)
    \<and> set (keep_first seen ps) \<subseteq> set ps"
  by (induction seen ps rule: keep_first.induct) (auto simp: Let_def)

lemma keep_first_distinct:
  "distinct (filter (\<lambda>k. k \<noteq> []) (keys (keep_first seen ps))) \<and> (\<forall>p \<in> set (keep_first seen ps). photoDedupeKey p \<in> seen \<longrightarrow> photoDedupeKey p = [])"
proof (induction ps arbitrary: seen)
  case (Cons it items)
  let ?k = "photoDedupeKey it"
  consider "?k = []" | "?k \<noteq> []" "?k \<in> seen" | "?k \<noteq> []" "?k \<notin> seen" by blast
  then show ?case
  proof cases
    case 3
    have "?k \<notin> set (keys (keep_first (insert ?k seen) items))" using Cons [of "insert ?k seen"] 3(1) by auto
    then show ?thesis using Cons [of "insert ?k seen"] 3 by (simp add: Let_def)
  qed (use Cons [of seen] in \<open>simp_all add: Let_def\<close>)
qed simp

lemma carry_keys [simp]: "photoDedupeKey (carry_photo m it) = photoDedupeKey it"
  by (simp add: carry_photo_def photoDedupeKey_def Let_def split: option.split)

lemma locate_keys [simp]: "photoDedupeKey (locate_photo l c it) = photoDedupeKey it"
  by (simp add: locate_photo_def photoDedupeKey_def Let_def)

lemma locate_fold:
  "length (foldl (\<lambda>ps i. ps[i := locate_photo l c (ps ! i)]) ps is) = length ps
    \<and> keys (foldl (\<lambda>ps i. ps[i := locate_photo l c (ps ! i)]) ps is) = keys ps
    \<and> (\<forall>j. j \<notin> set is \<longrightarrow> foldl (\<lambda>ps i. ps[i := locate_photo l c (ps ! i)]) ps is ! j = ps ! j)"
proof (induction "is" arbitrary: ps)
  case (Cons i "is")
  have "keys (ps[i := locate_photo l c (ps ! i)]) = keys ps"
    by (cases "i < length ps") (simp_all add: map_update list_update_same_conv list_update_beyond)
  then show ?case using Cons [of "ps[i := locate_photo l c (ps ! i)]"] by simp
qed simp

lemma enrich_batches_keeps:
  "length (enrich_batches locate pending ps) = length ps \<and> keys (enrich_batches locate pending ps) = keys ps
    \<and> (\<forall>j. j \<notin> set pending \<longrightarrow> enrich_batches locate pending ps ! j = ps ! j)"
proof (induction locate pending ps rule: enrich_batches.induct)
  case (1 locate pending ps)
  show ?case
  proof (cases "pending = []")
    case False
    let ?b = "take fDcn4bBatchSize pending"
    show ?thesis
    proof (cases "locate (map (\<lambda>i. ph_ID (ps ! i)) ?b)")
      case (Inl e)
      then show ?thesis using False by (simp add: enrich_batches.simps [of locate pending ps] Let_def)
    next
      case (Inr lc)
      obtain l c where lc: "lc = (l, c)" by (cases lc)
      let ?ps = "foldl (\<lambda>ps i. ps[i := locate_photo l c (ps ! i)]) ps ?b"
      have run: "enrich_batches locate pending ps = enrich_batches locate (drop fDcn4bBatchSize pending) ?ps"
        using False Inr lc by (simp add: enrich_batches.simps [of locate pending ps] Let_def)
      have ih: "length (enrich_batches locate (drop fDcn4bBatchSize pending) ?ps) = length ?ps
          \<and> keys (enrich_batches locate (drop fDcn4bBatchSize pending) ?ps) = keys ?ps
          \<and> (\<forall>j. j \<notin> set (drop fDcn4bBatchSize pending) \<longrightarrow> enrich_batches locate (drop fDcn4bBatchSize pending) ?ps ! j = ?ps ! j)"
        by (rule "1.IH" [OF False refl Inr lc [symmetric]])
      have "j \<notin> set ?b \<and> j \<notin> set (drop fDcn4bBatchSize pending)" if "j \<notin> set pending" for j
        using that by (meson in_set_dropD in_set_takeD)
      then show ?thesis unfolding run using ih locate_fold [of l c ps ?b] by simp
    qed
  qed (simp add: enrich_batches.simps)
qed

lemma enrich_keeps:
  "keys (enrichPhotoLocations locate auth ps) = keys ps
    \<and> (\<forall>i < length ps. ph_Location (ps ! i) \<noteq> [] \<longrightarrow> enrichPhotoLocations locate auth ps ! i = ps ! i)"
  using enrich_batches_keeps by (simp add: enrichPhotoLocations_def Let_def)

lemma last_by_key:
  assumes "distinct (keys existing)" "ex \<in> set existing"
  shows "foldl (\<lambda>m ex. m(photoDedupeKey ex \<mapsto> ex)) m existing (photoDedupeKey ex) = Some ex"
  using assms
proof (induction existing arbitrary: m)
  case (Cons e es)
  have other: "foldl (\<lambda>m ex. m(photoDedupeKey ex \<mapsto> ex)) m es k = m k" if "k \<notin> set (keys es)" for k and m :: "string \<Rightarrow> PhotoItem option"
    using that by (induction es arbitrary: m) auto
  show ?case
  proof (cases "ex = e")
    case True
    have "photoDedupeKey e \<notin> set (keys es)" using Cons.prems(1) by simp
    from other [OF this, of "m(photoDedupeKey e \<mapsto> e)"] True show ?thesis by (simp del: fun_upd_apply) simp
  next
    case False
    then show ?thesis using Cons.IH [of "m(photoDedupeKey e \<mapsto> e)"] Cons.prems by simp
  qed
qed simp

text \<open>Known locations survive.\<close>

lemma locations_kept:
  assumes "distinct (keys existing)" "ps' = enrichPhotoLocations locate auth (carryCachedPhotoMetadata ps existing)"
    "it \<in> set ps'" "ex \<in> set existing" "photoDedupeKey it = photoDedupeKey ex" "ph_Location ex \<noteq> []"
  shows "ph_Location it \<noteq> []"
proof -
  let ?m = "foldl (\<lambda>m ex. m(photoDedupeKey ex \<mapsto> ex)) Map.empty existing"
  let ?qs = "carryCachedPhotoMetadata ps existing"
  have qs: "?qs = map (carry_photo ?m) ps" by (simp add: carryCachedPhotoMetadata_def Let_def)
  have keys: "keys ps' = keys ps" using enrich_keeps [of locate auth ?qs] assms(2) by (simp add: qs)
  from assms(3) obtain i where i: "i < length ps'" "it = ps' ! i" by (auto simp: in_set_conv_nth)
  have len: "length ps' = length ps" using arg_cong [OF keys, of length] by simp
  have "photoDedupeKey (ps ! i) = photoDedupeKey ex" using arg_cong [OF keys, of "\<lambda>ks. ks ! i"] i len assms(5) by simp
  then have "?m (photoDedupeKey (ps ! i)) = Some ex" using last_by_key [OF assms(1,4)] by simp
  then have "ph_Location (?qs ! i) \<noteq> []" using i len assms(6) by (simp add: qs carry_photo_def)
  moreover have "ph_Location (?qs ! i) \<noteq> [] \<longrightarrow> ps' ! i = ?qs ! i" using enrich_keeps [of locate auth ?qs] assms(2) i len by (simp add: qs)
  ultimately show ?thesis using i by simp
qed

text \<open>
  C0: Synchronizing an album. When its first page cannot be read, an album that has photos keeps them, and one that never had any reports the
  error. Otherwise the album ends with the photos of the page, no two with the same key; in an incremental synchronization every photo it had
  is still there; and a photo whose location was known before has a location, whatever the service answers.
\<close>

theorem photo_sync:
  assumes "syncAlbum scrape now full a = (err, a')" "distinct (keys (al_photos a))"
  shows "case scrape of
      Inl e \<Rightarrow> a' = a \<and> (err = None \<longleftrightarrow> al_hydrated a)
    | Inr pg \<Rightarrow> err = None \<and> al_hydrated a' \<and> al_lastPage1Sync a' = Some now
        \<and> distinct (filter (\<lambda>k. k \<noteq> []) (keys (al_photos a'))) \<and> set (keys (p1_photos pg)) \<subseteq> set (keys (al_photos a'))
        \<and> (\<not> full \<and> al_hydrated a \<and> al_lastFullSync a \<noteq> None \<longrightarrow> set (keys (al_photos a)) \<subseteq> set (keys (al_photos a')))
        \<and> (\<forall>it \<in> set (al_photos a'). \<forall>ex \<in> set (al_photos a).
            photoDedupeKey it = photoDedupeKey ex \<and> ph_Location ex \<noteq> [] \<longrightarrow> ph_Location it \<noteq> [])"
proof (cases scrape)
  case (Inl e)
  then show ?thesis using assms(1) by (auto simp: syncAlbum_def split: if_splits)
next
  case (Inr pg)
  have album: "photoDedupeKey (it\<lparr>ph_AlbumName := n\<rparr>) = photoDedupeKey it" for it n by (simp add: photoDedupeKey_def Let_def)
  define isFull where "isFull \<longleftrightarrow> full \<or> \<not> al_hydrated a \<or> al_lastFullSync a = None"
  from assms(1) Inr obtain ps name rest where
    run: "err = None" "al_hydrated a'" "al_lastPage1Sync a' = Some now"
      "al_photos a' = enrichPhotoLocations (p1_locate pg) (p1_authKey pg) (carryCachedPhotoMetadata ps (al_photos a))"
    and ps: "ps = keep_first {} (map (\<lambda>it. it\<lparr>ph_AlbumName := name\<rparr>) (p1_photos pg) @ rest)" "\<not> isFull \<longrightarrow> rest = al_photos a"
    by (auto simp: syncAlbum_def syncAlbumFull_def syncAlbumDelta_def deduplicatePhotoSlice_def isFull_def Let_def split: prod.splits if_splits)
  have keys: "keys (al_photos a') = keys ps"
    using enrich_keeps [of "p1_locate pg" "p1_authKey pg" "carryCachedPhotoMetadata ps (al_photos a)"] run(4)
    by (simp add: carryCachedPhotoMetadata_def Let_def)
  have "set (keys ps) \<supseteq> set (keys (p1_photos pg)) \<union> set (keys rest)"
    using keep_first_keys [where seen = "{}" and ps = "map (\<lambda>it. it\<lparr>ph_AlbumName := name\<rparr>) (p1_photos pg) @ rest"] by (simp add: ps(1) album o_def image_image)
  moreover have "distinct (filter (\<lambda>k. k \<noteq> []) (keys ps))" using keep_first_distinct ps(1) by blast
  ultimately show ?thesis using run(1-3) keys ps(2) locations_kept [OF assms(2) run(4)]
    by (auto simp: Inr isFull_def)
qed

theorem photo_sync_witness:
  "al_photos (snd (syncAlbum (Inl ''timeout'') 5 True
     \<lparr>al_cfg = \<lparr>as_Name = ''A'', as_Source = ''share_url'', as_ResolvedURL = ''u''\<rparr>, al_scrapedTitle = [], al_photos = three_photos, al_lastPage1Sync = None,
      al_lastFullSync = None, al_paginated = False, al_hydrated = True\<rparr>)) = three_photos"
  (is "al_photos (snd (syncAlbum _ _ _ ?a)) = _")
proof -
  obtain err a' where run: "syncAlbum (Inl ''timeout'') 5 True ?a = (err, a')" by (cases "syncAlbum (Inl ''timeout'') 5 True ?a")
  have "distinct (keys (al_photos ?a))" by code_simp
  from photo_sync [OF run this] run show ?thesis by simp
qed

end
