(* ===== verification/Spec2Isabelle.thy ===== *)
theory Spec2Isabelle
  imports Config_Manager_Props Event_Sse Event_Hydration Handler_Props Chatlog_Props Push_Handler
    Voice_Turn_Props Render_Props Asset_Reloader_Props Layout_Editor_Props Cast_Wire_Props Photos_Props
begin

text \<open>
  Mirrormere is a server, written in Go, for a wall display. It reads a YAML configuration that names widgets, lays the
  widgets out on screens of a fixed grid, rotates the screens, fetches data for the widgets, and pushes what happens to
  browsers over a server-sent event stream. This development models its core, under \<^verbatim>\<open>src/internal\<close> but for the reloader and
  the cast frames, and proves it correct. Definitions keep the names of the code; record fields carry a short prefix.

  \<^bold>\<open>How the parts interact.\<close> The manager of \<^verbatim>\<open>config/lkgc.go\<close> runs a document through six stages, the last of which is the
  layout solver of \<^verbatim>\<open>layout/solver.go\<close>, applies a layout override from disk, and keeps the result as the current snapshot.
  A change goes through \<^verbatim>\<open>events/dispatcher.go\<close> to the hub of \<^verbatim>\<open>events/hub.go\<close>, which stamps events, keeps them in a ring
  for replay and hands them to subscribers. The rotation, audio, voice and video coordinators keep the state of the display,
  publish through the hub and are driven by requests and timers. A new client is hydrated from the state provider of
  \<^verbatim>\<open>events/hydration.go\<close>; a returning one is replayed what it missed. The coordinator of \<^verbatim>\<open>provider/coordinator.go\<close> runs a worker
  for each widget of the snapshot, whose results go to the cache of \<^verbatim>\<open>provider/cache.go\<close>, the state provider and the hub. The hub
  of \<^verbatim>\<open>voice/hub.go\<close> takes a recording through recogniser, assistant and synthesiser, sets the voice state on its way and keeps the
  conversation in the store of \<^verbatim>\<open>chatlog/store.go\<close>. The engine of \<^verbatim>\<open>render/engine.go\<close> gives a widget's template its settings, place
  and data; the reloader of \<^verbatim>\<open>cmd/server/reloader.go\<close> drops compiled templates when packages change and keeps the package errors in
  the manager's status.

  \<^bold>\<open>Shared theories.\<close>
  \<^item> \<^verbatim>\<open>Prelude\<close>: results as sums (\<^verbatim>\<open>res_bind\<close>), loops that stop at an error (\<^verbatim>\<open>each\<close>), Go's integers, strings, sorting
    and trimming, and lemmas on lists, options, maps and words.
  \<^item> \<^verbatim>\<open>Any_Value\<close>: Go's \<^verbatim>\<open>any\<close> values as decoded YAML, floats included, with \<^verbatim>\<open>reflect.DeepEqual\<close>.
  \<^item> \<^verbatim>\<open>Json_Codec\<close>: decoding of JSON values into structures, and the codec of dimensions.
  \<^item> \<^verbatim>\<open>Clock\<close>: the RFC 3339 text of an instant.
  \<^item> \<^verbatim>\<open>Outlet\<close>: what the audio, voice and video coordinators share, a change under the lock that is published after it, as a
    locale interpreted on each of them.

  \<^bold>\<open>Layout\<close> (\<^verbatim>\<open>layout/solver.go\<close>, \<^verbatim>\<open>domain/dimension.go\<close>).
  \<^item> \<^verbatim>\<open>Domain\<close>, \<^verbatim>\<open>Grid\<close>: dimensions, and screens as bit masks in 32-bit words with the set of cells they stand for.
  \<^item> \<^verbatim>\<open>Layout_Model\<close>: the whole solver: validation, grouping by shape, the backtracking placement of pinned widgets, the
    exact cover of the others with its budget of search nodes, and the assembly of screens.
  \<^item> \<^verbatim>\<open>Layout_Tiles\<close>, \<^verbatim>\<open>Layout_Search\<close>, \<^verbatim>\<open>Layout_Pinned\<close>, \<^verbatim>\<open>Layout_Sound\<close>: a returned layout tiles every screen, shows every
    widget where it should and the search always reaches a verdict.
  \<^item> \<^verbatim>\<open>Layout_Explicit\<close>, \<^verbatim>\<open>Layout_Accept\<close>: layouts with given positions, filled up with spacers; when they are accepted.

  \<^bold>\<open>Configuration\<close> (\<^verbatim>\<open>config/config.go\<close>, \<^verbatim>\<open>lkgc.go\<close>, \<^verbatim>\<open>override.go\<close>, \<^verbatim>\<open>domain/manifest.go\<close>).
  \<^item> \<^verbatim>\<open>Manifest\<close>: package manifests; validity is characterised exactly, the search of schemas for default values included.
  \<^item> \<^verbatim>\<open>Config_Model\<close>, \<^verbatim>\<open>Config_Defaults\<close>: the records, getters and defaults. \<^verbatim>\<open>Config_Diff\<close>: a diff accounts for every widget.
  \<^item> \<^verbatim>\<open>Config_Yaml\<close>, \<^verbatim>\<open>Config_Validate\<close>, \<^verbatim>\<open>Config_Env\<close>, \<^verbatim>\<open>Config_Pipeline\<close>: the six stages. \<^verbatim>\<open>Config_Pipeline_Props\<close>: what an
    accepted document is known to satisfy.
  \<^item> \<^verbatim>\<open>Config_Override\<close>, \<^verbatim>\<open>Config_Override_Props\<close>: layout overrides and where they put widgets. \<^verbatim>\<open>Override_File\<close>: the file on
    disk, saved step by step, each of which may fail.
  \<^item> \<^verbatim>\<open>Config_Manager\<close>, \<^verbatim>\<open>Config_Manager_Props\<close>: the manager, its reachable states, the last known good configuration, and that
    overrides survive a restart.

  \<^bold>\<open>Events\<close> (\<^verbatim>\<open>events/\<close>).
  \<^item> \<^verbatim>\<open>Event_Model\<close>, \<^verbatim>\<open>Event_Sse\<close>: events, identifiers and their text; a reader of the stream grammar gets them back.
  \<^item> \<^verbatim>\<open>Event_Ring\<close>: the ring buffer refines a log of the newest events.
  \<^item> \<^verbatim>\<open>Event_State\<close>, \<^verbatim>\<open>Event_Hydration\<close>: the state provider and the batch a new client gets.
  \<^item> \<^verbatim>\<open>Event_Hub\<close>, \<^verbatim>\<open>Event_Hub_Props\<close>: subscriptions and publication; channels are bounded queues. Reachable hubs keep the
    invariant, and a reconnecting client misses nothing and sees nothing twice.

  \<^bold>\<open>Display state.\<close>
  \<^item> \<^verbatim>\<open>Rotation\<close>, \<^verbatim>\<open>Rotation_Props\<close> (\<^verbatim>\<open>rotation/\<close>): screens, pauses and timers with generations; stale timers do nothing, every
    screen is shown, pauses end.
  \<^item> \<^verbatim>\<open>Audio\<close>, \<^verbatim>\<open>Voice_Coordinator\<close>, \<^verbatim>\<open>Video\<close>, \<^verbatim>\<open>Video_Props\<close>, \<^verbatim>\<open>Video_Publish\<close>: the coordinators, their invariants, what clients
    see of them, and the races between a critical section and what follows it.
  \<^item> \<^verbatim>\<open>Handlers\<close>, \<^verbatim>\<open>Handler_Props\<close> (\<^verbatim>\<open>server/audio.go\<close>, \<^verbatim>\<open>video.go\<close>, \<^verbatim>\<open>voice.go\<close>, \<^verbatim>\<open>rotation/handler.go\<close>): requests as functions
    to a response and a new state; an error response changes nothing.

  \<^item> \<^verbatim>\<open>Layout_Editor\<close>, \<^verbatim>\<open>Layout_Editor_Props\<close> (\<^verbatim>\<open>server/layout_editor.go\<close>): editing the layout through the manager; an edit changes
    nothing or takes effect in the manager, the stream and the response alike.

  \<^bold>\<open>Clients.\<close> \<^verbatim>\<open>Cast_Wire\<close>, \<^verbatim>\<open>Cast_Wire_Props\<close> (\<^verbatim>\<open>client/cast-watcher/wire.go\<close>): the frames of a casting device, with 64-bit words
    as variable-length integers; a frame is read back as the message it was made from.

  \<^bold>\<open>Stores.\<close>
  \<^item> \<^verbatim>\<open>Chatlog\<close>, \<^verbatim>\<open>Chatlog_Props\<close>: the message store; pruning cannot be observed and reads show exactly the live messages.
  \<^item> \<^verbatim>\<open>Provider_Cache\<close>: the stale-while-revalidate cache refines a record of the last good data of each widget.

  \<^bold>\<open>Providers\<close> (\<^verbatim>\<open>provider/coordinator.go\<close>, \<^verbatim>\<open>header_poller.go\<close>).
  \<^item> \<^verbatim>\<open>Provider_Coordinator\<close>: workers in a store, shared between the coordinator and the goroutines that fetch; reloads, pushes,
    fetches that return and shutdown. A goroutine's effect is an operation on the coordinator.
  \<^item> \<^verbatim>\<open>Provider_Coordinator_Props\<close>, \<^verbatim>\<open>Provider_Reload\<close>: the reachable states, with the running workers exactly the registered ones and
    the sink in step with the cache; what a reload keeps, that a stopped worker is never heard of again, and when a push counts.
    \<^verbatim>\<open>Push_Handler\<close>: the push request, which succeeds exactly when the push does.
  \<^item> \<^verbatim>\<open>Photos\<close>, \<^verbatim>\<open>Photos_Props\<close> (\<^verbatim>\<open>provider/photos.go\<close>, \<^verbatim>\<open>photos_cache.go\<close>): albums synchronized from given pages, and the deck of photos;
    a window never shows two photos of the same day and album, and a synchronization loses neither photos nor locations it should keep.

  \<^bold>\<open>Voice turns\<close> (\<^verbatim>\<open>voice/hub.go\<close>, \<^verbatim>\<open>hub_turn.go\<close>, \<^verbatim>\<open>fastpath.go\<close>).
  \<^item> \<^verbatim>\<open>Voice_Stream\<close>, \<^verbatim>\<open>Voice_Stream_Props\<close>: base64, the chunks of a reply's audio and the assistant's event stream.
  \<^item> \<^verbatim>\<open>Voice_Wav\<close>, \<^verbatim>\<open>Voice_Wav_Props\<close>: the walk over the chunks of a WAV file; a reply plays exactly its samples.
  \<^item> \<^verbatim>\<open>Voice_Turn\<close>, \<^verbatim>\<open>Voice_Turn_Props\<close>: the whole turn, streamed or not, with the fast path; how it can end, what the client has been
    sent by then, and that the hub is free again.

  \<^bold>\<open>Rendering and assets\<close> (\<^verbatim>\<open>render/context.go\<close>, \<^verbatim>\<open>engine.go\<close>, \<^verbatim>\<open>cmd/server/reloader.go\<close>).
  \<^item> \<^verbatim>\<open>Render_Engine\<close>, \<^verbatim>\<open>Render_Props\<close>: the context of a template and the cache of compiled ones; no path under a sensitive key reaches
    a template, and every other path does.
  \<^item> \<^verbatim>\<open>Asset_Reloader\<close>, \<^verbatim>\<open>Asset_Reloader_Props\<close>: the passes over stylesheet, web assets and packages; after a pass the reloader, the
    compiled templates and the disk agree, and clients are told exactly when something changed.

  \<^bold>\<open>State, errors, bounds.\<close> An operation takes the state and returns it updated; a mutex makes an operation one step, and
  where the code leaves its critical section in the middle, the parts are separate definitions so that interleavings can be
  stated. Errors are values of datatypes. Go's \<^verbatim>\<open>int\<close> is unbounded where the configuration bounds it; masks are \<^verbatim>\<open>32 word\<close>.
  The search of the solver takes its fuel from the number of widgets left to place and the spacer loop from the cells of the
  grid, and termination theorems show that neither runs out. Times are integers of nanoseconds and readings of the clock are arguments.

  \<^bold>\<open>Parameters.\<close> The YAML and JSON libraries, the JSON schema validator, the zone database, the URL parser, the environment, the
  package loader and the file system are arguments, with what is relied on as hypotheses. So are the services of a voice turn (what
  they call back and return), the results of providers, the pages of photo albums, random draws, the template language and the hashes of
  files.

  \<^bold>\<open>Not modelled.\<close> Floating-point computations: the back-off of fetches, the matching of speakers, the positions of the family
  calendar and the sun. The template helpers and HTML, the exchanges with outside services and the decoding of their formats, image
  processing, websocket sessions, timeouts of inactive connections, the values of metrics, a tick of the thinking heartbeat sent after
  the heartbeat was stopped, the display hardware, the route table and start-up, the separate client programs and the build script.
\<close>

end
